(* ===== verification/Prelude.thy ===== *)
theory Prelude
  imports Main "HOL-Library.Word"
begin

text \<open>
  Shared vocabulary of the development: Rust's \<^verbatim>\<open>Result\<close> and \<^verbatim>\<open>Option\<close> combinators, the
  parts of Rust's \<^verbatim>\<open>str\<close> API that the sources use, decimal printing and parsing of
  unsigned integers, and the locale of keyed stores that the registries of the program
  instantiate.

  A Rust \<^verbatim>\<open>String\<close> is its sequence of UTF-8 bytes, so it is modelled by a HOL
  \<^typ>\<open>string\<close> whose characters are those bytes. A letter outside ASCII is therefore a
  run of two or more characters; the abbreviations below name the ones that occur in
  the program's messages.
\<close>

named_theorems rust_simps \<open>unfolding of the Rust combinators and string helpers\<close>
named_theorems codec_simps \<open>round trips of printers and parsers\<close>

subsection \<open>Result and Option\<close>

type_synonym ('a, 'e) result = "'e + 'a"

abbreviation Ok :: "'a \<Rightarrow> ('a, 'e) result" where "Ok \<equiv> Inr"
abbreviation Err :: "'e \<Rightarrow> ('a, 'e) result" where "Err \<equiv> Inl"

fun is_ok :: "('a, 'e) result \<Rightarrow> bool" where
  "is_ok (Inr _) = True"
| "is_ok (Inl _) = False"

fun ok_opt :: "('a, 'e) result \<Rightarrow> 'a option" where
  "ok_opt (Inr x) = Some x"
| "ok_opt (Inl _) = None"

fun map_err :: "('e \<Rightarrow> 'f) \<Rightarrow> ('a, 'e) result \<Rightarrow> ('a, 'f) result" where
  "map_err f (Inl e) = Inl (f e)"
| "map_err f (Inr x) = Inr x"

fun and_then :: "('a, 'e) result \<Rightarrow> ('a \<Rightarrow> ('b, 'e) result) \<Rightarrow> ('b, 'e) result" where
  "and_then (Inl e) f = Inl e"
| "and_then (Inr x) f = f x"

fun unwrap_or :: "'a \<Rightarrow> 'a option \<Rightarrow> 'a" where
  "unwrap_or d None = d"
| "unwrap_or d (Some x) = x"

fun or_else :: "'a option \<Rightarrow> 'a option \<Rightarrow> 'a option" where
  "or_else None y = y"
| "or_else (Some x) y = Some x"

fun opt_filter :: "('a \<Rightarrow> bool) \<Rightarrow> 'a option \<Rightarrow> 'a option" where
  "opt_filter P None = None"
| "opt_filter P (Some x) = (if P x then Some x else None)"

fun ok_or :: "'e \<Rightarrow> 'a option \<Rightarrow> ('a, 'e) result" where
  "ok_or e None = Inl e"
| "ok_or e (Some x) = Inr x"

lemma is_ok_iff: "is_ok r \<longleftrightarrow> (\<exists>x. r = Inr x)"
  by (cases r) auto

lemma and_then_Ok_iff: "and_then r f = Ok y \<longleftrightarrow> (\<exists>x. r = Ok x \<and> f x = Ok y)"
  by (cases r) auto

lemma map_err_Ok: "map_err f r = Ok y \<longleftrightarrow> r = Ok y"
  by (cases r) auto

lemma ok_or_Ok: "ok_or e x = Ok y \<longleftrightarrow> x = Some y"
  by (cases x) auto

lemma unwrap_or_eq_iff: "unwrap_or d v = x \<longleftrightarrow> v = Some x \<or> v = None \<and> d = x"
  by (cases v) auto

subsection \<open>Letters outside ASCII, as UTF-8\<close>

abbreviation u_aacute :: string where "u_aacute \<equiv> [CHR 0xC3, CHR 0xA1]"
abbreviation u_agrave :: string where "u_agrave \<equiv> [CHR 0xC3, CHR 0xA0]"
abbreviation u_acirc :: string where "u_acirc \<equiv> [CHR 0xC3, CHR 0xA2]"
abbreviation u_atilde :: string where "u_atilde \<equiv> [CHR 0xC3, CHR 0xA3]"
abbreviation u_ccedil :: string where "u_ccedil \<equiv> [CHR 0xC3, CHR 0xA7]"
abbreviation u_eacute :: string where "u_eacute \<equiv> [CHR 0xC3, CHR 0xA9]"
abbreviation u_ecirc :: string where "u_ecirc \<equiv> [CHR 0xC3, CHR 0xAA]"
abbreviation u_iacute :: string where "u_iacute \<equiv> [CHR 0xC3, CHR 0xAD]"
abbreviation u_oacute :: string where "u_oacute \<equiv> [CHR 0xC3, CHR 0xB3]"
abbreviation u_otilde :: string where "u_otilde \<equiv> [CHR 0xC3, CHR 0xB5]"
abbreviation u_uacute :: string where "u_uacute \<equiv> [CHR 0xC3, CHR 0xBA]"
abbreviation u_Aacute :: string where "u_Aacute \<equiv> [CHR 0xC3, CHR 0x81]"
abbreviation u_Eacute :: string where "u_Eacute \<equiv> [CHR 0xC3, CHR 0x89]"

subsection \<open>Prefixes, substrings and replacement\<close>

definition starts_with :: "string \<Rightarrow> string \<Rightarrow> bool" where
  "starts_with s p \<longleftrightarrow> take (length p) s = p"

definition strip_prefix :: "string \<Rightarrow> string \<Rightarrow> string option" where
  "strip_prefix s p = (if starts_with s p then Some (drop (length p) s) else None)"

fun contains :: "string \<Rightarrow> string \<Rightarrow> bool" where
  "contains [] p = (p = [])"
| "contains (c # s) p = (starts_with (c # s) p \<or> contains s p)"

text \<open>
  \<^verbatim>\<open>str::replace\<close>, left to right and without overlaps. Every call of the program passes
  a non-empty literal as the pattern, so the case of an empty pattern is not modelled.
\<close>

function replace :: "string \<Rightarrow> string \<Rightarrow> string \<Rightarrow> string" where
  "replace s pat to =
     (if s = [] \<or> pat = [] then s
      else if starts_with s pat then to @ replace (drop (length pat) s) pat to
      else hd s # replace (tl s) pat to)"
  by pat_completeness auto
termination
  by (relation "measure (\<lambda>(s, pat, to). length s)") auto

declare replace.simps [simp del]

lemma replace_Nil [simp]: "replace [] pat to = []"
  by (simp add: replace.simps)

lemma starts_with_Nil [simp]: "starts_with s []"
  by (simp add: starts_with_def)

lemma starts_with_Nil_left [simp]: "starts_with [] p \<longleftrightarrow> p = []"
  by (auto simp: starts_with_def)

lemma starts_with_Cons [simp]:
  "starts_with (c # s) (d # p) \<longleftrightarrow> c = d \<and> starts_with s p"
  by (auto simp: starts_with_def)

lemma starts_with_append [simp]: "starts_with (p @ s) p"
  by (simp add: starts_with_def)

lemma starts_with_iff: "starts_with s p \<longleftrightarrow> (\<exists>t. s = p @ t)"
  unfolding starts_with_def by (metis append_eq_conv_conj append_take_drop_id)

lemma starts_with_prefix:
  assumes "starts_with s p" shows "starts_with (s @ t) p"
  using assms by (auto simp: starts_with_iff)

lemma replace_one: "replace s [q] r = concat (map (\<lambda>c. if c = q then r else [c]) s)"
proof (induction s)
  case (Cons c s)
  then show ?case by (subst replace.simps) auto
qed simp

lemma strip_prefix_append [simp]: "strip_prefix (p @ s) p = Some s"
  by (simp add: strip_prefix_def)

lemma strip_prefix_Some: "strip_prefix s p = Some t \<longleftrightarrow> s = p @ t"
  by (auto simp: strip_prefix_def starts_with_iff)

lemma contains_iff: "contains s p \<longleftrightarrow> (\<exists>u v. s = u @ p @ v)"
proof (induction s)
  case Nil
  show ?case by auto
next
  case (Cons c s)
  show ?case
  proof
    assume "contains (c # s) p"
    then show "\<exists>u v. c # s = u @ p @ v"
    proof (cases "starts_with (c # s) p")
      case True
      then obtain t where "c # s = p @ t" by (auto simp: starts_with_iff)
      then show ?thesis by (intro exI [of _ "[]"] exI [of _ t]) simp
    next
      case False
      with \<open>contains (c # s) p\<close> Cons.IH obtain u v where "s = u @ p @ v" by auto
      then show ?thesis by (intro exI [of _ "c # u"] exI [of _ v]) simp
    qed
  next
    assume "\<exists>u v. c # s = u @ p @ v"
    then obtain u v where uv: "c # s = u @ p @ v" by blast
    then show "contains (c # s) p"
    proof (cases u)
      case Nil
      with uv have "starts_with (c # s) p" by (auto simp: starts_with_iff)
      then show ?thesis by simp
    next
      case (Cons d u')
      with uv have "s = u' @ p @ v" by simp
      with Cons.IH show ?thesis by auto
    qed
  qed
qed

lemma contains_append_right: "contains s p \<Longrightarrow> contains (s @ t) p"
  unfolding contains_iff by (metis append.assoc)

lemma contains_append_left: "contains s p \<Longrightarrow> contains (t @ s) p"
  unfolding contains_iff by (metis append.assoc)

lemma replace_id:
  "\<not> contains s pat \<Longrightarrow> replace s pat to = s"
proof (induction s)
  case Nil
  show ?case by simp
next
  case (Cons c s)
  then show ?case by (subst replace.simps) auto
qed


subsection \<open>Trimming\<close>

text \<open>
  \<^verbatim>\<open>str::trim\<close> strips characters with the Unicode property \<open>White_Space\<close>; their UTF-8
  encodings are listed here. \<open>trim_end\<close> works on the reversed bytes: UTF-8 is
  self-synchronising, so on a valid string a suffix that spells one of these encodings
  is that character.
\<close>

definition ws_seqs :: "string list" where
  "ws_seqs =
     [[CHR 0x20], [CHR 0x09], [CHR 0x0A], [CHR 0x0B], [CHR 0x0C], [CHR 0x0D],
      [CHR 0xC2, CHR 0x85], [CHR 0xC2, CHR 0xA0],
      [CHR 0xE1, CHR 0x9A, CHR 0x80],
      [CHR 0xE2, CHR 0x80, CHR 0x80], [CHR 0xE2, CHR 0x80, CHR 0x81],
      [CHR 0xE2, CHR 0x80, CHR 0x82], [CHR 0xE2, CHR 0x80, CHR 0x83],
      [CHR 0xE2, CHR 0x80, CHR 0x84], [CHR 0xE2, CHR 0x80, CHR 0x85],
      [CHR 0xE2, CHR 0x80, CHR 0x86], [CHR 0xE2, CHR 0x80, CHR 0x87],
      [CHR 0xE2, CHR 0x80, CHR 0x88], [CHR 0xE2, CHR 0x80, CHR 0x89],
      [CHR 0xE2, CHR 0x80, CHR 0x8A], [CHR 0xE2, CHR 0x80, CHR 0xA8],
      [CHR 0xE2, CHR 0x80, CHR 0xA9], [CHR 0xE2, CHR 0x80, CHR 0xAF],
      [CHR 0xE2, CHR 0x81, CHR 0x9F], [CHR 0xE3, CHR 0x80, CHR 0x80]]"

function strip_seqs :: "string list \<Rightarrow> string \<Rightarrow> string" where
  "strip_seqs qs s =
     (case find (\<lambda>q. q \<noteq> [] \<and> starts_with s q) qs of
        None \<Rightarrow> s
      | Some q \<Rightarrow> strip_seqs qs (drop (length q) s))"
  by pat_completeness auto
termination
proof (relation "measure (\<lambda>(qs, s). length s)", goal_cases)
  case 1
  show ?case by simp
next
  case (2 qs s q)
  then have "q \<noteq> []" and "starts_with s q"
    by (auto simp: find_Some_iff)
  then have "s \<noteq> []" by auto
  with \<open>q \<noteq> []\<close> show ?case by simp
qed

declare strip_seqs.simps [simp del]

definition trim_start :: "string \<Rightarrow> string" where
  "trim_start s = strip_seqs ws_seqs s"

definition trim_end :: "string \<Rightarrow> string" where
  "trim_end s = rev (strip_seqs (map rev ws_seqs) (rev s))"

definition trim :: "string \<Rightarrow> string" where
  "trim s = trim_end (trim_start s)"

definition trim_start_matches :: "char \<Rightarrow> string \<Rightarrow> string" where
  "trim_start_matches c s = dropWhile (\<lambda>x. x = c) s"

definition trim_end_matches :: "char \<Rightarrow> string \<Rightarrow> string" where
  "trim_end_matches c s = rev (dropWhile (\<lambda>x. x = c) (rev s))"

definition trim_matches :: "char \<Rightarrow> string \<Rightarrow> string" where
  "trim_matches c s = trim_end_matches c (trim_start_matches c s)"

definition unstripped :: "string list \<Rightarrow> string \<Rightarrow> bool" where
  "unstripped qs s \<longleftrightarrow> (\<forall>q \<in> set qs. q \<noteq> [] \<longrightarrow> \<not> starts_with s q)"

lemma unstripped_find:
  "unstripped qs s \<longleftrightarrow> find (\<lambda>q. q \<noteq> [] \<and> starts_with s q) qs = None"
  by (auto simp: unstripped_def find_None_iff)

lemma strip_seqs_id: "unstripped qs s \<Longrightarrow> strip_seqs qs s = s"
  by (simp add: unstripped_find strip_seqs.simps)

lemma unstripped_strip_seqs: "unstripped qs (strip_seqs qs s)"
proof (induction qs s rule: strip_seqs.induct)
  case (1 qs s)
  show ?case
  proof (cases "find (\<lambda>q. q \<noteq> [] \<and> starts_with s q) qs")
    case None
    then show ?thesis by (simp add: strip_seqs.simps [of qs s] unstripped_find)
  next
    case (Some q)
    with "1.IH" [OF Some] show ?thesis by (simp add: strip_seqs.simps [of qs s])
  qed
qed

lemma strip_seqs_suffix: "\<exists>p. s = p @ strip_seqs qs s"
proof (induction qs s rule: strip_seqs.induct)
  case (1 qs s)
  show ?case
  proof (cases "find (\<lambda>q. q \<noteq> [] \<and> starts_with s q) qs")
    case None
    then show ?thesis by (simp add: strip_seqs.simps [of qs s])
  next
    case (Some q)
    then have "starts_with s q" by (auto simp: find_Some_iff)
    then obtain t where s: "s = q @ t" by (auto simp: starts_with_iff)
    with Some "1.IH" [OF Some] obtain p where "t = p @ strip_seqs qs t" by auto
    then have "s = (q @ p) @ strip_seqs qs t" by (simp add: s)
    moreover have "strip_seqs qs s = strip_seqs qs t"
      by (subst strip_seqs.simps) (simp add: Some, simp add: s)
    ultimately show ?thesis by metis
  qed
qed

lemma unstripped_take: "unstripped qs (s @ t) \<Longrightarrow> unstripped qs s"
  by (auto simp: unstripped_def dest: starts_with_prefix)

lemma trim_start_suffix: "\<exists>p. s = p @ trim_start s"
  unfolding trim_start_def by (rule strip_seqs_suffix)

lemma trim_end_prefix: "\<exists>p. s = trim_end s @ p"
proof -
  obtain p where "rev s = p @ strip_seqs (map rev ws_seqs) (rev s)"
    using strip_seqs_suffix by blast
  then have "s = trim_end s @ rev p"
    unfolding trim_end_def by (metis rev_append rev_rev_ident)
  then show ?thesis by blast
qed

text \<open>A string is trimmed when \<open>trim\<close> has nothing to strip at either end.\<close>

definition trimmed :: "string \<Rightarrow> bool" where
  "trimmed s \<longleftrightarrow> unstripped ws_seqs s \<and> unstripped (map rev ws_seqs) (rev s)"

lemma trimmed_trim: "trimmed (trim s)"
proof -
  obtain p where p: "trim_start s = trim_end (trim_start s) @ p"
    using trim_end_prefix by blast
  have "unstripped ws_seqs (trim_start s)"
    unfolding trim_start_def by (rule unstripped_strip_seqs)
  with p have "unstripped ws_seqs (trim s)"
    unfolding trim_def by (metis unstripped_take)
  moreover have "unstripped (map rev ws_seqs) (rev (trim s))"
    by (simp add: trim_def trim_end_def unstripped_strip_seqs)
  ultimately show ?thesis by (simp add: trimmed_def)
qed

lemma trim_id [simp]: "trimmed s \<Longrightarrow> trim s = s"
  by (simp add: trimmed_def trim_def trim_start_def trim_end_def strip_seqs_id)

lemma trim_trim [simp]: "trim (trim s) = trim s"
  by (simp add: trimmed_trim)

lemma trimmed_iff: "trimmed s \<longleftrightarrow> trim s = s"
  by (metis trim_id trimmed_trim)

lemma trimmed_Nil [simp]: "trimmed []"
  by (auto simp: trimmed_def unstripped_def)

lemma trim_Nil [simp]: "trim [] = []"
  by simp

text \<open>A printable ASCII byte at both ends is enough for a string to be trimmed.\<close>

definition graph_char :: "char \<Rightarrow> bool" where
  "graph_char c \<longleftrightarrow> 33 \<le> (of_char c :: nat) \<and> (of_char c :: nat) \<le> 126"

lemma ws_seqs_ends: "q \<in> set ws_seqs \<Longrightarrow> \<not> graph_char (hd q) \<and> \<not> graph_char (last q) \<and> q \<noteq> []"
  by (auto simp: ws_seqs_def graph_char_def)

lemma starts_with_hd: "starts_with s q \<Longrightarrow> q \<noteq> [] \<Longrightarrow> hd q = hd s"
  by (auto simp: starts_with_iff)

lemma trimmed_graph:
  assumes "s \<noteq> []" and "graph_char (hd s)" and "graph_char (last s)"
  shows "trimmed s"
proof -
  have "unstripped ws_seqs s"
    using assms ws_seqs_ends starts_with_hd by (fastforce simp: unstripped_def)
  moreover have "unstripped (map rev ws_seqs) (rev s)"
    unfolding unstripped_def
  proof (intro ballI impI notI)
    fix q assume q: "q \<in> set (map rev ws_seqs)" and "q \<noteq> []" and st: "starts_with (rev s) q"
    then have "hd q = last s" using starts_with_hd assms(1) by (metis hd_rev)
    moreover from q obtain w where "w \<in> set ws_seqs" and "q = rev w" by auto
    ultimately show False using ws_seqs_ends [of w] assms(3) by (auto simp: hd_rev)
  qed
  ultimately show ?thesis by (simp add: trimmed_def)
qed

lemma trim_graph:
  "s \<noteq> [] \<Longrightarrow> graph_char (hd s) \<Longrightarrow> graph_char (last s) \<Longrightarrow> trim s = s"
  by (simp add: trimmed_graph)

lemma trim_end_matches_id: "s = [] \<or> last s \<noteq> c \<Longrightarrow> trim_end_matches c s = s"
  by (cases s rule: rev_cases) (auto simp: trim_end_matches_def)

lemma trim_end_matches_idem [simp]:
  "trim_end_matches c (trim_end_matches c s) = trim_end_matches c s"
  by (auto simp: trim_end_matches_def)

lemma trim_start_matches_idem [simp]:
  "trim_start_matches c (trim_start_matches c s) = trim_start_matches c s"
  by (simp add: trim_start_matches_def)

lemma trim_start_matches_hd: "trim_start_matches c s = [] \<or> hd (trim_start_matches c s) \<noteq> c"
  by (induction s) (auto simp: trim_start_matches_def)

lemma trim_end_matches_last: "trim_end_matches c s = [] \<or> last (trim_end_matches c s) \<noteq> c"
proof (cases "dropWhile (\<lambda>x. x = c) (rev s) = []")
  case False
  then have "hd (dropWhile (\<lambda>x. x = c) (rev s)) \<noteq> c" by (rule hd_dropWhile)
  with False show ?thesis by (simp add: trim_end_matches_def last_rev)
qed (simp add: trim_end_matches_def)

lemma trim_end_matches_prefix: "\<exists>n. s = trim_end_matches c s @ replicate n c"
proof -
  have "rev s = takeWhile (\<lambda>x. x = c) (rev s) @ dropWhile (\<lambda>x. x = c) (rev s)" by simp
  then have s: "s = rev (dropWhile (\<lambda>x. x = c) (rev s)) @ rev (takeWhile (\<lambda>x. x = c) (rev s))"
    by (metis rev_append rev_rev_ident)
  have "\<forall>x \<in> set (takeWhile (\<lambda>x. x = c) (rev s)). x = c" by (auto dest: set_takeWhileD)
  then have "takeWhile (\<lambda>x. x = c) (rev s) = replicate (length (takeWhile (\<lambda>x. x = c) (rev s))) c"
    by (metis replicate_eqI)
  then have "rev (takeWhile (\<lambda>x. x = c) (rev s)) = replicate (length (takeWhile (\<lambda>x. x = c) (rev s))) c"
    by (metis rev_replicate)
  with s show ?thesis unfolding trim_end_matches_def by metis
qed

text \<open>A string that starts with a printable ASCII byte keeps it under \<open>trim\<close>.\<close>

lemma strip_rev_keeps:
  assumes "graph_char c"
  shows "strip_seqs (map rev ws_seqs) (u @ [c]) \<noteq> []"
proof (induction "length u" arbitrary: u rule: less_induct)
  case less
  show ?case
  proof (cases "find (\<lambda>q. q \<noteq> [] \<and> starts_with (u @ [c]) q) (map rev ws_seqs)")
    case None
    then show ?thesis by (simp add: strip_seqs.simps)
  next
    case (Some r)
    then have r: "r \<in> set (map rev ws_seqs)" "r \<noteq> []" "starts_with (u @ [c]) r"
      by (auto simp: find_Some_iff)
    then obtain w where w: "w \<in> set ws_seqs" "r = rev w" by auto
    from r(3) obtain v where v: "u @ [c] = r @ v" by (auto simp: starts_with_iff)
    have "v \<noteq> []"
    proof
      assume "v = []"
      with v have "last r = c" by (metis append_Nil2 last_snoc)
      then have "hd w = c" using w r(2) by (simp add: last_rev)
      with ws_seqs_ends [OF w(1)] assms show False by simp
    qed
    then obtain u' where u': "v = u' @ [c]" using v by (metis append_butlast_last_id last_appendR last_snoc)
    with v have "u = r @ u'" by simp
    with r(2) less [of u'] show ?thesis using Some u' v
      by (subst strip_seqs.simps) simp
  qed
qed

lemma trim_starts_graph:
  assumes "graph_char c"
  shows "\<exists>t. trim (c # q) = c # t"
proof -
  have "unstripped ws_seqs (c # q)"
    using assms ws_seqs_ends starts_with_hd [of "c # q"] by (fastforce simp: unstripped_def)
  then have t: "trim (c # q) = trim_end (c # q)" by (simp add: trim_def trim_start_def strip_seqs_id)
  have "trim_end (c # q) \<noteq> []"
    using strip_rev_keeps [OF assms, of "rev q"] by (simp add: trim_end_def)
  moreover obtain p where "c # q = trim_end (c # q) @ p" using trim_end_prefix by blast
  ultimately show ?thesis unfolding t by (metis append_eq_Cons_conv)
qed

lemma trim_matches_id: "s = [] \<or> hd s \<noteq> c \<and> last s \<noteq> c \<Longrightarrow> trim_matches c s = s"
  by (cases s) (auto simp: trim_matches_def trim_start_matches_def trim_end_matches_id)

subsection \<open>Letter case\<close>

definition ascii_lower :: "char \<Rightarrow> char" where
  "ascii_lower c =
     (if 65 \<le> (of_char c :: nat) \<and> (of_char c :: nat) \<le> 90 then char_of ((of_char c :: nat) + 32) else c)"

definition ascii_upper :: "char \<Rightarrow> char" where
  "ascii_upper c =
     (if 97 \<le> (of_char c :: nat) \<and> (of_char c :: nat) \<le> 122 then char_of ((of_char c :: nat) - 32) else c)"

definition to_ascii_lowercase :: "string \<Rightarrow> string" where
  "to_ascii_lowercase s = map ascii_lower s"

definition eq_ignore_ascii_case :: "string \<Rightarrow> string \<Rightarrow> bool" where
  "eq_ignore_ascii_case s t \<longleftrightarrow> to_ascii_lowercase s = to_ascii_lowercase t"

text \<open>
  \<^verbatim>\<open>str::to_uppercase\<close> is Unicode-aware. Outside ASCII, only a few letters have an
  upper-case form made of ASCII letters alone: the dotless i (\<open>C4 B1\<close>), the long s
  (\<open>C5 BF\<close>), the sharp s (\<open>C3 9F\<close>) and the Latin ligatures (\<open>EF AC 80\<close> to
  \<open>EF AC 86\<close>); these are written out. Every other letter outside ASCII keeps at
  least one byte outside ASCII; the program only ever compares the result with ASCII
  literals or searches an ASCII literal in it, so such bytes are left as they are.
\<close>

definition upper_seqs :: "(string \<times> string) list" where
  "upper_seqs =
     [([CHR 0xC4, CHR 0xB1], ''I''), ([CHR 0xC5, CHR 0xBF], ''S''), ([CHR 0xC3, CHR 0x9F], ''SS''),
      ([CHR 0xEF, CHR 0xAC, CHR 0x80], ''FF''), ([CHR 0xEF, CHR 0xAC, CHR 0x81], ''FI''),
      ([CHR 0xEF, CHR 0xAC, CHR 0x82], ''FL''), ([CHR 0xEF, CHR 0xAC, CHR 0x83], ''FFI''),
      ([CHR 0xEF, CHR 0xAC, CHR 0x84], ''FFL''), ([CHR 0xEF, CHR 0xAC, CHR 0x85], ''ST''),
      ([CHR 0xEF, CHR 0xAC, CHR 0x86], ''ST'')]"

fun to_uppercase :: "string \<Rightarrow> string" where
  "to_uppercase [] = []"
| "to_uppercase (c # s) =
     (case find (\<lambda>(q, _). starts_with (c # s) q) upper_seqs of
        Some (q, u) \<Rightarrow> u @ to_uppercase (drop (length q - 1) s)
      | None \<Rightarrow> ascii_upper c # to_uppercase s)"

lemma ascii_lower_idem [simp]: "ascii_lower (ascii_lower c) = ascii_lower c"
  by (auto simp: ascii_lower_def)

lemma to_ascii_lowercase_idem [simp]:
  "to_ascii_lowercase (to_ascii_lowercase s) = to_ascii_lowercase s"
  by (simp add: to_ascii_lowercase_def)

lemma length_to_ascii_lowercase [simp]: "length (to_ascii_lowercase s) = length s"
  by (simp add: to_ascii_lowercase_def)

subsection \<open>Decimal numbers\<close>

definition is_ascii_digit :: "char \<Rightarrow> bool" where
  "is_ascii_digit c \<longleftrightarrow> 48 \<le> (of_char c :: nat) \<and> (of_char c :: nat) \<le> 57"

definition digit_val :: "char \<Rightarrow> nat" where
  "digit_val c = of_char c - 48"

definition digit_char :: "nat \<Rightarrow> char" where
  "digit_char d = char_of (48 + d)"

fun show_nat :: "nat \<Rightarrow> string" where
  "show_nat n = (if n < 10 then [digit_char n] else show_nat (n div 10) @ [digit_char (n mod 10)])"

declare show_nat.simps [simp del]

definition read_digits :: "string \<Rightarrow> nat" where
  "read_digits s = foldl (\<lambda>acc c. 10 * acc + digit_val c) 0 s"

text \<open>
  \<^verbatim>\<open>str::parse\<close> at an unsigned type: one optional \<open>+\<close>, then one or more digits whose
  value does not exceed the type's maximum.
\<close>

definition parse_unsigned :: "nat \<Rightarrow> string \<Rightarrow> nat option" where
  "parse_unsigned mx s =
     (let ds = (case s of c # t \<Rightarrow> if c = CHR ''+'' then t else s | [] \<Rightarrow> [])
      in if ds \<noteq> [] \<and> list_all is_ascii_digit ds \<and> read_digits ds \<le> mx
         then Some (read_digits ds) else None)"

definition parse_u16 :: "string \<Rightarrow> 16 word option" where
  "parse_u16 s = map_option of_nat (parse_unsigned 65535 s)"

definition parse_u64 :: "string \<Rightarrow> 64 word option" where
  "parse_u64 s = map_option of_nat (parse_unsigned 18446744073709551615 s)"

definition parse_u32 :: "string \<Rightarrow> 32 word option" where
  "parse_u32 s = map_option of_nat (parse_unsigned 4294967295 s)"

definition show_word :: "'a::len word \<Rightarrow> string" where
  "show_word w = show_nat (unat w)"

definition show_bool :: "bool \<Rightarrow> string" where
  "show_bool b = (if b then ''true'' else ''false'')"

lemma digit_char_digit:
  "d < 10 \<Longrightarrow> is_ascii_digit (digit_char d) \<and> digit_val (digit_char d) = d \<and> graph_char (digit_char d)"
  by (simp add: is_ascii_digit_def digit_val_def digit_char_def graph_char_def)

lemma read_digits_snoc: "read_digits (s @ [c]) = 10 * read_digits s + digit_val c"
  by (simp add: read_digits_def)

lemma show_nat_digits:
  "list_all is_ascii_digit (show_nat n) \<and> show_nat n \<noteq> [] \<and> read_digits (show_nat n) = n"
proof (induction n rule: show_nat.induct)
  case (1 n)
  show ?case
  proof (cases "n < 10")
    case True
    then show ?thesis
      using digit_char_digit [of n] by (simp add: show_nat.simps [of n] read_digits_def)
  next
    case False
    have "n mod 10 < 10" by simp
    with False "1.IH" digit_char_digit [of "n mod 10"] show ?thesis
      by (simp add: show_nat.simps [of n] read_digits_snoc)
  qed
qed

lemma show_nat_nonempty [simp]: "show_nat n \<noteq> []"
  using show_nat_digits by blast

lemma digit_graph: "is_ascii_digit c \<Longrightarrow> graph_char c"
  by (simp add: is_ascii_digit_def graph_char_def)

lemma digit_not_plus: "is_ascii_digit c \<Longrightarrow> c \<noteq> CHR ''+''"
  by (auto simp: is_ascii_digit_def)

lemma parse_show_nat [codec_simps]: "n \<le> mx \<Longrightarrow> parse_unsigned mx (show_nat n) = Some n"
proof -
  assume "n \<le> mx"
  obtain c t where ct: "show_nat n = c # t" by (cases "show_nat n") auto
  with show_nat_digits [of n] have "is_ascii_digit c" by simp
  then have "c \<noteq> CHR ''+''" by (rule digit_not_plus)
  with ct have "(case show_nat n of c # t \<Rightarrow> if c = CHR ''+'' then t else show_nat n | [] \<Rightarrow> []) = show_nat n"
    by simp
  with \<open>n \<le> mx\<close> show_nat_digits [of n] show ?thesis
    by (simp add: parse_unsigned_def del: show_nat_nonempty)
qed

lemma parse_show_u16 [codec_simps]: "parse_u16 (show_word w) = Some w"
proof -
  have "unat w < 2 ^ LENGTH(16)" by (rule unsigned_less)
  then have "unat w \<le> 65535" by simp
  then show ?thesis by (simp add: parse_u16_def show_word_def parse_show_nat)
qed

lemma parse_show_u64 [codec_simps]: "parse_u64 (show_word w) = Some w"
proof -
  have "unat w < 2 ^ LENGTH(64)" by (rule unsigned_less)
  then have "unat w \<le> 18446744073709551615" by simp
  then show ?thesis by (simp add: parse_u64_def show_word_def parse_show_nat)
qed

lemma parse_unsigned_bound: "parse_unsigned mx s = Some n \<Longrightarrow> n \<le> mx"
  by (auto simp: parse_unsigned_def Let_def split: if_splits)

lemma show_nat_trimmed: "trimmed (show_nat n)"
proof (rule trimmed_graph)
  have "list_all graph_char (show_nat n)"
    using show_nat_digits [of n] digit_graph by (simp add: list_all_iff)
  then show "graph_char (hd (show_nat n))" and "graph_char (last (show_nat n))"
    by (simp_all add: list_all_iff)
qed simp

subsection \<open>Lines and splitting\<close>

text \<open>\<^verbatim>\<open>str::lines\<close>: pieces between line feeds, less one trailing carriage return each,
  and no last piece after a final line feed.\<close>

fun split_on :: "char \<Rightarrow> string \<Rightarrow> string list" where
  "split_on c [] = [[]]"
| "split_on c (x # s) =
     (if x = c then [] # split_on c s
      else (case split_on c s of p # ps \<Rightarrow> (x # p) # ps | [] \<Rightarrow> [[x]]))"

definition strip_cr :: "string \<Rightarrow> string" where
  "strip_cr s = (if s \<noteq> [] \<and> last s = CHR 0x0D then butlast s else s)"

definition rust_lines :: "string \<Rightarrow> string list" where
  "rust_lines s =
     (let ps = split_on (CHR 0x0A) s
      in map strip_cr (if last ps = [] then butlast ps else ps))"

text \<open>\<^verbatim>\<open>splitn(2, c)\<close>: the part before the first separator and, if there is one, the rest.\<close>

definition split_once :: "char \<Rightarrow> string \<Rightarrow> string \<times> string option" where
  "split_once c s =
     (takeWhile (\<lambda>x. x \<noteq> c) s,
      case dropWhile (\<lambda>x. x \<noteq> c) s of [] \<Rightarrow> None | _ # t \<Rightarrow> Some t)"

lemma split_on_nonempty [simp]: "split_on c s \<noteq> []"
  by (induction s) (auto split: list.splits)

lemma split_on_no_sep: "c \<notin> set s \<Longrightarrow> split_on c s = [s]"
  by (induction s) auto

lemma split_on_append: "c \<notin> set s \<Longrightarrow> split_on c (s @ c # t) = s # split_on c t"
  by (induction s) auto

lemma split_once_append: "c \<notin> set k \<Longrightarrow> split_once c (k @ c # v) = (k, Some v)"
proof -
  assume "c \<notin> set k"
  then have all: "\<forall>x \<in> set k. x \<noteq> c" by auto
  then have "takeWhile (\<lambda>x. x \<noteq> c) (k @ c # v) = k"
    and "dropWhile (\<lambda>x. x \<noteq> c) (k @ c # v) = c # v"
    by (simp_all add: takeWhile_append dropWhile_append)
  then show ?thesis by (simp add: split_once_def)
qed

lemma split_on_lines:
  "\<forall>l \<in> set ls. c \<notin> set l \<Longrightarrow> split_on c (concat (map (\<lambda>l. l @ [c]) ls)) = ls @ [[]]"
  by (induction ls) (auto simp: split_on_append)

lemma rust_lines_concat:
  assumes "\<forall>l \<in> set ls. CHR 0x0A \<notin> set l \<and> CHR 0x0D \<notin> set l"
  shows "rust_lines (concat (map (\<lambda>l. l @ [CHR 0x0A]) ls)) = ls"
proof -
  have "split_on (CHR 0x0A) (concat (map (\<lambda>l. l @ [CHR 0x0A]) ls)) = ls @ [[]]"
    using assms by (intro split_on_lines) auto
  moreover have "map strip_cr ls = ls"
  proof (rule map_idI)
    fix l assume "l \<in> set ls"
    with assms have "CHR 0x0D \<notin> set l" by blast
    then show "strip_cr l = l" by (metis last_in_set strip_cr_def)
  qed
  ultimately show ?thesis by (simp add: rust_lines_def)
qed

subsection \<open>Paths\<close>

text \<open>\<^verbatim>\<open>Path::join\<close> with the separator of Unix targets.\<close>

definition path_join :: "string \<Rightarrow> string \<Rightarrow> string" where
  "path_join root name =
     (if starts_with name ''/'' \<or> root = [] then name
      else if last root = CHR ''/'' then root @ name
      else root @ ''/'' @ name)"

subsection \<open>Keyed stores\<close>

text \<open>
  A Rust \<^verbatim>\<open>HashMap\<close> is an association list with one entry per key. Its iteration order is
  unspecified in Rust; the model fixes one, and the properties only speak of the entries
  as a set or a map.
\<close>

definition hm_remove :: "'k \<Rightarrow> ('k \<times> 'v) list \<Rightarrow> ('k \<times> 'v) list" where
  "hm_remove k m = filter (\<lambda>e. fst e \<noteq> k) m"

definition hm_insert :: "'k \<Rightarrow> 'v \<Rightarrow> ('k \<times> 'v) list \<Rightarrow> ('k \<times> 'v) list" where
  "hm_insert k v m = (k, v) # hm_remove k m"

definition hm_wf :: "('k \<times> 'v) list \<Rightarrow> bool" where
  "hm_wf m \<longleftrightarrow> distinct (map fst m)"

lemma map_of_hm_remove: "map_of (hm_remove k m) = (map_of m)(k := None)"
  by (induction m) (auto simp: hm_remove_def fun_eq_iff)

lemma map_of_hm_insert: "map_of (hm_insert k v m) = (map_of m)(k \<mapsto> v)"
  by (simp add: hm_insert_def map_of_hm_remove)

lemma hm_wf_remove: "hm_wf m \<Longrightarrow> hm_wf (hm_remove k m)"
  by (induction m) (auto simp: hm_wf_def hm_remove_def)

lemma hm_wf_insert: "hm_wf m \<Longrightarrow> hm_wf (hm_insert k v m)"
  using hm_wf_remove [of m k] by (auto simp: hm_wf_def hm_insert_def hm_remove_def)

lemma hm_wf_Nil [simp]: "hm_wf []"
  by (simp add: hm_wf_def)

datatype ('k, 'v) store_cmd = Put 'k 'v | Del 'k

fun store_abs :: "('k \<rightharpoonup> 'v) \<Rightarrow> ('k, 'v) store_cmd list \<Rightarrow> ('k \<rightharpoonup> 'v)" where
  "store_abs m [] = m"
| "store_abs m (Put k v # cs) = store_abs (m(k \<mapsto> v)) cs"
| "store_abs m (Del k # cs) = store_abs (m(k := None)) cs"

fun store_run :: "('k \<Rightarrow> 'v \<Rightarrow> 'm \<Rightarrow> 'm) \<Rightarrow> ('k \<Rightarrow> 'm \<Rightarrow> 'm) \<Rightarrow> 'm \<Rightarrow> ('k, 'v) store_cmd list \<Rightarrow> 'm" where
  "store_run ins rm m [] = m"
| "store_run ins rm m (Put k v # cs) = store_run ins rm (ins k v m) cs"
| "store_run ins rm m (Del k # cs) = store_run ins rm (rm k m) cs"

definition cmd_key :: "('k, 'v) store_cmd \<Rightarrow> 'k" where
  "cmd_key c = (case c of Put k _ \<Rightarrow> k | Del k \<Rightarrow> k)"

text \<open>
  The interface of a keyed store: the contract that the registries of the coordinator,
  the agent runtime, the WebSocket hub and the licence cache give to their callers.
\<close>

locale kv_store =
  fixes lookup :: "'m \<Rightarrow> 'k \<Rightarrow> 'v option"
    and ins :: "'k \<Rightarrow> 'v \<Rightarrow> 'm \<Rightarrow> 'm"
    and rm :: "'k \<Rightarrow> 'm \<Rightarrow> 'm"
    and inv :: "'m \<Rightarrow> bool"
  assumes lookup_ins: "inv m \<Longrightarrow> lookup (ins k v m) = (lookup m)(k \<mapsto> v)"
    and lookup_rm: "inv m \<Longrightarrow> lookup (rm k m) = (lookup m)(k := None)"
    and inv_ins: "inv m \<Longrightarrow> inv (ins k v m)"
    and inv_rm: "inv m \<Longrightarrow> inv (rm k m)"
begin

lemma run_inv: "inv m \<Longrightarrow> inv (store_run ins rm m cs)"
proof (induction cs arbitrary: m)
  case (Cons c cs)
  then show ?case by (cases c) (auto simp: inv_ins inv_rm)
qed simp

lemma run_refines: "inv m \<Longrightarrow> lookup (store_run ins rm m cs) = store_abs (lookup m) cs"
proof (induction cs arbitrary: m)
  case (Cons c cs)
  then show ?case by (cases c) (simp_all add: inv_ins inv_rm lookup_ins lookup_rm fun_upd_def)
qed simp

lemma run_frame:
  assumes "inv m" and "\<forall>c \<in> set cs. cmd_key c \<noteq> k"
  shows "lookup (store_run ins rm m cs) k = lookup m k"
proof -
  have "store_abs f cs k = f k" for f :: "'k \<Rightarrow> 'v option"
    using assms(2)
  proof (induction cs arbitrary: f)
    case (Cons c cs)
    then show ?case by (cases c) (auto simp: cmd_key_def)
  qed simp
  with assms(1) show ?thesis by (simp add: run_refines)
qed

lemma run_append:
  "store_run ins rm m (cs @ ds) = store_run ins rm (store_run ins rm m cs) ds"
proof (induction cs arbitrary: m)
  case (Cons c cs)
  then show ?case by (cases c) auto
qed simp

lemma last_put_wins:
  assumes "inv m" and "\<forall>c \<in> set ds. cmd_key c \<noteq> k"
  shows "lookup (store_run ins rm m (cs @ Put k v # ds)) k = Some v"
  using assms run_inv [of m cs]
  by (simp add: run_append run_frame inv_ins lookup_ins)

lemma deleted_stays_absent:
  assumes "inv m" and "\<forall>c \<in> set ds. cmd_key c \<noteq> k"
  shows "lookup (store_run ins rm m (cs @ Del k # ds)) k = None"
  using assms run_inv [of m cs]
  by (simp add: run_append run_frame inv_rm lookup_rm)

end

interpretation hm: kv_store map_of hm_insert hm_remove hm_wf
  by unfold_locales (auto simp: map_of_hm_insert map_of_hm_remove hm_wf_insert hm_wf_remove)

end
