(* ===== verification/Json_Value.thy ===== *)
theory Json_Value
  imports Prelude
begin

text \<open>
  The JSON values that the licensing client exchanges with the licence server. The
  constructors are those of \<^verbatim>\<open>serde_json::Value\<close> on which the program matches, and the
  accessors are the documented ones it calls. A number is an integer or a floating-point
  number; of the latter only the printed text is kept, since \<^verbatim>\<open>as_i64\<close> and
  \<^verbatim>\<open>as_u64\<close> answer \<open>None\<close> for it.
\<close>

datatype json_number = JInt int | JFloat string

datatype json =
    JNull
  | JBool bool
  | JNum json_number
  | JStr string
  | JArr "json list"
  | JObj "(string \<times> json) list"

type_synonym json_obj = "(string \<times> json) list"

fun as_object :: "json \<Rightarrow> json_obj option" where
  "as_object (JObj kvs) = Some kvs"
| "as_object _ = None"

fun as_array :: "json \<Rightarrow> json list option" where
  "as_array (JArr xs) = Some xs"
| "as_array _ = None"

fun as_str :: "json \<Rightarrow> string option" where
  "as_str (JStr s) = Some s"
| "as_str _ = None"

fun num_as_i64 :: "json_number \<Rightarrow> int option" where
  "num_as_i64 (JInt i) = (if - (2 ^ 63) \<le> i \<and> i < 2 ^ 63 then Some i else None)"
| "num_as_i64 (JFloat _) = None"

fun as_i64 :: "json \<Rightarrow> int option" where
  "as_i64 (JNum n) = num_as_i64 n"
| "as_i64 _ = None"

fun as_u64 :: "json \<Rightarrow> nat option" where
  "as_u64 (JNum (JInt i)) = (if 0 \<le> i \<and> i < 2 ^ 64 then Some (nat i) else None)"
| "as_u64 _ = None"

definition obj_get :: "json_obj \<Rightarrow> string \<Rightarrow> json option" where
  "obj_get kvs k = map_of kvs k"

fun json_get :: "json \<Rightarrow> string \<Rightarrow> json option" where
  "json_get (JObj kvs) k = obj_get kvs k"
| "json_get _ k = None"

definition obj_remove :: "string \<Rightarrow> json_obj \<Rightarrow> json_obj" where
  "obj_remove k kvs = filter (\<lambda>e. fst e \<noteq> k) kvs"

text \<open>The chain \<^verbatim>\<open>obj.get(k1).or_else(|| obj.get(k2))...\<close>: the value of the first key present.\<close>

fun get_any :: "json_obj \<Rightarrow> string list \<Rightarrow> json option" where
  "get_any kvs [] = None"
| "get_any kvs (k # ks) = or_else (obj_get kvs k) (get_any kvs ks)"

text \<open>The chain followed by \<^verbatim>\<open>.and_then(|v| v.as_str()).map(|v| v.to_string())\<close>.\<close>

definition get_str :: "json_obj \<Rightarrow> string list \<Rightarrow> string option" where
  "get_str kvs ks = Option.bind (get_any kvs ks) as_str"

definition show_int :: "int \<Rightarrow> string" where
  "show_int i = (if i < 0 then ''-'' @ show_nat (nat (- i)) else show_nat (nat i))"

fun show_number :: "json_number \<Rightarrow> string" where
  "show_number (JInt i) = show_int i"
| "show_number (JFloat s) = s"

text \<open>How the \<^verbatim>\<open>json!\<close> macro embeds optional strings, lists and string maps.\<close>

fun js_opt :: "string option \<Rightarrow> json" where
  "js_opt None = JNull"
| "js_opt (Some s) = JStr s"

fun js_bool_opt :: "bool option \<Rightarrow> json" where
  "js_bool_opt None = JNull"
| "js_bool_opt (Some b) = JBool b"

fun js_u32_opt :: "32 word option \<Rightarrow> json" where
  "js_u32_opt None = JNull"
| "js_u32_opt (Some n) = JNum (JInt (uint n))"

definition js_strs :: "string list \<Rightarrow> json" where
  "js_strs xs = JArr (map JStr xs)"

definition js_map :: "(string \<times> string) list \<Rightarrow> json" where
  "js_map kvs = JObj (map (\<lambda>(k, v). (k, JStr v)) kvs)"

lemma obj_get_Nil [simp]: "obj_get [] k = None"
  by (simp add: obj_get_def)

lemma obj_get_Cons [simp]: "obj_get ((k, v) # kvs) k' = (if k' = k then Some v else obj_get kvs k')"
  by (simp add: obj_get_def)

lemma obj_get_remove: "obj_get (obj_remove k kvs) k' = (if k' = k then None else obj_get kvs k')"
  by (induction kvs) (auto simp: obj_remove_def)

lemma get_any_None_iff: "get_any kvs ks = None \<longleftrightarrow> (\<forall>k \<in> set ks. obj_get kvs k = None)"
proof (induction ks)
  case (Cons k ks)
  then show ?case by (cases "obj_get kvs k") auto
qed simp

lemma get_any_Some:
  "get_any kvs ks = Some v \<Longrightarrow> \<exists>k \<in> set ks. obj_get kvs k = Some v"
proof (induction ks)
  case (Cons k ks)
  then show ?case by (cases "obj_get kvs k") auto
qed simp

lemma as_u64_bound: "as_u64 v = Some n \<Longrightarrow> n < 2 ^ 64"
  by (cases v rule: as_u64.cases) (auto split: if_splits)

lemma as_i64_bound: "as_i64 v = Some i \<Longrightarrow> - (2 ^ 63) \<le> i \<and> i < 2 ^ 63"
proof -
  assume a: "as_i64 v = Some i"
  then obtain n where "v = JNum n" by (cases v) auto
  with a show ?thesis by (cases n) (auto split: if_splits)
qed

end
