(* ===== verification/License_Model.thy ===== *)
theory License_Model
  imports Json_Value
begin

text \<open>
  Data of the licensing crate \<^verbatim>\<open>generic-license-tauri\<close>: the error type of \<^verbatim>\<open>error.rs\<close> with
  its projections, and the structs of \<^verbatim>\<open>models.rs\<close> with their defaults. Fields carry a
  short prefix per struct because HOL record fields share one name space.
\<close>

subsection \<open>Errors (error.rs)\<close>

datatype license_error =
    Config string
  | Http string
  | Invalid string
  | Serde string
  | Io string
  | EndpointUnavailable string
  | RegistrationFile string
  | Structured (err_step: string) (err_reason_code: string) (err_message: string)

fun error_to_string :: "license_error \<Rightarrow> string" where
  "error_to_string (Config m) = (''configura'' @ u_ccedil @ u_atilde @ ''o inv'' @ u_aacute @ ''lida: '') @ m"
| "error_to_string (Http m) = ''erro HTTP: '' @ m"
| "error_to_string (Invalid m) = (''licen'' @ u_ccedil @ ''a inv'' @ u_aacute @ ''lida: '') @ m"
| "error_to_string (Serde m) = (''erro de serializa'' @ u_ccedil @ u_atilde @ ''o: '') @ m"
| "error_to_string (Io m) = ''erro de IO: '' @ m"
| "error_to_string (EndpointUnavailable m) = (''endpoint indispon'' @ u_iacute @ ''vel: '') @ m"
| "error_to_string (RegistrationFile m) = ''erro no arquivo de registro: '' @ m"
| "error_to_string (Structured s r m) =
     ''falha na etapa '' @ s @ '' ('' @ r @ ''): '' @ m"

fun step_of :: "license_error \<Rightarrow> string" where
  "step_of (Structured s _ _) = s"
| "step_of (RegistrationFile _) = ''registration_file''"
| "step_of (EndpointUnavailable _) = ''resolve_activation''"
| "step_of (Config _) = ''config''"
| "step_of (Http _) = ''http''"
| "step_of (Invalid _) = ''validation''"
| "step_of (Serde _) = ''serialization''"
| "step_of (Io _) = ''io''"

fun reason_code_of :: "license_error \<Rightarrow> string" where
  "reason_code_of (Structured _ r _) = r"
| "reason_code_of (RegistrationFile _) = ''REGISTRATION_FILE_ERROR''"
| "reason_code_of (EndpointUnavailable _) = ''ENDPOINT_UNAVAILABLE''"
| "reason_code_of (Config _) = ''INVALID_CONFIG''"
| "reason_code_of (Http _) = ''HTTP_ERROR''"
| "reason_code_of (Invalid _) = ''INVALID_LICENSE''"
| "reason_code_of (Serde _) = ''SERDE_ERROR''"
| "reason_code_of (Io _) = ''IO_ERROR''"

record serializable_error =
  se_step :: string
  se_reason_code :: string
  se_message :: string

definition serializable_of :: "license_error \<Rightarrow> serializable_error" where
  "serializable_of e =
     \<lparr>se_step = step_of e, se_reason_code = reason_code_of e, se_message = error_to_string e\<rparr>"

subsection \<open>Instants\<close>

text \<open>A \<^verbatim>\<open>DateTime<FixedOffset>\<close>: the instant in nanoseconds since the epoch and the offset in
  seconds. \<^verbatim>\<open>with_timezone(&Utc)\<close> keeps the instant.\<close>

record datetime =
  dt_nanos :: int
  dt_offset :: int

definition day_nanos :: int where "day_nanos = 86400 * 1000000000"

text \<open>\<^verbatim>\<open>signed_duration_since(..).num_days()\<close>: whole days, rounded towards zero.\<close>

definition num_days :: "int \<Rightarrow> int" where
  "num_days d = (if 0 \<le> d then d div day_nanos else - ((- d) div day_nanos))"

subsection \<open>Server-side records (models.rs)\<close>

record device_record =
  dr_id :: "string option"
  dr_device_key :: "string option"
  dr_device_name :: "string option"
  dr_station_name :: "string option"
  dr_hostname :: "string option"
  dr_computer_name :: "string option"
  dr_serial_number :: "string option"
  dr_machine_guid :: "string option"
  dr_bios_serial :: "string option"
  dr_motherboard_serial :: "string option"
  dr_logged_user :: "string option"
  dr_os_name :: "string option"
  dr_os_version :: "string option"
  dr_os_arch :: "string option"
  dr_domain_name :: "string option"
  dr_mac_addresses :: "string list"
  dr_install_mode :: "string option"
  dr_blocked :: bool
  dr_reused_existing :: bool
  dr_bound :: bool

definition device_record_default :: device_record where
  "device_record_default =
     \<lparr>dr_id = None, dr_device_key = None, dr_device_name = None, dr_station_name = None,
      dr_hostname = None, dr_computer_name = None, dr_serial_number = None,
      dr_machine_guid = None, dr_bios_serial = None, dr_motherboard_serial = None,
      dr_logged_user = None, dr_os_name = None, dr_os_version = None, dr_os_arch = None,
      dr_domain_name = None, dr_mac_addresses = [], dr_install_mode = None,
      dr_blocked = False, dr_reused_existing = False, dr_bound = False\<rparr>"

record license_record =
  lr_document :: "string option"
  lr_company_name :: "string option"
  lr_company_email :: "string option"
  lr_blocked :: bool
  lr_active :: bool
  lr_expires_at :: "datetime option"
  lr_max_devices :: "32 word option"
  lr_devices_in_use :: "32 word option"
  lr_devices_available :: "32 word option"
  lr_application_slug :: "string option"
  lr_devices :: "device_record list"

definition license_record_default :: license_record where
  "license_record_default =
     \<lparr>lr_document = None, lr_company_name = None, lr_company_email = None,
      lr_blocked = False, lr_active = False, lr_expires_at = None, lr_max_devices = None,
      lr_devices_in_use = None, lr_devices_available = None, lr_application_slug = None,
      lr_devices = []\<rparr>"

record license_api_response =
  ar_status :: "32 word"
  ar_message :: "string option"
  ar_license :: license_record

record company_record =
  cr_id :: "string option"
  cr_document :: "string option"
  cr_legal_name :: "string option"
  cr_email :: "string option"
  cr_reused_existing :: bool

definition company_record_default :: company_record where
  "company_record_default =
     \<lparr>cr_id = None, cr_document = None, cr_legal_name = None, cr_email = None,
      cr_reused_existing = False\<rparr>"

record application_license_record =
  al_application_slug :: "string option"
  al_status :: "string option"
  al_max_devices :: "32 word option"
  al_devices_in_use :: "32 word option"
  al_devices_available :: "32 word option"
  al_expires_at :: "datetime option"

definition application_license_record_default :: application_license_record where
  "application_license_record_default =
     \<lparr>al_application_slug = None, al_status = None, al_max_devices = None,
      al_devices_in_use = None, al_devices_available = None, al_expires_at = None\<rparr>"

record offline_decision =
  od_cache_allowed_until :: "datetime option"

definition offline_decision_default :: offline_decision where
  "offline_decision_default = \<lparr>od_cache_allowed_until = None\<rparr>"

record diagnostic_item =
  di_step :: string
  di_code :: string
  di_message :: string

record license_decision =
  ld_allowed :: bool
  ld_decision :: string
  ld_reason_code :: "string option"
  ld_step :: "string option"
  ld_message :: string
  ld_used_offline_cache :: bool
  ld_warning :: "string option"
  ld_license :: "license_record option"
  ld_application_license :: "application_license_record option"
  ld_company :: "company_record option"
  ld_device :: "device_record option"
  ld_offline :: "offline_decision option"
  ld_diagnostics :: "diagnostic_item list"
  ld_source :: string

definition license_decision_deny :: "string \<Rightarrow> string \<Rightarrow> string \<Rightarrow> license_decision" where
  "license_decision_deny message reason_code step =
     \<lparr>ld_allowed = False, ld_decision = ''denied'', ld_reason_code = Some reason_code,
      ld_step = Some step, ld_message = message, ld_used_offline_cache = False,
      ld_warning = None, ld_license = None, ld_application_license = None,
      ld_company = None, ld_device = None, ld_offline = None, ld_diagnostics = [],
      ld_source = ''online''\<rparr>"

record cached_license_file =
  cf_cached_at :: datetime
  cf_decision :: "license_decision option"
  cf_payload :: "license_api_response option"

subsection \<open>The caller's input and the configuration (models.rs)\<close>

record license_check_input =
  li_company_document :: string
  li_company_name :: "string option"
  li_company_email :: "string option"
  li_company_legal_name :: "string option"
  li_app_id :: string
  li_app_name :: string
  li_app_version :: string
  li_app_slug :: "string option"
  li_device_key :: "string option"
  li_device_name :: "string option"
  li_station_name :: "string option"
  li_hostname :: "string option"
  li_computer_name :: "string option"
  li_serial_number :: "string option"
  li_machine_guid :: "string option"
  li_bios_serial :: "string option"
  li_motherboard_serial :: "string option"
  li_logged_user :: "string option"
  li_os_name :: "string option"
  li_os_version :: "string option"
  li_os_arch :: "string option"
  li_domain_name :: "string option"
  li_mac_addresses :: "string list"
  li_install_mode :: "string option"
  li_registration_file_content_b64 :: "string option"
  li_registration_file_path :: "string option"
  li_registration_file_verified :: "bool option"
  li_allow_company_auto_create :: "bool option"
  li_allow_device_auto_create :: "bool option"
  li_allow_device_auto_update :: "bool option"
  li_requested_licenses :: "32 word option"
  li_device_identifier :: "string option"
  li_validation_mode :: "string option"
  li_interface_mode :: "string option"
  li_local_license_mode :: "string option"
  li_metadata :: "(string \<times> string) list"
  li_login_context :: bool

record license_config =
  lc_base_url :: string
  lc_api_token :: "string option"
  lc_resolve_activation_endpoint :: string
  lc_status_endpoint :: string
  lc_register_company_endpoint :: string
  lc_register_device_endpoint :: string
  lc_update_device_endpoint :: string
  lc_offline_max_age_days :: int
  lc_warn_before_expiration_in_days :: int
  lc_auto_register_company_on_missing :: bool
  lc_auto_register_device_on_missing :: bool
  lc_auto_update_device_name :: bool
  lc_block_on_company_blocked :: bool
  lc_block_on_device_blocked :: bool
  lc_block_on_device_missing :: bool
  lc_block_on_expired :: bool
  lc_cache_namespace :: string
  lc_prefer_resolve_activation :: bool
  lc_allow_legacy_fallback :: bool
  lc_enable_registration_file_lookup :: bool
  lc_registration_file_names :: "string list"
  lc_registration_file_extra_paths :: "string list"
  lc_registration_public_key_base64 :: "string option"

definition license_config_default :: license_config where
  "license_config_default =
     \<lparr>lc_base_url = ''https://api.rest.wwsoftwares.com.br/api/v1'',
      lc_api_token = None,
      lc_resolve_activation_endpoint = ''/licensing/activation/resolve'',
      lc_status_endpoint = ''81b3767f-7bc5-4275-9453-a6a921010a17/86d7b2bee439957e040b72be6fea5fc2/cliente/{document}'',
      lc_register_company_endpoint = ''81b3767f-7bc5-4275-9453-a6a921010a17/86d7b2bee439957e040b72be6fea5fc2/clientes'',
      lc_register_device_endpoint = ''81b3767f-7bc5-4275-9453-a6a921010a17/86d7b2bee439957e040b72be6fea5fc2/maquinas'',
      lc_update_device_endpoint = ''81b3767f-7bc5-4275-9453-a6a921010a17/86d7b2bee439957e040b72be6fea5fc2/maquinas/IDMAQUINA/{id}'',
      lc_offline_max_age_days = 15,
      lc_warn_before_expiration_in_days = 5,
      lc_auto_register_company_on_missing = False,
      lc_auto_register_device_on_missing = False,
      lc_auto_update_device_name = True,
      lc_block_on_company_blocked = True,
      lc_block_on_device_blocked = True,
      lc_block_on_device_missing = True,
      lc_block_on_expired = True,
      lc_cache_namespace = ''default'',
      lc_prefer_resolve_activation = True,
      lc_allow_legacy_fallback = True,
      lc_enable_registration_file_lookup = True,
      lc_registration_file_names = [''wwreg.json'', ''wwreg.lic''],
      lc_registration_file_extra_paths = [],
      lc_registration_public_key_base64 = None\<rparr>"

subsection \<open>Facts about errors and durations\<close>

lemma div_le_iff_less:
  fixes d k q :: int
  assumes "0 < q"
  shows "d div q \<le> k \<longleftrightarrow> d < (k + 1) * q"
proof
  assume "d div q \<le> k"
  then have "q * (d div q) \<le> q * k" using assms by (simp add: mult_left_mono)
  moreover have "d mod q < q" using assms by (rule pos_mod_bound)
  moreover have "q * (d div q) + d mod q = d" by simp
  ultimately have "d < q * k + q" by linarith
  then show "d < (k + 1) * q" by (simp add: algebra_simps)
next
  assume "d < (k + 1) * q"
  then have "d \<le> (k + 1) * q - 1" by simp
  then have "d div q \<le> ((k + 1) * q - 1) div q" using assms by (rule zdiv_mono1)
  also have "(k + 1) * q - 1 = (q - 1) + k * q" by (simp add: algebra_simps)
  also have "((q - 1) + k * q) div q = k" using assms by simp
  finally show "d div q \<le> k" .
qed

lemma num_days_le_iff:
  assumes "0 \<le> k"
  shows "num_days d \<le> k \<longleftrightarrow> d < (k + 1) * day_nanos"
proof (cases "0 \<le> d")
  case True
  then show ?thesis by (simp add: num_days_def div_le_iff_less day_nanos_def)
next
  case False
  have pos: "0 < day_nanos" by (simp add: day_nanos_def)
  with False have "0 \<le> (- d) div day_nanos" by (simp add: pos_imp_zdiv_nonneg_iff)
  moreover have "0 \<le> (k + 1) * day_nanos" using assms pos by simp
  ultimately show ?thesis using False assms by (auto simp: num_days_def)
qed

end
