(* ===== verification/License_Env.thy ===== *)
theory License_Env
  imports License_Model
begin

text \<open>
  The surroundings of the licensing crate. \<open>os_env\<close> is what the code reads from the
  machine (environment variables, files, directories, host name). \<open>ext\<close> collects the
  third-party functions the crate calls (HTTP exchange, clock, SHA-256, Base64, Ed25519,
  JSON texts, date parsing); they are parameters of every definition that uses them.
  \<open>world\<close> is the state the crate changes: the remote server and clock (of an arbitrary
  type), the files of the offline cache and the log of requests sent.
\<close>

subsection \<open>Reading the machine\<close>

datatype platform = Windows | Linux | MacOs | OtherPlatform

datatype file_state = Absent | Unreadable string | Contents string

record os_env =
  os_platform :: platform
  os_hostname :: "string option"
  os_vars :: "string \<Rightarrow> string option"
  os_const_os :: string
  os_const_arch :: string
  os_fs :: "string \<Rightarrow> file_state"
  os_net_entries :: "string list option"
  os_current_exe :: "string option"
  os_exe_parent :: "string option"
  os_current_dir :: "string option"
  os_base_dirs :: "(string \<times> string) option"
  os_project_dirs :: "(string \<times> string) option"
  os_cache_dir :: "string option"

fun contents :: "file_state \<Rightarrow> string option" where
  "contents (Contents s) = Some s"
| "contents _ = None"

text \<open>\<^verbatim>\<open>fs::read_to_string(path).unwrap_or_default()\<close>\<close>

definition read_or_empty :: "os_env \<Rightarrow> string \<Rightarrow> string" where
  "read_or_empty os path = unwrap_or [] (contents (os_fs os path))"

subsection \<open>HTTP\<close>

datatype http_method = GET | POST | PUT

record http_request =
  rq_method :: http_method
  rq_url :: string
  rq_bearer :: "string option"
  rq_headers :: "(string \<times> string) list"
  rq_body :: "json option"

record http_response =
  rs_status :: nat
  rs_json :: "(json, string) result"

definition is_success :: "nat \<Rightarrow> bool" where
  "is_success c \<longleftrightarrow> 200 \<le> c \<and> c < 300"

subsection \<open>Third-party functions and the world\<close>

record 's ext =
  x_http :: "http_request \<Rightarrow> 's \<Rightarrow> (http_response, string) result \<times> 's"
  x_now :: "'s \<Rightarrow> int \<times> 's"
  x_local_now :: "'s \<Rightarrow> string \<times> 's"
  x_status_text :: "nat \<Rightarrow> string"
  x_sha256 :: "string \<Rightarrow> string"
  x_hex :: "string \<Rightarrow> string"
  x_b64_encode :: "string \<Rightarrow> string"
  x_b64_decode :: "string \<Rightarrow> (string, string) result"
  x_json_of_slice :: "string \<Rightarrow> json option"
  x_json_to_vec :: "json \<Rightarrow> (string, string) result"
  x_cached_to_json :: "cached_license_file \<Rightarrow> (string, string) result"
  x_cached_of_json :: "string \<Rightarrow> (cached_license_file, string) result"
  x_key_of_bytes :: "string \<Rightarrow> (string, string) result"
  x_verify :: "string \<Rightarrow> string \<Rightarrow> string \<Rightarrow> bool"
  x_parse_rfc3339 :: "string \<Rightarrow> datetime option"
  x_parse_with_offset :: "string \<Rightarrow> string \<Rightarrow> datetime option"
  x_parse_naive :: "string \<Rightarrow> string \<Rightarrow> int option"
  x_local_single :: "int \<Rightarrow> datetime option"
  x_mkdir_err :: "string \<Rightarrow> string option"
  x_write_err :: "string \<Rightarrow> string option"
  x_read_err :: "string \<Rightarrow> string option"

record 's world =
  w_srv :: 's
  w_files :: "string \<Rightarrow> string option"
  w_log :: "http_request list"

definition http_send ::
  "'s ext \<Rightarrow> http_request \<Rightarrow> 's world \<Rightarrow> (http_response, string) result \<times> 's world" where
  "http_send x rq w =
     (case x_http x rq (w_srv w) of (r, s) \<Rightarrow> (r, w\<lparr>w_srv := s, w_log := w_log w @ [rq]\<rparr>))"

definition utc_now :: "'s ext \<Rightarrow> 's world \<Rightarrow> int \<times> 's world" where
  "utc_now x w = (case x_now x (w_srv w) of (t, s) \<Rightarrow> (t, w\<lparr>w_srv := s\<rparr>))"

definition local_now_text :: "'s ext \<Rightarrow> 's world \<Rightarrow> string \<times> 's world" where
  "local_now_text x w = (case x_local_now x (w_srv w) of (t, s) \<Rightarrow> (t, w\<lparr>w_srv := s\<rparr>))"

text \<open>
  What any operation may do to the log: append requests that satisfy a predicate. The
  operations of the client and of the service are instances of this contract, and
  sequences of them inherit it.
\<close>

definition extends_log :: "(http_request \<Rightarrow> bool) \<Rightarrow> 's world \<Rightarrow> 's world \<Rightarrow> bool" where
  "extends_log P w w' \<longleftrightarrow> (\<exists>rs. w_log w' = w_log w @ rs \<and> list_all P rs)"

lemma extends_log_refl [simp, intro]: "extends_log P w w"
  by (auto simp: extends_log_def)

lemma extends_log_trans [trans]:
  "extends_log P w w' \<Longrightarrow> extends_log P w' w'' \<Longrightarrow> extends_log P w w''"
  by (auto simp: extends_log_def)

lemma extends_log_same: "w_log w' = w_log w \<Longrightarrow> extends_log P w w'"
  by (auto simp: extends_log_def)

lemma http_send_log: "w_log (snd (http_send x rq w)) = w_log w @ [rq]"
  by (simp add: http_send_def split: prod.splits)

lemma http_send_files [simp]: "w_files (snd (http_send x rq w)) = w_files w"
  by (simp add: http_send_def split: prod.splits)

lemma http_send_extends: "P rq \<Longrightarrow> extends_log P w (snd (http_send x rq w))"
  by (auto simp: extends_log_def http_send_log)

lemma utc_now_frame [simp]:
  "w_log (snd (utc_now x w)) = w_log w" "w_files (snd (utc_now x w)) = w_files w"
  by (simp_all add: utc_now_def split: prod.splits)

lemma local_now_frame [simp]:
  "w_log (snd (local_now_text x w)) = w_log w" "w_files (snd (local_now_text x w)) = w_files w"
  by (simp_all add: local_now_text_def split: prod.splits)

lemma utc_nowD: "utc_now x w = (t, w') \<Longrightarrow> w_log w' = w_log w \<and> w_files w' = w_files w"
  using utc_now_frame [of x w] by (metis snd_conv)

lemma http_sendD:
  "http_send x rq w = (r, w') \<Longrightarrow> w_log w' = w_log w @ [rq] \<and> w_files w' = w_files w"
  using http_send_log [of x rq w] http_send_files [of x rq w] by (metis snd_conv)

end
