(* ===== verification/License_Device.thy ===== *)
theory License_Device
  imports License_Env
begin

text \<open>
  Device identification, \<^verbatim>\<open>generic-license-tauri/src/device.rs\<close>: what is collected from the
  machine, how a check input is completed with it and how the device key is derived.
\<close>

record device_collected_info =
  dc_station_name :: string
  dc_hostname :: string
  dc_computer_name :: string
  dc_serial_number :: string
  dc_machine_guid :: string
  dc_bios_serial :: string
  dc_motherboard_serial :: string
  dc_logged_user :: string
  dc_os_name :: string
  dc_os_version :: string
  dc_os_arch :: string
  dc_domain_name :: string
  dc_mac_addresses :: "string list"
  dc_install_mode :: string

definition non_empty_or_none :: "string \<Rightarrow> string option" where
  "non_empty_or_none value = (if trim value = [] then None else Some value)"

definition first_non_empty :: "string list \<Rightarrow> string" where
  "first_non_empty values = unwrap_or [] (find (\<lambda>v. trim v \<noteq> []) values)"

definition hostname_or_unknown :: "os_env \<Rightarrow> string" where
  "hostname_or_unknown os = unwrap_or ''unknown-host'' (os_hostname os)"

definition current_user_or_unknown :: "os_env \<Rightarrow> string" where
  "current_user_or_unknown os =
     unwrap_or ''unknown-user'' (or_else (os_vars os ''USERNAME'') (os_vars os ''USER''))"

definition os_version :: "os_env \<Rightarrow> string" where
  "os_version os =
     (case os_platform os of
        Windows \<Rightarrow> unwrap_or [] (os_vars os ''OS'')
      | Linux \<Rightarrow>
          (let release = read_or_empty os ''/etc/os-release''
           in unwrap_or []
                (map_option (\<lambda>l. trim_matches (CHR 0x22) (replace l ''PRETTY_NAME='' []))
                   (find (\<lambda>l. starts_with l ''PRETTY_NAME='') (rust_lines release))))
      | MacOs \<Rightarrow> []
      | OtherPlatform \<Rightarrow> [])"

definition machine_guid :: "os_env \<Rightarrow> string" where
  "machine_guid os =
     (case os_platform os of
        Linux \<Rightarrow>
          unwrap_or []
            (find (\<lambda>c. c \<noteq> [])
               (map (\<lambda>path. trim (read_or_empty os path))
                  [''/etc/machine-id'', ''/var/lib/dbus/machine-id'']))
      | _ \<Rightarrow> [])"

definition bios_serial :: "os_env \<Rightarrow> string" where
  "bios_serial os =
     (case os_platform os of
        Linux \<Rightarrow> trim (read_or_empty os ''/sys/class/dmi/id/bios_version'')
      | _ \<Rightarrow> [])"

definition motherboard_serial :: "os_env \<Rightarrow> string" where
  "motherboard_serial os =
     (case os_platform os of
        Linux \<Rightarrow> trim (read_or_empty os ''/sys/class/dmi/id/board_serial'')
      | _ \<Rightarrow> [])"

definition system_serial_number :: "os_env \<Rightarrow> string" where
  "system_serial_number os =
     (case os_platform os of
        Linux \<Rightarrow> trim (read_or_empty os ''/sys/class/dmi/id/product_uuid'')
      | _ \<Rightarrow> [])"

definition domain_name :: "os_env \<Rightarrow> string" where
  "domain_name os = unwrap_or [] (or_else (os_vars os ''USERDOMAIN'') (os_vars os ''DOMAINNAME''))"

definition mac_addresses :: "os_env \<Rightarrow> string list" where
  "mac_addresses os =
     (case os_platform os of
        Linux \<Rightarrow>
          (case os_net_entries os of
             None \<Rightarrow> []
           | Some entries \<Rightarrow>
               filter (\<lambda>mac. mac \<noteq> [] \<and> mac \<noteq> ''00:00:00:00:00:00'')
                 (map (\<lambda>e. trim (read_or_empty os
                         (path_join (path_join ''/sys/class/net'' e) ''address''))) entries))
      | _ \<Rightarrow> [])"

definition detect_install_mode :: "os_env \<Rightarrow> string" where
  "detect_install_mode os =
     (let exe_str = unwrap_or ''.'' (os_current_exe os)
      in if contains (to_uppercase (unwrap_or [] (os_vars os ''SESSIONNAME''))) ''RDP''
         then ''terminal-session''
         else if starts_with exe_str [CHR 0x5C, CHR 0x5C] \<or> starts_with exe_str ''//''
         then ''shared-server''
         else ''workstation'')"

definition collect_device_metadata :: "os_env \<Rightarrow> device_collected_info" where
  "collect_device_metadata os =
     (let hostname = hostname_or_unknown os
      in \<lparr>dc_station_name = hostname,
          dc_hostname = hostname,
          dc_computer_name = unwrap_or hostname (os_vars os ''COMPUTERNAME''),
          dc_serial_number = first_non_empty [system_serial_number os, bios_serial os],
          dc_machine_guid = machine_guid os,
          dc_bios_serial = bios_serial os,
          dc_motherboard_serial = motherboard_serial os,
          dc_logged_user = current_user_or_unknown os,
          dc_os_name = os_const_os os,
          dc_os_version = os_version os,
          dc_os_arch = os_const_arch os,
          dc_domain_name = domain_name os,
          dc_mac_addresses = mac_addresses os,
          dc_install_mode = detect_install_mode os\<rparr>)"

definition default_device_name :: "os_env \<Rightarrow> string" where
  "default_device_name os = dc_station_name (collect_device_metadata os)"

text \<open>\<^verbatim>\<open>parts.join("|")\<close>\<close>

fun join_bar :: "string list \<Rightarrow> string" where
  "join_bar [] = []"
| "join_bar [p] = p"
| "join_bar (p # q # ps) = p @ ''|'' @ join_bar (q # ps)"

definition device_key_parts :: "license_check_input \<Rightarrow> string list" where
  "device_key_parts i =
     [li_app_id i,
      unwrap_or [] (li_app_slug i),
      unwrap_or [] (li_machine_guid i),
      unwrap_or [] (li_bios_serial i),
      unwrap_or [] (li_motherboard_serial i),
      (case li_mac_addresses i of [] \<Rightarrow> [] | m # _ \<Rightarrow> m),
      unwrap_or [] (li_hostname i),
      unwrap_or [] (li_os_name i),
      unwrap_or [] (li_os_arch i)]"

definition generate_device_key :: "'s ext \<Rightarrow> license_check_input \<Rightarrow> string" where
  "generate_device_key x i = x_hex x (x_sha256 x (join_bar (device_key_parts i)))"

text \<open>\<^verbatim>\<open>field.as_deref().unwrap_or("").is_empty()\<close>, and the two ways a blank field is filled.\<close>

definition missing :: "string option \<Rightarrow> bool" where
  "missing f \<longleftrightarrow> unwrap_or [] f = []"

definition fill :: "string option \<Rightarrow> string option \<Rightarrow> string option" where
  "fill f v = (if missing f then v else f)"

definition enrich_fields :: "device_collected_info \<Rightarrow> license_check_input \<Rightarrow> license_check_input" where
  "enrich_fields info i =
     i\<lparr>li_hostname := fill (li_hostname i) (Some (dc_hostname info)),
       li_computer_name := fill (li_computer_name i) (Some (dc_computer_name info)),
       li_station_name := fill (li_station_name i) (Some (dc_station_name info)),
       li_device_name := fill (li_device_name i) (Some (dc_station_name info)),
       li_serial_number := fill (li_serial_number i) (non_empty_or_none (dc_serial_number info)),
       li_machine_guid := fill (li_machine_guid i) (non_empty_or_none (dc_machine_guid info)),
       li_bios_serial := fill (li_bios_serial i) (non_empty_or_none (dc_bios_serial info)),
       li_motherboard_serial :=
         fill (li_motherboard_serial i) (non_empty_or_none (dc_motherboard_serial info)),
       li_logged_user := fill (li_logged_user i) (non_empty_or_none (dc_logged_user info)),
       li_os_name := fill (li_os_name i) (non_empty_or_none (dc_os_name info)),
       li_os_version := fill (li_os_version i) (non_empty_or_none (dc_os_version info)),
       li_os_arch := fill (li_os_arch i) (non_empty_or_none (dc_os_arch info)),
       li_domain_name := fill (li_domain_name i) (non_empty_or_none (dc_domain_name info)),
       li_mac_addresses :=
         (if li_mac_addresses i = [] then dc_mac_addresses info else li_mac_addresses i),
       li_install_mode := fill (li_install_mode i) (non_empty_or_none (dc_install_mode info))\<rparr>"

definition enrich_input :: "'s ext \<Rightarrow> os_env \<Rightarrow> license_check_input \<Rightarrow> license_check_input" where
  "enrich_input x os i =
     (let j = enrich_fields (collect_device_metadata os) i
      in if missing (li_device_key j)
         then j\<lparr>li_device_key := Some (generate_device_key x j)\<rparr> else j)"

subsection \<open>Facts\<close>

lemma fill_idem [simp]: "fill (fill f v) v = fill f v"
  by (simp add: fill_def)

lemma fill_given: "\<not> missing f \<Longrightarrow> fill f v = f"
  by (simp add: fill_def)

lemma missing_Some [simp]: "missing (Some s) \<longleftrightarrow> s = []"
  by (simp add: missing_def)

lemma missing_None [simp]: "missing None"
  by (simp add: missing_def)

lemma enrich_fields_idem: "enrich_fields info (enrich_fields info i) = enrich_fields info i"
  by (simp add: enrich_fields_def)

lemma enrich_input_document [simp]:
  "li_company_document (enrich_input x os i) = li_company_document i"
  by (simp add: enrich_input_def enrich_fields_def Let_def)

text \<open>
  The keyed fields of an input that decide the device key, as the key derivation sees
  them, do not change when a key is stored.
\<close>

lemma device_key_parts_set_key [simp]:
  "device_key_parts (i\<lparr>li_device_key := k\<rparr>) = device_key_parts i"
  by (simp add: device_key_parts_def)

lemma enrich_fields_set_key:
  "enrich_fields info (i\<lparr>li_device_key := k\<rparr>) = (enrich_fields info i)\<lparr>li_device_key := k\<rparr>"
  by (simp add: enrich_fields_def)

lemma enrich_fields_set_document:
  "enrich_fields info (i\<lparr>li_company_document := d\<rparr>) = (enrich_fields info i)\<lparr>li_company_document := d\<rparr>"
  by (simp add: enrich_fields_def)

end
