(* ===== verification/License_Registration.thy ===== *)
theory License_Registration
  imports License_Device
begin

text \<open>
  The registration file, \<^verbatim>\<open>generic-license-tauri/src/registration.rs\<close>: where it is looked
  for, how its signature is verified and how its contents complete a check input.
\<close>

record registration_file_discovery =
  rd_searched_paths :: "string list"
  rd_file_path :: "string option"
  rd_content_b64 :: "string option"
  rd_verified :: "bool option"
  rd_payload :: "json option"
  rd_message :: "string option"

definition candidate_roots :: "license_config \<Rightarrow> os_env \<Rightarrow> string list" where
  "candidate_roots cfg os =
     (case os_exe_parent os of None \<Rightarrow> [] | Some p \<Rightarrow> [p]) @
     (case os_current_dir os of None \<Rightarrow> [] | Some d \<Rightarrow> [d]) @
     (case os_base_dirs os of None \<Rightarrow> [] | Some (data, conf) \<Rightarrow> [data, conf]) @
     (case os_project_dirs os of None \<Rightarrow> [] | Some (data, conf) \<Rightarrow> [data, conf]) @
     (case os_vars os ''PROGRAMDATA'' of
        None \<Rightarrow> []
      | Some p \<Rightarrow> [path_join (path_join p ''WWSoftwares'') ''IntegraDesktop'']) @
     filter (\<lambda>path. trim path \<noteq> []) (lc_registration_file_extra_paths cfg)"

definition candidate_paths :: "license_config \<Rightarrow> os_env \<Rightarrow> string list" where
  "candidate_paths cfg os =
     concat (map (\<lambda>root. map (\<lambda>name. path_join root name) (lc_registration_file_names cfg))
       (candidate_roots cfg os))"

definition signature_value :: "json_obj \<Rightarrow> string option" where
  "signature_value obj =
     Option.bind (Option.bind (obj_get obj ''signature'') (\<lambda>v. json_get v ''value'')) as_str"

definition verify_signature :: "'s ext \<Rightarrow> json \<Rightarrow> string \<Rightarrow> (bool, license_error) result" where
  "verify_signature x payload public_key_b64 =
     and_then (ok_or (RegistrationFile (''payload do arquivo de registro inv'' @ u_aacute @ ''lido'')) (as_object payload))
       (\<lambda>obj.
     and_then (ok_or (RegistrationFile (''assinatura n'' @ u_atilde @ ''o encontrada no arquivo de registro''))
                 (signature_value obj)) (\<lambda>signature.
     let unsigned = JObj (obj_remove ''signature'' obj) in
     and_then (map_err Serde (x_json_to_vec x unsigned)) (\<lambda>message.
     and_then (map_err (\<lambda>e. RegistrationFile ((''chave p'' @ u_uacute @ ''blica inv'' @ u_aacute @ ''lida: '') @ e))
                 (x_b64_decode x public_key_b64)) (\<lambda>public_key_bytes.
     and_then (map_err (\<lambda>e. RegistrationFile ((''assinatura inv'' @ u_aacute @ ''lida: '') @ e))
                 (x_b64_decode x signature)) (\<lambda>signature_bytes.
     if length public_key_bytes \<noteq> 32
     then Err (RegistrationFile (''a chave p'' @ u_uacute @ ''blica Ed25519 deve conter 32 bytes''))
     else if length signature_bytes \<noteq> 64
     then Err (RegistrationFile ''a assinatura Ed25519 deve conter 64 bytes'')
     else and_then (map_err RegistrationFile (x_key_of_bytes x public_key_bytes)) (\<lambda>key.
       Ok (x_verify x key message signature_bytes)))))))"

definition registration_verified ::
  "'s ext \<Rightarrow> license_config \<Rightarrow> json option \<Rightarrow> (bool option, license_error) result" where
  "registration_verified x cfg payload =
     (case (payload, lc_registration_public_key_base64 cfg) of
        (Some p, Some pub_key) \<Rightarrow>
          (if trim pub_key \<noteq> [] then and_then (verify_signature x p pub_key) (\<lambda>b. Ok (Some b))
           else Ok None)
      | _ \<Rightarrow> Ok None)"

fun discover_from ::
  "'s ext \<Rightarrow> license_config \<Rightarrow> os_env \<Rightarrow> string list \<Rightarrow> string list
   \<Rightarrow> (registration_file_discovery, license_error) result" where
  "discover_from x cfg os searched [] =
     Ok \<lparr>rd_searched_paths = searched, rd_file_path = None, rd_content_b64 = None,
         rd_verified = None, rd_payload = None,
         rd_message = Some ''nenhum arquivo de registro foi localizado''\<rparr>"
| "discover_from x cfg os searched (c # cs) =
     (case os_fs os c of
        Absent \<Rightarrow> discover_from x cfg os (searched @ [c]) cs
      | Unreadable e \<Rightarrow> Err (RegistrationFile e)
      | Contents bytes \<Rightarrow>
          (let payload = x_json_of_slice x bytes
           in and_then (registration_verified x cfg payload) (\<lambda>verified.
             Ok \<lparr>rd_searched_paths = searched @ [c], rd_file_path = Some c,
                 rd_content_b64 = Some (x_b64_encode x bytes), rd_verified = verified,
                 rd_payload = payload,
                 rd_message = Some ''arquivo de registro localizado automaticamente''\<rparr>)))"

definition discover_registration_file ::
  "'s ext \<Rightarrow> license_config \<Rightarrow> os_env \<Rightarrow> (registration_file_discovery, license_error) result" where
  "discover_registration_file x cfg os = discover_from x cfg os [] (candidate_paths cfg os)"

text \<open>\<^verbatim>\<open>payload.get(section).get(field).as_str()\<close>\<close>

definition payload_field :: "json option \<Rightarrow> string \<Rightarrow> string \<Rightarrow> string option" where
  "payload_field payload sect field =
     Option.bind (Option.bind (Option.bind payload (\<lambda>v. json_get v sect)) (\<lambda>v. json_get v field)) as_str"

definition apply_registration ::
  "registration_file_discovery \<Rightarrow> string \<Rightarrow> license_check_input \<Rightarrow> license_check_input" where
  "apply_registration d content_b64 i =
     i\<lparr>li_registration_file_content_b64 := Some content_b64,
       li_registration_file_path := rd_file_path d,
       li_registration_file_verified := rd_verified d,
       li_company_document :=
         (if trim (li_company_document i) = []
          then unwrap_or (li_company_document i) (payload_field (rd_payload d) ''company'' ''document'')
          else li_company_document i),
       li_company_email :=
         (if li_company_email i = None
          then payload_field (rd_payload d) ''company'' ''email'' else li_company_email i),
       li_company_legal_name :=
         (if li_company_legal_name i = None
          then payload_field (rd_payload d) ''company'' ''legal_name'' else li_company_legal_name i),
       li_app_slug :=
         (if li_app_slug i = None
          then payload_field (rd_payload d) ''application'' ''slug'' else li_app_slug i)\<rparr>"

definition enrich_input_from_registration_file ::
  "'s ext \<Rightarrow> license_config \<Rightarrow> os_env \<Rightarrow> license_check_input
   \<Rightarrow> (registration_file_discovery option, license_error) result \<times> license_check_input" where
  "enrich_input_from_registration_file x cfg os i =
     (if li_registration_file_content_b64 i \<noteq> None \<or> \<not> lc_enable_registration_file_lookup cfg
      then (Ok None, i)
      else case discover_registration_file x cfg os of
             Inl e \<Rightarrow> (Err e, i)
           | Inr d \<Rightarrow>
               (Ok (Some d),
                case rd_content_b64 d of
                  None \<Rightarrow> i
                | Some b64 \<Rightarrow> apply_registration d b64 i))"

subsection \<open>Facts\<close>

text \<open>The loop stops at the first candidate that exists.\<close>

lemma discover_from_skip:
  "\<forall>c \<in> set cs. os_fs os c = Absent \<Longrightarrow>
   discover_from x cfg os searched (cs @ ds) = discover_from x cfg os (searched @ cs) ds"
  by (induction cs arbitrary: searched) auto

lemma discover_from_none:
  assumes "\<forall>c \<in> set cs. os_fs os c = Absent"
  shows "discover_from x cfg os searched cs =
    Ok \<lparr>rd_searched_paths = searched @ cs, rd_file_path = None, rd_content_b64 = None,
        rd_verified = None, rd_payload = None,
        rd_message = Some ''nenhum arquivo de registro foi localizado''\<rparr>"
  using discover_from_skip [OF assms, of x cfg searched "[]"] by simp

lemma apply_registration_keeps:
  "trim (li_company_document i) \<noteq> [] \<Longrightarrow>
   li_company_document (apply_registration d b i) = li_company_document i"
  "li_device_key (apply_registration d b i) = li_device_key i"
  by (simp_all add: apply_registration_def)

lemma enrich_registration_keeps_document:
  "trim (li_company_document i) \<noteq> [] \<Longrightarrow>
   li_company_document (snd (enrich_input_from_registration_file x cfg os i)) = li_company_document i"
  by (auto simp: enrich_input_from_registration_file_def apply_registration_keeps split: sum.splits option.splits)

lemma verify_signature_true:
  assumes "verify_signature x payload key = Ok True"
  obtains obj sig msg kb sb k where "payload = JObj obj" and "signature_value obj = Some sig"
    and "x_json_to_vec x (JObj (obj_remove ''signature'' obj)) = Ok msg"
    and "x_b64_decode x key = Ok kb" and "x_b64_decode x sig = Ok sb"
    and "length kb = 32" and "length sb = 64"
    and "x_key_of_bytes x kb = Ok k" and "x_verify x k msg sb"
proof -
  from assms obtain obj where o: "payload = JObj obj"
    by (cases payload) (auto simp: verify_signature_def)
  from assms obtain sig where s: "signature_value obj = Some sig"
    by (cases "signature_value obj") (auto simp: verify_signature_def o)
  from assms obtain msg where m: "x_json_to_vec x (JObj (obj_remove ''signature'' obj)) = Ok msg"
    by (cases "x_json_to_vec x (JObj (obj_remove ''signature'' obj))") (auto simp: verify_signature_def o s)
  from assms obtain kb where kb: "x_b64_decode x key = Ok kb"
    by (cases "x_b64_decode x key") (auto simp: verify_signature_def o s m)
  from assms obtain sb where sb: "x_b64_decode x sig = Ok sb"
    by (cases "x_b64_decode x sig") (auto simp: verify_signature_def o s m kb)
  from assms have len: "length kb = 32 \<and> length sb = 64"
    by (auto simp: verify_signature_def o s m kb sb split: if_splits)
  with assms obtain k where k: "x_key_of_bytes x kb = Ok k"
    by (cases "x_key_of_bytes x kb") (auto simp: verify_signature_def o s m kb sb)
  with assms len have "x_verify x k msg sb"
    by (auto simp: verify_signature_def o s m kb sb)
  with o s m kb sb len k that show thesis by blast
qed

end
