(* ===== verification/License_Client.thy ===== *)
theory License_Client
  imports License_Registration
begin

text \<open>
  The HTTP client of the licence server, \<^verbatim>\<open>generic-license-tauri/src/client.rs\<close>: the
  requests it builds, the answers it accepts, and the normalisation of the two JSON
  dialects (the current one and the legacy one with Portuguese keys) into the records of
  \<^verbatim>\<open>models.rs\<close>.
\<close>

subsection \<open>Scalars\<close>

fun parse_bool :: "json \<Rightarrow> bool" where
  "parse_bool (JBool v) = v"
| "parse_bool (JNum v) = (unwrap_or 0 (num_as_i64 v) \<noteq> 0)"
| "parse_bool (JStr v) =
     (to_uppercase (trim v) \<in>
        {''1'', ''TRUE'', ''T'', ''Y'', ''YES'', ''S'', ''SIM'', ''ALLOWED''})"
| "parse_bool _ = False"

fun parse_naive_formats :: "'s ext \<Rightarrow> string \<Rightarrow> string list \<Rightarrow> datetime option" where
  "parse_naive_formats x raw [] = None"
| "parse_naive_formats x raw (fmt # fmts) =
     (case x_parse_naive x raw fmt of
        Some naive \<Rightarrow>
          (case x_local_single x naive of
             Some dt \<Rightarrow> Some dt
           | None \<Rightarrow> parse_naive_formats x raw fmts)
      | None \<Rightarrow> parse_naive_formats x raw fmts)"

definition parse_datetime :: "'s ext \<Rightarrow> json \<Rightarrow> datetime option" where
  "parse_datetime x value =
     (case as_str value of
        None \<Rightarrow> None
      | Some raw \<Rightarrow>
          (case x_parse_rfc3339 x raw of
             Some dt \<Rightarrow> Some dt
           | None \<Rightarrow>
               (case x_parse_with_offset x raw ''%Y-%m-%d %H:%M:%S%:z'' of
                  Some dt \<Rightarrow> Some dt
                | None \<Rightarrow>
                    parse_naive_formats x raw
                      [''%Y-%m-%d %H:%M:%S'', ''%d/%m/%Y %H:%M:%S'', ''%Y-%m-%d''])))"

fun stringify_value :: "json \<Rightarrow> string" where
  "stringify_value (JStr v) = v"
| "stringify_value (JNum v) = show_number v"
| "stringify_value (JBool v) = (if v then ''true'' else ''false'')"
| "stringify_value _ = []"

text \<open>\<^verbatim>\<open>.and_then(|v| v.as_u64()).map(|v| v as u32)\<close>: the cast keeps the low 32 bits.\<close>

definition get_u32 :: "json_obj \<Rightarrow> string \<Rightarrow> 32 word option" where
  "get_u32 obj k = map_option (\<lambda>n. of_nat n) (Option.bind (obj_get obj k) as_u64)"

definition get_bool :: "json_obj \<Rightarrow> string \<Rightarrow> bool option" where
  "get_bool obj k = map_option parse_bool (obj_get obj k)"

subsection \<open>Normalisation of answers\<close>

definition device_of_obj :: "json_obj \<Rightarrow> device_record" where
  "device_of_obj obj =
     \<lparr>dr_id = map_option stringify_value (get_any obj [''id'', ''IDMAQ'', ''IDMAQUINA'', ''idmaquina'']),
      dr_device_key = get_str obj [''device_key'', ''fingerprint'', ''key'', ''chave'', ''CHAVE''],
      dr_device_name = get_str obj [''device_name'', ''NOME'', ''NOMEMAQ'', ''nome_compu''],
      dr_station_name = get_str obj [''station_name''],
      dr_hostname = get_str obj [''hostname''],
      dr_computer_name = get_str obj [''computer_name''],
      dr_serial_number = get_str obj [''serial_number''],
      dr_machine_guid = get_str obj [''machine_guid''],
      dr_bios_serial = get_str obj [''bios_serial''],
      dr_motherboard_serial = get_str obj [''motherboard_serial''],
      dr_logged_user = get_str obj [''logged_user''],
      dr_os_name = get_str obj [''os_name''],
      dr_os_version = get_str obj [''os_version''],
      dr_os_arch = get_str obj [''os_arch''],
      dr_domain_name = get_str obj [''domain_name''],
      dr_mac_addresses =
        unwrap_or [] (map_option (\<lambda>items. List.map_filter as_str items)
          (Option.bind (obj_get obj ''mac_addresses'') as_array)),
      dr_install_mode = get_str obj [''install_mode''],
      dr_blocked = unwrap_or False (or_else (get_bool obj ''blocked'') (get_bool obj ''BLOQUEADO'')),
      dr_reused_existing = unwrap_or False (get_bool obj ''reused_existing''),
      dr_bound = unwrap_or False (get_bool obj ''bound'')\<rparr>"

definition normalize_device :: "json \<Rightarrow> device_record" where
  "normalize_device value =
     (case as_object value of None \<Rightarrow> device_record_default | Some obj \<Rightarrow> device_of_obj obj)"

definition normalize_offline :: "'s ext \<Rightarrow> json \<Rightarrow> offline_decision" where
  "normalize_offline x value =
     (case as_object value of
        None \<Rightarrow> offline_decision_default
      | Some obj \<Rightarrow>
          \<lparr>od_cache_allowed_until = Option.bind (obj_get obj ''cache_allowed_until'') (parse_datetime x)\<rparr>)"

definition normalize_application_license :: "'s ext \<Rightarrow> json \<Rightarrow> application_license_record" where
  "normalize_application_license x value =
     (case as_object value of
        None \<Rightarrow> application_license_record_default
      | Some obj \<Rightarrow>
          \<lparr>al_application_slug = get_str obj [''application_slug'', ''slug''],
           al_status = get_str obj [''status''],
           al_max_devices = get_u32 obj ''max_devices'',
           al_devices_in_use = get_u32 obj ''devices_in_use'',
           al_devices_available = get_u32 obj ''devices_available'',
           al_expires_at = Option.bind (obj_get obj ''expires_at'') (parse_datetime x)\<rparr>)"

definition normalize_company :: "json \<Rightarrow> company_record" where
  "normalize_company value =
     (case as_object value of
        None \<Rightarrow> company_record_default
      | Some obj \<Rightarrow>
          \<lparr>cr_id = map_option stringify_value (obj_get obj ''id''),
           cr_document = get_str obj [''document'', ''CNPJ''],
           cr_legal_name = get_str obj [''legal_name'', ''RAZAOSOCIAL'', ''RAZAO''],
           cr_email = get_str obj [''email'', ''EMP_EMAIL''],
           cr_reused_existing = unwrap_or False (get_bool obj ''reused_existing'')\<rparr>)"

definition license_devices :: "json_obj \<Rightarrow> device_record list" where
  "license_devices obj =
     unwrap_or [] (map_option (map normalize_device)
       (Option.bind (get_any obj [''devices'', ''computers'', ''COMPUTADORES'', ''maquinas'', ''MAQUINAS''])
          as_array))"

definition license_max_devices :: "json_obj \<Rightarrow> 32 word option" where
  "license_max_devices obj =
     or_else (get_u32 obj ''max_devices'')
       (or_else (get_u32 obj ''QTD_MAQ'') (get_u32 obj ''n_maquinas''))"

definition license_devices_in_use :: "json_obj \<Rightarrow> 32 word option" where
  "license_devices_in_use obj =
     or_else (get_u32 obj ''devices_in_use'') (Some (of_nat (length (license_devices obj))))"

definition available_devices :: "32 word option \<Rightarrow> 32 word option \<Rightarrow> 32 word option" where
  "available_devices max_devices devices_in_use =
     (case (max_devices, devices_in_use) of
        (Some mx, Some used) \<Rightarrow> (if used \<le> mx then Some (mx - used) else None)
      | _ \<Rightarrow> None)"

definition license_of_obj :: "'s ext \<Rightarrow> json_obj \<Rightarrow> license_record" where
  "license_of_obj x obj =
     \<lparr>lr_document = get_str obj [''document'', ''CNPJ''],
      lr_company_name = get_str obj [''company_name'', ''RAZAO'', ''RAZAOSOCIAL''],
      lr_company_email = get_str obj [''company_email'', ''EMP_EMAIL''],
      lr_blocked = unwrap_or False (or_else (get_bool obj ''blocked'') (get_bool obj ''BLOQUEADO'')),
      lr_active = unwrap_or True (or_else (get_bool obj ''active'') (get_bool obj ''ATIVO'')),
      lr_expires_at = Option.bind (get_any obj [''expires_at'', ''DATA_VAL_LIC'']) (parse_datetime x),
      lr_max_devices = license_max_devices obj,
      lr_devices_in_use = license_devices_in_use obj,
      lr_devices_available = available_devices (license_max_devices obj) (license_devices_in_use obj),
      lr_application_slug = get_str obj [''application_slug'', ''app_slug''],
      lr_devices = license_devices obj\<rparr>"

definition normalize_license :: "'s ext \<Rightarrow> json \<Rightarrow> license_record" where
  "normalize_license x value =
     (case as_object value of None \<Rightarrow> license_record_default | Some obj \<Rightarrow> license_of_obj x obj)"

text \<open>\<^verbatim>\<open>.and_then(|v| v.as_i64()).unwrap_or(0) as i32\<close>\<close>

definition get_status :: "json_obj \<Rightarrow> string \<Rightarrow> 32 word" where
  "get_status obj k = word_of_int (unwrap_or 0 (Option.bind (obj_get obj k) as_i64))"

definition normalize_response :: "'s ext \<Rightarrow> json \<Rightarrow> (license_api_response, license_error) result" where
  "normalize_response x value =
     and_then (ok_or (Serde (''resposta inv'' @ u_aacute @ ''lida da API de licen'' @ u_ccedil @ ''a'')) (as_object value)) (\<lambda>obj.
       if obj_get obj ''license'' \<noteq> None \<or> obj_get obj ''status'' \<noteq> None
       then Ok \<lparr>ar_status = get_status obj ''status'', ar_message = get_str obj [''message''],
                ar_license = (case obj_get obj ''license'' of
                                Some l \<Rightarrow> normalize_license x l
                              | None \<Rightarrow> normalize_license x value)\<rparr>
       else Ok \<lparr>ar_status = get_status obj ''STATUS'', ar_message = get_str obj [''MESSAGE''],
                ar_license = normalize_license x value\<rparr>)"

definition normalize_activation_decision ::
  "'s ext \<Rightarrow> json \<Rightarrow> (license_decision, license_error) result" where
  "normalize_activation_decision x value =
     and_then (ok_or (Serde (''resposta inv'' @ u_aacute @ ''lida da API de ativa'' @ u_ccedil @ u_atilde @ ''o'')) (as_object value)) (\<lambda>obj.
       Ok \<lparr>ld_allowed =
             (case get_bool obj ''success'' of
                Some b \<Rightarrow> b
              | None \<Rightarrow> unwrap_or False (get_bool obj ''allowed'')),
           ld_decision =
             unwrap_or (if unwrap_or False (get_bool obj ''allowed'') then ''allowed'' else ''denied'')
               (get_str obj [''decision'']),
           ld_reason_code = get_str obj [''reason_code''],
           ld_step = get_str obj [''step''],
           ld_message =
             unwrap_or (''resposta recebida da API de ativa'' @ u_ccedil @ u_atilde @ ''o'') (get_str obj [''message'']),
           ld_used_offline_cache = False,
           ld_warning = get_str obj [''warning''],
           ld_license = map_option (normalize_license x) (obj_get obj ''license''),
           ld_application_license =
             map_option (normalize_application_license x) (obj_get obj ''application_license''),
           ld_company = map_option normalize_company (obj_get obj ''company''),
           ld_device = map_option normalize_device (obj_get obj ''device''),
           ld_offline = map_option (normalize_offline x) (obj_get obj ''offline''),
           ld_diagnostics = [],
           ld_source = ''online''\<rparr>)"

subsection \<open>Requests\<close>

definition guard :: "license_config \<Rightarrow> (unit, license_error) result" where
  "guard cfg =
     (if trim (lc_base_url cfg) = []
      then Err (Config (''base_url da licen'' @ u_ccedil @ ''a n'' @ u_atilde @ ''o informada'')) else Ok ())"

definition url :: "license_config \<Rightarrow> string \<Rightarrow> string" where
  "url cfg endpoint =
     trim_end_matches (CHR ''/'') (lc_base_url cfg) @ ''/'' @ trim_start_matches (CHR ''/'') endpoint"

definition with_auth :: "license_config \<Rightarrow> string option" where
  "with_auth cfg =
     (case lc_api_token cfg of
        Some token \<Rightarrow> (if trim token = [] then None else Some token)
      | None \<Rightarrow> None)"

definition json_headers :: "(string \<times> string) list" where
  "json_headers = [(''Accept'', ''application/json''), (''Content-Type'', ''application/json'')]"

definition mk_request ::
  "license_config \<Rightarrow> http_method \<Rightarrow> string \<Rightarrow> (string \<times> string) list \<Rightarrow> json option \<Rightarrow> http_request" where
  "mk_request cfg meth endpoint headers body =
     \<lparr>rq_method = meth, rq_url = url cfg endpoint, rq_bearer = with_auth cfg,
      rq_headers = headers, rq_body = body\<rparr>"

abbreviation js_default :: "string option \<Rightarrow> json" where
  "js_default f \<equiv> JStr (unwrap_or [] f)"

definition resolve_payload :: "license_config \<Rightarrow> license_check_input \<Rightarrow> json" where
  "resolve_payload cfg i =
     JObj
       [(''app'', JObj
          [(''slug'', JStr (unwrap_or (li_app_id i) (li_app_slug i))),
           (''app_id'', JStr (li_app_id i)),
           (''name'', JStr (li_app_name i)),
           (''version'', JStr (li_app_version i))]),
        (''company'', JObj
          [(''document'', JStr (li_company_document i)),
           (''email'', js_opt (li_company_email i)),
           (''legal_name'', js_opt (or_else (li_company_legal_name i) (li_company_name i))),
           (''trade_name'', js_opt (li_company_name i))]),
        (''device'', JObj
          [(''fingerprint'', js_opt (li_device_key i)),
           (''station_name'', js_opt (or_else (li_station_name i) (li_device_name i))),
           (''hostname'', js_opt (li_hostname i)),
           (''computer_name'', js_opt (li_computer_name i)),
           (''serial_number'', js_opt (li_serial_number i)),
           (''machine_guid'', js_opt (li_machine_guid i)),
           (''bios_serial'', js_opt (li_bios_serial i)),
           (''motherboard_serial'', js_opt (li_motherboard_serial i)),
           (''logged_user'', js_opt (li_logged_user i)),
           (''os_name'', js_opt (li_os_name i)),
           (''os_version'', js_opt (li_os_version i)),
           (''os_arch'', js_opt (li_os_arch i)),
           (''domain_name'', js_opt (li_domain_name i)),
           (''mac_addresses'', js_strs (li_mac_addresses i)),
           (''install_mode'', js_opt (li_install_mode i))]),
        (''registration_file'', JObj
          [(''present'', JBool (li_registration_file_content_b64 i \<noteq> None)),
           (''file_path'', js_opt (li_registration_file_path i)),
           (''content_b64'', js_opt (li_registration_file_content_b64 i)),
           (''verified'', js_bool_opt (li_registration_file_verified i))]),
        (''options'', JObj
          [(''allow_company_auto_create'',
              JBool (unwrap_or (lc_auto_register_company_on_missing cfg) (li_allow_company_auto_create i))),
           (''allow_device_auto_create'',
              JBool (unwrap_or (lc_auto_register_device_on_missing cfg) (li_allow_device_auto_create i))),
           (''allow_device_auto_update'',
              JBool (unwrap_or (lc_auto_update_device_name cfg) (li_allow_device_auto_update i))),
           (''requested_licenses'', js_u32_opt (li_requested_licenses i)),
           (''validation_mode'', js_opt (li_validation_mode i)),
           (''interface_mode'', js_opt (li_interface_mode i)),
           (''local_license_mode'', js_opt (li_local_license_mode i)),
           (''device_identifier'', js_opt (li_device_identifier i))]),
        (''metadata'', js_map (li_metadata i))]"

definition register_company_payload :: "string \<Rightarrow> license_check_input \<Rightarrow> json" where
  "register_company_payload now i =
     JObj
       [(''DATACAD'', JStr now),
        (''CNPJ'', JStr (li_company_document i)),
        (''EMP_EMAIL'', js_default (li_company_email i)),
        (''RAZAOSOCIAL'', js_default (or_else (li_company_legal_name i) (li_company_name i))),
        (''EMP_NOMEFANTASIA'', js_default (li_company_name i)),
        (''ATIVO'', JStr ''S''),
        (''BLOQUEADO'', JStr ''N''),
        (''QTD_MAQ'', JNum (JInt (uint (unwrap_or 0 (li_requested_licenses i))))),
        (''N_MAQUINAS'', JNum (JInt (uint (unwrap_or 0 (li_requested_licenses i))))),
        (''APP_INSTANCE'', JStr (unwrap_or (li_app_id i) (li_app_slug i))),
        (''MODO_VALIDACAO'', js_default (li_validation_mode i))]"

definition register_device_payload :: "license_check_input \<Rightarrow> json" where
  "register_device_payload i =
     JObj
       [(''CNPJ'', JStr (li_company_document i)),
        (''CHAVE'', js_default (li_device_key i)),
        (''NOME'', js_default (or_else (li_station_name i) (li_device_name i))),
        (''NOMEMAQ'', js_default (or_else (li_station_name i) (li_device_name i))),
        (''nome_compu'', js_default (or_else (li_computer_name i) (li_hostname i))),
        (''BLOQUEADO'', JStr ''N''),
        (''versaoexe'', JStr (li_app_version i)),
        (''observacao'', JStr (li_app_name i)),
        (''sistema_operacional'', js_default (or_else (li_os_version i) (li_os_name i))),
        (''tipo'', js_default (li_install_mode i)),
        (''Cod_ace_Remoto'', js_default (li_domain_name i)),
        (''Prog_acesso'', js_default (li_logged_user i)),
        (''tecnico_instalacao'', js_default (li_logged_user i)),
        (''serial_number'', js_default (li_serial_number i)),
        (''machine_guid'', js_default (li_machine_guid i)),
        (''bios_serial'', js_default (li_bios_serial i)),
        (''motherboard_serial'', js_default (li_motherboard_serial i)),
        (''hostname'', js_default (li_hostname i)),
        (''station_name'', js_default (li_station_name i)),
        (''device_identifier'', js_default (li_device_identifier i)),
        (''full_device_name'', js_default (li_device_name i)),
        (''app_slug'', js_default (li_app_slug i)),
        (''validation_mode'', js_default (li_validation_mode i))]"

definition update_device_payload :: "license_check_input \<Rightarrow> json" where
  "update_device_payload i =
     JObj
       [(''NOME'', js_default (or_else (li_station_name i) (li_device_name i))),
        (''NOMEMAQ'', js_default (or_else (li_station_name i) (li_device_name i))),
        (''nome_compu'', js_default (or_else (li_computer_name i) (li_hostname i))),
        (''versaoexe'', JStr (li_app_version i)),
        (''sistema_operacional'', js_default (or_else (li_os_version i) (li_os_name i))),
        (''serial_number'', js_default (li_serial_number i)),
        (''hostname'', js_default (li_hostname i)),
        (''machine_guid'', js_default (li_machine_guid i)),
        (''bios_serial'', js_default (li_bios_serial i)),
        (''motherboard_serial'', js_default (li_motherboard_serial i))]"

subsection \<open>Exchanges\<close>

text \<open>The part of \<^verbatim>\<open>post_legacy\<close> and \<^verbatim>\<open>update_device_name\<close> after the request is built.\<close>

definition send_expecting_success ::
  "'s ext \<Rightarrow> http_request \<Rightarrow> 's world \<Rightarrow> (unit, license_error) result \<times> 's world" where
  "send_expecting_success x rq w =
     (case http_send x rq w of
        (Inl e, w') \<Rightarrow> (Err (Http e), w')
      | (Inr resp, w') \<Rightarrow>
          (if is_success (rs_status resp) then (Ok (), w')
           else (Err (Http (''HTTP '' @ x_status_text x (rs_status resp))), w')))"

definition post_legacy ::
  "'s ext \<Rightarrow> license_config \<Rightarrow> string \<Rightarrow> json \<Rightarrow> 's world \<Rightarrow> (unit, license_error) result \<times> 's world" where
  "post_legacy x cfg endpoint payload w =
     send_expecting_success x (mk_request cfg POST endpoint json_headers (Some payload)) w"

definition activation_failure :: "'s ext \<Rightarrow> nat \<Rightarrow> json \<Rightarrow> license_error" where
  "activation_failure x status value =
     Structured
       (unwrap_or ''resolve_activation'' (Option.bind (json_get value ''step'') as_str))
       (unwrap_or ''ACTIVATION_RESOLVE_FAILED'' (Option.bind (json_get value ''reason_code'') as_str))
       (''HTTP '' @ x_status_text x status @ '' - '' @
          unwrap_or (''falha ao resolver ativa'' @ u_ccedil @ u_atilde @ ''o'')
            (Option.bind (or_else (json_get value ''message'') (json_get value ''error'')) as_str))"

definition resolve_activation ::
  "'s ext \<Rightarrow> license_config \<Rightarrow> license_check_input \<Rightarrow> 's world
   \<Rightarrow> (license_decision, license_error) result \<times> 's world" where
  "resolve_activation x cfg i w =
     (case guard cfg of
        Inl e \<Rightarrow> (Err e, w)
      | Inr _ \<Rightarrow>
          (case http_send x (mk_request cfg POST (lc_resolve_activation_endpoint cfg) json_headers
                   (Some (resolve_payload cfg i))) w of
             (Inl e, w') \<Rightarrow> (Err (Http e), w')
           | (Inr resp, w') \<Rightarrow>
               (if rs_status resp = 404 \<or> rs_status resp = 405
                then (Err (EndpointUnavailable
                        (''endpoint '' @ lc_resolve_activation_endpoint cfg @ ('' n'' @ u_atilde @ ''o dispon'' @ u_iacute @ ''vel''))), w')
                else case rs_json resp of
                       Inl e \<Rightarrow> (Err (Serde e), w')
                     | Inr value \<Rightarrow>
                         (if \<not> is_success (rs_status resp)
                          then (Err (activation_failure x (rs_status resp) value), w')
                          else (normalize_activation_decision x value, w')))))"

definition company_status ::
  "'s ext \<Rightarrow> license_config \<Rightarrow> string \<Rightarrow> 's world
   \<Rightarrow> (license_api_response, license_error) result \<times> 's world" where
  "company_status x cfg document w =
     (case guard cfg of
        Inl e \<Rightarrow> (Err e, w)
      | Inr _ \<Rightarrow>
          (case http_send x (mk_request cfg GET (replace (lc_status_endpoint cfg) ''{document}'' document)
                   [(''Accept'', ''application/json'')] None) w of
             (Inl e, w') \<Rightarrow> (Err (Http e), w')
           | (Inr resp, w') \<Rightarrow>
               (if \<not> is_success (rs_status resp)
                then (Err (Http (''HTTP '' @ x_status_text x (rs_status resp))), w')
                else case rs_json resp of
                       Inl e \<Rightarrow> (Err (Serde e), w')
                     | Inr value \<Rightarrow> (normalize_response x value, w'))))"

definition register_company ::
  "'s ext \<Rightarrow> license_config \<Rightarrow> license_check_input \<Rightarrow> 's world
   \<Rightarrow> (unit, license_error) result \<times> 's world" where
  "register_company x cfg i w =
     (case guard cfg of
        Inl e \<Rightarrow> (Err e, w)
      | Inr _ \<Rightarrow>
          (case local_now_text x w of
             (now, w') \<Rightarrow>
               post_legacy x cfg (lc_register_company_endpoint cfg) (register_company_payload now i) w'))"

definition register_device ::
  "'s ext \<Rightarrow> license_config \<Rightarrow> license_check_input \<Rightarrow> 's world
   \<Rightarrow> (unit, license_error) result \<times> 's world" where
  "register_device x cfg i w =
     (case guard cfg of
        Inl e \<Rightarrow> (Err e, w)
      | Inr _ \<Rightarrow> post_legacy x cfg (lc_register_device_endpoint cfg) (register_device_payload i) w)"

definition update_device_name ::
  "'s ext \<Rightarrow> license_config \<Rightarrow> string \<Rightarrow> license_check_input \<Rightarrow> 's world
   \<Rightarrow> (unit, license_error) result \<times> 's world" where
  "update_device_name x cfg device_id i w =
     (case guard cfg of
        Inl e \<Rightarrow> (Err e, w)
      | Inr _ \<Rightarrow>
          send_expecting_success x
            (mk_request cfg PUT (replace (lc_update_device_endpoint cfg) ''{id}'' device_id)
               json_headers (Some (update_device_payload i))) w)"

subsection \<open>The contract of an exchange\<close>

text \<open>
  Every operation of the client only sends requests addressed below the configured base
  URL and carrying the configured bearer token (and none when the token is blank), does
  not touch the cache files, and does nothing at all when the guard fails.
\<close>

definition request_ok :: "license_config \<Rightarrow> http_request \<Rightarrow> bool" where
  "request_ok cfg rq \<longleftrightarrow>
     rq_bearer rq = with_auth cfg \<and>
     starts_with (rq_url rq) (trim_end_matches (CHR ''/'') (lc_base_url cfg) @ ''/'')"

lemma request_ok_mk [simp]: "request_ok cfg (mk_request cfg m e h b)"
  by (simp add: request_ok_def mk_request_def url_def starts_with_iff)

locale client_op =
  fixes cfg :: license_config
    and op :: "'s world \<Rightarrow> 'a \<times> 's world"
  assumes op_log: "extends_log (request_ok cfg) w (snd (op w))"
    and op_files: "w_files (snd (op w)) = w_files w"
    and op_guarded: "guard cfg = Err e \<Longrightarrow> snd (op w) = w"
begin

lemma op_log_then:
  "extends_log (request_ok cfg) (snd (op w)) w' \<Longrightarrow> extends_log (request_ok cfg) w w'"
  using op_log by (rule extends_log_trans)

lemma op_silent: "guard cfg = Err e \<Longrightarrow> w_log (snd (op w)) = w_log w"
  by (simp add: op_guarded)

lemma op_result_log: "op w = (r, w') \<Longrightarrow> extends_log (request_ok cfg) w w'"
  using op_log [of w] by simp

lemma op_result_files: "op w = (r, w') \<Longrightarrow> w_files w' = w_files w"
  using op_files [of w] by simp

end

lemma send_expecting_success_frame:
  "w_log (snd (send_expecting_success x rq w)) = w_log w @ [rq]"
  "w_files (snd (send_expecting_success x rq w)) = w_files w"
  by (auto simp: send_expecting_success_def http_send_def split: prod.splits sum.splits)

lemma extends_log_snoc: "w_log w' = w_log w @ [rq] \<Longrightarrow> P rq \<Longrightarrow> extends_log P w w'"
  by (auto simp: extends_log_def)

lemma resolve_activation_frame:
  "guard cfg = Ok () \<Longrightarrow> w_log (snd (resolve_activation x cfg i w)) =
     w_log w @ [mk_request cfg POST (lc_resolve_activation_endpoint cfg) json_headers
                  (Some (resolve_payload cfg i))]"
  "w_files (snd (resolve_activation x cfg i w)) = w_files w"
  by (auto simp: resolve_activation_def http_send_def split: prod.splits sum.splits)

lemma company_status_frame:
  "guard cfg = Ok () \<Longrightarrow> w_log (snd (company_status x cfg d w)) =
     w_log w @ [mk_request cfg GET (replace (lc_status_endpoint cfg) ''{document}'' d)
                  [(''Accept'', ''application/json'')] None]"
  "w_files (snd (company_status x cfg d w)) = w_files w"
  by (auto simp: company_status_def http_send_def split: prod.splits sum.splits)

lemma guard_cases: "guard cfg = Ok () \<or> (\<exists>e. guard cfg = Err e)"
  by (auto simp: guard_def)

interpretation ra: client_op cfg "resolve_activation x cfg i" for x cfg i
proof
  fix w
  show "extends_log (request_ok cfg) w (snd (resolve_activation x cfg i w))"
  proof (cases "guard cfg = Ok ()")
    case True
    then show ?thesis
      using resolve_activation_frame(1) [OF True, of x i w] by (auto intro: extends_log_snoc)
  next
    case False
    then obtain e where "guard cfg = Err e" using guard_cases by blast
    then show ?thesis by (simp add: resolve_activation_def)
  qed
qed (rule resolve_activation_frame(2), simp add: resolve_activation_def)

interpretation cs: client_op cfg "company_status x cfg d" for x cfg d
proof
  fix w
  show "extends_log (request_ok cfg) w (snd (company_status x cfg d w))"
  proof (cases "guard cfg = Ok ()")
    case True
    then show ?thesis
      using company_status_frame(1) [OF True, of x d w] by (auto intro: extends_log_snoc)
  next
    case False
    then obtain e where "guard cfg = Err e" using guard_cases by blast
    then show ?thesis by (simp add: company_status_def)
  qed
qed (rule company_status_frame(2), simp add: company_status_def)

interpretation rd: client_op cfg "register_device x cfg i" for x cfg i
  by unfold_locales
    (auto simp: register_device_def post_legacy_def send_expecting_success_frame
       intro: extends_log_snoc [OF send_expecting_success_frame(1)] split: sum.splits)

interpretation ud: client_op cfg "update_device_name x cfg d i" for x cfg d i
  by unfold_locales
    (auto simp: update_device_name_def send_expecting_success_frame
       intro: extends_log_snoc [OF send_expecting_success_frame(1)] split: sum.splits)

lemma register_company_log:
  assumes "guard cfg = Ok ()"
  shows "\<exists>rq. request_ok cfg rq \<and> rq_url rq = url cfg (lc_register_company_endpoint cfg) \<and>
    w_log (snd (register_company x cfg i w)) = w_log w @ [rq]"
proof -
  obtain now w' where now: "local_now_text x w = (now, w')" by (cases "local_now_text x w")
  then have "w_log w' = w_log w" using local_now_frame(1) [of x w] by simp
  with assms now show ?thesis
    by (intro exI [of _ "mk_request cfg POST (lc_register_company_endpoint cfg) json_headers
          (Some (register_company_payload now i))"])
      (simp add: register_company_def post_legacy_def send_expecting_success_frame mk_request_def
         request_ok_def url_def starts_with_iff)
qed

lemma register_company_files: "w_files (snd (register_company x cfg i w)) = w_files w"
proof -
  obtain now w' where now: "local_now_text x w = (now, w')" by (cases "local_now_text x w")
  then have "w_files w' = w_files w" using local_now_frame(2) [of x w] by simp
  with now show ?thesis
    by (auto simp: register_company_def post_legacy_def send_expecting_success_frame split: sum.splits)
qed

interpretation rc: client_op cfg "register_company x cfg i" for x cfg i
proof
  fix w
  show "extends_log (request_ok cfg) w (snd (register_company x cfg i w))"
  proof (cases "guard cfg = Ok ()")
    case True
    then show ?thesis
      using register_company_log [OF True, of x i w] by (auto intro: extends_log_snoc)
  next
    case False
    then obtain e where "guard cfg = Err e" using guard_cases by blast
    then show ?thesis by (simp add: register_company_def)
  qed
qed (rule register_company_files, simp add: register_company_def)

end
