(* ===== verification/License_Cache.thy ===== *)
theory License_Cache
  imports License_Client
begin

text \<open>
  The offline cache, \<^verbatim>\<open>generic-license-tauri/src/cache.rs\<close>: one JSON file per company
  document below the application's local data directory, in a directory per namespace,
  named by the SHA-256 of the document.
\<close>

definition sha_file_name :: "'s ext \<Rightarrow> string \<Rightarrow> string" where
  "sha_file_name x document = x_hex x (x_sha256 x document)"

definition cache_dir :: "os_env \<Rightarrow> string \<Rightarrow> (string, license_error) result" where
  "cache_dir os namespace =
     (case os_cache_dir os of
        None \<Rightarrow> Err (Io (''n'' @ u_atilde @ ''o foi poss'' @ u_iacute @ ''vel resolver o diret'' @ u_oacute @ ''rio de dados do app''))
      | Some dir \<Rightarrow> Ok (path_join (path_join dir ''offline'') namespace))"

definition file_path :: "'s ext \<Rightarrow> os_env \<Rightarrow> string \<Rightarrow> string \<Rightarrow> (string, license_error) result" where
  "file_path x os namespace document =
     and_then (cache_dir os namespace) (\<lambda>dir.
       Ok (path_join dir (sha_file_name x document @ ''.json'')))"

definition cache_write ::
  "'s ext \<Rightarrow> os_env \<Rightarrow> string \<Rightarrow> string \<Rightarrow> cached_license_file \<Rightarrow> 's world
   \<Rightarrow> (unit, license_error) result \<times> 's world" where
  "cache_write x os namespace document cached w =
     (case (file_path x os namespace document, cache_dir os namespace) of
        (Inl e, _) \<Rightarrow> (Err e, w)
      | (_, Inl e) \<Rightarrow> (Err e, w)
      | (Inr path, Inr parent) \<Rightarrow>
          (case x_mkdir_err x parent of
             Some e \<Rightarrow> (Err (Io e), w)
           | None \<Rightarrow>
               (case x_cached_to_json x cached of
                  Inl e \<Rightarrow> (Err (Serde e), w)
                | Inr json \<Rightarrow>
                    (case x_write_err x path of
                       Some e \<Rightarrow> (Err (Io e), w)
                     | None \<Rightarrow> (Ok (), w\<lparr>w_files := (w_files w)(path \<mapsto> json)\<rparr>)))))"

definition put_payload ::
  "'s ext \<Rightarrow> os_env \<Rightarrow> string \<Rightarrow> string \<Rightarrow> license_api_response \<Rightarrow> 's world
   \<Rightarrow> (unit, license_error) result \<times> 's world" where
  "put_payload x os namespace document payload w =
     (case utc_now x w of
        (now, w') \<Rightarrow>
          cache_write x os namespace document
            \<lparr>cf_cached_at = \<lparr>dt_nanos = now, dt_offset = 0\<rparr>, cf_decision = None,
             cf_payload = Some payload\<rparr> w')"

definition put_decision ::
  "'s ext \<Rightarrow> os_env \<Rightarrow> string \<Rightarrow> string \<Rightarrow> license_decision \<Rightarrow> 's world
   \<Rightarrow> (unit, license_error) result \<times> 's world" where
  "put_decision x os namespace document decision w =
     (case utc_now x w of
        (now, w') \<Rightarrow>
          cache_write x os namespace document
            \<lparr>cf_cached_at = \<lparr>dt_nanos = now, dt_offset = 0\<rparr>, cf_decision = Some decision,
             cf_payload = None\<rparr> w')"

definition cache_get ::
  "'s ext \<Rightarrow> os_env \<Rightarrow> string \<Rightarrow> string \<Rightarrow> 's world \<Rightarrow> (cached_license_file option, license_error) result" where
  "cache_get x os namespace document w =
     and_then (file_path x os namespace document) (\<lambda>path.
       case w_files w path of
         None \<Rightarrow> Ok None
       | Some text \<Rightarrow>
           (case x_read_err x path of
              Some e \<Rightarrow> Err (Io e)
            | None \<Rightarrow> and_then (map_err Serde (x_cached_of_json x text)) (\<lambda>c. Ok (Some c))))"

subsection \<open>Facts\<close>

lemma cache_write_log [simp]: "w_log (snd (cache_write x os ns d c w)) = w_log w"
  by (auto simp: cache_write_def split: prod.splits sum.splits option.splits)

lemma put_payload_log [simp]: "w_log (snd (put_payload x os ns d p w)) = w_log w"
  by (auto simp: put_payload_def dest: utc_nowD split: prod.splits)

lemma put_decision_log [simp]: "w_log (snd (put_decision x os ns d p w)) = w_log w"
  by (auto simp: put_decision_def dest: utc_nowD split: prod.splits)

text \<open>A write changes at most the file of its document.\<close>

lemma cache_write_frame:
  assumes "file_path x os ns d = Ok path" and "p \<noteq> path"
  shows "w_files (snd (cache_write x os ns d c w)) p = w_files w p"
  using assms by (auto simp: cache_write_def split: sum.splits option.splits)

lemma cache_write_no_dir:
  "file_path x os ns d = Err e \<Longrightarrow> cache_write x os ns d c w = (Err e, w)"
  by (simp add: cache_write_def)

lemma file_path_eq:
  "file_path x os ns d = Ok path \<Longrightarrow> file_path x os ns d' = Ok path' \<Longrightarrow>
   \<exists>dir. cache_dir os ns = Ok dir \<and> path = path_join dir (sha_file_name x d @ ''.json'') \<and>
     path' = path_join dir (sha_file_name x d' @ ''.json'')"
  by (cases "cache_dir os ns") (auto simp: file_path_def)

lemma cache_get_other:
  assumes "file_path x os ns d = Ok path" and "file_path x os ns d' = Ok path'" and "path \<noteq> path'"
  shows "cache_get x os ns d' (snd (cache_write x os ns d c w)) = cache_get x os ns d' w"
  using assms cache_write_frame [of x os ns d path path' c w]
  by (simp add: cache_get_def)

lemma cache_write_get:
  assumes "cache_write x os ns d c w = (Ok (), w')"
    and "\<And>text. x_cached_to_json x c = Ok text \<Longrightarrow> x_cached_of_json x text = Ok c"
    and "\<And>path. x_read_err x path = None"
  shows "cache_get x os ns d w' = Ok (Some c)"
  using assms by (auto simp: cache_write_def cache_get_def split: sum.splits option.splits)

end
