(* ===== verification/License_Service.thy ===== *)
theory License_Service
  imports License_Cache
begin

text \<open>
  The licence decision, \<^verbatim>\<open>generic-license-tauri/src/service.rs\<close> and the two commands of
  \<^verbatim>\<open>commands.rs\<close>. \<^verbatim>\<open>evaluate_legacy\<close> calls itself after a successful registration with
  whatever the server reports next, so its recursion is bounded only by the server; the
  model takes a fuel argument and answers \<open>None\<close> when it is spent. The theorems below say
  when fuel is enough and that, with a server that keeps denying what it acknowledged, no
  amount is.
\<close>

definition source_label :: "bool \<Rightarrow> string" where
  "source_label used_offline_cache = (if used_offline_cache then ''offline'' else ''online'')"

definition only_digits :: "string \<Rightarrow> string" where
  "only_digits value = filter is_ascii_digit value"

definition find_device :: "license_record \<Rightarrow> string \<Rightarrow> device_record option" where
  "find_device l key = find (\<lambda>d. unwrap_or [] (dr_device_key d) = key) (lr_devices l)"

definition diag :: "string \<Rightarrow> string \<Rightarrow> string \<Rightarrow> diagnostic_item" where
  "diag step code message = \<lparr>di_step = step, di_code = code, di_message = message\<rparr>"

definition application_from_legacy :: "license_record \<Rightarrow> application_license_record" where
  "application_from_legacy l =
     \<lparr>al_application_slug = lr_application_slug l,
      al_status = Some (if lr_blocked l then ''blocked''
                        else if lr_active l then ''active'' else ''inactive''),
      al_max_devices = lr_max_devices l,
      al_devices_in_use = lr_devices_in_use l,
      al_devices_available = lr_devices_available l,
      al_expires_at = lr_expires_at l\<rparr>"

definition company_from_legacy :: "license_record \<Rightarrow> company_record" where
  "company_from_legacy l =
     \<lparr>cr_id = None, cr_document = lr_document l, cr_legal_name = lr_company_name l,
      cr_email = lr_company_email l, cr_reused_existing = False\<rparr>"

definition deny ::
  "string \<Rightarrow> string \<Rightarrow> string \<Rightarrow> bool \<Rightarrow> license_record \<Rightarrow> device_record option
   \<Rightarrow> diagnostic_item list \<Rightarrow> license_decision" where
  "deny message reason_code step used_offline_cache l device diagnostics =
     \<lparr>ld_allowed = False, ld_decision = ''denied'', ld_reason_code = Some reason_code,
      ld_step = Some step, ld_message = message, ld_used_offline_cache = used_offline_cache,
      ld_warning = None, ld_license = Some l,
      ld_application_license = Some (application_from_legacy l),
      ld_company = Some (company_from_legacy l), ld_device = device,
      ld_offline = Some offline_decision_default, ld_diagnostics = diagnostics,
      ld_source = source_label used_offline_cache\<rparr>"

definition company_not_found ::
  "license_api_response \<Rightarrow> bool \<Rightarrow> diagnostic_item list \<Rightarrow> license_decision" where
  "company_not_found payload used_offline_cache diagnostics =
     deny (unwrap_or (''empresa n'' @ u_atilde @ ''o cadastrada no servi'' @ u_ccedil @ ''o de licenciamento'') (ar_message payload))
       ''COMPANY_NOT_FOUND'' ''resolve_company'' used_offline_cache (ar_license payload) None diagnostics"

text \<open>\<^verbatim>\<open>expires_at < Utc::now() && block_on_expired\<close>; the clock is read whenever there is a date.\<close>

definition expired_now ::
  "'s ext \<Rightarrow> license_config \<Rightarrow> license_record \<Rightarrow> 's world \<Rightarrow> bool \<times> 's world" where
  "expired_now x cfg l w =
     (case lr_expires_at l of
        None \<Rightarrow> (False, w)
      | Some t \<Rightarrow>
          (case utc_now x w of (now, w') \<Rightarrow> (dt_nanos t < now \<and> lc_block_on_expired cfg, w')))"

definition expiry_warning ::
  "'s ext \<Rightarrow> license_config \<Rightarrow> license_record \<Rightarrow> 's world \<Rightarrow> string option \<times> 's world" where
  "expiry_warning x cfg l w =
     (case lr_expires_at l of
        None \<Rightarrow> (None, w)
      | Some t \<Rightarrow>
          (case utc_now x w of
             (now, w') \<Rightarrow>
               (let days_left = num_days (dt_nanos t - now)
                in if 0 \<le> days_left \<and> days_left \<le> lc_warn_before_expiration_in_days cfg
                   then (Some ((''A licen'' @ u_ccedil @ ''a vence em '') @ show_int days_left @ '' dia(s).''), w')
                   else (None, w'))))"

definition grant ::
  "'s ext \<Rightarrow> license_config \<Rightarrow> license_api_response \<Rightarrow> bool \<Rightarrow> device_record option
   \<Rightarrow> diagnostic_item list \<Rightarrow> 's world \<Rightarrow> license_decision \<times> 's world" where
  "grant x cfg payload used_offline_cache device diagnostics w =
     (case expiry_warning x cfg (ar_license payload) w of
        (warning, w') \<Rightarrow>
          (\<lparr>ld_allowed = True, ld_decision = ''allowed'',
            ld_reason_code =
              Some (if used_offline_cache then ''ONLINE_VALIDATION_FAILED_USING_CACHE''
                    else ''LICENSE_VALID''),
            ld_step = Some ''validate_license'',
            ld_message =
              (if used_offline_cache then (''licen'' @ u_ccedil @ ''a validada com cache offline'')
               else (''licen'' @ u_ccedil @ ''a validada com sucesso'')),
            ld_used_offline_cache = used_offline_cache, ld_warning = warning,
            ld_license = Some (ar_license payload),
            ld_application_license = Some (application_from_legacy (ar_license payload)),
            ld_company = Some (company_from_legacy (ar_license payload)),
            ld_device = device, ld_offline = Some offline_decision_default,
            ld_diagnostics = diagnostics, ld_source = source_label used_offline_cache\<rparr>, w'))"

definition display_name :: "license_check_input \<Rightarrow> string" where
  "display_name i = unwrap_or [] (or_else (li_station_name i) (li_device_name i))"

text \<open>The optional renaming of a known device; a failure is only recorded.\<close>

definition auto_update ::
  "'s ext \<Rightarrow> license_config \<Rightarrow> license_check_input \<Rightarrow> device_record \<Rightarrow> 's world
   \<Rightarrow> diagnostic_item list \<times> 's world" where
  "auto_update x cfg i dev w =
     (if unwrap_or (lc_auto_update_device_name cfg) (li_allow_device_auto_update i)
      then case (dr_id dev, dr_device_name dev) of
             (Some did, Some name) \<Rightarrow>
               (if name \<noteq> display_name i
                then case update_device_name x cfg did i w of
                       (Inl err, w') \<Rightarrow>
                         ([diag ''update_device'' ''DEVICE_AUTO_UPDATE_FAILED'' (error_to_string err)], w')
                     | (Inr _, w') \<Rightarrow> ([], w')
                else ([], w))
           | _ \<Rightarrow> ([], w)
      else ([], w))"

text \<open>
  The end of the evaluation for a device the licence lists. The Rust functions below return
  a \<^verbatim>\<open>Result\<close>, but \<^verbatim>\<open>evaluate_legacy\<close> only ever builds its \<^verbatim>\<open>Ok\<close> variant, so the model
  returns the decision itself.
\<close>

definition known_device ::
  "'s ext \<Rightarrow> license_config \<Rightarrow> license_api_response \<Rightarrow> license_check_input \<Rightarrow> bool \<Rightarrow> device_record
   \<Rightarrow> 's world \<Rightarrow> license_decision \<times> 's world" where
  "known_device x cfg payload i used_offline_cache dev w =
     (if dr_blocked dev \<and> lc_block_on_device_blocked cfg
      then (deny (''dispositivo bloqueado para esta licen'' @ u_ccedil @ ''a'') ''DEVICE_BLOCKED'' ''validate_device''
              used_offline_cache (ar_license payload) (Some dev) [], w)
      else case auto_update x cfg i dev w of
             (diagnostics, w') \<Rightarrow> grant x cfg payload used_offline_cache (Some dev) diagnostics w')"

text \<open>The end of the evaluation for a device that is still unknown.\<close>

definition unknown_device ::
  "'s ext \<Rightarrow> license_config \<Rightarrow> license_api_response \<Rightarrow> bool \<Rightarrow> diagnostic_item list
   \<Rightarrow> 's world \<Rightarrow> license_decision \<times> 's world" where
  "unknown_device x cfg payload used_offline_cache diagnostics w =
     (if lc_block_on_device_missing cfg
      then (deny (''dispositivo n'' @ u_atilde @ ''o autorizado para esta licen'' @ u_ccedil @ ''a'') ''DEVICE_NOT_FOUND'' ''resolve_device''
              used_offline_cache (ar_license payload) None diagnostics, w)
      else grant x cfg payload used_offline_cache None diagnostics w)"

fun evaluate_legacy ::
  "'s ext \<Rightarrow> license_config \<Rightarrow> os_env \<Rightarrow> nat \<Rightarrow> license_api_response \<Rightarrow> license_check_input \<Rightarrow> bool
   \<Rightarrow> 's world \<Rightarrow> (license_decision \<times> 's world) option" where
  "evaluate_legacy x cfg os 0 payload i used_offline_cache w = None"
| "evaluate_legacy x cfg os (Suc fuel) payload i used_offline_cache w =
     (if ar_status payload = 0
      then if unwrap_or (lc_auto_register_company_on_missing cfg) (li_allow_company_auto_create i)
           then case register_company x cfg i w of
                  (Inl err, w1) \<Rightarrow>
                    Some (company_not_found payload used_offline_cache
                       [diag ''register_company'' ''COMPANY_AUTO_CREATE_FAILED'' (error_to_string err)], w1)
                | (Inr _, w1) \<Rightarrow>
                    (case company_status x cfg (li_company_document i) w1 of
                       (Inr registered, w2) \<Rightarrow>
                         evaluate_legacy x cfg os fuel registered i used_offline_cache
                           (snd (put_payload x os (lc_cache_namespace cfg) (li_company_document i) registered w2))
                     | (Inl _, w2) \<Rightarrow> Some (company_not_found payload used_offline_cache [], w2))
           else Some (company_not_found payload used_offline_cache [], w)
      else if lr_blocked (ar_license payload) \<and> lc_block_on_company_blocked cfg
      then Some (deny (''empresa bloqueada no servi'' @ u_ccedil @ ''o de licenciamento'') ''COMPANY_BLOCKED''
                   ''validate_company'' used_offline_cache (ar_license payload) None [], w)
      else case expired_now x cfg (ar_license payload) w of
             (True, w1) \<Rightarrow>
               Some (deny (''licen'' @ u_ccedil @ ''a expirada'') ''LICENSE_EXPIRED'' ''validate_license''
                       used_offline_cache (ar_license payload) None [], w1)
           | (False, w1) \<Rightarrow>
               (case find_device (ar_license payload) (unwrap_or [] (li_device_key i)) of
                  Some dev \<Rightarrow> Some (known_device x cfg payload i used_offline_cache dev w1)
                | None \<Rightarrow>
                    (if unwrap_or (lc_auto_register_device_on_missing cfg) (li_allow_device_auto_create i)
                     then case register_device x cfg i w1 of
                            (Inl err, w2) \<Rightarrow>
                              Some (unknown_device x cfg payload used_offline_cache
                                 [diag ''register_device'' ''DEVICE_AUTO_CREATE_FAILED'' (error_to_string err)] w2)
                          | (Inr _, w2) \<Rightarrow>
                              (case company_status x cfg (li_company_document i) w2 of
                                 (Inr registered, w3) \<Rightarrow>
                                   evaluate_legacy x cfg os fuel registered i used_offline_cache
                                     (snd (put_payload x os (lc_cache_namespace cfg) (li_company_document i) registered w3))
                               | (Inl _, w3) \<Rightarrow>
                                   Some (unknown_device x cfg payload used_offline_cache [] w3))
                     else Some (unknown_device x cfg payload used_offline_cache [] w1))))"

declare evaluate_legacy.simps [simp del]

text \<open>The input that stands for the caller when a cached legacy payload is evaluated offline.\<close>

definition offline_input :: "string \<Rightarrow> license_check_input" where
  "offline_input document =
     \<lparr>li_company_document = document, li_company_name = None, li_company_email = None,
      li_company_legal_name = None, li_app_id = [], li_app_name = [], li_app_version = [],
      li_app_slug = None, li_device_key = None, li_device_name = None, li_station_name = None,
      li_hostname = None, li_computer_name = None, li_serial_number = None,
      li_machine_guid = None, li_bios_serial = None, li_motherboard_serial = None,
      li_logged_user = None, li_os_name = None, li_os_version = None, li_os_arch = None,
      li_domain_name = None, li_mac_addresses = [], li_install_mode = None,
      li_registration_file_content_b64 = None, li_registration_file_path = None,
      li_registration_file_verified = None, li_allow_company_auto_create = None,
      li_allow_device_auto_create = None, li_allow_device_auto_update = None,
      li_requested_licenses = None, li_device_identifier = None, li_validation_mode = None,
      li_interface_mode = None, li_local_license_mode = None, li_metadata = [],
      li_login_context = False\<rparr>"

definition from_cached_decision :: "license_decision \<Rightarrow> license_decision" where
  "from_cached_decision d =
     d\<lparr>ld_used_offline_cache := True, ld_source := ''offline'',
       ld_reason_code :=
         (if ld_reason_code d = None then Some ''ONLINE_VALIDATION_FAILED_USING_CACHE''
          else ld_reason_code d)\<rparr>"

definition try_offline_cache_or_fail ::
  "'s ext \<Rightarrow> license_config \<Rightarrow> os_env \<Rightarrow> nat \<Rightarrow> string \<Rightarrow> license_error \<Rightarrow> 's world
   \<Rightarrow> ((license_decision, license_error) result \<times> 's world) option" where
  "try_offline_cache_or_fail x cfg os fuel document err w =
     (case cache_get x os (lc_cache_namespace cfg) document w of
        Inl e \<Rightarrow> Some (Err e, w)
      | Inr None \<Rightarrow>
          Some (Err (Structured ''offline_cache'' ''ONLINE_VALIDATION_FAILED_NO_CACHE''
                  (''falha online ('' @ error_to_string err @
                   ('') e n'' @ u_atilde @ ''o existe cache offline para esta licen'' @ u_ccedil @ ''a''))), w)
      | Inr (Some cached) \<Rightarrow>
          (case utc_now x w of
             (now, w') \<Rightarrow>
               (if lc_offline_max_age_days cfg < num_days (now - dt_nanos (cf_cached_at cached))
                then Some (Err (Structured ''offline_cache'' ''OFFLINE_CACHE_EXPIRED''
                             ''falha online e o cache offline expirou''), w')
                else case cf_decision cached of
                       Some d \<Rightarrow> Some (Ok (from_cached_decision d), w')
                     | None \<Rightarrow>
                         (case cf_payload cached of
                            Some payload \<Rightarrow>
                              map_option (\<lambda>(d, w'').
                                  (Ok (d\<lparr>ld_reason_code := Some ''ONLINE_VALIDATION_FAILED_USING_CACHE'',
                                         ld_source := ''offline''\<rparr>), w''))
                                (evaluate_legacy x cfg os fuel payload (offline_input document) True w')
                          | None \<Rightarrow> Some (Err err, w')))))"

text \<open>The legacy half of \<^verbatim>\<open>check\<close>: company status, evaluation, caching.\<close>

definition check_legacy ::
  "'s ext \<Rightarrow> license_config \<Rightarrow> os_env \<Rightarrow> nat \<Rightarrow> license_check_input \<Rightarrow> 's world
   \<Rightarrow> ((license_decision, license_error) result \<times> 's world) option" where
  "check_legacy x cfg os fuel i w =
     (case company_status x cfg (li_company_document i) w of
        (Inl err, w') \<Rightarrow> try_offline_cache_or_fail x cfg os fuel (li_company_document i) err w'
      | (Inr payload, w') \<Rightarrow>
          map_option (\<lambda>(d, w''').
              (Ok d, snd (put_decision x os (lc_cache_namespace cfg) (li_company_document i) d w''')))
            (evaluate_legacy x cfg os fuel payload i False
               (snd (put_payload x os (lc_cache_namespace cfg) (li_company_document i) payload w'))))"

definition check_prepared ::
  "'s ext \<Rightarrow> license_config \<Rightarrow> os_env \<Rightarrow> nat \<Rightarrow> license_check_input \<Rightarrow> 's world
   \<Rightarrow> ((license_decision, license_error) result \<times> 's world) option" where
  "check_prepared x cfg os fuel i w =
     (if li_company_document i = []
      then Some (Err (Invalid (''documento da empresa n'' @ u_atilde @ ''o informado'')), w)
      else if lc_prefer_resolve_activation cfg
      then case resolve_activation x cfg i w of
             (Inr d, w') \<Rightarrow>
               Some (Ok d, snd (put_decision x os (lc_cache_namespace cfg) (li_company_document i) d w'))
           | (Inl err, w') \<Rightarrow>
               (if \<not> lc_allow_legacy_fallback cfg
                then try_offline_cache_or_fail x cfg os fuel (li_company_document i) err w'
                else check_legacy x cfg os fuel i w')
      else check_legacy x cfg os fuel i w)"

definition check ::
  "'s ext \<Rightarrow> license_config \<Rightarrow> os_env \<Rightarrow> nat \<Rightarrow> license_check_input \<Rightarrow> 's world
   \<Rightarrow> ((license_decision, license_error) result \<times> 's world) option" where
  "check x cfg os fuel input w =
     (let i = enrich_input x os (input\<lparr>li_company_document := only_digits (li_company_document input)\<rparr>)
      in case enrich_input_from_registration_file x cfg os i of
           (Inl e, _) \<Rightarrow> Some (Err e, w)
         | (Inr _, j) \<Rightarrow> check_prepared x cfg os fuel j w)"

definition license_check ::
  "'s ext \<Rightarrow> license_config \<Rightarrow> os_env \<Rightarrow> nat \<Rightarrow> license_check_input \<Rightarrow> 's world
   \<Rightarrow> ((license_decision, string) result \<times> 's world) option" where
  "license_check x cfg os fuel input w =
     map_option (\<lambda>(r, w'). (map_err error_to_string r, w')) (check x cfg os fuel input w)"

definition license_check_structured ::
  "'s ext \<Rightarrow> license_config \<Rightarrow> os_env \<Rightarrow> nat \<Rightarrow> license_check_input \<Rightarrow> 's world
   \<Rightarrow> ((license_decision, serializable_error) result \<times> 's world) option" where
  "license_check_structured x cfg os fuel input w =
     map_option (\<lambda>(r, w'). (map_err serializable_of r, w')) (check x cfg os fuel input w)"

end
