(* ===== verification/License_Instances.thy ===== *)
theory License_Instances
  imports License_Service
begin

text \<open>
  Concrete surroundings for the licensing crate: a machine, a licence server that answers
  every status query with a given JSON value and acknowledges everything else, a clock
  that stands still, and a small input. The properties are applied to them to show that
  their hypotheses can hold together.
\<close>

definition demo_os :: os_env where
  "demo_os =
     \<lparr>os_platform = Linux, os_hostname = Some ''host'', os_vars = (\<lambda>_. None),
      os_const_os = ''linux'', os_const_arch = ''x86_64'', os_fs = (\<lambda>_. Absent),
      os_net_entries = None, os_current_exe = None, os_exe_parent = None,
      os_current_dir = None, os_base_dirs = None, os_project_dirs = None,
      os_cache_dir = Some ''/data''\<rparr>"

definition demo_server :: "json \<Rightarrow> unit ext" where
  "demo_server answer =
     \<lparr>x_http = (\<lambda>rq s. (Ok \<lparr>rs_status = 200, rs_json = Ok (if rq_method rq = GET then answer else JObj [])\<rparr>, s)),
      x_now = (\<lambda>s. (100, s)),
      x_local_now = (\<lambda>s. (''2026-01-01 00:00:00'', s)),
      x_status_text = show_nat,
      x_sha256 = (\<lambda>s. s),
      x_hex = (\<lambda>s. CHR ''h'' # s),
      x_b64_encode = (\<lambda>s. s),
      x_b64_decode = (\<lambda>s. Ok s),
      x_json_of_slice = (\<lambda>_. None),
      x_json_to_vec = (\<lambda>_. Ok ''{}''),
      x_cached_to_json = (\<lambda>_. Err ''unsupported''),
      x_cached_of_json = (\<lambda>_. Err ''unsupported''),
      x_key_of_bytes = (\<lambda>k. Ok k),
      x_verify = (\<lambda>_ _ _. True),
      x_parse_rfc3339 = (\<lambda>_. None),
      x_parse_with_offset = (\<lambda>_ _. None),
      x_parse_naive = (\<lambda>_ _. None),
      x_local_single = (\<lambda>_. None),
      x_mkdir_err = (\<lambda>_. None),
      x_write_err = (\<lambda>_. None),
      x_read_err = (\<lambda>_. None)\<rparr>"

definition demo_world :: "unit world" where
  "demo_world = \<lparr>w_srv = (), w_files = (\<lambda>_. None), w_log = []\<rparr>"

definition demo_input :: license_check_input where
  "demo_input = (offline_input ''1'')\<lparr>li_device_key := Some ''k''\<rparr>"

definition demo_device :: device_record where
  "demo_device = device_record_default\<lparr>dr_device_key := Some ''k''\<rparr>"

definition demo_license :: license_record where
  "demo_license =
     license_record_default\<lparr>lr_devices := [demo_device],
       lr_expires_at := Some \<lparr>dt_nanos = 200, dt_offset = 0\<rparr>\<rparr>"

definition demo_payload :: license_api_response where
  "demo_payload = \<lparr>ar_status = 1, ar_message = None, ar_license = demo_license\<rparr>"

definition missing_payload :: license_api_response where
  "missing_payload = \<lparr>ar_status = 0, ar_message = None, ar_license = license_record_default\<rparr>"

text \<open>The configuration that talks to the legacy endpoints only.\<close>

definition legacy_config :: license_config where
  "legacy_config = license_config_default\<lparr>lc_base_url := ''http://l'', lc_prefer_resolve_activation := False,
     lc_enable_registration_file_lookup := False, lc_status_endpoint := ''s/{document}''\<rparr>"

definition active_answer :: json where
  "active_answer =
     JObj [(''status'', JNum (JInt 1)), (''devices'', JArr [JObj [(''device_key'', JStr ''k'')]])]"

definition unknown_answer :: json where
  "unknown_answer = JObj [(''status'', JNum (JInt 0))]"

lemmas demo_defs =
  demo_os_def demo_server_def demo_world_def demo_input_def demo_device_def demo_license_def
  demo_payload_def missing_payload_def legacy_config_def active_answer_def unknown_answer_def
  offline_input_def license_config_default_def license_record_default_def device_record_default_def

lemma legacy_guard: "guard legacy_config = Ok ()"
proof -
  have "trim ''http://l'' = ''http://l''" by (rule trim_graph) (simp_all add: graph_char_def)
  then show ?thesis by (simp add: guard_def legacy_config_def)
qed

lemma demo_http: "http_send (demo_server a) rq w =
  (Ok \<lparr>rs_status = 200, rs_json = Ok (if rq_method rq = GET then a else JObj [])\<rparr>,
   w\<lparr>w_srv := (), w_log := w_log w @ [rq]\<rparr>)"
  by (simp add: http_send_def demo_server_def)

lemma demo_register_company:
  "\<exists>w'. register_company (demo_server a) legacy_config i w = (Ok (), w')"
  by (simp add: register_company_def legacy_guard post_legacy_def send_expecting_success_def
      demo_http mk_request_def is_success_def split: prod.splits)

lemma demo_company_status:
  "\<exists>w'. company_status (demo_server a) legacy_config d w = (normalize_response (demo_server a) a, w')"
  by (simp add: company_status_def legacy_guard demo_http mk_request_def is_success_def)

lemma demo_active:
  "normalize_response (demo_server a) active_answer =
     Ok \<lparr>ar_status = 1, ar_message = None,
         ar_license = license_of_obj (demo_server a)
           [(''status'', JNum (JInt 1)), (''devices'', JArr [JObj [(''device_key'', JStr ''k'')]])]\<rparr>"
  by (simp add: normalize_response_def active_answer_def normalize_license_def get_status_def get_str_def)

lemma demo_active_device:
  "find_device (license_of_obj (demo_server a)
     [(''status'', JNum (JInt 1)), (''devices'', JArr [JObj [(''device_key'', JStr ''k'')]])]) ''k'' \<noteq> None"
  by (simp add: find_device_def license_of_obj_def license_devices_def normalize_device_def
      device_of_obj_def get_str_def)

lemma demo_unknown:
  "\<exists>r. normalize_response (demo_server a) unknown_answer = Ok r \<and> ar_status r = 0"
  by (simp add: normalize_response_def unknown_answer_def get_status_def)

end
