(* ===== verification/License_Decision.thy ===== *)
theory License_Decision
  imports License_Instances
begin

text \<open>
  Correctness of the licence decision. The first part turns the recursion of
  \<open>evaluate_legacy\<close> into rounds and a step relation; the second gives the specification
  of the decision (\<open>justified\<close>, \<open>legacy_verdict\<close>) and proves the evaluation against it;
  the third treats termination, the offline path and the whole \<open>check\<close>.
\<close>

subsection \<open>Frames\<close>

lemma expired_now_frame:
  "expired_now x cfg l w = (b, w') \<Longrightarrow> w_log w' = w_log w \<and> w_files w' = w_files w"
  by (auto simp: expired_now_def dest: utc_nowD split: option.splits prod.splits)

lemma expiry_warning_frame:
  "expiry_warning x cfg l w = (b, w') \<Longrightarrow> w_log w' = w_log w \<and> w_files w' = w_files w"
  by (auto simp: expiry_warning_def Let_def dest: utc_nowD split: option.splits prod.splits if_splits)

lemma grant_frame:
  "grant x cfg p u dev ds w = (d, w') \<Longrightarrow> w_log w' = w_log w \<and> w_files w' = w_files w"
  by (auto simp: grant_def dest: expiry_warning_frame split: prod.splits)

lemma grant_fields:
  assumes "grant x cfg p u dev ds w = (d, w')"
  shows "ld_allowed d" "ld_decision d = ''allowed''" "ld_license d = Some (ar_license p)"
    "ld_device d = dev" "ld_used_offline_cache d = u" "ld_source d = source_label u"
    "ld_reason_code d = Some (if u then ''ONLINE_VALIDATION_FAILED_USING_CACHE'' else ''LICENSE_VALID'')"
  using assms by (auto simp: grant_def split: prod.splits)

lemma auto_update_log:
  "auto_update x cfg i dev w = (ds, w') \<Longrightarrow> extends_log (request_ok cfg) w w'"
  by (auto simp: auto_update_def split: if_splits option.splits prod.splits sum.splits
      intro: ud.op_result_log)

lemma known_device_log:
  "known_device x cfg p i u dev w = (d, w') \<Longrightarrow> extends_log (request_ok cfg) w w'"
  by (auto simp: known_device_def dest!: grant_frame auto_update_log
      intro: extends_log_trans [OF _ extends_log_same] split: if_splits prod.splits)

lemma unknown_device_log:
  "unknown_device x cfg p u ds w = (d, w') \<Longrightarrow> extends_log (request_ok cfg) w w'"
  by (auto simp: unknown_device_def intro: extends_log_same dest!: grant_frame split: if_splits)

subsection \<open>Rounds\<close>

text \<open>
  One pass of \<open>evaluate_legacy\<close>: either it ends with a decision, or a registration was
  acknowledged and the evaluation starts over with the payload the server reports. The
  recursion is the iteration of this round, and every proof about it is a proof about
  one round.
\<close>

definition legacy_round ::
  "'s ext \<Rightarrow> license_config \<Rightarrow> os_env \<Rightarrow> license_check_input \<Rightarrow> bool \<Rightarrow> license_api_response \<Rightarrow> 's world
   \<Rightarrow> (license_decision \<times> 's world) + (license_api_response \<times> 's world)" where
  "legacy_round x cfg os i u p w =
     (let again = (\<lambda>r v. Inr (r, snd (put_payload x os (lc_cache_namespace cfg) (li_company_document i) r v)))
      in if ar_status p = 0
      then if unwrap_or (lc_auto_register_company_on_missing cfg) (li_allow_company_auto_create i)
           then case register_company x cfg i w of
                  (Inl err, w1) \<Rightarrow>
                    Inl (company_not_found p u
                       [diag ''register_company'' ''COMPANY_AUTO_CREATE_FAILED'' (error_to_string err)], w1)
                | (Inr _, w1) \<Rightarrow>
                    (case company_status x cfg (li_company_document i) w1 of
                       (Inr r, w2) \<Rightarrow> again r w2
                     | (Inl _, w2) \<Rightarrow> Inl (company_not_found p u [], w2))
           else Inl (company_not_found p u [], w)
      else if lr_blocked (ar_license p) \<and> lc_block_on_company_blocked cfg
      then Inl (deny (''empresa bloqueada no servi'' @ u_ccedil @ ''o de licenciamento'') ''COMPANY_BLOCKED''
                   ''validate_company'' u (ar_license p) None [], w)
      else case expired_now x cfg (ar_license p) w of
             (True, w1) \<Rightarrow>
               Inl (deny (''licen'' @ u_ccedil @ ''a expirada'') ''LICENSE_EXPIRED'' ''validate_license''
                       u (ar_license p) None [], w1)
           | (False, w1) \<Rightarrow>
               (case find_device (ar_license p) (unwrap_or [] (li_device_key i)) of
                  Some dev \<Rightarrow> Inl (known_device x cfg p i u dev w1)
                | None \<Rightarrow>
                    (if unwrap_or (lc_auto_register_device_on_missing cfg) (li_allow_device_auto_create i)
                     then case register_device x cfg i w1 of
                            (Inl err, w2) \<Rightarrow>
                              Inl (unknown_device x cfg p u
                                 [diag ''register_device'' ''DEVICE_AUTO_CREATE_FAILED'' (error_to_string err)] w2)
                          | (Inr _, w2) \<Rightarrow>
                              (case company_status x cfg (li_company_document i) w2 of
                                 (Inr r, w3) \<Rightarrow> again r w3
                               | (Inl _, w3) \<Rightarrow> Inl (unknown_device x cfg p u [] w3))
                     else Inl (unknown_device x cfg p u [] w1))))"

lemma evaluate_legacy_Suc:
  "evaluate_legacy x cfg os (Suc fuel) p i u w =
     (case legacy_round x cfg os i u p w of
        Inl r \<Rightarrow> Some r
      | Inr (p', w') \<Rightarrow> evaluate_legacy x cfg os fuel p' i u w')"
proof (cases "ar_status p = 0")
  case True
  then show ?thesis
    by (simp add: evaluate_legacy.simps(2) legacy_round_def Let_def split: prod.split sum.split)
next
  case False
  obtain b w1 where ex: "expired_now x cfg (ar_license p) w = (b, w1)"
    by (cases "expired_now x cfg (ar_license p) w")
  obtain r2 w2 where rdv: "register_device x cfg i w1 = (r2, w2)" by (cases "register_device x cfg i w1")
  obtain r3 w3 where st: "company_status x cfg (li_company_document i) w2 = (r3, w3)"
    by (cases "company_status x cfg (li_company_document i) w2")
  from False ex rdv st show ?thesis
    by (simp add: evaluate_legacy.simps(2) legacy_round_def Let_def split: sum.split option.split bool.split)
qed

lemma evaluate_legacy_0 [simp]: "evaluate_legacy x cfg os 0 p i u w = None"
  by (simp add: evaluate_legacy.simps)

text \<open>The step relation of restarts, and the states an evaluation can pass through.\<close>

inductive legacy_restart ::
  "'s ext \<Rightarrow> license_config \<Rightarrow> os_env \<Rightarrow> license_check_input \<Rightarrow> bool
   \<Rightarrow> license_api_response \<times> 's world \<Rightarrow> license_api_response \<times> 's world \<Rightarrow> bool"
  for x cfg os i u where
  restart: "legacy_round x cfg os i u p w = Inr (p', w') \<Longrightarrow> legacy_restart x cfg os i u (p, w) (p', w')"

inductive legacy_reach ::
  "'s ext \<Rightarrow> license_config \<Rightarrow> os_env \<Rightarrow> license_check_input \<Rightarrow> bool
   \<Rightarrow> license_api_response \<times> 's world \<Rightarrow> license_api_response \<times> 's world \<Rightarrow> bool"
  for x cfg os i u where
  here: "legacy_reach x cfg os i u s s"
| next_round: "legacy_reach x cfg os i u s t \<Longrightarrow> legacy_restart x cfg os i u t v \<Longrightarrow> legacy_reach x cfg os i u s v"

inductive_simps legacy_restart_iff: "legacy_restart x cfg os i u (p, w) s"

lemma legacy_reach_left:
  "legacy_reach x cfg os i u t v \<Longrightarrow> legacy_restart x cfg os i u s t \<Longrightarrow> legacy_reach x cfg os i u s v"
  by (induction rule: legacy_reach.induct) (auto intro: legacy_reach.intros)

text \<open>An evaluation that answers does so in the last round of a chain of restarts.\<close>

lemma evaluate_legacy_rounds:
  "evaluate_legacy x cfg os fuel p i u w = Some (d, w') \<Longrightarrow>
   \<exists>q v. legacy_reach x cfg os i u (p, w) (q, v) \<and> legacy_round x cfg os i u q v = Inl (d, w')"
proof (induction fuel arbitrary: p w)
  case (Suc fuel)
  show ?case
  proof (cases "legacy_round x cfg os i u p w")
    case (Inl r)
    with Suc.prems show ?thesis by (auto simp: evaluate_legacy_Suc intro: legacy_reach.here)
  next
    case (Inr r)
    obtain p' w1 where r: "r = (p', w1)" by (cases r)
    with Inr Suc.prems have "evaluate_legacy x cfg os fuel p' i u w1 = Some (d, w')"
      by (simp add: evaluate_legacy_Suc)
    then obtain q v where "legacy_reach x cfg os i u (p', w1) (q, v)"
      and fin: "legacy_round x cfg os i u q v = Inl (d, w')"
      using Suc.IH by blast
    moreover have "legacy_restart x cfg os i u (p, w) (p', w1)"
      using Inr r by (auto intro: legacy_restart.restart)
    ultimately show ?thesis using legacy_reach_left by blast
  qed
qed simp

lemma evaluate_legacy_mono:
  "evaluate_legacy x cfg os fuel p i u w = Some r \<Longrightarrow> evaluate_legacy x cfg os (fuel + k) p i u w = Some r"
proof (induction fuel arbitrary: p w)
  case (Suc fuel)
  then show ?case
    by (auto simp: evaluate_legacy_Suc split: sum.splits prod.splits)
qed simp


text \<open>Any operation of the round appends acceptable requests; the round composes them.\<close>

lemma expired_now_log: "expired_now x cfg l w = (b, w') \<Longrightarrow> extends_log P w w'"
  by (auto intro: extends_log_same dest: expired_now_frame)

lemma put_payload_extends: "extends_log P w (snd (put_payload x os ns d p w))"
  by (simp add: extends_log_same)

lemmas round_logs =
  rc.op_result_log cs.op_result_log rd.op_result_log known_device_log unknown_device_log

lemma register_company_then_status_log:
  assumes "register_company x cfg i w = (r1, w1)" and "company_status x cfg d w1 = (r2, w2)"
  shows "extends_log (request_ok cfg) w w2"
  using assms by (blast intro: extends_log_trans dest: round_logs)

lemma register_device_then_status_log:
  assumes "register_device x cfg i w = (r1, w1)" and "company_status x cfg d w1 = (r2, w2)"
  shows "extends_log (request_ok cfg) w w2"
  using assms by (blast intro: extends_log_trans dest: round_logs)

lemma legacy_round_log:
  assumes "legacy_round x cfg os i u p w = r"
  shows "extends_log (request_ok cfg) w (case r of Inl (d, v) \<Rightarrow> v | Inr (q, v) \<Rightarrow> v)"
proof (cases "ar_status p = 0")
  case True
  show ?thesis
  proof (cases "register_company x cfg i w")
    case (Pair r1 w1)
    show ?thesis
    proof (cases "company_status x cfg (li_company_document i) w1")
      case (Pair r2 w2)
      note both = register_company_then_status_log [OF \<open>register_company x cfg i w = (r1, w1)\<close> Pair]
      from assms True Pair \<open>register_company x cfg i w = (r1, w1)\<close> both show ?thesis
        by (auto simp: legacy_round_def Let_def
            intro: rc.op_result_log extends_log_trans [OF _ put_payload_extends]
            split: if_splits sum.splits)
    qed
  qed
next
  case False
  obtain b w1 where ex: "expired_now x cfg (ar_license p) w = (b, w1)"
    by (cases "expired_now x cfg (ar_license p) w")
  obtain r2 w2 where rdv: "register_device x cfg i w1 = (r2, w2)" by (cases "register_device x cfg i w1")
  obtain r3 w3 where st: "company_status x cfg (li_company_document i) w2 = (r3, w3)"
    by (cases "company_status x cfg (li_company_document i) w2")
  have "extends_log (request_ok cfg) w1 (case r of Inl (d, v) \<Rightarrow> v | Inr (q, v) \<Rightarrow> v)"
    if "\<not> (lr_blocked (ar_license p) \<and> lc_block_on_company_blocked cfg)"
    using assms False ex rdv st that register_device_then_status_log [OF rdv st]
    by (auto simp: legacy_round_def Let_def
        intro: round_logs extends_log_trans [OF _ put_payload_extends]
          extends_log_trans [OF rd.op_result_log unknown_device_log]
          extends_log_trans [OF register_device_then_status_log unknown_device_log]
        split: if_splits sum.splits option.splits bool.splits prod.splits)
  moreover have "extends_log (request_ok cfg) w w1" using ex by (rule expired_now_log)
  ultimately show ?thesis
    using assms False by (cases "lr_blocked (ar_license p) \<and> lc_block_on_company_blocked cfg")
      (auto simp: legacy_round_def Let_def intro: extends_log_trans)
qed

lemma legacy_reach_log:
  "legacy_reach x cfg os i u s t \<Longrightarrow> extends_log (request_ok cfg) (snd s) (snd t)"
proof (induction rule: legacy_reach.induct)
  case (next_round s t v)
  obtain p w q w' where "t = (p, w)" and "v = (q, w')" by (cases t, cases v)
  with next_round.hyps(2) have "legacy_round x cfg os i u p w = Inr (q, w')"
    by (simp add: legacy_restart_iff)
  then have "extends_log (request_ok cfg) w w'" using legacy_round_log by fastforce
  with next_round.IH \<open>t = (p, w)\<close> \<open>v = (q, w')\<close> show ?case by (auto intro: extends_log_trans)
qed simp

lemma evaluate_legacy_log:
  assumes "evaluate_legacy x cfg os fuel p i u w = Some (d, w')"
  shows "extends_log (request_ok cfg) w w'"
proof -
  from evaluate_legacy_rounds [OF assms] obtain q v
    where reach: "legacy_reach x cfg os i u (p, w) (q, v)"
      and fin: "legacy_round x cfg os i u q v = Inl (d, w')" by blast
  from legacy_reach_log [OF reach] have "extends_log (request_ok cfg) w v" by simp
  also from legacy_round_log [OF fin] have "extends_log (request_ok cfg) v w'" by simp
  finally show ?thesis .
qed

subsection \<open>The specification of the decision\<close>

definition clock_from :: "'s ext \<Rightarrow> int \<Rightarrow> bool" where
  "clock_from x T \<longleftrightarrow> (\<forall>s. T \<le> fst (x_now x s))"

definition justified :: "license_config \<Rightarrow> int \<Rightarrow> string \<Rightarrow> license_decision \<Rightarrow> bool" where
  "justified cfg T key d \<longleftrightarrow>
     (\<exists>l. ld_license d = Some l \<and>
        (lc_block_on_company_blocked cfg \<longrightarrow> \<not> lr_blocked l) \<and>
        (lc_block_on_expired cfg \<longrightarrow> (\<forall>t. lr_expires_at l = Some t \<longrightarrow> T \<le> dt_nanos t)) \<and>
        (case ld_device d of
           None \<Rightarrow> \<not> lc_block_on_device_missing cfg
         | Some dev \<Rightarrow>
             dev \<in> set (lr_devices l) \<and> unwrap_or [] (dr_device_key dev) = key \<and>
             (lc_block_on_device_blocked cfg \<longrightarrow> \<not> dr_blocked dev)))"

lemma deny_denied [simp]: "\<not> ld_allowed (deny m r s u l dev ds)"
  by (simp add: deny_def)

lemma company_not_found_denied [simp]: "\<not> ld_allowed (company_not_found p u ds)"
  by (simp add: company_not_found_def)

lemma utc_now_clock: "clock_from x T \<Longrightarrow> utc_now x w = (t, w') \<Longrightarrow> T \<le> t"
  by (auto simp: clock_from_def utc_now_def split: prod.splits) (metis fst_conv)

lemma not_expired:
  assumes "expired_now x cfg l w = (False, w')" and "clock_from x T"
    and "lc_block_on_expired cfg" and "lr_expires_at l = Some t"
  shows "T \<le> dt_nanos t"
proof -
  obtain now v where now: "utc_now x w = (now, v)" by (cases "utc_now x w")
  with assms have "\<not> dt_nanos t < now" by (auto simp: expired_now_def)
  with utc_now_clock [OF assms(2) now] show ?thesis by simp
qed

lemma find_device_Some:
  "find_device l key = Some dev \<Longrightarrow> dev \<in> set (lr_devices l) \<and> unwrap_or [] (dr_device_key dev) = key"
  by (auto simp: find_device_def find_Some_iff)

lemma known_device_allowed:
  assumes "known_device x cfg p i u dev w = (d, w')" and "ld_allowed d"
  shows "ld_license d = Some (ar_license p) \<and> ld_device d = Some dev \<and>
    (lc_block_on_device_blocked cfg \<longrightarrow> \<not> dr_blocked dev)"
  using assms by (auto simp: known_device_def dest: grant_fields split: if_splits prod.splits)

lemma unknown_device_allowed:
  assumes "unknown_device x cfg p u ds w = (d, w')" and "ld_allowed d"
  shows "ld_license d = Some (ar_license p) \<and> ld_device d = None \<and> \<not> lc_block_on_device_missing cfg"
  using assms by (auto simp: unknown_device_def dest: grant_fields split: if_splits)

lemma legacy_round_justified:
  assumes round: "legacy_round x cfg os i u p w = Inl (d, w')" and "ld_allowed d" and "clock_from x T"
  shows "justified cfg T (unwrap_or [] (li_device_key i)) d"
proof -
  have st: "ar_status p \<noteq> 0"
    using assms by (auto simp: legacy_round_def Let_def split: if_splits prod.splits sum.splits)
  moreover have bl: "\<not> (lr_blocked (ar_license p) \<and> lc_block_on_company_blocked cfg)"
    using assms st by (auto simp: legacy_round_def Let_def)
  moreover obtain b w1 where ex: "expired_now x cfg (ar_license p) w = (b, w1)"
    by (cases "expired_now x cfg (ar_license p) w")
  moreover have "\<not> b" using assms st bl ex by (auto simp: legacy_round_def Let_def)
  ultimately have outcome:
    "(\<exists>dev v. find_device (ar_license p) (unwrap_or [] (li_device_key i)) = Some dev \<and>
        known_device x cfg p i u dev v = (d, w')) \<or>
     (\<exists>ds v. unknown_device x cfg p u ds v = (d, w'))"
    using round by (auto simp: legacy_round_def Let_def split: if_splits prod.splits sum.splits option.splits)
  have fresh: "T \<le> dt_nanos t" if "lc_block_on_expired cfg" "lr_expires_at (ar_license p) = Some t" for t
    using not_expired [of x cfg "ar_license p" w w1 T t] ex \<open>\<not> b\<close> assms(3) that by simp
  from outcome show ?thesis
  proof (elim disjE exE conjE)
    fix dev v
    assume "find_device (ar_license p) (unwrap_or [] (li_device_key i)) = Some dev"
      and "known_device x cfg p i u dev v = (d, w')"
    with known_device_allowed [of x cfg p i u dev v d w'] find_device_Some assms(2) bl fresh
    show ?thesis by (auto simp: justified_def)
  next
    fix ds v
    assume "unknown_device x cfg p u ds v = (d, w')"
    with unknown_device_allowed [of x cfg p u ds v d w'] assms(2) bl fresh
    show ?thesis by (auto simp: justified_def)
  qed
qed

text \<open>C5. When the legacy evaluation allows, the licence it reports is not blocked, has not expired before any time the clock may have shown, and lists the device of the input, unblocked; each part holds as far as the configuration asks for it.\<close>

theorem legacy_allowed_justified:
  assumes "evaluate_legacy x cfg os fuel payload i used w = Some (d, w')"
    and "ld_allowed d" and "clock_from x T"
  shows "justified cfg T (unwrap_or [] (li_device_key i)) d"
  using evaluate_legacy_rounds [OF assms(1)] legacy_round_justified assms(2,3) by blast

lemma demo_evaluates:
  "\<exists>d w'. evaluate_legacy (demo_server JNull) license_config_default demo_os 1 demo_payload demo_input False demo_world
     = Some (d, w') \<and> ld_allowed d"
  by (simp add: evaluate_legacy.simps(2) expired_now_def find_device_def known_device_def auto_update_def
      grant_def expiry_warning_def utc_now_def Let_def demo_defs)

theorem legacy_allowed_justified_witness:
  "\<exists>d w'. evaluate_legacy (demo_server JNull) license_config_default demo_os 1 demo_payload demo_input False demo_world
     = Some (d, w') \<and> ld_allowed d \<and> justified license_config_default 100 ''k'' d"
proof -
  have clock: "clock_from (demo_server JNull) 100" by (simp add: clock_from_def demo_server_def)
  obtain d w' where ev: "evaluate_legacy (demo_server JNull) license_config_default demo_os 1 demo_payload demo_input False
      demo_world = Some (d, w')" and al: "ld_allowed d"
    using demo_evaluates by blast
  have "justified license_config_default 100 (unwrap_or [] (li_device_key demo_input)) d"
    by (rule legacy_allowed_justified [OF ev al clock])
  then have "justified license_config_default 100 ''k'' d" by (simp add: demo_input_def)
  with ev al show ?thesis by blast
qed

text \<open>The order of the checks, as a table.\<close>

datatype verdict = CompanyMissing | CompanyBlocked | LicenseExpired | DeviceMissing | DeviceBlocked | Valid

definition legacy_verdict :: "license_config \<Rightarrow> int \<Rightarrow> string \<Rightarrow> license_api_response \<Rightarrow> verdict" where
  "legacy_verdict cfg T key p =
     (let l = ar_license p in
      if ar_status p = 0 then CompanyMissing
      else if lc_block_on_company_blocked cfg \<and> lr_blocked l then CompanyBlocked
      else if lc_block_on_expired cfg \<and> (\<exists>t \<in> set_option (lr_expires_at l). dt_nanos t < T) then LicenseExpired
      else case find_device l key of
             None \<Rightarrow> (if lc_block_on_device_missing cfg then DeviceMissing else Valid)
           | Some dev \<Rightarrow> (if lc_block_on_device_blocked cfg \<and> dr_blocked dev then DeviceBlocked else Valid))"

fun verdict_reason :: "bool \<Rightarrow> verdict \<Rightarrow> string" where
  "verdict_reason u CompanyMissing = ''COMPANY_NOT_FOUND''"
| "verdict_reason u CompanyBlocked = ''COMPANY_BLOCKED''"
| "verdict_reason u LicenseExpired = ''LICENSE_EXPIRED''"
| "verdict_reason u DeviceMissing = ''DEVICE_NOT_FOUND''"
| "verdict_reason u DeviceBlocked = ''DEVICE_BLOCKED''"
| "verdict_reason u Valid = (if u then ''ONLINE_VALIDATION_FAILED_USING_CACHE'' else ''LICENSE_VALID'')"

definition no_registration :: "license_config \<Rightarrow> license_check_input \<Rightarrow> bool" where
  "no_registration cfg i \<longleftrightarrow>
     \<not> unwrap_or (lc_auto_register_company_on_missing cfg) (li_allow_company_auto_create i) \<and>
     \<not> unwrap_or (lc_auto_register_device_on_missing cfg) (li_allow_device_auto_create i)"

definition clock_at :: "'s ext \<Rightarrow> int \<Rightarrow> bool" where
  "clock_at x T \<longleftrightarrow> (\<forall>s. fst (x_now x s) = T)"

lemma expired_now_at:
  assumes "clock_at x T"
  shows "fst (expired_now x cfg l w) \<longleftrightarrow>
    lc_block_on_expired cfg \<and> (\<exists>t \<in> set_option (lr_expires_at l). dt_nanos t < T)"
proof (cases "lr_expires_at l")
  case (Some t)
  obtain now s where now: "x_now x (w_srv w) = (now, s)" by (cases "x_now x (w_srv w)")
  with assms have "now = T" by (metis clock_at_def fst_conv)
  with Some now show ?thesis by (auto simp: expired_now_def utc_now_def)
qed (simp add: expired_now_def)

lemma grant_reason:
  "grant x cfg p u dev ds w = (d, w') \<Longrightarrow> ld_allowed d \<and> ld_reason_code d = Some (verdict_reason u Valid)"
  using grant_fields(1,7) [of x cfg p u dev ds w d w'] by simp

lemma known_device_reason:
  "known_device x cfg p i u dev w = (d, w') \<Longrightarrow>
   ld_allowed d = (\<not> (dr_blocked dev \<and> lc_block_on_device_blocked cfg)) \<and>
   ld_reason_code d = Some (verdict_reason u
     (if lc_block_on_device_blocked cfg \<and> dr_blocked dev then DeviceBlocked else Valid))"
  by (auto simp: known_device_def deny_def dest!: grant_reason split: if_splits prod.splits)

lemma unknown_device_reason:
  "unknown_device x cfg p u ds w = (d, w') \<Longrightarrow>
   ld_allowed d = (\<not> lc_block_on_device_missing cfg) \<and>
   ld_reason_code d = Some (verdict_reason u
     (if lc_block_on_device_missing cfg then DeviceMissing else Valid))"
  by (auto simp: unknown_device_def deny_def dest!: grant_reason split: if_splits)

text \<open>C32. Without automatic registration, one round of the evaluation decides exactly as the table \<open>legacy_verdict\<close>: same answer and same reason code, with the checks in the order company, block, expiry, device.\<close>

theorem legacy_refines_verdict:
  assumes "no_registration cfg i" and "clock_at x T"
  shows "\<exists>d w'. evaluate_legacy x cfg os (Suc fuel) payload i used w = Some (d, w') \<and>
    (ld_allowed d \<longleftrightarrow> legacy_verdict cfg T (unwrap_or [] (li_device_key i)) payload = Valid) \<and>
    ld_reason_code d = Some (verdict_reason used (legacy_verdict cfg T (unwrap_or [] (li_device_key i)) payload))"
proof -
  let ?key = "unwrap_or [] (li_device_key i)"
  obtain b w1 where ex: "expired_now x cfg (ar_license payload) w = (b, w1)"
    by (cases "expired_now x cfg (ar_license payload) w")
  have b: "b \<longleftrightarrow> lc_block_on_expired cfg \<and>
      (\<exists>t \<in> set_option (lr_expires_at (ar_license payload)). dt_nanos t < T)"
    using expired_now_at [OF assms(2), of cfg "ar_license payload" w] ex by simp
  show ?thesis
  proof (cases "find_device (ar_license payload) ?key")
    case None
    obtain d w' where un: "unknown_device x cfg payload used [] w1 = (d, w')"
      by (cases "unknown_device x cfg payload used [] w1")
    from None ex b un unknown_device_reason [OF un] assms(1) show ?thesis
      by (auto simp: evaluate_legacy.simps(2) legacy_verdict_def Let_def no_registration_def
          company_not_found_def deny_def split: bool.splits)
  next
    case (Some dev)
    obtain d w' where kn: "known_device x cfg payload i used dev w1 = (d, w')"
      by (cases "known_device x cfg payload i used dev w1")
    from Some ex b kn known_device_reason [OF kn] assms(1) show ?thesis
      by (auto simp: evaluate_legacy.simps(2) legacy_verdict_def Let_def no_registration_def
          company_not_found_def deny_def split: bool.splits)
  qed
qed

theorem legacy_refines_verdict_witness:
  "\<exists>d w'. evaluate_legacy (demo_server JNull) license_config_default demo_os 1 demo_payload demo_input False demo_world
     = Some (d, w') \<and> ld_allowed d \<and> ld_reason_code d = Some ''LICENSE_VALID''"
proof -
  have reg: "no_registration license_config_default demo_input"
    by (simp add: no_registration_def demo_defs)
  have clock: "clock_at (demo_server JNull) 100" by (simp add: clock_at_def demo_server_def)
  have "legacy_verdict license_config_default 100 (unwrap_or [] (li_device_key demo_input)) demo_payload = Valid"
    by (simp add: legacy_verdict_def find_device_def Let_def demo_defs)
  with legacy_refines_verdict [OF reg clock, of demo_os 0 demo_payload False demo_world]
  show ?thesis by simp
qed

subsection \<open>How long an evaluation runs\<close>

text \<open>A server whose acknowledgements are true: what was registered is reported next.\<close>

definition effective_server :: "'s ext \<Rightarrow> license_config \<Rightarrow> license_check_input \<Rightarrow> bool" where
  "effective_server x cfg i \<longleftrightarrow>
     (\<forall>w w1 w2 r. register_company x cfg i w = (Ok (), w1) \<longrightarrow>
        company_status x cfg (li_company_document i) w1 = (Ok r, w2) \<longrightarrow> ar_status r \<noteq> 0) \<and>
     (\<forall>w w1 w2 r. register_device x cfg i w = (Ok (), w1) \<longrightarrow>
        company_status x cfg (li_company_document i) w1 = (Ok r, w2) \<longrightarrow>
        ar_status r \<noteq> 0 \<and> find_device (ar_license r) (unwrap_or [] (li_device_key i)) \<noteq> None)"

lemma round_known_ends:
  "ar_status p \<noteq> 0 \<Longrightarrow> find_device (ar_license p) (unwrap_or [] (li_device_key i)) \<noteq> None \<Longrightarrow>
   \<exists>r. legacy_round x cfg os i u p w = Inl r"
  by (auto simp: legacy_round_def Let_def split: prod.splits bool.splits)

lemma round_restart_device:
  assumes "legacy_round x cfg os i u p w = Inr (q, v)" and "ar_status p \<noteq> 0"
    and "effective_server x cfg i"
  shows "ar_status q \<noteq> 0 \<and> find_device (ar_license q) (unwrap_or [] (li_device_key i)) \<noteq> None"
  using assms unfolding effective_server_def
  by (auto simp: legacy_round_def Let_def split: if_splits prod.splits bool.splits option.splits sum.splits)

lemma round_restart_company:
  assumes "legacy_round x cfg os i u p w = Inr (q, v)" and "ar_status p = 0"
    and "effective_server x cfg i"
  shows "ar_status q \<noteq> 0"
  using assms unfolding effective_server_def
  by (auto simp: legacy_round_def Let_def split: if_splits prod.splits sum.splits)

lemma ends_from_known:
  assumes "ar_status p \<noteq> 0" and "find_device (ar_license p) (unwrap_or [] (li_device_key i)) \<noteq> None"
  shows "\<exists>r. evaluate_legacy x cfg os (Suc n) p i u w = Some r"
  using round_known_ends [OF assms, of x cfg os u w] by (auto simp: evaluate_legacy_Suc)

lemma ends_from_company:
  assumes "ar_status p \<noteq> 0" and "effective_server x cfg i"
  shows "\<exists>r. evaluate_legacy x cfg os (Suc (Suc n)) p i u w = Some r"
proof (cases "legacy_round x cfg os i u p w")
  case (Inr r)
  obtain q v where r: "r = (q, v)" by (cases r)
  with Inr have "legacy_round x cfg os i u p w = Inr (q, v)" by simp
  from round_restart_device [OF this assms] have "\<exists>r. evaluate_legacy x cfg os (Suc n) q i u v = Some r"
    by (intro ends_from_known) auto
  with Inr r show ?thesis by (simp add: evaluate_legacy_Suc [of _ _ _ "Suc n"])
qed (simp add: evaluate_legacy_Suc)

text \<open>With a server whose acknowledged registrations show up in its next status, three rounds are enough: the evaluation returns.\<close>

theorem legacy_terminates:
  assumes "effective_server x cfg i" and "3 \<le> fuel"
  shows "\<exists>d w'. evaluate_legacy x cfg os fuel payload i used w = Some (d, w')"
proof -
  obtain n where fuel: "fuel = Suc (Suc (Suc n))"
    using assms(2) by (metis Suc_le_D numeral_3_eq_3 Suc_le_mono)
  show ?thesis
  proof (cases "ar_status payload = 0")
    case False
    then show ?thesis using ends_from_company [OF False assms(1)] fuel by auto
  next
    case True
    show ?thesis
    proof (cases "legacy_round x cfg os i used payload w")
      case (Inl r)
      then show ?thesis by (cases r) (simp add: fuel evaluate_legacy_Suc)
    next
      case (Inr r)
      obtain q v where r: "r = (q, v)" by (cases r)
      with Inr round_restart_company True assms(1) have "ar_status q \<noteq> 0" by blast
      from ends_from_company [OF this assms(1)] Inr r show ?thesis
        by (auto simp: fuel evaluate_legacy_Suc [of _ _ _ "Suc (Suc n)"])
    qed
  qed
qed

lemma demo_effective: "effective_server (demo_server active_answer) legacy_config demo_input"
proof -
  have "ar_status r \<noteq> 0 \<and> find_device (ar_license r) ''k'' \<noteq> None"
    if "company_status (demo_server active_answer) legacy_config d w = (Ok r, w')" for d w r w'
    using that demo_company_status [of active_answer d w] demo_active [of active_answer]
      demo_active_device [of active_answer] by auto
  then show ?thesis by (auto simp: effective_server_def demo_input_def)
qed

theorem legacy_terminates_witness:
  "\<exists>d w'. evaluate_legacy (demo_server active_answer) legacy_config demo_os 3 missing_payload demo_input False demo_world
     = Some (d, w')"
  by (rule legacy_terminates [OF demo_effective]) simp

text \<open>A server that acknowledges the registration of a company it then keeps denying.\<close>

definition amnesic_server :: "'s ext \<Rightarrow> license_config \<Rightarrow> license_check_input \<Rightarrow> bool" where
  "amnesic_server x cfg i \<longleftrightarrow>
     (\<forall>w. fst (register_company x cfg i w) = Ok ()) \<and>
     (\<forall>w. \<exists>r. fst (company_status x cfg (li_company_document i) w) = Ok r \<and> ar_status r = 0)"

text \<open>C33. With a server that acknowledges the registration of a company and keeps reporting it as unknown, the evaluation never returns: no amount of fuel gives an answer.\<close>

theorem legacy_diverges:
  assumes "amnesic_server x cfg i"
    and "unwrap_or (lc_auto_register_company_on_missing cfg) (li_allow_company_auto_create i)"
    and "ar_status payload = 0"
  shows "evaluate_legacy x cfg os fuel payload i used w = None"
  using assms(3)
proof (induction fuel arbitrary: payload w)
  case (Suc fuel)
  obtain w1 where reg: "register_company x cfg i w = (Ok (), w1)"
    using assms(1) by (metis amnesic_server_def prod.collapse)
  obtain r w2 where st: "company_status x cfg (li_company_document i) w1 = (Ok r, w2)" and "ar_status r = 0"
    using assms(1) by (metis amnesic_server_def prod.collapse)
  with Suc reg assms(2) show ?case by (simp add: evaluate_legacy.simps(2))
qed simp

lemma demo_amnesic: "amnesic_server (demo_server unknown_answer) legacy_config i"
proof -
  have "fst (register_company (demo_server unknown_answer) legacy_config i w) = Ok ()" for w
    using demo_register_company [of unknown_answer i w] by auto
  moreover have "\<exists>r. fst (company_status (demo_server unknown_answer) legacy_config (li_company_document i) w) = Ok r \<and>
      ar_status r = 0" for w
    using demo_company_status [of unknown_answer "li_company_document i" w] demo_unknown [of unknown_answer] by auto
  ultimately show ?thesis by (simp add: amnesic_server_def)
qed

theorem legacy_diverges_witness:
  "\<forall>fuel. evaluate_legacy (demo_server unknown_answer) legacy_config demo_os fuel missing_payload
     (demo_input\<lparr>li_allow_company_auto_create := Some True\<rparr>) False demo_world = None"
  by (intro allI legacy_diverges [OF demo_amnesic]) (simp_all add: missing_payload_def)

lemma round_no_registration:
  "no_registration cfg i \<Longrightarrow> \<exists>r. legacy_round x cfg os i u p w = Inl r"
  by (auto simp: legacy_round_def no_registration_def Let_def split: prod.splits option.splits bool.splits)

lemma evaluate_no_registration:
  "no_registration cfg i \<Longrightarrow> \<exists>r. evaluate_legacy x cfg os (Suc n) p i u w = Some r"
  using round_no_registration [of cfg i x os u p w] by (auto simp: evaluate_legacy_Suc)

subsection \<open>Offline\<close>

text \<open>C34. Offline, a cached decision is served exactly while its age is below one day more than the configured number of days, and is refused with \<open>OFFLINE_CACHE_EXPIRED\<close> from then on.\<close>

theorem offline_cache_age:
  assumes "cache_get x os (lc_cache_namespace cfg) document w = Ok (Some cached)"
    and "cf_decision cached = Some d" and "0 \<le> lc_offline_max_age_days cfg"
    and "utc_now x w = (now, w')"
  shows "try_offline_cache_or_fail x cfg os fuel document err w =
    (if now - dt_nanos (cf_cached_at cached) < (lc_offline_max_age_days cfg + 1) * day_nanos
     then Some (Ok (from_cached_decision d), w')
     else Some (Err (Structured ''offline_cache'' ''OFFLINE_CACHE_EXPIRED''
                  ''falha online e o cache offline expirou''), w'))"
  using assms num_days_le_iff [OF assms(3), of "now - dt_nanos (cf_cached_at cached)"]
  by (auto simp: try_offline_cache_or_fail_def)

definition demo_decision :: license_decision where
  "demo_decision = license_decision_deny ''m'' ''R'' ''s''"

definition demo_file :: cached_license_file where
  "demo_file = \<lparr>cf_cached_at = \<lparr>dt_nanos = 100, dt_offset = 0\<rparr>, cf_decision = Some demo_decision, cf_payload = None\<rparr>"

text \<open>A cache whose JSON texts read back: one file value has a text, every other is refused.\<close>

definition caching_server :: "cached_license_file \<Rightarrow> unit ext" where
  "caching_server c =
     (demo_server JNull)\<lparr>x_cached_to_json := (\<lambda>f. if f = c then Ok ''file'' else Err ''unsupported''),
       x_cached_of_json := (\<lambda>t. if t = ''file'' then Ok c else Err ''unsupported'')\<rparr>"

definition cached_world :: "unit world" where
  "cached_world = demo_world\<lparr>w_files := [''/data/offline/default/h1.json'' \<mapsto> ''file'']\<rparr>"

lemma demo_cached:
  "cache_get (caching_server c) demo_os ''default'' ''1'' cached_world = Ok (Some c)"
  by (simp add: cache_get_def file_path_def cache_dir_def sha_file_name_def path_join_def
      caching_server_def cached_world_def demo_os_def demo_server_def)

theorem offline_cache_age_witness:
  "\<exists>w'. try_offline_cache_or_fail (caching_server demo_file) license_config_default demo_os 0 ''1'' (Http ''down'') cached_world
     = Some (Ok (from_cached_decision demo_decision), w')"
proof -
  have c: "cache_get (caching_server demo_file) demo_os (lc_cache_namespace license_config_default) ''1'' cached_world
      = Ok (Some demo_file)"
    using demo_cached by (simp add: license_config_default_def)
  have d: "cf_decision demo_file = Some demo_decision" by (simp add: demo_file_def)
  have m: "0 \<le> lc_offline_max_age_days license_config_default" by (simp add: license_config_default_def)
  have n: "utc_now (caching_server demo_file) cached_world = (100, cached_world)"
    by (simp add: utc_now_def caching_server_def demo_server_def)
  show ?thesis
    using offline_cache_age [OF c d m n, of 0 "Http ''down''"]
    by (simp add: demo_file_def license_config_default_def day_nanos_def)
qed

text \<open>A decision stored by \<open>put_decision\<close> is the one the offline path serves for that document while it is young enough, without any request, provided the JSON text of a cache file reads back as what was written.\<close>

theorem offline_serves_last_decision:
  assumes "put_decision x os (lc_cache_namespace cfg) document d w = (Ok (), w1)"
    and "\<And>c text. x_cached_to_json x c = Ok text \<Longrightarrow> x_cached_of_json x text = Ok c"
    and "\<And>path. x_read_err x path = None"
    and "fst (utc_now x w1) - fst (utc_now x w) \<le> lc_offline_max_age_days cfg * day_nanos"
    and "0 \<le> lc_offline_max_age_days cfg"
  shows "\<exists>w2. try_offline_cache_or_fail x cfg os fuel document err w1 = Some (Ok (from_cached_decision d), w2) \<and>
    w_log w2 = w_log w1"
proof -
  obtain now v where now: "utc_now x w = (now, v)" by (cases "utc_now x w")
  obtain now1 w2 where now1: "utc_now x w1 = (now1, w2)" by (cases "utc_now x w1")
  let ?c = "\<lparr>cf_cached_at = \<lparr>dt_nanos = now, dt_offset = 0\<rparr>, cf_decision = Some d, cf_payload = None\<rparr>"
  have "cache_get x os (lc_cache_namespace cfg) document w1 = Ok (Some ?c)"
    using assms(1,2,3) now by (intro cache_write_get [of _ _ _ _ _ v]) (auto simp: put_decision_def)
  moreover have "now1 - now < (lc_offline_max_age_days cfg + 1) * day_nanos"
    using assms(4) now now1 by (simp add: day_nanos_def algebra_simps)
  then have "\<not> lc_offline_max_age_days cfg < num_days (now1 - now)"
    using num_days_le_iff [OF assms(5)] by (simp add: not_less)
  ultimately have "try_offline_cache_or_fail x cfg os fuel document err w1 = Some (Ok (from_cached_decision d), w2)"
    using now1 by (simp add: try_offline_cache_or_fail_def)
  then show ?thesis using utc_nowD [OF now1] by auto
qed

theorem offline_serves_last_decision_witness:
  "\<exists>w1 w2. put_decision (caching_server demo_file) demo_os (lc_cache_namespace license_config_default) ''1''
       demo_decision demo_world = (Ok (), w1) \<and>
     try_offline_cache_or_fail (caching_server demo_file) license_config_default demo_os 0 ''1'' (Http ''down'') w1
       = Some (Ok (from_cached_decision demo_decision), w2)"
proof -
  obtain w1 where put: "put_decision (caching_server demo_file) demo_os (lc_cache_namespace license_config_default) ''1''
      demo_decision demo_world = (Ok (), w1)"
    by (simp add: put_decision_def utc_now_def cache_write_def file_path_def cache_dir_def
        caching_server_def demo_file_def demo_os_def demo_server_def)
  have json: "x_cached_of_json (caching_server demo_file) js = Ok c"
    if "x_cached_to_json (caching_server demo_file) c = Ok js" for c js
    using that by (auto simp: caching_server_def split: if_splits)
  have rd: "x_read_err (caching_server demo_file) path = None" for path
    by (simp add: caching_server_def demo_server_def)
  have age: "fst (utc_now (caching_server demo_file) w1) - fst (utc_now (caching_server demo_file) demo_world)
      \<le> lc_offline_max_age_days license_config_default * day_nanos"
    by (simp add: utc_now_def caching_server_def demo_server_def license_config_default_def day_nanos_def)
  have m: "0 \<le> lc_offline_max_age_days license_config_default" by (simp add: license_config_default_def)
  from offline_serves_last_decision [OF put json rd age m, of 0 "Http ''down''"] put
  show ?thesis by blast
qed

text \<open>A cached legacy payload never authorises offline under blocking of unknown devices: the device key of the caller is not passed on, so a licence whose devices all have keys lists none for it.\<close>

theorem offline_payload_denied:
  assumes "cache_get x os (lc_cache_namespace cfg) document w = Ok (Some cached)"
    and "cf_decision cached = None" and "cf_payload cached = Some payload"
    and "lc_block_on_device_missing cfg" and "\<not> lc_auto_register_device_on_missing cfg"
    and "\<not> lc_auto_register_company_on_missing cfg"
    and "\<forall>dev \<in> set (lr_devices (ar_license payload)). \<exists>k. dr_device_key dev = Some k \<and> k \<noteq> []"
    and "try_offline_cache_or_fail x cfg os fuel document err w = Some (Ok d, w')"
  shows "\<not> ld_allowed d"
proof -
  have none: "find_device (ar_license payload) [] = None"
    using assms(7) by (fastforce simp: find_device_def find_None_iff)
  obtain now v where now: "utc_now x w = (now, v)" by (cases "utc_now x w")
  with assms obtain e v' where ev: "evaluate_legacy x cfg os fuel payload (offline_input document) True v = Some (e, v')"
    and d: "ld_allowed d = ld_allowed e"
    by (auto simp: try_offline_cache_or_fail_def split: if_splits)
  show ?thesis
  proof
    assume "ld_allowed d"
    with d have "ld_allowed e" by simp
    obtain n where "fuel = Suc n" using ev by (cases fuel) auto
    with ev none assms(4-6) \<open>ld_allowed e\<close> show False
      by (auto simp: evaluate_legacy.simps(2) offline_input_def unknown_device_def
          split: if_splits prod.splits bool.splits)
  qed
qed

definition payload_file :: cached_license_file where
  "payload_file = \<lparr>cf_cached_at = \<lparr>dt_nanos = 100, dt_offset = 0\<rparr>, cf_decision = None, cf_payload = Some demo_payload\<rparr>"

theorem offline_payload_denied_witness:
  "\<exists>d w'. try_offline_cache_or_fail (caching_server payload_file) license_config_default demo_os 1 ''1'' (Http ''down'')
     cached_world = Some (Ok d, w') \<and> \<not> ld_allowed d"
proof -
  let ?x = "caching_server payload_file"
  have c: "cache_get ?x demo_os (lc_cache_namespace license_config_default) ''1'' cached_world = Ok (Some payload_file)"
    using demo_cached by (simp add: license_config_default_def)
  obtain e v where ev: "evaluate_legacy ?x license_config_default demo_os 1 demo_payload (offline_input ''1'') True cached_world
      = Some (e, v)"
    using evaluate_no_registration [of license_config_default "offline_input ''1''" ?x demo_os 0 demo_payload True cached_world]
    by (auto simp: no_registration_def demo_defs)
  have n: "utc_now ?x cached_world = (100, cached_world)"
    by (simp add: utc_now_def caching_server_def demo_server_def)
  have age: "\<not> lc_offline_max_age_days license_config_default < num_days (100 - dt_nanos (cf_cached_at payload_file))"
    by (simp add: payload_file_def num_days_def license_config_default_def)
  have pf: "cf_decision payload_file = None" "cf_payload payload_file = Some demo_payload"
    by (simp_all add: payload_file_def)
  obtain d w' where off: "try_offline_cache_or_fail ?x license_config_default demo_os 1 ''1'' (Http ''down'') cached_world
      = Some (Ok d, w')"
    unfolding try_offline_cache_or_fail_def c using n age pf ev by auto
  have "\<not> ld_allowed d"
    by (rule offline_payload_denied [OF c _ _ _ _ _ _ off, of demo_payload])
      (simp_all add: payload_file_def demo_defs)
  with off show ?thesis by blast
qed

subsection \<open>The whole check\<close>

lemma put_decision_extends: "extends_log P w (snd (put_decision x os ns d e w))"
  by (simp add: extends_log_same)

lemma try_offline_log:
  assumes "try_offline_cache_or_fail x cfg os fuel doc err w = Some (r, w')"
  shows "extends_log (request_ok cfg) w w'"
proof -
  obtain now v where now: "utc_now x w = (now, v)" by (cases "utc_now x w")
  have wv: "extends_log (request_ok cfg) w v" using utc_nowD [OF now] by (simp add: extends_log_same)
  from assms now show ?thesis
    by (auto simp: try_offline_cache_or_fail_def wv split: sum.splits option.splits if_splits
        dest!: evaluate_legacy_log intro: extends_log_trans [OF wv])
qed

lemma check_legacy_log:
  assumes "check_legacy x cfg os fuel i w = Some (r, w')"
  shows "extends_log (request_ok cfg) w w'"
proof -
  obtain s v where st: "company_status x cfg (li_company_document i) w = (s, v)"
    by (cases "company_status x cfg (li_company_document i) w")
  have wv: "extends_log (request_ok cfg) w v" using st by (rule cs.op_result_log)
  show ?thesis
  proof (cases s)
    case (Inl e)
    with assms st have "extends_log (request_ok cfg) v w'"
      by (auto simp: check_legacy_def dest: try_offline_log)
    with wv show ?thesis by (rule extends_log_trans)
  next
    case (Inr p)
    let ?v = "snd (put_payload x os (lc_cache_namespace cfg) (li_company_document i) p v)"
    from Inr assms st obtain d v' where ev: "evaluate_legacy x cfg os fuel p i False ?v = Some (d, v')"
      and w': "w' = snd (put_decision x os (lc_cache_namespace cfg) (li_company_document i) d v')"
      by (auto simp: check_legacy_def)
    note wv
    also have "extends_log (request_ok cfg) v ?v" by (rule put_payload_extends)
    also have "extends_log (request_ok cfg) ?v v'" using ev by (rule evaluate_legacy_log)
    also have "extends_log (request_ok cfg) v' w'" unfolding w' by (rule put_decision_extends)
    finally show ?thesis .
  qed
qed

lemma check_prepared_log:
  assumes "check_prepared x cfg os fuel i w = Some (r, w')"
  shows "extends_log (request_ok cfg) w w'"
proof -
  obtain s v where act: "resolve_activation x cfg i w = (s, v)" by (cases "resolve_activation x cfg i w")
  have wv: "extends_log (request_ok cfg) w v" using act by (rule ra.op_result_log)
  from assms act show ?thesis
    by (auto simp: check_prepared_def wv split: if_splits sum.splits
        intro: extends_log_trans [OF wv] check_legacy_log try_offline_log
          extends_log_trans [OF wv put_decision_extends])
qed

text \<open>The concrete check: status, evaluation and caching of the answer.\<close>

lemma demo_check_allowed:
  "\<exists>d w'. check (demo_server active_answer) legacy_config demo_os 1 demo_input demo_world = Some (Ok d, w') \<and> ld_allowed d"
proof -
  let ?x = "demo_server active_answer"
  let ?l = "license_of_obj ?x
     [(''status'', JNum (JInt 1)), (''devices'', JArr [JObj [(''device_key'', JStr ''k'')]])]"
  let ?p = "\<lparr>ar_status = 1, ar_message = None, ar_license = ?l\<rparr>"
  have l: "lr_blocked ?l = False" "lr_expires_at ?l = None"
    by (simp_all add: license_of_obj_def get_bool_def)
  let ?i = "enrich_input ?x demo_os (demo_input\<lparr>li_company_document := only_digits (li_company_document demo_input)\<rparr>)"
  have key: "li_device_key ?i = Some ''k''"
    by (simp add: enrich_input_def enrich_fields_def Let_def demo_input_def)
  have doc: "li_company_document ?i = ''1''"
    by (simp add: only_digits_def is_ascii_digit_def demo_input_def offline_input_def)
  have reg: "enrich_input_from_registration_file ?x legacy_config demo_os ?i = (Ok None, ?i)"
    by (simp add: enrich_input_from_registration_file_def legacy_config_def)
  obtain dev where dev: "find_device ?l ''k'' = Some dev" and nb: "dr_blocked dev = False" and nid: "dr_id dev = None"
    by (simp add: find_device_def license_of_obj_def license_devices_def normalize_device_def
        device_of_obj_def get_str_def get_bool_def)
  have "\<exists>d v. evaluate_legacy ?x legacy_config demo_os 1 ?p ?i False w = Some (d, v) \<and> ld_allowed d" for w
    using dev nb nid l key
    by (simp add: evaluate_legacy.simps(2) expired_now_def known_device_def auto_update_def grant_def
        expiry_warning_def)
  moreover obtain w1 where "company_status ?x legacy_config ''1'' demo_world = (Ok ?p, w1)"
    using demo_company_status [of active_answer "''1''" demo_world] demo_active [of active_answer] by auto
  ultimately have "\<exists>d v. check_legacy ?x legacy_config demo_os 1 ?i demo_world = Some (Ok d, v) \<and> ld_allowed d"
    unfolding check_legacy_def doc by fastforce
  then show ?thesis
    using reg doc by (simp add: check_def Let_def check_prepared_def legacy_config_def)
qed

lemma demo_check_answers:
  "\<exists>r w'. check (demo_server active_answer) legacy_config demo_os 1 demo_input demo_world = Some (r, w')"
  using demo_check_allowed by blast

text \<open>Whatever the outcome of a check, every request it sends goes below the configured base URL and carries the configured bearer token, or none when the token is absent or blank.\<close>

theorem check_requests_authorised:
  assumes "check x cfg os fuel input w = Some (r, w')"
  shows "\<exists>rqs. w_log w' = w_log w @ rqs \<and>
    (\<forall>rq \<in> set rqs. rq_bearer rq = with_auth cfg \<and>
       starts_with (rq_url rq) (trim_end_matches (CHR ''/'') (lc_base_url cfg) @ ''/''))"
proof -
  have "extends_log (request_ok cfg) w w'"
    using assms by (auto simp: check_def Let_def split: prod.splits sum.splits intro: check_prepared_log)
  then show ?thesis by (auto simp: extends_log_def request_ok_def list_all_iff)
qed

theorem check_requests_authorised_witness:
  "\<exists>r w' rqs. check (demo_server active_answer) legacy_config demo_os 1 demo_input demo_world = Some (r, w') \<and>
     w_log w' = rqs \<and> (\<forall>rq \<in> set rqs. rq_bearer rq = None)"
proof -
  obtain r w' where ck: "check (demo_server active_answer) legacy_config demo_os 1 demo_input demo_world = Some (r, w')"
    using demo_check_answers by blast
  from check_requests_authorised [OF ck] show ?thesis
    using ck by (auto simp: demo_world_def with_auth_def legacy_config_def license_config_default_def)
qed

text \<open>
  Where a positive answer can come from. The input a check works on is the normalised one,
  completed from the machine and from the registration file.
\<close>

definition prepared_input :: "'s ext \<Rightarrow> license_config \<Rightarrow> os_env \<Rightarrow> license_check_input \<Rightarrow> license_check_input" where
  "prepared_input x cfg os input =
     snd (enrich_input_from_registration_file x cfg os
            (enrich_input x os (input\<lparr>li_company_document := only_digits (li_company_document input)\<rparr>)))"

definition served_from_cache ::
  "'s ext \<Rightarrow> license_config \<Rightarrow> os_env \<Rightarrow> int \<Rightarrow> string \<Rightarrow> 's world \<Rightarrow> license_decision \<Rightarrow> bool" where
  "served_from_cache x cfg os T doc w d \<longleftrightarrow>
     (\<exists>c e. cache_get x os (lc_cache_namespace cfg) doc w = Ok (Some c) \<and>
        cf_decision c = Some e \<and> ld_allowed e \<and> d = from_cached_decision e \<and>
        num_days (T - dt_nanos (cf_cached_at c)) \<le> lc_offline_max_age_days cfg)"

definition offline_justified ::
  "'s ext \<Rightarrow> license_config \<Rightarrow> os_env \<Rightarrow> int \<Rightarrow> string \<Rightarrow> 's world \<Rightarrow> license_decision \<Rightarrow> bool" where
  "offline_justified x cfg os T doc w d \<longleftrightarrow>
     served_from_cache x cfg os T doc w d \<or> (ld_source d = ''offline'' \<and> justified cfg T [] d)"

lemma from_cached_allowed [simp]: "ld_allowed (from_cached_decision d) = ld_allowed d"
  by (simp add: from_cached_decision_def)

lemma justified_relabel [simp]:
  "justified cfg T key (d\<lparr>ld_reason_code := r, ld_source := s\<rparr>) = justified cfg T key d"
  by (simp add: justified_def)

lemma cache_get_files: "w_files w = w_files v \<Longrightarrow> cache_get x os ns doc w = cache_get x os ns doc v"
  by (simp add: cache_get_def)

lemma offline_justified_files:
  "w_files w = w_files v \<Longrightarrow> offline_justified x cfg os T doc w d = offline_justified x cfg os T doc v d"
  by (simp add: offline_justified_def served_from_cache_def cache_get_files [of w v])

lemma num_days_mono:
  assumes "a \<le> b"
  shows "num_days a \<le> num_days b"
proof -
  have pos: "0 < day_nanos" by (simp add: day_nanos_def)
  show ?thesis
  proof (cases "0 \<le> a")
    case True
    with assms pos show ?thesis by (simp add: num_days_def zdiv_mono1)
  next
    case False
    with pos have "0 \<le> - a div day_nanos" by (simp add: pos_imp_zdiv_nonneg_iff)
    moreover have "0 \<le> b div day_nanos" if "0 \<le> b" using that pos by (simp add: pos_imp_zdiv_nonneg_iff)
    moreover have "- b div day_nanos \<le> - a div day_nanos" using assms pos by (simp add: zdiv_mono1)
    ultimately show ?thesis using False by (auto simp: num_days_def)
  qed
qed

lemma try_offline_allowed:
  assumes "try_offline_cache_or_fail x cfg os fuel doc err w = Some (Ok d, w')"
    and "ld_allowed d" and "clock_from x T"
  shows "offline_justified x cfg os T doc w d"
proof -
  obtain now v where now: "utc_now x w = (now, v)" by (cases "utc_now x w")
  from assms(1) now obtain c where c: "cache_get x os (lc_cache_namespace cfg) doc w = Ok (Some c)"
    and age: "num_days (now - dt_nanos (cf_cached_at c)) \<le> lc_offline_max_age_days cfg"
    by (auto simp: try_offline_cache_or_fail_def split: sum.splits option.splits if_splits)
  have "T \<le> now" using assms(3) now by (rule utc_now_clock)
  then have ageT: "num_days (T - dt_nanos (cf_cached_at c)) \<le> lc_offline_max_age_days cfg"
    using num_days_mono [of "T - dt_nanos (cf_cached_at c)" "now - dt_nanos (cf_cached_at c)"] age by simp
  show ?thesis
  proof (cases "cf_decision c")
    case (Some e)
    with assms(1) now c age have "d = from_cached_decision e" by (auto simp: try_offline_cache_or_fail_def)
    with assms(2) c Some ageT show ?thesis by (auto simp: offline_justified_def served_from_cache_def)
  next
    case None
    with assms(1) now c age obtain p e v' where
      ev: "evaluate_legacy x cfg os fuel p (offline_input doc) True v = Some (e, v')"
      and d: "d = e\<lparr>ld_reason_code := Some ''ONLINE_VALIDATION_FAILED_USING_CACHE'', ld_source := ''offline''\<rparr>"
      by (auto simp: try_offline_cache_or_fail_def split: option.splits)
    with assms(2) have "ld_allowed e" by simp
    from evaluate_legacy_rounds [OF ev] legacy_round_justified [OF _ this assms(3)]
    have "justified cfg T (unwrap_or [] (li_device_key (offline_input doc))) e" by blast
    then have "justified cfg T [] e" by (simp add: offline_input_def)
    with d show ?thesis by (simp add: offline_justified_def)
  qed
qed

lemma check_legacy_allowed:
  assumes "check_legacy x cfg os fuel i w = Some (Ok d, w')"
    and "ld_allowed d" and "clock_from x T"
  shows "offline_justified x cfg os T (li_company_document i) w d \<or>
    justified cfg T (unwrap_or [] (li_device_key i)) d"
proof -
  obtain s v where st: "company_status x cfg (li_company_document i) w = (s, v)"
    by (cases "company_status x cfg (li_company_document i) w")
  show ?thesis
  proof (cases s)
    case (Inl e)
    with assms st have "offline_justified x cfg os T (li_company_document i) v d"
      by (auto simp: check_legacy_def dest: try_offline_allowed)
    with cs.op_result_files [OF st] show ?thesis by (simp add: offline_justified_files [of v w])
  next
    case (Inr p)
    with assms(1) st obtain v' v'' where "evaluate_legacy x cfg os fuel p i False v' = Some (d, v'')"
      by (auto simp: check_legacy_def)
    from evaluate_legacy_rounds [OF this] legacy_round_justified [OF _ assms(2,3)]
    show ?thesis by blast
  qed
qed

text \<open>C1. A check answers \<open>allowed\<close> only if the activation endpoint returned that very decision for the prepared input, or the cache held at the call, for the document of that input, a decision that allowed and is within the permitted age, or the legacy evaluation found it justified for the device key of that input (offline: for the empty key).\<close>

theorem check_allowed_provenance:
  assumes "check x cfg os fuel input w = Some (Ok d, w')" and "ld_allowed d" and "clock_from x T"
  shows "(lc_prefer_resolve_activation cfg \<and> fst (resolve_activation x cfg (prepared_input x cfg os input) w) = Ok d) \<or>
    offline_justified x cfg os T (li_company_document (prepared_input x cfg os input)) w d \<or>
    justified cfg T (unwrap_or [] (li_device_key (prepared_input x cfg os input))) d"
proof -
  let ?i = "prepared_input x cfg os input"
  from assms(1) have prep: "check_prepared x cfg os fuel ?i w = Some (Ok d, w')"
    by (auto simp: check_def prepared_input_def Let_def split: prod.splits sum.splits)
  obtain s v where act: "resolve_activation x cfg ?i w = (s, v)" by (cases "resolve_activation x cfg ?i w")
  have same: "offline_justified x cfg os T doc v d = offline_justified x cfg os T doc w d" for doc
    using ra.op_result_files [OF act] by (rule offline_justified_files)
  from prep act assms(2,3) same show ?thesis
    by (auto simp: check_prepared_def split: if_splits sum.splits
        dest: check_legacy_allowed try_offline_allowed)
qed

theorem check_allowed_provenance_witness:
  "\<exists>d w'. check (demo_server active_answer) legacy_config demo_os 1 demo_input demo_world = Some (Ok d, w') \<and>
     (let i = prepared_input (demo_server active_answer) legacy_config demo_os demo_input in
       fst (resolve_activation (demo_server active_answer) legacy_config i demo_world) = Ok d \<or>
       offline_justified (demo_server active_answer) legacy_config demo_os 100 (li_company_document i) demo_world d \<or>
       justified legacy_config 100 (unwrap_or [] (li_device_key i)) d)"
proof -
  have clock: "clock_from (demo_server active_answer) 100" by (simp add: clock_from_def demo_server_def)
  obtain d w' where ck: "check (demo_server active_answer) legacy_config demo_os 1 demo_input demo_world = Some (Ok d, w')"
    and al: "ld_allowed d"
    using demo_check_allowed by blast
  from check_allowed_provenance [OF ck al clock] ck show ?thesis by (auto simp: Let_def)
qed

text \<open>A check always answers when registration is off, or when the server is effective.\<close>

lemma try_offline_ends:
  assumes "\<And>p v. \<exists>r. evaluate_legacy x cfg os fuel p (offline_input doc) True v = Some r"
  shows "\<exists>r. try_offline_cache_or_fail x cfg os fuel doc err w = Some r"
proof -
  obtain now v where now: "utc_now x w = (now, v)" by (cases "utc_now x w")
  then show ?thesis
    by (auto simp: try_offline_cache_or_fail_def split: sum.splits option.splits)
      (metis assms surj_pair)
qed

definition registration_disabled :: "license_config \<Rightarrow> license_check_input \<Rightarrow> bool" where
  "registration_disabled cfg input \<longleftrightarrow>
     \<not> lc_auto_register_company_on_missing cfg \<and> \<not> lc_auto_register_device_on_missing cfg \<and>
     li_allow_company_auto_create input \<noteq> Some True \<and> li_allow_device_auto_create input \<noteq> Some True"

lemma enrich_input_switches:
  "li_allow_company_auto_create (enrich_input x os i) = li_allow_company_auto_create i"
  "li_allow_device_auto_create (enrich_input x os i) = li_allow_device_auto_create i"
  by (simp_all add: enrich_input_def enrich_fields_def Let_def)

lemma registration_switches:
  "li_allow_company_auto_create (snd (enrich_input_from_registration_file x cfg os i)) = li_allow_company_auto_create i"
  "li_allow_device_auto_create (snd (enrich_input_from_registration_file x cfg os i)) = li_allow_device_auto_create i"
  by (auto simp: enrich_input_from_registration_file_def apply_registration_def split: sum.splits option.splits)

lemma registration_disabled_no_registration:
  assumes "registration_disabled cfg i"
  shows "no_registration cfg i"
proof -
  have "\<not> unwrap_or False v" if "v \<noteq> Some True" for v
    using that by (cases v) auto
  with assms show ?thesis by (auto simp: registration_disabled_def no_registration_def)
qed

text \<open>With automatic registration disabled a check always returns: one unit of fuel is enough whatever the server does.\<close>

theorem check_answers:
  assumes "registration_disabled cfg input"
  shows "\<exists>r w'. check x cfg os (Suc n) input w = Some (r, w')"
proof -
  have off: "\<exists>r. try_offline_cache_or_fail x cfg os (Suc n) doc err v = Some r" for doc err v
    using assms by (intro try_offline_ends evaluate_no_registration)
      (auto simp: registration_disabled_def no_registration_def offline_input_def)
  have leg: "\<exists>r. check_legacy x cfg os (Suc n) i v = Some r" if "no_registration cfg i" for i v
  proof -
    obtain s v1 where st: "company_status x cfg (li_company_document i) v = (s, v1)"
      by (cases "company_status x cfg (li_company_document i) v")
    have "\<exists>a b. evaluate_legacy x cfg os (Suc n) p i False v2 = Some (a, b)" for p v2
      using evaluate_no_registration [OF that, of x os n p False v2] by auto
    with st off show ?thesis by (auto simp: check_legacy_def split: sum.splits)
  qed
  have prep: "\<exists>r. check_prepared x cfg os (Suc n) i w = Some r" if "no_registration cfg i" for i
    using off leg [OF that] by (auto simp: check_prepared_def split: prod.splits sum.splits)
  obtain e j where reg: "enrich_input_from_registration_file x cfg os
      (enrich_input x os (input\<lparr>li_company_document := only_digits (li_company_document input)\<rparr>)) = (e, j)"
    by (meson surj_pair)
  have "registration_disabled cfg j"
    using assms registration_switches [of x cfg os
      "enrich_input x os (input\<lparr>li_company_document := only_digits (li_company_document input)\<rparr>)"]
    by (simp add: reg registration_disabled_def enrich_input_switches)
  then have "\<exists>r. check_prepared x cfg os (Suc n) j w = Some r"
    by (intro prep registration_disabled_no_registration)
  with reg show ?thesis by (auto simp: check_def Let_def split: sum.splits)
qed

theorem check_answers_witness:
  "\<exists>r w'. check (demo_server unknown_answer) legacy_config demo_os 1 demo_input demo_world = Some (r, w')"
proof -
  have "registration_disabled legacy_config demo_input"
    by (simp add: registration_disabled_def demo_defs)
  from check_answers [OF this, of "demo_server unknown_answer" demo_os 0 demo_world] show ?thesis by simp
qed

end
