(* ===== verification/Console_Env.thy ===== *)
theory Console_Env
  imports Prelude
begin

text \<open>
  What the console process sees of its surroundings: the process environment, the files
  it reads and writes, the application context of \<^verbatim>\<open>app_state.rs\<close> and the table
  \<^verbatim>\<open>app_settings\<close> of the local database. The operating system, SQLite, the JSON codec and
  the socket layer are parameters (\<open>'r rt_sys\<close>, where \<open>'r\<close> is the type of the stored
  settings). Lock poisoning and values of the environment that are not UTF-8 are not
  modelled.
\<close>

type_synonym env = "string \<rightharpoonup> string"

record app_context =
  ax_data_dir :: string
  ax_db_path :: string

record app_setting =
  as_valor :: string
  as_created_at :: string
  as_updated_at :: string

record 'r rt_sys =
  sy_config_local_dir :: "string option"
  sy_data_local_dir :: "string option"
  sy_current_dir :: "string option"
  sy_mkdir_err :: "string \<Rightarrow> string option"
  sy_mkparent_err :: "string \<Rightarrow> string option"
  sy_read_err :: "string \<Rightarrow> string option"
  sy_write_err :: "string \<Rightarrow> string option"
  sy_open_write_err :: "string \<Rightarrow> string option"
  sy_addr_err :: "string \<Rightarrow> string option"
  sy_bind_ok :: "string \<Rightarrow> bool"
  sy_db_open_err :: "string \<Rightarrow> string option"
  sy_db_pragma_err :: "string \<Rightarrow> string option"
  sy_query_err :: "string option"
  sy_exec_err :: "string option"
  sy_now :: string
  sy_to_json :: "'r \<Rightarrow> (string, string) result"
  sy_of_json :: "env \<Rightarrow> string \<Rightarrow> ('r, string) result"
  sy_bootstrap_of_json :: "string \<Rightarrow> (string option, string) result"

record rt_world =
  rw_env :: env
  rw_files :: "string \<rightharpoonup> string"
  rw_ctx :: "app_context option"
  rw_app_settings :: "string \<Rightarrow> (string \<rightharpoonup> app_setting)"

subsection \<open>Reading the environment\<close>

definition truthy :: "string \<Rightarrow> bool" where
  "truthy v \<longleftrightarrow> to_ascii_lowercase (trim v) \<in> {''1'', ''true'', ''yes'', ''on''}"

definition env_string :: "env \<Rightarrow> string \<Rightarrow> string \<Rightarrow> string" where
  "env_string e key d = unwrap_or d (opt_filter (\<lambda>v. trim v \<noteq> []) (e key))"

definition env_u16 :: "env \<Rightarrow> string \<Rightarrow> 16 word \<Rightarrow> 16 word" where
  "env_u16 e key d = unwrap_or d (opt_filter (\<lambda>p. 0 < p) (Option.bind (e key) parse_u16))"

definition env_u64 :: "env \<Rightarrow> string \<Rightarrow> 64 word \<Rightarrow> 64 word" where
  "env_u64 e key d = unwrap_or d (opt_filter (\<lambda>p. 0 < p) (Option.bind (e key) parse_u64))"

definition env_bool :: "env \<Rightarrow> string \<Rightarrow> bool \<Rightarrow> bool" where
  "env_bool e key d = unwrap_or d (map_option truthy (e key))"

subsection \<open>The application context (app_state.rs)\<close>

definition state_data_dir :: "rt_world \<Rightarrow> (string, string) result" where
  "state_data_dir w = ok_or (''Aplica'' @ u_ccedil @ u_atilde @ ''o ainda n'' @ u_atilde @ ''o inicializada.'') (map_option ax_data_dir (rw_ctx w))"

definition state_db_path :: "rt_world \<Rightarrow> (string, string) result" where
  "state_db_path w = ok_or (''Aplica'' @ u_ccedil @ u_atilde @ ''o ainda n'' @ u_atilde @ ''o inicializada.'') (map_option ax_db_path (rw_ctx w))"

definition runtime_app_local_data_dir :: "env \<Rightarrow> string" where
  "runtime_app_local_data_dir e =
     unwrap_or ''tunnara_console''
       (opt_filter (\<lambda>v. v \<noteq> [])
          (map_option trim (or_else (e ''TUNNARA_CONSOLE_LOCAL_DATA_DIR'') (e ''APP_LOCAL_DATA_DIR''))))"

definition bootstrap_config_path :: "'r rt_sys \<Rightarrow> env \<Rightarrow> (string, string) result" where
  "bootstrap_config_path sy e =
     and_then (ok_or (''N'' @ u_atilde @ ''o foi poss'' @ u_iacute @ ''vel resolver o diret'' @ u_oacute @ ''rio de configura'' @ u_ccedil @ u_atilde @ ''o.'')
                 (or_else (sy_config_local_dir sy) (sy_current_dir sy))) (\<lambda>base.
       let config_dir = path_join base (runtime_app_local_data_dir e)
       in case sy_mkdir_err sy config_dir of
            Some err \<Rightarrow> Err ((''Falha ao criar diret'' @ u_oacute @ ''rio de configura'' @ u_ccedil @ u_atilde @ ''o: '') @ err)
          | None \<Rightarrow> Ok (path_join config_dir ''bootstrap.json''))"

text \<open>The one field of the bootstrap file, \<^verbatim>\<open>data_dir_override\<close>.\<close>

definition load_bootstrap_config :: "'r rt_sys \<Rightarrow> rt_world \<Rightarrow> (string option, string) result" where
  "load_bootstrap_config sy w =
     and_then (bootstrap_config_path sy (rw_env w)) (\<lambda>path.
       case rw_files w path of
         None \<Rightarrow> Ok None
       | Some raw \<Rightarrow>
           (case sy_read_err sy path of
              Some err \<Rightarrow> Err (''Falha ao ler bootstrap config: '' @ err)
            | None \<Rightarrow> map_err (\<lambda>err. ''Falha ao interpretar bootstrap config: '' @ err) (sy_bootstrap_of_json sy raw)))"

definition resolve_data_dir :: "'r rt_sys \<Rightarrow> rt_world \<Rightarrow> (string, string) result" where
  "resolve_data_dir sy w =
     and_then (load_bootstrap_config sy w) (\<lambda>override.
       case opt_filter (\<lambda>t. t \<noteq> []) (map_option trim override) of
         Some dir \<Rightarrow> Ok dir
       | None \<Rightarrow>
           ok_or (''N'' @ u_atilde @ ''o foi poss'' @ u_iacute @ ''vel resolver o diret'' @ u_oacute @ ''rio de dados.'')
             (map_option (\<lambda>p. path_join p (runtime_app_local_data_dir (rw_env w)))
                (or_else (sy_data_local_dir sy) (sy_current_dir sy))))"

subsection \<open>The database connection (db.rs)\<close>

definition open_connection :: "'r rt_sys \<Rightarrow> string \<Rightarrow> (string, string) result" where
  "open_connection sy db_path =
     (case sy_db_open_err sy db_path of
        Some err \<Rightarrow> Err (''Falha ao abrir banco: '' @ err)
      | None \<Rightarrow>
          (case sy_db_pragma_err sy db_path of
             Some err \<Rightarrow> Err (''Falha ao ativar foreign_keys: '' @ err)
           | None \<Rightarrow> Ok db_path))"

subsection \<open>Facts\<close>

lemma env_string_Some: "e k = Some v \<Longrightarrow> env_string e k d = (if trim v = [] then d else v)"
  by (simp add: env_string_def)

lemma env_u16_Some: "e k = Some (show_word p) \<Longrightarrow> env_u16 e k d = (if p = 0 then d else p)"
  by (simp add: env_u16_def parse_show_u16 word_gt_0)

lemma env_u64_Some: "e k = Some (show_word p) \<Longrightarrow> env_u64 e k d = (if p = 0 then d else p)"
  by (simp add: env_u64_def parse_show_u64 word_gt_0)

lemma trim_show_bool: "trim (show_bool b) = show_bool b"
  by (rule trim_graph) (simp_all add: show_bool_def graph_char_def)

lemma truthy_show_bool [simp]: "truthy (show_bool b) = b"
proof -
  have "to_ascii_lowercase (show_bool b) = show_bool b"
    by (simp add: show_bool_def to_ascii_lowercase_def ascii_lower_def)
  then show ?thesis by (simp add: truthy_def trim_show_bool) (simp add: show_bool_def)
qed

lemma env_bool_Some: "e k = Some (show_bool b) \<Longrightarrow> env_bool e k d = b"
  by (simp add: env_bool_def)

lemmas env_read_back = env_string_Some env_u16_Some env_u64_Some env_bool_Some

lemma env_u16_pos: "0 < d \<Longrightarrow> 0 < env_u16 e k d"
  by (cases "opt_filter (\<lambda>p. 0 < p) (Option.bind (e k) parse_u16)")
    (auto simp: env_u16_def split: if_splits elim: opt_filter.elims)

lemma open_connection_path: "open_connection sy p = Ok c \<Longrightarrow> c = p"
  by (auto simp: open_connection_def split: option.splits)

end
