(* ===== verification/Runtime_Config.thy ===== *)
theory Runtime_Config
  imports Console_Env
begin

text \<open>
  The runtime settings of the console, \<^verbatim>\<open>runtime_config.rs\<close>: the record, its defaults read
  from the environment, the \<^verbatim>\<open>.env\<close> file, normalisation, port planning, and loading and
  saving through the database. The statements about them are in \<open>Runtime_Props\<close>.
\<close>

definition internal_api_default_port :: "16 word" where "internal_api_default_port = 61001"
definition local_web_default_port :: "16 word" where "local_web_default_port = 61002"
definition auxiliary_default_port :: "16 word" where "auxiliary_default_port = 61003"
definition bridge_core_default_port :: "16 word" where "bridge_core_default_port = 61004"

record port_definition =
  pd_key :: string
  pd_label :: string
  pd_env_host_key :: string
  pd_env_port_key :: string
  pd_default_port :: "16 word"
  pd_description :: string

definition internal_api_port_definition :: port_definition where
  "internal_api_port_definition =
     \<lparr>pd_key = ''internal_api'', pd_label = ''API interna'',
      pd_env_host_key = ''TUNNARA_CONSOLE_API_HOST'', pd_env_port_key = ''TUNNARA_CONSOLE_API_PORT'',
      pd_default_port = internal_api_default_port,
      pd_description = ''API local Axum usada pelo template em modo desktop/headless.''\<rparr>"

definition local_web_port_definition :: port_definition where
  "local_web_port_definition =
     \<lparr>pd_key = ''local_web'', pd_label = ''Servidor web local'',
      pd_env_host_key = ''TUNNARA_CONSOLE_WEB_HOST'', pd_env_port_key = ''TUNNARA_CONSOLE_WEB_PORT'',
      pd_default_port = local_web_default_port,
      pd_description = (''Servidor web/preview usado em desenvolvimento ou distribui'' @ u_ccedil @ u_atilde @ ''o web local.'')\<rparr>"

definition auxiliary_port_definition :: port_definition where
  "auxiliary_port_definition =
     \<lparr>pd_key = ''auxiliary'', pd_label = ''Webhook Service'',
      pd_env_host_key = ''TUNNARA_CONSOLE_WEBHOOK_HOST'', pd_env_port_key = ''TUNNARA_CONSOLE_WEBHOOK_PORT'',
      pd_default_port = auxiliary_default_port,
      pd_description = (''Servi'' @ u_ccedil @ ''o nativo gen'' @ u_eacute @ ''rico para receber webhooks HTTP por m'' @ u_oacute @ ''dulo/provedor.'')\<rparr>"

definition bridge_core_port_definition :: port_definition where
  "bridge_core_port_definition =
     \<lparr>pd_key = ''bridge_core'', pd_label = ''WebSocket Service'',
      pd_env_host_key = ''TUNNARA_CONSOLE_WEBSOCKET_HOST'', pd_env_port_key = ''TUNNARA_CONSOLE_WEBSOCKET_PORT'',
      pd_default_port = bridge_core_default_port,
      pd_description = (''Servi'' @ u_ccedil @ ''o nativo gen'' @ u_eacute @ ''rico de WebSocket/eventos em tempo real.'')\<rparr>"

record runtime_settings =
  rs_internal_api_host :: string
  rs_internal_api_port :: "16 word"
  rs_internal_api_base_url :: string
  rs_internal_api_docs_url :: string
  rs_internal_api_auto_start :: bool
  rs_internal_api_restart_on_config_change :: bool
  rs_internal_api_require_token :: bool
  rs_internal_api_allow_public_network :: bool
  rs_internal_api_cors_enabled :: bool
  rs_internal_api_token_header :: string
  rs_internal_api_token :: string
  rs_internal_api_docs_public_local :: bool
  rs_internal_api_open_scalar_after_start :: bool
  rs_internal_api_timeout_ms :: "64 word"
  rs_internal_api_log_mode :: string
  rs_internal_api_docs_enabled :: bool
  rs_internal_api_docs_path :: string
  rs_local_web_enabled :: bool
  rs_local_web_auto_start :: bool
  rs_local_web_host :: string
  rs_local_web_port :: "16 word"
  rs_auxiliary_host :: string
  rs_auxiliary_port :: "16 word"
  rs_bridge_core_host :: string
  rs_bridge_core_port :: "16 word"
  rs_webhook_enabled :: bool
  rs_webhook_auto_start :: bool
  rs_webhook_host :: string
  rs_webhook_port :: "16 word"
  rs_webhook_base_path :: string
  rs_webhook_token_required :: bool
  rs_webhook_token_header :: string
  rs_webhook_token :: string
  rs_webhook_allow_lan :: bool
  rs_webhook_allow_external :: bool
  rs_websocket_enabled :: bool
  rs_websocket_auto_start :: bool
  rs_websocket_host :: string
  rs_websocket_port :: "16 word"
  rs_websocket_path :: string
  rs_websocket_token_required :: bool
  rs_websocket_token_query :: string
  rs_websocket_token_header :: string
  rs_websocket_token :: string
  rs_websocket_allow_lan :: bool
  rs_websocket_allow_external :: bool
  rs_websocket_heartbeat_seconds :: "64 word"
  rs_tray_enabled :: bool
  rs_minimize_to_tray :: bool
  rs_close_to_tray :: bool
  rs_start_with_windows :: bool
  rs_services_auto_start :: bool
  rs_app_service_name :: string

record service_port =
  sp_key :: string
  sp_label :: string
  sp_env_host_key :: string
  sp_env_port_key :: string
  sp_default_port :: "16 word"
  sp_host :: string
  sp_configured_port :: "16 word"
  sp_effective_port :: "16 word"
  sp_available :: bool
  sp_fallback_applied :: bool
  sp_description :: string

record settings_payload =
  py_env_path :: string
  py_settings :: runtime_settings
  py_ports :: "service_port list"
  py_warnings :: "string list"

definition runtime_settings_default :: "env \<Rightarrow> runtime_settings" where
  "runtime_settings_default e =
     \<lparr>rs_internal_api_host = env_string e ''TUNNARA_CONSOLE_API_HOST'' ''127.0.0.1'',
      rs_internal_api_port = env_u16 e ''TUNNARA_CONSOLE_API_PORT'' internal_api_default_port,
      rs_internal_api_base_url = env_string e ''TUNNARA_CONSOLE_API_BASE_URL'' ''http://127.0.0.1:61001'',
      rs_internal_api_docs_url = env_string e ''TUNNARA_CONSOLE_API_SCALAR_URL'' ''http://127.0.0.1:61001/docs'',
      rs_internal_api_auto_start = env_bool e ''TUNNARA_CONSOLE_API_AUTO_START'' True,
      rs_internal_api_restart_on_config_change = env_bool e ''TUNNARA_CONSOLE_API_RESTART_ON_CONFIG_CHANGE'' True,
      rs_internal_api_require_token = env_bool e ''TUNNARA_CONSOLE_API_REQUIRE_TOKEN'' False,
      rs_internal_api_allow_public_network = env_bool e ''TUNNARA_CONSOLE_API_ALLOW_PUBLIC_NETWORK'' False,
      rs_internal_api_cors_enabled = env_bool e ''TUNNARA_CONSOLE_API_CORS'' False,
      rs_internal_api_token_header = env_string e ''TUNNARA_CONSOLE_API_TOKEN_HEADER'' ''X-App-Token'',
      rs_internal_api_token = env_string e ''TUNNARA_CONSOLE_API_TOKEN'' [],
      rs_internal_api_docs_public_local = env_bool e ''TUNNARA_CONSOLE_API_DOCS_PUBLIC_LOCAL'' True,
      rs_internal_api_open_scalar_after_start = env_bool e ''TUNNARA_CONSOLE_API_OPEN_SCALAR_AFTER_START'' False,
      rs_internal_api_timeout_ms = env_u64 e ''TUNNARA_CONSOLE_API_TIMEOUT_MS'' 8000,
      rs_internal_api_log_mode = env_string e ''TUNNARA_CONSOLE_API_LOG_MODE'' ''normal'',
      rs_internal_api_docs_enabled = env_bool e ''TUNNARA_CONSOLE_API_SCALAR_ENABLED'' True,
      rs_internal_api_docs_path = env_string e ''TUNNARA_CONSOLE_API_DOCS_PATH'' ''/docs'',
      rs_local_web_enabled = env_bool e ''TUNNARA_CONSOLE_WEB_ENABLED'' (\<not> env_bool e ''TUNNARA_CONSOLE_WEB_DISABLED'' False),
      rs_local_web_auto_start = env_bool e ''TUNNARA_CONSOLE_WEB_AUTO_START'' True,
      rs_local_web_host = env_string e ''TUNNARA_CONSOLE_WEB_HOST'' ''127.0.0.1'',
      rs_local_web_port = env_u16 e ''TUNNARA_CONSOLE_WEB_PORT'' local_web_default_port,
      rs_auxiliary_host = env_string e ''TUNNARA_CONSOLE_WEBHOOK_HOST'' ''127.0.0.1'',
      rs_auxiliary_port = env_u16 e ''TUNNARA_CONSOLE_WEBHOOK_PORT'' auxiliary_default_port,
      rs_bridge_core_host = env_string e ''TUNNARA_CONSOLE_WEBSOCKET_HOST'' ''127.0.0.1'',
      rs_bridge_core_port = env_u16 e ''TUNNARA_CONSOLE_WEBSOCKET_PORT'' bridge_core_default_port,
      rs_webhook_enabled = env_bool e ''TUNNARA_CONSOLE_WEBHOOK_ENABLED'' False,
      rs_webhook_auto_start = env_bool e ''TUNNARA_CONSOLE_WEBHOOK_AUTO_START'' False,
      rs_webhook_host = env_string e ''TUNNARA_CONSOLE_WEBHOOK_HOST'' ''127.0.0.1'',
      rs_webhook_port = env_u16 e ''TUNNARA_CONSOLE_WEBHOOK_PORT'' auxiliary_default_port,
      rs_webhook_base_path = env_string e ''TUNNARA_CONSOLE_WEBHOOK_BASE_PATH'' ''/webhooks'',
      rs_webhook_token_required = env_bool e ''TUNNARA_CONSOLE_WEBHOOK_TOKEN_REQUIRED'' True,
      rs_webhook_token_header = env_string e ''TUNNARA_CONSOLE_WEBHOOK_TOKEN_HEADER'' ''X-Webhook-Token'',
      rs_webhook_token = env_string e ''TUNNARA_CONSOLE_WEBHOOK_TOKEN'' [],
      rs_webhook_allow_lan = env_bool e ''TUNNARA_CONSOLE_WEBHOOK_ALLOW_LAN'' False,
      rs_webhook_allow_external = env_bool e ''TUNNARA_CONSOLE_WEBHOOK_ALLOW_EXTERNAL'' False,
      rs_websocket_enabled = env_bool e ''TUNNARA_CONSOLE_WEBSOCKET_ENABLED'' False,
      rs_websocket_auto_start = env_bool e ''TUNNARA_CONSOLE_WEBSOCKET_AUTO_START'' False,
      rs_websocket_host = env_string e ''TUNNARA_CONSOLE_WEBSOCKET_HOST'' ''127.0.0.1'',
      rs_websocket_port = env_u16 e ''TUNNARA_CONSOLE_WEBSOCKET_PORT'' bridge_core_default_port,
      rs_websocket_path = env_string e ''TUNNARA_CONSOLE_WEBSOCKET_PATH'' ''/ws'',
      rs_websocket_token_required = env_bool e ''TUNNARA_CONSOLE_WEBSOCKET_TOKEN_REQUIRED'' True,
      rs_websocket_token_query = env_string e ''TUNNARA_CONSOLE_WEBSOCKET_TOKEN_QUERY'' ''token'',
      rs_websocket_token_header = env_string e ''TUNNARA_CONSOLE_WEBSOCKET_TOKEN_HEADER'' ''X-WebSocket-Token'',
      rs_websocket_token = env_string e ''TUNNARA_CONSOLE_WEBSOCKET_TOKEN'' [],
      rs_websocket_allow_lan = env_bool e ''TUNNARA_CONSOLE_WEBSOCKET_ALLOW_LAN'' False,
      rs_websocket_allow_external = env_bool e ''TUNNARA_CONSOLE_WEBSOCKET_ALLOW_EXTERNAL'' False,
      rs_websocket_heartbeat_seconds = env_u64 e ''TUNNARA_CONSOLE_WEBSOCKET_HEARTBEAT_SECONDS'' 30,
      rs_tray_enabled = env_bool e ''TUNNARA_CONSOLE_TRAY_ENABLED'' True,
      rs_minimize_to_tray = env_bool e ''TUNNARA_CONSOLE_TRAY_MINIMIZE_TO_TRAY'' True,
      rs_close_to_tray = env_bool e ''TUNNARA_CONSOLE_TRAY_CLOSE_TO_TRAY'' False,
      rs_start_with_windows = env_bool e ''TUNNARA_CONSOLE_START_WITH_WINDOWS'' False,
      rs_services_auto_start = env_bool e ''TUNNARA_CONSOLE_SERVICES_AUTO_START'' False,
      rs_app_service_name = env_string e ''TUNNARA_CONSOLE_SERVICE_NAME'' ''TunnaraConsoleServer''\<rparr>"

subsection \<open>The environment file\<close>

text \<open>Joining lines, each ended by a line feed.\<close>

definition unlines :: "string list \<Rightarrow> string" where
  "unlines ls = concat (map (\<lambda>l. l @ [CHR 0x0A]) ls)"

definition default_env_lines :: "string list" where
  "default_env_lines =
     [(''# Tunnara Console - configura'' @ u_ccedil @ u_atilde @ ''o local''),
      (''# A porta padr'' @ u_atilde @ ''o do Tauri (devUrl 1420) n'' @ u_atilde @ ''o '' @ u_eacute @ '' alterada por este arquivo.''),
      ''TUNNARA_CONSOLE_API_HOST=127.0.0.1'',
      ''TUNNARA_CONSOLE_API_PORT=61001'',
      ''TUNNARA_CONSOLE_API_AUTO_START=true'',
      ''TUNNARA_CONSOLE_API_BASE_URL=http://127.0.0.1:61001'',
      ''TUNNARA_CONSOLE_API_SCALAR_ENABLED=true'',
      ''TUNNARA_CONSOLE_API_SCALAR_URL=http://127.0.0.1:61001/docs'',
      ''TUNNARA_CONSOLE_API_DOCS_PATH=/docs'',
      ''TUNNARA_CONSOLE_API_DOCS_PUBLIC_LOCAL=true'',
      ''TUNNARA_CONSOLE_API_RESTART_ON_CONFIG_CHANGE=true'',
      ''TUNNARA_CONSOLE_API_OPEN_SCALAR_AFTER_START=false'',
      ''TUNNARA_CONSOLE_API_TIMEOUT_MS=8000'',
      ''TUNNARA_CONSOLE_API_LOG_MODE=normal'',
      ''TUNNARA_CONSOLE_WEB_ENABLED=true'',
      ''TUNNARA_CONSOLE_WEB_HOST=127.0.0.1'',
      ''TUNNARA_CONSOLE_WEB_PORT=61002'',
      ''TUNNARA_CONSOLE_WEB_AUTO_START=true'',
      ''TUNNARA_CONSOLE_WEB_BIND_LAN=false'',
      ''TUNNARA_CONSOLE_WEBHOOK_AUTO_START=false'',
      ''TUNNARA_CONSOLE_WEBHOOK_ENABLED=false'',
      ''TUNNARA_CONSOLE_WEBHOOK_HOST=127.0.0.1'',
      ''TUNNARA_CONSOLE_WEBHOOK_PORT=61003'',
      ''TUNNARA_CONSOLE_WEBHOOK_BASE_PATH=/webhooks'',
      ''TUNNARA_CONSOLE_WEBHOOK_TOKEN_REQUIRED=true'',
      ''TUNNARA_CONSOLE_WEBHOOK_TOKEN_HEADER=X-Webhook-Token'',
      ''TUNNARA_CONSOLE_WEBHOOK_TOKEN='',
      ''TUNNARA_CONSOLE_WEBHOOK_ALLOW_LAN=false'',
      ''TUNNARA_CONSOLE_WEBHOOK_ALLOW_EXTERNAL=false'',
      ''TUNNARA_CONSOLE_WEBSOCKET_ENABLED=false'',
      ''TUNNARA_CONSOLE_WEBSOCKET_AUTO_START=false'',
      ''TUNNARA_CONSOLE_WEBSOCKET_HOST=127.0.0.1'',
      ''TUNNARA_CONSOLE_WEBSOCKET_PORT=61004'',
      ''TUNNARA_CONSOLE_WEBSOCKET_PATH=/ws'',
      ''TUNNARA_CONSOLE_WEBSOCKET_TOKEN_REQUIRED=true'',
      ''TUNNARA_CONSOLE_WEBSOCKET_TOKEN_QUERY=token'',
      ''TUNNARA_CONSOLE_WEBSOCKET_TOKEN_HEADER=X-WebSocket-Token'',
      ''TUNNARA_CONSOLE_WEBSOCKET_TOKEN='',
      ''TUNNARA_CONSOLE_WEBSOCKET_ALLOW_LAN=false'',
      ''TUNNARA_CONSOLE_WEBSOCKET_ALLOW_EXTERNAL=false'',
      ''TUNNARA_CONSOLE_WEBSOCKET_HEARTBEAT_SECONDS=30'',
      ''TUNNARA_CONSOLE_TRAY_ENABLED=true'',
      ''TUNNARA_CONSOLE_TRAY_MINIMIZE_TO_TRAY=true'',
      ''TUNNARA_CONSOLE_TRAY_CLOSE_TO_TRAY=false'',
      ''TUNNARA_CONSOLE_START_WITH_WINDOWS=false'',
      ''TUNNARA_CONSOLE_SERVICES_AUTO_START=false'',
      ''TUNNARA_CONSOLE_SERVICE_NAME=TunnaraConsoleServer'',
      ''TUNNARA_CONSOLE_API_REQUIRE_TOKEN=false'',
      ''TUNNARA_CONSOLE_API_ALLOW_PUBLIC_NETWORK=false'',
      ''TUNNARA_CONSOLE_API_CORS=false'',
      ''TUNNARA_CONSOLE_API_TOKEN='',
      ''TUNNARA_CONSOLE_API_TOKEN_HEADER=X-App-Token'',
      (''# Informe TUNNARA_CONSOLE_API_TOKEN via secret/env real em produ'' @ u_ccedil @ u_atilde @ ''o; n'' @ u_atilde @ ''o commite tokens.'')]"

definition default_env_template :: string where
  "default_env_template = unlines default_env_lines"

definition load_env_line :: "env \<Rightarrow> string \<Rightarrow> env" where
  "load_env_line e line =
     (let t = trim line
      in if t = [] \<or> starts_with t ''#'' \<or> CHR ''='' \<notin> set t then e
         else (let (k, v) = split_once (CHR ''='') t;
                   key = trim k;
                   val = trim_matches (CHR 0x27) (trim_matches (CHR 0x22) (trim (unwrap_or [] v)))
               in if key \<noteq> [] \<and> e key = None then e(key \<mapsto> val) else e))"

definition load_env_text :: "env \<Rightarrow> string \<Rightarrow> env" where
  "load_env_text e raw = foldl load_env_line e (rust_lines raw)"

definition load_env_file :: "'r rt_sys \<Rightarrow> string \<Rightarrow> rt_world \<Rightarrow> (unit, string) result \<times> rt_world" where
  "load_env_file sy path w =
     (case rw_files w path of
        None \<Rightarrow> (Ok (), w)
      | Some raw \<Rightarrow>
          (case sy_read_err sy path of
             Some err \<Rightarrow> (Err (''Falha ao ler .env: '' @ err), w)
           | None \<Rightarrow> (Ok (), w\<lparr>rw_env := load_env_text (rw_env w) raw\<rparr>)))"

text \<open>
  The argument \<open>ctx\<close> is the context of \<^verbatim>\<open>Option<&SharedState>\<close>: absent when no state is
  given and when the state is not initialised, which the code treats alike.
\<close>

definition env_file_path :: "'r rt_sys \<Rightarrow> app_context option \<Rightarrow> env \<Rightarrow> (string, string) result" where
  "env_file_path sy ctx e =
     (case opt_filter (\<lambda>t. t \<noteq> []) (map_option trim (e ''TUNNARA_CONSOLE_ENV_FILE'')) of
        Some path \<Rightarrow> Ok path
      | None \<Rightarrow>
          (case ctx of
             Some c \<Rightarrow> Ok (path_join (ax_data_dir c) ''.env'')
           | None \<Rightarrow>
               and_then (ok_or (''N'' @ u_atilde @ ''o foi poss'' @ u_iacute @ ''vel resolver diret'' @ u_oacute @ ''rio para .env.'')
                           (or_else (sy_config_local_dir sy) (sy_current_dir sy))) (\<lambda>dir.
                 Ok (path_join (path_join dir ''tunnara_console'') ''.env''))))"

definition create_env_file :: "'r rt_sys \<Rightarrow> string \<Rightarrow> rt_world \<Rightarrow> (unit, string) result \<times> rt_world" where
  "create_env_file sy path w =
     (case rw_files w path of
        Some _ \<Rightarrow> (Ok (), w)
      | None \<Rightarrow>
          (case sy_mkparent_err sy path of
             Some err \<Rightarrow> (Err ((''Falha ao criar diret'' @ u_oacute @ ''rio do .env: '') @ err), w)
           | None \<Rightarrow>
               (case sy_write_err sy path of
                  Some err \<Rightarrow> (Err ((''Falha ao criar .env padr'' @ u_atilde @ ''o em '') @ path @ '': '' @ err), w)
                | None \<Rightarrow> (Ok (), w\<lparr>rw_files := (rw_files w)(path \<mapsto> default_env_template)\<rparr>))))"

definition init_env_file ::
  "'r rt_sys \<Rightarrow> app_context option \<Rightarrow> rt_world \<Rightarrow> (string, string) result \<times> rt_world" where
  "init_env_file sy ctx w =
     (case env_file_path sy ctx (rw_env w) of
        Inl err \<Rightarrow> (Err err, w)
      | Inr path \<Rightarrow>
          (case create_env_file sy path w of
             (Inl err, w1) \<Rightarrow> (Err err, w1)
           | (Inr _, w1) \<Rightarrow>
               (case load_env_file sy path w1 of
                  (Inl err, w2) \<Rightarrow> (Err err, w2)
                | (Inr _, w2) \<Rightarrow> (Ok path, w2))))"



definition is_public_bind_host :: "string \<Rightarrow> bool" where
  "is_public_bind_host host \<longleftrightarrow> trim host \<in> {''0.0.0.0'', ''::'', ''[::]''}"

definition env_entries :: "runtime_settings \<Rightarrow> (string \<times> string) list" where
  "env_entries s =
     [(''TUNNARA_CONSOLE_API_HOST'', rs_internal_api_host s),
      (''TUNNARA_CONSOLE_API_PORT'', show_word (rs_internal_api_port s)),
      (''TUNNARA_CONSOLE_API_BASE_URL'', rs_internal_api_base_url s),
      (''TUNNARA_CONSOLE_API_AUTO_START'', show_bool (rs_internal_api_auto_start s)),
      (''TUNNARA_CONSOLE_API_RESTART_ON_CONFIG_CHANGE'', show_bool (rs_internal_api_restart_on_config_change s)),
      (''TUNNARA_CONSOLE_API_REQUIRE_TOKEN'', show_bool (rs_internal_api_require_token s)),
      (''TUNNARA_CONSOLE_API_ALLOW_PUBLIC_NETWORK'', show_bool (rs_internal_api_allow_public_network s)),
      (''TUNNARA_CONSOLE_API_CORS'', show_bool (rs_internal_api_cors_enabled s)),
      (''TUNNARA_CONSOLE_API_TOKEN_HEADER'', rs_internal_api_token_header s),
      (''TUNNARA_CONSOLE_API_TOKEN'', rs_internal_api_token s),
      (''TUNNARA_CONSOLE_API_DOCS_PUBLIC_LOCAL'', show_bool (rs_internal_api_docs_public_local s)),
      (''TUNNARA_CONSOLE_API_OPEN_SCALAR_AFTER_START'', show_bool (rs_internal_api_open_scalar_after_start s)),
      (''TUNNARA_CONSOLE_API_TIMEOUT_MS'', show_word (rs_internal_api_timeout_ms s)),
      (''TUNNARA_CONSOLE_API_LOG_MODE'', rs_internal_api_log_mode s),
      (''TUNNARA_CONSOLE_API_SCALAR_ENABLED'', show_bool (rs_internal_api_docs_enabled s)),
      (''TUNNARA_CONSOLE_API_SCALAR_URL'', rs_internal_api_docs_url s),
      (''TUNNARA_CONSOLE_API_DOCS_PATH'', rs_internal_api_docs_path s),
      (''TUNNARA_CONSOLE_WEB_ENABLED'', show_bool (rs_local_web_enabled s)),
      (''TUNNARA_CONSOLE_WEB_HOST'', rs_local_web_host s),
      (''TUNNARA_CONSOLE_WEB_PORT'', show_word (rs_local_web_port s)),
      (''TUNNARA_CONSOLE_WEB_AUTO_START'', show_bool (rs_local_web_auto_start s)),
      (''TUNNARA_CONSOLE_WEB_BIND_LAN'', show_bool (is_public_bind_host (rs_local_web_host s))),
      (''TUNNARA_CONSOLE_AUX_HOST'', rs_auxiliary_host s),
      (''TUNNARA_CONSOLE_AUX_PORT'', show_word (rs_auxiliary_port s)),
      (''TUNNARA_CONSOLE_BRIDGE_HOST'', rs_bridge_core_host s),
      (''TUNNARA_CONSOLE_BRIDGE_PORT'', show_word (rs_bridge_core_port s)),
      (''TUNNARA_CONSOLE_WEBHOOK_ENABLED'', show_bool (rs_webhook_enabled s)),
      (''TUNNARA_CONSOLE_WEBHOOK_AUTO_START'', show_bool (rs_webhook_auto_start s)),
      (''TUNNARA_CONSOLE_WEBHOOK_HOST'', rs_webhook_host s),
      (''TUNNARA_CONSOLE_WEBHOOK_PORT'', show_word (rs_webhook_port s)),
      (''TUNNARA_CONSOLE_WEBHOOK_BASE_PATH'', rs_webhook_base_path s),
      (''TUNNARA_CONSOLE_WEBHOOK_TOKEN_REQUIRED'', show_bool (rs_webhook_token_required s)),
      (''TUNNARA_CONSOLE_WEBHOOK_TOKEN_HEADER'', rs_webhook_token_header s),
      (''TUNNARA_CONSOLE_WEBHOOK_TOKEN'', rs_webhook_token s),
      (''TUNNARA_CONSOLE_WEBHOOK_ALLOW_LAN'', show_bool (rs_webhook_allow_lan s)),
      (''TUNNARA_CONSOLE_WEBHOOK_ALLOW_EXTERNAL'', show_bool (rs_webhook_allow_external s)),
      (''TUNNARA_CONSOLE_WEBSOCKET_ENABLED'', show_bool (rs_websocket_enabled s)),
      (''TUNNARA_CONSOLE_WEBSOCKET_AUTO_START'', show_bool (rs_websocket_auto_start s)),
      (''TUNNARA_CONSOLE_WEBSOCKET_HOST'', rs_websocket_host s),
      (''TUNNARA_CONSOLE_WEBSOCKET_PORT'', show_word (rs_websocket_port s)),
      (''TUNNARA_CONSOLE_WEBSOCKET_PATH'', rs_websocket_path s),
      (''TUNNARA_CONSOLE_WEBSOCKET_TOKEN_REQUIRED'', show_bool (rs_websocket_token_required s)),
      (''TUNNARA_CONSOLE_WEBSOCKET_TOKEN_QUERY'', rs_websocket_token_query s),
      (''TUNNARA_CONSOLE_WEBSOCKET_TOKEN_HEADER'', rs_websocket_token_header s),
      (''TUNNARA_CONSOLE_WEBSOCKET_TOKEN'', rs_websocket_token s),
      (''TUNNARA_CONSOLE_WEBSOCKET_ALLOW_LAN'', show_bool (rs_websocket_allow_lan s)),
      (''TUNNARA_CONSOLE_WEBSOCKET_ALLOW_EXTERNAL'', show_bool (rs_websocket_allow_external s)),
      (''TUNNARA_CONSOLE_WEBSOCKET_HEARTBEAT_SECONDS'', show_word (rs_websocket_heartbeat_seconds s)),
      (''TUNNARA_CONSOLE_TRAY_ENABLED'', show_bool (rs_tray_enabled s)),
      (''TUNNARA_CONSOLE_TRAY_MINIMIZE_TO_TRAY'', show_bool (rs_minimize_to_tray s)),
      (''TUNNARA_CONSOLE_TRAY_CLOSE_TO_TRAY'', show_bool (rs_close_to_tray s)),
      (''TUNNARA_CONSOLE_START_WITH_WINDOWS'', show_bool (rs_start_with_windows s)),
      (''TUNNARA_CONSOLE_SERVICES_AUTO_START'', show_bool (rs_services_auto_start s)),
      (''TUNNARA_CONSOLE_SERVICE_NAME'', rs_app_service_name s)]"

definition env_line :: "string \<times> string \<Rightarrow> string" where
  "env_line kv = fst kv @ CHR ''='' # snd kv"

definition env_file_lines :: "runtime_settings \<Rightarrow> string list" where
  "env_file_lines s =
     (''# Tunnara Console - gerado pela tela Sistema e par'' @ u_acirc @ ''metros'') # map env_line (env_entries s) @
     [(''# Informe TUNNARA_CONSOLE_API_TOKEN via secret/env real em produ'' @ u_ccedil @ u_atilde @ ''o; n'' @ u_atilde @ ''o commite tokens.'')]"

definition write_env_file ::
  "'r rt_sys \<Rightarrow> string \<Rightarrow> runtime_settings \<Rightarrow> rt_world \<Rightarrow> (unit, string) result \<times> rt_world" where
  "write_env_file sy path s w =
     (case sy_mkparent_err sy path of
        Some err \<Rightarrow> (Err ((''Falha ao criar diret'' @ u_oacute @ ''rio do .env: '') @ err), w)
      | None \<Rightarrow>
          (case sy_open_write_err sy path of
             Some err \<Rightarrow> (Err (''Falha ao abrir .env para escrita: '' @ err), w)
           | None \<Rightarrow>
               (case sy_write_err sy path of
                  Some err \<Rightarrow> (Err (''Falha ao escrever .env: '' @ err), w\<lparr>rw_files := (rw_files w)(path \<mapsto> [])\<rparr>)
                | None \<Rightarrow> (Ok (), w\<lparr>rw_files := (rw_files w)(path \<mapsto> unlines (env_file_lines s))\<rparr>))))"

definition applied_entries :: "runtime_settings \<Rightarrow> (string \<times> string) list" where
  "applied_entries s =
     [(''TUNNARA_CONSOLE_API_HOST'', rs_internal_api_host s),
      (''TUNNARA_CONSOLE_API_PORT'', show_word (rs_internal_api_port s)),
      (''TUNNARA_CONSOLE_API_BASE_URL'', rs_internal_api_base_url s),
      (''TUNNARA_CONSOLE_API_SCALAR_URL'', rs_internal_api_docs_url s),
      (''TUNNARA_CONSOLE_API_AUTO_START'', show_bool (rs_internal_api_auto_start s)),
      (''TUNNARA_CONSOLE_API_ALLOW_PUBLIC_NETWORK'', show_bool (rs_internal_api_allow_public_network s)),
      (''TUNNARA_CONSOLE_API_CORS'', show_bool (rs_internal_api_cors_enabled s)),
      (''TUNNARA_CONSOLE_WEB_ENABLED'', show_bool (rs_local_web_enabled s)),
      (''TUNNARA_CONSOLE_WEB_HOST'', rs_local_web_host s),
      (''TUNNARA_CONSOLE_WEB_PORT'', show_word (rs_local_web_port s)),
      (''TUNNARA_CONSOLE_WEB_AUTO_START'', show_bool (rs_local_web_auto_start s)),
      (''TUNNARA_CONSOLE_WEB_BIND_LAN'', show_bool (rs_local_web_host s = ''0.0.0.0'')),
      (''TUNNARA_CONSOLE_WEBHOOK_ENABLED'', show_bool (rs_webhook_enabled s)),
      (''TUNNARA_CONSOLE_WEBHOOK_AUTO_START'', show_bool (rs_webhook_auto_start s)),
      (''TUNNARA_CONSOLE_WEBHOOK_HOST'', rs_webhook_host s),
      (''TUNNARA_CONSOLE_WEBHOOK_PORT'', show_word (rs_webhook_port s)),
      (''TUNNARA_CONSOLE_WEBHOOK_ALLOW_LAN'', show_bool (rs_webhook_allow_lan s)),
      (''TUNNARA_CONSOLE_WEBSOCKET_ENABLED'', show_bool (rs_websocket_enabled s)),
      (''TUNNARA_CONSOLE_WEBSOCKET_AUTO_START'', show_bool (rs_websocket_auto_start s)),
      (''TUNNARA_CONSOLE_WEBSOCKET_HOST'', rs_websocket_host s),
      (''TUNNARA_CONSOLE_WEBSOCKET_PORT'', show_word (rs_websocket_port s)),
      (''TUNNARA_CONSOLE_WEBSOCKET_ALLOW_LAN'', show_bool (rs_websocket_allow_lan s))]"

definition apply_env_from_settings :: "runtime_settings \<Rightarrow> env \<Rightarrow> env" where
  "apply_env_from_settings s e = foldl (\<lambda>e (k, v). e(k \<mapsto> v)) e (applied_entries s)"

subsection \<open>Normalisation\<close>

definition public_url_host :: "string \<Rightarrow> string" where
  "public_url_host host =
     (let h = trim host
      in if h \<in> {''0.0.0.0'', ''::'', ''[::]''} then ''127.0.0.1''
         else if h = [] then ''127.0.0.1'' else h)"

definition or_blank :: "string \<Rightarrow> string \<Rightarrow> string" where
  "or_blank v d = (if trim v = [] then d else v)"

definition rooted_path :: "string \<Rightarrow> string" where
  "rooted_path p = (if starts_with p ''/'' then p else CHR ''/'' # trim p)"

definition stale_url :: "string \<Rightarrow> bool" where
  "stale_url u \<longleftrightarrow>
     trim u = [] \<or> contains u ''127.0.0.1:61001'' \<or> contains u ''0.0.0.0'' \<or> contains u ''[::]''"

definition or_stale :: "string \<Rightarrow> string \<Rightarrow> string" where
  "or_stale u d = (if stale_url u then d else u)"

definition or_zero :: "'a::len word \<Rightarrow> 'a word \<Rightarrow> 'a word" where
  "or_zero v d = (if v = 0 then d else v)"

definition at_least :: "64 word \<Rightarrow> 64 word \<Rightarrow> 64 word" where
  "at_least lo v = (if v < lo then lo else v)"

definition normalize_api :: "runtime_settings \<Rightarrow> runtime_settings" where
  "normalize_api s =
     (let host = or_blank (rs_internal_api_host s) ''127.0.0.1'';
          port = or_zero (rs_internal_api_port s) internal_api_default_port;
          base_url = ''http://'' @ public_url_host (trim host) @ '':'' @ show_word port;
          docs_path = rooted_path (or_blank (rs_internal_api_docs_path s) ''/docs'')
      in s\<lparr>rs_internal_api_host := host,
           rs_internal_api_allow_public_network := (is_public_bind_host host \<or> rs_internal_api_allow_public_network s),
           rs_internal_api_cors_enabled := (is_public_bind_host host \<or> rs_internal_api_cors_enabled s),
           rs_internal_api_port := port,
           rs_internal_api_base_url :=
             or_stale (rs_internal_api_base_url s) base_url,
           rs_internal_api_docs_path := docs_path,
           rs_internal_api_docs_url :=
             or_stale (rs_internal_api_docs_url s) (base_url @ docs_path),
           rs_internal_api_timeout_ms :=
             at_least 1000 (rs_internal_api_timeout_ms s)\<rparr>)"

definition normalize_web :: "runtime_settings \<Rightarrow> runtime_settings" where
  "normalize_web s =
     s\<lparr>rs_local_web_host := or_blank (rs_local_web_host s) ''127.0.0.1'',
       rs_local_web_port := or_zero (rs_local_web_port s) local_web_default_port,
       rs_internal_api_log_mode := or_blank (rs_internal_api_log_mode s) ''normal'',
       rs_internal_api_token_header := or_blank (rs_internal_api_token_header s) ''X-App-Token''\<rparr>"

definition normalize_webhook :: "runtime_settings \<Rightarrow> runtime_settings" where
  "normalize_webhook s =
     (let host = or_blank (rs_webhook_host s) ''127.0.0.1'';
          port = or_zero (rs_webhook_port s) auxiliary_default_port
      in s\<lparr>rs_webhook_host := host,
           rs_webhook_allow_lan := (is_public_bind_host host \<or> rs_webhook_allow_lan s),
           rs_webhook_port := port,
           rs_webhook_base_path := rooted_path (or_blank (rs_webhook_base_path s) ''/webhooks''),
           rs_webhook_token_header := or_blank (rs_webhook_token_header s) ''X-Webhook-Token'',
           rs_auxiliary_host := host,
           rs_auxiliary_port := port\<rparr>)"

definition normalize_websocket :: "runtime_settings \<Rightarrow> runtime_settings" where
  "normalize_websocket s =
     (let host = or_blank (rs_websocket_host s) ''127.0.0.1'';
          port = or_zero (rs_websocket_port s) bridge_core_default_port
      in s\<lparr>rs_websocket_host := host,
           rs_websocket_allow_lan := (is_public_bind_host host \<or> rs_websocket_allow_lan s),
           rs_websocket_port := port,
           rs_websocket_path := rooted_path (or_blank (rs_websocket_path s) ''/ws''),
           rs_websocket_token_query := or_blank (rs_websocket_token_query s) ''token'',
           rs_websocket_token_header := or_blank (rs_websocket_token_header s) ''X-WebSocket-Token'',
           rs_websocket_heartbeat_seconds :=
             or_zero (rs_websocket_heartbeat_seconds s) 30,
           rs_bridge_core_host := host,
           rs_bridge_core_port := port\<rparr>)"

definition normalize_service_name :: "runtime_settings \<Rightarrow> runtime_settings" where
  "normalize_service_name s = s\<lparr>rs_app_service_name := or_blank (rs_app_service_name s) ''TunnaraConsoleServer''\<rparr>"

definition normalize_runtime_settings :: "runtime_settings \<Rightarrow> runtime_settings" where
  "normalize_runtime_settings s =
     normalize_service_name (normalize_websocket (normalize_webhook (normalize_web (normalize_api s))))"

subsection \<open>Ports\<close>

definition port_item :: "port_definition \<Rightarrow> string \<Rightarrow> 16 word \<Rightarrow> service_port" where
  "port_item pd host port =
     \<lparr>sp_key = pd_key pd, sp_label = pd_label pd, sp_env_host_key = pd_env_host_key pd,
      sp_env_port_key = pd_env_port_key pd, sp_default_port = pd_default_port pd, sp_host = host,
      sp_configured_port = port, sp_effective_port = port, sp_available = True,
      sp_fallback_applied = False, sp_description = pd_description pd\<rparr>"

definition is_port_available :: "'r rt_sys \<Rightarrow> string \<Rightarrow> 16 word \<Rightarrow> bool" where
  "is_port_available sy host port =
     (let bind_host = (if trim host = [] then ''127.0.0.1'' else trim host);
          addr = bind_host @ '':'' @ show_word port
      in sy_addr_err sy addr = None \<and> sy_bind_ok sy addr)"

definition service_enabled :: "runtime_settings \<Rightarrow> string \<Rightarrow> bool" where
  "service_enabled s key =
     (if key = ''local_web'' then rs_local_web_enabled s
      else if key = ''auxiliary'' then rs_webhook_enabled s
      else if key = ''bridge_core'' then rs_websocket_enabled s
      else True)"

definition planned_ports :: "runtime_settings \<Rightarrow> service_port list" where
  "planned_ports s =
     [port_item internal_api_port_definition (rs_internal_api_host s) (rs_internal_api_port s),
      port_item local_web_port_definition (rs_local_web_host s) (rs_local_web_port s),
      port_item auxiliary_port_definition (rs_webhook_host s) (rs_webhook_port s),
      port_item bridge_core_port_definition (rs_websocket_host s) (rs_websocket_port s)]"

definition conflict_warning :: "16 word \<Rightarrow> string" where
  "conflict_warning port =
     ''Porta '' @ show_word port @
     ('' est'' @ u_aacute @ '' configurada em mais de um servi'' @ u_ccedil @ ''o ativo. Ajuste as portas para evitar conflito entre API/Web/Webhook/WebSocket.'')"

text \<open>The loop over the ports, with the set \<open>seen\<close> of ports of enabled services so far.\<close>

fun mark_ports ::
  "'r rt_sys \<Rightarrow> runtime_settings \<Rightarrow> 16 word set \<Rightarrow> service_port list \<Rightarrow> service_port list \<times> string list" where
  "mark_ports sy s seen [] = ([], [])"
| "mark_ports sy s seen (item # items) =
     (let port = sp_configured_port item;
          enabled = service_enabled s (sp_key item);
          conflict = (enabled \<and> port \<in> seen);
          busy = (enabled \<and> \<not> is_port_available sy (sp_host item) port);
          item' = item\<lparr>sp_effective_port := port, sp_fallback_applied := False,
                       sp_available := (sp_available item \<and> \<not> conflict \<and> \<not> busy)\<rparr>;
          (rest, warnings) = mark_ports sy s (if enabled then insert port seen else seen) items
      in (item' # rest, (if conflict then [conflict_warning port] else []) @ warnings))"

definition build_ports :: "'r rt_sys \<Rightarrow> runtime_settings \<Rightarrow> service_port list \<times> string list" where
  "build_ports sy s = mark_ports sy s {} (planned_ports s)"

definition validate_port_range :: "runtime_settings \<Rightarrow> (unit, string) result" where
  "validate_port_range s =
     (case find (\<lambda>(label, port). port = 0)
             [(''API interna'', rs_internal_api_port s), (''Servidor web local'', rs_local_web_port s),
              (''WebSocket Service'', rs_websocket_port s), (''Webhook Service'', rs_webhook_port s)] of
        Some (label, _) \<Rightarrow> Err (label @ '': porta deve estar entre 1 e 65535.'')
      | None \<Rightarrow> Ok ())"

fun repeats_port :: "16 word set \<Rightarrow> service_port list \<Rightarrow> bool" where
  "repeats_port seen [] = False"
| "repeats_port seen (item # items) =
     (sp_configured_port item \<in> seen \<or> repeats_port (insert (sp_configured_port item) seen) items)"

definition has_duplicate_configured_ports :: "runtime_settings \<Rightarrow> service_port list \<Rightarrow> bool" where
  "has_duplicate_configured_ports s ports =
     repeats_port {} (filter (\<lambda>item. service_enabled s (sp_key item)) ports)"

subsection \<open>Loading and saving\<close>

definition stored_settings ::
  "runtime_settings rt_sys \<Rightarrow> env \<Rightarrow> string \<Rightarrow> rt_world \<Rightarrow> (runtime_settings, string) result" where
  "stored_settings sy e db w =
     (case sy_query_err sy of
        Some err \<Rightarrow> Err ((''Falha ao ler configura'' @ u_ccedil @ u_otilde @ ''es runtime: '') @ err)
      | None \<Rightarrow>
          (case rw_app_settings w db ''runtime.settings'' of
             None \<Rightarrow> Ok (runtime_settings_default e)
           | Some row \<Rightarrow>
               (if trim (as_valor row) = [] then Ok (runtime_settings_default e)
                else map_err (\<lambda>err. (''Configura'' @ u_ccedil @ u_atilde @ ''o runtime inv'' @ u_aacute @ ''lida no banco: '') @ err)
                       (sy_of_json sy e (as_valor row)))))"

definition load_settings ::
  "runtime_settings rt_sys \<Rightarrow> rt_world \<Rightarrow> (settings_payload, string) result \<times> rt_world" where
  "load_settings sy w =
     (case init_env_file sy (rw_ctx w) w of
        (Inl err, w1) \<Rightarrow> (Err err, w1)
      | (Inr env_path, w1) \<Rightarrow>
          (and_then (state_db_path w1) (\<lambda>db_path.
             and_then (open_connection sy db_path) (\<lambda>db.
             and_then (stored_settings sy (rw_env w1) db w1) (\<lambda>stored.
               let s = normalize_runtime_settings stored;
                   (ports, warnings) = build_ports sy s
               in Ok \<lparr>py_env_path = env_path, py_settings = s, py_ports = ports, py_warnings = warnings\<rparr>))),
           w1))"

text \<open>\<^verbatim>\<open>INSERT OR REPLACE\<close> into \<^verbatim>\<open>app_settings\<close>, keeping the creation time of an existing row.\<close>

definition store_setting :: "string \<Rightarrow> string \<Rightarrow> string \<Rightarrow> string \<Rightarrow> rt_world \<Rightarrow> rt_world" where
  "store_setting db key valor now w =
     w\<lparr>rw_app_settings := (rw_app_settings w)(db := (rw_app_settings w db)(key \<mapsto>
         \<lparr>as_valor = valor,
          as_created_at = (case rw_app_settings w db key of Some row \<Rightarrow> as_created_at row | None \<Rightarrow> now),
          as_updated_at = now\<rparr>))\<rparr>"

definition persist_settings ::
  "runtime_settings rt_sys \<Rightarrow> runtime_settings \<Rightarrow> rt_world \<Rightarrow> (unit, string) result \<times> rt_world" where
  "persist_settings sy s w =
     (case and_then (state_db_path w) (\<lambda>db_path.
             and_then (open_connection sy db_path) (\<lambda>db.
             and_then (sy_to_json sy s) (\<lambda>serialized. Ok (db, serialized)))) of
        Inl err \<Rightarrow> (Err err, w)
      | Inr (db, serialized) \<Rightarrow>
          (case sy_exec_err sy of
             Some err \<Rightarrow> (Err ((''Falha ao persistir configura'' @ u_ccedil @ u_otilde @ ''es runtime: '') @ err), w)
           | None \<Rightarrow> (Ok (), store_setting db ''runtime.settings'' serialized (sy_now sy) w)))"

definition save_settings ::
  "runtime_settings rt_sys \<Rightarrow> runtime_settings \<Rightarrow> rt_world \<Rightarrow> (settings_payload, string) result \<times> rt_world" where
  "save_settings sy input w =
     (let s = normalize_runtime_settings input in
      case validate_port_range s of
        Inl err \<Rightarrow> (Err err, w)
      | Inr _ \<Rightarrow>
          (case init_env_file sy (rw_ctx w) w of
             (Inl err, w1) \<Rightarrow> (Err err, w1)
           | (Inr env_path, w1) \<Rightarrow>
               (let (ports, warnings) = build_ports sy s in
                if has_duplicate_configured_ports s ports
                then (Err (''H'' @ u_aacute @ '' portas configuradas em conflito entre servi'' @ u_ccedil @ ''os ativos. Ajuste antes de salvar.''), w1)
                else case persist_settings sy s w1 of
                       (Inl err, w2) \<Rightarrow> (Err err, w2)
                     | (Inr _, w2) \<Rightarrow>
                         (case write_env_file sy env_path s w2 of
                            (Inl err, w3) \<Rightarrow> (Err err, w3)
                          | (Inr _, w3) \<Rightarrow>
                              (Ok \<lparr>py_env_path = env_path, py_settings = normalize_runtime_settings s,
                                  py_ports = ports, py_warnings = warnings\<rparr>,
                               w3\<lparr>rw_env := apply_env_from_settings s (rw_env w3)\<rparr>)))))"

end
