(* ===== verification/Runtime_Props.thy ===== *)
theory Runtime_Props
  imports Runtime_Config
begin

text \<open>
  Properties of the runtime settings: normalisation, ports, the environment file, and
  saving and loading.
\<close>

subsection \<open>Normalisation\<close>

lemma or_blank_idem [simp]: "or_blank (or_blank v d) d = or_blank v d"
  by (simp add: or_blank_def)

lemma or_zero_idem [simp]: "or_zero (or_zero v d) d = or_zero v d"
  by (simp add: or_zero_def)

lemma or_stale_idem [simp]: "or_stale (or_stale v d) d = or_stale v d"
  by (simp add: or_stale_def)

lemma at_least_idem [simp]: "at_least lo (at_least lo v) = at_least lo v"
  by (simp add: at_least_def)

lemma rooted_path_starts [simp]: "starts_with (rooted_path p) ''/''"
  by (simp add: rooted_path_def)

lemma trim_nonblank: "graph_char c \<Longrightarrow> trim (c # q) \<noteq> []"
  using trim_starts_graph [of c q] by auto

lemma trim_rooted [simp]: "trim (rooted_path p) \<noteq> []"
proof -
  obtain q where "rooted_path p = CHR ''/'' # q"
    using rooted_path_starts [of p] by (auto simp: starts_with_iff)
  then show ?thesis by (simp add: trim_nonblank graph_char_def)
qed

lemma or_blank_rooted [simp]: "or_blank (rooted_path p) d = rooted_path p"
  by (simp add: or_blank_def)

lemma rooted_path_idem [simp]: "rooted_path (rooted_path p) = rooted_path p"
  by (simp add: rooted_path_def [of "rooted_path p"])

lemmas normalize_defs = normalize_runtime_settings_def normalize_service_name_def normalize_websocket_def
  normalize_webhook_def normalize_web_def normalize_api_def

lemma normalize_idem:
  "normalize_runtime_settings (normalize_runtime_settings s) = normalize_runtime_settings s"
  by (simp add: normalize_defs Let_def)

lemma trim_or_blank: "trim d \<noteq> [] \<Longrightarrow> trim (or_blank v d) \<noteq> []"
  by (simp add: or_blank_def)

lemma trim_or_stale: "trim d \<noteq> [] \<Longrightarrow> trim (or_stale v d) \<noteq> []"
  by (simp add: or_stale_def stale_url_def)

lemma or_zero_pos: "d \<noteq> 0 \<Longrightarrow> or_zero v d \<noteq> 0"
  by (simp add: or_zero_def)

lemmas port_constants = internal_api_default_port_def local_web_default_port_def
  auxiliary_default_port_def bridge_core_default_port_def

lemma normalized_text:
  fixes s :: runtime_settings
  defines "t \<equiv> normalize_runtime_settings s"
  shows "trim (rs_internal_api_host t) \<noteq> []" "trim (rs_internal_api_base_url t) \<noteq> []"
    "trim (rs_internal_api_docs_url t) \<noteq> []" "trim (rs_internal_api_docs_path t) \<noteq> []"
    "trim (rs_internal_api_log_mode t) \<noteq> []" "trim (rs_internal_api_token_header t) \<noteq> []"
    "trim (rs_local_web_host t) \<noteq> []" "trim (rs_webhook_host t) \<noteq> []"
    "trim (rs_webhook_base_path t) \<noteq> []" "trim (rs_webhook_token_header t) \<noteq> []"
    "trim (rs_websocket_host t) \<noteq> []" "trim (rs_websocket_path t) \<noteq> []"
    "trim (rs_websocket_token_query t) \<noteq> []" "trim (rs_websocket_token_header t) \<noteq> []"
    "trim (rs_app_service_name t) \<noteq> []"
  unfolding t_def
  by (simp_all add: normalize_defs Let_def trim_or_blank trim_or_stale trim_nonblank graph_char_def)

lemma normalized_numbers:
  fixes s :: runtime_settings
  defines "t \<equiv> normalize_runtime_settings s"
  shows "rs_internal_api_port t \<noteq> 0" "rs_local_web_port t \<noteq> 0" "rs_webhook_port t \<noteq> 0"
    "rs_websocket_port t \<noteq> 0" "1000 \<le> rs_internal_api_timeout_ms t" "rs_internal_api_timeout_ms t \<noteq> 0"
    "rs_websocket_heartbeat_seconds t \<noteq> 0"
  unfolding t_def
  by (auto simp: normalize_defs Let_def or_zero_pos port_constants at_least_def)

lemma normalized_mirrors:
  fixes s :: runtime_settings
  defines "t \<equiv> normalize_runtime_settings s"
  shows "rs_auxiliary_host t = rs_webhook_host t" "rs_auxiliary_port t = rs_webhook_port t"
    "rs_bridge_core_host t = rs_websocket_host t" "rs_bridge_core_port t = rs_websocket_port t"
  unfolding t_def by (simp_all add: normalize_defs Let_def)

lemma normalized_public:
  fixes s :: runtime_settings
  defines "t \<equiv> normalize_runtime_settings s"
  shows "is_public_bind_host (rs_internal_api_host t) \<Longrightarrow>
      rs_internal_api_allow_public_network t \<and> rs_internal_api_cors_enabled t"
    "is_public_bind_host (rs_webhook_host t) \<Longrightarrow> rs_webhook_allow_lan t"
    "is_public_bind_host (rs_websocket_host t) \<Longrightarrow> rs_websocket_allow_lan t"
  unfolding t_def by (simp_all add: normalize_defs Let_def)

subsection \<open>Ports\<close>

lemma mark_ports_items:
  "map (\<lambda>i. (sp_key i, sp_configured_port i)) (fst (mark_ports sy s seen items)) =
   map (\<lambda>i. (sp_key i, sp_configured_port i)) items"
  by (induction items arbitrary: seen) (simp_all add: Let_def case_prod_beta)

lemma repeats_port_pairs:
  "repeats_port seen items \<longleftrightarrow>
     \<not> (distinct (map sp_configured_port items) \<and> set (map sp_configured_port items) \<inter> seen = {})"
  by (induction seen items rule: repeats_port.induct) auto

abbreviation enabled_ports :: "runtime_settings \<Rightarrow> service_port list \<Rightarrow> 16 word list" where
  "enabled_ports s items \<equiv> map sp_configured_port (filter (\<lambda>i. service_enabled s (sp_key i)) items)"

lemma mark_ports_warnings:
  "snd (mark_ports sy s seen items) = [] \<longleftrightarrow>
     distinct (enabled_ports s items) \<and> set (enabled_ports s items) \<inter> seen = {}"
proof (induction items arbitrary: seen)
  case (Cons item items)
  then show ?case
    by (cases "service_enabled s (sp_key item)") (auto simp: Let_def case_prod_beta)
qed simp

lemma enabled_ports_pairs:
  "enabled_ports s items = map snd (filter (\<lambda>(k, p). service_enabled s k) (map (\<lambda>i. (sp_key i, sp_configured_port i)) items))"
  by (induction items) auto

lemma enabled_ports_marked: "enabled_ports s (fst (mark_ports sy s' seen items)) = enabled_ports s items"
  unfolding enabled_ports_pairs mark_ports_items ..

lemma duplicate_iff:
  "has_duplicate_configured_ports s (fst (build_ports sy s')) \<longleftrightarrow> \<not> distinct (enabled_ports s (planned_ports s'))"
  by (simp add: has_duplicate_configured_ports_def repeats_port_pairs build_ports_def enabled_ports_marked
      del: filter_map)

lemma mark_ports_fixed:
  "\<forall>i \<in> set (fst (mark_ports sy s seen items)). sp_effective_port i = sp_configured_port i \<and> \<not> sp_fallback_applied i"
  by (induction items arbitrary: seen) (simp_all add: Let_def case_prod_beta)

subsection \<open>The environment file\<close>

definition env_clean :: "string \<Rightarrow> bool" where
  "env_clean v \<longleftrightarrow>
     CHR 0x0A \<notin> set v \<and> CHR 0x0D \<notin> set v \<and>
     (v = [] \<or> (graph_char (hd v) \<and> graph_char (last v) \<and>
        hd v \<notin> {CHR 0x22, CHR 0x27} \<and> last v \<notin> {CHR 0x22, CHR 0x27}))"

definition env_key :: "string \<Rightarrow> bool" where
  "env_key k \<longleftrightarrow>
     k \<noteq> [] \<and> graph_char (hd k) \<and> graph_char (last k) \<and> hd k \<noteq> CHR ''#'' \<and>
     CHR ''='' \<notin> set k \<and> CHR 0x0A \<notin> set k \<and> CHR 0x0D \<notin> set k"

lemma env_key_facts:
  assumes "env_key k"
  shows "k \<noteq> []" "graph_char (hd k)" "trim k = k" "CHR ''='' \<notin> set k" "hd k \<noteq> CHR ''#''"
    "CHR 0x0A \<notin> set k" "CHR 0x0D \<notin> set k"
  using assms trim_graph [of k] by (simp_all add: env_key_def)

lemma env_line_trimmed:
  assumes "env_key k" and "env_clean v"
  shows "trim (env_line (k, v)) = env_line (k, v)"
proof (rule trim_graph)
  note k = env_key_facts [OF assms(1)]
  from k show "graph_char (hd (env_line (k, v)))" by (simp add: env_line_def)
  from assms(2) show "graph_char (last (env_line (k, v)))"
    by (cases "v = []") (simp_all add: env_line_def env_clean_def graph_char_def)
qed (simp add: env_line_def)

lemma env_clean_value:
  assumes "env_clean v"
  shows "trim_matches (CHR 0x27) (trim_matches (CHR 0x22) (trim v)) = v"
proof -
  have "trim v = v" using assms by (cases "v = []") (auto simp: env_clean_def intro: trim_graph)
  moreover have "trim_matches (CHR 0x22) v = v" "trim_matches (CHR 0x27) v = v"
    using assms by (auto simp: env_clean_def intro!: trim_matches_id)
  ultimately show ?thesis by simp
qed

lemma load_entry:
  assumes "env_key k" and "env_clean v"
  shows "load_env_line e (env_line (k, v)) = (if e k = None then e(k \<mapsto> v) else e)"
proof -
  note k = env_key_facts [OF assms(1)]
  have "\<not> starts_with (env_line (k, v)) ''#''"
    using k(1,5) by (cases k) (simp_all add: env_line_def)
  moreover have "split_once (CHR ''='') (env_line (k, v)) = (k, Some v)"
    using k(4) by (simp add: env_line_def split_once_append)
  moreover have "CHR ''='' \<in> set (env_line (k, v))" "env_line (k, v) \<noteq> []" by (simp_all add: env_line_def)
  ultimately show ?thesis
    using k(1,3) env_clean_value [OF assms(2)]
    by (simp add: load_env_line_def Let_def env_line_trimmed [OF assms])
qed

lemma load_comment: "load_env_line e (CHR ''#'' # l) = e"
proof -
  obtain t where "trim (CHR ''#'' # l) = CHR ''#'' # t"
    using trim_starts_graph [of "CHR ''#''" l] by (auto simp: graph_char_def)
  then show ?thesis by (simp add: load_env_line_def Let_def)
qed

lemma load_entries:
  assumes "\<forall>(k, v) \<in> set kvs. env_key k \<and> env_clean v"
  shows "foldl load_env_line e (map env_line kvs) = map_of kvs ++ e"
  using assms
proof (induction kvs arbitrary: e)
  case (Cons kv kvs)
  obtain k v where kv: "kv = (k, v)" by (cases kv)
  with Cons have "foldl load_env_line e (map env_line (kv # kvs)) =
      map_of kvs ++ (if e k = None then e(k \<mapsto> v) else e)"
    by (simp add: load_entry)
  also have "\<dots> = map_of (kv # kvs) ++ e"
    using kv by (auto simp: map_add_def fun_eq_iff split: option.splits)
  finally show ?case .
qed simp

lemma load_env_line_keeps: "e k = Some v \<Longrightarrow> load_env_line e l k = Some v"
  by (auto simp: load_env_line_def Let_def split: prod.splits)

lemma load_env_text_keeps: "e k = Some v \<Longrightarrow> load_env_text e raw k = Some v"
proof -
  have "e k = Some v \<Longrightarrow> foldl load_env_line e ls k = Some v" for ls
    by (induction ls arbitrary: e) (simp_all add: load_env_line_keeps)
  then show "e k = Some v \<Longrightarrow> load_env_text e raw k = Some v" by (simp add: load_env_text_def)
qed

text \<open>A file made of a comment, entries and a comment.\<close>

lemma load_framed_entries:
  assumes kvs: "\<forall>(k, v) \<in> set kvs. env_key k \<and> env_clean v"
    and cs: "\<forall>c \<in> set (cs @ ds). (\<exists>l. c = CHR ''#'' # l) \<and> CHR 0x0A \<notin> set c \<and> CHR 0x0D \<notin> set c"
  shows "load_env_text e (unlines (cs @ map env_line kvs @ ds)) = map_of kvs ++ e"
proof -
  have comments: "\<forall>c \<in> set xs. \<exists>l. c = CHR ''#'' # l \<Longrightarrow> foldl load_env_line e xs = e" for xs e
    by (induction xs) (auto simp: load_comment)
  have "CHR 0x0A \<notin> set (env_line kv) \<and> CHR 0x0D \<notin> set (env_line kv)" if "kv \<in> set kvs" for kv
  proof -
    obtain k v where kv: "kv = (k, v)" by (cases kv)
    with kvs that have "env_key k" and "env_clean v" by auto
    with env_key_facts(6,7) kv show ?thesis by (auto simp: env_line_def env_clean_def)
  qed
  with cs have "rust_lines (unlines (cs @ map env_line kvs @ ds)) = cs @ map env_line kvs @ ds"
    unfolding unlines_def by (intro rust_lines_concat) auto
  with cs show ?thesis by (simp add: load_env_text_def comments load_entries [OF kvs])
qed

lemma env_entries_distinct: "distinct (map fst (env_entries s))"
  by (simp add: env_entries_def)

lemma env_entries_keys: "list_all (\<lambda>kv. env_key (fst kv)) (env_entries s)"
  by (simp add: env_entries_def env_key_def graph_char_def)

lemma env_entries_lookup:
  assumes "dom e \<inter> set (map fst (env_entries s)) = {}"
  shows "list_all (\<lambda>kv. (map_of (env_entries s) ++ e) (fst kv) = Some (snd kv)) (env_entries s)"
proof (unfold list_all_iff, intro ballI)
  fix kv assume kv: "kv \<in> set (env_entries s)"
  then have "e (fst kv) = None" using assms by (force simp: dom_def)
  moreover have "map_of (env_entries s) (fst kv) = Some (snd kv)"
    using kv env_entries_distinct [of s] by (simp add: map_of_is_SomeI)
  ultimately show "(map_of (env_entries s) ++ e) (fst kv) = Some (snd kv)" by (simp add: map_add_def)
qed

lemma env_file_framed: "env_file_lines s =
    [(''# Tunnara Console - gerado pela tela Sistema e par'' @ u_acirc @ ''metros'')] @ map env_line (env_entries s) @
    [(''# Informe TUNNARA_CONSOLE_API_TOKEN via secret/env real em produ'' @ u_ccedil @ u_atilde @ ''o; n'' @ u_atilde @ ''o commite tokens.'')]"
  by (simp add: env_file_lines_def)

text \<open>C24. The environment file that a save writes reads back: with none of its keys set in the process, loading the file and taking the defaults from the environment gives exactly the normalised settings, as long as no value has a line break, a quote or a blank at its ends.\<close>

theorem env_file_roundtrip:
  assumes clean: "\<forall>(k, v) \<in> set (env_entries (normalize_runtime_settings s)). env_clean v"
    and fresh: "dom e \<inter> set (map fst (env_entries (normalize_runtime_settings s))) = {}"
  shows "runtime_settings_default
      (load_env_text e (unlines (env_file_lines (normalize_runtime_settings s)))) = normalize_runtime_settings s"
proof -
  define t where "t = normalize_runtime_settings s"
  define E where "E = map_of (env_entries t) ++ e"
  have "load_env_text e (unlines (env_file_lines t)) = E"
    unfolding env_file_framed E_def using clean env_entries_keys [of t]
    by (intro load_framed_entries) (fastforce simp: t_def list_all_iff, simp)
  moreover have "list_all (\<lambda>kv. E (fst kv) = Some (snd kv)) (env_entries t)"
    using env_entries_lookup [of e t] fresh by (simp add: E_def t_def)
  note at = this [unfolded env_entries_def list.pred_inject fst_conv snd_conv]
  note nb = normalized_text [of s, folded t_def] and num = normalized_numbers [of s, folded t_def]
    and mir = normalized_mirrors [of s, folded t_def]
  have tok: "(if trim v = [] then [] else v) = v" if "env_clean v" for v
    using that trim_nonblank [of "hd v" "tl v"] by (cases v) (auto simp: env_clean_def)
  have toks: "env_clean (rs_internal_api_token t)" "env_clean (rs_webhook_token t)" "env_clean (rs_websocket_token t)"
    using clean by (simp_all add: env_entries_def flip: t_def)
  have "runtime_settings_default E = t"
    by (rule runtime_settings.equality)
      (simp_all add: runtime_settings_default_def env_read_back at nb num mir tok [OF toks(1)] tok [OF toks(2)] tok [OF toks(3)])
  ultimately show ?thesis by (simp add: t_def)
qed

lemma env_clean_digits:
  assumes "v \<noteq> []" and "list_all is_ascii_digit v"
  shows "env_clean v"
proof -
  have digit: "graph_char c \<and> c \<noteq> CHR 0x0A \<and> c \<noteq> CHR 0x0D \<and> c \<noteq> CHR 0x22 \<and> c \<noteq> CHR 0x27"
    if "c \<in> set v" for c
    using assms(2) that by (auto simp: list_all_iff is_ascii_digit_def graph_char_def)
  from digit [of "hd v"] digit [of "last v"] digit assms(1) show ?thesis by (auto simp: env_clean_def)
qed

lemma env_clean_show_word [simp]: "env_clean (show_word p)"
  unfolding show_word_def by (rule env_clean_digits) (simp_all add: show_nat_digits)

lemma env_clean_show_bool [simp]: "env_clean (show_bool b)"
  by (simp add: show_bool_def env_clean_def graph_char_def)

definition demo_settings :: runtime_settings where
  "demo_settings = runtime_settings_default Map.empty"

lemma demo_settings_entries: "list_all (\<lambda>kv. env_clean (snd kv)) (env_entries (normalize_runtime_settings demo_settings))"
proof -
  have "show_word (61001 :: 16 word) = ''61001''"
    by (simp add: show_word_def show_nat.simps digit_char_def char_of_def bit_0)
  then have "env_clean (rs_internal_api_base_url (normalize_runtime_settings demo_settings)) \<and>
      env_clean (rs_internal_api_docs_url (normalize_runtime_settings demo_settings))"
    by (simp add: normalize_defs Let_def demo_settings_def runtime_settings_default_def env_string_def env_u16_def
        or_stale_def stale_url_def public_url_host_def or_blank_def or_zero_def rooted_path_def
        trim_graph graph_char_def port_constants env_clean_def)
  then show ?thesis
    by (simp add: env_entries_def)
      (simp add: normalize_defs Let_def demo_settings_def runtime_settings_default_def env_string_def
        or_blank_def rooted_path_def trim_graph graph_char_def env_clean_def)
qed

theorem env_file_roundtrip_witness:
  "runtime_settings_default (load_env_text Map.empty (unlines (env_file_lines (normalize_runtime_settings demo_settings))))
     = normalize_runtime_settings demo_settings"
proof (rule env_file_roundtrip)
  show "\<forall>(k, v) \<in> set (env_entries (normalize_runtime_settings demo_settings)). env_clean v"
    using demo_settings_entries by (auto simp: list_all_iff)
qed simp

subsection \<open>Statements on normalisation, ports and precedence\<close>

lemma validate_normalized: "validate_port_range (normalize_runtime_settings s) = Ok ()"
  using normalized_numbers [of s] by (simp add: validate_port_range_def)

text \<open>Normalisation reaches a normal form in one pass: a second pass changes nothing, the four ports are non-zero so that the port check always passes, the time-out is at least a second, and the two legacy port fields mirror the services they stand for.\<close>

theorem normalize_settings_normal:
  "normalize_runtime_settings (normalize_runtime_settings s) = normalize_runtime_settings s \<and>
   validate_port_range (normalize_runtime_settings s) = Ok () \<and>
   1000 \<le> rs_internal_api_timeout_ms (normalize_runtime_settings s) \<and>
   rs_websocket_heartbeat_seconds (normalize_runtime_settings s) \<noteq> 0 \<and>
   rs_auxiliary_host (normalize_runtime_settings s) = rs_webhook_host (normalize_runtime_settings s) \<and>
   rs_auxiliary_port (normalize_runtime_settings s) = rs_webhook_port (normalize_runtime_settings s) \<and>
   rs_bridge_core_host (normalize_runtime_settings s) = rs_websocket_host (normalize_runtime_settings s) \<and>
   rs_bridge_core_port (normalize_runtime_settings s) = rs_websocket_port (normalize_runtime_settings s)"
  using normalize_idem [of s] validate_normalized [of s] normalized_numbers [of s] normalized_mirrors [of s]
  by simp

text \<open>The port plan never moves a port (the effective port is the configured one, in the order API, web, webhook, WebSocket), it warns exactly when two enabled services share a port, and the duplicate check that guards a save agrees with the warnings.\<close>

theorem build_ports_conflicts:
  "map sp_effective_port (fst (build_ports sy s)) =
     [rs_internal_api_port s, rs_local_web_port s, rs_webhook_port s, rs_websocket_port s] \<and>
   (snd (build_ports sy s) = [] \<longleftrightarrow>
      distinct (map snd (filter fst
        [(True, rs_internal_api_port s), (rs_local_web_enabled s, rs_local_web_port s),
         (rs_webhook_enabled s, rs_webhook_port s), (rs_websocket_enabled s, rs_websocket_port s)]))) \<and>
   (has_duplicate_configured_ports s (fst (build_ports sy s)) \<longleftrightarrow> snd (build_ports sy s) \<noteq> [])"
proof -
  have "map sp_effective_port (fst (build_ports sy s)) = map sp_configured_port (fst (build_ports sy s))"
    using mark_ports_fixed [of sy s "{}" "planned_ports s"] by (simp add: build_ports_def)
  also have "\<dots> = map snd (map (\<lambda>i. (sp_key i, sp_configured_port i)) (fst (build_ports sy s)))" by simp
  also have "\<dots> = map sp_configured_port (planned_ports s)" unfolding build_ports_def mark_ports_items by simp
  finally have eff: "map sp_effective_port (fst (build_ports sy s)) = map sp_configured_port (planned_ports s)" .
  have en: "enabled_ports s (planned_ports s) = map snd (filter fst
      [(True, rs_internal_api_port s), (rs_local_web_enabled s, rs_local_web_port s),
       (rs_webhook_enabled s, rs_webhook_port s), (rs_websocket_enabled s, rs_websocket_port s)])"
    by (simp add: planned_ports_def port_item_def service_enabled_def internal_api_port_definition_def
        local_web_port_definition_def auxiliary_port_definition_def bridge_core_port_definition_def)
  have warn: "snd (build_ports sy s) = [] \<longleftrightarrow> distinct (enabled_ports s (planned_ports s))"
    unfolding build_ports_def mark_ports_warnings by simp
  show ?thesis
    unfolding duplicate_iff warn eff en by (simp add: planned_ports_def port_item_def)
qed

text \<open>Loading an environment file never overrides the process: a variable that is already set keeps its value whatever the file says.\<close>

theorem process_environment_wins:
  assumes "e k = Some v"
  shows "load_env_text e raw k = Some v"
  using assms by (rule load_env_text_keeps)

theorem process_environment_wins_witness:
  "load_env_text [''A'' \<mapsto> ''1''] ''A=2'' ''A'' = Some ''1''"
  by (rule process_environment_wins) simp

end
