(* ===== verification/Runtime_Save.thy ===== *)
theory Runtime_Save
  imports Runtime_Props
begin

text \<open>
  The template of the environment file against the defaults, and saving followed by
  loading.
\<close>

subsection \<open>The template\<close>

definition template_entries :: "(string \<times> string) list" where
  "template_entries =
     [(''TUNNARA_CONSOLE_API_HOST'', ''127.0.0.1''),
      (''TUNNARA_CONSOLE_API_PORT'', ''61001''),
      (''TUNNARA_CONSOLE_API_AUTO_START'', ''true''),
      (''TUNNARA_CONSOLE_API_BASE_URL'', ''http://127.0.0.1:61001''),
      (''TUNNARA_CONSOLE_API_SCALAR_ENABLED'', ''true''),
      (''TUNNARA_CONSOLE_API_SCALAR_URL'', ''http://127.0.0.1:61001/docs''),
      (''TUNNARA_CONSOLE_API_DOCS_PATH'', ''/docs''),
      (''TUNNARA_CONSOLE_API_DOCS_PUBLIC_LOCAL'', ''true''),
      (''TUNNARA_CONSOLE_API_RESTART_ON_CONFIG_CHANGE'', ''true''),
      (''TUNNARA_CONSOLE_API_OPEN_SCALAR_AFTER_START'', ''false''),
      (''TUNNARA_CONSOLE_API_TIMEOUT_MS'', ''8000''),
      (''TUNNARA_CONSOLE_API_LOG_MODE'', ''normal''),
      (''TUNNARA_CONSOLE_WEB_ENABLED'', ''true''),
      (''TUNNARA_CONSOLE_WEB_HOST'', ''127.0.0.1''),
      (''TUNNARA_CONSOLE_WEB_PORT'', ''61002''),
      (''TUNNARA_CONSOLE_WEB_AUTO_START'', ''true''),
      (''TUNNARA_CONSOLE_WEB_BIND_LAN'', ''false''),
      (''TUNNARA_CONSOLE_WEBHOOK_AUTO_START'', ''false''),
      (''TUNNARA_CONSOLE_WEBHOOK_ENABLED'', ''false''),
      (''TUNNARA_CONSOLE_WEBHOOK_HOST'', ''127.0.0.1''),
      (''TUNNARA_CONSOLE_WEBHOOK_PORT'', ''61003''),
      (''TUNNARA_CONSOLE_WEBHOOK_BASE_PATH'', ''/webhooks''),
      (''TUNNARA_CONSOLE_WEBHOOK_TOKEN_REQUIRED'', ''true''),
      (''TUNNARA_CONSOLE_WEBHOOK_TOKEN_HEADER'', ''X-Webhook-Token''),
      (''TUNNARA_CONSOLE_WEBHOOK_TOKEN'', []),
      (''TUNNARA_CONSOLE_WEBHOOK_ALLOW_LAN'', ''false''),
      (''TUNNARA_CONSOLE_WEBHOOK_ALLOW_EXTERNAL'', ''false''),
      (''TUNNARA_CONSOLE_WEBSOCKET_ENABLED'', ''false''),
      (''TUNNARA_CONSOLE_WEBSOCKET_AUTO_START'', ''false''),
      (''TUNNARA_CONSOLE_WEBSOCKET_HOST'', ''127.0.0.1''),
      (''TUNNARA_CONSOLE_WEBSOCKET_PORT'', ''61004''),
      (''TUNNARA_CONSOLE_WEBSOCKET_PATH'', ''/ws''),
      (''TUNNARA_CONSOLE_WEBSOCKET_TOKEN_REQUIRED'', ''true''),
      (''TUNNARA_CONSOLE_WEBSOCKET_TOKEN_QUERY'', ''token''),
      (''TUNNARA_CONSOLE_WEBSOCKET_TOKEN_HEADER'', ''X-WebSocket-Token''),
      (''TUNNARA_CONSOLE_WEBSOCKET_TOKEN'', []),
      (''TUNNARA_CONSOLE_WEBSOCKET_ALLOW_LAN'', ''false''),
      (''TUNNARA_CONSOLE_WEBSOCKET_ALLOW_EXTERNAL'', ''false''),
      (''TUNNARA_CONSOLE_WEBSOCKET_HEARTBEAT_SECONDS'', ''30''),
      (''TUNNARA_CONSOLE_TRAY_ENABLED'', ''true''),
      (''TUNNARA_CONSOLE_TRAY_MINIMIZE_TO_TRAY'', ''true''),
      (''TUNNARA_CONSOLE_TRAY_CLOSE_TO_TRAY'', ''false''),
      (''TUNNARA_CONSOLE_START_WITH_WINDOWS'', ''false''),
      (''TUNNARA_CONSOLE_SERVICES_AUTO_START'', ''false''),
      (''TUNNARA_CONSOLE_SERVICE_NAME'', ''TunnaraConsoleServer''),
      (''TUNNARA_CONSOLE_API_REQUIRE_TOKEN'', ''false''),
      (''TUNNARA_CONSOLE_API_ALLOW_PUBLIC_NETWORK'', ''false''),
      (''TUNNARA_CONSOLE_API_CORS'', ''false''),
      (''TUNNARA_CONSOLE_API_TOKEN'', []),
      (''TUNNARA_CONSOLE_API_TOKEN_HEADER'', ''X-App-Token'')]"

lemma template_framed: "default_env_lines = [(''# Tunnara Console - configura'' @ u_ccedil @ u_atilde @ ''o local''), (''# A porta padr'' @ u_atilde @ ''o do Tauri (devUrl 1420) n'' @ u_atilde @ ''o '' @ u_eacute @ '' alterada por este arquivo.'')] @ map env_line template_entries @ [(''# Informe TUNNARA_CONSOLE_API_TOKEN via secret/env real em produ'' @ u_ccedil @ u_atilde @ ''o; n'' @ u_atilde @ ''o commite tokens.'')]"
  by (simp add: default_env_lines_def template_entries_def env_line_def)

lemma template_distinct: "distinct (map fst template_entries)"
  by (simp add: template_entries_def)

lemma template_clean: "list_all (\<lambda>kv. env_key (fst kv) \<and> env_clean (snd kv)) template_entries"
  by (simp add: template_entries_def env_key_def env_clean_def graph_char_def)

lemma template_lookup: "list_all (\<lambda>kv. map_of template_entries (fst kv) = Some (snd kv)) template_entries"
  unfolding list_all_iff using template_distinct by (simp add: map_of_is_SomeI)

lemmas template_at = template_lookup
  [unfolded template_entries_def list.pred_inject fst_conv snd_conv, folded template_entries_def]

lemma load_template: "load_env_text e default_env_template = map_of template_entries ++ e"
  unfolding default_env_template_def template_framed using template_clean
  by (intro load_framed_entries) (auto simp: list_all_iff)

text \<open>A file entry that spells the default does not change what is read.\<close>

lemma template_string:
  "m k = Some v \<Longrightarrow> trim v = [] \<or> v = d \<Longrightarrow> env_string (m ++ e) k d = env_string e k d"
  by (cases "e k") (auto simp: env_string_def map_add_def)

lemma template_u16: "m k = Some v \<Longrightarrow> parse_u16 v = Some d \<Longrightarrow> 0 < d \<Longrightarrow> env_u16 (m ++ e) k d = env_u16 e k d"
  by (cases "e k") (auto simp: env_u16_def map_add_def)

lemma template_u64: "m k = Some v \<Longrightarrow> parse_u64 v = Some d \<Longrightarrow> 0 < d \<Longrightarrow> env_u64 (m ++ e) k d = env_u64 e k d"
  by (cases "e k") (auto simp: env_u64_def map_add_def)

lemma template_bool: "m k = Some (show_bool d) \<Longrightarrow> env_bool (m ++ e) k d' = env_bool e k d"
  by (cases "e k") (auto simp: env_bool_def map_add_def)

lemma template_true: "m k = Some ''true'' \<Longrightarrow> env_bool (m ++ e) k d' = env_bool e k True"
  using template_bool [of m k True e d'] by (simp add: show_bool_def)

lemma template_false: "m k = Some ''false'' \<Longrightarrow> env_bool (m ++ e) k d' = env_bool e k False"
  using template_bool [of m k False e d'] by (simp add: show_bool_def)

lemmas parse_number = parse_u16_def parse_u64_def parse_unsigned_def read_digits_def digit_val_def
  is_ascii_digit_def

text \<open>The file written on first start changes nothing of the defaults but one thing: it switches the local web server on explicitly, so that \<open>TUNNARA_CONSOLE_WEB_DISABLED\<close> no longer has an effect on the settings.\<close>

theorem template_keeps_defaults:
  "runtime_settings_default (load_env_text e default_env_template) =
   (runtime_settings_default e)\<lparr>rs_local_web_enabled := env_bool e ''TUNNARA_CONSOLE_WEB_ENABLED'' True\<rparr>"
  unfolding load_template
  by (rule runtime_settings.equality; (simp only: runtime_settings_default_def runtime_settings.simps)?;
    simp add: template_at template_string template_u16 template_u64
       template_true template_false port_constants parse_number)

subsection \<open>Saving and loading\<close>

lemma load_env_file_frame:
  "load_env_file sy path w = (r, w') \<Longrightarrow>
     rw_ctx w' = rw_ctx w \<and> rw_app_settings w' = rw_app_settings w \<and> rw_files w' = rw_files w"
  by (auto simp: load_env_file_def split: option.splits)

lemma create_env_file_frame:
  "create_env_file sy path w = (r, w') \<Longrightarrow> rw_ctx w' = rw_ctx w \<and> rw_app_settings w' = rw_app_settings w"
  by (auto simp: create_env_file_def split: option.splits)

lemma init_env_file_frame:
  assumes "init_env_file sy ctx w = (r, w')"
  shows "rw_ctx w' = rw_ctx w \<and> rw_app_settings w' = rw_app_settings w"
  using assms by (auto simp: init_env_file_def split: sum.splits prod.splits
      dest!: load_env_file_frame create_env_file_frame)

lemma write_env_file_frame:
  "write_env_file sy path s w = (r, w') \<Longrightarrow> rw_ctx w' = rw_ctx w \<and> rw_app_settings w' = rw_app_settings w"
  by (auto simp: write_env_file_def split: option.splits)

definition files_accepted :: "'r rt_sys \<Rightarrow> bool" where
  "files_accepted sy \<longleftrightarrow>
     sy_mkparent_err sy = (\<lambda>_. None) \<and> sy_read_err sy = (\<lambda>_. None) \<and> sy_write_err sy = (\<lambda>_. None)"

lemma init_env_file_ok:
  assumes "files_accepted sy" and "rw_ctx w = Some c"
  shows "\<exists>path w'. init_env_file sy (rw_ctx w) w = (Ok path, w')"
proof -
  have "\<exists>path. env_file_path sy (Some c) (rw_env w) = Ok path"
    by (simp add: env_file_path_def split: option.split)
  then obtain path where "env_file_path sy (Some c) (rw_env w) = Ok path" by blast
  with assms show ?thesis
    by (auto simp: init_env_file_def create_env_file_def load_env_file_def files_accepted_def split: option.splits)
qed

lemma persist_settings_err: "persist_settings sy s w = (Err e, w') \<Longrightarrow> w' = w"
  by (auto simp: persist_settings_def split: sum.splits option.splits)

lemma persist_settings_ok:
  assumes "persist_settings sy s w = (Ok u, w')"
  shows "\<exists>c js. rw_ctx w = Some c \<and> open_connection sy (ax_db_path c) = Ok (ax_db_path c) \<and>
    sy_to_json sy s = Ok js \<and> w' = store_setting (ax_db_path c) ''runtime.settings'' js (sy_now sy) w"
proof (cases "rw_ctx w")
  case None
  with assms show ?thesis by (simp add: persist_settings_def state_db_path_def)
next
  case (Some c)
  with assms show ?thesis
    by (cases "open_connection sy (ax_db_path c)"; cases "sy_to_json sy s")
      (auto simp: persist_settings_def state_db_path_def dest: open_connection_path split: option.splits)
qed

text \<open>The stages of a successful save.\<close>

lemma save_settings_stages:
  assumes "save_settings sy input w = (Ok p, w')"
  obtains path w1 w2 w3 where
    "init_env_file sy (rw_ctx w) w = (Ok path, w1)"
    "\<not> has_duplicate_configured_ports (normalize_runtime_settings input) (fst (build_ports sy (normalize_runtime_settings input)))"
    "persist_settings sy (normalize_runtime_settings input) w1 = (Ok (), w2)"
    "write_env_file sy path (normalize_runtime_settings input) w2 = (Ok (), w3)"
    "w' = w3\<lparr>rw_env := apply_env_from_settings (normalize_runtime_settings input) (rw_env w3)\<rparr>"
    "p = \<lparr>py_env_path = path, py_settings = normalize_runtime_settings input,
          py_ports = fst (build_ports sy (normalize_runtime_settings input)),
          py_warnings = snd (build_ports sy (normalize_runtime_settings input))\<rparr>"
  using assms
  by (auto simp: save_settings_def Let_def validate_normalized normalize_idem split: prod.splits sum.splits if_splits)

text \<open>A save goes through when nothing it touches fails and the enabled ports differ.\<close>

lemma save_settings_succeeds:
  assumes "files_accepted sy" and "sy_open_write_err sy = (\<lambda>_. None)" and "rw_ctx w = Some c"
    and "open_connection sy (ax_db_path c) = Ok db" and "sy_exec_err sy = None"
    and "sy_to_json sy (normalize_runtime_settings input) = Ok js"
    and "\<not> has_duplicate_configured_ports (normalize_runtime_settings input)
           (fst (build_ports sy (normalize_runtime_settings input)))"
  shows "\<exists>p w'. save_settings sy input w = (Ok p, w')"
proof -
  obtain path w1 where i: "init_env_file sy (rw_ctx w) w = (Ok path, w1)"
    using init_env_file_ok [OF assms(1,3)] by blast
  with init_env_file_frame [OF i] assms(3) have "rw_ctx w1 = Some c" by simp
  with assms(4-6) obtain w2 where "persist_settings sy (normalize_runtime_settings input) w1 = (Ok (), w2)"
    by (simp add: persist_settings_def state_db_path_def)
  with i assms(1,2,7) show ?thesis
    by (auto simp: save_settings_def Let_def validate_normalized write_env_file_def files_accepted_def
        split: prod.splits)
qed

definition demo_sys :: "runtime_settings rt_sys" where
  "demo_sys =
     \<lparr>sy_config_local_dir = None, sy_data_local_dir = None, sy_current_dir = None,
      sy_mkdir_err = (\<lambda>_. None), sy_mkparent_err = (\<lambda>_. None), sy_read_err = (\<lambda>_. None),
      sy_write_err = (\<lambda>_. None), sy_open_write_err = (\<lambda>_. None), sy_addr_err = (\<lambda>_. None), sy_bind_ok = (\<lambda>_. True),
      sy_db_open_err = (\<lambda>_. None), sy_db_pragma_err = (\<lambda>_. None), sy_query_err = None, sy_exec_err = None,
      sy_now = ''now'',
      sy_to_json = (\<lambda>s. if s = normalize_runtime_settings demo_settings then Ok ''{}'' else Err ''unsupported''),
      sy_of_json = (\<lambda>e js. Ok (normalize_runtime_settings demo_settings)),
      sy_bootstrap_of_json = (\<lambda>_. Ok None)\<rparr>"

definition demo_rw :: rt_world where
  "demo_rw = \<lparr>rw_env = Map.empty, rw_files = Map.empty,
     rw_ctx = Some \<lparr>ax_data_dir = ''/d'', ax_db_path = ''/d/app.db''\<rparr>, rw_app_settings = (\<lambda>_. Map.empty)\<rparr>"

lemma demo_ports_distinct:
  "\<not> has_duplicate_configured_ports (normalize_runtime_settings demo_settings)
     (fst (build_ports sy (normalize_runtime_settings demo_settings)))"
  unfolding duplicate_iff
  by (simp add: planned_ports_def port_item_def service_enabled_def internal_api_port_definition_def
      local_web_port_definition_def auxiliary_port_definition_def bridge_core_port_definition_def
      normalize_defs Let_def demo_settings_def runtime_settings_default_def env_u16_def env_bool_def
      or_zero_def port_constants)

lemma demo_saved: "\<exists>p w'. save_settings demo_sys demo_settings demo_rw = (Ok p, w')"
proof (rule save_settings_succeeds)
  show "files_accepted demo_sys" by (simp add: files_accepted_def demo_sys_def)
qed (simp_all add: demo_sys_def demo_rw_def open_connection_def demo_ports_distinct)

text \<open>Whatever is saved has no port conflict between enabled services: a save that succeeds returns the normalised input, without warnings and with pairwise different ports of its enabled services.\<close>

theorem saved_settings_conflict_free:
  assumes "save_settings sy input w = (Ok p, w')"
  shows "py_settings p = normalize_runtime_settings input \<and> py_warnings p = [] \<and>
    \<not> has_duplicate_configured_ports (py_settings p) (py_ports p)"
  using assms
proof (rule save_settings_stages)
  fix path w1 w2 w3
  let ?s = "normalize_runtime_settings input"
  assume nd: "\<not> has_duplicate_configured_ports ?s (fst (build_ports sy ?s))"
    and p: "p = \<lparr>py_env_path = path, py_settings = ?s, py_ports = fst (build_ports sy ?s), py_warnings = snd (build_ports sy ?s)\<rparr>"
  have "snd (build_ports sy ?s) = []"
    using nd unfolding duplicate_iff by (simp add: build_ports_def mark_ports_warnings del: map_map)
  with nd p show ?thesis by simp
qed

theorem saved_settings_conflict_free_witness:
  "\<exists>p w'. save_settings demo_sys demo_settings demo_rw = (Ok p, w') \<and> py_warnings p = []"
proof -
  obtain p w' where s: "save_settings demo_sys demo_settings demo_rw = (Ok p, w')" using demo_saved by blast
  with saved_settings_conflict_free [OF s] show ?thesis by blast
qed

text \<open>A save that fails leaves the stored settings as they were, unless what failed is the rewriting of the environment file, which comes after the database.\<close>

theorem save_failure_keeps_row:
  assumes "save_settings sy input w = (Err err, w')"
  shows "rw_app_settings w' = rw_app_settings w \<or>
    (\<exists>path v. fst (write_env_file sy path (normalize_runtime_settings input) v) = Err err)"
proof -
  let ?s = "normalize_runtime_settings input"
  obtain r1 w1 where i: "init_env_file sy (rw_ctx w) w = (r1, w1)" by (cases "init_env_file sy (rw_ctx w) w")
  obtain r2 w2 where ps: "persist_settings sy ?s w1 = (r2, w2)" by (cases "persist_settings sy ?s w1")
  have same: "rw_app_settings w1 = rw_app_settings w" using init_env_file_frame [OF i] by simp
  show ?thesis
  proof (cases "(\<exists>e. r1 = Err e) \<or> has_duplicate_configured_ports ?s (fst (build_ports sy ?s)) \<or> (\<exists>e. r2 = Err e)")
    case True
    with assms i ps same show ?thesis
      by (auto simp: save_settings_def Let_def validate_normalized split: prod.splits sum.splits if_splits
          dest: persist_settings_err)
  next
    case False
    then obtain path where "r1 = Ok path" and "r2 = Ok ()" by (cases r1; cases r2) auto
    with assms i ps False have "fst (write_env_file sy path ?s w2) = Err err"
      by (auto simp: save_settings_def Let_def validate_normalized split: prod.splits sum.splits if_splits)
    then show ?thesis by blast
  qed
qed

lemma demo_save_fails:
  "save_settings (demo_sys\<lparr>sy_exec_err := Some ''locked''\<rparr>) demo_settings demo_rw =
     (Err ((''Falha ao persistir configura'' @ u_ccedil @ u_otilde @ ''es runtime: '') @ ''locked''),
      snd (init_env_file (demo_sys\<lparr>sy_exec_err := Some ''locked''\<rparr>) (rw_ctx demo_rw) demo_rw))"
proof -
  let ?sy = "demo_sys\<lparr>sy_exec_err := Some ''locked''\<rparr>"
  have "files_accepted ?sy" by (simp add: files_accepted_def demo_sys_def)
  then obtain path w1 where i: "init_env_file ?sy (rw_ctx demo_rw) demo_rw = (Ok path, w1)"
    using init_env_file_ok [of ?sy demo_rw] by (auto simp: demo_rw_def)
  with init_env_file_frame [OF i] show ?thesis
    using demo_ports_distinct [of ?sy]
    by (simp add: save_settings_def Let_def validate_normalized case_prod_beta persist_settings_def state_db_path_def
        open_connection_def) (simp add: demo_sys_def demo_rw_def)
qed

theorem save_failure_keeps_row_witness:
  "rw_app_settings (snd (save_settings (demo_sys\<lparr>sy_exec_err := Some ''locked''\<rparr>) demo_settings demo_rw)) = rw_app_settings demo_rw \<or>
   (\<exists>path v. fst (write_env_file (demo_sys\<lparr>sy_exec_err := Some ''locked''\<rparr>) path (normalize_runtime_settings demo_settings) v)
      = Err ((''Falha ao persistir configura'' @ u_ccedil @ u_otilde @ ''es runtime: '') @ ''locked''))"
  using save_failure_keeps_row [OF demo_save_fails] unfolding demo_save_fails by simp

text \<open>C35. What was saved is what is loaded: after a successful save, loading returns the saved settings, ports and warnings, provided the JSON codec reads back what it writes and the files and the query are accepted.\<close>

theorem save_then_load:
  assumes saved: "save_settings sy input w = (Ok p, w')"
    and json: "\<And>s js e. sy_to_json sy s = Ok js \<Longrightarrow> sy_of_json sy e js = Ok s \<and> trim js \<noteq> []"
    and ok: "files_accepted sy" "sy_query_err sy = None"
  shows "\<exists>q w''. load_settings sy w' = (Ok q, w'') \<and> py_settings q = py_settings p \<and>
    py_ports q = py_ports p \<and> py_warnings q = py_warnings p"
  using saved
proof (rule save_settings_stages)
  fix path w1 w2 w3
  let ?s = "normalize_runtime_settings input"
  assume pers: "persist_settings sy ?s w1 = (Ok (), w2)" and wr: "write_env_file sy path ?s w2 = (Ok (), w3)"
    and w': "w' = w3\<lparr>rw_env := apply_env_from_settings ?s (rw_env w3)\<rparr>"
    and p: "p = \<lparr>py_env_path = path, py_settings = ?s, py_ports = fst (build_ports sy ?s), py_warnings = snd (build_ports sy ?s)\<rparr>"
  from persist_settings_ok [OF pers] obtain c js where c: "rw_ctx w1 = Some c"
    and op: "open_connection sy (ax_db_path c) = Ok (ax_db_path c)" and js: "sy_to_json sy ?s = Ok js"
    and w2: "w2 = store_setting (ax_db_path c) ''runtime.settings'' js (sy_now sy) w1" by blast
  from write_env_file_frame [OF wr] w' w2 c have ctx: "rw_ctx w' = Some c"
    and row: "\<exists>row. rw_app_settings w' (ax_db_path c) ''runtime.settings'' = Some row \<and> as_valor row = js"
    by (auto simp: store_setting_def)
  obtain path' w4 where init: "init_env_file sy (rw_ctx w') w' = (Ok path', w4)"
    using init_env_file_ok [OF ok(1) ctx] by blast
  with init_env_file_frame [OF init] ctx row json [OF js, of "rw_env w4"] ok(2)
  have st: "state_db_path w4 = Ok (ax_db_path c)" "stored_settings sy (rw_env w4) (ax_db_path c) w4 = Ok ?s"
    by (auto simp: state_db_path_def stored_settings_def)
  show ?thesis
    using init st op p by (auto simp: load_settings_def Let_def normalize_idem split: prod.splits)
qed

theorem save_then_load_witness:
  "\<exists>p w' q w''. save_settings demo_sys demo_settings demo_rw = (Ok p, w') \<and>
     load_settings demo_sys w' = (Ok q, w'') \<and> py_settings q = py_settings p"
proof -
  obtain p w' where s: "save_settings demo_sys demo_settings demo_rw = (Ok p, w')" using demo_saved by blast
  have "trim ''{}'' = ''{}''" by (rule trim_graph) (simp_all add: graph_char_def)
  then have json: "sy_of_json demo_sys e js = Ok t \<and> trim js \<noteq> []" if "sy_to_json demo_sys t = Ok js" for t js e
    using that by (auto simp: demo_sys_def split: if_splits)
  have ok: "files_accepted demo_sys" "sy_query_err demo_sys = None" by (simp_all add: files_accepted_def demo_sys_def)
  from save_then_load [OF s json ok] s show ?thesis by blast
qed

end
