(* ===== verification/Service_Config.thy ===== *)
theory Service_Config
  imports Runtime_Save
begin

text \<open>
  The configurations the three network services are started with, derived from the runtime
  settings: \<^verbatim>\<open>internal_api/config.rs\<close>, \<^verbatim>\<open>native_webhook/config.rs\<close>,
  \<^verbatim>\<open>native_websocket/config.rs\<close> and the \<^verbatim>\<open>resolve_*\<close> functions of \<^verbatim>\<open>runtime_config.rs\<close>.
\<close>

subsection \<open>The internal API\<close>

record api_security =
  as_bind_host :: string
  as_allow_public_network :: bool
  as_require_token :: bool
  as_token_header :: string
  as_token :: "string option"
  as_cors_enabled :: bool
  as_docs_public :: bool
  as_docs_public_local :: bool

record api_docs =
  ad_enabled :: bool
  ad_path :: string
  ad_public_url :: "string option"

record api_config =
  ac_enabled :: bool
  ac_auto_start :: bool
  ac_host :: string
  ac_port :: "16 word"
  ac_base_url :: string
  ac_timeout_ms :: "64 word"
  ac_log_mode :: string
  ac_open_scalar_after_start :: bool
  ac_restart_on_config_change :: bool
  ac_expose_docs :: bool
  ac_docs :: api_docs
  ac_security :: api_security

definition normalize_docs_path :: "string \<Rightarrow> string" where
  "normalize_docs_path path =
     (let t = trim path
      in if t = [] then ''/docs'' else if starts_with t ''/'' then t else CHR ''/'' # t)"

definition normalize_url :: "string \<Rightarrow> string" where
  "normalize_url u = trim_end_matches (CHR ''/'') (trim u)"

definition derived_docs_url :: "string \<Rightarrow> string \<Rightarrow> string" where
  "derived_docs_url base_url docs_path = trim_end_matches (CHR ''/'') base_url @ normalize_docs_path docs_path"

definition is_local_access_host :: "string \<Rightarrow> bool" where
  "is_local_access_host host \<longleftrightarrow>
     trim host \<in> {''127.0.0.1'', ''localhost'', ''::1'', ''[::1]'', ''0.0.0.0'', ''::'', ''[::]''}"

definition api_config_default :: "env \<Rightarrow> api_config" where
  "api_config_default e =
     (let host = unwrap_or ''127.0.0.1'' (e ''TUNNARA_CONSOLE_API_HOST'');
          port = unwrap_or 61001 (Option.bind (e ''TUNNARA_CONSOLE_API_PORT'') parse_u16);
          docs_path = normalize_docs_path (unwrap_or ''/docs'' (e ''TUNNARA_CONSOLE_API_DOCS_PATH''));
          expose_docs = (env_bool e ''TUNNARA_CONSOLE_API_SCALAR_ENABLED'' True \<and>
                         env_bool e ''TUNNARA_CONSOLE_API_EXPOSE_DOCS'' True);
          base_url = unwrap_or (''http://'' @ host @ '':'' @ show_word port)
                       (opt_filter (\<lambda>v. trim v \<noteq> []) (e ''TUNNARA_CONSOLE_API_BASE_URL''));
          docs_url = opt_filter (\<lambda>v. \<not> contains v ''127.0.0.1:61001'')
                       (opt_filter (\<lambda>v. trim v \<noteq> []) (e ''TUNNARA_CONSOLE_API_SCALAR_URL''))
      in \<lparr>ac_enabled = True,
          ac_auto_start = env_bool e ''TUNNARA_CONSOLE_API_AUTO_START'' False,
          ac_host = host, ac_port = port, ac_base_url = base_url,
          ac_timeout_ms = env_u64 e ''TUNNARA_CONSOLE_API_TIMEOUT_MS'' 8000,
          ac_log_mode = unwrap_or ''normal'' (e ''TUNNARA_CONSOLE_API_LOG_MODE''),
          ac_open_scalar_after_start = env_bool e ''TUNNARA_CONSOLE_API_OPEN_SCALAR_AFTER_START'' False,
          ac_restart_on_config_change = env_bool e ''TUNNARA_CONSOLE_API_RESTART_ON_CONFIG_CHANGE'' True,
          ac_expose_docs = expose_docs,
          ac_docs = \<lparr>ad_enabled = expose_docs, ad_path = docs_path,
                     ad_public_url = opt_filter (\<lambda>u. normalize_url u \<noteq> derived_docs_url base_url docs_path) docs_url\<rparr>,
          ac_security =
            \<lparr>as_bind_host = host,
             as_allow_public_network = env_bool e ''TUNNARA_CONSOLE_API_ALLOW_PUBLIC_NETWORK'' False,
             as_require_token = env_bool e ''TUNNARA_CONSOLE_API_REQUIRE_TOKEN'' False,
             as_token_header = unwrap_or ''X-App-Token'' (e ''TUNNARA_CONSOLE_API_TOKEN_HEADER''),
             as_token = opt_filter (\<lambda>v. trim v \<noteq> []) (e ''TUNNARA_CONSOLE_API_TOKEN''),
             as_cors_enabled = env_bool e ''TUNNARA_CONSOLE_API_CORS'' False,
             as_docs_public = env_bool e ''TUNNARA_CONSOLE_API_DOCS_PUBLIC'' False,
             as_docs_public_local = env_bool e ''TUNNARA_CONSOLE_API_DOCS_PUBLIC_LOCAL'' True\<rparr>\<rparr>)"

definition api_with_host_port :: "string \<Rightarrow> 16 word \<Rightarrow> api_config \<Rightarrow> api_config" where
  "api_with_host_port host port c =
     c\<lparr>ac_host := host, ac_port := port,
       ac_base_url := ''http://'' @ public_url_host host @ '':'' @ show_word port,
       ac_security := (ac_security c)\<lparr>as_bind_host := host\<rparr>\<rparr>"

definition api_from_runtime_settings :: "env \<Rightarrow> runtime_settings \<Rightarrow> api_config" where
  "api_from_runtime_settings e s =
     (let c = api_with_host_port (rs_internal_api_host s) (rs_internal_api_port s) (api_config_default e);
          path = normalize_docs_path (rs_internal_api_docs_path s)
      in c\<lparr>ac_auto_start := rs_internal_api_auto_start s,
           ac_base_url := rs_internal_api_base_url s,
           ac_timeout_ms := rs_internal_api_timeout_ms s,
           ac_log_mode := rs_internal_api_log_mode s,
           ac_open_scalar_after_start := rs_internal_api_open_scalar_after_start s,
           ac_restart_on_config_change := rs_internal_api_restart_on_config_change s,
           ac_expose_docs := rs_internal_api_docs_enabled s,
           ac_docs :=
             \<lparr>ad_enabled = rs_internal_api_docs_enabled s, ad_path = path,
              ad_public_url =
                (if trim (rs_internal_api_docs_url s) \<noteq> [] \<and>
                    normalize_url (rs_internal_api_docs_url s) \<noteq> derived_docs_url (rs_internal_api_base_url s) path
                 then Some (trim (rs_internal_api_docs_url s)) else None)\<rparr>,
           ac_security := (ac_security c)
             \<lparr>as_require_token := rs_internal_api_require_token s,
              as_allow_public_network := rs_internal_api_allow_public_network s,
              as_cors_enabled := rs_internal_api_cors_enabled s,
              as_token_header := rs_internal_api_token_header s,
              as_token := (if trim (rs_internal_api_token s) \<noteq> [] then Some (rs_internal_api_token s) else None),
              as_docs_public_local := rs_internal_api_docs_public_local s\<rparr>\<rparr>)"

definition api_docs_url :: "api_config \<Rightarrow> string" where
  "api_docs_url c = unwrap_or (derived_docs_url (ac_base_url c) (ad_path (ac_docs c))) (ad_public_url (ac_docs c))"

definition docs_are_public_for_current_bind :: "api_config \<Rightarrow> bool" where
  "docs_are_public_for_current_bind c \<longleftrightarrow>
     as_docs_public (ac_security c) \<or> as_docs_public_local (ac_security c) \<and> is_local_access_host (ac_host c)"

definition api_validate_bind :: "api_config \<Rightarrow> (unit, string) result" where
  "api_validate_bind c =
     (if trim (ac_host c) \<in> {''0.0.0.0'', ''::'', ''[::]''} \<and> \<not> as_allow_public_network (ac_security c)
      then Err (''API interna bloqueada: bind p'' @ u_uacute @ ''blico exige TUNNARA_CONSOLE_API_ALLOW_PUBLIC_NETWORK=true.'')
      else Ok ())"

subsection \<open>The webhook and WebSocket services\<close>

record webhook_config =
  wh_enabled :: bool
  wh_host :: string
  wh_port :: "16 word"
  wh_base_path :: string
  wh_token_required :: bool
  wh_token_header :: string
  wh_token :: string
  wh_allow_lan :: bool
  wh_allow_external :: bool

record websocket_config =
  ws_enabled :: bool
  ws_host :: string
  ws_port :: "16 word"
  ws_path :: string
  ws_token_required :: bool
  ws_token_query :: string
  ws_token_header :: string
  ws_token :: string
  ws_allow_lan :: bool
  ws_allow_external :: bool
  ws_heartbeat_seconds :: "64 word"

definition webhook_config_default :: webhook_config where
  "webhook_config_default =
     \<lparr>wh_enabled = False, wh_host = ''0.0.0.0'', wh_port = 61003, wh_base_path = ''/webhooks'',
      wh_token_required = True, wh_token_header = ''X-Webhook-Token'', wh_token = [], wh_allow_lan = True,
      wh_allow_external = False\<rparr>"

definition websocket_config_default :: websocket_config where
  "websocket_config_default =
     \<lparr>ws_enabled = False, ws_host = ''0.0.0.0'', ws_port = 61004, ws_path = ''/ws'',
      ws_token_required = True, ws_token_query = ''token'', ws_token_header = ''X-WebSocket-Token'', ws_token = [],
      ws_allow_lan = True, ws_allow_external = False, ws_heartbeat_seconds = 30\<rparr>"

definition service_path :: "string \<Rightarrow> string \<Rightarrow> string" where
  "service_path d path =
     (let t = trim path
      in if t = [] then d
         else if starts_with t ''/'' then trim_end_matches (CHR ''/'') t
         else CHR ''/'' # trim_end_matches (CHR ''/'') t)"

definition webhook_normalize_path :: "string \<Rightarrow> string" where
  "webhook_normalize_path = service_path ''/webhooks''"

definition websocket_normalize_path :: "string \<Rightarrow> string" where
  "websocket_normalize_path = service_path ''/ws''"

definition service_public_host :: "string \<Rightarrow> string" where
  "service_public_host host = (if host \<in> {''0.0.0.0'', ''::'', ''[::]''} then ''127.0.0.1'' else host)"

definition webhook_from_settings :: "runtime_settings \<Rightarrow> webhook_config" where
  "webhook_from_settings s =
     \<lparr>wh_enabled = rs_webhook_enabled s, wh_host = rs_webhook_host s, wh_port = rs_webhook_port s,
      wh_base_path = webhook_normalize_path (rs_webhook_base_path s),
      wh_token_required = rs_webhook_token_required s, wh_token_header = rs_webhook_token_header s,
      wh_token = rs_webhook_token s, wh_allow_lan = rs_webhook_allow_lan s,
      wh_allow_external = rs_webhook_allow_external s\<rparr>"

definition websocket_from_settings :: "runtime_settings \<Rightarrow> websocket_config" where
  "websocket_from_settings s =
     \<lparr>ws_enabled = rs_websocket_enabled s, ws_host = rs_websocket_host s, ws_port = rs_websocket_port s,
      ws_path = websocket_normalize_path (rs_websocket_path s),
      ws_token_required = rs_websocket_token_required s, ws_token_query = rs_websocket_token_query s,
      ws_token_header = rs_websocket_token_header s, ws_token = rs_websocket_token s,
      ws_allow_lan = rs_websocket_allow_lan s, ws_allow_external = rs_websocket_allow_external s,
      ws_heartbeat_seconds = rs_websocket_heartbeat_seconds s\<rparr>"

definition webhook_with_host_port :: "string \<Rightarrow> 16 word \<Rightarrow> webhook_config \<Rightarrow> webhook_config" where
  "webhook_with_host_port host port c = c\<lparr>wh_host := host, wh_port := port\<rparr>"

definition websocket_with_host_port :: "string \<Rightarrow> 16 word \<Rightarrow> websocket_config \<Rightarrow> websocket_config" where
  "websocket_with_host_port host port c = c\<lparr>ws_host := host, ws_port := port\<rparr>"

definition service_validate_bind :: "(string \<Rightarrow> string option) \<Rightarrow> string \<Rightarrow> string \<Rightarrow> 16 word \<Rightarrow> (unit, string) result" where
  "service_validate_bind addr_err name host port =
     (if trim host = [] then Err (''Host do '' @ name @ ('' Service n'' @ u_atilde @ ''o pode ficar vazio.''))
      else if port = 0 then Err (''Porta do '' @ name @ '' Service deve estar entre 1 e 65535.'')
      else case addr_err (trim host @ '':'' @ show_word port) of
             Some err \<Rightarrow> Err ((''Endere'' @ u_ccedil @ ''o do '') @ name @ ('' Service inv'' @ u_aacute @ ''lido: '') @ err)
           | None \<Rightarrow> Ok ())"

definition webhook_validate_bind :: "'r rt_sys \<Rightarrow> webhook_config \<Rightarrow> (unit, string) result" where
  "webhook_validate_bind sy c = service_validate_bind (sy_addr_err sy) ''Webhook'' (wh_host c) (wh_port c)"

definition websocket_validate_bind :: "'r rt_sys \<Rightarrow> websocket_config \<Rightarrow> (unit, string) result" where
  "websocket_validate_bind sy c = service_validate_bind (sy_addr_err sy) ''WebSocket'' (ws_host c) (ws_port c)"

definition webhook_url :: "webhook_config \<Rightarrow> string" where
  "webhook_url c = ''http://'' @ service_public_host (wh_host c) @ '':'' @ show_word (wh_port c)"

definition websocket_url :: "websocket_config \<Rightarrow> string" where
  "websocket_url c = ''ws://'' @ service_public_host (ws_host c) @ '':'' @ show_word (ws_port c) @ ws_path c"

subsection \<open>From the stored settings\<close>

definition planned_port :: "string \<Rightarrow> 16 word \<Rightarrow> settings_payload \<Rightarrow> 16 word" where
  "planned_port key d p =
     unwrap_or d (map_option sp_effective_port (find (\<lambda>item. sp_key item = key) (py_ports p)))"

definition resolve_internal_api_config ::
  "runtime_settings rt_sys \<Rightarrow> rt_world \<Rightarrow> (api_config, string) result \<times> rt_world" where
  "resolve_internal_api_config sy w =
     (case load_settings sy w of
        (Inl err, w') \<Rightarrow> (Err err, w')
      | (Inr p, w') \<Rightarrow>
          (Ok (api_with_host_port (rs_internal_api_host (py_settings p))
                 (planned_port ''internal_api'' (rs_internal_api_port (py_settings p)) p)
                 (api_from_runtime_settings (rw_env w') (py_settings p))), w'))"

definition resolve_webhook_config ::
  "runtime_settings rt_sys \<Rightarrow> rt_world \<Rightarrow> (webhook_config, string) result \<times> rt_world" where
  "resolve_webhook_config sy w =
     (case load_settings sy w of
        (Inl err, w') \<Rightarrow> (Err err, w')
      | (Inr p, w') \<Rightarrow>
          (Ok (webhook_with_host_port (rs_webhook_host (py_settings p))
                 (planned_port ''auxiliary'' (rs_webhook_port (py_settings p)) p)
                 (webhook_from_settings (py_settings p))), w'))"

definition resolve_websocket_config ::
  "runtime_settings rt_sys \<Rightarrow> rt_world \<Rightarrow> (websocket_config, string) result \<times> rt_world" where
  "resolve_websocket_config sy w =
     (case load_settings sy w of
        (Inl err, w') \<Rightarrow> (Err err, w')
      | (Inr p, w') \<Rightarrow>
          (Ok (websocket_with_host_port (rs_websocket_host (py_settings p))
                 (planned_port ''bridge_core'' (rs_websocket_port (py_settings p)) p)
                 (websocket_from_settings (py_settings p))), w'))"

subsection \<open>Facts\<close>

lemma load_settings_normal:
  assumes "load_settings sy w = (Ok p, w')"
  shows "\<exists>s. py_settings p = normalize_runtime_settings s \<and> py_ports p = fst (build_ports sy (py_settings p))"
  using assms
  by (auto simp: load_settings_def Let_def and_then_Ok_iff case_prod_beta split: prod.splits sum.splits)

lemma find_marked:
  "map_option sp_effective_port (find (\<lambda>i. sp_key i = k) (fst (mark_ports sy s seen items))) =
   map_option sp_configured_port (find (\<lambda>i. sp_key i = k) items)"
  by (induction items arbitrary: seen) (simp_all add: Let_def case_prod_beta)

lemma planned_port_configured:
  assumes "load_settings sy w = (Ok p, w')"
  shows "planned_port ''internal_api'' d p = rs_internal_api_port (py_settings p)"
    "planned_port ''auxiliary'' d p = rs_webhook_port (py_settings p)"
    "planned_port ''bridge_core'' d p = rs_websocket_port (py_settings p)"
proof -
  from load_settings_normal [OF assms] have "py_ports p = fst (build_ports sy (py_settings p))" by blast
  then have ports: "planned_port k d p = unwrap_or d (map_option sp_configured_port
      (find (\<lambda>i. sp_key i = k) (planned_ports (py_settings p))))" for k
    by (simp only: planned_port_def build_ports_def find_marked)
  show "planned_port ''internal_api'' d p = rs_internal_api_port (py_settings p)"
    "planned_port ''auxiliary'' d p = rs_webhook_port (py_settings p)"
    "planned_port ''bridge_core'' d p = rs_websocket_port (py_settings p)"
    by (simp_all add: ports planned_ports_def port_item_def
        internal_api_port_definition_def local_web_port_definition_def auxiliary_port_definition_def
        bridge_core_port_definition_def)
qed

lemma demo_loaded: "\<exists>p w'. load_settings demo_sys demo_rw = (Ok p, w')"
proof -
  have ok: "files_accepted demo_sys" by (simp add: files_accepted_def demo_sys_def)
  then obtain path w' where i: "init_env_file demo_sys (rw_ctx demo_rw) demo_rw = (Ok path, w')"
    using init_env_file_ok [of demo_sys demo_rw] by (auto simp: demo_rw_def)
  with init_env_file_frame [OF i] show ?thesis
    by (simp add: load_settings_def state_db_path_def open_connection_def stored_settings_def case_prod_beta Let_def)
      (simp add: demo_sys_def demo_rw_def)
qed

subsection \<open>Properties\<close>

text \<open>The bind guard of the internal API never fires for a configuration resolved from the stored settings: normalisation has already allowed the public network whenever the host is a wildcard. The base URL of the resolved configuration is always rebuilt from host and port, whatever base URL the settings hold.\<close>

theorem resolved_api_bind_allowed:
  assumes "resolve_internal_api_config sy w = (Ok c, w')"
  shows "api_validate_bind c = Ok () \<and> ac_port c \<noteq> 0 \<and>
    ac_base_url c = ''http://'' @ public_url_host (ac_host c) @ '':'' @ show_word (ac_port c) \<and>
    as_bind_host (ac_security c) = ac_host c"
proof -
  from assms obtain p where p: "load_settings sy w = (Ok p, w')"
    and c: "c = api_with_host_port (rs_internal_api_host (py_settings p))
       (planned_port ''internal_api'' (rs_internal_api_port (py_settings p)) p)
       (api_from_runtime_settings (rw_env w') (py_settings p))"
    by (auto simp: resolve_internal_api_config_def split: prod.splits sum.splits)
  from load_settings_normal [OF p] obtain s where s: "py_settings p = normalize_runtime_settings s" by blast
  from c have "ac_host c = rs_internal_api_host (py_settings p)"
    "as_allow_public_network (ac_security c) = rs_internal_api_allow_public_network (py_settings p)"
    "ac_port c = rs_internal_api_port (py_settings p)"
    by (simp_all add: api_with_host_port_def api_from_runtime_settings_def Let_def planned_port_configured [OF p])
  moreover from c have "ac_base_url c = ''http://'' @ public_url_host (ac_host c) @ '':'' @ show_word (ac_port c)"
    "as_bind_host (ac_security c) = ac_host c"
    by (simp_all add: api_with_host_port_def)
  ultimately show ?thesis
    using normalized_public(1) [of s] normalized_numbers(1) [of s] s
    by (auto simp: api_validate_bind_def is_public_bind_host_def)
qed

theorem resolved_api_bind_allowed_witness:
  "\<exists>c w'. resolve_internal_api_config demo_sys demo_rw = (Ok c, w') \<and> api_validate_bind c = Ok ()"
proof -
  obtain c w' where c: "resolve_internal_api_config demo_sys demo_rw = (Ok c, w')"
    using demo_loaded by (auto simp: resolve_internal_api_config_def)
  with resolved_api_bind_allowed [OF c] show ?thesis by blast
qed

text \<open>The webhook and WebSocket configurations resolved from the stored settings pass their own bind check exactly when the address text parses: host and port have been repaired before, and the port is the configured one.\<close>

theorem resolved_services_bind:
  assumes "resolve_webhook_config sy w = (Ok c, w1)" and "resolve_websocket_config sy w = (Ok d, w2)"
  shows "(webhook_validate_bind sy c = Ok () \<longleftrightarrow> sy_addr_err sy (trim (wh_host c) @ '':'' @ show_word (wh_port c)) = None) \<and>
    (websocket_validate_bind sy d = Ok () \<longleftrightarrow> sy_addr_err sy (trim (ws_host d) @ '':'' @ show_word (ws_port d)) = None) \<and>
    wh_port c \<noteq> 0 \<and> ws_port d \<noteq> 0"
proof -
  obtain p where p: "load_settings sy w = (Ok p, w1)"
    and c: "wh_host c = rs_webhook_host (py_settings p)" "wh_port c = rs_webhook_port (py_settings p)"
    using assms(1) planned_port_configured(2)
    by (fastforce simp: resolve_webhook_config_def webhook_with_host_port_def split: prod.splits sum.splits)
  with assms(2) have d: "ws_host d = rs_websocket_host (py_settings p)" "ws_port d = rs_websocket_port (py_settings p)"
    using planned_port_configured(3) [OF p]
    by (auto simp: resolve_websocket_config_def websocket_with_host_port_def)
  from load_settings_normal [OF p] obtain s where s: "py_settings p = normalize_runtime_settings s" by blast
  show ?thesis
    unfolding webhook_validate_bind_def websocket_validate_bind_def service_validate_bind_def c d s
    using normalized_text(8,11) [of s] normalized_numbers(3,4) [of s] by (simp split: option.split)
qed

theorem resolved_services_bind_witness:
  "\<exists>c d w1 w2. resolve_webhook_config demo_sys demo_rw = (Ok c, w1) \<and> webhook_validate_bind demo_sys c = Ok () \<and>
     resolve_websocket_config demo_sys demo_rw = (Ok d, w2) \<and> websocket_validate_bind demo_sys d = Ok ()"
proof -
  obtain c w1 where c: "resolve_webhook_config demo_sys demo_rw = (Ok c, w1)"
    using demo_loaded by (auto simp: resolve_webhook_config_def)
  obtain d w2 where d: "resolve_websocket_config demo_sys demo_rw = (Ok d, w2)"
    using demo_loaded by (auto simp: resolve_websocket_config_def)
  from resolved_services_bind [OF c d] c d show ?thesis by (simp add: demo_sys_def)
qed

text \<open>The documentation of the internal API counts as local for a wildcard bind: with the option for public local documentation, which is on by default, it is public on every interface.\<close>

theorem docs_public_on_wildcard:
  "docs_are_public_for_current_bind (api_with_host_port ''0.0.0.0'' port (api_config_default Map.empty)) \<and>
   api_validate_bind (api_with_host_port ''0.0.0.0'' port (api_config_default Map.empty)) \<noteq> Ok () \<and>
   (\<not> docs_are_public_for_current_bind (api_with_host_port ''192.168.0.2'' port (api_config_default Map.empty)))"
  by (simp add: docs_are_public_for_current_bind_def api_with_host_port_def api_config_default_def Let_def
      env_bool_def is_local_access_host_def api_validate_bind_def trim_graph graph_char_def)

text \<open>A normalised service path starts with a slash and does not end in one, with a single exception: a path of slashes only becomes the empty path.\<close>

theorem service_path_shape:
  assumes "d = ''/webhooks'' \<or> d = ''/ws''"
  shows "(service_path d p = [] \<longleftrightarrow> trim p \<noteq> [] \<and> set (trim p) \<subseteq> {CHR ''/''}) \<and>
    (service_path d p \<noteq> [] \<longrightarrow> starts_with (service_path d p) ''/'' \<and>
       (last (service_path d p) = CHR ''/'' \<longrightarrow> service_path d p = ''/''))"
proof (cases "trim p")
  case Nil
  with assms show ?thesis by (auto simp: service_path_def)
next
  case (Cons c q)
  let ?t = "trim_end_matches (CHR ''/'') (trim p)"
  obtain n where n: "trim p = ?t @ replicate n (CHR ''/'')" using trim_end_matches_prefix by blast
  have empty: "?t = [] \<longleftrightarrow> set (trim p) \<subseteq> {CHR ''/''}"
    unfolding trim_end_matches_def by (auto simp: dropWhile_eq_Nil_conv)
  show ?thesis
  proof (cases "c = CHR ''/''")
    case True
    then have sp: "service_path d p = ?t" using Cons by (simp add: service_path_def)
    have "?t \<noteq> [] \<longrightarrow> starts_with ?t ''/''"
      using n Cons True by (cases ?t) auto
    with sp empty Cons trim_end_matches_last [of "CHR ''/''" "trim p"] show ?thesis by auto
  next
    case False
    then have sp: "service_path d p = CHR ''/'' # ?t" using Cons by (simp add: service_path_def)
    have "\<not> set (trim p) \<subseteq> {CHR ''/''}" using Cons False by auto
    with sp empty trim_end_matches_last [of "CHR ''/''" "trim p"] show ?thesis by auto
  qed
qed

theorem service_path_shape_witness:
  "webhook_normalize_path ''/'' = []"
proof -
  have "trim ''/'' = ''/''" by (rule trim_graph) (simp_all add: graph_char_def)
  with service_path_shape [of "''/webhooks''" "''/''"] show ?thesis by (simp add: webhook_normalize_path_def)
qed

end
