(* ===== verification/App_Log.thy ===== *)
theory App_Log
  imports Json_Value
begin

text \<open>
  The bookkeeping tables and the application log of \<^verbatim>\<open>db.rs\<close>: the synchronisation queue,
  the audit trail, and the log that goes to a table and to a file after the values of
  sensitive keys have been masked. The text of a JSON value, the clock and the failures of
  database and file system are parameters.
\<close>

subsection \<open>Masking\<close>

text \<open>
  \<^verbatim>\<open>str::to_lowercase\<close> as far as the search for ASCII words can tell: the ASCII letters,
  and the two characters outside ASCII (Kelvin sign, capital I with dot) whose lower case
  contains an ASCII letter.
\<close>

definition lowercase_key :: "string \<Rightarrow> string" where
  "lowercase_key k =
     replace (replace (to_ascii_lowercase k) [CHR 0xE2, CHR 0x84, CHR 0xAA] ''k'')
       [CHR 0xC4, CHR 0xB0] [CHR ''i'', CHR 0xCC, CHR 0x87]"

definition sensitive_words :: "string list" where
  "sensitive_words =
     [''senha'', ''password'', ''confirm_password'', ''password_confirmation'', ''token'', ''secret'',
      ''api_key'', ''apikey'', ''authorization'']"

definition is_sensitive_key :: "string \<Rightarrow> bool" where
  "is_sensitive_key key \<longleftrightarrow> list_ex (contains (lowercase_key (trim key))) sensitive_words"

lemma json_entry_smaller:
  "(k, v) \<in> set kvs \<Longrightarrow> size v < Suc (size_list (size_prod (\<lambda>_. 0) size) kvs)"
  by (induction kvs) auto

function sanitize_log_value :: "json \<Rightarrow> json" where
  "sanitize_log_value (JObj kvs) =
     JObj (map (\<lambda>(k, v). (k, if is_sensitive_key k then JStr ''***'' else sanitize_log_value v)) kvs)"
| "sanitize_log_value (JArr xs) = JArr (map sanitize_log_value xs)"
| "sanitize_log_value JNull = JNull"
| "sanitize_log_value (JBool b) = JBool b"
| "sanitize_log_value (JNum n) = JNum n"
| "sanitize_log_value (JStr s) = JStr s"
  by pat_completeness auto
termination
proof (relation "measure size", goal_cases)
  case 1
  show ?case by simp
next
  case (2 kvs x k v)
  then show ?case using json_entry_smaller [of k v kvs] by simp
next
  case (3 xs x)
  then show ?case by (induction xs) auto
qed

subsection \<open>Tables and log file\<close>

record sync_row =
  sq_entity_name :: string
  sq_action_name :: string
  sq_record_id :: "int option"
  sq_payload_json :: string
  sq_status :: string
  sq_created_at :: string

record audit_row =
  au_entity_name :: string
  au_action_name :: string
  au_record_id :: "int option"
  au_payload_json :: string
  au_created_at :: string

record app_log_input =
  ai_level :: string
  ai_category :: string
  ai_message :: string
  ai_source :: "string option"
  ai_route :: "string option"
  ai_details :: "json option"

record app_log_row =
  lo_level :: string
  lo_category :: string
  lo_message :: string
  lo_source :: "string option"
  lo_route :: "string option"
  lo_details_json :: "string option"
  lo_created_at :: string

record log_sys =
  lg_now :: string
  lg_json_text :: "json \<Rightarrow> string"
  lg_insert_err :: "string option"
  lg_mkdir_err :: "string option"
  lg_open_err :: "string option"
  lg_write_err :: "string option"

record log_world =
  lw_sync_queue :: "sync_row list"
  lw_audit_logs :: "audit_row list"
  lw_app_logs :: "app_log_row list"
  lw_log_file :: "string list"

definition enqueue_sync ::
  "log_sys \<Rightarrow> string \<Rightarrow> string \<Rightarrow> int option \<Rightarrow> json \<Rightarrow> log_world \<Rightarrow> (unit, string) result \<times> log_world" where
  "enqueue_sync sy entity action record_id payload w =
     (case lg_insert_err sy of
        Some err \<Rightarrow> (Err ((''Falha ao enfileirar sincroniza'' @ u_ccedil @ u_atilde @ ''o: '') @ err), w)
      | None \<Rightarrow>
          (Ok (), w\<lparr>lw_sync_queue := lw_sync_queue w @
             [\<lparr>sq_entity_name = entity, sq_action_name = action, sq_record_id = record_id,
               sq_payload_json = lg_json_text sy payload, sq_status = ''pending'', sq_created_at = lg_now sy\<rparr>]\<rparr>))"

definition write_audit ::
  "log_sys \<Rightarrow> string \<Rightarrow> string \<Rightarrow> int option \<Rightarrow> json \<Rightarrow> log_world \<Rightarrow> (unit, string) result \<times> log_world" where
  "write_audit sy entity action record_id payload w =
     (case lg_insert_err sy of
        Some err \<Rightarrow> (Err (''Falha ao gravar auditoria: '' @ err), w)
      | None \<Rightarrow>
          (Ok (), w\<lparr>lw_audit_logs := lw_audit_logs w @
             [\<lparr>au_entity_name = entity, au_action_name = action, au_record_id = record_id,
               au_payload_json = lg_json_text sy payload, au_created_at = lg_now sy\<rparr>]\<rparr>))"

definition app_log_line :: "string \<Rightarrow> app_log_input \<Rightarrow> json option \<Rightarrow> json" where
  "app_log_line now input details =
     JObj [(''created_at'', JStr now), (''level'', JStr (ai_level input)), (''category'', JStr (ai_category input)),
           (''message'', JStr (ai_message input)), (''source'', js_opt (ai_source input)),
           (''route'', js_opt (ai_route input)), (''details'', unwrap_or JNull details)]"

definition write_app_log ::
  "log_sys \<Rightarrow> app_log_input \<Rightarrow> log_world \<Rightarrow> (unit, string) result \<times> log_world" where
  "write_app_log sy input w =
     (let details = map_option sanitize_log_value (ai_details input);
          row = \<lparr>lo_level = ai_level input, lo_category = ai_category input, lo_message = ai_message input,
                 lo_source = ai_source input, lo_route = ai_route input,
                 lo_details_json = map_option (lg_json_text sy) details, lo_created_at = lg_now sy\<rparr>
      in case lg_insert_err sy of
           Some err \<Rightarrow> (Err ((''Falha ao gravar log da aplica'' @ u_ccedil @ u_atilde @ ''o: '') @ err), w)
         | None \<Rightarrow>
             (let w1 = w\<lparr>lw_app_logs := lw_app_logs w @ [row]\<rparr>
              in case lg_mkdir_err sy of
                   Some err \<Rightarrow> (Err ((''Falha ao preparar diret'' @ u_oacute @ ''rio de logs: '') @ err), w1)
                 | None \<Rightarrow>
                     (case lg_open_err sy of
                        Some err \<Rightarrow> (Err (''Falha ao abrir arquivo de log: '' @ err), w1)
                      | None \<Rightarrow>
                          (case lg_write_err sy of
                             Some err \<Rightarrow> (Err (''Falha ao escrever arquivo de log: '' @ err), w1)
                           | None \<Rightarrow>
                               (Ok (), w1\<lparr>lw_log_file := lw_log_file w1 @
                                  [lg_json_text sy (app_log_line (lg_now sy) input details)]\<rparr>)))))"

subsection \<open>Properties\<close>

text \<open>Positions inside a JSON value.\<close>

datatype json_step = Key string | Idx nat

fun json_at :: "json \<Rightarrow> json_step list \<Rightarrow> json option" where
  "json_at v [] = Some v"
| "json_at (JObj kvs) (Key k # p) = (case obj_get kvs k of None \<Rightarrow> None | Some v \<Rightarrow> json_at v p)"
| "json_at (JArr xs) (Idx i # p) = (if i < length xs then json_at (xs ! i) p else None)"
| "json_at v (st # p) = None"

fun sensitive_step :: "json_step \<Rightarrow> bool" where
  "sensitive_step (Key k) = is_sensitive_key k"
| "sensitive_step (Idx _) = False"

lemma obj_get_mapped: "obj_get (map (\<lambda>(k, v). (k, f k v)) kvs) k = map_option (f k) (obj_get kvs k)"
  by (induction kvs) (auto simp: obj_get_def)

lemma sanitize_at_open:
  "list_all (\<lambda>st. \<not> sensitive_step st) p \<Longrightarrow> json_at (sanitize_log_value v) p = map_option sanitize_log_value (json_at v p)"
proof (induction v p rule: json_at.induct)
  case (2 kvs k p)
  then show ?case by (cases "obj_get kvs k") (simp_all add: obj_get_mapped)
qed auto

lemma sanitize_at_sensitive:
  assumes "is_sensitive_key k"
  shows "json_at (sanitize_log_value v) (Key k # r) =
    (if r = [] then map_option (\<lambda>_. JStr ''***'') (json_at v [Key k]) else None)"
proof (cases v)
  case (JObj kvs)
  with assms show ?thesis
    by (cases "obj_get kvs k"; cases r) (simp_all add: obj_get_mapped)
qed simp_all

lemma json_at_append: "json_at v (p @ q) = Option.bind (json_at v p) (\<lambda>u. json_at u q)"
  by (induction v p rule: json_at.induct) (auto split: option.split)

text \<open>The log mask is exact: below a key that names a secret nothing but three asterisks is left, at whatever depth, and every position that no such key leads to keeps its value, masked in turn.\<close>

theorem sanitize_positions:
  assumes "list_all (\<lambda>st. \<not> sensitive_step st) p" and "is_sensitive_key k"
  shows "json_at (sanitize_log_value v) p = map_option sanitize_log_value (json_at v p) \<and>
    json_at (sanitize_log_value v) (p @ Key k # r) =
      (if r = [] then map_option (\<lambda>_. JStr ''***'') (json_at v (p @ [Key k])) else None)"
proof -
  note open_part = sanitize_at_open [OF assms(1), of v]
  show ?thesis
    using open_part sanitize_at_sensitive [OF assms(2)]
    by (cases "json_at v p") (simp_all add: json_at_append)
qed

theorem sanitize_positions_witness:
  "json_at (sanitize_log_value (JObj [(''headers'', JObj [(''X-Webhook-Token'', JStr ''t'')])])) [Key ''headers'', Key ''X-Webhook-Token'']
     = Some (JStr ''***'')"
proof -
  have t: "trim ''X-Webhook-Token'' = ''X-Webhook-Token''" "trim ''headers'' = ''headers''"
    by (simp_all add: trim_graph graph_char_def)
  have "is_sensitive_key ''X-Webhook-Token''" "\<not> is_sensitive_key ''headers''"
    by (simp_all add: is_sensitive_key_def t lowercase_key_def to_ascii_lowercase_def ascii_lower_def
        sensitive_words_def replace.simps char_of_def bit_0)
  with sanitize_positions [of "[Key ''headers'']" "''X-Webhook-Token''" "JObj [(''headers'', JObj [(''X-Webhook-Token'', JStr ''t'')])]" "[]"]
  show ?thesis by (simp del: sanitize_log_value.simps)
qed

text \<open>A log entry is written to the table before the file: whenever the file fails the row is already there, whenever the insert fails nothing is written, and in both places the details are the masked ones.\<close>

theorem write_app_log_outcomes:
  "write_app_log sy input w = (r, w') \<Longrightarrow>
   (case lg_insert_err sy of
      Some err \<Rightarrow> w' = w \<and> r \<noteq> Ok ()
    | None \<Rightarrow>
        (\<exists>row. lw_app_logs w' = lw_app_logs w @ [row] \<and>
           lo_details_json row = map_option (\<lambda>d. lg_json_text sy (sanitize_log_value d)) (ai_details input)) \<and>
        (r = Ok () \<longleftrightarrow> lw_log_file w' = lw_log_file w @
           [lg_json_text sy (app_log_line (lg_now sy) input (map_option sanitize_log_value (ai_details input)))]))"
  by (auto simp: write_app_log_def Let_def option.map_comp o_def split: option.splits)

definition demo_log_sys :: log_sys where
  "demo_log_sys = \<lparr>lg_now = ''now'', lg_json_text = (\<lambda>_. ''{}''), lg_insert_err = None, lg_mkdir_err = None,
     lg_open_err = None, lg_write_err = Some ''full''\<rparr>"

theorem write_app_log_outcomes_witness:
  "\<exists>r w'. write_app_log demo_log_sys
       \<lparr>ai_level = ''info'', ai_category = ''c'', ai_message = ''m'', ai_source = None, ai_route = None, ai_details = None\<rparr>
       \<lparr>lw_sync_queue = [], lw_audit_logs = [], lw_app_logs = [], lw_log_file = []\<rparr> = (r, w') \<and>
     length (lw_app_logs w') = 1 \<and> r \<noteq> Ok ()"
proof -
  let ?i = "\<lparr>ai_level = ''info'', ai_category = ''c'', ai_message = ''m'', ai_source = None, ai_route = None, ai_details = None\<rparr>"
  let ?w = "\<lparr>lw_sync_queue = [], lw_audit_logs = [], lw_app_logs = [], lw_log_file = []\<rparr>"
  obtain r w' where e: "write_app_log demo_log_sys ?i ?w = (r, w')" by (meson surj_pair)
  have "lw_log_file w' = []" using e by (simp add: write_app_log_def demo_log_sys_def Let_def) auto
  with write_app_log_outcomes [OF e] e show ?thesis by (auto simp: demo_log_sys_def)
qed

end
