(* ===== verification/Realtime.thy ===== *)
theory Realtime
  imports Service_Config App_Log
begin

text \<open>
  The webhook receiver (\<^verbatim>\<open>native_webhook/routes.rs\<close>) and the WebSocket hub
  (\<^verbatim>\<open>native_websocket/hub.rs\<close>, the session part of \<^verbatim>\<open>native_websocket/server.rs\<close>). Request
  headers are a list of names (in lower case, as the HTTP library keeps them) with their
  text, absent when it is not printable ASCII. The JSON parser, the lossy UTF-8 decoder and
  the clock are parameters. A body above the limit of the HTTP library is answered 413 before
  the handler runs, and is left out.
\<close>

type_synonym headers = "(string \<times> string option) list"

definition header_text :: "headers \<Rightarrow> string \<Rightarrow> string" where
  "header_text hs name = unwrap_or [] (Option.bind (map_of hs (to_ascii_lowercase name)) id)"

subsection \<open>Webhook receiver\<close>

record webhook_event_record =
  we_id :: "64 word"
  we_provider :: string
  we_event :: string
  we_method :: string
  we_path :: string
  we_status :: string
  we_headers_json :: json
  we_payload_json :: json
  we_received_at :: string

record webhook_sys =
  hs_from_slice :: "string \<Rightarrow> json option"
  hs_utf8_lossy :: "string \<Rightarrow> string"
  hs_now :: string

record webhook_store =
  hk_events :: "webhook_event_record list"
  hk_seq :: "64 word"

definition next_id :: "webhook_store \<Rightarrow> 64 word \<times> webhook_store" where
  "next_id st = (hk_seq st + 1, st\<lparr>hk_seq := hk_seq st + 1\<rparr>)"

definition validate_webhook_token :: "webhook_config \<Rightarrow> headers \<Rightarrow> (unit, string) result" where
  "validate_webhook_token c hs =
     (if \<not> wh_token_required c then Ok ()
      else if trim (wh_token c) = [] then Ok ()
      else if header_text hs (trim (wh_token_header c)) = wh_token c then Ok ()
      else Err (''Token do webhook ausente ou inv'' @ u_aacute @ ''lido.''))"

definition parse_payload :: "webhook_sys \<Rightarrow> string \<Rightarrow> json" where
  "parse_payload sy body =
     (if body = [] then JObj []
      else unwrap_or (JObj [(''raw'', JStr (hs_utf8_lossy sy body))]) (hs_from_slice sy body))"

definition headers_to_json :: "headers \<Rightarrow> json" where
  "headers_to_json hs = JObj (foldl (\<lambda>m (k, v). hm_insert k (JStr (unwrap_or [] v)) m) [] hs)"

definition push_event :: "webhook_event_record \<Rightarrow> webhook_event_record list \<Rightarrow> webhook_event_record list" where
  "push_event r es =
     (let es' = es @ [r] in if 500 < length es' then drop (length es' - 500) es' else es')"

definition list_events_snapshot :: "webhook_store \<Rightarrow> webhook_event_record list" where
  "list_events_snapshot st = rev (hk_events st)"

definition clear_events :: "webhook_store \<Rightarrow> webhook_store" where
  "clear_events st = st\<lparr>hk_events := []\<rparr>"

definition event_json :: "webhook_event_record \<Rightarrow> json" where
  "event_json r =
     JObj [(''id'', JNum (JInt (uint (we_id r)))), (''provider'', JStr (we_provider r)), (''event'', JStr (we_event r)),
           (''method'', JStr (we_method r)), (''path'', JStr (we_path r)), (''status'', JStr (we_status r)),
           (''headers_json'', we_headers_json r), (''payload_json'', we_payload_json r),
           (''received_at'', JStr (we_received_at r))]"

text \<open>
  A handled request: status code, body, the store, and the entry handed to the application
  log (whose outcome the handler ignores).
\<close>

definition webhook_log_input :: "webhook_event_record \<Rightarrow> app_log_input" where
  "webhook_log_input r =
     \<lparr>ai_level = ''info'', ai_category = ''webhook'', ai_message = ''Webhook recebido'',
      ai_source = Some ''native_webhook'', ai_route = Some ''-'', ai_details = Some (event_json r)\<rparr>"

definition event_record ::
  "webhook_sys \<Rightarrow> headers \<Rightarrow> string \<Rightarrow> string \<Rightarrow> string \<Rightarrow> string \<Rightarrow> 64 word \<Rightarrow> webhook_event_record" where
  "event_record sy hs path provider event body n =
     \<lparr>we_id = n, we_provider = provider, we_event = event, we_method = ''POST'', we_path = path,
      we_status = ''received'', we_headers_json = headers_to_json hs, we_payload_json = parse_payload sy body,
      we_received_at = hs_now sy\<rparr>"

definition receive_event ::
  "webhook_sys \<Rightarrow> webhook_config \<Rightarrow> headers \<Rightarrow> string \<Rightarrow> string \<Rightarrow> string \<Rightarrow> string \<Rightarrow> webhook_store
   \<Rightarrow> (nat \<times> json) \<times> webhook_store \<times> app_log_input option" where
  "receive_event sy c hs path provider event body st =
     (case validate_webhook_token c hs of
        Inl message \<Rightarrow> ((401, JObj [(''ok'', JBool False), (''error'', JStr message)]), st, None)
      | Inr _ \<Rightarrow>
          (let (n, st1) = next_id st;
               r = event_record sy hs path provider event body n
           in ((200, JObj [(''ok'', JBool True), (''event'', event_json r)]),
               st1\<lparr>hk_events := push_event r (hk_events st1)\<rparr>,
               Some (webhook_log_input r))))"

datatype webhook_request =
    TestReceive headers string
  | ReceiveProvider string headers string
  | ReceiveProviderEvent string string headers string
  | ListEvents headers

definition list_events_response :: "webhook_store \<Rightarrow> nat \<times> json" where
  "list_events_response st = (200, JObj [(''items'', JArr (map event_json (list_events_snapshot st)))])"

fun handle_webhook ::
  "webhook_sys \<Rightarrow> webhook_config \<Rightarrow> webhook_request \<Rightarrow> webhook_store \<Rightarrow> (nat \<times> json) \<times> webhook_store \<times> app_log_input option" where
  "handle_webhook sy c (TestReceive hs body) st = receive_event sy c hs ''/test'' ''test'' ''manual'' body st"
| "handle_webhook sy c (ReceiveProvider provider hs body) st =
     receive_event sy c hs (''/webhooks/'' @ provider) provider ''generic'' body st"
| "handle_webhook sy c (ReceiveProviderEvent provider event hs body) st =
     receive_event sy c hs (''/webhooks/'' @ provider @ ''/'' @ event) provider event body st"
| "handle_webhook sy c (ListEvents hs) st = (list_events_response st, st, None)"

subsection \<open>WebSocket hub\<close>

record client_info =
  ci_id :: string
  ci_connected_at :: string
  ci_user_agent :: "string option"

text \<open>A client and the channel its sender feeds; a channel is open while its session runs.\<close>

record ws_client =
  cl_info :: client_info
  cl_sender :: nat

record channel =
  ch_open :: bool
  ch_queue :: "string list"

record hub =
  hb_clients :: "(string \<times> ws_client) list"
  hb_channels :: "nat \<Rightarrow> channel"

definition register_client :: "string \<Rightarrow> string \<Rightarrow> string option \<Rightarrow> nat \<Rightarrow> hub \<Rightarrow> client_info \<times> hub" where
  "register_client now cid user_agent sender h =
     (let info = \<lparr>ci_id = cid, ci_connected_at = now, ci_user_agent = user_agent\<rparr>
      in (info, h\<lparr>hb_clients := hm_insert cid \<lparr>cl_info = info, cl_sender = sender\<rparr> (hb_clients h)\<rparr>))"

definition unregister_client :: "string \<Rightarrow> hub \<Rightarrow> hub" where
  "unregister_client cid h = h\<lparr>hb_clients := hm_remove cid (hb_clients h)\<rparr>"

definition list_clients :: "hub \<Rightarrow> client_info list" where
  "list_clients h = map (cl_info \<circ> snd) (hb_clients h)"

definition channel_send :: "nat \<Rightarrow> string \<Rightarrow> (nat \<Rightarrow> channel) \<Rightarrow> bool \<times> (nat \<Rightarrow> channel)" where
  "channel_send n msg chs =
     (if ch_open (chs n) then (True, chs(n := (chs n)\<lparr>ch_queue := ch_queue (chs n) @ [msg]\<rparr>)) else (False, chs))"

fun send_all ::
  "string \<Rightarrow> (string \<times> ws_client) list \<Rightarrow> nat \<times> string list \<times> (nat \<Rightarrow> channel) \<Rightarrow> nat \<times> string list \<times> (nat \<Rightarrow> channel)" where
  "send_all msg [] acc = acc"
| "send_all msg ((cid, c) # cs) (sent, disconnected, chs) =
     (case channel_send (cl_sender c) msg chs of
        (True, chs') \<Rightarrow> send_all msg cs (sent + 1, disconnected, chs')
      | (False, chs') \<Rightarrow> send_all msg cs (sent, disconnected @ [cid], chs'))"

definition broadcast_text :: "string \<Rightarrow> hub \<Rightarrow> nat \<times> hub" where
  "broadcast_text msg h =
     (case send_all msg (hb_clients h) (0, [], hb_channels h) of
        (sent, disconnected, chs) \<Rightarrow>
          (sent, foldl (\<lambda>h cid. unregister_client cid h) (h\<lparr>hb_channels := chs\<rparr>) disconnected))"

definition validate_websocket_token ::
  "websocket_config \<Rightarrow> headers \<Rightarrow> (string \<times> string) list \<Rightarrow> (unit, string) result" where
  "validate_websocket_token c hs query =
     (if \<not> ws_token_required c then Ok ()
      else if trim (ws_token c) = [] then Ok ()
      else if header_text hs (trim (ws_token_header c)) = ws_token c \<or>
              unwrap_or [] (map_of query (trim (ws_token_query c))) = ws_token c
      then Ok ()
      else Err (''Token do WebSocket ausente ou inv'' @ u_aacute @ ''lido.''))"

text \<open>
  One session, as \<^verbatim>\<open>handle_socket\<close>: it registers, answers the messages it receives with a
  broadcast until the peer closes, and unregisters. The messages of one session are
  consecutive here; the steps of several sessions interleave through the hub. \<open>reply\<close> is the
  text of the echo for a message and \<open>hello\<close> is what the session's own socket is sent first.
\<close>

datatype ws_message = TextMsg string | CloseMsg | OtherMsg

fun session_messages :: "(string \<Rightarrow> string) \<Rightarrow> ws_message list \<Rightarrow> hub \<Rightarrow> hub" where
  "session_messages reply [] h = h"
| "session_messages reply (TextMsg t # ms) h = session_messages reply ms (snd (broadcast_text (reply t) h))"
| "session_messages reply (CloseMsg # ms) h = h"
| "session_messages reply (OtherMsg # ms) h = session_messages reply ms h"

definition handle_socket ::
  "(string \<Rightarrow> string) \<Rightarrow> string \<Rightarrow> string \<Rightarrow> headers \<Rightarrow> nat \<Rightarrow> ws_message list \<Rightarrow> hub \<Rightarrow> hub" where
  "handle_socket reply now cid hs sender ms h =
     (let ua = Option.bind (map_of hs ''user-agent'') (\<lambda>v. v);
          h1 = snd (register_client now cid ua sender h);
          h2 = session_messages reply ms h1
      in unregister_client cid h2)"

subsection \<open>The receiver\<close>

lemma push_event_last: "push_event r es = drop (length es + 1 - 500) (es @ [r])"
  by (auto simp: push_event_def Let_def)

text \<open>The headers a request to be stored comes with, and the record it becomes.\<close>

fun delivery :: "webhook_sys \<Rightarrow> webhook_request \<Rightarrow> (headers \<times> (64 word \<Rightarrow> webhook_event_record)) option" where
  "delivery sy (TestReceive hs body) = Some (hs, event_record sy hs ''/test'' ''test'' ''manual'' body)"
| "delivery sy (ReceiveProvider provider hs body) =
     Some (hs, event_record sy hs (''/webhooks/'' @ provider) provider ''generic'' body)"
| "delivery sy (ReceiveProviderEvent provider event hs body) =
     Some (hs, event_record sy hs (''/webhooks/'' @ provider @ ''/'' @ event) provider event body)"
| "delivery sy (ListEvents hs) = None"

lemma receive_event_cases:
  "receive_event sy c hs path provider event body st =
     (case validate_webhook_token c hs of
        Inl m \<Rightarrow> ((401, JObj [(''ok'', JBool False), (''error'', JStr m)]), st, None)
      | Inr _ \<Rightarrow>
          let r = event_record sy hs path provider event body (hk_seq st + 1)
          in ((200, JObj [(''ok'', JBool True), (''event'', event_json r)]),
              \<lparr>hk_events = push_event r (hk_events st), hk_seq = hk_seq st + 1\<rparr>, Some (webhook_log_input r)))"
  by (cases st) (simp add: receive_event_def next_id_def Let_def split: sum.split)

lemma handle_delivery:
  assumes "delivery sy req = Some (hs, mk)"
  shows "handle_webhook sy c req st =
     (case validate_webhook_token c hs of
        Inl m \<Rightarrow> ((401, JObj [(''ok'', JBool False), (''error'', JStr m)]), st, None)
      | Inr _ \<Rightarrow>
          ((200, JObj [(''ok'', JBool True), (''event'', event_json (mk (hk_seq st + 1)))]),
           \<lparr>hk_events = push_event (mk (hk_seq st + 1)) (hk_events st), hk_seq = hk_seq st + 1\<rparr>,
           Some (webhook_log_input (mk (hk_seq st + 1)))))"
  using assms by (cases req) (auto simp: receive_event_cases Let_def split: sum.split)

lemma handle_listing: "delivery sy req = None \<Longrightarrow> fst (snd (handle_webhook sy c req st)) = st"
  by (cases req) auto

lemma delivery_id: "delivery sy req = Some (hs, mk) \<Longrightarrow> we_id (mk n) = n"
  by (cases req) (auto simp: event_record_def)

lemma delivery_headers: "delivery sy req = Some (hs, mk) \<Longrightarrow> we_headers_json (mk n) = headers_to_json hs"
  by (cases req) (auto simp: event_record_def)

fun run_webhook :: "webhook_sys \<Rightarrow> webhook_config \<Rightarrow> webhook_request list \<Rightarrow> webhook_store \<Rightarrow> webhook_store" where
  "run_webhook sy c [] st = st"
| "run_webhook sy c (req # reqs) st = run_webhook sy c reqs (fst (snd (handle_webhook sy c req st)))"

text \<open>The records of the accepted requests, in order, numbered from \<open>n + 1\<close>.\<close>

fun accepted_records :: "webhook_sys \<Rightarrow> webhook_config \<Rightarrow> nat \<Rightarrow> webhook_request list \<Rightarrow> webhook_event_record list" where
  "accepted_records sy c n [] = []"
| "accepted_records sy c n (req # reqs) =
     (case delivery sy req of
        None \<Rightarrow> accepted_records sy c n reqs
      | Some (hs, mk) \<Rightarrow>
          (if validate_webhook_token c hs = Ok () then mk (of_nat (Suc n)) # accepted_records sy c (Suc n) reqs
           else accepted_records sy c n reqs))"

lemma run_webhook_records:
  assumes "hk_seq st = of_nat n" and "hk_events st = drop (length as - 500) as"
  shows "hk_events (run_webhook sy c reqs st) =
      drop (length (as @ accepted_records sy c n reqs) - 500) (as @ accepted_records sy c n reqs) \<and>
    hk_seq (run_webhook sy c reqs st) = of_nat (n + length (accepted_records sy c n reqs))"
  using assms
proof (induction reqs arbitrary: st n as)
  case (Cons req reqs)
  show ?case
  proof (cases "delivery sy req")
    case None
    with Cons show ?thesis by (simp add: handle_listing)
  next
    case (Some d)
    obtain hs mk where d: "d = (hs, mk)" by (cases d)
    show ?thesis
    proof (cases "validate_webhook_token c hs")
      case (Inl e)
      with Cons Some d show ?thesis by (simp add: handle_delivery)
    next
      case (Inr u)
      let ?r = "mk (of_nat (Suc n))"
      let ?st = "\<lparr>hk_events = push_event ?r (hk_events st), hk_seq = hk_seq st + 1\<rparr>"
      have n: "hk_seq st + 1 = of_nat (Suc n)" using Cons.prems(1) by (simp add: add.commute)
      have "length as - (length as - 500 + 499) + (length as - 500) = length as - 499" by arith
      then have "push_event ?r (hk_events st) = drop (length (as @ [?r]) - 500) (as @ [?r])"
        unfolding Cons.prems(2) push_event_last by (auto simp: not_le)
      then have "hk_events ?st = drop (length (as @ [?r]) - 500) (as @ [?r])" by simp
      moreover have "hk_seq ?st = of_nat (Suc n)" using n by simp
      ultimately have "hk_events (run_webhook sy c reqs ?st) =
          drop (length ((as @ [?r]) @ accepted_records sy c (Suc n) reqs) - 500) ((as @ [?r]) @ accepted_records sy c (Suc n) reqs) \<and>
        hk_seq (run_webhook sy c reqs ?st) = of_nat (Suc n + length (accepted_records sy c (Suc n) reqs))"
        by (intro Cons.IH)
      with Inr Some d n show ?thesis by (simp add: handle_delivery add.commute)
    qed
  qed
qed simp

lemma accepted_ids: "map we_id (accepted_records sy c n reqs) = map of_nat [Suc n..<Suc n + length (accepted_records sy c n reqs)]"
proof (induction reqs arbitrary: n)
  case (Cons req reqs)
  then show ?case
    by (auto simp: delivery_id upt_conv_Cons simp del: upt_Suc split: option.split)
qed simp

text \<open>Whatever requests arrive, the receiver holds the last five hundred accepted records in the order of arrival, numbered consecutively from one modulo two to the sixty-four; requests that are refused and listings leave no trace.\<close>

theorem webhook_keeps_newest:
  "hk_events (run_webhook sy c reqs \<lparr>hk_events = [], hk_seq = 0\<rparr>) =
     drop (length (accepted_records sy c 0 reqs) - 500) (accepted_records sy c 0 reqs) \<and>
   map we_id (accepted_records sy c 0 reqs) = map of_nat [1..<Suc (length (accepted_records sy c 0 reqs))] \<and>
   length (hk_events (run_webhook sy c reqs \<lparr>hk_events = [], hk_seq = 0\<rparr>)) \<le> 500"
  using run_webhook_records [of "\<lparr>hk_events = [], hk_seq = 0\<rparr>" 0 "[]" sy c reqs] accepted_ids [of sy c 0 reqs]
  by simp

text \<open>C36. With a token required and configured, a delivery that does not carry exactly this token in the configured header is answered 401, stores nothing and logs nothing; with a blank token every delivery is accepted, although a token is required.\<close>

theorem webhook_token_enforced:
  assumes "wh_token_required c" and "delivery sy req = Some (hs, mk)"
  shows "(trim (wh_token c) \<noteq> [] \<and> header_text hs (trim (wh_token_header c)) \<noteq> wh_token c \<longrightarrow>
      (\<exists>body. handle_webhook sy c req st = ((401, body), st, None))) \<and>
    (trim (wh_token c) = [] \<or> header_text hs (trim (wh_token_header c)) = wh_token c \<longrightarrow>
      fst (fst (handle_webhook sy c req st)) = 200 \<and> hk_seq (fst (snd (handle_webhook sy c req st))) = hk_seq st + 1)"
  using assms by (auto simp: handle_delivery validate_webhook_token_def)

definition demo_hook :: webhook_config where
  "demo_hook = \<lparr>wh_enabled = True, wh_host = ''127.0.0.1'', wh_port = 61003, wh_base_path = ''/webhooks'',
     wh_token_required = True, wh_token_header = ''X-Webhook-Token'', wh_token = ''t'', wh_allow_lan = False,
     wh_allow_external = False\<rparr>"

definition demo_hook_sys :: webhook_sys where
  "demo_hook_sys = \<lparr>hs_from_slice = (\<lambda>_. None), hs_utf8_lossy = (\<lambda>b. b), hs_now = ''now''\<rparr>"

lemma demo_hook_token:
  "trim (wh_token demo_hook) = ''t''"
  "header_text hs (trim (wh_token_header demo_hook)) = unwrap_or [] (Option.bind (map_of hs ''x-webhook-token'') id)"
proof -
  show "trim (wh_token demo_hook) = ''t''" by (simp add: demo_hook_def trim_graph graph_char_def)
  have "trim ''X-Webhook-Token'' = ''X-Webhook-Token''" by (simp add: trim_graph graph_char_def)
  moreover have "to_ascii_lowercase ''X-Webhook-Token'' = ''x-webhook-token''"
    by (simp add: to_ascii_lowercase_def ascii_lower_def char_of_def bit_0)
  ultimately show "header_text hs (trim (wh_token_header demo_hook)) = unwrap_or [] (Option.bind (map_of hs ''x-webhook-token'') id)"
    by (simp add: demo_hook_def header_text_def)
qed

theorem webhook_token_enforced_witness:
  "\<exists>body. handle_webhook demo_hook_sys demo_hook (TestReceive [] ''{}'') \<lparr>hk_events = [], hk_seq = 0\<rparr>
     = ((401, body), \<lparr>hk_events = [], hk_seq = 0\<rparr>, None)"
proof -
  have r: "wh_token_required demo_hook" by (simp add: demo_hook_def)
  have d: "delivery demo_hook_sys (TestReceive [] ''{}'') =
      Some ([], event_record demo_hook_sys [] ''/test'' ''test'' ''manual'' ''{}'')" by simp
  have "header_text [] (trim (wh_token_header demo_hook)) \<noteq> wh_token demo_hook"
    unfolding demo_hook_token by (simp add: demo_hook_def)
  with webhook_token_enforced [OF r d] demo_hook_token(1) show ?thesis by simp
qed

text \<open>The headers of a request, as JSON.\<close>

lemma headers_json_lookup:
  assumes "distinct (map fst hs)"
  shows "map_of (foldl (\<lambda>m (k, v). hm_insert k (JStr (unwrap_or [] v)) m) m0 hs) k =
    (case map_of hs k of Some v \<Rightarrow> Some (JStr (unwrap_or [] v)) | None \<Rightarrow> map_of m0 k)"
  using assms
proof (induction hs arbitrary: m0)
  case (Cons kv hs)
  obtain k' v where kv: "kv = (k', v)" by (cases kv)
  with Cons.prems have "map_of hs k' = None" by (simp add: map_of_eq_None_iff)
  with Cons kv show ?case by (auto simp: map_of_hm_insert split: option.split)
qed simp

lemma sanitize_at_masked:
  assumes "list_all (\<lambda>st. \<not> sensitive_step st) p" and "is_sensitive_key k"
  shows "json_at (sanitize_log_value v) (p @ [Key k]) = map_option (\<lambda>_. JStr ''***'') (json_at v (p @ [Key k]))"
  using sanitize_at_open [OF assms(1), of v] sanitize_at_sensitive [OF assms(2), of _ "[]"]
  by (cases "json_at v p") (simp_all add: json_at_append)

lemma sensitive_token: "is_sensitive_key ''x-webhook-token''" "\<not> is_sensitive_key ''headers_json''"
proof -
  have "trim ''x-webhook-token'' = ''x-webhook-token''" "trim ''headers_json'' = ''headers_json''"
    by (simp_all add: trim_graph graph_char_def)
  then show "is_sensitive_key ''x-webhook-token''" "\<not> is_sensitive_key ''headers_json''"
    by (simp_all add: is_sensitive_key_def lowercase_key_def to_ascii_lowercase_def ascii_lower_def
        sensitive_words_def replace.simps char_of_def bit_0)
qed

text \<open>The secret of an accepted delivery is masked in the application log but kept in the store, from where the listing hands it out to any caller, with or without a token.\<close>

theorem listing_reveals_token:
  assumes "delivery sy req = Some (hs, mk)" and "validate_webhook_token c hs = Ok ()"
    and "distinct (map fst hs)" and "map_of hs ''x-webhook-token'' = Some (Some tok)"
    and "handle_webhook sy c req st = (resp, st', Some log)"
  shows "json_at (snd (fst (handle_webhook sy c (ListEvents anyone) st')))
      [Key ''items'', Idx 0, Key ''headers_json'', Key ''x-webhook-token''] = Some (JStr tok) \<and>
    Option.bind (ai_details log) (\<lambda>d. json_at (sanitize_log_value d) [Key ''headers_json'', Key ''x-webhook-token'']) = Some (JStr ''***'')"
proof -
  let ?r = "mk (hk_seq st + 1)"
  from assms(1,2,5) have st': "hk_events st' = push_event ?r (hk_events st)" and log: "log = webhook_log_input ?r"
    by (auto simp: handle_delivery)
  obtain es where es: "hk_events st' = es @ [?r]"
    unfolding st' push_event_last by (cases "length (hk_events st) + 1 - 500 \<le> length (hk_events st)") (auto simp: drop_append)
  have hdr: "json_at (event_json ?r) [Key ''headers_json'', Key ''x-webhook-token''] = Some (JStr tok)"
    using assms(4) delivery_headers [OF assms(1)] headers_json_lookup [OF assms(3), of "[]" "''x-webhook-token''"]
    by (simp add: event_json_def headers_to_json_def obj_get_def)
  then have "json_at (sanitize_log_value (event_json ?r)) [Key ''headers_json'', Key ''x-webhook-token''] = Some (JStr ''***'')"
    using sanitize_at_masked [of "[Key ''headers_json'']" "''x-webhook-token''" "event_json ?r"] sensitive_token by simp
  with hdr es log show ?thesis
    by (simp add: list_events_response_def list_events_snapshot_def webhook_log_input_def)
qed

theorem listing_reveals_token_witness:
  "\<exists>resp st' log. handle_webhook demo_hook_sys demo_hook (TestReceive [(''x-webhook-token'', Some ''t'')] ''{}'') \<lparr>hk_events = [], hk_seq = 0\<rparr>
       = (resp, st', Some log) \<and>
     json_at (snd (fst (handle_webhook demo_hook_sys demo_hook (ListEvents []) st')))
       [Key ''items'', Idx 0, Key ''headers_json'', Key ''x-webhook-token''] = Some (JStr ''t'')"
proof -
  let ?hs = "[(''x-webhook-token'', Some ''t'')]"
  have d: "delivery demo_hook_sys (TestReceive ?hs ''{}'') =
      Some (?hs, event_record demo_hook_sys ?hs ''/test'' ''test'' ''manual'' ''{}'')" by simp
  have v: "validate_webhook_token demo_hook ?hs = Ok ()"
    unfolding validate_webhook_token_def demo_hook_token by (simp add: demo_hook_def)
  obtain resp st' log where h: "handle_webhook demo_hook_sys demo_hook (TestReceive ?hs ''{}'') \<lparr>hk_events = [], hk_seq = 0\<rparr>
      = (resp, st', Some log)"
    using handle_delivery [OF d, of demo_hook] v by simp
  have "distinct (map fst ?hs)" "map_of ?hs ''x-webhook-token'' = Some (Some ''t'')" by simp_all
  from listing_reveals_token [OF d v this h, of "[]"] h show ?thesis by blast
qed

subsection \<open>The hub\<close>

definition hub_put :: "string \<Rightarrow> ws_client \<Rightarrow> hub \<Rightarrow> hub" where
  "hub_put cid c h = h\<lparr>hb_clients := hm_insert cid c (hb_clients h)\<rparr>"

lemma register_client_put:
  "snd (register_client now cid ua sender h) =
     hub_put cid \<lparr>cl_info = \<lparr>ci_id = cid, ci_connected_at = now, ci_user_agent = ua\<rparr>, cl_sender = sender\<rparr> h"
  by (simp add: register_client_def hub_put_def Let_def)

interpretation hubs: kv_store "\<lambda>h. map_of (hb_clients h)" hub_put unregister_client "\<lambda>h. hm_wf (hb_clients h)"
  by unfold_locales
    (simp_all add: hub_put_def unregister_client_def map_of_hm_insert map_of_hm_remove hm_wf_insert hm_wf_remove)

definition client_open :: "hub \<Rightarrow> string \<times> ws_client \<Rightarrow> bool" where
  "client_open h e \<longleftrightarrow> ch_open (hb_channels h (cl_sender (snd e)))"

definition hub_wf :: "hub \<Rightarrow> bool" where
  "hub_wf h \<longleftrightarrow> hm_wf (hb_clients h) \<and> distinct (map (cl_sender \<circ> snd) (hb_clients h))"

text \<open>What a broadcast does to the channels.\<close>

definition delivered :: "string \<Rightarrow> (string \<times> ws_client) list \<Rightarrow> (nat \<Rightarrow> channel) \<Rightarrow> nat \<Rightarrow> channel" where
  "delivered msg cs chs n =
     (if n \<in> (cl_sender \<circ> snd) ` set cs \<and> ch_open (chs n)
      then (chs n)\<lparr>ch_queue := ch_queue (chs n) @ [msg]\<rparr> else chs n)"

lemma send_all_result:
  assumes "distinct (map (cl_sender \<circ> snd) cs)"
  shows "send_all msg cs (k, ds, chs) =
    (k + length (filter (\<lambda>e. ch_open (chs (cl_sender (snd e)))) cs),
     ds @ map fst (filter (\<lambda>e. \<not> ch_open (chs (cl_sender (snd e)))) cs),
     delivered msg cs chs)"
  using assms
proof (induction cs arbitrary: k ds chs)
  case Nil
  show ?case by (simp add: delivered_def fun_eq_iff)
next
  case (Cons e cs)
  obtain cid c where e: "e = (cid, c)" by (cases e)
  have fresh: "\<forall>e' \<in> set cs. cl_sender (snd e') \<noteq> cl_sender c" using Cons.prems e by (force simp: image_iff)
  show ?case
  proof (cases "ch_open (chs (cl_sender c))")
    case True
    let ?chs = "chs(cl_sender c := (chs (cl_sender c))\<lparr>ch_queue := ch_queue (chs (cl_sender c)) @ [msg]\<rparr>)"
    have same: "filter (\<lambda>e. P (ch_open (?chs (cl_sender (snd e))))) cs = filter (\<lambda>e. P (ch_open (chs (cl_sender (snd e))))) cs" for P
      using fresh by (intro filter_cong) auto
    have "delivered msg cs ?chs = delivered msg (e # cs) chs"
      using fresh True e by (auto simp: delivered_def fun_eq_iff)
    with True e Cons same [of "\<lambda>b. b"] same [of Not] show ?thesis by (simp add: channel_send_def)
  next
    case False
    then have "delivered msg cs chs = delivered msg (e # cs) chs"
      using e by (auto simp: delivered_def fun_eq_iff)
    with False e Cons show ?thesis by (simp add: channel_send_def)
  qed
qed

lemma unregister_all:
  "hb_clients (foldl (\<lambda>h cid. unregister_client cid h) h ds) = filter (\<lambda>e. fst e \<notin> set ds) (hb_clients h)"
  "hb_channels (foldl (\<lambda>h cid. unregister_client cid h) h ds) = hb_channels h"
  by (induction ds arbitrary: h) (simp_all add: unregister_client_def hm_remove_def conj_commute)

lemma broadcast_result:
  assumes "hub_wf h"
  shows "broadcast_text msg h =
    (length (filter (client_open h) (hb_clients h)),
     h\<lparr>hb_clients := filter (client_open h) (hb_clients h), hb_channels := delivered msg (hb_clients h) (hb_channels h)\<rparr>)"
proof -
  let ?cs = "hb_clients h"
  let ?ds = "map fst (filter (\<lambda>e. \<not> client_open h e) ?cs)"
  have dist: "distinct (map (cl_sender \<circ> snd) ?cs)" and keys: "distinct (map fst ?cs)"
    using assms by (auto simp: hub_wf_def hm_wf_def)
  have inj: "inj_on fst (set ?cs)" using keys by (simp add: distinct_map)
  have "fst e \<in> set ?ds \<longleftrightarrow> \<not> client_open h e" if "e \<in> set ?cs" for e
  proof
    assume "fst e \<in> set ?ds"
    then obtain e' where "e' \<in> set ?cs" "\<not> client_open h e'" "fst e' = fst e" by auto
    with inj_onD [OF inj, of e' e] that show "\<not> client_open h e" by simp
  qed (use that in auto)
  then have keep: "filter (\<lambda>e. fst e \<notin> set ?ds) ?cs = filter (client_open h) ?cs"
    by (intro filter_cong) auto
  have "snd (broadcast_text msg h) = foldl (\<lambda>h cid. unregister_client cid h)
      (h\<lparr>hb_channels := delivered msg ?cs (hb_channels h)\<rparr>) ?ds"
    and sent: "fst (broadcast_text msg h) = length (filter (client_open h) ?cs)"
    by (simp_all add: broadcast_text_def send_all_result [OF dist] client_open_def [abs_def])
  then have "hb_clients (snd (broadcast_text msg h)) = filter (client_open h) ?cs"
    "hb_channels (snd (broadcast_text msg h)) = delivered msg ?cs (hb_channels h)"
    using keep by (simp_all add: unregister_all)
  with sent show ?thesis by (cases "broadcast_text msg h"; cases "snd (broadcast_text msg h)") auto
qed

text \<open>A broadcast reaches every registered client whose session runs, exactly once and at the end of its queue; it returns their number, touches no other channel, and afterwards exactly these clients are registered.\<close>

theorem broadcast_reaches_open_clients:
  assumes "hub_wf h" and "broadcast_text msg h = (n, h')"
  shows "n = length (hb_clients h') \<and> hb_clients h' = filter (client_open h) (hb_clients h) \<and> hub_wf h' \<and>
    (\<forall>k. hb_channels h' k =
       (if \<exists>e \<in> set (hb_clients h'). cl_sender (snd e) = k
        then (hb_channels h k)\<lparr>ch_queue := ch_queue (hb_channels h k) @ [msg]\<rparr> else hb_channels h k))"
proof -
  from broadcast_result [OF assms(1)] assms(2) have n: "n = length (filter (client_open h) (hb_clients h))"
    and h': "h' = h\<lparr>hb_clients := filter (client_open h) (hb_clients h),
       hb_channels := delivered msg (hb_clients h) (hb_channels h)\<rparr>" by simp_all
  have "hub_wf h'" using assms(1) h' by (auto simp: hub_wf_def hm_wf_def distinct_map_filter)
  moreover have "(\<exists>e \<in> set (filter (client_open h) (hb_clients h)). cl_sender (snd e) = k) \<longleftrightarrow>
      k \<in> (cl_sender \<circ> snd) ` set (hb_clients h) \<and> ch_open (hb_channels h k)" for k
    unfolding client_open_def by force
  ultimately show ?thesis using n h' by (simp add: delivered_def)
qed

definition two_clients :: hub where
  "two_clients =
     \<lparr>hb_clients = [(''a'', \<lparr>cl_info = \<lparr>ci_id = ''a'', ci_connected_at = [], ci_user_agent = None\<rparr>, cl_sender = 0\<rparr>),
                    (''b'', \<lparr>cl_info = \<lparr>ci_id = ''b'', ci_connected_at = [], ci_user_agent = None\<rparr>, cl_sender = 1\<rparr>)],
      hb_channels = (\<lambda>n. \<lparr>ch_open = (n = 0), ch_queue = []\<rparr>)\<rparr>"

theorem broadcast_reaches_open_clients_witness:
  "\<exists>h'. broadcast_text ''x'' two_clients = (1, h') \<and> map fst (hb_clients h') = [''a'']"
proof -
  have wf: "hub_wf two_clients" by (simp add: two_clients_def hub_wf_def hm_wf_def)
  obtain n h' where b: "broadcast_text ''x'' two_clients = (n, h')" by (meson surj_pair)
  from broadcast_reaches_open_clients [OF wf b] have keys: "map fst (hb_clients h') = [''a'']" and n: "n = length (hb_clients h')"
    by (simp_all add: two_clients_def client_open_def)
  from keys have "length (map fst (hb_clients h')) = length [''a'']" by (rule arg_cong)
  with n have "n = 1" by simp
  with b keys show ?thesis by (intro exI [of _ h']) simp
qed

text \<open>A session keeps the other clients whose sessions run.\<close>

lemma broadcast_keeps_open:
  assumes "hub_wf h"
  shows "hub_wf (snd (broadcast_text msg h))"
    "ch_open (hb_channels (snd (broadcast_text msg h)) n) = ch_open (hb_channels h n)"
    "map_of (hb_clients h) k = Some c \<Longrightarrow> ch_open (hb_channels h (cl_sender c)) \<Longrightarrow>
       map_of (hb_clients (snd (broadcast_text msg h))) k = Some c"
proof -
  note res = broadcast_result [OF assms, of msg]
  show "hub_wf (snd (broadcast_text msg h))"
    using assms res by (auto simp: hub_wf_def hm_wf_def distinct_map_filter)
  show "ch_open (hb_channels (snd (broadcast_text msg h)) n) = ch_open (hb_channels h n)"
    using res by (simp add: delivered_def)
  assume "map_of (hb_clients h) k = Some c" and "ch_open (hb_channels h (cl_sender c))"
  then have "(k, c) \<in> set (filter (client_open h) (hb_clients h))"
    by (auto simp: client_open_def dest: map_of_SomeD)
  moreover have "distinct (map fst (filter (client_open h) (hb_clients h)))"
    using assms by (simp add: hub_wf_def hm_wf_def distinct_map_filter)
  ultimately show "map_of (hb_clients (snd (broadcast_text msg h))) k = Some c"
    using res by (simp add: map_of_is_SomeI)
qed

lemma session_keeps_open:
  "hub_wf h \<Longrightarrow> map_of (hb_clients h) k = Some c \<Longrightarrow> ch_open (hb_channels h (cl_sender c)) \<Longrightarrow>
   map_of (hb_clients (session_messages reply ms h)) k = Some c"
proof (induction reply ms h rule: session_messages.induct)
  case (2 reply t ms h)
  have "hub_wf (snd (broadcast_text (reply t) h))" using 2(2) by (rule broadcast_keeps_open)
  moreover have "map_of (hb_clients (snd (broadcast_text (reply t) h))) k = Some c"
    using 2(2-4) by (rule broadcast_keeps_open(3))
  moreover have "ch_open (hb_channels (snd (broadcast_text (reply t) h)) (cl_sender c))"
    using 2(4) broadcast_keeps_open(2) [OF 2(2)] by simp
  ultimately show ?case using 2(1) by simp
qed simp_all

text \<open>When a session ends, however it ends, its client is no longer registered, and every other client whose own session still runs has stayed registered with its data.\<close>

theorem session_unregisters_itself:
  assumes "hub_wf h" and "\<forall>e \<in> set (hb_clients h). cl_sender (snd e) \<noteq> sender"
  shows "map_of (hb_clients (handle_socket reply now cid hs sender ms h)) cid = None \<and>
    (\<forall>k c. k \<noteq> cid \<longrightarrow> map_of (hb_clients h) k = Some c \<longrightarrow> ch_open (hb_channels h (cl_sender c)) \<longrightarrow>
       map_of (hb_clients (handle_socket reply now cid hs sender ms h)) k = Some c)"
proof -
  let ?h1 = "snd (register_client now cid (Option.bind (map_of hs ''user-agent'') (\<lambda>v. v)) sender h)"
  have wf: "hub_wf ?h1"
    using assms hm_wf_insert [of "hb_clients h" cid]
    by (auto simp: hub_wf_def register_client_put hub_put_def hm_insert_def hm_remove_def distinct_map_filter)
  have other: "map_of (hb_clients ?h1) k = map_of (hb_clients h) k" if "k \<noteq> cid" for k
    using that by (simp add: register_client_put hub_put_def map_of_hm_insert)
  have "hb_channels ?h1 = hb_channels h" by (simp add: register_client_put hub_put_def)
  with session_keeps_open [OF wf, of _ _ reply ms] other show ?thesis
    by (auto simp: handle_socket_def Let_def unregister_client_def map_of_hm_remove)
qed

theorem session_unregisters_itself_witness:
  "map_of (hb_clients (handle_socket (\<lambda>t. t) ''now'' ''c'' [] 7 [TextMsg ''x'', CloseMsg] two_clients)) ''c'' = None \<and>
   map_of (hb_clients (handle_socket (\<lambda>t. t) ''now'' ''c'' [] 7 [TextMsg ''x'', CloseMsg] two_clients)) ''a'' \<noteq> None"
proof -
  have wf: "hub_wf two_clients" by (simp add: two_clients_def hub_wf_def hm_wf_def)
  have "\<forall>e \<in> set (hb_clients two_clients). cl_sender (snd e) \<noteq> 7" by (simp add: two_clients_def)
  from session_unregisters_itself [OF wf this, of "\<lambda>t. t" "''now''" "''c''" "[]" "[TextMsg ''x'', CloseMsg]"]
  show ?thesis by (auto simp: two_clients_def)
qed

end
