(* ===== verification/Net_Bind.thy ===== *)
theory Net_Bind
  imports Prelude
begin

text \<open>
  Binding a listener to a fixed port, \<^verbatim>\<open>net_bind.rs\<close>. The socket layer is a parameter: an
  address text parses or not, and each attempt to bind may go differently, so it is a
  function of a state. The world records every attempt and every pause.
\<close>

datatype io_kind = AddrInUse | InvalidInput | OtherKind string

record io_error =
  ie_kind :: io_kind
  ie_text :: string

datatype ip_addr = V4 "8 word" "8 word" "8 word" "8 word" | V6 string

datatype net_event = TryBind string | Sleep nat

record 's net_sys =
  nb_addr_err :: "string \<Rightarrow> string option"
  nb_bind :: "string \<Rightarrow> 's \<Rightarrow> (unit, io_error) result \<times> 's"
  nb_udp_local :: "'s \<Rightarrow> ip_addr option \<times> 's"

record 's net_world =
  nw_state :: 's
  nw_events :: "net_event list"

record prepared_listener =
  pl_listener :: string
  pl_bind_host :: string
  pl_public_host :: string
  pl_port :: "16 word"
  pl_note :: "string option"

definition host_port :: "string \<Rightarrow> 16 word \<Rightarrow> string" where
  "host_port host port = host @ '':'' @ show_word port"

definition normalize_bind_host :: "string \<Rightarrow> string" where
  "normalize_bind_host host =
     (let v = trim host in if v = [] \<or> eq_ignore_ascii_case v ''localhost'' then ''127.0.0.1'' else v)"

definition public_host_for_bind :: "string \<Rightarrow> string" where
  "public_host_for_bind host =
     (let v = trim host
      in if v \<in> {''0.0.0.0'', ''::'', ''[::]'', ''''} then ''127.0.0.1''
         else if v = ''localhost'' then ''127.0.0.1'' else v)"

definition is_wildcard_host :: "string \<Rightarrow> bool" where
  "is_wildcard_host host \<longleftrightarrow> trim host \<in> {''0.0.0.0'', ''::'', ''[::]''}"

fun show_v4 :: "ip_addr \<Rightarrow> string" where
  "show_v4 (V4 a b c d) = show_word a @ ''.'' @ show_word b @ ''.'' @ show_word c @ ''.'' @ show_word d"
| "show_v4 (V6 t) = t"

fun lan_candidate :: "ip_addr option \<Rightarrow> string option" where
  "lan_candidate (Some (V4 a b c d)) =
     (if a \<noteq> 127 \<and> (a, b, c, d) \<noteq> (0, 0, 0, 0) then Some (show_v4 (V4 a b c d)) else None)"
| "lan_candidate _ = None"

definition detect_primary_lan_ipv4 :: "'s net_sys \<Rightarrow> 's net_world \<Rightarrow> string option \<times> 's net_world" where
  "detect_primary_lan_ipv4 ns w =
     (case nb_udp_local ns (nw_state w) of (ip, s) \<Rightarrow> (lan_candidate ip, w\<lparr>nw_state := s\<rparr>))"

definition parse_addr :: "'s net_sys \<Rightarrow> string \<Rightarrow> 16 word \<Rightarrow> (string, io_error) result" where
  "parse_addr ns host port =
     (case nb_addr_err ns (host_port host port) of
        None \<Rightarrow> Ok (host_port host port)
      | Some err \<Rightarrow>
          Err \<lparr>ie_kind = InvalidInput, ie_text = (''Endere'' @ u_ccedil @ ''o inv'' @ u_aacute @ ''lido '') @ host_port host port @ '': '' @ err\<rparr>)"

definition tcp_bind :: "'s net_sys \<Rightarrow> string \<Rightarrow> 's net_world \<Rightarrow> (unit, io_error) result \<times> 's net_world" where
  "tcp_bind ns addr w =
     (case nb_bind ns addr (nw_state w) of
        (r, s) \<Rightarrow> (r, w\<lparr>nw_state := s, nw_events := nw_events w @ [TryBind addr]\<rparr>))"

definition pause :: "nat \<Rightarrow> 's net_world \<Rightarrow> 's net_world" where
  "pause ms w = w\<lparr>nw_events := nw_events w @ [Sleep ms]\<rparr>"

text \<open>\<open>n\<close> attempts are left, \<open>attempt\<close> counts from zero, \<open>prev\<close> is the error of the one before.\<close>

fun bind_attempts ::
  "'s net_sys \<Rightarrow> string \<Rightarrow> io_error option \<Rightarrow> nat \<Rightarrow> nat \<Rightarrow> 's net_world
   \<Rightarrow> (string, io_error) result \<times> 's net_world" where
  "bind_attempts ns addr prev attempt 0 w =
     (Err (unwrap_or \<lparr>ie_kind = AddrInUse, ie_text = ''porta ocupada''\<rparr> prev), w)"
| "bind_attempts ns addr prev attempt (Suc n) w =
     (case tcp_bind ns addr w of
        (Inr _, w') \<Rightarrow> (Ok addr, w')
      | (Inl err, w') \<Rightarrow>
          (if ie_kind err = AddrInUse
           then bind_attempts ns addr (Some err) (Suc attempt) n (pause (180 + attempt * 70) w')
           else (Err err, w')))"

definition bind_with_retry ::
  "'s net_sys \<Rightarrow> string \<Rightarrow> 's net_world \<Rightarrow> (string, io_error) result \<times> 's net_world" where
  "bind_with_retry ns addr w = bind_attempts ns addr None 0 10 w"

definition bind_on_lan ::
  "'s net_sys \<Rightarrow> string \<Rightarrow> 16 word \<Rightarrow> io_error \<Rightarrow> 's net_world
   \<Rightarrow> (prepared_listener, io_error) result \<times> 's net_world" where
  "bind_on_lan ns host port primary_err w =
     (case detect_primary_lan_ipv4 ns w of
        (None, w1) \<Rightarrow> (Err primary_err, w1)
      | (Some lan_host, w1) \<Rightarrow>
          (if eq_ignore_ascii_case lan_host ''127.0.0.1'' then (Err primary_err, w1)
           else case parse_addr ns lan_host port of
                  Inl err \<Rightarrow> (Err err, w1)
                | Inr lan_addr \<Rightarrow>
                    (case bind_with_retry ns lan_addr w1 of
                       (Inr l, w2) \<Rightarrow>
                         (Ok \<lparr>pl_listener = l, pl_bind_host = lan_host, pl_public_host = lan_host, pl_port = port,
                             pl_note = Some (''Bind em '' @ host_port host port @
                               ('' estava indispon'' @ u_iacute @ ''vel; publicado na mesma porta pela interface de rede '') @
                               host_port lan_host port @ ''.'')\<rparr>, w2)
                     | (Inl lan_err, w2) \<Rightarrow>
                         (Err \<lparr>ie_kind = ie_kind lan_err,
                              ie_text = ie_text primary_err @ ''; tentativa alternativa na interface LAN '' @
                                host_port lan_host port @ ('' tamb'' @ u_eacute @ ''m falhou: '') @ ie_text lan_err\<rparr>, w2))))"

definition bind_fixed_service_listener ::
  "'s net_sys \<Rightarrow> string \<Rightarrow> 16 word \<Rightarrow> 's net_world
   \<Rightarrow> (prepared_listener, io_error) result \<times> 's net_world" where
  "bind_fixed_service_listener ns host port w =
     (let h = normalize_bind_host host in
      case parse_addr ns h port of
        Inl err \<Rightarrow> (Err err, w)
      | Inr addr \<Rightarrow>
          (case bind_with_retry ns addr w of
             (Inr l, w1) \<Rightarrow>
               (Ok \<lparr>pl_listener = l, pl_bind_host = h, pl_public_host = public_host_for_bind h,
                   pl_port = port, pl_note = None\<rparr>, w1)
           | (Inl err, w1) \<Rightarrow>
               (if ie_kind err = AddrInUse \<and> is_wildcard_host h then bind_on_lan ns h port err w1
                else (Err err, w1))))"

subsection \<open>Facts\<close>

fun tries :: "net_event list \<Rightarrow> string list" where
  "tries [] = []"
| "tries (TryBind a # es) = a # tries es"
| "tries (Sleep _ # es) = tries es"

fun slept :: "net_event list \<Rightarrow> nat" where
  "slept [] = 0"
| "slept (TryBind _ # es) = slept es"
| "slept (Sleep n # es) = n + slept es"

lemma tries_append [simp]: "tries (xs @ ys) = tries xs @ tries ys"
  by (induction xs rule: tries.induct) auto

lemma slept_append [simp]: "slept (xs @ ys) = slept xs + slept ys"
  by (induction xs rule: slept.induct) auto

definition new_events :: "'s net_world \<Rightarrow> 's net_world \<Rightarrow> net_event list \<Rightarrow> bool" where
  "new_events w w' es \<longleftrightarrow> nw_events w' = nw_events w @ es"

lemma tcp_bind_events: "tcp_bind ns addr w = (r, w') \<Longrightarrow> new_events w w' [TryBind addr]"
  by (auto simp: tcp_bind_def new_events_def split: prod.splits)

lemma new_events_trans: "new_events u v es \<Longrightarrow> new_events v w fs \<Longrightarrow> new_events u w (es @ fs)"
  by (simp add: new_events_def)

lemma new_events_pause: "new_events w (pause n w) [Sleep n]"
  by (simp add: new_events_def pause_def)

text \<open>A loop of \<open>n\<close> attempts tries the address at most \<open>n\<close> times; a success and a final failure are what the last attempt gave.\<close>

lemma bind_attempts_log:
  "bind_attempts ns addr prev k n w = (r, w') \<Longrightarrow>
   \<exists>es. new_events w w' es \<and> set (tries es) \<subseteq> {addr} \<and> length (tries es) \<le> n \<and>
     slept es \<le> (\<Sum>i = k..<k + n. 180 + i * 70) \<and> (\<forall>l. r = Ok l \<longrightarrow> l = addr \<and> es \<noteq> [])"
proof (induction n arbitrary: prev k w)
  case 0
  then show ?case by (auto simp: new_events_def)
next
  case (Suc n)
  obtain q v where b: "tcp_bind ns addr w = (q, v)" by (cases "tcp_bind ns addr w")
  note ev = tcp_bind_events [OF b]
  have sum: "(\<Sum>i = k..<k + Suc n. 180 + i * 70) = 180 + k * 70 + (\<Sum>i = Suc k..<Suc k + n. 180 + i * 70)"
    by (subst sum.atLeast_Suc_lessThan) simp_all
  show ?case
  proof (cases "\<exists>e. q = Err e \<and> ie_kind e = AddrInUse")
    case True
    then obtain e where "q = Err e" "ie_kind e = AddrInUse" by blast
    with Suc.prems b have "bind_attempts ns addr (Some e) (Suc k) n (pause (180 + k * 70) v) = (r, w')" by simp
    from Suc.IH [OF this] obtain es where es: "new_events (pause (180 + k * 70) v) w' es"
      "set (tries es) \<subseteq> {addr}" "length (tries es) \<le> n" "slept es \<le> (\<Sum>i = Suc k..<Suc k + n. 180 + i * 70)"
      "\<forall>l. r = Ok l \<longrightarrow> l = addr \<and> es \<noteq> []" by blast
    from new_events_trans [OF new_events_trans [OF ev new_events_pause] es(1)]
    have "new_events w w' ([TryBind addr] @ [Sleep (180 + k * 70)] @ es)" by simp
    with es(2-5) show ?thesis unfolding sum by (intro exI [of _ "[TryBind addr] @ [Sleep (180 + k * 70)] @ es"]) auto
  next
    case False
    with Suc.prems b have "w' = v \<and> (\<forall>l. r = Ok l \<longrightarrow> l = addr)"
      by (auto split: sum.splits)
    with ev show ?thesis by (intro exI [of _ "[TryBind addr]"]) auto
  qed
qed

lemma bind_with_retry_log:
  assumes "bind_with_retry ns addr w = (r, w')"
  shows "\<exists>es. new_events w w' es \<and> set (tries es) \<subseteq> {addr} \<and> length (tries es) \<le> 10 \<and> slept es \<le> 4950 \<and>
    (\<forall>l. r = Ok l \<longrightarrow> l = addr)"
proof -
  have "(\<Sum>i = 0..<10. 180 + i * 70) = (4950 :: nat)" by (simp add: atLeast0LessThan lessThan_Suc eval_nat_numeral)
  with bind_attempts_log [of ns addr None 0 10 w r w'] assms show ?thesis
    unfolding bind_with_retry_def by auto
qed

lemma parse_addr_Ok: "parse_addr ns host port = Ok a \<longleftrightarrow> a = host_port host port \<and> nb_addr_err ns a = None"
  by (auto simp: parse_addr_def split: option.splits)

lemma bind_on_lan_log:
  assumes "bind_on_lan ns host port e w = (r, w')"
  shows "\<exists>es lan. new_events w w' es \<and> set (tries es) \<subseteq> {host_port lan port} \<and>
    length (tries es) \<le> 10 \<and> slept es \<le> 4950 \<and>
    (\<forall>l. r = Ok l \<longrightarrow> pl_port l = port \<and> pl_bind_host l = lan \<and> pl_listener l = host_port lan port)"
proof -
  obtain c w1 where d: "detect_primary_lan_ipv4 ns w = (c, w1)" by (cases "detect_primary_lan_ipv4 ns w")
  have same: "nw_events w1 = nw_events w" using d by (auto simp: detect_primary_lan_ipv4_def split: prod.splits)
  show ?thesis
  proof (cases "\<exists>lan. c = Some lan \<and> \<not> eq_ignore_ascii_case lan ''127.0.0.1'' \<and>
        parse_addr ns lan port = Ok (host_port lan port)")
    case True
    then obtain lan where lan: "c = Some lan" "\<not> eq_ignore_ascii_case lan ''127.0.0.1''"
      "parse_addr ns lan port = Ok (host_port lan port)" by blast
    obtain q w2 where b: "bind_with_retry ns (host_port lan port) w1 = (q, w2)"
      by (cases "bind_with_retry ns (host_port lan port) w1")
    with assms d lan have w': "w' = w2" and r: "\<forall>l. r = Ok l \<longrightarrow> pl_port l = port \<and> pl_bind_host l = lan \<and> q = Ok (pl_listener l)"
      by (auto simp: bind_on_lan_def split: sum.splits)
    from bind_with_retry_log [OF b] same w' r show ?thesis
      by (auto simp: new_events_def intro!: exI [of _ lan])
  next
    case False
    with assms d have "w' = w1 \<and> (\<forall>l. r \<noteq> Ok l)"
      by (auto simp: bind_on_lan_def parse_addr_Ok split: option.splits if_splits sum.splits)
    with same show ?thesis by (intro exI [of _ "[]"]) (auto simp: new_events_def)
  qed
qed

text \<open>What the proofs of the services use: the port of a listener is the requested one.\<close>

lemma bind_port_result:
  "bind_fixed_service_listener ns host port w = (Ok l, w') \<Longrightarrow> pl_port l = port"
  by (auto simp: bind_fixed_service_listener_def bind_on_lan_def Let_def split: sum.splits prod.splits if_splits option.splits)

subsection \<open>Properties\<close>

text \<open>Binding never changes the port: every attempt goes to an address with the requested port, and a listener that is returned is bound to its reported host and that port. At most twenty attempts are made and less than ten seconds are slept in all.\<close>

theorem bind_keeps_port:
  assumes "bind_fixed_service_listener ns host port w = (r, w')"
  shows "\<exists>es. nw_events w' = nw_events w @ es \<and> set (tries es) \<subseteq> range (\<lambda>h. host_port h port) \<and>
    length (tries es) \<le> 20 \<and> slept es \<le> 9900 \<and>
    (\<forall>l. r = Ok l \<longrightarrow> pl_port l = port \<and> pl_listener l = host_port (pl_bind_host l) port)"
proof (cases "parse_addr ns (normalize_bind_host host) port")
  case (Inl e)
  with assms show ?thesis by (auto simp: bind_fixed_service_listener_def)
next
  case (Inr addr)
  then have addr: "addr = host_port (normalize_bind_host host) port" by (simp add: parse_addr_Ok)
  obtain q w1 where b: "bind_with_retry ns addr w = (q, w1)" by (cases "bind_with_retry ns addr w")
  from bind_with_retry_log [OF b] obtain es where es: "new_events w w1 es" "set (tries es) \<subseteq> {addr}"
    "length (tries es) \<le> 10" "slept es \<le> 4950" "\<forall>l. q = Ok l \<longrightarrow> l = addr" by blast
  show ?thesis
  proof (cases "\<exists>e. q = Err e \<and> ie_kind e = AddrInUse \<and> is_wildcard_host (normalize_bind_host host)")
    case True
    then obtain e where "bind_on_lan ns (normalize_bind_host host) port e w1 = (r, w')"
      using assms Inr b by (auto simp: bind_fixed_service_listener_def Let_def)
    from bind_on_lan_log [OF this] obtain fs lan where fs: "new_events w1 w' fs"
      "set (tries fs) \<subseteq> {host_port lan port}" "length (tries fs) \<le> 10" "slept fs \<le> 4950"
      "\<forall>l. r = Ok l \<longrightarrow> pl_port l = port \<and> pl_bind_host l = lan \<and> pl_listener l = host_port lan port" by blast
    from new_events_trans [OF es(1) fs(1)] es fs addr show ?thesis
      by (intro exI [of _ "es @ fs"]) (auto simp: new_events_def)
  next
    case False
    with assms Inr b have "w' = w1 \<and> (\<forall>l. r = Ok l \<longrightarrow> pl_port l = port \<and> pl_bind_host l = normalize_bind_host host \<and>
        q = Ok (pl_listener l))"
      by (auto simp: bind_fixed_service_listener_def Let_def split: sum.splits if_splits)
    with es addr show ?thesis by (intro exI [of _ es]) (auto simp: new_events_def)
  qed
qed

definition busy_wildcard :: "nat net_sys" where
  "busy_wildcard =
     \<lparr>nb_addr_err = (\<lambda>_. None),
      nb_bind = (\<lambda>a n. (if a = ''0.0.0.0:80'' then Err \<lparr>ie_kind = AddrInUse, ie_text = ''in use''\<rparr> else Ok (), Suc n)),
      nb_udp_local = (\<lambda>n. (Some (V4 10 0 0 2), n))\<rparr>"

theorem bind_keeps_port_witness:
  "\<exists>es. nw_events (snd (bind_fixed_service_listener busy_wildcard ''0.0.0.0'' 80 \<lparr>nw_state = 0, nw_events = []\<rparr>)) = es \<and>
     length (tries es) \<le> 20 \<and> slept es \<le> 9900"
proof -
  obtain r w' where b: "bind_fixed_service_listener busy_wildcard ''0.0.0.0'' 80 \<lparr>nw_state = 0, nw_events = []\<rparr> = (r, w')"
    by (meson surj_pair)
  from bind_keeps_port [OF b] show ?thesis by (auto simp: b)
qed

text \<open>A socket that is in use for a number of attempts and then free.\<close>

definition frees_after :: "'s net_sys \<Rightarrow> string \<Rightarrow> ('s \<Rightarrow> nat) \<Rightarrow> bool" where
  "frees_after ns addr busy \<longleftrightarrow>
     (\<forall>s. case nb_bind ns addr s of
            (Inl e, s') \<Rightarrow> ie_kind e = AddrInUse \<and> busy s = Suc (busy s')
          | (Inr _, s') \<Rightarrow> busy s = 0)"

lemma bind_attempts_frees:
  assumes "frees_after ns addr busy" and "busy (nw_state w) < n"
  shows "fst (bind_attempts ns addr prev k n w) = Ok addr"
  using assms(2)
proof (induction n arbitrary: prev k w)
  case (Suc n)
  obtain r s' where b: "nb_bind ns addr (nw_state w) = (r, s')" by (cases "nb_bind ns addr (nw_state w)")
  show ?case
  proof (cases r)
    case (Inl e)
    with assms(1) b have "ie_kind e = AddrInUse" and "busy (nw_state w) = Suc (busy s')"
      by (auto simp: frees_after_def dest: spec [of _ "nw_state w"])
    with Suc b Inl show ?thesis by (simp add: tcp_bind_def pause_def)
  next
    case (Inr u)
    with b show ?thesis by (simp add: tcp_bind_def)
  qed
qed simp

lemma bind_attempts_busy:
  assumes "frees_after ns addr busy" and "n \<le> busy (nw_state w)" and "0 < n \<or> (\<exists>e. prev = Some e \<and> ie_kind e = AddrInUse)"
  shows "\<exists>e w'. bind_attempts ns addr prev k n w = (Err e, w') \<and> ie_kind e = AddrInUse"
  using assms(2,3)
proof (induction n arbitrary: prev k w)
  case (Suc n)
  obtain r s' where b: "nb_bind ns addr (nw_state w) = (r, s')" by (cases "nb_bind ns addr (nw_state w)")
  with assms(1) Suc.prems obtain e where e: "r = Err e" "ie_kind e = AddrInUse" "busy (nw_state w) = Suc (busy s')"
    by (cases r) (auto simp: frees_after_def dest: spec [of _ "nw_state w"])
  with b Suc.prems Suc.IH [of _ "Some e" "Suc k"] show ?case by (simp add: tcp_bind_def pause_def)
qed auto

text \<open>The retry loop binds exactly when the address becomes free within its ten attempts: if it is in use for fewer than ten attempts the listener is returned, otherwise the error says that the address is in use.\<close>

theorem retry_until_free:
  assumes "frees_after ns addr busy"
  shows "(busy (nw_state w) < 10 \<longleftrightarrow> fst (bind_with_retry ns addr w) = Ok addr) \<and>
    (10 \<le> busy (nw_state w) \<longrightarrow> (\<exists>e. fst (bind_with_retry ns addr w) = Err e \<and> ie_kind e = AddrInUse))"
proof (cases "busy (nw_state w) < 10")
  case True
  with bind_attempts_frees [OF assms] show ?thesis by (simp add: bind_with_retry_def)
next
  case False
  with bind_attempts_busy [OF assms, of 10 w None 0] show ?thesis by (auto simp: bind_with_retry_def)
qed

definition countdown :: "nat net_sys" where
  "countdown =
     \<lparr>nb_addr_err = (\<lambda>_. None),
      nb_bind = (\<lambda>a n. case n of Suc m \<Rightarrow> (Err \<lparr>ie_kind = AddrInUse, ie_text = ''in use''\<rparr>, m) | 0 \<Rightarrow> (Ok (), 0)),
      nb_udp_local = (\<lambda>n. (None, n))\<rparr>"

theorem retry_until_free_witness:
  "fst (bind_with_retry countdown ''a'' \<lparr>nw_state = 9, nw_events = []\<rparr>) = Ok ''a'' \<and>
   fst (bind_with_retry countdown ''a'' \<lparr>nw_state = 10, nw_events = []\<rparr>) \<noteq> Ok ''a''"
proof -
  have f: "frees_after countdown ''a'' id" by (simp add: frees_after_def countdown_def split: nat.split)
  from retry_until_free [OF f, of "\<lparr>nw_state = 9, nw_events = []\<rparr>"]
    retry_until_free [OF f, of "\<lparr>nw_state = 10, nw_events = []\<rparr>"]
  show ?thesis by simp
qed

end
