(* ===== verification/Service_Runtime.thy ===== *)
theory Service_Runtime
  imports Service_Config Net_Bind
begin

text \<open>
  The life cycle of the two background services, \<^verbatim>\<open>native_webhook/server.rs\<close> and
  \<^verbatim>\<open>native_websocket/server.rs\<close>. The two files have the same structure; \<open>svc_kind\<close> holds
  what differs (names, environment keys, the form of the URL). The state is the runtime
  slot, the server threads that are alive and the socket layer. A graceful shutdown is taken
  to end its thread, which is what joining it waits for. A start holds the start lock for its
  whole body; a stop takes the handle out of the slot under the lock of the slot and joins the
  threads after that. The sequences here run one operation after the other. Threads do not end
  by themselves, and whether a thread can be spawned is fixed along a sequence.
\<close>

record svc_kind =
  sk_name :: string
  sk_word :: string
  sk_env :: string
  sk_path_key :: string
  sk_default_port :: "16 word"
  sk_default_path :: string
  sk_url :: "string \<Rightarrow> 16 word \<Rightarrow> string \<Rightarrow> string"

definition webhook_kind :: svc_kind where
  "webhook_kind =
     \<lparr>sk_name = ''Webhook'', sk_word = ''webhook'', sk_env = ''WEBHOOK'', sk_path_key = ''BASE_PATH'',
      sk_default_port = 61003, sk_default_path = ''/webhooks'',
      sk_url = (\<lambda>host port path. ''http://'' @ host @ '':'' @ show_word port)\<rparr>"

definition websocket_kind :: svc_kind where
  "websocket_kind =
     \<lparr>sk_name = ''WebSocket'', sk_word = ''websocket'', sk_env = ''WEBSOCKET'', sk_path_key = ''PATH'',
      sk_default_port = 61004, sk_default_path = ''/ws'',
      sk_url = (\<lambda>host port path. ''ws://'' @ host @ '':'' @ show_word port @ path)\<rparr>"

record svc_config =
  sc_enabled :: bool
  sc_host :: string
  sc_port :: "16 word"
  sc_path :: string

definition webhook_svc :: "webhook_config \<Rightarrow> svc_config" where
  "webhook_svc c = \<lparr>sc_enabled = wh_enabled c, sc_host = wh_host c, sc_port = wh_port c, sc_path = wh_base_path c\<rparr>"

definition websocket_svc :: "websocket_config \<Rightarrow> svc_config" where
  "websocket_svc c = \<lparr>sc_enabled = ws_enabled c, sc_host = ws_host c, sc_port = ws_port c, sc_path = ws_path c\<rparr>"

record svc_handle =
  hd_bind_host :: string
  hd_public_host :: string
  hd_port :: "16 word"
  hd_path :: string
  hd_started_at :: string
  hd_thread :: "nat option"
  hd_loopback :: "nat option"

record svc_status =
  ss_running :: bool
  ss_host :: string
  ss_port :: "16 word"
  ss_url :: "string option"
  ss_path :: string
  ss_count :: nat
  ss_started_at :: "string option"

record 's svc_sys =
  sv_net :: "'s net_sys"
  sv_get :: "string \<Rightarrow> 's \<Rightarrow> string option"
  sv_spawn_err :: "string \<Rightarrow> string option"
  sv_env :: env
  sv_now :: string
  sv_count :: nat

record 's svc_world =
  vw_slot :: "svc_handle option"
  vw_threads :: "(nat \<times> string) list"
  vw_next :: nat
  vw_net :: "'s net_world"

definition status_from_handle :: "svc_kind \<Rightarrow> 's svc_sys \<Rightarrow> svc_handle \<Rightarrow> svc_status" where
  "status_from_handle k sy h =
     \<lparr>ss_running = True, ss_host = hd_public_host h, ss_port = hd_port h,
      ss_url = Some (sk_url k (hd_public_host h) (hd_port h) (hd_path h)), ss_path = hd_path h,
      ss_count = sv_count sy, ss_started_at = Some (hd_started_at h)\<rparr>"

definition env_name :: "svc_kind \<Rightarrow> string \<Rightarrow> string" where
  "env_name k key = ''TUNNARA_CONSOLE_'' @ sk_env k @ ''_'' @ key"

definition idle_status :: "svc_kind \<Rightarrow> 's svc_sys \<Rightarrow> svc_status" where
  "idle_status k sy =
     \<lparr>ss_running = False,
      ss_host = unwrap_or ''0.0.0.0'' (sv_env sy (env_name k ''HOST'')),
      ss_port = unwrap_or (sk_default_port k) (Option.bind (sv_env sy (env_name k ''PORT'')) parse_u16),
      ss_url = None, ss_path = unwrap_or (sk_default_path k) (sv_env sy (env_name k (sk_path_key k))),
      ss_count = sv_count sy, ss_started_at = None\<rparr>"

definition svc_status_of :: "svc_kind \<Rightarrow> 's svc_sys \<Rightarrow> 's svc_world \<Rightarrow> svc_status" where
  "svc_status_of k sy w =
     (case vw_slot w of Some h \<Rightarrow> status_from_handle k sy h | None \<Rightarrow> idle_status k sy)"

definition join_thread :: "nat option \<Rightarrow> (nat \<times> string) list \<Rightarrow> (nat \<times> string) list" where
  "join_thread t ts = (case t of None \<Rightarrow> ts | Some n \<Rightarrow> hm_remove n ts)"

definition stop_background :: "svc_kind \<Rightarrow> 's svc_sys \<Rightarrow> 's svc_world \<Rightarrow> svc_status \<times> 's svc_world" where
  "stop_background k sy w =
     (let w' = (case vw_slot w of
                  None \<Rightarrow> w
                | Some h \<Rightarrow>
                    w\<lparr>vw_slot := None,
                      vw_threads := join_thread (hd_thread h) (join_thread (hd_loopback h) (vw_threads w))\<rparr>)
      in (idle_status k sy, w'))"

definition spawn_server_thread ::
  "svc_kind \<Rightarrow> 's svc_sys \<Rightarrow> string \<Rightarrow> string \<Rightarrow> 's svc_world \<Rightarrow> (nat, string) result \<times> 's svc_world" where
  "spawn_server_thread k sy name listener w =
     (case sv_spawn_err sy name of
        Some err \<Rightarrow> (Err err, w)
      | None \<Rightarrow>
          (Ok (vw_next w),
           w\<lparr>vw_threads := hm_insert (vw_next w) listener (vw_threads w), vw_next := Suc (vw_next w)\<rparr>))"

definition is_loopback_host :: "string \<Rightarrow> bool" where
  "is_loopback_host host \<longleftrightarrow> trim host \<in> {''127.0.0.1'', ''localhost'', ''::1'', ''[::1]''}"

definition should_bind_loopback_mirror :: "string \<Rightarrow> string \<Rightarrow> bool" where
  "should_bind_loopback_mirror configured_host effective_host \<longleftrightarrow>
     \<not> is_wildcard_host effective_host \<and> \<not> is_loopback_host effective_host \<and> \<not> is_loopback_host configured_host"

definition service_thread_name :: "svc_kind \<Rightarrow> string" where
  "service_thread_name k = ''tunnara-console-'' @ sk_word k @ ''-service''"

definition prepare_loopback_mirror ::
  "svc_kind \<Rightarrow> 's svc_sys \<Rightarrow> string \<Rightarrow> string \<Rightarrow> 16 word \<Rightarrow> 's svc_world \<Rightarrow> nat option \<times> 's svc_world" where
  "prepare_loopback_mirror k sy configured_host effective_host port w =
     (if \<not> should_bind_loopback_mirror configured_host effective_host then (None, w)
      else case bind_fixed_service_listener (sv_net sy) ''127.0.0.1'' port (vw_net w) of
             (Inl _, n) \<Rightarrow> (None, w\<lparr>vw_net := n\<rparr>)
           | (Inr bound, n) \<Rightarrow>
               (case spawn_server_thread k sy (service_thread_name k @ ''-loopback'') (pl_listener bound) (w\<lparr>vw_net := n\<rparr>) of
                  (Inl _, w') \<Rightarrow> (None, w')
                | (Inr t, w') \<Rightarrow> (Some t, w')))"

definition bind_listener_with_safe_fallback ::
  "svc_kind \<Rightarrow> 's svc_sys \<Rightarrow> svc_config \<Rightarrow> 's svc_world \<Rightarrow> (prepared_listener, string) result \<times> 's svc_world" where
  "bind_listener_with_safe_fallback k sy c w =
     (let requested = host_port (sc_host c) (sc_port c) in
      case nb_addr_err (sv_net sy) requested of
        Some err \<Rightarrow> (Err ((''Endere'' @ u_ccedil @ ''o do '') @ sk_name k @ ('' Service inv'' @ u_aacute @ ''lido: '') @ err), w)
      | None \<Rightarrow>
          (case bind_fixed_service_listener (sv_net sy) (sc_host c) (sc_port c) (vw_net w) of
             (r, n) \<Rightarrow>
               (map_err (\<lambda>err. ''Porta fixa do '' @ sk_name k @ '' Service '' @ requested @ ('' indispon'' @ u_iacute @ ''vel: '') @ ie_text err @
                    ''. Ajuste '' @ env_name k ''PORT'' @ (''/par'' @ u_acirc @ ''metros ou encerre o processo que est'' @ u_aacute @ '' usando esta porta.'')) r,
                w\<lparr>vw_net := n\<rparr>)))"

definition existing_service_responds :: "svc_kind \<Rightarrow> 's svc_sys \<Rightarrow> string \<Rightarrow> 16 word \<Rightarrow> 's svc_world \<Rightarrow> bool" where
  "existing_service_responds k sy host port w =
     (case sv_get sy (''http://'' @ host_port host port @ ''/health'') (nw_state (vw_net w)) of
        None \<Rightarrow> False
      | Some body \<Rightarrow>
          contains body ([CHR 0x22] @ ''service'' @ [CHR 0x22] @ '':'' @ [CHR 0x22] @ sk_word k @ [CHR 0x22]) \<or>
          contains body (sk_word k))"

text \<open>A handle for a service of another process that already answers on the address.\<close>

definition adopt_existing :: "svc_kind \<Rightarrow> 's svc_sys \<Rightarrow> svc_config \<Rightarrow> 's svc_world \<Rightarrow> (svc_status, string) result \<times> 's svc_world" where
  "adopt_existing k sy c w =
     (let h = \<lparr>hd_bind_host = sc_host c, hd_public_host = service_public_host (sc_host c), hd_port = sc_port c,
               hd_path = sc_path c, hd_started_at = sv_now sy, hd_thread = None, hd_loopback = None\<rparr>
      in (Ok (status_from_handle k sy h), w\<lparr>vw_slot := Some h\<rparr>))"

definition launch_service ::
  "svc_kind \<Rightarrow> 's svc_sys \<Rightarrow> svc_config \<Rightarrow> prepared_listener \<Rightarrow> 's svc_world \<Rightarrow> (svc_status, string) result \<times> 's svc_world" where
  "launch_service k sy c bound w =
     (case spawn_server_thread k sy (service_thread_name k) (pl_listener bound) w of
        (Inl err, w1) \<Rightarrow> (Err err, w1)
      | (Inr t, w1) \<Rightarrow>
          (case prepare_loopback_mirror k sy (sc_host c) (pl_bind_host bound) (pl_port bound) w1 of
             (lb, w2) \<Rightarrow>
               (let h = \<lparr>hd_bind_host = pl_bind_host bound, hd_public_host = pl_public_host bound, hd_port = pl_port bound,
                         hd_path = sc_path c, hd_started_at = sv_now sy, hd_thread = Some t, hd_loopback = lb\<rparr>
                in (Ok (status_from_handle k sy h), w2\<lparr>vw_slot := Some h\<rparr>))))"

definition handle_matches :: "svc_config \<Rightarrow> svc_handle \<Rightarrow> bool" where
  "handle_matches c h \<longleftrightarrow> hd_bind_host h = sc_host c \<and> hd_port h = sc_port c \<and> hd_path h = sc_path c"

definition pause_world :: "nat \<Rightarrow> 's svc_world \<Rightarrow> 's svc_world" where
  "pause_world ms w = w\<lparr>vw_net := pause ms (vw_net w)\<rparr>"

definition start_background_with_config ::
  "svc_kind \<Rightarrow> 's svc_sys \<Rightarrow> svc_config \<Rightarrow> 's svc_world \<Rightarrow> (svc_status, string) result \<times> 's svc_world" where
  "start_background_with_config k sy c w =
     (if \<not> sc_enabled c
      then (Ok \<lparr>ss_running = False, ss_host = service_public_host (sc_host c), ss_port = sc_port c, ss_url = None,
               ss_path = sc_path c, ss_count = sv_count sy, ss_started_at = None\<rparr>, w)
      else case service_validate_bind (nb_addr_err (sv_net sy)) (sk_name k) (sc_host c) (sc_port c) of
             Inl err \<Rightarrow> (Err err, w)
           | Inr _ \<Rightarrow>
               (if \<exists>h \<in> set_option (vw_slot w). handle_matches c h
                then (Ok (svc_status_of k sy w), w)
                else (let w1 = pause_world 250 (snd (stop_background k sy w));
                          public_host = service_public_host (sc_host c)
                      in if \<not> is_wildcard_host (sc_host c) \<and> existing_service_responds k sy public_host (sc_port c) w1
                         then adopt_existing k sy c w1
                         else case bind_listener_with_safe_fallback k sy c w1 of
                                (Inl err, w2) \<Rightarrow>
                                  (if existing_service_responds k sy public_host (sc_port c) w2
                                   then adopt_existing k sy c w2 else (Err err, w2))
                              | (Inr bound, w2) \<Rightarrow> launch_service k sy c bound w2)))"

definition start_webhook_service ::
  "'s svc_sys \<Rightarrow> webhook_config \<Rightarrow> 's svc_world \<Rightarrow> (svc_status, string) result \<times> 's svc_world" where
  "start_webhook_service sy c w = start_background_with_config webhook_kind sy (webhook_svc c) w"

definition start_websocket_service ::
  "'s svc_sys \<Rightarrow> websocket_config \<Rightarrow> 's svc_world \<Rightarrow> (svc_status, string) result \<times> 's svc_world" where
  "start_websocket_service sy c w = start_background_with_config websocket_kind sy (websocket_svc c) w"

text \<open>The webhook service answers a stop with the status that it then has.\<close>

definition stop_webhook_service :: "'s svc_sys \<Rightarrow> 's svc_world \<Rightarrow> svc_status \<times> 's svc_world" where
  "stop_webhook_service sy w =
     (case stop_background webhook_kind sy w of (_, w') \<Rightarrow> (svc_status_of webhook_kind sy w', w'))"

subsection \<open>The invariant of the slot\<close>

definition handle_threads :: "svc_handle \<Rightarrow> nat set" where
  "handle_threads h = set_option (hd_thread h) \<union> set_option (hd_loopback h)"

definition slot_threads :: "'s svc_world \<Rightarrow> nat set" where
  "slot_threads w = (case vw_slot w of None \<Rightarrow> {} | Some h \<Rightarrow> handle_threads h)"

definition live_threads :: "'s svc_world \<Rightarrow> nat set" where
  "live_threads w = fst ` set (vw_threads w)"

text \<open>The threads alive are those of the handle in the slot, and new numbers are fresh.\<close>

definition svc_inv :: "'s svc_world \<Rightarrow> bool" where
  "svc_inv w \<longleftrightarrow> live_threads w = slot_threads w \<and> (\<forall>t \<in> live_threads w. t < vw_next w)"

lemma hm_remove_keys: "fst ` set (hm_remove k m) = fst ` set m - {k}"
  by (auto simp: hm_remove_def)

lemma hm_insert_keys: "fst ` set (hm_insert k v m) = insert k (fst ` set m)"
  by (auto simp: hm_insert_def hm_remove_def)

lemma join_thread_keys: "fst ` set (join_thread t ts) = fst ` set ts - set_option t"
  by (cases t) (auto simp: join_thread_def hm_remove_keys)

lemma stop_background_clean:
  assumes "svc_inv w"
  shows "svc_inv (snd (stop_background k sy w)) \<and> vw_slot (snd (stop_background k sy w)) = None \<and>
    live_threads (snd (stop_background k sy w)) = {} \<and> vw_net (snd (stop_background k sy w)) = vw_net w"
proof (cases "vw_slot w")
  case None
  with assms show ?thesis by (simp add: stop_background_def svc_inv_def slot_threads_def)
next
  case (Some h)
  with assms have "fst ` set (vw_threads w) = set_option (hd_thread h) \<union> set_option (hd_loopback h)"
    by (simp add: svc_inv_def live_threads_def slot_threads_def handle_threads_def)
  with Some show ?thesis
    by (auto simp: stop_background_def svc_inv_def live_threads_def slot_threads_def join_thread_keys Let_def)
qed

text \<open>The start-up works on a world without threads and fills the slot with what it spawned.\<close>

definition quiet :: "'s svc_world \<Rightarrow> bool" where
  "quiet w \<longleftrightarrow> vw_slot w = None \<and> vw_threads w = []"

lemma quiet_inv: "quiet w \<Longrightarrow> svc_inv w"
  by (simp add: quiet_def svc_inv_def live_threads_def slot_threads_def)

lemma spawn_server_thread_result:
  "spawn_server_thread k sy name l w = (r, w') \<Longrightarrow>
   (\<exists>e. r = Err e \<and> w' = w) \<or>
   (r = Ok (vw_next w) \<and> w' = w\<lparr>vw_threads := hm_insert (vw_next w) l (vw_threads w), vw_next := Suc (vw_next w)\<rparr>)"
  by (auto simp: spawn_server_thread_def split: option.splits)

lemma prepare_loopback_result:
  assumes "prepare_loopback_mirror k sy ch eh port w = (lb, w')"
  shows "vw_slot w' = vw_slot w \<and> live_threads w' = live_threads w \<union> set_option lb \<and>
    vw_next w \<le> vw_next w' \<and> (\<forall>t \<in> set_option lb. t < vw_next w')"
proof (cases "should_bind_loopback_mirror ch eh")
  case False
  with assms show ?thesis by (auto simp: prepare_loopback_mirror_def)
next
  case True
  obtain r n where b: "bind_fixed_service_listener (sv_net sy) ''127.0.0.1'' port (vw_net w) = (r, n)"
    by (meson surj_pair)
  show ?thesis
  proof (cases r)
    case (Inl e)
    with assms True b show ?thesis by (auto simp: prepare_loopback_mirror_def live_threads_def)
  next
    case (Inr bound)
    obtain q v where s: "spawn_server_thread k sy (service_thread_name k @ ''-loopback'') (pl_listener bound) (w\<lparr>vw_net := n\<rparr>) = (q, v)"
      by (meson surj_pair)
    from spawn_server_thread_result [OF s] show ?thesis
    proof (elim disjE exE conjE)
      fix e assume "q = Err e" and "v = w\<lparr>vw_net := n\<rparr>"
      with assms True b Inr s have lb: "lb = None" and w': "w' = w\<lparr>vw_net := n\<rparr>"
        by (simp_all add: prepare_loopback_mirror_def)
      show ?thesis unfolding lb w' live_threads_def by simp
    next
      assume "q = Ok (vw_next (w\<lparr>vw_net := n\<rparr>))"
        and "v = w\<lparr>vw_net := n, vw_threads := hm_insert (vw_next (w\<lparr>vw_net := n\<rparr>)) (pl_listener bound) (vw_threads (w\<lparr>vw_net := n\<rparr>)),
          vw_next := Suc (vw_next (w\<lparr>vw_net := n\<rparr>))\<rparr>"
      with assms True b Inr s have lb: "lb = Some (vw_next w)"
        and w': "w' = w\<lparr>vw_net := n, vw_threads := hm_insert (vw_next w) (pl_listener bound) (vw_threads w),
          vw_next := Suc (vw_next w)\<rparr>"
        by (simp_all add: prepare_loopback_mirror_def)
      show ?thesis unfolding lb w' live_threads_def by (simp add: hm_insert_keys)
    qed
  qed
qed

lemma launch_service_inv:
  assumes "quiet w" and "launch_service k sy c bound w = (r, w')"
  shows "svc_inv w' \<and> (\<forall>s. r = Ok s \<longrightarrow> ss_running s \<and> ss_port s = pl_port bound \<and>
    (\<exists>h. vw_slot w' = Some h \<and> hd_thread h \<noteq> None \<and> s = status_from_handle k sy h))"
proof -
  obtain q w1 where s: "spawn_server_thread k sy (service_thread_name k) (pl_listener bound) w = (q, w1)"
    by (meson surj_pair)
  from spawn_server_thread_result [OF s] show ?thesis
  proof (elim disjE exE conjE)
    fix e assume "q = Err e" and "w1 = w"
    with assms s quiet_inv show ?thesis by (auto simp: launch_service_def)
  next
    assume q: "q = Ok (vw_next w)"
      and w1: "w1 = w\<lparr>vw_threads := hm_insert (vw_next w) (pl_listener bound) (vw_threads w), vw_next := Suc (vw_next w)\<rparr>"
    obtain lb w2 where p: "prepare_loopback_mirror k sy (sc_host c) (pl_bind_host bound) (pl_port bound) w1 = (lb, w2)"
      by (meson surj_pair)
    note pr = prepare_loopback_result [OF p]
    have "live_threads w1 = {vw_next w}" using w1 assms(1) by (simp add: live_threads_def hm_insert_keys quiet_def)
    with pr have live: "live_threads w2 = insert (vw_next w) (set_option lb)" by simp
    define h where "h = \<lparr>hd_bind_host = pl_bind_host bound, hd_public_host = pl_public_host bound, hd_port = pl_port bound,
       hd_path = sc_path c, hd_started_at = sv_now sy, hd_thread = Some (vw_next w), hd_loopback = lb\<rparr>"
    have r: "r = Ok (status_from_handle k sy h)" and w': "w' = w2\<lparr>vw_slot := Some h\<rparr>"
      using assms(2) s q p by (simp_all add: launch_service_def h_def Let_def)
    have "live_threads w' = live_threads w2" and "vw_next w' = vw_next w2" and "slot_threads w' = insert (vw_next w) (set_option lb)"
      unfolding w' by (simp_all add: live_threads_def slot_threads_def handle_threads_def h_def)
    moreover have "vw_next w < vw_next w2" using pr w1 by simp
    ultimately have "svc_inv w'" using live pr by (simp add: svc_inv_def)
    then show ?thesis unfolding r w' by (simp add: status_from_handle_def h_def)
  qed
qed

lemma bind_fallback_frame:
  "bind_listener_with_safe_fallback k sy c w = (r, w') \<Longrightarrow>
     vw_slot w' = vw_slot w \<and> vw_threads w' = vw_threads w"
  by (auto simp: bind_listener_with_safe_fallback_def Let_def split: option.splits prod.splits)

lemma stopped_quiet:
  assumes "svc_inv w"
  shows "quiet (pause_world ms (snd (stop_background k sy w)))"
proof -
  from stop_background_clean [OF assms, of k sy] have "vw_slot (snd (stop_background k sy w)) = None"
    and "fst ` set (vw_threads (snd (stop_background k sy w))) = {}"
    by (auto simp: live_threads_def)
  then show ?thesis by (simp add: quiet_def pause_world_def)
qed

lemma adopt_existing_inv:
  assumes "quiet w"
  shows "svc_inv (snd (adopt_existing k sy c w)) \<and> live_threads (snd (adopt_existing k sy c w)) = {} \<and>
    (\<exists>s. fst (adopt_existing k sy c w) = Ok s \<and> ss_running s)"
  using assms by (simp add: adopt_existing_def Let_def svc_inv_def live_threads_def slot_threads_def
      handle_threads_def quiet_def status_from_handle_def)

subsection \<open>Properties\<close>

lemma start_inv:
  assumes "svc_inv w" and "start_background_with_config k sy c w = (r, w')"
  shows "svc_inv w'"
proof (cases "sc_enabled c \<and> service_validate_bind (nb_addr_err (sv_net sy)) (sk_name k) (sc_host c) (sc_port c) = Ok () \<and>
    \<not> (\<exists>h \<in> set_option (vw_slot w). handle_matches c h)")
  case False
  with assms show ?thesis
    by (auto simp: start_background_with_config_def split: if_splits sum.splits)
next
  case True
  define w1 where "w1 = pause_world 250 (snd (stop_background k sy w))"
  have q1: "quiet w1" unfolding w1_def using assms(1) by (rule stopped_quiet)
  obtain q w2 where b: "bind_listener_with_safe_fallback k sy c w1 = (q, w2)" by (meson surj_pair)
  have q2: "quiet w2" using bind_fallback_frame [OF b] q1 by (simp add: quiet_def)
  have "(r, w') \<in> {adopt_existing k sy c w1, adopt_existing k sy c w2} \<or> w' = w2 \<or>
      (\<exists>bound. launch_service k sy c bound w2 = (r, w'))"
    using assms(2) True b
    by (auto simp: start_background_with_config_def Let_def simp flip: w1_def split: if_splits sum.splits)
  then show ?thesis
    using adopt_existing_inv [OF q1] adopt_existing_inv [OF q2] quiet_inv [OF q2] launch_service_inv [OF q2]
    by (auto simp: prod_eq_iff)
qed

text \<open>A sequence of starts, with any configurations, and stops.\<close>

datatype svc_cmd = Start svc_config | Stop

fun run_service :: "svc_kind \<Rightarrow> 's svc_sys \<Rightarrow> svc_cmd list \<Rightarrow> 's svc_world \<Rightarrow> 's svc_world" where
  "run_service k sy [] w = w"
| "run_service k sy (Start c # cs) w = run_service k sy cs (snd (start_background_with_config k sy c w))"
| "run_service k sy (Stop # cs) w = run_service k sy cs (snd (stop_background k sy w))"

lemma run_service_inv: "svc_inv w \<Longrightarrow> svc_inv (run_service k sy cs w)"
proof (induction k sy cs w rule: run_service.induct)
  case (2 k sy c cs w)
  then show ?case using start_inv [of w k sy c] by (metis prod.collapse run_service.simps(2))
next
  case (3 k sy cs w)
  then show ?case using stop_background_clean [of w k sy] by simp
qed simp

text \<open>C6. No server thread is ever lost: after any sequence of starts and stops the threads alive are exactly the main thread and the loopback thread of the handle in the slot, and a stop leaves none.\<close>

theorem service_threads_accounted:
  assumes "vw_slot w = None" and "vw_threads w = []"
  shows "live_threads (run_service k sy cs w) = slot_threads (run_service k sy cs w) \<and>
    live_threads (run_service k sy (cs @ [Stop]) w) = {}"
proof -
  have inv: "svc_inv w" using assms by (simp add: quiet_inv quiet_def)
  have "run_service k sy (cs @ [Stop]) w = snd (stop_background k sy (run_service k sy cs w))"
    by (induction k sy cs w rule: run_service.induct) auto
  moreover have inv': "svc_inv (run_service k sy cs w)" using inv by (rule run_service_inv)
  moreover have "live_threads (snd (stop_background k sy (run_service k sy cs w))) = {}"
    using stop_background_clean [OF inv'] by blast
  ultimately show ?thesis by (auto simp: svc_inv_def)
qed

definition idle_world :: "nat svc_world" where
  "idle_world = \<lparr>vw_slot = None, vw_threads = [], vw_next = 0, vw_net = \<lparr>nw_state = 0, nw_events = []\<rparr>\<rparr>"

definition demo_svc_sys :: "nat svc_sys" where
  "demo_svc_sys = \<lparr>sv_net = busy_wildcard, sv_get = (\<lambda>_ _. None), sv_spawn_err = (\<lambda>_. None), sv_env = Map.empty,
     sv_now = ''now'', sv_count = 0\<rparr>"

definition demo_svc :: svc_config where
  "demo_svc = \<lparr>sc_enabled = True, sc_host = ''0.0.0.0'', sc_port = 80, sc_path = ''/ws''\<rparr>"

theorem service_threads_accounted_witness:
  "live_threads (run_service websocket_kind demo_svc_sys [Start demo_svc, Stop] idle_world) = {}"
  using service_threads_accounted [of idle_world websocket_kind demo_svc_sys "[Start demo_svc]"]
  by (simp add: idle_world_def)

lemma start_outcome_slot:
  assumes "svc_inv w" and "start_background_with_config k sy c w = (Ok s, w')" and "sc_enabled c"
  shows "ss_running s \<and> (\<exists>h. vw_slot w' = Some h \<and> hd_port h = sc_port c \<and> s = status_from_handle k sy h)"
proof (cases "sc_enabled c \<and> \<not> (\<exists>h \<in> set_option (vw_slot w). handle_matches c h)")
  case False
  with assms(2,3) show ?thesis
    by (auto simp: start_background_with_config_def handle_matches_def svc_status_of_def status_from_handle_def
        split: if_splits sum.splits option.splits)
next
  case True
  define w1 where "w1 = pause_world 250 (snd (stop_background k sy w))"
  have q1: "quiet w1" unfolding w1_def using assms(1) by (rule stopped_quiet)
  obtain q w2 where b: "bind_listener_with_safe_fallback k sy c w1 = (q, w2)" by (meson surj_pair)
  have q2: "quiet w2" using bind_fallback_frame [OF b] q1 by (simp add: quiet_def)
  have port: "pl_port bound = sc_port c" if "q = Ok bound" for bound
    using b that bind_port_result [of "sv_net sy" "sc_host c" "sc_port c" "vw_net w1"]
    by (auto simp: bind_listener_with_safe_fallback_def Let_def split: option.splits prod.splits elim!: map_err.elims)
  from assms(2) True b have "(Ok s, w') = adopt_existing k sy c w1 \<or> (Ok s, w') = adopt_existing k sy c w2 \<or>
      (\<exists>bound. q = Ok bound \<and> launch_service k sy c bound w2 = (Ok s, w'))"
    by (auto simp: start_background_with_config_def Let_def simp flip: w1_def split: if_splits sum.splits)
  then show ?thesis
    using True launch_service_inv [OF q2] port
    by (fastforce simp: adopt_existing_def Let_def status_from_handle_def)
qed

text \<open>A start that is enabled and succeeds leaves the service in the slot under the configured port, running; a start with a disabled configuration changes nothing at all, so a service that was running goes on although the answer says that it does not run.\<close>

theorem start_outcome:
  assumes "svc_inv w" and "start_background_with_config k sy c w = (Ok s, w')"
  shows "(sc_enabled c \<longrightarrow> ss_running s \<and> (\<exists>h. vw_slot w' = Some h \<and> hd_port h = sc_port c \<and> s = status_from_handle k sy h)) \<and>
    (\<not> sc_enabled c \<longrightarrow> \<not> ss_running s \<and> w' = w)"
proof (cases "sc_enabled c")
  case True
  with start_outcome_slot [OF assms] show ?thesis by simp
next
  case False
  with assms(2) show ?thesis by (auto simp: start_background_with_config_def)
qed

lemma demo_svc_address: "trim ''0.0.0.0'' = ''0.0.0.0''"
  by (rule trim_graph) (simp_all add: graph_char_def)

theorem start_outcome_witness:
  "\<exists>s w'. start_background_with_config websocket_kind demo_svc_sys (demo_svc\<lparr>sc_enabled := False\<rparr>) idle_world = (Ok s, w') \<and>
     \<not> ss_running s \<and> w' = idle_world"
proof -
  have inv: "svc_inv idle_world" by (simp add: quiet_inv quiet_def idle_world_def)
  obtain s w' where st: "start_background_with_config websocket_kind demo_svc_sys (demo_svc\<lparr>sc_enabled := False\<rparr>) idle_world = (Ok s, w')"
    by (simp add: start_background_with_config_def)
  from start_outcome [OF inv st] st show ?thesis by simp
qed

text \<open>Starting again with the configuration that is running changes nothing and returns the same status; but this holds only when the bound host is the configured text, so a service that was moved to the network interface because the wildcard address was taken is stopped and started anew by every further start.\<close>

theorem restart_idempotent:
  assumes "svc_inv w" and "sc_enabled c" and "start_background_with_config k sy c w = (Ok s, w')"
    and "vw_slot w' = Some h" and "hd_path h = sc_path c"
  shows "(hd_bind_host h = sc_host c \<longrightarrow> start_background_with_config k sy c w' = (Ok s, w')) \<and>
    (hd_bind_host h \<noteq> sc_host c \<longrightarrow> \<not> handle_matches c h)"
proof -
  from start_outcome_slot [OF assms(1,3,2)] assms(4) have port: "hd_port h = sc_port c" and s: "s = status_from_handle k sy h"
    by auto
  have "service_validate_bind (nb_addr_err (sv_net sy)) (sk_name k) (sc_host c) (sc_port c) = Ok ()"
    using assms(2,3) by (auto simp: start_background_with_config_def split: sum.splits)
  with assms(2,4,5) port s show ?thesis
    by (auto simp: start_background_with_config_def handle_matches_def svc_status_of_def)
qed

definition loopback_svc :: svc_config where
  "loopback_svc = demo_svc\<lparr>sc_host := ''127.0.0.1''\<rparr>"

lemma demo_started:
  "\<exists>s w' h. start_background_with_config websocket_kind demo_svc_sys loopback_svc idle_world = (Ok s, w') \<and>
     vw_slot w' = Some h \<and> hd_path h = sc_path loopback_svc \<and> hd_bind_host h = sc_host loopback_svc"
proof -
  have t: "trim ''127.0.0.1'' = ''127.0.0.1''" by (rule trim_graph) (simp_all add: graph_char_def)
  have h: "normalize_bind_host ''127.0.0.1'' = ''127.0.0.1''" "\<not> is_wildcard_host ''127.0.0.1''"
    by (simp_all add: normalize_bind_host_def is_wildcard_host_def t eq_ignore_ascii_case_def to_ascii_lowercase_def)
  have "\<exists>l n. bind_fixed_service_listener busy_wildcard ''127.0.0.1'' 80 w = (Ok l, n) \<and> pl_bind_host l = ''127.0.0.1''"
    for w :: "nat net_world"
    by (simp add: bind_fixed_service_listener_def h parse_addr_def busy_wildcard_def bind_with_retry_def
        eval_nat_numeral tcp_bind_def host_port_def Let_def)
  then obtain l n where b: "bind_fixed_service_listener busy_wildcard ''127.0.0.1'' 80
      (vw_net (pause_world 250 (snd (stop_background websocket_kind demo_svc_sys idle_world)))) = (Ok l, n)"
    and l: "pl_bind_host l = ''127.0.0.1''" by blast
  have "\<not> should_bind_loopback_mirror ''127.0.0.1'' ''127.0.0.1''"
    by (simp add: should_bind_loopback_mirror_def is_loopback_host_def t)
  moreover have "nb_addr_err busy_wildcard = (\<lambda>_. None)" by (simp add: busy_wildcard_def)
  ultimately show ?thesis
    using b l
    by (simp add: start_background_with_config_def loopback_svc_def demo_svc_def service_validate_bind_def t h
        existing_service_responds_def bind_listener_with_safe_fallback_def launch_service_def spawn_server_thread_def
        prepare_loopback_mirror_def demo_svc_sys_def Let_def idle_world_def)
qed

theorem restart_idempotent_witness:
  "\<exists>s w'. start_background_with_config websocket_kind demo_svc_sys loopback_svc idle_world = (Ok s, w') \<and>
     start_background_with_config websocket_kind demo_svc_sys loopback_svc w' = (Ok s, w')"
proof -
  have inv: "svc_inv idle_world" by (simp add: quiet_inv quiet_def idle_world_def)
  have en: "sc_enabled loopback_svc" by (simp add: loopback_svc_def demo_svc_def)
  obtain s w' h where st: "start_background_with_config websocket_kind demo_svc_sys loopback_svc idle_world = (Ok s, w')"
    and h: "vw_slot w' = Some h" and p: "hd_path h = sc_path loopback_svc" and b: "hd_bind_host h = sc_host loopback_svc"
    using demo_started by blast
  from restart_idempotent [OF inv en st h p] b st show ?thesis by blast
qed

end
