(* ===== verification/Cli.thy ===== *)
theory Cli
  imports Service_Runtime
begin

text \<open>
  The command line of the console, \<^verbatim>\<open>cli/args.rs\<close> and \<^verbatim>\<open>cli/runner.rs\<close>: the scan of the
  arguments and the decision which background services a headless start brings up. The two
  background services are those of \<open>Service_Runtime\<close> with the configuration of
  \<open>Service_Config\<close>; the start of the web front is a parameter.
\<close>

subsection \<open>Arguments (args.rs)\<close>

datatype runtime_mode = Desktop | HeadlessApi | WebProxy | CliMode | Worker

record cli_args =
  ca_mode :: runtime_mode
  ca_host :: string
  ca_port :: "16 word"
  ca_database_driver :: string
  ca_data_dir :: "string option"
  ca_start_web_proxy :: bool
  ca_start_webhook :: bool
  ca_start_websocket :: bool
  ca_start_services :: bool

definition cli_args_default :: "env \<Rightarrow> cli_args" where
  "cli_args_default e =
     \<lparr>ca_mode = Desktop,
      ca_host = unwrap_or ''127.0.0.1'' (e ''TUNNARA_CONSOLE_API_HOST''),
      ca_port = unwrap_or 61001 (Option.bind (e ''TUNNARA_CONSOLE_API_PORT'') parse_u16),
      ca_database_driver = ''sqlite'', ca_data_dir = None, ca_start_web_proxy = False,
      ca_start_webhook = False, ca_start_websocket = False, ca_start_services = False\<rparr>"

definition parse_mode :: "string \<Rightarrow> runtime_mode" where
  "parse_mode value =
     (let v = to_ascii_lowercase (trim value) in
      if v \<in> {''headless-api'', ''server'', ''api''} then HeadlessApi
      else if v \<in> {''web-proxy'', ''webport'', ''web'', ''proxy''} then WebProxy
      else if v = ''cli'' then CliMode
      else if v = ''worker'' then Worker
      else Desktop)"

definition set_host :: "string \<Rightarrow> cli_args \<Rightarrow> cli_args" where
  "set_host value p = (if trim value \<noteq> [] then p\<lparr>ca_host := trim value\<rparr> else p)"

definition set_port :: "string \<Rightarrow> cli_args \<Rightarrow> cli_args" where
  "set_port value p = (case parse_u16 value of Some port \<Rightarrow> p\<lparr>ca_port := port\<rparr> | None \<Rightarrow> p)"

definition set_data_dir :: "string \<Rightarrow> cli_args \<Rightarrow> cli_args" where
  "set_data_dir value p = (if trim value \<noteq> [] then p\<lparr>ca_data_dir := Some value\<rparr> else p)"

text \<open>The options that take a value, in the order in which the loop tests them.\<close>

definition value_options :: "(string \<times> (string \<Rightarrow> cli_args \<Rightarrow> cli_args)) list" where
  "value_options =
     [(''--mode'', \<lambda>value p. p\<lparr>ca_mode := parse_mode value\<rparr>),
      (''--host'', set_host),
      (''--port'', set_port),
      (''--database-driver'', \<lambda>value p. p\<lparr>ca_database_driver := to_ascii_lowercase value\<rparr>),
      (''--data-dir'', set_data_dir)]"

definition set_switch :: "string \<Rightarrow> cli_args \<Rightarrow> cli_args" where
  "set_switch arg p =
     (if arg \<in> {''--start-web-proxy'', ''--web-proxy-auto-start'', ''--start-webport'', ''--webport-auto-start''}
      then p\<lparr>ca_start_web_proxy := True\<rparr>
      else if arg \<in> {''--start-webhook'', ''--webhook-auto-start'', ''--webhook''}
      then p\<lparr>ca_start_webhook := True\<rparr>
      else if arg \<in> {''--start-websocket'', ''--websocket-auto-start'', ''--websocket''}
      then p\<lparr>ca_start_websocket := True\<rparr>
      else if arg \<in> {''--start-services'', ''--services-auto-start'', ''--auto-start-services''}
      then p\<lparr>ca_start_services := True\<rparr>
      else p)"

text \<open>
  One turn of the loop: the new settings, and whether the following argument was used up as
  the value.
\<close>

fun scan_options ::
  "(string \<times> (string \<Rightarrow> cli_args \<Rightarrow> cli_args)) list \<Rightarrow> string \<Rightarrow> string list \<Rightarrow> cli_args \<Rightarrow> cli_args \<times> bool" where
  "scan_options [] arg rest p = (set_switch arg p, False)"
| "scan_options ((key, upd) # opts) arg rest p =
     (case strip_prefix arg (key @ ''='') of
        Some value \<Rightarrow> (upd value p, False)
      | None \<Rightarrow>
          (if arg = key
           then case rest of [] \<Rightarrow> (p, False) | value # _ \<Rightarrow> (upd value p, True)
           else scan_options opts arg rest p))"

function parse_args :: "cli_args \<Rightarrow> string list \<Rightarrow> cli_args" where
  "parse_args p [] = p"
| "parse_args p (arg # rest) =
     (let (p', used) = scan_options value_options arg rest p
      in parse_args p' (if used then tl rest else rest))"
  by pat_completeness auto
termination
  by (relation "measure (\<lambda>(p, args). length args)") auto

definition cli_parse :: "env \<Rightarrow> string list \<Rightarrow> cli_args" where
  "cli_parse e args = parse_args (cli_args_default e) args"

subsection \<open>Start of the requested services (runner.rs)\<close>

definition should_run_without_tauri :: "cli_args \<Rightarrow> bool" where
  "should_run_without_tauri a \<longleftrightarrow> ca_mode a \<in> {HeadlessApi, WebProxy, CliMode, Worker}"

text \<open>The process: runtime settings, socket layer and the two background services.\<close>

record 's boot_world =
  bw_rt :: rt_world
  bw_net :: "'s net_world"
  bw_webhook :: "'s svc_world"
  bw_websocket :: "'s svc_world"

definition svc_sys_now :: "'s svc_sys \<Rightarrow> rt_world \<Rightarrow> 's svc_sys" where
  "svc_sys_now sv r = sv\<lparr>sv_env := rw_env r\<rparr>"

definition start_webhook_background ::
  "runtime_settings rt_sys \<Rightarrow> 's svc_sys \<Rightarrow> 's boot_world \<Rightarrow> (svc_status, string) result \<times> 's boot_world" where
  "start_webhook_background sy sv b =
     (case resolve_webhook_config sy (bw_rt b) of
        (Inl err, r) \<Rightarrow> (Err err, b\<lparr>bw_rt := r\<rparr>)
      | (Inr c, r) \<Rightarrow>
          (case start_webhook_service (svc_sys_now sv r) c ((bw_webhook b)\<lparr>vw_net := bw_net b\<rparr>) of
             (res, v) \<Rightarrow> (res, b\<lparr>bw_rt := r, bw_net := vw_net v, bw_webhook := v\<rparr>)))"

definition start_websocket_background ::
  "runtime_settings rt_sys \<Rightarrow> 's svc_sys \<Rightarrow> 's boot_world \<Rightarrow> (svc_status, string) result \<times> 's boot_world" where
  "start_websocket_background sy sv b =
     (case resolve_websocket_config sy (bw_rt b) of
        (Inl err, r) \<Rightarrow> (Err err, b\<lparr>bw_rt := r\<rparr>)
      | (Inr c, r) \<Rightarrow>
          (case start_websocket_service (svc_sys_now sv r) c ((bw_websocket b)\<lparr>vw_net := bw_net b\<rparr>) of
             (res, v) \<Rightarrow> (res, b\<lparr>bw_rt := r, bw_net := vw_net v, bw_websocket := v\<rparr>)))"

definition web_requested :: "cli_args \<Rightarrow> runtime_settings \<Rightarrow> env \<Rightarrow> bool" where
  "web_requested a s e \<longleftrightarrow>
     rs_local_web_enabled s \<and> \<not> env_bool e ''TUNNARA_CONSOLE_WEB_DISABLED'' False \<and> \<not> env_bool e ''APP_WEB_DISABLED'' False \<and>
     (ca_start_web_proxy a \<or> ca_start_services a \<or> rs_local_web_auto_start s)"

definition webhook_requested :: "cli_args \<Rightarrow> runtime_settings \<Rightarrow> env \<Rightarrow> bool" where
  "webhook_requested a s e \<longleftrightarrow>
     rs_webhook_enabled s \<and> \<not> env_bool e ''TUNNARA_CONSOLE_WEBHOOK_DISABLED'' False \<and> \<not> env_bool e ''APP_WEBHOOK_DISABLED'' False \<and>
     (ca_start_webhook a \<or> ca_start_services a \<or> rs_services_auto_start s \<or> rs_webhook_auto_start s \<or>
      env_bool e ''TUNNARA_CONSOLE_WEBHOOK_AUTO_START'' False \<or> env_bool e ''TUNNARA_CONSOLE_SERVICES_AUTO_START'' False)"

definition websocket_requested :: "cli_args \<Rightarrow> runtime_settings \<Rightarrow> env \<Rightarrow> bool" where
  "websocket_requested a s e \<longleftrightarrow>
     rs_websocket_enabled s \<and> \<not> env_bool e ''TUNNARA_CONSOLE_WEBSOCKET_DISABLED'' False \<and> \<not> env_bool e ''APP_WEBSOCKET_DISABLED'' False \<and>
     (ca_start_websocket a \<or> ca_start_services a \<or> rs_services_auto_start s \<or> rs_websocket_auto_start s \<or>
      env_bool e ''TUNNARA_CONSOLE_WEBSOCKET_AUTO_START'' False \<or> env_bool e ''TUNNARA_CONSOLE_SERVICES_AUTO_START'' False)"

definition start_if ::
  "bool \<Rightarrow> ('w \<Rightarrow> ('a, string) result \<times> 'w) \<Rightarrow> ('w \<Rightarrow> (unit, string) result \<times> 'w) \<Rightarrow> 'w \<Rightarrow> (unit, string) result \<times> 'w" where
  "start_if requested start next b =
     (if requested
      then case start b of (Inl err, b') \<Rightarrow> (Err err, b') | (Inr _, b') \<Rightarrow> next b'
      else next b)"

definition start_requested_background_services ::
  "runtime_settings rt_sys \<Rightarrow> 's svc_sys \<Rightarrow> ('s boot_world \<Rightarrow> ('a, string) result \<times> 's boot_world) \<Rightarrow> cli_args
   \<Rightarrow> 's boot_world \<Rightarrow> (unit, string) result \<times> 's boot_world" where
  "start_requested_background_services sy sv start_web a b =
     (let (loaded, r) = load_settings sy (bw_rt b);
          s = (case loaded of Inr p \<Rightarrow> py_settings p | Inl _ \<Rightarrow> runtime_settings_default (rw_env r));
          b0 = b\<lparr>bw_rt := r\<rparr>
      in start_if (web_requested a s (rw_env (bw_rt b0))) start_web (\<lambda>b1.
           start_if (webhook_requested a s (rw_env (bw_rt b1))) (start_webhook_background sy sv) (\<lambda>b2.
             start_if (websocket_requested a s (rw_env (bw_rt b2))) (start_websocket_background sy sv) (\<lambda>b3. (Ok (), b3)) b2) b1) b0)"

subsection \<open>The argument scan\<close>

text \<open>
  The arguments that ask for given settings. \<open>sep\<close> chooses for each option whether its value
  follows as an argument of its own or after an equals sign.
\<close>

definition option_words :: "(string \<Rightarrow> bool) \<Rightarrow> string \<Rightarrow> string \<Rightarrow> string list" where
  "option_words sep key value = (if sep key then [key, value] else [key @ ''='' @ value])"

fun mode_word :: "runtime_mode \<Rightarrow> string" where
  "mode_word Desktop = ''desktop''"
| "mode_word HeadlessApi = ''headless-api''"
| "mode_word WebProxy = ''web-proxy''"
| "mode_word CliMode = ''cli''"
| "mode_word Worker = ''worker''"

definition switch_words :: "bool \<Rightarrow> string \<Rightarrow> string list" where
  "switch_words b word = (if b then [word] else [])"

definition cli_words :: "(string \<Rightarrow> bool) \<Rightarrow> cli_args \<Rightarrow> string list" where
  "cli_words sep a =
     option_words sep ''--mode'' (mode_word (ca_mode a)) @
     option_words sep ''--host'' (ca_host a) @
     option_words sep ''--port'' (show_word (ca_port a)) @
     option_words sep ''--database-driver'' (ca_database_driver a) @
     (case ca_data_dir a of None \<Rightarrow> [] | Some d \<Rightarrow> option_words sep ''--data-dir'' d) @
     switch_words (ca_start_web_proxy a) ''--start-web-proxy'' @
     switch_words (ca_start_webhook a) ''--start-webhook'' @
     switch_words (ca_start_websocket a) ''--start-websocket'' @
     switch_words (ca_start_services a) ''--start-services''"

definition expressible :: "cli_args \<Rightarrow> bool" where
  "expressible a \<longleftrightarrow>
     trim (ca_host a) = ca_host a \<and> ca_host a \<noteq> [] \<and>
     to_ascii_lowercase (ca_database_driver a) = ca_database_driver a \<and>
     (\<forall>d \<in> set_option (ca_data_dir a). trim d \<noteq> [])"

lemma strip_prefix_Cons [simp]:
  "strip_prefix (c # s) (d # p) = (if c = d then strip_prefix s p else None)"
  "strip_prefix s [] = Some s"
  "strip_prefix [] (d # p) = None"
  by (auto simp: strip_prefix_def)

lemma parse_option:
  "parse_args p (option_words sep ''--mode'' v @ rest) = parse_args (p\<lparr>ca_mode := parse_mode v\<rparr>) rest"
  "parse_args p (option_words sep ''--host'' v @ rest) = parse_args (set_host v p) rest"
  "parse_args p (option_words sep ''--port'' v @ rest) = parse_args (set_port v p) rest"
  "parse_args p (option_words sep ''--database-driver'' v @ rest) =
     parse_args (p\<lparr>ca_database_driver := to_ascii_lowercase v\<rparr>) rest"
  "parse_args p (option_words sep ''--data-dir'' v @ rest) = parse_args (set_data_dir v p) rest"
  by (simp_all add: option_words_def value_options_def)

lemma parse_switch:
  "parse_args p (''--start-web-proxy'' # rest) = parse_args (p\<lparr>ca_start_web_proxy := True\<rparr>) rest"
  "parse_args p (''--start-webhook'' # rest) = parse_args (p\<lparr>ca_start_webhook := True\<rparr>) rest"
  "parse_args p (''--start-websocket'' # rest) = parse_args (p\<lparr>ca_start_websocket := True\<rparr>) rest"
  "parse_args p (''--start-services'' # rest) = parse_args (p\<lparr>ca_start_services := True\<rparr>) rest"
  by (simp_all add: value_options_def set_switch_def)

lemma parse_mode_word: "parse_mode (mode_word m) = m"
proof -
  have "trim (mode_word m) = mode_word m"
    by (cases m) (simp_all add: trim_graph graph_char_def)
  then show ?thesis
    by (cases m) (simp_all add: parse_mode_def to_ascii_lowercase_def ascii_lower_def)
qed

text \<open>The argument scan reads back every setting that the command line can express, whatever the environment says, with each value given after an equals sign or as an argument of its own.\<close>

theorem cli_roundtrip:
  assumes "expressible a"
  shows "cli_parse e (cli_words sep a) = a"
proof -
  have flags: "parse_args p (switch_words w ''--start-web-proxy'' @ switch_words x ''--start-webhook'' @
      switch_words y ''--start-websocket'' @ switch_words z ''--start-services'') =
    p\<lparr>ca_start_web_proxy := w \<or> ca_start_web_proxy p, ca_start_webhook := x \<or> ca_start_webhook p,
      ca_start_websocket := y \<or> ca_start_websocket p, ca_start_services := z \<or> ca_start_services p\<rparr>" for p w x y z
    by (simp add: switch_words_def parse_switch del: parse_args.simps(2))
  from assms show ?thesis
    by (cases "ca_data_dir a")
      (auto simp: cli_parse_def cli_words_def parse_option flags parse_mode_word set_host_def set_port_def set_data_dir_def
        parse_show_u16 expressible_def cli_args_default_def)
qed

theorem cli_roundtrip_witness:
  "cli_parse [''TUNNARA_CONSOLE_API_PORT'' \<mapsto> ''9''] (cli_words (\<lambda>k. k = ''--host'')
      \<lparr>ca_mode = HeadlessApi, ca_host = ''0.0.0.0'', ca_port = 80, ca_database_driver = ''sqlite'', ca_data_dir = Some ''/d'',
       ca_start_web_proxy = False, ca_start_webhook = True, ca_start_websocket = False, ca_start_services = False\<rparr>) =
    \<lparr>ca_mode = HeadlessApi, ca_host = ''0.0.0.0'', ca_port = 80, ca_database_driver = ''sqlite'', ca_data_dir = Some ''/d'',
     ca_start_web_proxy = False, ca_start_webhook = True, ca_start_websocket = False, ca_start_services = False\<rparr>"
  by (rule cli_roundtrip)
    (simp add: expressible_def trim_graph graph_char_def to_ascii_lowercase_def ascii_lower_def)

subsection \<open>The services of a headless start\<close>

lemma svc_inv_net [simp]: "svc_inv (v\<lparr>vw_net := n\<rparr>) = svc_inv v"
  by (simp add: svc_inv_def live_threads_def slot_threads_def)

lemma start_webhook_background_frame:
  assumes "start_webhook_background sy sv b = (r, b')"
  shows "bw_websocket b' = bw_websocket b \<and> (svc_inv (bw_webhook b) \<longrightarrow> svc_inv (bw_webhook b'))"
  using assms
  by (auto simp: start_webhook_background_def start_webhook_service_def split: prod.splits sum.splits
      intro: start_inv [rotated])

lemma start_websocket_background_frame:
  assumes "start_websocket_background sy sv b = (r, b')"
  shows "bw_webhook b' = bw_webhook b \<and> (svc_inv (bw_websocket b) \<longrightarrow> svc_inv (bw_websocket b'))"
  using assms
  by (auto simp: start_websocket_background_def start_websocket_service_def split: prod.splits sum.splits
      intro: start_inv [rotated])

text \<open>The settings a headless start works with.\<close>

definition start_settings :: "runtime_settings rt_sys \<Rightarrow> 's boot_world \<Rightarrow> runtime_settings" where
  "start_settings sy b =
     (case load_settings sy (bw_rt b) of
        (Inr p, r) \<Rightarrow> py_settings p
      | (Inl _, r) \<Rightarrow> runtime_settings_default (rw_env r))"

definition web_start_frame :: "('s boot_world \<Rightarrow> ('a, string) result \<times> 's boot_world) \<Rightarrow> bool" where
  "web_start_frame start_web \<longleftrightarrow>
     (\<forall>b. bw_webhook (snd (start_web b)) = bw_webhook b \<and> bw_websocket (snd (start_web b)) = bw_websocket b)"

lemma start_if_cases:
  assumes "start_if q start next b = (r, b')"
  obtains (skipped) "\<not> q" "next b = (r, b')"
    | (failed) r1 where "q" "start b = (r1, b')"
    | (started) r1 b1 where "q" "start b = (r1, b1)" "next b1 = (r, b')"
  using assms by (cases "start b") (auto simp: start_if_def split: if_splits sum.splits)

lemma websocket_stage:
  assumes "start_if (websocket_requested a s e) (start_websocket_background sy sv) (\<lambda>b3. (Ok (), b3)) b = (r, b')"
  shows "bw_webhook b' = bw_webhook b \<and> (svc_inv (bw_websocket b) \<longrightarrow> svc_inv (bw_websocket b')) \<and>
    (\<not> rs_websocket_enabled s \<longrightarrow> bw_websocket b' = bw_websocket b)"
  using assms
  by (cases rule: start_if_cases) (auto simp: websocket_requested_def dest: start_websocket_background_frame)

lemma webhook_stage:
  assumes "start_if (webhook_requested a s e) (start_webhook_background sy sv)
      (\<lambda>b2. start_if (websocket_requested a s (rw_env (bw_rt b2))) (start_websocket_background sy sv) (\<lambda>b3. (Ok (), b3)) b2) b = (r, b')"
    and "svc_inv (bw_webhook b)" and "svc_inv (bw_websocket b)"
  shows "svc_inv (bw_webhook b') \<and> svc_inv (bw_websocket b') \<and>
    (\<not> rs_webhook_enabled s \<longrightarrow> bw_webhook b' = bw_webhook b) \<and>
    (\<not> rs_websocket_enabled s \<longrightarrow> bw_websocket b' = bw_websocket b)"
  using assms(1)
proof (cases rule: start_if_cases)
  case skipped
  with websocket_stage [OF skipped(2)] assms(2,3) show ?thesis by simp
next
  case (failed r1)
  with start_webhook_background_frame [OF failed(2)] assms(2,3) show ?thesis by (simp add: webhook_requested_def)
next
  case (started r1 b1)
  with start_webhook_background_frame [OF started(2)] websocket_stage [OF started(3)] assms(2,3)
  show ?thesis by (simp add: webhook_requested_def)
qed

text \<open>A headless start never touches a background service that the settings disable, whatever flags and environment variables ask for it, and the services it starts keep their threads accounted for, also when a start fails.\<close>

theorem disabled_services_untouched:
  assumes "web_start_frame start_web" and "svc_inv (bw_webhook b)" and "svc_inv (bw_websocket b)"
    and "start_requested_background_services sy sv start_web a b = (r, b')"
  shows "svc_inv (bw_webhook b') \<and> svc_inv (bw_websocket b') \<and>
    (\<not> rs_webhook_enabled (start_settings sy b) \<longrightarrow> bw_webhook b' = bw_webhook b) \<and>
    (\<not> rs_websocket_enabled (start_settings sy b) \<longrightarrow> bw_websocket b' = bw_websocket b)"
proof -
  obtain loaded w where ld: "load_settings sy (bw_rt b) = (loaded, w)" by (cases "load_settings sy (bw_rt b)")
  then have s: "(case loaded of Inr p \<Rightarrow> py_settings p | Inl _ \<Rightarrow> runtime_settings_default (rw_env w)) = start_settings sy b"
    by (cases loaded) (simp_all add: start_settings_def)
  let ?b0 = "b\<lparr>bw_rt := w\<rparr>"
  have web: "bw_webhook b1 = bw_webhook b \<and> bw_websocket b1 = bw_websocket b" if "start_web ?b0 = (r1, b1)" for r1 b1
    using assms(1) that unfolding web_start_frame_def by (metis boot_world.select_convs boot_world.surjective boot_world.update_convs(1) snd_conv)
  from assms(4) show ?thesis
    unfolding start_requested_background_services_def ld Let_def case_prod_conv s
  proof (cases rule: start_if_cases)
    case skipped
    from webhook_stage [OF skipped(2)] assms(2,3) show ?thesis by simp
  next
    case (failed r1)
    with web assms(2,3) show ?thesis by simp
  next
    case (started r1 b1)
    with web [OF started(2)] webhook_stage [OF started(3)] assms(2,3) show ?thesis by simp
  qed
qed

definition idle_boot :: "nat boot_world" where
  "idle_boot = \<lparr>bw_rt = demo_rw, bw_net = vw_net idle_world, bw_webhook = idle_world, bw_websocket = idle_world\<rparr>"

theorem disabled_services_untouched_witness:
  "svc_inv (bw_webhook (snd (start_requested_background_services demo_sys demo_svc_sys (\<lambda>b. (Ok (), b)) (cli_args_default Map.empty) idle_boot)))"
proof -
  obtain r b' where st: "start_requested_background_services demo_sys demo_svc_sys (\<lambda>b. (Ok (), b))
      (cli_args_default Map.empty) idle_boot = (r, b')" by (meson surj_pair)
  have inv: "svc_inv (bw_webhook idle_boot)" "svc_inv (bw_websocket idle_boot)"
    by (simp_all add: idle_boot_def quiet_inv quiet_def idle_world_def)
  have "web_start_frame (\<lambda>b :: nat boot_world. (Ok () :: (unit, string) result, b))" by (simp add: web_start_frame_def)
  from disabled_services_untouched [OF this inv st] st show ?thesis by simp
qed


end
