(* ===== verification/Security.thy ===== *)
theory Security
  imports Prelude
begin

unbundle bit_operations_syntax

text \<open>
  The security primitives of \<^verbatim>\<open>security.rs\<close>: the reversible text cipher, the integrity
  hash, the generated secrets and the time-based one-time passwords. The hash functions, the
  Base64 and Base32 codecs, Argon2 and the random generator are third-party code and stand as
  the parameters \<open>crypto\<close> and \<open>rng\<close>; the XOR stream, the truncation of the HMAC, the time
  window and the checks on a code are the program's own.
\<close>

type_synonym byte = "8 word"

record crypto =
  cr_sha256 :: "byte list \<Rightarrow> byte list"
  cr_hmac_sha1 :: "byte list \<Rightarrow> byte list \<Rightarrow> (byte list, string) result"
  cr_b64_encode :: "byte list \<Rightarrow> string"
  cr_b64_decode :: "string \<Rightarrow> (byte list, string) result"
  cr_b32_encode :: "byte list \<Rightarrow> string"
  cr_b32_decode :: "string \<Rightarrow> (byte list, string) result"
  cr_argon_hash :: "string \<Rightarrow> string \<Rightarrow> (string, string) result"
  cr_argon_parse_err :: "string \<Rightarrow> string option"
  cr_argon_verify :: "string \<Rightarrow> string \<Rightarrow> bool"
  cr_utf8_err :: "byte list \<Rightarrow> string"

record 'g rng =
  rg_salt :: "'g \<Rightarrow> string \<times> 'g"
  rg_alnum :: "'g \<Rightarrow> char \<times> 'g"
  rg_bytes :: "nat \<Rightarrow> 'g \<Rightarrow> byte list \<times> 'g"

definition as_bytes :: "string \<Rightarrow> byte list" where
  "as_bytes s = map (\<lambda>c. word_of_nat (of_char c)) s"

definition text_of_bytes :: "byte list \<Rightarrow> string" where
  "text_of_bytes bs = map (\<lambda>b. char_of (unat b)) bs"

text \<open>Well-formed UTF-8, the test of \<^verbatim>\<open>String::from_utf8\<close>.\<close>

definition in_range :: "byte \<Rightarrow> byte \<Rightarrow> byte \<Rightarrow> bool" where
  "in_range lo hi b \<longleftrightarrow> lo \<le> b \<and> b \<le> hi"

abbreviation utf8_cont :: "byte \<Rightarrow> bool" where
  "utf8_cont \<equiv> in_range 0x80 0xBF"

fun utf8_valid :: "byte list \<Rightarrow> bool" where
  "utf8_valid [] = True"
| "utf8_valid (a # bs) =
     (if a < 0x80 then utf8_valid bs
      else case bs of
             [] \<Rightarrow> False
           | b # cs \<Rightarrow>
               (if in_range 0xC2 0xDF a then utf8_cont b \<and> utf8_valid cs
                else case cs of
                       [] \<Rightarrow> False
                     | c # ds \<Rightarrow>
                         (if in_range 0xE0 0xEF a
                          then in_range (if a = 0xE0 then 0xA0 else 0x80) (if a = 0xED then 0x9F else 0xBF) b \<and>
                               utf8_cont c \<and> utf8_valid ds
                          else case ds of
                                 [] \<Rightarrow> False
                               | d # es \<Rightarrow>
                                   in_range 0xF0 0xF4 a \<and>
                                   in_range (if a = 0xF0 then 0x90 else 0x80) (if a = 0xF4 then 0x8F else 0xBF) b \<and>
                                   utf8_cont c \<and> utf8_cont d \<and> utf8_valid es)))"

definition from_utf8 :: "crypto \<Rightarrow> byte list \<Rightarrow> (string, string) result" where
  "from_utf8 cr bs = (if utf8_valid bs then Ok (text_of_bytes bs) else Err (cr_utf8_err cr bs))"

definition hex_digit :: "nat \<Rightarrow> char" where
  "hex_digit n = ''0123456789abcdef'' ! (n mod 16)"

definition lower_hex :: "byte list \<Rightarrow> string" where
  "lower_hex bs = concat (map (\<lambda>b. [hex_digit (unat b div 16), hex_digit (unat b)]) bs)"

subsection \<open>Passwords and keys\<close>

definition hash_password :: "crypto \<Rightarrow> 'g rng \<Rightarrow> string \<Rightarrow> 'g \<Rightarrow> (string, string) result \<times> 'g" where
  "hash_password cr rg password g =
     (case rg_salt rg g of
        (salt, g') \<Rightarrow> (map_err (\<lambda>err. ''Falha ao gerar hash da senha: '' @ err) (cr_argon_hash cr password salt), g'))"

definition verify_password :: "crypto \<Rightarrow> string \<Rightarrow> string \<Rightarrow> (bool, string) result" where
  "verify_password cr password password_hash =
     (case cr_argon_parse_err cr password_hash of
        Some err \<Rightarrow> Err (''Falha ao interpretar hash armazenado: '' @ err)
      | None \<Rightarrow> Ok (cr_argon_verify cr password password_hash))"

definition machine_key :: "(string \<rightharpoonup> string) \<Rightarrow> string" where
  "machine_key e =
     unwrap_or ''unknown-host'' (or_else (e ''COMPUTERNAME'') (e ''HOSTNAME'')) @ '':'' @
     unwrap_or ''unknown-user'' (or_else (e ''USERNAME'') (e ''USER''))"

definition derive_secret :: "crypto \<Rightarrow> string \<Rightarrow> byte list" where
  "derive_secret cr seed = cr_sha256 cr (as_bytes ''TUNNARA-CONSOLE-LIC'' @ as_bytes seed)"

text \<open>The loop shared by both directions of the cipher; \<open>idx\<close> is the position of the first byte.\<close>

fun xor_stream :: "byte list \<Rightarrow> nat \<Rightarrow> byte list \<Rightarrow> byte list" where
  "xor_stream secret idx [] = []"
| "xor_stream secret idx (b # bs) = (b XOR secret ! (idx mod length secret)) # xor_stream secret (Suc idx) bs"

definition encrypt_text :: "crypto \<Rightarrow> string \<Rightarrow> string \<Rightarrow> string" where
  "encrypt_text cr seed plain = cr_b64_encode cr (xor_stream (derive_secret cr seed) 0 (as_bytes plain))"

definition decrypt_text :: "crypto \<Rightarrow> string \<Rightarrow> string \<Rightarrow> (string, string) result" where
  "decrypt_text cr seed cipher =
     (case cr_b64_decode cr cipher of
        Inl err \<Rightarrow> Err ((''Falha ao decodificar conte'' @ u_uacute @ ''do criptografado: '') @ err)
      | Inr bytes \<Rightarrow>
          map_err (\<lambda>err. ''Falha ao reconstruir texto criptografado: '' @ err)
            (from_utf8 cr (xor_stream (derive_secret cr seed) 0 bytes)))"

definition integrity_hash :: "crypto \<Rightarrow> string \<Rightarrow> string \<Rightarrow> string" where
  "integrity_hash cr seed payload = lower_hex (cr_sha256 cr (as_bytes seed @ as_bytes payload))"

subsection \<open>Generated secrets\<close>

fun sample_text :: "'g rng \<Rightarrow> nat \<Rightarrow> 'g \<Rightarrow> string \<times> 'g" where
  "sample_text rg 0 g = ([], g)"
| "sample_text rg (Suc n) g =
     (let (c, g1) = rg_alnum rg g; (s, g2) = sample_text rg n g1 in (c # s, g2))"

definition generate_support_secret :: "'g rng \<Rightarrow> 'g \<Rightarrow> string \<times> 'g" where
  "generate_support_secret rg g = sample_text rg 32 g"

fun sample_codes :: "'g rng \<Rightarrow> nat \<Rightarrow> 'g \<Rightarrow> string list \<times> 'g" where
  "sample_codes rg 0 g = ([], g)"
| "sample_codes rg (Suc n) g =
     (let (c, g1) = sample_text rg 10 g; (cs, g2) = sample_codes rg n g1 in (c # cs, g2))"

definition generate_recovery_codes :: "'g rng \<Rightarrow> 'g \<Rightarrow> string list \<times> 'g" where
  "generate_recovery_codes rg g = sample_codes rg 8 g"

definition generate_totp_secret :: "crypto \<Rightarrow> 'g rng \<Rightarrow> 'g \<Rightarrow> string \<times> 'g" where
  "generate_totp_secret cr rg g = (case rg_bytes rg 20 g of (bs, g') \<Rightarrow> (cr_b32_encode cr bs, g'))"

definition build_otpauth_url :: "string \<Rightarrow> string \<Rightarrow> string \<Rightarrow> string" where
  "build_otpauth_url secret account_label issuer =
     ''otpauth://totp/'' @ replace (replace account_label '' '' ''%20'') ''@'' ''%40'' @ ''?secret='' @ secret @
     ''&issuer='' @ replace issuer '' '' ''%20'' @ ''&algorithm=SHA1&digits=6&period=30''"

subsection \<open>One-time passwords\<close>

definition be_bytes :: "64 word \<Rightarrow> byte list" where
  "be_bytes w = map (\<lambda>i. ucast (drop_bit (8 * i) w)) [7, 6, 5, 4, 3, 2, 1, 0]"

definition truncate_digest :: "byte list \<Rightarrow> 32 word" where
  "truncate_digest r =
     (let offset = unat (r ! 19 AND 0x0F)
      in push_bit 24 (ucast (r ! offset) AND 0x7F) OR push_bit 16 (ucast (r ! (offset + 1))) OR
         push_bit 8 (ucast (r ! (offset + 2))) OR ucast (r ! (offset + 3)))"

definition hotp :: "crypto \<Rightarrow> byte list \<Rightarrow> 64 word \<Rightarrow> (32 word, string) result" where
  "hotp cr secret counter =
     (case cr_hmac_sha1 cr secret (be_bytes counter) of
        Inl err \<Rightarrow> Err (''Falha ao inicializar HMAC do TOTP: '' @ err)
      | Inr result \<Rightarrow> Ok (truncate_digest result mod 1000000))"

fun try_counters :: "crypto \<Rightarrow> byte list \<Rightarrow> 32 word \<Rightarrow> int \<Rightarrow> int list \<Rightarrow> (bool, string) result" where
  "try_counters cr secret expected unix [] = Ok False"
| "try_counters cr secret expected unix (delta # deltas) =
     (case hotp cr secret (word_of_int (unix + delta)) of
        Inl err \<Rightarrow> Err err
      | Inr v \<Rightarrow> if v = expected then Ok True else try_counters cr secret expected unix deltas)"

text \<open>\<open>now\<close> is the time stamp of \<^verbatim>\<open>chrono::Utc::now()\<close> in seconds.\<close>

definition verify_totp_code :: "crypto \<Rightarrow> int \<Rightarrow> string \<Rightarrow> string \<Rightarrow> (bool, string) result" where
  "verify_totp_code cr now secret_base32 code =
     (let normalized = replace (trim code) '' '' [] in
      if length normalized \<noteq> 6 \<or> \<not> list_all is_ascii_digit normalized then Ok False
      else case parse_u32 normalized of
             None \<Rightarrow> Err ((''Falha ao interpretar c'' @ u_oacute @ ''digo TOTP: '') @ ''invalid digit found in string'')
           | Some expected \<Rightarrow>
               (case cr_b32_decode cr (trim secret_base32) of
                  Inl err \<Rightarrow> Err (''Falha ao decodificar secret TOTP: '' @ err)
                | Inr secret \<Rightarrow> try_counters cr secret expected (now div 30) [-1, 0, 1]))"

subsection \<open>The text cipher\<close>

text \<open>What the program relies on of the third-party codecs and hashes.\<close>

definition crypto_laws :: "crypto \<Rightarrow> bool" where
  "crypto_laws cr \<longleftrightarrow>
     (\<forall>bs. cr_b64_decode cr (cr_b64_encode cr bs) = Ok bs) \<and>
     (\<forall>bs. length (cr_sha256 cr bs) = 32) \<and>
     (\<forall>k m. \<exists>d. cr_hmac_sha1 cr k m = Ok d \<and> length d = 20)"

lemma xor_stream_involution: "xor_stream secret i (xor_stream secret i bs) = bs"
  by (induction bs arbitrary: i) (simp_all add: xor.assoc)

lemma text_of_as_bytes: "text_of_bytes (as_bytes s) = s"
  by (induction s) (simp_all add: text_of_bytes_def as_bytes_def unat_of_nat)

lemma decrypt_encrypt:
  assumes "cr_b64_decode cr (cr_b64_encode cr (xor_stream (derive_secret cr seed) 0 (as_bytes plain))) =
      Ok (xor_stream (derive_secret cr seed) 0 (as_bytes plain))"
    and "utf8_valid (as_bytes plain)"
  shows "decrypt_text cr seed (encrypt_text cr seed plain) = Ok plain"
  by (simp add: decrypt_text_def encrypt_text_def assms xor_stream_involution from_utf8_def text_of_as_bytes)

text \<open>A text encrypted with a seed decrypts to itself with the same seed, for every text that is well-formed UTF-8, as Rust strings are.\<close>

theorem encrypted_text_recovers:
  assumes "crypto_laws cr" and "utf8_valid (as_bytes plain)"
  shows "decrypt_text cr seed (encrypt_text cr seed plain) = Ok plain"
  using assms by (intro decrypt_encrypt) (simp_all add: crypto_laws_def)

definition demo_crypto :: crypto where
  "demo_crypto =
     \<lparr>cr_sha256 = (\<lambda>bs. replicate 31 (of_nat (length bs)) @ [sum_list bs]),
      cr_hmac_sha1 = (\<lambda>k m. Ok (take 19 (k @ m @ replicate 19 0) @ [last m])),
      cr_b64_encode = text_of_bytes,
      cr_b64_decode = (\<lambda>s. Ok (as_bytes s)),
      cr_b32_encode = text_of_bytes,
      cr_b32_decode = (\<lambda>s. Ok (as_bytes s)),
      cr_argon_hash = (\<lambda>p s. Ok (s @ p)),
      cr_argon_parse_err = (\<lambda>_. None),
      cr_argon_verify = (\<lambda>p h. drop (length h - length p) h = p),
      cr_utf8_err = (\<lambda>_. ''invalid utf-8 sequence'')\<rparr>"

lemma byte_unat_less: "unat (b :: byte) < 256"
  using unsigned_less [of b] by simp

lemma as_bytes_text_of: "as_bytes (text_of_bytes bs) = bs"
  by (induction bs) (simp_all add: text_of_bytes_def as_bytes_def of_char_of byte_unat_less)

lemma demo_crypto_laws: "crypto_laws demo_crypto"
  by (auto simp: crypto_laws_def demo_crypto_def as_bytes_text_of min_def)

theorem encrypted_text_recovers_witness:
  "decrypt_text demo_crypto ''host:user'' (encrypt_text demo_crypto ''host:user'' (''licen'' @ u_ccedil @ ''a'')) = Ok (''licen'' @ u_ccedil @ ''a'')"
  by (rule encrypted_text_recovers [OF demo_crypto_laws]) (simp add: as_bytes_def in_range_def)

subsection \<open>The window of the one-time passwords\<close>

text \<open>
  The code an authenticator shows for a time step: the six decimal digits, with leading
  zeros, of the truncated HMAC of the step's number.
\<close>

fun pad_digits :: "nat \<Rightarrow> nat \<Rightarrow> string" where
  "pad_digits 0 n = []"
| "pad_digits (Suc k) n = pad_digits k (n div 10) @ [digit_char (n mod 10)]"

definition totp_code :: "crypto \<Rightarrow> byte list \<Rightarrow> int \<Rightarrow> string" where
  "totp_code cr secret step =
     (case cr_hmac_sha1 cr secret (be_bytes (word_of_int step)) of
        Inl _ \<Rightarrow> []
      | Inr d \<Rightarrow> pad_digits 6 (unat (truncate_digest d) mod 1000000))"

lemma pad_digits_read:
  "length (pad_digits k n) = k \<and> list_all is_ascii_digit (pad_digits k n) \<and> read_digits (pad_digits k n) = n mod 10 ^ k"
proof (induction k arbitrary: n)
  case (Suc k)
  then show ?case by (simp add: read_digits_snoc digit_char_digit mod_mult2_eq)
qed (simp add: read_digits_def)

lemma digit_val_less: "is_ascii_digit c \<Longrightarrow> digit_val c < 10"
  by (auto simp: is_ascii_digit_def digit_val_def)

lemma digit_val_inj:
  assumes "is_ascii_digit c" "is_ascii_digit d" "digit_val c = digit_val d"
  shows "c = d"
proof -
  from assms have "(of_char c :: nat) = of_char d"
    unfolding is_ascii_digit_def digit_val_def by linarith
  then show ?thesis by (simp only: of_char_eq_iff)
qed

lemma read_digits_bound: "list_all is_ascii_digit s \<Longrightarrow> read_digits s < 10 ^ length s"
proof (induction s rule: rev_induct)
  case (snoc c s)
  then have "read_digits s + 1 \<le> 10 ^ length s" and "digit_val c < 10" by (simp_all add: digit_val_less)
  then have "10 * (read_digits s + 1) \<le> 10 * 10 ^ length s" by (intro mult_le_mono2)
  with \<open>digit_val c < 10\<close> show ?case by (simp add: read_digits_snoc)
qed (simp add: read_digits_def)

lemma read_digits_inj:
  assumes "list_all is_ascii_digit s" "list_all is_ascii_digit t" "length s = length t" "read_digits s = read_digits t"
  shows "s = t"
  using assms
proof (induction s arbitrary: t rule: rev_induct)
  case (snoc c s)
  then obtain d r where t: "t = r @ [d]" by (cases t rule: rev_cases) auto
  with snoc.prems have eq: "10 * read_digits s + digit_val c = 10 * read_digits r + digit_val d"
    and lt: "digit_val c < 10" "digit_val d < 10" and ds: "is_ascii_digit c" "is_ascii_digit d"
    by (simp_all add: read_digits_snoc digit_val_less)
  from eq lt have "read_digits s = read_digits r" and "digit_val c = digit_val d" by presburger+
  with snoc t ds show ?case by (auto intro: digit_val_inj)
qed simp

lemma parse_six_digits:
  assumes "length s = 6" "list_all is_ascii_digit s"
  shows "parse_u32 s = Some (of_nat (read_digits s))"
  using assms read_digits_bound [OF assms(2)]
  by (cases s) (auto simp: parse_u32_def parse_unsigned_def dest: digit_not_plus)

text \<open>The four bytes that the truncation reads lie inside the 20 bytes of the digest.\<close>

lemma truncate_offset: "unat ((b :: byte) AND 0x0F) + 3 < 20"
proof -
  have "b AND 0x0F = b AND mask 4" by (simp add: mask_eq_exp_minus_1)
  then have "unat (b AND 0x0F) = take_bit 4 (unat b)" by (simp add: unsigned_take_bit_eq flip: take_bit_eq_mask)
  then show ?thesis by (simp add: take_bit_eq_mod)
qed

lemma hotp_value:
  assumes "crypto_laws cr"
  shows "\<exists>d. cr_hmac_sha1 cr k (be_bytes c) = Ok d \<and> length d = 20 \<and>
    hotp cr k c = Ok (of_nat (unat (truncate_digest d) mod 1000000))"
proof -
  from assms obtain d where d: "cr_hmac_sha1 cr k (be_bytes c) = Ok d" "length d = 20"
    unfolding crypto_laws_def by blast
  have "unat (truncate_digest d mod 1000000) = unat (truncate_digest d) mod 1000000" by (simp add: unat_mod)
  then have "truncate_digest d mod 1000000 = of_nat (unat (truncate_digest d) mod 1000000)"
    by (metis of_nat_unat ucast_id)
  with d show ?thesis by (simp add: hotp_def)
qed

lemma hotp_matches:
  assumes "crypto_laws cr" "length s = 6" "list_all is_ascii_digit s"
  shows "hotp cr k (word_of_int n) = Ok (of_nat (read_digits s)) \<longleftrightarrow> s = totp_code cr k n"
proof -
  from hotp_value [OF assms(1), of k "word_of_int n"] obtain d where
    d: "cr_hmac_sha1 cr k (be_bytes (word_of_int n)) = Ok d"
    and h: "hotp cr k (word_of_int n) = Ok (of_nat (unat (truncate_digest d) mod 1000000))" by blast
  let ?v = "unat (truncate_digest d) mod 1000000"
  have "read_digits s < 1000000" using read_digits_bound [OF assms(3)] assms(2) by simp
  then have "hotp cr k (word_of_int n) = Ok (of_nat (read_digits s)) \<longleftrightarrow> read_digits s = ?v"
    by (auto simp: h word_of_nat_eq_iff take_bit_nat_eq_self)
  also have "\<dots> \<longleftrightarrow> s = totp_code cr k n"
    using assms(2,3) pad_digits_read [of 6 ?v] by (auto simp: totp_code_def d intro: read_digits_inj)
  finally show ?thesis .
qed

lemma try_counters_any:
  assumes "crypto_laws cr"
  shows "try_counters cr k v u ds = Ok (\<exists>delta \<in> set ds. hotp cr k (word_of_int (u + delta)) = Ok v)"
proof (induction ds)
  case (Cons delta ds)
  obtain x where "hotp cr k (word_of_int (u + delta)) = Ok x" using hotp_value [OF assms] by blast
  with Cons show ?case by auto
qed simp

text \<open>C40. A code is accepted exactly when, without its blanks, it is the code of the previous, the current or the next step of 30 seconds, leading zeros included; every other code is answered with \<open>false\<close>, never with an error.\<close>

theorem totp_window:
  assumes "crypto_laws cr" and "cr_b32_decode cr (trim secret_base32) = Ok secret"
  shows "verify_totp_code cr now secret_base32 code =
    Ok (\<exists>delta \<in> {-1, 0, 1}. replace (trim code) '' '' [] = totp_code cr secret (now div 30 + delta))"
proof -
  let ?s = "replace (trim code) '' '' []"
  have len: "length (totp_code cr secret n) = 6 \<and> list_all is_ascii_digit (totp_code cr secret n)" for n
    using hotp_value [OF assms(1), of secret "word_of_int n"] pad_digits_read [of 6]
    by (auto simp: totp_code_def)
  show ?thesis
  proof (cases "length ?s = 6 \<and> list_all is_ascii_digit ?s")
    case True
    then have "verify_totp_code cr now secret_base32 code =
        try_counters cr secret (of_nat (read_digits ?s)) (now div 30) [-1, 0, 1]"
      by (simp add: verify_totp_code_def Let_def parse_six_digits assms(2) del: try_counters.simps)
    also have "\<dots> = Ok (\<exists>delta \<in> set [-1, 0, 1]. hotp cr secret (word_of_int (now div 30 + delta)) = Ok (of_nat (read_digits ?s)))"
      by (rule try_counters_any [OF assms(1)])
    also have "\<dots> = Ok (\<exists>delta \<in> {-1, 0, 1}. ?s = totp_code cr secret (now div 30 + delta))"
      using hotp_matches [OF assms(1), of ?s secret] True by (simp del: of_int_add of_int_diff)
    finally show ?thesis .
  next
    case False
    then have "?s \<noteq> totp_code cr secret n" for n using len [of n] by auto
    with False show ?thesis by (auto simp: verify_totp_code_def Let_def)
  qed
qed

theorem totp_window_witness:
  "verify_totp_code demo_crypto 1000 '' ABC '' '' 123 456 '' =
     Ok (\<exists>delta \<in> {-1, 0, 1}. replace (trim '' 123 456 '') '' '' [] = totp_code demo_crypto (as_bytes (trim '' ABC '')) (1000 div 30 + delta))"
  by (rule totp_window [OF demo_crypto_laws]) (simp add: demo_crypto_def)

end
