(* ===== verification/Console_Db.thy ===== *)
theory Console_Db
  imports Security App_Log Console_Env "HOL-Library.List_Lexorder" "HOL-Library.Char_ord"
begin

text \<open>
  The local database of the console as its commands see it: the tables of
  \<^verbatim>\<open>migrations.rs\<close> as lists of rows in the order of their keys, statements that may fail,
  and commands that pass the database on even when they fail, since the program uses no
  transactions. SQLite enforces the \<^verbatim>\<open>UNIQUE\<close> and \<^verbatim>\<open>FOREIGN KEY\<close> clauses of the schema, and
  so do the statements here. Key columns of link tables that no statement reads are left out.
\<close>

named_theorems keeps_intros \<open>composition of commands that keep an invariant\<close>

subsection \<open>Commands\<close>

type_synonym ('a, 'w) cmd = "'w \<Rightarrow> ('a, string) result \<times> 'w"

definition ret :: "'a \<Rightarrow> ('a, 'w) cmd" where
  "ret x w = (Ok x, w)"

definition fail :: "string \<Rightarrow> ('a, 'w) cmd" where
  "fail err w = (Err err, w)"

definition lift :: "('a, string) result \<Rightarrow> ('a, 'w) cmd" where
  "lift r w = (r, w)"

text \<open>The operator \<^verbatim>\<open>?\<close> between two parts of a command.\<close>

definition bindc :: "('a, 'w) cmd \<Rightarrow> ('a \<Rightarrow> ('b, 'w) cmd) \<Rightarrow> ('b, 'w) cmd" where
  "bindc m f w = (case m w of (Inl err, w') \<Rightarrow> (Err err, w') | (Inr x, w') \<Rightarrow> f x w')"

definition ensure :: "bool \<Rightarrow> string \<Rightarrow> (unit, 'w) cmd" where
  "ensure b err = (if b then ret () else fail err)"

fun each :: "('a \<Rightarrow> (unit, 'w) cmd) \<Rightarrow> 'a list \<Rightarrow> (unit, 'w) cmd" where
  "each f [] = ret ()"
| "each f (x # xs) = bindc (f x) (\<lambda>_. each f xs)"

subsection \<open>Tables\<close>

record empresa =
  em_id :: int
  em_nome :: string
  em_nome_fantasia :: "string option"
  em_documento :: "string option"
  em_inscricao_estadual :: "string option"
  em_inscricao_municipal :: "string option"
  em_telefone :: "string option"
  em_email :: "string option"
  em_responsavel_nome :: "string option"
  em_responsavel_telefone :: "string option"
  em_cep :: "string option"
  em_endereco :: "string option"
  em_numero :: "string option"
  em_complemento :: "string option"
  em_bairro :: "string option"
  em_cidade :: "string option"
  em_estado :: "string option"
  em_observacoes :: "string option"
  em_ativo :: int
  em_created_at :: string
  em_updated_at :: string

record usuario =
  us_id :: int
  us_nome :: string
  us_login :: string
  us_email :: "string option"
  us_telefone :: "string option"
  us_cargo :: "string option"
  us_observacoes :: "string option"
  us_photo_url :: "string option"
  us_senha_hash :: string
  us_master_user :: int
  us_administrador :: int
  us_senha_provisoria :: int
  us_ultimo_login_em :: "string option"
  us_ativo :: int
  us_created_at :: string
  us_updated_at :: string

record perfil =
  pf_id :: int
  pf_nome :: string
  pf_descricao :: "string option"
  pf_perfil_master :: int
  pf_ativo :: int
  pf_created_at :: string
  pf_updated_at :: string

record permissao =
  pp_perfil_id :: int
  pp_chave :: string
  pp_created_at :: string

record vinculo =
  vi_usuario_id :: int
  vi_alvo_id :: int
  vi_created_at :: string

record user_session =
  se_usuario_id :: int
  se_session_token :: string
  se_created_at :: string
  se_expires_at :: string
  se_last_activity_at :: string

record unlock_session =
  ul_usuario_id :: int
  ul_scope :: string
  ul_unlock_token :: string
  ul_expires_at :: string
  ul_created_at :: string
  ul_last_used_at :: "string option"

text \<open>
  \<open>db_seq\<close> is \<^verbatim>\<open>sqlite_sequence\<close>, the largest key a table with \<^verbatim>\<open>AUTOINCREMENT\<close> has given
  out. The last three components are the readings of the clock, the identifiers and the
  random numbers used so far.
\<close>

record 'g app_world =
  db_empresas :: "empresa list"
  db_usuarios :: "usuario list"
  db_perfis :: "perfil list"
  db_permissoes :: "permissao list"
  db_usuarios_perfis :: "vinculo list"
  db_usuarios_empresas :: "vinculo list"
  db_sessions :: "user_session list"
  db_unlocks :: "unlock_session list"
  db_settings :: "string \<rightharpoonup> app_setting"
  db_seq :: "string \<Rightarrow> int"
  aw_logs :: log_world
  aw_reads :: nat
  aw_uuids :: nat
  aw_rng :: 'g

subsection \<open>Surroundings\<close>

text \<open>
  \<open>sa_fail\<close> tells which statement fails, named by the message the program reports for it;
  \<open>sa_constraint\<close> is the text of a violated constraint. \<open>sa_time\<close> gives the clock, in
  nanoseconds, at each reading, \<open>sa_rfc3339\<close> its text, and \<open>sa_lowercase\<close> is the Unicode
  case mapping of \<^verbatim>\<open>str::to_lowercase\<close>. The order in which \<^verbatim>\<open>GROUP_CONCAT\<close> of SQLite joins texts
  is not specified, so \<open>sa_group_concat\<close> is a parameter too.
\<close>

record 'g app_sys =
  sa_rt :: "unit rt_sys"
  sa_rw :: rt_world
  sa_crypto :: crypto
  sa_rng :: "'g rng"
  sa_log :: log_sys
  sa_fail :: "string \<Rightarrow> string option"
  sa_constraint :: "string \<Rightarrow> string"
  sa_time :: "nat \<Rightarrow> int"
  sa_rfc3339 :: "int \<Rightarrow> string"
  sa_uuid :: "nat \<Rightarrow> string"
  sa_lowercase :: "string \<Rightarrow> string"
  sa_group_concat :: "string list \<Rightarrow> string"

definition connect :: "'g app_sys \<Rightarrow> (unit, 'g app_world) cmd" where
  "connect sy =
     lift (and_then (state_db_path (sa_rw sy)) (\<lambda>path. and_then (open_connection (sa_rt sy) path) (\<lambda>_. Ok ())))"

definition clock :: "'g app_sys \<Rightarrow> (int, 'g app_world) cmd" where
  "clock sy w = (Ok (sa_time sy (aw_reads w)), w\<lparr>aw_reads := Suc (aw_reads w)\<rparr>)"

definition clock_text :: "'g app_sys \<Rightarrow> (string, 'g app_world) cmd" where
  "clock_text sy = bindc (clock sy) (\<lambda>t. ret (sa_rfc3339 sy t))"

definition new_uuid :: "'g app_sys \<Rightarrow> (string, 'g app_world) cmd" where
  "new_uuid sy w = (Ok (sa_uuid sy (aw_uuids w)), w\<lparr>aw_uuids := Suc (aw_uuids w)\<rparr>)"

definition hash_new_password :: "'g app_sys \<Rightarrow> string \<Rightarrow> (string, 'g app_world) cmd" where
  "hash_new_password sy password w =
     (case hash_password (sa_crypto sy) (sa_rng sy) password (aw_rng w) of (r, g) \<Rightarrow> (r, w\<lparr>aw_rng := g\<rparr>))"

definition on_logs :: "(log_world \<Rightarrow> ('a, string) result \<times> log_world) \<Rightarrow> ('a, 'g app_world) cmd" where
  "on_logs f w = (case f (aw_logs w) of (r, l) \<Rightarrow> (r, w\<lparr>aw_logs := l\<rparr>))"

text \<open>\<^verbatim>\<open>let _ = write_app_log(...)\<close>.\<close>

definition log_quietly :: "'g app_sys \<Rightarrow> app_log_input \<Rightarrow> (unit, 'g app_world) cmd" where
  "log_quietly sy input w = (Ok (), w\<lparr>aw_logs := snd (write_app_log (sa_log sy) input (aw_logs w))\<rparr>)"

subsection \<open>Statements\<close>

definition query :: "'g app_sys \<Rightarrow> string \<Rightarrow> ('g app_world \<Rightarrow> 'a) \<Rightarrow> ('a, 'g app_world) cmd" where
  "query sy msg q w =
     (case sa_fail sy msg of Some err \<Rightarrow> (Err (msg @ '': '' @ err), w) | None \<Rightarrow> (Ok (q w), w))"

text \<open>A listing reports its preparation, its execution and the mapping of its rows apart.\<close>

fun stmts :: "'g app_sys \<Rightarrow> string list \<Rightarrow> (unit, string) result" where
  "stmts sy [] = Ok ()"
| "stmts sy (msg # msgs) =
     (case sa_fail sy msg of Some err \<Rightarrow> Err (msg @ '': '' @ err) | None \<Rightarrow> stmts sy msgs)"

definition listing :: "'g app_sys \<Rightarrow> string list \<Rightarrow> ('g app_world \<Rightarrow> 'a) \<Rightarrow> ('a, 'g app_world) cmd" where
  "listing sy msgs q w = (and_then (stmts sy msgs) (\<lambda>_. Ok (q w)), w)"

definition exec ::
  "'g app_sys \<Rightarrow> string \<Rightarrow> ('g app_world \<Rightarrow> ('g app_world, string) result) \<Rightarrow> (unit, 'g app_world) cmd" where
  "exec sy msg stmt w =
     (case sa_fail sy msg of
        Some err \<Rightarrow> (Err (msg @ '': '' @ err), w)
      | None \<Rightarrow>
          (case stmt w of
             Inl err \<Rightarrow> (Err (msg @ '': '' @ err), w)
           | Inr w' \<Rightarrow> (Ok (), w')))"

definition checked :: "'g app_sys \<Rightarrow> string \<Rightarrow> ('g app_world \<Rightarrow> bool) \<Rightarrow> 'g app_world \<Rightarrow> ('g app_world, string) result" where
  "checked sy constraint ok w = (if ok w then Ok w else Err (sa_constraint sy constraint))"

fun first_row :: "'a list \<Rightarrow> 'a option" where
  "first_row [] = None"
| "first_row (x # xs) = Some x"

definition next_key :: "string \<Rightarrow> 'g app_world \<Rightarrow> int" where
  "next_key table w = db_seq w table + 1"

subsection \<open>Facts on commands\<close>

definition keeps :: "('w \<Rightarrow> bool) \<Rightarrow> ('a, 'w) cmd \<Rightarrow> bool" where
  "keeps I m \<longleftrightarrow> (\<forall>w. I w \<longrightarrow> I (snd (m w)))"

lemma keepsI: "(\<And>w r w'. I w \<Longrightarrow> m w = (r, w') \<Longrightarrow> I w') \<Longrightarrow> keeps I m"
  by (auto simp: keeps_def) (metis prod.collapse)

lemma keepsD: "keeps I m \<Longrightarrow> m w = (r, w') \<Longrightarrow> I w \<Longrightarrow> I w'"
  by (force simp: keeps_def)

lemma keeps_pure [keeps_intros]: "keeps I (ret x)" "keeps I (fail err)" "keeps I (lift r)" "keeps I (ensure b err)"
  by (simp_all add: keeps_def ret_def fail_def lift_def ensure_def)

lemma keeps_bindc [keeps_intros]: "keeps I m \<Longrightarrow> (\<And>x. keeps I (f x)) \<Longrightarrow> keeps I (bindc m f)"
  by (fastforce simp: keeps_def bindc_def split: prod.splits sum.splits)

lemma keeps_each [keeps_intros]: "(\<And>x. x \<in> set xs \<Longrightarrow> keeps I (f x)) \<Longrightarrow> keeps I (each f xs)"
  by (induction xs) (auto intro: keeps_intros)

lemma keeps_query [keeps_intros]: "keeps I (query sy msg q)"
  by (auto simp: keeps_def query_def split: option.splits)

lemma keeps_listing [keeps_intros]: "keeps I (listing sy msgs q)"
  by (simp add: keeps_def listing_def)

lemma keeps_connect [keeps_intros]: "keeps I (connect sy)"
  unfolding connect_def by (rule keeps_intros)

lemma keeps_exec [keeps_intros]: "(\<And>w w'. I w \<Longrightarrow> stmt w = Ok w' \<Longrightarrow> I w') \<Longrightarrow> keeps I (exec sy msg stmt)"
  by (auto simp: keeps_def exec_def split: option.splits sum.splits)

lemma bindc_assoc: "bindc (bindc m f) g = bindc m (\<lambda>x. bindc (f x) g)"
  by (rule ext) (auto simp: bindc_def split: prod.splits sum.splits)

lemma bindc_run: "m w = (Ok x, w1) \<Longrightarrow> bindc m f w = f x w1" "m w = (Err e, w1) \<Longrightarrow> bindc m f w = (Err e, w1)"
  by (simp_all add: bindc_def)

lemma bindc_OkE:
  assumes "bindc m f w = (Ok y, w')"
  obtains x w1 where "m w = (Ok x, w1)" "f x w1 = (Ok y, w')"
  using assms by (auto simp: bindc_def split: prod.splits sum.splits)

lemma bindc_simps [simp]: "bindc (ret x) f = f x" "bindc (fail e) f = fail e"
  by (rule ext, simp add: bindc_def ret_def fail_def)+

lemma query_Ok: "query sy msg q w = (Ok x, w') \<longleftrightarrow> sa_fail sy msg = None \<and> x = q w \<and> w' = w"
  by (auto simp: query_def split: option.splits)

lemma listing_Ok: "listing sy msgs q w = (Ok x, w') \<longleftrightarrow> stmts sy msgs = Ok () \<and> x = q w \<and> w' = w"
  by (cases "stmts sy msgs") (auto simp: listing_def)

lemma exec_Ok: "exec sy msg stmt w = (Ok x, w') \<longleftrightarrow> sa_fail sy msg = None \<and> stmt w = Ok w'"
  by (auto simp: exec_def split: option.splits sum.splits)

lemma ensure_Ok: "ensure b err w = (Ok x, w') \<longleftrightarrow> b \<and> w' = w"
  by (auto simp: ensure_def ret_def fail_def)

subsection \<open>Commands behind a session\<close>

text \<open>
  A command that first establishes who calls. \<open>core\<close> is the part of the state that only an
  authenticated caller may change.
\<close>

locale session_guard =
  fixes auth :: "string \<Rightarrow> ('i, 'w) cmd" and core :: "'w \<Rightarrow> 'c"
  assumes auth_core: "auth tok w = (r, w') \<Longrightarrow> core w' = core w"
begin

lemma refused:
  assumes "auth tok w = (Err err, w1)"
  shows "bindc (auth tok) body w = (Err err, w1) \<and> core w1 = core w"
  using assms auth_core by (auto simp: bindc_run)

lemma change_is_authorised:
  assumes "bindc (lift pre) (\<lambda>_. bindc (auth tok) body) w = (r, w')" and "core w' \<noteq> core w"
  shows "\<exists>i w1. auth tok w = (Ok i, w1) \<and> body i w1 = (r, w')"
proof (cases pre)
  case (Inl e)
  with assms show ?thesis by (auto simp: bindc_def lift_def)
next
  case (Inr x)
  then have run: "bindc (auth tok) body w = (r, w')" using assms(1) by (simp add: bindc_def lift_def)
  obtain q w1 where a: "auth tok w = (q, w1)" by (cases "auth tok w")
  with run assms(2) auth_core [OF a] show ?thesis by (cases q) (auto simp: bindc_def)
qed

end

end
