(* ===== verification/Auth.thy ===== *)
theory Auth
  imports Console_Db
begin

text \<open>
  Log-in, sessions and the permissions of a user, \<^verbatim>\<open>commands/auth.rs\<close>.
\<close>

definition permission_catalog_keys :: "string list" where
  "permission_catalog_keys =
     [''dashboard:view'', ''empresas:view'', ''empresas:manage'', ''cadastros:view'', ''cadastros:manage'',
      ''usuarios:view'', ''usuarios:manage'', ''perfis:view'', ''perfis:manage'', ''config:view'', ''config:manage'',
      ''licenciamento:view'', ''licenciamento:manage'', ''logs:view'', ''logs:manage'', ''sync:view'', ''relatorios:export'']"

definition all_permission_keys :: "string list" where
  "all_permission_keys = remdups_adj (sort permission_catalog_keys)"

record auth_user =
  ut_id :: int
  ut_nome :: string
  ut_login :: string
  ut_email :: "string option"
  ut_telefone :: "string option"
  ut_cargo :: "string option"
  ut_photo_url :: "string option"
  ut_administrador :: bool
  ut_master_user :: bool
  ut_senha_provisoria :: bool
  ut_permission_keys :: "string list"
  ut_profile_names :: "string list"
  ut_company_ids :: "int list"
  ut_company_names :: "string list"

record login_response =
  lr2_success :: bool
  lr2_message :: string
  lr2_session_token :: "string option"
  lr2_user :: "auth_user option"

record session_identity =
  si_user_id :: int
  si_master_user :: bool

definition find_user :: "int \<Rightarrow> 'g app_world \<Rightarrow> usuario option" where
  "find_user uid w = find (\<lambda>u. us_id u = uid) (db_usuarios w)"

text \<open>Rows of the links of a user joined with the linked table, ordered by a column.\<close>

definition linked :: "vinculo list \<Rightarrow> ('r \<Rightarrow> int) \<Rightarrow> 'r list \<Rightarrow> int \<Rightarrow> 'r list" where
  "linked links key rows uid =
     concat (map (\<lambda>l. filter (\<lambda>r. key r = vi_alvo_id l) rows) (filter (\<lambda>l. vi_usuario_id l = uid) links))"

definition user_profiles :: "int \<Rightarrow> 'g app_world \<Rightarrow> string list" where
  "user_profiles uid w = sort (map pf_nome (linked (db_usuarios_perfis w) pf_id (db_perfis w) uid))"

definition user_companies :: "int \<Rightarrow> 'g app_world \<Rightarrow> (int \<times> string) list" where
  "user_companies uid w =
     map (\<lambda>e. (em_id e, em_nome e)) (sort_key em_nome (linked (db_usuarios_empresas w) em_id (db_empresas w) uid))"

definition user_permissions :: "int \<Rightarrow> 'g app_world \<Rightarrow> string list" where
  "user_permissions uid w =
     sort (remdups (map pp_chave (linked (db_usuarios_perfis w) pp_perfil_id (db_permissoes w) uid)))"

definition build_auth_user :: "'g app_sys \<Rightarrow> int \<Rightarrow> (auth_user, 'g app_world) cmd" where
  "build_auth_user sy uid =
     bindc (query sy (''Falha ao carregar usu'' @ u_aacute @ ''rio autenticado'') (find_user uid)) (\<lambda>row.
     case row of
       None \<Rightarrow> fail (''Usu'' @ u_aacute @ ''rio da sess'' @ u_atilde @ ''o n'' @ u_atilde @ ''o encontrado.'')
     | Some u \<Rightarrow>
         bindc (ensure (us_ativo u \<noteq> 0) (''Usu'' @ u_aacute @ ''rio inativo.'')) (\<lambda>_.
         bindc (listing sy [(''Falha ao preparar perfis do usu'' @ u_aacute @ ''rio''), (''Falha ao consultar perfis do usu'' @ u_aacute @ ''rio''),
             (''Falha ao mapear perfis do usu'' @ u_aacute @ ''rio'')] (user_profiles uid)) (\<lambda>profile_names.
         bindc (listing sy [(''Falha ao preparar empresas do usu'' @ u_aacute @ ''rio''), (''Falha ao consultar empresas do usu'' @ u_aacute @ ''rio''),
             (''Falha ao mapear empresas do usu'' @ u_aacute @ ''rio'')] (user_companies uid)) (\<lambda>companies.
         bindc (if us_master_user u = 1 then ret all_permission_keys
                else listing sy [(''Falha ao preparar permiss'' @ u_otilde @ ''es do usu'' @ u_aacute @ ''rio''), (''Falha ao consultar permiss'' @ u_otilde @ ''es do usu'' @ u_aacute @ ''rio''),
                       (''Falha ao mapear permiss'' @ u_otilde @ ''es do usu'' @ u_aacute @ ''rio'')] (user_permissions uid)) (\<lambda>permission_keys.
         ret \<lparr>ut_id = us_id u, ut_nome = us_nome u, ut_login = us_login u, ut_email = us_email u,
              ut_telefone = us_telefone u, ut_cargo = us_cargo u, ut_photo_url = us_photo_url u,
              ut_administrador = (us_administrador u = 1), ut_master_user = (us_master_user u = 1),
              ut_senha_provisoria = (us_senha_provisoria u = 1), ut_permission_keys = permission_keys,
              ut_profile_names = profile_names, ut_company_ids = map fst companies,
              ut_company_names = map snd companies\<rparr>)))))"

subsection \<open>Sessions\<close>

definition session_rows :: "string \<Rightarrow> string \<Rightarrow> 'g app_world \<Rightarrow> (int \<times> int \<times> int) list" where
  "session_rows token now w =
     concat (map (\<lambda>s. map (\<lambda>u. (se_usuario_id s, us_master_user u, us_ativo u))
                        (filter (\<lambda>u. us_id u = se_usuario_id s) (db_usuarios w)))
               (filter (\<lambda>s. se_session_token s = token \<and> now < se_expires_at s) (db_sessions w)))"

definition touch_session :: "string \<Rightarrow> string \<Rightarrow> user_session \<Rightarrow> user_session" where
  "touch_session token now s = (if se_session_token s = token then s\<lparr>se_last_activity_at := now\<rparr> else s)"

definition require_session_by_token :: "'g app_sys \<Rightarrow> string \<Rightarrow> (session_identity, 'g app_world) cmd" where
  "require_session_by_token sy session_token =
     (let token = trim session_token in
      if token = [] then fail (''Sess'' @ u_atilde @ ''o inv'' @ u_aacute @ ''lida ou expirada.'')
      else
        bindc (clock_text sy) (\<lambda>now.
        bindc (query sy (''Falha ao validar sess'' @ u_atilde @ ''o'') (\<lambda>w. first_row (session_rows token now w))) (\<lambda>row.
        case row of
          None \<Rightarrow> fail (''Sess'' @ u_atilde @ ''o inv'' @ u_aacute @ ''lida ou expirada.'')
        | Some (uid, master, ativo) \<Rightarrow>
            bindc (ensure (ativo \<noteq> 0) (''Usu'' @ u_aacute @ ''rio inativo.'')) (\<lambda>_.
            bindc (exec sy (''Falha ao atualizar atividade da sess'' @ u_atilde @ ''o'')
                (\<lambda>w. Ok (w\<lparr>db_sessions := map (touch_session token now) (db_sessions w)\<rparr>))) (\<lambda>_.
            ret \<lparr>si_user_id = uid, si_master_user = (master = 1)\<rparr>)))))"

definition seven_days :: int where
  "seven_days = 7 * 86400 * 1000000000"

definition login_refused :: "string \<Rightarrow> login_response" where
  "login_refused message =
     \<lparr>lr2_success = False, lr2_message = message, lr2_session_token = None, lr2_user = None\<rparr>"

definition insert_session :: "'g app_sys \<Rightarrow> user_session \<Rightarrow> 'g app_world \<Rightarrow> ('g app_world, string) result" where
  "insert_session sy s w =
     and_then (checked sy ''user_sessions.session_token''
         (\<lambda>w. se_session_token s \<notin> set (map se_session_token (db_sessions w))) w)
       (\<lambda>w. and_then (checked sy ''user_sessions.usuario_id'' (\<lambda>w. se_usuario_id s \<in> set (map us_id (db_usuarios w))) w)
       (\<lambda>w. Ok (w\<lparr>db_sessions := db_sessions w @ [s]\<rparr>)))"

definition update_users :: "(usuario \<Rightarrow> usuario) \<Rightarrow> int \<Rightarrow> 'g app_world \<Rightarrow> 'g app_world" where
  "update_users f uid w = w\<lparr>db_usuarios := map (\<lambda>u. if us_id u = uid then f u else u) (db_usuarios w)\<rparr>"

definition open_session :: "'g app_sys \<Rightarrow> usuario \<Rightarrow> (string, 'g app_world) cmd" where
  "open_session sy u =
     bindc (clock sy) (\<lambda>now.
     bindc (new_uuid sy) (\<lambda>session_token.
     let expires_at = sa_rfc3339 sy (now + seven_days); now_str = sa_rfc3339 sy now in
     bindc (exec sy (''Falha ao limpar sess'' @ u_otilde @ ''es antigas'')
         (\<lambda>w. Ok (w\<lparr>db_sessions := filter (\<lambda>s. \<not> (se_usuario_id s = us_id u \<or> se_expires_at s \<le> now_str)) (db_sessions w)\<rparr>))) (\<lambda>_.
     bindc (exec sy (''Falha ao criar sess'' @ u_atilde @ ''o'')
         (insert_session sy \<lparr>se_usuario_id = us_id u, se_session_token = session_token, se_created_at = now_str,
            se_expires_at = expires_at, se_last_activity_at = now_str\<rparr>)) (\<lambda>_.
     ret session_token))))"

text \<open>The end of a log-in whose password was right.\<close>

definition complete_login :: "'g app_sys \<Rightarrow> usuario \<Rightarrow> (login_response, 'g app_world) cmd" where
  "complete_login sy u =
     bindc (open_session sy u) (\<lambda>session_token.
     bindc (clock_text sy) (\<lambda>now.
     bindc (exec sy (''Falha ao atualizar '' @ u_uacute @ ''ltimo login'')
         (\<lambda>w. Ok (update_users (us_ultimo_login_em_update (\<lambda>_. Some now)) (us_id u) w))) (\<lambda>_.
     bindc (build_auth_user sy (us_id u)) (\<lambda>user.
     bindc (log_quietly sy
         \<lparr>ai_level = ''info'', ai_category = ''auth'', ai_message = ''Login efetuado com sucesso.'',
          ai_source = Some ''backend'', ai_route = None,
          ai_details = Some (JObj [(''usuario_id'', JNum (JInt (us_id u))), (''login'', JStr (us_login u))])\<rparr>) (\<lambda>_.
     ret \<lparr>lr2_success = True,
          lr2_message = (if ut_senha_provisoria user
                         then (''Login efetuado com sucesso. Este usu'' @ u_aacute @ ''rio est'' @ u_aacute @ '' com senha provis'' @ u_oacute @ ''ria.'')
                         else ''Login efetuado com sucesso.''),
          lr2_session_token = Some session_token, lr2_user = Some user\<rparr>)))))"

definition user_by_login :: "'g app_sys \<Rightarrow> string \<Rightarrow> 'g app_world \<Rightarrow> usuario option" where
  "user_by_login sy login w =
     find (\<lambda>u. to_ascii_lowercase (us_login u) = sa_lowercase sy (trim login)) (db_usuarios w)"

definition auth_login :: "'g app_sys \<Rightarrow> string \<Rightarrow> string \<Rightarrow> (login_response, 'g app_world) cmd" where
  "auth_login sy login senha =
     bindc (connect sy) (\<lambda>_.
     bindc (query sy (''Falha ao consultar usu'' @ u_aacute @ ''rio'') (user_by_login sy login)) (\<lambda>row.
     case row of
       None \<Rightarrow> ret (login_refused (''Usu'' @ u_aacute @ ''rio n'' @ u_atilde @ ''o encontrado.''))
     | Some u \<Rightarrow>
         if us_ativo u = 0 then ret (login_refused (''Usu'' @ u_aacute @ ''rio inativo.''))
         else
           bindc (lift (verify_password (sa_crypto sy) senha (us_senha_hash u))) (\<lambda>password_ok.
           if \<not> password_ok then ret (login_refused (''Senha inv'' @ u_aacute @ ''lida.''))
           else complete_login sy u)))"

definition session_log :: "string \<Rightarrow> string \<Rightarrow> json option \<Rightarrow> app_log_input" where
  "session_log level message details =
     \<lparr>ai_level = level, ai_category = ''session'', ai_message = message, ai_source = Some ''backend'',
      ai_route = None, ai_details = details\<rparr>"

definition auth_restore :: "'g app_sys \<Rightarrow> string \<Rightarrow> (login_response, 'g app_world) cmd" where
  "auth_restore sy session_token =
     bindc (connect sy) (\<lambda>_ w.
     case require_session_by_token sy session_token w of
       (Inl _, w') \<Rightarrow>
         bindc (log_quietly sy (session_log ''warning'' (''Falha ao restaurar sess'' @ u_atilde @ ''o expirada ou inv'' @ u_aacute @ ''lida.'') None)) (\<lambda>_.
         ret (login_refused (''Sess'' @ u_atilde @ ''o inv'' @ u_aacute @ ''lida ou expirada.''))) w'
     | (Inr identity, w') \<Rightarrow>
         bindc (build_auth_user sy (si_user_id identity)) (\<lambda>user.
         bindc (log_quietly sy (session_log ''info'' (''Sess'' @ u_atilde @ ''o restaurada com sucesso.'')
             (Some (JObj [(''usuario_id'', JNum (JInt (si_user_id identity)))])))) (\<lambda>_.
         ret \<lparr>lr2_success = True, lr2_message = (''Sess'' @ u_atilde @ ''o restaurada com sucesso.''),
              lr2_session_token = Some session_token, lr2_user = Some user\<rparr>)) w')"

definition auth_logout :: "'g app_sys \<Rightarrow> string \<Rightarrow> (bool, 'g app_world) cmd" where
  "auth_logout sy session_token =
     bindc (connect sy) (\<lambda>_.
     bindc (exec sy (''Falha ao encerrar sess'' @ u_atilde @ ''o'')
         (\<lambda>w. Ok (w\<lparr>db_sessions := filter (\<lambda>s. se_session_token s \<noteq> session_token) (db_sessions w)\<rparr>))) (\<lambda>_.
     bindc (log_quietly sy (session_log ''info'' (''Sess'' @ u_atilde @ ''o encerrada.'') None)) (\<lambda>_.
     ret True)))"

definition auth_change_password :: "'g app_sys \<Rightarrow> string \<Rightarrow> string \<Rightarrow> string \<Rightarrow> (bool, 'g app_world) cmd" where
  "auth_change_password sy session_token current_password new_password =
     bindc (connect sy) (\<lambda>_.
     bindc (require_session_by_token sy session_token) (\<lambda>identity.
     bindc (ensure (6 \<le> length (trim new_password)) ''A nova senha deve conter ao menos 6 caracteres.'') (\<lambda>_.
     bindc (query sy ''Falha ao consultar senha atual'' (find_user (si_user_id identity))) (\<lambda>row.
     case row of
       None \<Rightarrow> fail (''Falha ao consultar senha atual: '' @ ''Query returned no rows'')
     | Some u \<Rightarrow>
         bindc (lift (verify_password (sa_crypto sy) (trim current_password) (us_senha_hash u))) (\<lambda>ok.
         bindc (ensure ok (''A senha atual informada est'' @ u_aacute @ '' incorreta.'')) (\<lambda>_.
         bindc (hash_new_password sy (trim new_password)) (\<lambda>new_hash.
         bindc (clock_text sy) (\<lambda>now.
         bindc (exec sy ''Falha ao atualizar senha''
             (\<lambda>w. Ok (update_users (\<lambda>u. u\<lparr>us_senha_hash := new_hash, us_senha_provisoria := 0, us_updated_at := now\<rparr>)
                (si_user_id identity) w))) (\<lambda>_.
         bindc (log_quietly sy
             \<lparr>ai_level = ''info'', ai_category = ''auth'', ai_message = ''Senha alterada com sucesso.'',
              ai_source = Some ''backend'', ai_route = None,
              ai_details = Some (JObj [(''usuario_id'', JNum (JInt (si_user_id identity)))])\<rparr>) (\<lambda>_.
         ret True))))))))))"

subsection \<open>What authentication leaves untouched\<close>

text \<open>Everything but the number of clock readings and the activity stamps of sessions.\<close>

definition access_core :: "'g app_world \<Rightarrow> 'g app_world" where
  "access_core w = w\<lparr>aw_reads := 0, db_sessions := map (se_last_activity_at_update (\<lambda>_. [])) (db_sessions w)\<rparr>"

lemma erase_touch: "se_last_activity_at_update (\<lambda>_. []) (touch_session token now s) = se_last_activity_at_update (\<lambda>_. []) s"
  by (simp add: touch_session_def)

lemma access_core_reads: "access_core (w\<lparr>aw_reads := n\<rparr>) = access_core w"
  by (simp add: access_core_def)

lemma access_core_touch:
  "access_core (w\<lparr>db_sessions := map (touch_session token now) (db_sessions w)\<rparr>) = access_core w"
  by (simp add: access_core_def erase_touch comp_def)

lemma keeps_core_pure [keeps_intros]: "keeps (\<lambda>v. access_core v = c) (clock sy)" "keeps (\<lambda>v. access_core v = c) (clock_text sy)"
  by (auto simp: keeps_def clock_def clock_text_def bindc_def ret_def access_core_reads)

lemma require_session_core: "keeps (\<lambda>v. access_core v = c) (require_session_by_token sy tok)"
  unfolding require_session_by_token_def Let_def
  by (auto intro!: keeps_intros simp: access_core_touch split: option.splits prod.splits)

interpretation session: session_guard "require_session_by_token sy" access_core for sy
proof
  fix tok w r w'
  assume "require_session_by_token sy tok w = (r, w')"
  from keepsD [OF require_session_core [of "access_core w"] this] show "access_core w' = access_core w" by simp
qed

subsection \<open>Sessions after a log-in\<close>

definition max_time :: int where
  "max_time = 253402300800000000000"

text \<open>
  The texts of \<^verbatim>\<open>to_rfc3339\<close> between 1970 and 9999 sort like the times, the identifiers are
  plain texts.
\<close>

definition times_ordered :: "'g app_sys \<Rightarrow> bool" where
  "times_ordered sy \<longleftrightarrow>
     (\<forall>a b. 0 \<le> a \<and> a < max_time \<and> 0 \<le> b \<and> b < max_time \<longrightarrow> (sa_rfc3339 sy a < sa_rfc3339 sy b \<longleftrightarrow> a < b)) \<and>
     (\<forall>n. 0 \<le> sa_time sy n \<and> sa_time sy n + seven_days < max_time)"

definition uuids_plain :: "'g app_sys \<Rightarrow> bool" where
  "uuids_plain sy \<longleftrightarrow> (\<forall>n. trim (sa_uuid sy n) = sa_uuid sy n \<and> sa_uuid sy n \<noteq> [])"

lemma require_session_answer:
  assumes "sa_fail sy (''Falha ao validar sess'' @ u_atilde @ ''o'') = None" and "sa_fail sy (''Falha ao atualizar atividade da sess'' @ u_atilde @ ''o'') = None"
    and "trim tok \<noteq> []"
  shows "fst (require_session_by_token sy tok w) =
    (case first_row (session_rows (trim tok) (sa_rfc3339 sy (sa_time sy (aw_reads w))) w) of
       None \<Rightarrow> Err (''Sess'' @ u_atilde @ ''o inv'' @ u_aacute @ ''lida ou expirada.'')
     | Some (uid, master, ativo) \<Rightarrow>
         (if ativo = 0 then Err (''Usu'' @ u_aacute @ ''rio inativo.'') else Ok \<lparr>si_user_id = uid, si_master_user = (master = 1)\<rparr>))"
proof -
  have reads: "session_rows t n (w\<lparr>aw_reads := k\<rparr>) = session_rows t n w" for t n k
    by (simp add: session_rows_def)
  show ?thesis
    using assms
    by (auto simp: require_session_by_token_def Let_def bindc_def clock_text_def clock_def ret_def fail_def query_def
        exec_def ensure_def reads split: option.splits prod.splits)
qed

lemma open_session_effect:
  assumes "open_session sy u w = (Ok tok, w')"
  shows "tok = sa_uuid sy (aw_uuids w) \<and> us_id u \<in> set (map us_id (db_usuarios w)) \<and>
    db_usuarios w' = db_usuarios w \<and>
    db_sessions w' = filter (\<lambda>s. \<not> (se_usuario_id s = us_id u \<or> se_expires_at s \<le> sa_rfc3339 sy (sa_time sy (aw_reads w)))) (db_sessions w) @
      [\<lparr>se_usuario_id = us_id u, se_session_token = tok, se_created_at = sa_rfc3339 sy (sa_time sy (aw_reads w)),
        se_expires_at = sa_rfc3339 sy (sa_time sy (aw_reads w) + seven_days),
        se_last_activity_at = sa_rfc3339 sy (sa_time sy (aw_reads w))\<rparr>] \<and>
    tok \<notin> set (map se_session_token (butlast (db_sessions w')))"
  using assms
  by (auto simp: open_session_def Let_def clock_def new_uuid_def insert_session_def checked_def exec_Ok ret_def
      elim!: bindc_OkE split: if_splits)

lemma build_auth_user_frame: "keeps (\<lambda>v. v = c) (build_auth_user sy uid)"
  unfolding build_auth_user_def
  by (auto intro!: keeps_intros split: option.splits)

lemma log_quietly_frame: "log_quietly sy i w = (r, w') \<Longrightarrow> r = Ok () \<and> (\<exists>l. w' = w\<lparr>aw_logs := l\<rparr>)"
  by (auto simp: log_quietly_def)

lemma connect_Ok: "connect sy w = (Ok x, w') \<Longrightarrow> w' = w"
  by (simp add: connect_def lift_def)

lemma lift_Ok: "lift r w = (Ok x, w') \<longleftrightarrow> r = Ok x \<and> w' = w"
  by (auto simp: lift_def)

lemma auth_login_success:
  assumes "auth_login sy login senha w = (Ok r, w')" and "lr2_success r"
  shows "\<exists>u. user_by_login sy login w = Some u \<and> us_ativo u \<noteq> 0 \<and>
    verify_password (sa_crypto sy) senha (us_senha_hash u) = Ok True \<and> complete_login sy u w = (Ok r, w')"
  using assms
  by (auto simp: auth_login_def query_Ok lift_Ok ret_def login_refused_def elim!: bindc_OkE dest!: connect_Ok
      split: option.splits if_splits)

lemma complete_login_effect:
  assumes "complete_login sy u w = (Ok r, w')"
  shows "\<exists>tok w1. open_session sy u w = (Ok tok, w1) \<and> lr2_session_token r = Some tok \<and> db_sessions w' = db_sessions w1 \<and>
    db_usuarios w' = db_usuarios (update_users
      (us_ultimo_login_em_update (\<lambda>_. Some (sa_rfc3339 sy (sa_time sy (aw_reads w1))))) (us_id u) w1)"
  using assms
  by (auto simp: complete_login_def exec_Ok clock_text_def clock_def ret_def update_users_def
      elim!: bindc_OkE dest!: log_quietly_frame keepsD [OF build_auth_user_frame, OF _ refl])

lemma session_rows_cong:
  assumes "db_sessions v = db_sessions w" and "map (\<lambda>u. (us_id u, us_master_user u, us_ativo u)) (db_usuarios v) =
      map (\<lambda>u. (us_id u, us_master_user u, us_ativo u)) (db_usuarios w)"
  shows "session_rows tok now v = session_rows tok now w"
proof -
  have sel: "map (\<lambda>u. (i, us_master_user u, us_ativo u)) (filter (\<lambda>u. us_id u = i) us) =
      map snd (filter (\<lambda>(a, b). a = i) (map (\<lambda>u. (us_id u, i, us_master_user u, us_ativo u)) us))" for i us
    by (induction us) auto
  have eq: "map (\<lambda>u. (us_id u, i, us_master_user u, us_ativo u)) (db_usuarios v) =
      map (\<lambda>u. (us_id u, i, us_master_user u, us_ativo u)) (db_usuarios w)" for i
    using arg_cong [OF assms(2), of "map (\<lambda>(a, b, c). (a, i, b, c))"] by (simp add: comp_def)
  show ?thesis by (simp only: session_rows_def assms(1) sel eq)
qed

lemma find_distinct_filter:
  assumes "distinct (map f xs)" and "x \<in> set xs"
  shows "filter (\<lambda>y. f y = f x) xs = [x]"
  using assms by (induction xs) (auto simp: filter_empty_conv image_iff)

text \<open>C31. A successful log-in found an active user under the given login and verified the password; afterwards the user has exactly one session, the one just opened, and its token identifies the user for exactly seven days.\<close>

theorem login_opens_session:
  assumes sys: "times_ordered sy" "uuids_plain sy" "sa_fail sy (''Falha ao validar sess'' @ u_atilde @ ''o'') = None"
      "sa_fail sy (''Falha ao atualizar atividade da sess'' @ u_atilde @ ''o'') = None"
    and ids: "distinct (map us_id (db_usuarios w))"
    and login: "auth_login sy login senha w = (Ok r, w')" "lr2_success r"
  shows "\<exists>u tok. user_by_login sy login w = Some u \<and> us_ativo u \<noteq> 0 \<and>
    verify_password (sa_crypto sy) senha (us_senha_hash u) = Ok True \<and> lr2_session_token r = Some tok \<and>
    map se_session_token (filter (\<lambda>s. se_usuario_id s = us_id u) (db_sessions w')) = [tok] \<and>
    (\<forall>v. db_sessions v = db_sessions w' \<and> db_usuarios v = db_usuarios w' \<longrightarrow>
      fst (require_session_by_token sy tok v) =
        (if sa_time sy (aw_reads v) < sa_time sy (aw_reads w) + seven_days
         then Ok \<lparr>si_user_id = us_id u, si_master_user = (us_master_user u = 1)\<rparr>
         else Err (''Sess'' @ u_atilde @ ''o inv'' @ u_aacute @ ''lida ou expirada.'')))"
proof -
  from auth_login_success [OF login] obtain u where u: "user_by_login sy login w = Some u" "us_ativo u \<noteq> 0"
    "verify_password (sa_crypto sy) senha (us_senha_hash u) = Ok True" and fin: "complete_login sy u w = (Ok r, w')" by blast
  from complete_login_effect [OF fin] obtain tok w1 where o: "open_session sy u w = (Ok tok, w1)"
    and tok: "lr2_session_token r = Some tok" and ss: "db_sessions w' = db_sessions w1"
    and us: "db_usuarios w' = db_usuarios (update_users
      (us_ultimo_login_em_update (\<lambda>_. Some (sa_rfc3339 sy (sa_time sy (aw_reads w1))))) (us_id u) w1)" by blast
  note eff = open_session_effect [OF o]
  let ?t = "sa_time sy (aw_reads w)"
  let ?s = "\<lparr>se_usuario_id = us_id u, se_session_token = tok, se_created_at = sa_rfc3339 sy ?t,
        se_expires_at = sa_rfc3339 sy (?t + seven_days), se_last_activity_at = sa_rfc3339 sy ?t\<rparr>"
  let ?old = "filter (\<lambda>s. \<not> (se_usuario_id s = us_id u \<or> se_expires_at s \<le> sa_rfc3339 sy ?t)) (db_sessions w)"
  from eff ss have sess: "db_sessions w' = ?old @ [?s]" by simp
  have fresh: "tok \<notin> set (map se_session_token ?old)" using eff by (elim conjE) simp
  from u(1) have mem: "u \<in> set (db_usuarios w)" by (simp add: user_by_login_def find_Some_iff) (metis nth_mem)
  have one: "map se_session_token (filter (\<lambda>s. se_usuario_id s = us_id u) (db_sessions w')) = [tok]"
    by (auto simp: sess filter_empty_conv)
  have trimmed: "trim tok = tok" "tok \<noteq> []" using eff sys(2) by (auto simp: uuids_plain_def)
  have answer: "fst (require_session_by_token sy tok v) =
        (if sa_time sy (aw_reads v) < ?t + seven_days
         then Ok \<lparr>si_user_id = us_id u, si_master_user = (us_master_user u = 1)\<rparr>
         else Err (''Sess'' @ u_atilde @ ''o inv'' @ u_aacute @ ''lida ou expirada.''))"
    if v: "db_sessions v = db_sessions w'" "db_usuarios v = db_usuarios w'" for v
  proof -
    let ?n = "sa_time sy (aw_reads v)"
    have rows: "session_rows tok t v =
        (if t < sa_rfc3339 sy (?t + seven_days) then [(us_id u, us_master_user u, us_ativo u)] else [])" for t
    proof -
      have "session_rows tok t v = session_rows tok t (w\<lparr>db_sessions := db_sessions w'\<rparr>)"
        using v us eff by (intro session_rows_cong) (auto simp: update_users_def)
      moreover have "filter (\<lambda>s. se_session_token s = tok \<and> t < se_expires_at s) (db_sessions w') =
          (if t < sa_rfc3339 sy (?t + seven_days) then [?s] else [])"
        using fresh by (auto simp: sess filter_empty_conv)
      ultimately show ?thesis using find_distinct_filter [OF ids mem] by (simp add: session_rows_def)
    qed
    have "sa_rfc3339 sy ?n < sa_rfc3339 sy (?t + seven_days) \<longleftrightarrow> ?n < ?t + seven_days"
    proof -
      have "0 \<le> ?n" "?n < max_time" "0 \<le> ?t + seven_days" "?t + seven_days < max_time"
        using sys(1) by (auto simp: times_ordered_def seven_days_def intro: less_trans [rotated] dest: spec [of _ "aw_reads v"])
      with sys(1) show ?thesis by (simp add: times_ordered_def)
    qed
    with rows [of "sa_rfc3339 sy ?n"] u(2) require_session_answer [OF sys(3,4), of tok v] trimmed
    show ?thesis by simp
  qed
  show ?thesis
    using u tok one by (intro exI [of _ u] exI [of _ tok] conjI allI impI) (use answer in blast)+
qed

subsection \<open>A small installation\<close>

definition demo_log_ctx :: log_sys where
  "demo_log_ctx =
     \<lparr>lg_now = ''now'', lg_json_text = (\<lambda>_. ''{}''), lg_insert_err = None, lg_mkdir_err = None, lg_open_err = None,
      lg_write_err = None\<rparr>"

definition demo_app_sys :: "unit app_sys" where
  "demo_app_sys =
     \<lparr>sa_rt = \<lparr>sy_config_local_dir = None, sy_data_local_dir = None, sy_current_dir = None,
        sy_mkdir_err = (\<lambda>_. None), sy_mkparent_err = (\<lambda>_. None), sy_read_err = (\<lambda>_. None),
        sy_write_err = (\<lambda>_. None), sy_open_write_err = (\<lambda>_. None), sy_addr_err = (\<lambda>_. None), sy_bind_ok = (\<lambda>_. True),
        sy_db_open_err = (\<lambda>_. None), sy_db_pragma_err = (\<lambda>_. None), sy_query_err = None, sy_exec_err = None,
        sy_now = ''now'', sy_to_json = (\<lambda>_. Ok []), sy_of_json = (\<lambda>_ _. Ok ()), sy_bootstrap_of_json = (\<lambda>_. Ok None)\<rparr>,
      sa_rw = \<lparr>rw_env = Map.empty, rw_files = Map.empty,
        rw_ctx = Some \<lparr>ax_data_dir = ''/d'', ax_db_path = ''/d/app.db''\<rparr>, rw_app_settings = (\<lambda>_. Map.empty)\<rparr>,
      sa_crypto = demo_crypto,
      sa_rng = \<lparr>rg_salt = (\<lambda>g. (''s'', g)), rg_alnum = (\<lambda>g. (CHR ''a'', g)), rg_bytes = (\<lambda>n g. (replicate n 0, g))\<rparr>,
      sa_log = demo_log_ctx, sa_fail = (\<lambda>_. None), sa_constraint = (\<lambda>c. ''UNIQUE constraint failed: '' @ c),
      sa_time = (\<lambda>_. 5), sa_rfc3339 = (\<lambda>t. replicate (nat t) CHR ''1''),
      sa_uuid = (\<lambda>n. show_nat n), sa_lowercase = to_ascii_lowercase, sa_group_concat = concat\<rparr>"

definition demo_user :: "int \<Rightarrow> string \<Rightarrow> int \<Rightarrow> usuario" where
  "demo_user i login master =
     \<lparr>us_id = i, us_nome = login, us_login = login, us_email = None, us_telefone = None, us_cargo = None,
      us_observacoes = None, us_photo_url = None, us_senha_hash = ''secret'', us_master_user = master,
      us_administrador = 0, us_senha_provisoria = 0, us_ultimo_login_em = None, us_ativo = 1,
      us_created_at = [], us_updated_at = []\<rparr>"

definition demo_app_world :: "unit app_world" where
  "demo_app_world =
     \<lparr>db_empresas = [], db_usuarios = [demo_user 1 ''ana'' 1, demo_user 2 ''bob'' 0], db_perfis = [], db_permissoes = [],
      db_usuarios_perfis = [], db_usuarios_empresas = [], db_sessions = [], db_unlocks = [], db_settings = Map.empty,
      db_seq = (\<lambda>_. 10), aw_logs = \<lparr>lw_sync_queue = [], lw_audit_logs = [], lw_app_logs = [], lw_log_file = []\<rparr>,
      aw_reads = 0, aw_uuids = 0, aw_rng = ()\<rparr>"

lemmas demo_app_defs = demo_app_sys_def demo_log_ctx_def demo_app_world_def demo_user_def demo_crypto_def

lemma replicate_less: "replicate m c < replicate n (c :: char) \<longleftrightarrow> m < n"
proof (induction m arbitrary: n)
  case 0
  then show ?case by (cases n) simp_all
next
  case (Suc m)
  then show ?case by (cases n) simp_all
qed

lemma demo_laws: "times_ordered demo_app_sys" "uuids_plain demo_app_sys"
  by (auto simp: times_ordered_def uuids_plain_def demo_app_sys_def replicate_less max_time_def seven_days_def show_nat_trimmed)

lemma demo_login:
  "\<exists>r w'. auth_login demo_app_sys ''bob'' ''secret'' demo_app_world = (Ok r, w') \<and> lr2_success r"
proof -
  have "trim ''bob'' = ''bob''" by (rule trim_graph) (simp_all add: graph_char_def)
  then show ?thesis
    by (simp add: auth_login_def connect_def lift_def bindc_def query_def user_by_login_def to_ascii_lowercase_def
        ascii_lower_def verify_password_def complete_login_def open_session_def Let_def clock_def new_uuid_def exec_def
        insert_session_def checked_def clock_text_def update_users_def build_auth_user_def find_user_def ensure_def
        listing_def user_profiles_def user_companies_def user_permissions_def linked_def log_quietly_def ret_def
        state_db_path_def open_connection_def demo_app_defs)
qed

theorem login_opens_session_witness:
  "\<exists>r w' tok. auth_login demo_app_sys ''bob'' ''secret'' demo_app_world = (Ok r, w') \<and> lr2_session_token r = Some tok \<and>
     fst (require_session_by_token demo_app_sys tok w') = Ok \<lparr>si_user_id = 2, si_master_user = False\<rparr>"
proof -
  obtain r w' where l: "auth_login demo_app_sys ''bob'' ''secret'' demo_app_world = (Ok r, w')" and s: "lr2_success r"
    using demo_login by blast
  have nofail: "sa_fail demo_app_sys msg = None" for msg by (simp add: demo_app_sys_def)
  have ids: "distinct (map us_id (db_usuarios demo_app_world))" by (simp add: demo_app_defs)
  from login_opens_session [OF demo_laws nofail nofail ids l s] obtain u tok
    where u: "user_by_login demo_app_sys ''bob'' demo_app_world = Some u" and t: "lr2_session_token r = Some tok"
      and a: "fst (require_session_by_token demo_app_sys tok w') =
        (if sa_time demo_app_sys (aw_reads w') < sa_time demo_app_sys (aw_reads demo_app_world) + seven_days
         then Ok \<lparr>si_user_id = us_id u, si_master_user = (us_master_user u = 1)\<rparr> else Err (''Sess'' @ u_atilde @ ''o inv'' @ u_aacute @ ''lida ou expirada.''))"
    by blast
  have "trim ''bob'' = ''bob''" by (rule trim_graph) (simp_all add: graph_char_def)
  then have "u = demo_user 2 ''bob'' 0"
    using u by (simp add: user_by_login_def demo_app_defs to_ascii_lowercase_def ascii_lower_def)
  with l t a show ?thesis by (auto simp: seven_days_def demo_app_sys_def demo_user_def)
qed

subsection \<open>Log-out and permissions\<close>

text \<open>Logging out with the exact token of a session ends it; with blanks around the token, which every other command accepts, the log-out also answers \<open>true\<close> but the session goes on.\<close>

theorem logout_needs_exact_token:
  assumes "auth_logout sy tok w = (Ok b, w')" and "trim tok \<noteq> []"
    and "sa_fail sy (''Falha ao validar sess'' @ u_atilde @ ''o'') = None" "sa_fail sy (''Falha ao atualizar atividade da sess'' @ u_atilde @ ''o'') = None"
  shows "(trim tok = tok \<longrightarrow> fst (require_session_by_token sy tok w') = Err (''Sess'' @ u_atilde @ ''o inv'' @ u_aacute @ ''lida ou expirada.'')) \<and>
    (trim tok \<noteq> tok \<longrightarrow> fst (require_session_by_token sy tok w') = fst (require_session_by_token sy tok w))"
proof -
  from assms(1) have w': "db_sessions w' = filter (\<lambda>s. se_session_token s \<noteq> tok) (db_sessions w)"
    and same: "db_usuarios w' = db_usuarios w" "aw_reads w' = aw_reads w"
    by (auto simp: auth_logout_def exec_Ok ret_def elim!: bindc_OkE dest!: connect_Ok log_quietly_frame)
  have "session_rows tok now w' = []" for now
    by (simp add: session_rows_def w')
  moreover have "filter (\<lambda>s. se_session_token s = trim tok \<and> now < se_expires_at s) (db_sessions w') =
      filter (\<lambda>s. se_session_token s = trim tok \<and> now < se_expires_at s) (db_sessions w)" if "trim tok \<noteq> tok" for now
    using that by (auto simp: w' intro!: filter_cong)
  then have "session_rows (trim tok) now w' = session_rows (trim tok) now w" if "trim tok \<noteq> tok" for now
    using that by (simp add: session_rows_def same)
  ultimately show ?thesis
    by (simp add: require_session_answer [OF assms(3,4,2)] same)
qed

lemma demo_logout: "\<exists>w'. auth_logout demo_app_sys ''t'' demo_app_world = (Ok True, w')"
  by (simp add: auth_logout_def connect_def lift_def bindc_def exec_def log_quietly_def ret_def
      state_db_path_def open_connection_def demo_app_defs)

theorem logout_needs_exact_token_witness:
  "fst (require_session_by_token demo_app_sys ''t'' (snd (auth_logout demo_app_sys ''t'' demo_app_world))) =
     Err (''Sess'' @ u_atilde @ ''o inv'' @ u_aacute @ ''lida ou expirada.'')"
proof -
  obtain w' where l: "auth_logout demo_app_sys ''t'' demo_app_world = (Ok True, w')" using demo_logout by blast
  have t: "trim ''t'' = ''t''" by (rule trim_graph) (simp_all add: graph_char_def)
  have nofail: "sa_fail demo_app_sys msg = None" for msg by (simp add: demo_app_sys_def)
  from logout_needs_exact_token [OF l _ nofail nofail] t l show ?thesis by simp
qed

definition granted_keys :: "int \<Rightarrow> 'g app_world \<Rightarrow> string set" where
  "granted_keys uid w =
     {pp_chave p | p. p \<in> set (db_permissoes w) \<and>
        (\<exists>l \<in> set (db_usuarios_perfis w). vi_usuario_id l = uid \<and> vi_alvo_id l = pp_perfil_id p)}"

lemma set_linked: "set (linked links key rows uid) = {r \<in> set rows. \<exists>l \<in> set links. vi_usuario_id l = uid \<and> key r = vi_alvo_id l}"
  by (auto simp: linked_def)

lemma set_user_permissions: "set (user_permissions uid w) = granted_keys uid w"
  by (force simp: user_permissions_def granted_keys_def set_linked)

lemma distinct_sorted_dedup: "sorted xs \<Longrightarrow> distinct (remdups_adj xs)"
proof (induction xs rule: remdups_adj.induct)
  case (3 x y xs)
  then show ?case by (cases "x = y") (auto simp: order_antisym)
qed simp_all

lemma sorted_permissions:
  "sorted (user_permissions uid w) \<and> distinct (user_permissions uid w)"
  "sorted all_permission_keys \<and> distinct all_permission_keys" "set all_permission_keys = set permission_catalog_keys"
  by (simp_all add: user_permissions_def all_permission_keys_def distinct_sorted_dedup)

lemma build_auth_user_result:
  assumes "build_auth_user sy uid w = (Ok a, w')"
  shows "w' = w \<and> (\<exists>u. find_user uid w = Some u \<and> us_ativo u \<noteq> 0 \<and> ut_master_user a = (us_master_user u = 1) \<and>
    ut_permission_keys a = (if us_master_user u = 1 then all_permission_keys else user_permissions uid w))"
proof -
  from assms obtain u where "find_user uid w = Some u" by (auto simp: build_auth_user_def query_Ok fail_def elim!: bindc_OkE split: option.splits)
  with assms show ?thesis
    by (auto simp: build_auth_user_def query_Ok ensure_Ok listing_Ok ret_def elim!: bindc_OkE split: if_splits)
qed

definition deactivate_profiles :: "'g app_world \<Rightarrow> 'g app_world" where
  "deactivate_profiles w = w\<lparr>db_perfis := map (pf_ativo_update (\<lambda>_. 0)) (db_perfis w)\<rparr>"

lemma linked_map:
  assumes "\<And>r. key (f r) = key r"
  shows "linked links key (map f rows) uid = map f (linked links key rows uid)"
  by (simp add: linked_def map_concat filter_map comp_def assms)

lemma deactivated_same:
  "find_user uid (deactivate_profiles w) = find_user uid w" "user_profiles uid (deactivate_profiles w) = user_profiles uid w"
  "user_companies uid (deactivate_profiles w) = user_companies uid w"
  "user_permissions uid (deactivate_profiles w) = user_permissions uid w"
  by (simp_all add: deactivate_profiles_def find_user_def user_profiles_def user_companies_def user_permissions_def
      linked_map comp_def)

text \<open>The permissions of a user are, sorted and without repetition, all of the catalogue for a master user and otherwise the keys of the profiles linked to the user; whether these profiles are active makes no difference.\<close>

theorem permissions_of_profiles:
  assumes "build_auth_user sy uid w = (Ok a, w')"
  shows "sorted (ut_permission_keys a) \<and> distinct (ut_permission_keys a) \<and>
    set (ut_permission_keys a) = (if ut_master_user a then set permission_catalog_keys else granted_keys uid w) \<and>
    fst (build_auth_user sy uid (deactivate_profiles w)) = Ok a"
proof -
  note res = build_auth_user_result [OF assms]
  have "fst (build_auth_user sy uid (deactivate_profiles w)) = fst (build_auth_user sy uid w)"
    by (auto simp: build_auth_user_def bindc_def query_def listing_def ensure_def ret_def fail_def deactivated_same
        split: option.splits sum.splits elim!: and_then.elims)
  with res assms show ?thesis by (auto simp: sorted_permissions set_user_permissions)
qed

lemma demo_build: "\<exists>a w'. build_auth_user demo_app_sys 2 demo_app_world = (Ok a, w') \<and> \<not> ut_master_user a"
  by (simp add: build_auth_user_def bindc_def query_def find_user_def ensure_def listing_def user_profiles_def
      user_companies_def user_permissions_def linked_def ret_def demo_app_defs)

theorem permissions_of_profiles_witness:
  "\<exists>a. fst (build_auth_user demo_app_sys 2 demo_app_world) = Ok a \<and> set (ut_permission_keys a) = granted_keys 2 demo_app_world"
proof -
  obtain a w' where "build_auth_user demo_app_sys 2 demo_app_world = (Ok a, w')" and "\<not> ut_master_user a"
    using demo_build by blast
  with permissions_of_profiles [OF this(1)] show ?thesis by auto
qed

end
