(* ===== verification/Access.thy ===== *)
theory Access
  imports Auth
begin

text \<open>
  Users, access profiles and the login policy, \<^verbatim>\<open>commands/access.rs\<close>. Payloads are JSON
  objects; every command that changes a table first requires the session of a master user.
\<close>

subsection \<open>Reading a payload\<close>

definition parse_i64 :: "string \<Rightarrow> int option" where
  "parse_i64 s =
     (case s of
        c # t \<Rightarrow>
          (if c = CHR ''-''
           then if t \<noteq> [] \<and> list_all is_ascii_digit t \<and> read_digits t \<le> 2 ^ 63 then Some (- int (read_digits t)) else None
           else map_option int (parse_unsigned (2 ^ 63 - 1) s))
      | [] \<Rightarrow> None)"

fun scalar_text :: "json \<Rightarrow> string option" where
  "scalar_text (JStr t) = Some (trim t)"
| "scalar_text (JNum n) = Some (show_number n)"
| "scalar_text (JBool b) = Some (if b then ''1'' else ''0'')"
| "scalar_text _ = None"

definition get_string :: "json_obj \<Rightarrow> string \<Rightarrow> string option" where
  "get_string payload key = opt_filter (\<lambda>v. v \<noteq> []) (Option.bind (obj_get payload key) scalar_text)"

text \<open>
  The words compared with the lower-case text are ASCII and without \<open>k\<close>, so the ASCII letters
  decide.
\<close>

definition get_bool01 :: "json_obj \<Rightarrow> string \<Rightarrow> bool \<Rightarrow> int" where
  "get_bool01 payload key d =
     (case obj_get payload key of
        Some (JBool b) \<Rightarrow> of_bool b
      | Some (JNum n) \<Rightarrow> of_bool (unwrap_or 0 (num_as_i64 n) \<noteq> 0)
      | Some (JStr t) \<Rightarrow> of_bool (to_ascii_lowercase (trim t) \<in> {''1'', ''true'', ''sim'', ''yes''})
      | _ \<Rightarrow> of_bool d)"

fun scalar_i64 :: "json \<Rightarrow> int option" where
  "scalar_i64 (JNum n) = num_as_i64 n"
| "scalar_i64 (JStr t) = parse_i64 (trim t)"
| "scalar_i64 _ = None"

definition get_i64 :: "json_obj \<Rightarrow> string \<Rightarrow> int option" where
  "get_i64 payload key = Option.bind (obj_get payload key) scalar_i64"

definition get_id :: "json_obj \<Rightarrow> int option" where
  "get_id payload = get_i64 payload ''id''"

fun item_text :: "json \<Rightarrow> string option" where
  "item_text (JStr t) = Some (trim t)"
| "item_text (JNum n) = Some (show_number n)"
| "item_text _ = None"

definition get_string_array :: "json_obj \<Rightarrow> string \<Rightarrow> string list" where
  "get_string_array payload key =
     (case obj_get payload key of
        Some (JArr items) \<Rightarrow> filter (\<lambda>v. v \<noteq> []) (List.map_filter item_text items)
      | Some (JStr t) \<Rightarrow>
          (if trim t \<noteq> [] then filter (\<lambda>v. v \<noteq> []) (map trim (split_on (CHR '','') t)) else [])
      | _ \<Rightarrow> [])"

definition get_i64_array :: "json_obj \<Rightarrow> string \<Rightarrow> int list" where
  "get_i64_array payload key =
     (case obj_get payload key of
        Some (JArr items) \<Rightarrow> List.map_filter scalar_i64 items
      | Some (JStr t) \<Rightarrow>
          (if trim t \<noteq> [] then List.map_filter (\<lambda>item. parse_i64 (trim item)) (split_on (CHR '','') t) else [])
      | _ \<Rightarrow> [])"

definition validate_email :: "string \<Rightarrow> bool" where
  "validate_email value \<longleftrightarrow> trim value \<noteq> [] \<and> CHR ''@'' \<in> set (trim value) \<and> CHR ''.'' \<in> set (trim value)"

definition normalize_login :: "'g app_sys \<Rightarrow> string \<Rightarrow> string" where
  "normalize_login sy value = sa_lowercase sy (trim value)"

subsection \<open>Rows as JSON\<close>

definition js_int :: "int \<Rightarrow> json" where
  "js_int i = JNum (JInt i)"

definition perfil_json :: "perfil \<Rightarrow> json_obj" where
  "perfil_json p =
     [(''id'', js_int (pf_id p)), (''nome'', JStr (pf_nome p)), (''descricao'', js_opt (pf_descricao p)),
      (''perfil_master'', js_int (pf_perfil_master p)), (''ativo'', js_int (pf_ativo p)),
      (''created_at'', JStr (pf_created_at p)), (''updated_at'', JStr (pf_updated_at p))]"

definition usuario_json :: "usuario \<Rightarrow> json_obj" where
  "usuario_json u =
     [(''id'', js_int (us_id u)), (''nome'', JStr (us_nome u)), (''login'', JStr (us_login u)), (''email'', js_opt (us_email u)),
      (''telefone'', js_opt (us_telefone u)), (''cargo'', js_opt (us_cargo u)), (''observacoes'', js_opt (us_observacoes u)),
      (''photo_url'', js_opt (us_photo_url u)), (''master_user'', js_int (us_master_user u)),
      (''administrador'', js_int (us_administrador u)), (''senha_provisoria'', js_int (us_senha_provisoria u)),
      (''ativo'', js_int (us_ativo u)), (''ultimo_login_em'', js_opt (us_ultimo_login_em u)),
      (''created_at'', JStr (us_created_at u)), (''updated_at'', JStr (us_updated_at u))]"

subsection \<open>The login policy\<close>

definition ensure_master :: "'g app_sys \<Rightarrow> string \<Rightarrow> (int, 'g app_world) cmd" where
  "ensure_master sy session_token =
     bindc (require_session_by_token sy session_token) (\<lambda>identity.
     bindc (ensure (si_master_user identity) (''Apenas usu'' @ u_aacute @ ''rio master pode executar esta opera'' @ u_ccedil @ u_atilde @ ''o.'')) (\<lambda>_.
     ret (si_user_id identity)))"

definition clamp_login_min_length :: "int \<Rightarrow> int" where
  "clamp_login_min_length value = max 1 (min 64 value)"

definition login_min_length :: "'g app_world \<Rightarrow> int" where
  "login_min_length w =
     clamp_login_min_length
       (unwrap_or 2 (Option.bind (db_settings w ''user_login_min_length'') (\<lambda>row. parse_i64 (trim (as_valor row)))))"

definition load_login_min_length :: "'g app_sys \<Rightarrow> (int, 'g app_world) cmd" where
  "load_login_min_length sy = query sy (''Falha ao consultar pol'' @ u_iacute @ ''tica de login'') login_min_length"

definition policy_json :: "int \<Rightarrow> json_obj" where
  "policy_json n = [(''login_min_length'', js_int n), (''login_min_allowed'', js_int 1), (''login_max_allowed'', js_int 64)]"

definition user_policy_get :: "'g app_sys \<Rightarrow> string \<Rightarrow> (json_obj, 'g app_world) cmd" where
  "user_policy_get sy session_token =
     bindc (connect sy) (\<lambda>_.
     bindc (ensure_master sy session_token) (\<lambda>_.
     bindc (load_login_min_length sy) (\<lambda>n.
     ret (policy_json n))))"

definition upsert_setting :: "string \<Rightarrow> string \<Rightarrow> string \<Rightarrow> 'g app_world \<Rightarrow> 'g app_world" where
  "upsert_setting key valor now w =
     w\<lparr>db_settings := (db_settings w)(key \<mapsto>
        \<lparr>as_valor = valor,
         as_created_at = (case db_settings w key of Some row \<Rightarrow> as_created_at row | None \<Rightarrow> now),
         as_updated_at = now\<rparr>)\<rparr>"

definition user_policy_save :: "'g app_sys \<Rightarrow> string \<Rightarrow> json_obj \<Rightarrow> (json_obj, 'g app_world) cmd" where
  "user_policy_save sy session_token payload =
     bindc (connect sy) (\<lambda>_.
     bindc (ensure_master sy session_token) (\<lambda>actor_id.
     bindc (clock_text sy) (\<lambda>now.
     bindc (lift (ok_or (''Informe a quantidade m'' @ u_iacute @ ''nima de caracteres para login.'') (get_i64 payload ''login_min_length''))) (\<lambda>value.
     bindc (ensure (clamp_login_min_length value = value)
         ((''A pol'' @ u_iacute @ ''tica de login deve ficar entre '') @ show_int 1 @ '' e '' @ show_int 64 @ '' caracteres.'')) (\<lambda>_.
     bindc (exec sy (''Falha ao salvar pol'' @ u_iacute @ ''tica de login'')
         (\<lambda>w. Ok (upsert_setting ''user_login_min_length'' (show_int value) now w))) (\<lambda>_.
     bindc (on_logs (write_audit (sa_log sy) ''user_policy'' ''update'' (Some actor_id)
         (JObj [(''login_min_length'', js_int value)]))) (\<lambda>_.
     ret (policy_json value))))))))"

subsection \<open>Profiles\<close>

definition nth_part :: "nat \<Rightarrow> string \<Rightarrow> string \<Rightarrow> string" where
  "nth_part n d key = (let parts = split_on (CHR '':'') key in if n < length parts then parts ! n else d)"

definition permission_label :: "string \<Rightarrow> string" where
  "permission_label key =
     unwrap_or (replace (nth_part 0 ''geral'' key) ''_'' '' '' @ '' - '' @ replace (nth_part 1 ''view'' key) ''_'' '' '')
       (map_of
          [(''usuarios:view'', (''Visualizar usu'' @ u_aacute @ ''rios'')), (''usuarios:manage'', (''Gerenciar usu'' @ u_aacute @ ''rios'')),
           (''perfis:view'', ''Visualizar perfis''), (''perfis:manage'', ''Gerenciar perfis''),
           (''config:view'', (''Visualizar configura'' @ u_ccedil @ u_otilde @ ''es'')), (''config:manage'', (''Gerenciar configura'' @ u_ccedil @ u_otilde @ ''es'')),
           (''relatorios:export'', (''Exportar relat'' @ u_oacute @ ''rios''))] key)"

definition permission_catalog :: "'g app_sys \<Rightarrow> string \<Rightarrow> (json_obj list, 'g app_world) cmd" where
  "permission_catalog sy session_token =
     bindc (connect sy) (\<lambda>_.
     bindc (require_session_by_token sy session_token) (\<lambda>_.
     ret (map (\<lambda>key. [(''key'', JStr key), (''group'', JStr (nth_part 0 ''geral'' key)), (''label'', JStr (permission_label key))])
            all_permission_keys)))"

text \<open>
  \<^verbatim>\<open>LIKE\<close> of SQLite: \<open>%\<close> stands for any text, \<open>_\<close> for one character, and ASCII letters match in
  either case.
\<close>

definition drop_utf8 :: "string \<Rightarrow> string" where
  "drop_utf8 s = dropWhile (\<lambda>c. 128 \<le> (of_char c :: nat) \<and> (of_char c :: nat) < 192) (tl s)"

lemma drop_utf8_shorter: "s \<noteq> [] \<Longrightarrow> length (drop_utf8 s) < length s"
  by (cases s) (auto simp: drop_utf8_def le_imp_less_Suc length_dropWhile_le)

function sql_like :: "string \<Rightarrow> string \<Rightarrow> bool" where
  "sql_like [] s = (s = [])"
| "sql_like (c # p) s =
     (if s = [] then c = CHR ''%'' \<and> sql_like p s
      else if c = CHR ''%'' then sql_like p s \<or> sql_like (c # p) (drop_utf8 s)
      else if c = CHR ''_'' then sql_like p (drop_utf8 s)
      else ascii_lower (hd s) = ascii_lower c \<and> sql_like p (tl s))"
  by pat_completeness auto
termination
  by (relation "measures [\<lambda>(p, s). length p, \<lambda>(p, s). length s]") (auto simp: drop_utf8_shorter)

definition like_opt :: "string \<Rightarrow> string option \<Rightarrow> bool" where
  "like_opt pat v = (case v of None \<Rightarrow> False | Some s \<Rightarrow> sql_like pat s)"

definition wildcard :: "string \<Rightarrow> string" where
  "wildcard search = ''%'' @ trim search @ ''%''"

definition profile_row :: "'g app_world \<Rightarrow> perfil \<Rightarrow> json_obj" where
  "profile_row w p =
     perfil_json p @
     [(''total_usuarios'', js_int (int (card (vi_usuario_id ` {l \<in> set (db_usuarios_perfis w). vi_alvo_id l = pf_id p})))),
      (''total_permissoes'', js_int (int (card (pp_chave ` {q \<in> set (db_permissoes w). pp_perfil_id q = pf_id p}))))]"

definition profile_list :: "'g app_sys \<Rightarrow> string \<Rightarrow> json_obj \<Rightarrow> (json_obj list, 'g app_world) cmd" where
  "profile_list sy session_token filters =
     bindc (connect sy) (\<lambda>_.
     bindc (require_session_by_token sy session_token) (\<lambda>_.
     let search = unwrap_or [] (get_string filters ''search''); only_active = (get_bool01 filters ''onlyActive'' False = 1) in
     listing sy [''Falha ao preparar listagem de perfis'', ''Falha ao executar listagem de perfis'', ''Falha ao mapear perfis'']
       (\<lambda>w. map (profile_row w) (sort_key pf_nome (filter (\<lambda>p.
          (search \<noteq> [] \<longrightarrow> sql_like (wildcard search) (pf_nome p) \<or> like_opt (wildcard search) (pf_descricao p)) \<and>
          (only_active \<longrightarrow> pf_ativo p = 1)) (db_perfis w))))))"

definition profile_keys :: "int \<Rightarrow> 'g app_world \<Rightarrow> string list" where
  "profile_keys pid w = sort (map pp_chave (filter (\<lambda>q. pp_perfil_id q = pid) (db_permissoes w)))"

definition profile_get :: "'g app_sys \<Rightarrow> string \<Rightarrow> int \<Rightarrow> (json_obj, 'g app_world) cmd" where
  "profile_get sy session_token pid =
     bindc (connect sy) (\<lambda>_.
     bindc (require_session_by_token sy session_token) (\<lambda>_.
     bindc (query sy ''Falha ao consultar perfil'' (\<lambda>w. find (\<lambda>p. pf_id p = pid) (db_perfis w))) (\<lambda>row.
     bindc (lift (ok_or (''Perfil n'' @ u_atilde @ ''o encontrado.'') row)) (\<lambda>p.
     bindc (listing sy [(''Falha ao preparar permiss'' @ u_otilde @ ''es do perfil''), (''Falha ao consultar permiss'' @ u_otilde @ ''es do perfil''),
         (''Falha ao mapear permiss'' @ u_otilde @ ''es do perfil'')] (profile_keys pid)) (\<lambda>keys.
     ret (perfil_json p @ [(''permission_keys'', js_strs keys)]))))))"

definition insert_profile ::
  "'g app_sys \<Rightarrow> (int \<Rightarrow> perfil) \<Rightarrow> 'g app_world \<Rightarrow> ('g app_world, string) result" where
  "insert_profile sy row w =
     (let p = row (next_key ''perfis_acesso'' w) in
      and_then (checked sy ''perfis_acesso.nome'' (\<lambda>w. pf_nome p \<notin> set (map pf_nome (db_perfis w))) w)
        (\<lambda>w. Ok (w\<lparr>db_perfis := db_perfis w @ [p], db_seq := (db_seq w)(''perfis_acesso'' := pf_id p)\<rparr>)))"

definition update_profile ::
  "'g app_sys \<Rightarrow> int \<Rightarrow> (perfil \<Rightarrow> perfil) \<Rightarrow> 'g app_world \<Rightarrow> ('g app_world, string) result" where
  "update_profile sy pid f w =
     (let ps = map (\<lambda>p. if pf_id p = pid then f p else p) (db_perfis w) in
      and_then (checked sy ''perfis_acesso.nome'' (\<lambda>_. distinct (map pf_nome ps)) w) (\<lambda>w. Ok (w\<lparr>db_perfis := ps\<rparr>)))"

definition insert_permission :: "'g app_sys \<Rightarrow> permissao \<Rightarrow> 'g app_world \<Rightarrow> ('g app_world, string) result" where
  "insert_permission sy q w =
     and_then (checked sy ''perfis_permissoes.perfil_id, perfis_permissoes.permissao_chave''
         (\<lambda>w. (pp_perfil_id q, pp_chave q) \<notin> set (map (\<lambda>q. (pp_perfil_id q, pp_chave q)) (db_permissoes w))) w)
       (\<lambda>w. and_then (checked sy ''perfis_permissoes.perfil_id'' (\<lambda>w. pp_perfil_id q \<in> set (map pf_id (db_perfis w))) w)
       (\<lambda>w. Ok (w\<lparr>db_permissoes := db_permissoes w @ [q]\<rparr>)))"

definition action_word :: "int option \<Rightarrow> string" where
  "action_word i = (if i = None then ''insert'' else ''update'')"

definition profile_duplicate :: "string \<Rightarrow> int option \<Rightarrow> 'g app_world \<Rightarrow> bool" where
  "profile_duplicate nome i w \<longleftrightarrow>
     (\<exists>p \<in> set (db_perfis w). to_ascii_lowercase (pf_nome p) = to_ascii_lowercase nome \<and> i \<noteq> Some (pf_id p))"

text \<open>The row of a profile is inserted or updated; the key of the row is the result.\<close>

definition store_profile ::
  "'g app_sys \<Rightarrow> int option \<Rightarrow> string \<Rightarrow> string option \<Rightarrow> int \<Rightarrow> int \<Rightarrow> string \<Rightarrow> (int, 'g app_world) cmd" where
  "store_profile sy i nome descricao perfil_master ativo now =
     (case i of
        Some existing_id \<Rightarrow>
          bindc (exec sy ''Falha ao atualizar perfil''
              (update_profile sy existing_id (\<lambda>p. p\<lparr>pf_nome := nome, pf_descricao := descricao,
                 pf_perfil_master := perfil_master, pf_ativo := ativo, pf_updated_at := now\<rparr>))) (\<lambda>_.
          ret existing_id)
      | None \<Rightarrow>
          bindc (exec sy ''Falha ao inserir perfil''
              (insert_profile sy (\<lambda>k. \<lparr>pf_id = k, pf_nome = nome, pf_descricao = descricao, pf_perfil_master = perfil_master,
                 pf_ativo = ativo, pf_created_at = now, pf_updated_at = now\<rparr>))) (\<lambda>_ w.
          (Ok (db_seq w ''perfis_acesso''), w)))"

definition store_permissions :: "'g app_sys \<Rightarrow> int \<Rightarrow> string list \<Rightarrow> string \<Rightarrow> (unit, 'g app_world) cmd" where
  "store_permissions sy pid keys now =
     bindc (exec sy (''Falha ao limpar permiss'' @ u_otilde @ ''es do perfil'')
         (\<lambda>w. Ok (w\<lparr>db_permissoes := filter (\<lambda>q. pp_perfil_id q \<noteq> pid) (db_permissoes w)\<rparr>))) (\<lambda>_.
     each (\<lambda>key. exec sy (''Falha ao gravar permiss'' @ u_atilde @ ''o do perfil'')
         (insert_permission sy \<lparr>pp_perfil_id = pid, pp_chave = key, pp_created_at = now\<rparr>)) keys)"

definition profile_save :: "'g app_sys \<Rightarrow> string \<Rightarrow> json_obj \<Rightarrow> (json_obj, 'g app_world) cmd" where
  "profile_save sy session_token payload =
     bindc (connect sy) (\<lambda>_.
     bindc (ensure_master sy session_token) (\<lambda>actor_id.
     let i = get_id payload in
     bindc (clock_text sy) (\<lambda>now.
     bindc (lift (ok_or ''Informe o nome do perfil.'' (get_string payload ''nome''))) (\<lambda>nome.
     let descricao = get_string payload ''descricao'';
         perfil_master = get_bool01 payload ''perfil_master'' False;
         ativo = get_bool01 payload ''ativo'' True;
         permission_keys = remdups_adj (sort (get_string_array payload ''permission_keys'')) in
     bindc (ensure (\<not> (permission_keys = [] \<and> perfil_master = 0)) (''Selecione pelo menos uma permiss'' @ u_atilde @ ''o para o perfil.'')) (\<lambda>_.
     bindc (each (\<lambda>key. ensure (key \<in> set all_permission_keys) ((''Permiss'' @ u_atilde @ ''o inv'' @ u_aacute @ ''lida: '') @ key)) permission_keys) (\<lambda>_.
     bindc (query sy ''Falha ao validar nome do perfil'' (profile_duplicate nome i)) (\<lambda>duplicate.
     bindc (ensure (\<not> duplicate) (''J'' @ u_aacute @ '' existe perfil com este nome.'')) (\<lambda>_.
     bindc (store_profile sy i nome descricao perfil_master ativo now) (\<lambda>record_id.
     bindc (store_permissions sy record_id (if perfil_master = 1 then all_permission_keys else permission_keys) now) (\<lambda>_.
     let payload_json = JObj [(''id'', js_int record_id), (''nome'', JStr nome), (''descricao'', js_opt descricao),
           (''perfil_master'', js_int perfil_master), (''ativo'', js_int ativo)] in
     bindc (on_logs (enqueue_sync (sa_log sy) ''perfis_acesso'' (action_word i) (Some record_id) payload_json)) (\<lambda>_.
     bindc (on_logs (write_audit (sa_log sy) ''perfis_acesso'' (action_word i) (Some record_id)
         (JObj [(''actor_id'', js_int actor_id), (''payload'', payload_json)]))) (\<lambda>_.
     profile_get sy session_token record_id))))))))))))"

definition delete_profile :: "int \<Rightarrow> 'g app_world \<Rightarrow> 'g app_world" where
  "delete_profile pid w =
     w\<lparr>db_perfis := filter (\<lambda>p. pf_id p \<noteq> pid) (db_perfis w),
       db_permissoes := filter (\<lambda>q. pp_perfil_id q \<noteq> pid) (db_permissoes w),
       db_usuarios_perfis := filter (\<lambda>l. vi_alvo_id l \<noteq> pid) (db_usuarios_perfis w)\<rparr>"

definition profile_delete :: "'g app_sys \<Rightarrow> string \<Rightarrow> int \<Rightarrow> (bool, 'g app_world) cmd" where
  "profile_delete sy session_token pid =
     bindc (connect sy) (\<lambda>_.
     bindc (ensure_master sy session_token) (\<lambda>actor_id.
     bindc (query sy (''Falha ao validar v'' @ u_iacute @ ''nculo do perfil'')
         (\<lambda>w. length (filter (\<lambda>l. vi_alvo_id l = pid) (db_usuarios_perfis w)))) (\<lambda>linked_users.
     bindc (ensure (\<not> 0 < linked_users)
         (''N'' @ u_atilde @ ''o '' @ u_eacute @ '' poss'' @ u_iacute @ ''vel excluir o perfil porque existem usu'' @ u_aacute @ ''rios vinculados a ele.'')) (\<lambda>_.
     bindc (exec sy (''Falha ao excluir permiss'' @ u_otilde @ ''es do perfil'')
         (\<lambda>w. Ok (w\<lparr>db_permissoes := filter (\<lambda>q. pp_perfil_id q \<noteq> pid) (db_permissoes w)\<rparr>))) (\<lambda>_.
     bindc (\<lambda>w. (Ok (pid \<in> set (map pf_id (db_perfis w))), w)) (\<lambda>affected.
     bindc (exec sy ''Falha ao excluir perfil'' (\<lambda>w. Ok (delete_profile pid w))) (\<lambda>_.
     bindc (ensure affected (''Perfil n'' @ u_atilde @ ''o encontrado.'')) (\<lambda>_.
     bindc (on_logs (write_audit (sa_log sy) ''perfis_acesso'' ''delete'' (Some pid) (JObj [(''actor_id'', js_int actor_id)]))) (\<lambda>_.
     ret True)))))))))"

subsection \<open>Users\<close>

definition group_concat :: "'g app_sys \<Rightarrow> string list \<Rightarrow> json" where
  "group_concat sy names = (if names = [] then JNull else JStr (sa_group_concat sy (remdups names)))"

definition user_row :: "'g app_sys \<Rightarrow> 'g app_world \<Rightarrow> usuario \<Rightarrow> json_obj" where
  "user_row sy w u =
     filter (\<lambda>(k, _). k \<noteq> ''observacoes'') (usuario_json u) @
     [(''perfis'', group_concat sy (map pf_nome (linked (db_usuarios_perfis w) pf_id (db_perfis w) (us_id u)))),
      (''empresas'', group_concat sy (map em_nome (linked (db_usuarios_empresas w) em_id (db_empresas w) (us_id u))))]"

definition user_list :: "'g app_sys \<Rightarrow> string \<Rightarrow> json_obj \<Rightarrow> (json_obj list, 'g app_world) cmd" where
  "user_list sy session_token filters =
     bindc (connect sy) (\<lambda>_.
     bindc (require_session_by_token sy session_token) (\<lambda>_.
     let search = unwrap_or [] (get_string filters ''search''); only_active = (get_bool01 filters ''onlyActive'' False = 1);
         empresa_id = get_i64 filters ''empresaId'' in
     listing sy [(''Falha ao preparar listagem de usu'' @ u_aacute @ ''rios''), (''Falha ao executar listagem de usu'' @ u_aacute @ ''rios''), (''Falha ao mapear usu'' @ u_aacute @ ''rios'')]
       (\<lambda>w. map (user_row sy w) (sort_key us_nome (filter (\<lambda>u.
          (search \<noteq> [] \<longrightarrow> sql_like (wildcard search) (us_nome u) \<or> sql_like (wildcard search) (us_login u) \<or>
             like_opt (wildcard search) (us_email u)) \<and>
          (only_active \<longrightarrow> us_ativo u = 1) \<and>
          (\<forall>cid \<in> set_option empresa_id. \<exists>l \<in> set (db_usuarios_empresas w). vi_usuario_id l = us_id u \<and> vi_alvo_id l = cid))
          (db_usuarios w))))))"

definition link_targets :: "vinculo list \<Rightarrow> int \<Rightarrow> int list" where
  "link_targets links uid = sort (map vi_alvo_id (filter (\<lambda>l. vi_usuario_id l = uid) links))"

definition user_get :: "'g app_sys \<Rightarrow> string \<Rightarrow> int \<Rightarrow> (json_obj, 'g app_world) cmd" where
  "user_get sy session_token uid =
     bindc (connect sy) (\<lambda>_.
     bindc (require_session_by_token sy session_token) (\<lambda>_.
     bindc (query sy (''Falha ao consultar usu'' @ u_aacute @ ''rio'') (find_user uid)) (\<lambda>row.
     bindc (lift (ok_or (''Usu'' @ u_aacute @ ''rio n'' @ u_atilde @ ''o encontrado.'') row)) (\<lambda>u.
     bindc (listing sy [(''Falha ao preparar perfis do usu'' @ u_aacute @ ''rio''), (''Falha ao consultar perfis do usu'' @ u_aacute @ ''rio''),
         (''Falha ao mapear perfis do usu'' @ u_aacute @ ''rio'')] (\<lambda>w. link_targets (db_usuarios_perfis w) uid)) (\<lambda>profile_ids.
     bindc (listing sy [(''Falha ao preparar empresas do usu'' @ u_aacute @ ''rio''), (''Falha ao consultar empresas do usu'' @ u_aacute @ ''rio''),
         (''Falha ao mapear empresas do usu'' @ u_aacute @ ''rio'')] (\<lambda>w. link_targets (db_usuarios_empresas w) uid)) (\<lambda>empresa_ids.
     ret (usuario_json u @ [(''profile_ids'', JArr (map js_int profile_ids)), (''empresa_ids'', JArr (map js_int empresa_ids))])))))))"

record user_form =
  uf_nome :: string
  uf_login :: string
  uf_email :: "string option"
  uf_telefone :: "string option"
  uf_cargo :: "string option"
  uf_observacoes :: "string option"
  uf_photo_url :: "string option"
  uf_master_user :: int
  uf_administrador :: int
  uf_senha_provisoria :: int
  uf_ativo :: int
  uf_password :: "string option"
  uf_profile_ids :: "int list"
  uf_empresa_ids :: "int list"

definition read_user_form :: "'g app_sys \<Rightarrow> json_obj \<Rightarrow> (user_form, string) result" where
  "read_user_form sy payload =
     and_then (ok_or (''Informe o nome do usu'' @ u_aacute @ ''rio.'') (get_string payload ''nome'')) (\<lambda>nome.
     and_then (ok_or (''Informe o login do usu'' @ u_aacute @ ''rio.'') (get_string payload ''login'')) (\<lambda>login.
     Ok \<lparr>uf_nome = nome, uf_login = normalize_login sy login, uf_email = get_string payload ''email'',
         uf_telefone = get_string payload ''telefone'', uf_cargo = get_string payload ''cargo'',
         uf_observacoes = get_string payload ''observacoes'', uf_photo_url = get_string payload ''photo_url'',
         uf_master_user = get_bool01 payload ''master_user'' False, uf_administrador = get_bool01 payload ''administrador'' False,
         uf_senha_provisoria = get_bool01 payload ''senha_provisoria'' False, uf_ativo = get_bool01 payload ''ativo'' True,
         uf_password = get_string payload ''senha'', uf_profile_ids = get_i64_array payload ''profile_ids'',
         uf_empresa_ids = get_i64_array payload ''empresa_ids''\<rparr>))"

definition login_duplicate :: "string \<Rightarrow> int option \<Rightarrow> 'g app_world \<Rightarrow> bool" where
  "login_duplicate login i w \<longleftrightarrow>
     (\<exists>u \<in> set (db_usuarios w). to_ascii_lowercase (us_login u) = to_ascii_lowercase login \<and> i \<noteq> Some (us_id u))"

text \<open>The checks of a form, in the order of the code.\<close>

definition check_user_form :: "'g app_sys \<Rightarrow> int \<Rightarrow> int option \<Rightarrow> user_form \<Rightarrow> (unit, 'g app_world) cmd" where
  "check_user_form sy actor_id i f =
     bindc (load_login_min_length sy) (\<lambda>n.
     bindc (ensure (\<not> length (uf_login f) < nat n) (''O login deve conter ao menos '' @ show_int n @ '' caracteres.'')) (\<lambda>_.
     bindc (ensure (\<forall>e \<in> set_option (uf_email f). validate_email e) (''O e-mail do usu'' @ u_aacute @ ''rio '' @ u_eacute @ '' inv'' @ u_aacute @ ''lido.'')) (\<lambda>_.
     bindc (ensure (\<not> (i = Some actor_id \<and> uf_ativo f = 0))
         (''O usu'' @ u_aacute @ ''rio master logado n'' @ u_atilde @ ''o pode ser inativado nesta opera'' @ u_ccedil @ u_atilde @ ''o.'')) (\<lambda>_.
     bindc (query sy (''Falha ao validar login do usu'' @ u_aacute @ ''rio'') (login_duplicate (uf_login f) i)) (\<lambda>duplicate.
     bindc (ensure (\<not> duplicate) (''J'' @ u_aacute @ '' existe usu'' @ u_aacute @ ''rio com este login.'')) (\<lambda>_.
     bindc (ensure (\<not> (uf_master_user f \<noteq> 1 \<and> uf_profile_ids f = []))
         (''Selecione ao menos um perfil de acesso para o usu'' @ u_aacute @ ''rio.'')) (\<lambda>_.
     bindc (ensure (\<not> (uf_master_user f \<noteq> 1 \<and> uf_empresa_ids f = []))
         (''Selecione ao menos uma empresa para o usu'' @ u_aacute @ ''rio.'')) (\<lambda>_.
     bindc (each (\<lambda>pid.
         bindc (query sy (''Falha ao validar perfil do usu'' @ u_aacute @ ''rio'') (\<lambda>w. pid \<in> set (map pf_id (db_perfis w)))) (\<lambda>exists.
         ensure exists ((''Perfil inv'' @ u_aacute @ ''lido informado: '') @ show_int pid @ ''.''))) (uf_profile_ids f)) (\<lambda>_.
     each (\<lambda>eid.
         bindc (query sy (''Falha ao validar empresa do usu'' @ u_aacute @ ''rio'') (\<lambda>w. eid \<in> set (map em_id (db_empresas w)))) (\<lambda>exists.
         ensure exists ((''Empresa inv'' @ u_aacute @ ''lida informada: '') @ show_int eid @ ''.''))) (uf_empresa_ids f))))))))))"

definition apply_form :: "user_form \<Rightarrow> string \<Rightarrow> usuario \<Rightarrow> usuario" where
  "apply_form f now u =
     u\<lparr>us_nome := uf_nome f, us_login := uf_login f, us_email := uf_email f, us_telefone := uf_telefone f,
       us_cargo := uf_cargo f, us_observacoes := uf_observacoes f, us_photo_url := uf_photo_url f,
       us_master_user := uf_master_user f, us_administrador := uf_administrador f,
       us_senha_provisoria := uf_senha_provisoria f, us_ativo := uf_ativo f, us_updated_at := now\<rparr>"

definition update_user ::
  "'g app_sys \<Rightarrow> int \<Rightarrow> (usuario \<Rightarrow> usuario) \<Rightarrow> 'g app_world \<Rightarrow> ('g app_world, string) result" where
  "update_user sy uid g w =
     and_then (checked sy ''usuarios.login'' (\<lambda>w. distinct (map us_login (db_usuarios (update_users g uid w)))) w)
       (\<lambda>w. Ok (update_users g uid w))"

definition insert_user :: "'g app_sys \<Rightarrow> (int \<Rightarrow> usuario) \<Rightarrow> 'g app_world \<Rightarrow> ('g app_world, string) result" where
  "insert_user sy row w =
     (let u = row (next_key ''usuarios'' w) in
      and_then (checked sy ''usuarios.login'' (\<lambda>w. us_login u \<notin> set (map us_login (db_usuarios w))) w)
        (\<lambda>w. Ok (w\<lparr>db_usuarios := db_usuarios w @ [u], db_seq := (db_seq w)(''usuarios'' := us_id u)\<rparr>)))"

definition new_user :: "user_form \<Rightarrow> string \<Rightarrow> string \<Rightarrow> int \<Rightarrow> usuario" where
  "new_user f password_hash now k =
     \<lparr>us_id = k, us_nome = uf_nome f, us_login = uf_login f, us_email = uf_email f, us_telefone = uf_telefone f,
      us_cargo = uf_cargo f, us_observacoes = uf_observacoes f, us_photo_url = uf_photo_url f,
      us_senha_hash = password_hash, us_master_user = uf_master_user f, us_administrador = uf_administrador f,
      us_senha_provisoria = uf_senha_provisoria f, us_ultimo_login_em = None, us_ativo = uf_ativo f,
      us_created_at = now, us_updated_at = now\<rparr>"

definition short_password :: string where
  "short_password = ''A senha deve conter ao menos 6 caracteres.''"

definition store_user :: "'g app_sys \<Rightarrow> int option \<Rightarrow> user_form \<Rightarrow> string \<Rightarrow> (int, 'g app_world) cmd" where
  "store_user sy i f now =
     (case (i, uf_password f) of
        (Some existing_id, Some raw_password) \<Rightarrow>
          bindc (ensure (\<not> length (trim raw_password) < 6) short_password) (\<lambda>_.
          bindc (hash_new_password sy (trim raw_password)) (\<lambda>password_hash.
          bindc (exec sy (''Falha ao atualizar usu'' @ u_aacute @ ''rio'')
              (update_user sy existing_id (\<lambda>u. (apply_form f now u)\<lparr>us_senha_hash := password_hash\<rparr>))) (\<lambda>_.
          ret existing_id)))
      | (Some existing_id, None) \<Rightarrow>
          bindc (exec sy (''Falha ao atualizar usu'' @ u_aacute @ ''rio'') (update_user sy existing_id (apply_form f now))) (\<lambda>_.
          ret existing_id)
      | (None, password) \<Rightarrow>
          bindc (lift (ok_or (''Informe a senha do novo usu'' @ u_aacute @ ''rio.'') password)) (\<lambda>raw_password.
          bindc (ensure (\<not> length (trim raw_password) < 6) short_password) (\<lambda>_.
          bindc (hash_new_password sy (trim raw_password)) (\<lambda>password_hash.
          bindc (exec sy (''Falha ao inserir usu'' @ u_aacute @ ''rio'') (insert_user sy (new_user f password_hash now))) (\<lambda>_ w.
          (Ok (db_seq w ''usuarios''), w))))))"

definition insert_profile_link :: "'g app_sys \<Rightarrow> vinculo \<Rightarrow> 'g app_world \<Rightarrow> ('g app_world, string) result" where
  "insert_profile_link sy l w =
     and_then (checked sy ''usuarios_perfis.usuario_id, usuarios_perfis.perfil_id''
         (\<lambda>w. (vi_usuario_id l, vi_alvo_id l) \<notin> set (map (\<lambda>l. (vi_usuario_id l, vi_alvo_id l)) (db_usuarios_perfis w))) w)
       (\<lambda>w. and_then (checked sy ''usuarios_perfis'' (\<lambda>w. vi_usuario_id l \<in> set (map us_id (db_usuarios w)) \<and>
           vi_alvo_id l \<in> set (map pf_id (db_perfis w))) w)
       (\<lambda>w. Ok (w\<lparr>db_usuarios_perfis := db_usuarios_perfis w @ [l]\<rparr>)))"

definition insert_company_link :: "'g app_sys \<Rightarrow> vinculo \<Rightarrow> 'g app_world \<Rightarrow> ('g app_world, string) result" where
  "insert_company_link sy l w =
     and_then (checked sy ''usuarios_empresas.usuario_id, usuarios_empresas.empresa_id''
         (\<lambda>w. (vi_usuario_id l, vi_alvo_id l) \<notin> set (map (\<lambda>l. (vi_usuario_id l, vi_alvo_id l)) (db_usuarios_empresas w))) w)
       (\<lambda>w. and_then (checked sy ''usuarios_empresas'' (\<lambda>w. vi_usuario_id l \<in> set (map us_id (db_usuarios w)) \<and>
           vi_alvo_id l \<in> set (map em_id (db_empresas w))) w)
       (\<lambda>w. Ok (w\<lparr>db_usuarios_empresas := db_usuarios_empresas w @ [l]\<rparr>)))"

definition store_links :: "'g app_sys \<Rightarrow> int \<Rightarrow> user_form \<Rightarrow> string \<Rightarrow> (unit, 'g app_world) cmd" where
  "store_links sy uid f now =
     bindc (exec sy (''Falha ao limpar perfis do usu'' @ u_aacute @ ''rio'')
         (\<lambda>w. Ok (w\<lparr>db_usuarios_perfis := filter (\<lambda>l. vi_usuario_id l \<noteq> uid) (db_usuarios_perfis w)\<rparr>))) (\<lambda>_.
     bindc (exec sy (''Falha ao limpar empresas do usu'' @ u_aacute @ ''rio'')
         (\<lambda>w. Ok (w\<lparr>db_usuarios_empresas := filter (\<lambda>l. vi_usuario_id l \<noteq> uid) (db_usuarios_empresas w)\<rparr>))) (\<lambda>_.
     bindc (each (\<lambda>pid. exec sy (''Falha ao vincular perfil ao usu'' @ u_aacute @ ''rio'')
         (insert_profile_link sy \<lparr>vi_usuario_id = uid, vi_alvo_id = pid, vi_created_at = now\<rparr>)) (uf_profile_ids f)) (\<lambda>_.
     each (\<lambda>eid. exec sy (''Falha ao vincular empresa ao usu'' @ u_aacute @ ''rio'')
         (insert_company_link sy \<lparr>vi_usuario_id = uid, vi_alvo_id = eid, vi_created_at = now\<rparr>)) (uf_empresa_ids f))))"

definition user_save :: "'g app_sys \<Rightarrow> string \<Rightarrow> json_obj \<Rightarrow> (json_obj, 'g app_world) cmd" where
  "user_save sy session_token payload =
     bindc (connect sy) (\<lambda>_.
     bindc (ensure_master sy session_token) (\<lambda>actor_id.
     let i = get_id payload in
     bindc (clock_text sy) (\<lambda>now.
     bindc (lift (read_user_form sy payload)) (\<lambda>f.
     bindc (check_user_form sy actor_id i f) (\<lambda>_.
     bindc (store_user sy i f now) (\<lambda>record_id.
     bindc (store_links sy record_id f now) (\<lambda>_.
     let payload_json = JObj [(''id'', js_int record_id), (''nome'', JStr (uf_nome f)), (''login'', JStr (uf_login f)),
           (''photo_url'', js_opt (uf_photo_url f)), (''master_user'', js_int (uf_master_user f)),
           (''administrador'', js_int (uf_administrador f)), (''ativo'', js_int (uf_ativo f))] in
     bindc (on_logs (enqueue_sync (sa_log sy) ''usuarios'' (action_word i) (Some record_id) payload_json)) (\<lambda>_.
     bindc (on_logs (write_audit (sa_log sy) ''usuarios'' (action_word i) (Some record_id)
         (JObj [(''actor_id'', js_int actor_id), (''payload'', payload_json)]))) (\<lambda>_.
     user_get sy session_token record_id)))))))))"

definition delete_user :: "int \<Rightarrow> 'g app_world \<Rightarrow> 'g app_world" where
  "delete_user uid w =
     w\<lparr>db_usuarios := filter (\<lambda>u. us_id u \<noteq> uid) (db_usuarios w),
       db_usuarios_perfis := filter (\<lambda>l. vi_usuario_id l \<noteq> uid) (db_usuarios_perfis w),
       db_usuarios_empresas := filter (\<lambda>l. vi_usuario_id l \<noteq> uid) (db_usuarios_empresas w),
       db_sessions := filter (\<lambda>s. se_usuario_id s \<noteq> uid) (db_sessions w),
       db_unlocks := filter (\<lambda>u. ul_usuario_id u \<noteq> uid) (db_unlocks w)\<rparr>"

definition active_masters :: "'g app_world \<Rightarrow> usuario list" where
  "active_masters w = filter (\<lambda>u. us_master_user u = 1 \<and> us_ativo u = 1) (db_usuarios w)"

definition user_delete :: "'g app_sys \<Rightarrow> string \<Rightarrow> int \<Rightarrow> (bool, 'g app_world) cmd" where
  "user_delete sy session_token uid =
     bindc (connect sy) (\<lambda>_.
     bindc (ensure_master sy session_token) (\<lambda>actor_id.
     bindc (ensure (actor_id \<noteq> uid) (''O usu'' @ u_aacute @ ''rio master logado n'' @ u_atilde @ ''o pode excluir a pr'' @ u_oacute @ ''pria conta.'')) (\<lambda>_.
     bindc (query sy (''Falha ao validar usu'' @ u_aacute @ ''rios master'') (\<lambda>w. length (active_masters w))) (\<lambda>master_count.
     bindc (query sy (''Falha ao validar usu'' @ u_aacute @ ''rio alvo'') (\<lambda>w. unwrap_or 0 (map_option us_master_user (find_user uid w)))) (\<lambda>target_is_master.
     bindc (ensure (\<not> (target_is_master = 1 \<and> master_count \<le> 1)) (''N'' @ u_atilde @ ''o '' @ u_eacute @ '' poss'' @ u_iacute @ ''vel excluir o '' @ u_uacute @ ''ltimo usu'' @ u_aacute @ ''rio master ativo.'')) (\<lambda>_.
     bindc (exec sy (''Falha ao limpar sess'' @ u_otilde @ ''es do usu'' @ u_aacute @ ''rio'')
         (\<lambda>w. Ok (w\<lparr>db_sessions := filter (\<lambda>s. se_usuario_id s \<noteq> uid) (db_sessions w)\<rparr>))) (\<lambda>_.
     bindc (\<lambda>w. (Ok (uid \<in> set (map us_id (db_usuarios w))), w)) (\<lambda>affected.
     bindc (exec sy (''Falha ao excluir usu'' @ u_aacute @ ''rio'') (\<lambda>w. Ok (delete_user uid w))) (\<lambda>_.
     bindc (ensure affected (''Usu'' @ u_aacute @ ''rio n'' @ u_atilde @ ''o encontrado.'')) (\<lambda>_.
     bindc (on_logs (write_audit (sa_log sy) ''usuarios'' ''delete'' (Some uid) (JObj [(''actor_id'', js_int actor_id)]))) (\<lambda>_.
     ret True)))))))))))"


end
