(* ===== verification/Access_Props.thy ===== *)
theory Access_Props
  imports Access
begin

text \<open>
  Correctness of the access commands: who may change the tables of users and profiles, the
  invariant of these tables, and what the commands do not prevent.
\<close>

subsection \<open>Operations\<close>

datatype access_op =
    PolicySave json_obj
  | ProfileSave json_obj
  | ProfileDelete int
  | UserSave json_obj
  | UserDelete int

definition forget :: "('a, 'w) cmd \<Rightarrow> (unit, 'w) cmd" where
  "forget m = bindc m (\<lambda>_. ret ())"

fun run_access :: "'g app_sys \<Rightarrow> string \<Rightarrow> access_op \<Rightarrow> (unit, 'g app_world) cmd" where
  "run_access sy tok (PolicySave payload) = forget (user_policy_save sy tok payload)"
| "run_access sy tok (ProfileSave payload) = forget (profile_save sy tok payload)"
| "run_access sy tok (ProfileDelete pid) = forget (profile_delete sy tok pid)"
| "run_access sy tok (UserSave payload) = forget (user_save sy tok payload)"
| "run_access sy tok (UserDelete uid) = forget (user_delete sy tok uid)"

subsection \<open>Authority\<close>

text \<open>A live session of an active master user.\<close>

definition master_session :: "'g app_sys \<Rightarrow> string \<Rightarrow> 'g app_world \<Rightarrow> int \<Rightarrow> bool" where
  "master_session sy tok w uid \<longleftrightarrow>
     (\<exists>s \<in> set (db_sessions w). \<exists>u \<in> set (db_usuarios w).
        se_session_token s = trim tok \<and> sa_rfc3339 sy (sa_time sy (aw_reads w)) < se_expires_at s \<and>
        se_usuario_id s = uid \<and> us_id u = uid \<and> us_master_user u = 1 \<and> us_ativo u \<noteq> 0)"

lemma first_row_set: "first_row xs = Some x \<Longrightarrow> x \<in> set xs"
  by (cases xs) auto

lemma require_session_Ok:
  assumes "require_session_by_token sy tok w = (Ok i, w')"
  shows "\<exists>s \<in> set (db_sessions w). \<exists>u \<in> set (db_usuarios w). se_session_token s = trim tok \<and>
    sa_rfc3339 sy (sa_time sy (aw_reads w)) < se_expires_at s \<and> se_usuario_id s = si_user_id i \<and>
    us_id u = si_user_id i \<and> us_ativo u \<noteq> 0 \<and> si_master_user i = (us_master_user u = 1)"
  using assms
  by (auto simp: require_session_by_token_def Let_def clock_text_def clock_def query_Ok exec_Ok ensure_Ok ret_def fail_def
      session_rows_def elim!: bindc_OkE dest!: first_row_set split: if_splits option.splits) blast

lemma ensure_master_Ok:
  assumes "ensure_master sy tok w = (Ok uid, w')"
  shows "master_session sy tok w uid"
proof -
  from assms obtain i where "require_session_by_token sy tok w = (Ok i, w')" and m: "si_master_user i" "uid = si_user_id i"
    by (auto simp: ensure_master_def ensure_Ok ret_def elim!: bindc_OkE)
  from require_session_Ok [OF this(1)] m show ?thesis by (fastforce simp: master_session_def)
qed

lemma ensure_master_core: "keeps (\<lambda>v. access_core v = c) (ensure_master sy tok)"
  unfolding ensure_master_def by (intro keeps_intros require_session_core)

interpretation master: session_guard "ensure_master sy" access_core for sy
proof
  fix tok w r w'
  assume "ensure_master sy tok w = (r, w')"
  from keepsD [OF ensure_master_core [of "access_core w"] this] show "access_core w' = access_core w" by simp
qed

text \<open>Every access command starts with the connection and the check for a master user.\<close>

lemma run_access_guarded:
  "\<exists>body. run_access sy tok op = bindc (connect sy) (\<lambda>_. bindc (ensure_master sy tok) body)"
  by (cases op)
    (auto simp: forget_def user_policy_save_def profile_save_def profile_delete_def user_save_def user_delete_def bindc_assoc Let_def)

lemma access_authorised:
  assumes "access_core (snd (run_access sy tok op w)) \<noteq> access_core w"
  shows "\<exists>uid. master_session sy tok w uid"
proof -
  obtain body where b: "run_access sy tok op = bindc (connect sy) (\<lambda>_. bindc (ensure_master sy tok) body)"
    using run_access_guarded by blast
  obtain r w' where run: "run_access sy tok op w = (r, w')" by (cases "run_access sy tok op w")
  then have "bindc (connect sy) (\<lambda>_. bindc (ensure_master sy tok) body) w = (r, w')" by (simp add: b)
  from master.change_is_authorised [OF this [unfolded connect_def]] assms run
  show ?thesis by (auto dest: ensure_master_Ok)
qed

text \<open>C29. A command on users, profiles or the login policy changes the database only if the given token belongs to an unexpired session of an active master user; otherwise nothing but activity stamps changes.\<close>

theorem access_changes_need_master:
  "access_core (snd (run_access sy tok op w)) = access_core w \<or> (\<exists>uid. master_session sy tok w uid)"
  using access_authorised by blast

subsection \<open>The invariant of the tables\<close>

definition users_ok :: "'g app_world \<Rightarrow> bool" where
  "users_ok w \<longleftrightarrow>
     distinct (map us_id (db_usuarios w)) \<and> distinct (map (\<lambda>u. to_ascii_lowercase (us_login u)) (db_usuarios w)) \<and>
     (\<forall>u \<in> set (db_usuarios w). us_id u \<le> db_seq w ''usuarios'')"

definition profiles_ok :: "'g app_world \<Rightarrow> bool" where
  "profiles_ok w \<longleftrightarrow>
     distinct (map pf_id (db_perfis w)) \<and> distinct (map (\<lambda>p. to_ascii_lowercase (pf_nome p)) (db_perfis w)) \<and>
     (\<forall>p \<in> set (db_perfis w). pf_id p \<le> db_seq w ''perfis_acesso'')"

definition permissions_ok :: "'g app_world \<Rightarrow> bool" where
  "permissions_ok w \<longleftrightarrow>
     (\<forall>q \<in> set (db_permissoes w). pp_chave q \<in> set permission_catalog_keys \<and> pp_perfil_id q \<in> pf_id ` set (db_perfis w))"

definition links_ok :: "'g app_world \<Rightarrow> bool" where
  "links_ok w \<longleftrightarrow>
     (\<forall>l \<in> set (db_usuarios_perfis w). vi_usuario_id l \<in> us_id ` set (db_usuarios w) \<and> vi_alvo_id l \<in> pf_id ` set (db_perfis w)) \<and>
     (\<forall>l \<in> set (db_usuarios_empresas w). vi_usuario_id l \<in> us_id ` set (db_usuarios w) \<and> vi_alvo_id l \<in> em_id ` set (db_empresas w))"

definition sessions_ok :: "'g app_world \<Rightarrow> bool" where
  "sessions_ok w \<longleftrightarrow>
     distinct (map se_session_token (db_sessions w)) \<and> (\<forall>s \<in> set (db_sessions w). se_usuario_id s \<in> us_id ` set (db_usuarios w))"

definition access_inv :: "'g app_world \<Rightarrow> bool" where
  "access_inv w \<longleftrightarrow> users_ok w \<and> profiles_ok w \<and> permissions_ok w \<and> links_ok w \<and> sessions_ok w"

lemmas access_inv_defs = access_inv_def users_ok_def profiles_ok_def permissions_ok_def links_ok_def sessions_ok_def

lemma access_inv_frame [simp]:
  "access_inv (w\<lparr>aw_reads := n\<rparr>) = access_inv w" "access_inv (w\<lparr>aw_uuids := n\<rparr>) = access_inv w"
  "access_inv (w\<lparr>aw_rng := g\<rparr>) = access_inv w" "access_inv (w\<lparr>aw_logs := l\<rparr>) = access_inv w"
  "access_inv (w\<lparr>db_settings := st\<rparr>) = access_inv w"
  by (simp_all add: access_inv_defs)

lemma inv_logs [keeps_intros]: "keeps access_inv (on_logs f)" "keeps access_inv (log_quietly sy i)"
  by (auto simp: keeps_def on_logs_def log_quietly_def split: prod.splits)

lemma inv_surroundings [keeps_intros]:
  "keeps access_inv (clock sy)" "keeps access_inv (clock_text sy)" "keeps access_inv (new_uuid sy)"
  "keeps access_inv (hash_new_password sy p)"
  by (auto simp: keeps_def clock_def clock_text_def bindc_def ret_def new_uuid_def hash_new_password_def split: prod.splits)

lemma touch_session_fields:
  "se_session_token (touch_session t n s) = se_session_token s" "se_usuario_id (touch_session t n s) = se_usuario_id s"
  by (simp_all add: touch_session_def)

lemma inv_touch: "access_inv w \<Longrightarrow> access_inv (w\<lparr>db_sessions := map (touch_session t n) (db_sessions w)\<rparr>)"
  by (auto simp: access_inv_defs comp_def touch_session_fields)

lemma inv_require_session [keeps_intros]: "keeps access_inv (require_session_by_token sy tok)"
  unfolding require_session_by_token_def Let_def
  by (auto intro!: keeps_intros inv_touch split: option.splits prod.splits)

lemma inv_ensure_master [keeps_intros]: "keeps access_inv (ensure_master sy tok)"
  unfolding ensure_master_def by (intro keeps_intros)

lemma inv_queries [keeps_intros]:
  "keeps access_inv (profile_get sy tok pid)" "keeps access_inv (user_get sy tok uid)" "keeps access_inv (build_auth_user sy uid)"
  unfolding profile_get_def user_get_def build_auth_user_def
  by (auto intro!: keeps_intros split: option.splits)

lemma inv_policy_save: "keeps access_inv (user_policy_save sy tok payload)"
  unfolding user_policy_save_def
  by (intro keeps_intros) (auto simp: upsert_setting_def)

lemma distinct_filter_sessions: "access_inv w \<Longrightarrow> access_inv (w\<lparr>db_sessions := filter P (db_sessions w)\<rparr>)"
  by (auto simp: access_inv_defs distinct_map_filter)

lemma distinct_filter_links:
  "access_inv w \<Longrightarrow> access_inv (w\<lparr>db_usuarios_perfis := filter P (db_usuarios_perfis w)\<rparr>)"
  "access_inv w \<Longrightarrow> access_inv (w\<lparr>db_usuarios_empresas := filter P (db_usuarios_empresas w)\<rparr>)"
  "access_inv w \<Longrightarrow> access_inv (w\<lparr>db_permissoes := filter Q (db_permissoes w)\<rparr>)"
  by (auto simp: access_inv_defs)

lemma inv_delete_profile: "access_inv w \<Longrightarrow> access_inv (delete_profile pid w)"
  by (auto simp: access_inv_defs delete_profile_def distinct_map_filter image_iff)

lemma inv_delete_user: "access_inv w \<Longrightarrow> access_inv (delete_user uid w)"
  by (auto simp: access_inv_defs delete_user_def distinct_map_filter image_iff)

lemma inv_profile_delete: "keeps access_inv (profile_delete sy tok pid)"
  unfolding profile_delete_def
  by (intro keeps_intros) (auto simp: keeps_def intro: distinct_filter_links inv_delete_profile)

lemma inv_user_delete: "keeps access_inv (user_delete sy tok uid)"
  unfolding user_delete_def
  by (intro keeps_intros) (auto simp: keeps_def intro: distinct_filter_sessions inv_delete_user)

text \<open>A check that leaves the state alone and establishes a condition for what follows.\<close>

definition checks :: "('w \<Rightarrow> bool) \<Rightarrow> (unit, 'w) cmd \<Rightarrow> bool" where
  "checks C m \<longleftrightarrow> (\<forall>w r w'. m w = (r, w') \<longrightarrow> w' = w \<and> (r = Ok () \<longrightarrow> C w))"

definition keeps_under :: "('w \<Rightarrow> bool) \<Rightarrow> ('w \<Rightarrow> bool) \<Rightarrow> ('a, 'w) cmd \<Rightarrow> bool" where
  "keeps_under C I m \<longleftrightarrow> (\<forall>w. C w \<and> I w \<longrightarrow> I (snd (m w)))"

lemma keeps_checked:
  assumes "checks C m" and "\<And>x. keeps_under C I (f x)"
  shows "keeps I (bindc m f)"
  using assms by (fastforce simp: checks_def keeps_under_def keeps_def bindc_def split: prod.splits sum.splits)

lemma keeps_under_bindc:
  assumes "keeps_under C I m" and "\<And>x. keeps I (f x)"
  shows "keeps_under C I (bindc m f)"
  using assms by (fastforce simp: keeps_under_def keeps_def bindc_def split: prod.splits sum.splits)

lemma checks_guard: "checks (\<lambda>_. b) (ensure b err)"
  by (auto simp: checks_def ensure_def ret_def fail_def)

lemma guarded_query: "checks (\<lambda>w. \<not> q w) (bindc (query sy msg q) (\<lambda>d. ensure (\<not> d) err))"
  by (auto simp: checks_def bindc_def query_def ensure_def ret_def fail_def split: option.splits)

lemma distinct_map_update:
  assumes "distinct (map k xs)" and "distinct (map f xs)"
    and "\<And>x. x \<in> set xs \<Longrightarrow> k x \<noteq> i \<Longrightarrow> f x \<noteq> v" and "\<And>x. f (g x) = v"
  shows "distinct (map f (map (\<lambda>x. if k x = i then g x else x) xs))"
  using assms
proof (induction xs)
  case (Cons x xs)
  have v: "v \<notin> f ` {y \<in> set xs. k y \<noteq> i}" using Cons.prems(3) by force
  show ?case
  proof (cases "k x = i")
    case True
    with Cons.prems(1) have other: "k y \<noteq> i" if "y \<in> set xs" for y using that by (auto simp: image_iff)
    then have "map (\<lambda>x. if k x = i then g x else x) xs = xs" by (intro map_idI) simp
    with True v other Cons.prems(2,4) show ?thesis by (auto simp: image_iff)
  next
    case False
    have "f x \<noteq> v" using Cons.prems(3) False by simp
    with False Cons show ?thesis by (auto simp: Cons.prems(4) split: if_splits)
  qed
qed simp

lemma key_bound:
  assumes "k ` set ps = k ` set qs" and "\<forall>q \<in> set qs. k q \<le> b"
  shows "\<forall>p \<in> set ps. k p \<le> b"
  using assms by (metis image_iff)

lemma inv_update_profile:
  assumes "access_inv w" and "\<not> profile_duplicate nome (Some pid) w"
    and "update_profile sy pid (\<lambda>p. p\<lparr>pf_nome := nome, pf_descricao := d, pf_perfil_master := m, pf_ativo := a, pf_updated_at := now\<rparr>) w = Ok w'"
  shows "access_inv w'"
proof -
  define ps where "ps = map (\<lambda>p. if pf_id p = pid then
    p\<lparr>pf_nome := nome, pf_descricao := d, pf_perfil_master := m, pf_ativo := a, pf_updated_at := now\<rparr> else p) (db_perfis w)"
  have "distinct (map (\<lambda>p. to_ascii_lowercase (pf_nome p)) ps)"
    unfolding ps_def using assms(1,2) by (intro distinct_map_update [where v = "to_ascii_lowercase nome"])
      (auto simp: access_inv_defs profile_duplicate_def)
  moreover have ids: "map pf_id ps = map pf_id (db_perfis w)" by (auto simp: comp_def ps_def)
  moreover from ids have img: "pf_id ` set ps = pf_id ` set (db_perfis w)" by (metis set_map)
  moreover have "\<forall>p \<in> set ps. pf_id p \<le> db_seq w ''perfis_acesso''"
    using assms(1) by (intro key_bound [OF img]) (simp add: access_inv_defs)
  moreover have "w' = w\<lparr>db_perfis := ps\<rparr>"
    using assms(3) by (auto simp: update_profile_def Let_def checked_def ps_def split: if_splits)
  ultimately show ?thesis using assms(1) by (simp add: access_inv_defs)
qed

lemma inv_insert_profile:
  assumes "access_inv w" and "\<not> profile_duplicate nome None w"
    and "insert_profile sy (\<lambda>k. \<lparr>pf_id = k, pf_nome = nome, pf_descricao = d, pf_perfil_master = m, pf_ativo = a, pf_created_at = c, pf_updated_at = u\<rparr>) w = Ok w'"
  shows "access_inv w'"
proof -
  define p where "p = \<lparr>pf_id = next_key ''perfis_acesso'' w, pf_nome = nome, pf_descricao = d, pf_perfil_master = m, pf_ativo = a, pf_created_at = c, pf_updated_at = u\<rparr>"
  have old: "\<forall>q \<in> set (db_perfis w). pf_id q < pf_id p"
    using assms(1) by (force simp: access_inv_defs next_key_def p_def)
  have fresh: "pf_id p \<notin> pf_id ` set (db_perfis w)" using old by auto
  have name: "to_ascii_lowercase (pf_nome p) \<notin> (\<lambda>q. to_ascii_lowercase (pf_nome q)) ` set (db_perfis w)"
    using assms(2) by (auto simp: profile_duplicate_def p_def)
  have w': "w' = w\<lparr>db_perfis := db_perfis w @ [p], db_seq := (db_seq w)(''perfis_acesso'' := pf_id p)\<rparr>"
    using assms(3) by (simp add: insert_profile_def Let_def checked_def p_def split: if_splits)
  have "profiles_ok w'" using assms(1) old fresh name by (auto simp: w' access_inv_def profiles_ok_def)
  moreover have "permissions_ok w'" "links_ok w'" "users_ok w'" "sessions_ok w'"
    using assms(1) by (simp_all add: w' access_inv_defs)
  ultimately show ?thesis by (simp add: access_inv_def)
qed

lemma inv_store_profile: "keeps_under (\<lambda>w. \<not> profile_duplicate nome i w) access_inv (store_profile sy i nome d m a now)"
  by (cases i)
    (auto simp: keeps_under_def store_profile_def bindc_def exec_def ret_def dest: inv_update_profile inv_insert_profile
      split: option.splits sum.splits)

lemma inv_store_permissions:
  assumes "set keys \<subseteq> set permission_catalog_keys"
  shows "keeps access_inv (store_permissions sy pid keys now)"
  unfolding store_permissions_def using assms
  by (intro keeps_intros)
    (auto intro: distinct_filter_links simp: insert_permission_def checked_def access_inv_defs subset_iff split: if_splits)

lemma checks_each: "(\<And>x. checks C' (f x)) \<Longrightarrow> checks (\<lambda>_. True) (each f xs)"
proof -
  assume f: "\<And>x. checks C' (f x)"
  have "each f xs w = (r, w') \<Longrightarrow> w' = w" for w r w'
  proof (induction xs arbitrary: r)
    case (Cons x xs)
    with f [of x] show ?case by (auto simp: bindc_def checks_def split: prod.splits sum.splits)
  qed (simp add: ret_def)
  then show ?thesis by (simp add: checks_def)
qed

lemma each_guards: "checks (\<lambda>_. \<forall>x \<in> set xs. P x) (each (\<lambda>x. ensure (P x) (err x)) xs)"
  by (induction xs) (auto simp: checks_def bindc_def ensure_def ret_def fail_def split: if_splits)

lemma bindc_after_guard: "(b \<Longrightarrow> keeps I (f ())) \<Longrightarrow> keeps I (bindc (ensure b err) f)"
  by (auto simp: ensure_def intro: keeps_intros)

lemma bindc_after_guards:
  assumes "\<forall>x \<in> set xs. P x \<Longrightarrow> keeps I (f ())"
  shows "keeps I (bindc (each (\<lambda>x. ensure (P x) (err x)) xs) f)"
  using assms by (intro keeps_checked [OF each_guards]) (auto simp: keeps_under_def keeps_def)

lemma inv_profile_save: "keeps access_inv (profile_save sy tok payload)"
proof -
  have tail: "keeps access_inv (bindc (query sy msg (profile_duplicate nome i)) (\<lambda>d. bindc (ensure (\<not> d) err) (\<lambda>_.
      bindc (store_profile sy i nome ds m a now) f)))" if "\<And>x. keeps access_inv (f x)" for msg nome i err ds m a now f
  proof -
    have "keeps access_inv (bindc (bindc (query sy msg (profile_duplicate nome i)) (\<lambda>d. ensure (\<not> d) err))
        (\<lambda>_. bindc (store_profile sy i nome ds m a now) f))"
      by (rule keeps_checked [OF guarded_query], rule keeps_under_bindc [OF inv_store_profile that])
    then show ?thesis by (simp add: bindc_assoc)
  qed
  have keys: "keeps access_inv (store_permissions sy pid (if m = (1 :: int) then all_permission_keys else ks) now)"
    if "\<forall>k \<in> set ks. k \<in> set all_permission_keys" for pid m ks now
    using that by (intro inv_store_permissions) (auto simp: sorted_permissions)
  show ?thesis
    unfolding profile_save_def Let_def
    by (intro keeps_intros bindc_after_guards tail keys) auto
qed

lemma inv_update_users:
  assumes "access_inv w" and "\<And>u. us_id (g u) = us_id u"
    and "\<forall>u \<in> set (db_usuarios w). us_id u \<noteq> uid \<longrightarrow> to_ascii_lowercase (us_login u) \<noteq> v"
    and "\<And>u. to_ascii_lowercase (us_login (g u)) = v"
  shows "access_inv (update_users g uid w)"
proof -
  define us where "us = map (\<lambda>u. if us_id u = uid then g u else u) (db_usuarios w)"
  have "distinct (map (\<lambda>u. to_ascii_lowercase (us_login u)) us)"
    unfolding us_def using assms by (intro distinct_map_update [where v = v]) (auto simp: access_inv_defs)
  moreover have ids: "map us_id us = map us_id (db_usuarios w)" by (auto simp: comp_def us_def assms(2))
  moreover from ids have img: "us_id ` set us = us_id ` set (db_usuarios w)" by (metis set_map)
  moreover have "\<forall>u \<in> set us. us_id u \<le> db_seq w ''usuarios''"
    using assms(1) by (intro key_bound [OF img]) (simp add: access_inv_defs)
  moreover have "update_users g uid w = w\<lparr>db_usuarios := us\<rparr>" by (simp add: update_users_def us_def)
  ultimately show ?thesis using assms(1) by (simp add: access_inv_defs)
qed

text \<open>Updates that leave the login alone.\<close>

lemma inv_update_users_same:
  assumes "access_inv w" and "\<And>u. us_id (g u) = us_id u" and "\<And>u. us_login (g u) = us_login u"
  shows "access_inv (update_users g uid w)"
proof -
  define us where "us = map (\<lambda>u. if us_id u = uid then g u else u) (db_usuarios w)"
  have logins: "map (\<lambda>u. to_ascii_lowercase (us_login u)) us = map (\<lambda>u. to_ascii_lowercase (us_login u)) (db_usuarios w)"
    and ids: "map us_id us = map us_id (db_usuarios w)" by (auto simp: comp_def us_def assms(2,3))
  from ids have img: "us_id ` set us = us_id ` set (db_usuarios w)" by (metis set_map)
  moreover have "\<forall>u \<in> set us. us_id u \<le> db_seq w ''usuarios''"
    using assms(1) by (intro key_bound [OF img]) (simp add: access_inv_defs)
  moreover have "update_users g uid w = w\<lparr>db_usuarios := us\<rparr>" by (simp add: update_users_def us_def)
  ultimately show ?thesis using assms(1) logins ids by (simp add: access_inv_defs)
qed

lemma inv_update_user:
  assumes "access_inv w" and "\<not> login_duplicate (uf_login f) (Some uid) w" and "update_user sy uid g w = Ok w'"
    and "\<And>u. us_id (g u) = us_id u" and "\<And>u. us_login (g u) = uf_login f"
  shows "access_inv w'"
proof -
  have "w' = update_users g uid w" using assms(3) by (auto simp: update_user_def checked_def split: if_splits)
  with assms show ?thesis
    by (auto simp: login_duplicate_def intro!: inv_update_users [where v = "to_ascii_lowercase (uf_login f)"])
qed

lemma inv_insert_user:
  assumes "access_inv w" and "\<not> login_duplicate (uf_login f) None w" and "insert_user sy (new_user f h now) w = Ok w'"
  shows "access_inv w'"
proof -
  define u where "u = new_user f h now (next_key ''usuarios'' w)"
  have old: "\<forall>v \<in> set (db_usuarios w). us_id v < us_id u"
    using assms(1) by (force simp: access_inv_defs next_key_def u_def new_user_def)
  have fresh: "us_id u \<notin> us_id ` set (db_usuarios w)" using old by auto
  have login: "to_ascii_lowercase (us_login u) \<notin> (\<lambda>v. to_ascii_lowercase (us_login v)) ` set (db_usuarios w)"
    using assms(2) by (auto simp: login_duplicate_def u_def new_user_def)
  have w': "w' = w\<lparr>db_usuarios := db_usuarios w @ [u], db_seq := (db_seq w)(''usuarios'' := us_id u)\<rparr>"
    using assms(3) by (simp add: insert_user_def Let_def checked_def u_def split: if_splits)
  have "users_ok w'" using assms(1) old fresh login by (auto simp: w' access_inv_def users_ok_def)
  moreover have "permissions_ok w'" "links_ok w'" "profiles_ok w'" "sessions_ok w'"
    using assms(1) by (simp_all add: w' access_inv_defs)
  ultimately show ?thesis by (simp add: access_inv_def)
qed

lemma login_duplicate_rng [simp]: "login_duplicate l i (w\<lparr>aw_rng := g\<rparr>) = login_duplicate l i w"
  by (simp add: login_duplicate_def)

lemma keeps_under_step:
  assumes "keeps (\<lambda>w. C w \<and> I w) m" and "\<And>x. keeps_under C I (f x)"
  shows "keeps_under C I (bindc m f)"
  using assms by (fastforce simp: keeps_under_def keeps_def bindc_def split: prod.splits sum.splits)

lemma keeps_under_exec:
  assumes "\<And>w w'. C w \<Longrightarrow> I w \<Longrightarrow> stmt w = Ok w' \<Longrightarrow> I w'" and "\<And>x. keeps I (f x)"
  shows "keeps_under C I (bindc (exec sy msg stmt) f)"
  using assms by (intro keeps_under_bindc) (auto simp: keeps_under_def exec_def split: option.splits sum.splits)

lemma keeps_result: "keeps I (\<lambda>w. (Ok (q w), w))"
  by (simp add: keeps_def)

lemma inv_store_user: "keeps_under (\<lambda>w. \<not> login_duplicate (uf_login f) i w) access_inv (store_user sy i f now)"
proof -
  have hash: "keeps (\<lambda>w. \<not> login_duplicate l i w \<and> access_inv w) (hash_new_password sy p)" for l i p
    by (auto simp: keeps_def hash_new_password_def split: prod.splits)
  have form: "us_id (apply_form f now u) = us_id u" "us_login (apply_form f now u) = uf_login f" for u
    by (simp_all add: apply_form_def)
  show ?thesis
  proof (cases i)
    case None
    then show ?thesis
      unfolding store_user_def None prod.case option.case
      by (intro keeps_under_step [OF keeps_pure(3)] keeps_under_step [OF keeps_pure(4)] keeps_under_step [OF hash]
          keeps_under_exec keeps_result) (rule inv_insert_user)
  next
    case (Some uid)
    have upd: "keeps_under (\<lambda>w. \<not> login_duplicate (uf_login f) (Some uid) w) access_inv
        (bindc (exec sy msg (update_user sy uid g)) (\<lambda>_. ret uid))"
      if "\<And>u. us_id (g u) = us_id u" "\<And>u. us_login (g u) = uf_login f" for msg g
      using that by (intro keeps_under_exec keeps_pure) (rule inv_update_user)
    show ?thesis
      unfolding store_user_def Some prod.case option.case
      by (cases "uf_password f")
        (auto simp only: option.case intro!: upd form keeps_under_step [OF keeps_pure(4)] keeps_under_step [OF hash], simp_all add: form)
  qed
qed

definition reads_only :: "('a, 'w) cmd \<Rightarrow> bool" where
  "reads_only m \<longleftrightarrow> (\<forall>w. snd (m w) = w)"

lemma reads_only_basic: "reads_only (query sy msg q)" "reads_only (ensure b err)" "reads_only (ret x)"
  by (auto simp: reads_only_def query_def ensure_def ret_def fail_def split: option.splits)

lemma reads_only_bindc: "reads_only m \<Longrightarrow> (\<And>x. reads_only (f x)) \<Longrightarrow> reads_only (bindc m f)"
  by (auto simp: reads_only_def bindc_def split: prod.splits sum.splits) (metis snd_conv)+

lemma reads_only_each: "(\<And>x. reads_only (f x)) \<Longrightarrow> reads_only (each f xs)"
  by (induction xs) (auto intro: reads_only_basic reads_only_bindc)

lemma checks_after: "reads_only m \<Longrightarrow> (\<And>x. checks C (f x)) \<Longrightarrow> checks C (bindc m f)"
  by (auto simp: reads_only_def checks_def bindc_def split: prod.splits sum.splits) (metis snd_conv)+

lemma checks_then: "checks C m \<Longrightarrow> (\<And>x. reads_only (f x)) \<Longrightarrow> checks C (bindc m f)"
  by (auto simp: reads_only_def checks_def bindc_def split: prod.splits sum.splits) (metis snd_conv)+

lemmas reads_only_intros = reads_only_basic reads_only_bindc reads_only_each

lemma check_user_form_duplicates: "checks (\<lambda>w. \<not> login_duplicate (uf_login f) i w) (check_user_form sy actor i f)"
proof -
  have dup: "checks (\<lambda>w. \<not> q w) (bindc (query sy msg q) (\<lambda>d. bindc (ensure (\<not> d) err) rest))"
    if "\<And>x. reads_only (rest x)" for msg q err and rest :: "unit \<Rightarrow> (unit, 'a app_world) cmd"
    using checks_then [OF guarded_query that] by (simp add: bindc_assoc)
  show ?thesis
    unfolding check_user_form_def load_login_min_length_def
    by (intro checks_after reads_only_basic dup) (intro reads_only_intros)
qed

lemma inv_store_links: "keeps access_inv (store_links sy uid f now)"
  unfolding store_links_def
  by (intro keeps_intros)
    (auto intro: distinct_filter_links simp: insert_profile_link_def insert_company_link_def checked_def access_inv_defs split: if_splits)

lemma inv_user_save: "keeps access_inv (user_save sy tok payload)"
  unfolding user_save_def Let_def
  by (intro keeps_intros keeps_checked [OF check_user_form_duplicates] keeps_under_bindc inv_store_user inv_store_links)

subsection \<open>Sequences of commands\<close>

datatype console_op =
    Access string access_op
  | Login string string
  | Logout string
  | Restore string
  | ChangePassword string string string

fun run_op :: "'g app_sys \<Rightarrow> console_op \<Rightarrow> (unit, 'g app_world) cmd" where
  "run_op sy (Access tok op) = run_access sy tok op"
| "run_op sy (Login login senha) = forget (auth_login sy login senha)"
| "run_op sy (Logout tok) = forget (auth_logout sy tok)"
| "run_op sy (Restore tok) = forget (auth_restore sy tok)"
| "run_op sy (ChangePassword tok old new) = forget (auth_change_password sy tok old new)"

fun run_ops :: "'g app_sys \<Rightarrow> console_op list \<Rightarrow> 'g app_world \<Rightarrow> 'g app_world" where
  "run_ops sy [] w = w"
| "run_ops sy (op # ops) w = run_ops sy ops (snd (run_op sy op w))"

lemma inv_forget: "keeps I m \<Longrightarrow> keeps I (forget m)"
  unfolding forget_def by (intro keeps_intros)

lemma inv_run_access: "keeps access_inv (run_access sy tok op)"
  by (cases op) (auto intro!: inv_forget inv_policy_save inv_profile_save inv_profile_delete inv_user_save inv_user_delete)

lemma inv_open_session: "keeps access_inv (open_session sy u)"
  unfolding open_session_def Let_def
  by (intro keeps_intros)
    (auto simp: insert_session_def checked_def access_inv_defs distinct_map_filter split: if_splits)

lemma inv_login: "keeps access_inv (auth_login sy login senha)"
  unfolding auth_login_def complete_login_def
  by (auto intro!: keeps_intros inv_open_session inv_update_users_same split: option.splits)

lemma inv_logout: "keeps access_inv (auth_logout sy tok)"
  unfolding auth_logout_def by (intro keeps_intros) (auto intro: distinct_filter_sessions)

lemma keeps_branch:
  assumes "keeps I m" "keeps I f" "\<And>x. keeps I (g x)"
  shows "keeps I (\<lambda>w. case m w of (Inl _, w') \<Rightarrow> f w' | (Inr x, w') \<Rightarrow> g x w')"
  using assms by (auto simp: keeps_def split: prod.splits sum.splits)

lemma inv_restore: "keeps access_inv (auth_restore sy tok)"
  unfolding auth_restore_def by (intro keeps_bindc keeps_connect keeps_branch) (intro keeps_intros)+

lemma inv_change_password: "keeps access_inv (auth_change_password sy tok old new)"
  unfolding auth_change_password_def
  by (auto intro!: keeps_intros inv_update_users_same split: option.splits)

lemma inv_run_op: "keeps access_inv (run_op sy op)"
  by (cases op) (auto intro!: inv_run_access inv_forget inv_login inv_logout inv_restore inv_change_password)

text \<open>C30. Along every sequence of log-ins, log-outs, password changes and access commands, failing ones included: keys are unique and below the table's counter, logins and profile names are unique up to ASCII case, permissions come from the catalogue, session tokens are unique, and no row refers to a user, profile or company that does not exist.\<close>

theorem access_tables_invariant:
  assumes "access_inv w"
  shows "access_inv (run_ops sy ops w)"
  using assms
proof (induction sy ops w rule: run_ops.induct)
  case (2 sy op ops w)
  have "access_inv (snd (run_op sy op w))" using inv_run_op [of sy op] "2.prems" by (simp add: keeps_def)
  with 2 show ?case by simp
qed simp

lemma demo_inv: "access_inv demo_app_world"
  by (simp add: access_inv_defs demo_app_defs to_ascii_lowercase_def ascii_lower_def)

theorem access_tables_invariant_witness:
  "access_inv (run_ops demo_app_sys [Login ''bob'' ''secret'', Access ''0'' (UserDelete 1)] demo_app_world)"
  by (rule access_tables_invariant [OF demo_inv])

text \<open>A database in which the master user \<open>ana\<close> has a session with the token \<open>0\<close>.\<close>

definition master_world :: "unit app_world" where
  "master_world = demo_app_world\<lparr>
     db_perfis := [\<lparr>pf_id = 1, pf_nome = ''P'', pf_descricao = None, pf_perfil_master = 0, pf_ativo = 1, pf_created_at = [], pf_updated_at = []\<rparr>],
     db_empresas := [\<lparr>em_id = 1, em_nome = ''E'', em_nome_fantasia = None, em_documento = None, em_inscricao_estadual = None,
       em_inscricao_municipal = None, em_telefone = None, em_email = None, em_responsavel_nome = None, em_responsavel_telefone = None,
       em_cep = None, em_endereco = None, em_numero = None, em_complemento = None, em_bairro = None, em_cidade = None,
       em_estado = None, em_observacoes = None, em_ativo = 1, em_created_at = [], em_updated_at = []\<rparr>],
     db_sessions := [\<lparr>se_usuario_id = 1, se_session_token = ''0'', se_created_at = [], se_expires_at = replicate 9 CHR ''1'',
       se_last_activity_at = []\<rparr>]\<rparr>"

lemma trim_zero: "trim ''0'' = ''0''"
  by (rule trim_graph) (simp_all add: graph_char_def)

lemma demo_connect: "connect demo_app_sys w = (Ok (), w)"
  by (simp add: connect_def lift_def state_db_path_def open_connection_def demo_app_sys_def)

lemma demo_nofail: "sa_fail demo_app_sys msg = None"
  by (simp add: demo_app_sys_def)

lemma demo_clock: "clock_text demo_app_sys w = (Ok (replicate 5 CHR ''1''), w\<lparr>aw_reads := Suc (aw_reads w)\<rparr>)"
  by (simp add: clock_text_def clock_def bindc_def ret_def demo_app_sys_def)

lemma demo_query: "query demo_app_sys msg q w = (Ok (q w), w)"
  by (simp add: query_def demo_nofail)

lemma demo_exec: "exec demo_app_sys msg f w = (case f w of Inl e \<Rightarrow> (Err (msg @ '': '' @ e), w) | Inr w' \<Rightarrow> (Ok (), w'))"
  by (simp add: exec_def demo_nofail)

lemma demo_stmts: "stmts demo_app_sys msgs = Ok ()"
  by (induction msgs) (simp_all add: demo_nofail)

lemma demo_listing: "listing demo_app_sys msgs q w = (Ok (q w), w)"
  by (simp add: listing_def demo_stmts)

lemma demo_master:
  assumes "db_sessions w = db_sessions master_world" and "db_usuarios w = db_usuarios master_world"
  shows "ensure_master demo_app_sys ''0'' w =
    (Ok 1, w\<lparr>aw_reads := Suc (aw_reads w), db_sessions := map (touch_session ''0'' (replicate 5 CHR ''1'')) (db_sessions w)\<rparr>)"
  using assms
  by (simp add: ensure_master_def require_session_by_token_def Let_def trim_zero bindc_def demo_clock demo_query demo_exec
      session_rows_def ensure_def ret_def master_world_def demo_app_world_def demo_user_def replicate_less)

lemma demo_log: "lg_insert_err (sa_log demo_app_sys) = None"
  by (simp add: demo_app_sys_def demo_log_ctx_def)

lemmas demo_steps = bindc_def demo_connect demo_query demo_exec demo_clock demo_listing ensure_def ret_def fail_def lift_def

lemma demo_delete: "db_usuarios (snd (run_access demo_app_sys ''0'' (UserDelete 2) master_world)) = [demo_user 1 ''ana'' 1]"
  by (simp add: user_delete_def forget_def demo_steps demo_master demo_log active_masters_def find_user_def delete_user_def
      on_logs_def write_audit_def) (simp add: master_world_def demo_app_world_def demo_user_def)

subsection \<open>Masters that disappear\<close>

definition no_active_master :: "'g app_world \<Rightarrow> bool" where
  "no_active_master w \<longleftrightarrow> (\<forall>u \<in> set (db_usuarios w). us_master_user u = 1 \<longrightarrow> us_ativo u = 0)"

text \<open>What only a master user can change.\<close>

definition master_view :: "'g app_world \<Rightarrow> (int \<times> string \<times> int \<times> int) list \<times> perfil list \<times> permissao list \<times> vinculo list \<times> vinculo list \<times> (string \<rightharpoonup> app_setting)" where
  "master_view w =
     (map (\<lambda>u. (us_id u, us_login u, us_master_user u, us_ativo u)) (db_usuarios w), db_perfis w, db_permissoes w,
      db_usuarios_perfis w, db_usuarios_empresas w, db_settings w)"

lemma no_active_master_view: "no_active_master w \<longleftrightarrow> (\<forall>(i, l, m, a) \<in> set (fst (master_view w)). m = 1 \<longrightarrow> a = 0)"
  by (auto simp: no_active_master_def master_view_def)

lemma master_view_core: "master_view (access_core w) = master_view w"
  by (simp add: access_core_def master_view_def)

lemma view_frame [simp]:
  "master_view (w\<lparr>aw_reads := n\<rparr>) = master_view w" "master_view (w\<lparr>aw_uuids := n\<rparr>) = master_view w"
  "master_view (w\<lparr>aw_rng := g\<rparr>) = master_view w" "master_view (w\<lparr>aw_logs := l\<rparr>) = master_view w"
  "master_view (w\<lparr>db_sessions := ss\<rparr>) = master_view w"
  by (simp_all add: master_view_def)

lemma view_update_users:
  assumes "\<And>u. us_id (g u) = us_id u" "\<And>u. us_login (g u) = us_login u" "\<And>u. us_master_user (g u) = us_master_user u" "\<And>u. us_ativo (g u) = us_ativo u"
  shows "master_view (update_users g uid w) = master_view w"
  by (simp add: master_view_def update_users_def assms)

lemma view_surroundings [keeps_intros]:
  "keeps (\<lambda>v. master_view v = c) (clock sy)" "keeps (\<lambda>v. master_view v = c) (clock_text sy)"
  "keeps (\<lambda>v. master_view v = c) (new_uuid sy)" "keeps (\<lambda>v. master_view v = c) (hash_new_password sy p)"
  "keeps (\<lambda>v. master_view v = c) (on_logs f)" "keeps (\<lambda>v. master_view v = c) (log_quietly sy i)"
  by (auto simp: keeps_def clock_def clock_text_def bindc_def ret_def new_uuid_def hash_new_password_def on_logs_def log_quietly_def
      split: prod.splits)

lemma view_require_session [keeps_intros]: "keeps (\<lambda>v. master_view v = c) (require_session_by_token sy tok)"
  unfolding require_session_by_token_def Let_def by (auto intro!: keeps_intros split: option.splits prod.splits)

lemma view_queries [keeps_intros]:
  "keeps (\<lambda>v. master_view v = c) (profile_get sy tok pid)" "keeps (\<lambda>v. master_view v = c) (user_get sy tok uid)"
  "keeps (\<lambda>v. master_view v = c) (build_auth_user sy uid)"
  unfolding profile_get_def user_get_def build_auth_user_def by (auto intro!: keeps_intros split: option.splits)

lemma view_login: "keeps (\<lambda>v. master_view v = c) (auth_login sy login senha)"
  unfolding auth_login_def complete_login_def open_session_def Let_def
  by (auto intro!: keeps_intros simp: insert_session_def checked_def view_update_users split: option.splits if_splits)

lemma view_logout: "keeps (\<lambda>v. master_view v = c) (auth_logout sy tok)"
  unfolding auth_logout_def by (auto intro!: keeps_intros)

lemma view_restore: "keeps (\<lambda>v. master_view v = c) (auth_restore sy tok)"
  unfolding auth_restore_def by (intro keeps_bindc keeps_connect keeps_branch) (intro keeps_intros)+

lemma view_change_password: "keeps (\<lambda>v. master_view v = c) (auth_change_password sy tok old new)"
  unfolding auth_change_password_def by (auto intro!: keeps_intros simp: view_update_users split: option.splits)

lemma view_run_op: "(\<forall>tok a. op \<noteq> Access tok a) \<Longrightarrow> keeps (\<lambda>v. master_view v = c) (run_op sy op)"
  by (cases op) (auto simp: inv_forget view_login view_logout view_restore view_change_password)

lemma locked_out:
  assumes "no_active_master w"
  shows "master_view (run_ops sy ops w) = master_view w"
  using assms
proof (induction sy ops w rule: run_ops.induct)
  case (2 sy op ops w)
  have "master_view (snd (run_op sy op w)) = master_view w"
  proof (cases "\<exists>tok a. op = Access tok a")
    case True
    then obtain tok a where op: "op = Access tok a" by blast
    have "\<not> master_session sy tok w uid" for uid
      using "2.prems" by (auto simp: master_session_def no_active_master_def)
    then show ?thesis using access_authorised [of sy tok a w] master_view_core op by (metis run_op.simps(1))
  next
    case False
    then have "keeps (\<lambda>v. master_view v = master_view w) (run_op sy op)" by (intro view_run_op) blast
    then show ?thesis by (simp add: keeps_def)
  qed
  with 2 show ?case by (simp add: no_active_master_view)
qed simp

text \<open>The table of users under the parts of \<open>user_save\<close>.\<close>

lemma users_surroundings [keeps_intros]:
  "keeps (\<lambda>v. db_usuarios v = c) (clock sy)" "keeps (\<lambda>v. db_usuarios v = c) (clock_text sy)"
  "keeps (\<lambda>v. db_usuarios v = c) (hash_new_password sy p)" "keeps (\<lambda>v. db_usuarios v = c) (on_logs f)"
  by (auto simp: keeps_def clock_def clock_text_def bindc_def ret_def hash_new_password_def on_logs_def split: prod.splits)

lemma users_require_session [keeps_intros]: "keeps (\<lambda>v. db_usuarios v = c) (require_session_by_token sy tok)"
  unfolding require_session_by_token_def Let_def by (auto intro!: keeps_intros split: option.splits prod.splits)

lemma users_parts [keeps_intros]:
  "keeps (\<lambda>v. db_usuarios v = c) (ensure_master sy tok)" "keeps (\<lambda>v. db_usuarios v = c) (check_user_form sy actor i f)"
  "keeps (\<lambda>v. db_usuarios v = c) (store_links sy uid f now)" "keeps (\<lambda>v. db_usuarios v = c) (user_get sy tok uid)"
  unfolding ensure_master_def check_user_form_def load_login_min_length_def store_links_def user_get_def
  by (auto intro!: keeps_intros simp: insert_profile_link_def insert_company_link_def checked_def split: if_splits)

lemma store_user_update:
  assumes "store_user sy (Some uid) f now w = (Ok k, w')"
  shows "\<exists>g. db_usuarios w' = db_usuarios (update_users g uid w) \<and> (\<forall>u. us_master_user (g u) = uf_master_user f \<and> us_ativo (g u) = uf_ativo f)"
proof (cases "uf_password f")
  case None
  with assms show ?thesis
    by (auto simp: store_user_def exec_Ok update_user_def checked_def ret_def update_users_def apply_form_def
        elim!: bindc_OkE split: if_splits intro!: exI [of _ "apply_form f now"])
next
  case (Some p)
  with assms obtain h w1 where "hash_new_password sy (trim p) w = (Ok h, w1)" and
    w': "w' = update_users (\<lambda>u. (apply_form f now u)\<lparr>us_senha_hash := h\<rparr>) uid w1"
    by (auto simp: store_user_def exec_Ok ensure_Ok update_user_def checked_def ret_def elim!: bindc_OkE split: if_splits)
  then have "db_usuarios w1 = db_usuarios w" using keepsD [OF users_surroundings(3)] by metis
  with w' show ?thesis
    by (intro exI [of _ "\<lambda>u. (apply_form f now u)\<lparr>us_senha_hash := h\<rparr>"]) (simp add: update_users_def apply_form_def)
qed

text \<open>A step that turns one condition into another when it succeeds.\<close>

definition establishes :: "('w \<Rightarrow> bool) \<Rightarrow> ('w \<Rightarrow> bool) \<Rightarrow> ('a, 'w) cmd \<Rightarrow> bool" where
  "establishes Q R m \<longleftrightarrow> (\<forall>w x w'. Q w \<longrightarrow> m w = (Ok x, w') \<longrightarrow> R w')"

lemma establishes_after: "keeps Q m \<Longrightarrow> (\<And>x. establishes Q R (f x)) \<Longrightarrow> establishes Q R (bindc m f)"
  by (auto simp: establishes_def elim!: bindc_OkE dest: keepsD)

lemma establishes_then: "establishes Q R m \<Longrightarrow> (\<And>x. keeps R (f x)) \<Longrightarrow> establishes Q R (bindc m f)"
  by (fastforce simp: establishes_def elim!: bindc_OkE dest: keepsD)

lemma bindc_lift_Ok: "bindc (lift (Ok x)) f = f x"
  by (rule ext) (simp add: bindc_def lift_def)

lemma keeps_function: "(\<And>c. keeps (\<lambda>v. p v = c) m) \<Longrightarrow> keeps (\<lambda>v. R (p v)) m"
  by (simp add: keeps_def)

definition updated_row :: "int \<Rightarrow> user_form \<Rightarrow> usuario list \<Rightarrow> usuario list \<Rightarrow> bool" where
  "updated_row uid f us us' \<longleftrightarrow>
     (\<exists>g. us' = map (\<lambda>u. if us_id u = uid then g u else u) us \<and> (\<forall>u. us_master_user (g u) = uf_master_user f \<and> us_ativo (g u) = uf_ativo f))"

lemma user_save_update:
  assumes "user_save sy tok payload w = (Ok j, w')" and "get_id payload = Some uid" and "read_user_form sy payload = Ok f"
  shows "updated_row uid f (db_usuarios w) (db_usuarios w')"
proof -
  have "establishes (\<lambda>v. db_usuarios v = us) (\<lambda>v. updated_row uid f us (db_usuarios v)) (store_user sy (Some uid) f now)" for us now
    using store_user_update by (fastforce simp: establishes_def updated_row_def update_users_def)
  note step = this
  have "establishes (\<lambda>v. db_usuarios v = us) (\<lambda>v. updated_row uid f us (db_usuarios v)) (user_save sy tok payload)" for us
    unfolding user_save_def Let_def assms(2,3) bindc_lift_Ok
    by (intro establishes_after [OF keeps_connect] establishes_after [OF users_parts(1)] establishes_after [OF users_surroundings(2)]
        establishes_after [OF users_parts(2)] establishes_then [OF step]
        keeps_function [where p = db_usuarios and R = "updated_row uid f us"] keeps_intros)
  with assms(1) show ?thesis by (simp add: establishes_def)
qed

text \<open>C37. A master user may withdraw its own role. When the only active master is saved without it, no active master is left, and from then on no sequence of log-ins, restored sessions, log-outs, changes of passwords and commands on users, profiles and the policy (those of \<^verbatim>\<open>commands/access.rs\<close>) changes the users' logins and roles, the profiles, permissions, links or the policy. The commands that check no session are not among these: the generic \<open>entity_save\<close> can still write the role (\<open>Http_Props.entity_save_escalates\<close>).\<close>

theorem access_commands_stay_locked:
  assumes "user_save sy tok payload w = (Ok j, w')" and "get_id payload = Some uid" and "read_user_form sy payload = Ok f"
    and "uf_master_user f \<noteq> 1" and "\<forall>u \<in> set (db_usuarios w). us_master_user u = 1 \<and> us_ativo u \<noteq> 0 \<longrightarrow> us_id u = uid"
  shows "no_active_master w' \<and> master_view (run_ops sy ops w') = master_view w'"
proof -
  from user_save_update [OF assms(1-3)] assms(4,5) have "no_active_master w'"
    by (auto simp: no_active_master_def updated_row_def split: if_splits)
  then show ?thesis using locked_out by blast
qed

definition demote_ana :: json_obj where
  "demote_ana =
     [(''id'', js_int 1), (''nome'', JStr ''Ana''), (''login'', JStr ''ana''), (''profile_ids'', JArr [js_int 1]),
      (''empresa_ids'', JArr [js_int 1])]"

lemma demo_names: "trim ''Ana'' = ''Ana''" "trim ''ana'' = ''ana''"
  by (simp_all add: trim_graph graph_char_def)

definition ana_form :: user_form where
  "ana_form =
     \<lparr>uf_nome = ''Ana'', uf_login = ''ana'', uf_email = None, uf_telefone = None, uf_cargo = None, uf_observacoes = None,
      uf_photo_url = None, uf_master_user = 0, uf_administrador = 0, uf_senha_provisoria = 0, uf_ativo = 1, uf_password = None,
      uf_profile_ids = [1], uf_empresa_ids = [1]\<rparr>"

lemma demote_form: "get_id demote_ana = Some 1" "read_user_form demo_app_sys demote_ana = Ok ana_form"
  by (simp_all add: demote_ana_def ana_form_def get_id_def get_i64_def js_int_def read_user_form_def get_string_def
      obj_get_def demo_names normalize_login_def demo_app_sys_def to_ascii_lowercase_def ascii_lower_def get_bool01_def
      get_i64_array_def List.map_filter_def)

lemma demo_check:
  assumes "db_settings w = Map.empty" "db_usuarios w = db_usuarios master_world" "db_perfis w = db_perfis master_world"
    "db_empresas w = db_empresas master_world"
  shows "check_user_form demo_app_sys 1 (Some 1) ana_form w = (Ok (), w)"
  using assms
  by (simp add: check_user_form_def load_login_min_length_def demo_steps login_min_length_def clamp_login_min_length_def ana_form_def
      login_duplicate_def master_world_def demo_app_world_def demo_user_def to_ascii_lowercase_def ascii_lower_def)

lemma demo_store_user:
  assumes "db_usuarios w = db_usuarios master_world"
  shows "store_user demo_app_sys (Some 1) ana_form now w = (Ok 1, update_users (apply_form ana_form now) 1 w)"
  using assms
  by (simp add: store_user_def demo_steps ana_form_def update_user_def checked_def update_users_def apply_form_def
      master_world_def demo_app_world_def demo_user_def)

lemma demo_store_links:
  assumes "map us_id (db_usuarios w) = [1, 2]" "db_perfis w = db_perfis master_world" "db_empresas w = db_empresas master_world"
    "db_usuarios_perfis w = []" "db_usuarios_empresas w = []"
  shows "\<exists>ps es. store_links demo_app_sys 1 ana_form now w = (Ok (), w\<lparr>db_usuarios_perfis := ps, db_usuarios_empresas := es\<rparr>)"
proof -
  have "1 \<in> set (map us_id (db_usuarios w))" using assms(1) by simp
  then have "1 \<in> us_id ` set (db_usuarios w)" by simp
  then show ?thesis using assms(2-)
    by (simp add: store_links_def demo_steps ana_form_def insert_profile_link_def insert_company_link_def checked_def
        master_world_def demo_app_world_def) blast
qed

lemma demo_get:
  assumes "db_usuarios w = map (\<lambda>u. if us_id u = 1 then g u else u) (db_usuarios master_world)" "\<And>u. us_id (g u) = us_id u" "\<And>u. us_ativo (g u) = 1"
    and "db_sessions w = map (touch_session ''0'' now) (db_sessions master_world)"
  shows "\<exists>j w'. user_get demo_app_sys ''0'' 1 w = (Ok j, w')"
  using assms
  by (simp add: user_get_def require_session_by_token_def Let_def trim_zero demo_steps session_rows_def touch_session_def
      find_user_def master_world_def demo_app_world_def demo_user_def replicate_less)

lemma demote_saved: "\<exists>j w'. user_save demo_app_sys ''0'' demote_ana master_world = (Ok j, w')"
proof -
  define now where "now = replicate 5 (CHR ''1'')"
  define w1 where "w1 = master_world\<lparr>aw_reads := Suc (Suc (aw_reads master_world)),
    db_sessions := map (touch_session ''0'' now) (db_sessions master_world)\<rparr>"
  define w2 where "w2 = update_users (apply_form ana_form now) 1 w1"
  obtain ps es where links: "store_links demo_app_sys 1 ana_form now w2 = (Ok (), w2\<lparr>db_usuarios_perfis := ps, db_usuarios_empresas := es\<rparr>)"
    using demo_store_links [of w2 now]
    by (auto simp: w2_def w1_def update_users_def master_world_def demo_app_world_def demo_user_def apply_form_def)
  have get: "\<exists>j w'. user_get demo_app_sys ''0'' 1 (w2\<lparr>db_usuarios_perfis := ps, db_usuarios_empresas := es, aw_logs := l\<rparr>) = (Ok j, w')" for l
    by (rule demo_get [of _ "apply_form ana_form now" now]) (simp_all add: w2_def w1_def update_users_def apply_form_def ana_form_def)
  have check: "check_user_form demo_app_sys 1 (Some 1) ana_form w1 = (Ok (), w1)"
    by (rule demo_check) (simp_all add: w1_def master_world_def demo_app_world_def)
  have store: "store_user demo_app_sys (Some 1) ana_form now w1 = (Ok 1, w2)"
    unfolding w2_def by (rule demo_store_user) (simp add: w1_def)
  have start: "ensure_master demo_app_sys ''0'' master_world = (Ok 1, w1\<lparr>aw_reads := Suc (aw_reads master_world)\<rparr>)"
    "clock_text demo_app_sys (w1\<lparr>aw_reads := Suc (aw_reads master_world)\<rparr>) = (Ok now, w1)"
    by (simp_all add: demo_master demo_clock w1_def now_def)
  show ?thesis
    using get
    by (simp add: user_save_def bindc_def demo_connect start lift_def demote_form Let_def check store links on_logs_def enqueue_sync_def
        write_audit_def demo_log)
qed

theorem access_commands_stay_locked_witness:
  "\<exists>j w'. user_save demo_app_sys ''0'' demote_ana master_world = (Ok j, w') \<and> no_active_master w' \<and>
     master_view (run_ops demo_app_sys [Login ''ana'' ''secret'', Access ''0'' (UserDelete 2)] w') = master_view w'"
proof -
  obtain j w' where s: "user_save demo_app_sys ''0'' demote_ana master_world = (Ok j, w')" using demote_saved by blast
  have "uf_master_user ana_form \<noteq> 1" by (simp add: ana_form_def)
  moreover have "\<forall>u \<in> set (db_usuarios master_world). us_master_user u = 1 \<and> us_ativo u \<noteq> 0 \<longrightarrow> us_id u = 1"
    by (simp add: master_world_def demo_app_world_def demo_user_def)
  ultimately show ?thesis using access_commands_stay_locked [OF s demote_form] s by blast
qed

text \<open>Deleting a user never removes the master who asks for it: after a successful deletion some active master is left.\<close>

theorem user_delete_keeps_master:
  assumes "user_delete sy tok uid w = (Ok b, w')"
  shows "\<not> no_active_master w' \<and> uid \<notin> us_id ` set (db_usuarios w') \<and> uid \<in> us_id ` set (db_usuarios w)"
proof -
  from assms obtain actor w1 where m: "ensure_master sy tok w = (Ok actor, w1)" and a: "actor \<noteq> uid"
    and in1: "uid \<in> us_id ` set (db_usuarios w1)" and w': "db_usuarios w' = filter (\<lambda>u. us_id u \<noteq> uid) (db_usuarios w1)"
    by (auto simp: user_delete_def ensure_Ok query_Ok exec_Ok ret_def delete_user_def on_logs_def
        elim!: bindc_OkE dest!: connect_Ok split: prod.splits)
  have "db_usuarios w1 = db_usuarios w" using keepsD [OF users_parts(1) m] by metis
  moreover obtain u where "u \<in> set (db_usuarios w)" "us_id u = actor" "us_master_user u = 1" "us_ativo u \<noteq> 0"
    using ensure_master_Ok [OF m] by (auto simp: master_session_def)
  ultimately show ?thesis using a in1 w' by (auto simp: no_active_master_def)
qed

theorem user_delete_keeps_master_witness:
  "\<exists>b w'. user_delete demo_app_sys ''0'' 2 master_world = (Ok b, w') \<and> \<not> no_active_master w'"
proof -
  have "\<exists>b w'. user_delete demo_app_sys ''0'' 2 master_world = (Ok b, w')"
    by (simp add: user_delete_def demo_steps demo_master demo_log active_masters_def find_user_def delete_user_def
        on_logs_def write_audit_def) (auto simp: master_world_def demo_app_world_def demo_user_def intro: exI [of _ True])
  with user_delete_keeps_master show ?thesis by blast
qed

subsection \<open>Saving without a transaction\<close>

lemma link_steps:
  assumes "each (\<lambda>pid. exec sy msg (insert_profile_link sy \<lparr>vi_usuario_id = uid, vi_alvo_id = pid, vi_created_at = now\<rparr>)) ps w = (r, w')"
  shows "db_usuarios w' = db_usuarios w \<and> db_usuarios_empresas w' = db_usuarios_empresas w \<and>
    (r = Ok () \<longrightarrow> distinct ps \<and> (\<forall>pid \<in> set ps. \<forall>l \<in> set (db_usuarios_perfis w). \<not> (vi_usuario_id l = uid \<and> vi_alvo_id l = pid)))"
  using assms
proof (induction ps arbitrary: w)
  case (Cons pid ps)
  let ?l = "\<lparr>vi_usuario_id = uid, vi_alvo_id = pid, vi_created_at = now\<rparr>"
  obtain r1 w1 where e: "exec sy msg (insert_profile_link sy ?l) w = (r1, w1)" by (meson surj_pair)
  show ?case
  proof (cases r1)
    case (Inl err)
    with e Cons.prems have "r = Err err" "w' = w1" by (auto simp: bindc_def)
    moreover from e Inl have "w1 = w" by (auto simp: exec_def split: option.splits sum.splits)
    ultimately show ?thesis by simp
  next
    case (Inr u)
    with e have ins: "insert_profile_link sy ?l w = Ok w1" by (auto simp: exec_Ok)
    then have w1: "w1 = w\<lparr>db_usuarios_perfis := db_usuarios_perfis w @ [?l]\<rparr>"
      and new: "(uid, pid) \<notin> (\<lambda>l. (vi_usuario_id l, vi_alvo_id l)) ` set (db_usuarios_perfis w)"
      by (auto simp: insert_profile_link_def checked_def split: if_splits)
    from e Inr Cons.prems have "each (\<lambda>pid. exec sy msg (insert_profile_link sy
        \<lparr>vi_usuario_id = uid, vi_alvo_id = pid, vi_created_at = now\<rparr>)) ps w1 = (r, w')" by (simp add: bindc_def)
    from Cons.IH [OF this] new show ?thesis by (force simp: w1)
  qed
qed (auto simp: ret_def)

text \<open>The links of a user are rewritten without a transaction: when a form names a profile twice, the links of the user to companies are gone, the row of the user stays as just written, and the command reports an error.\<close>

theorem links_not_atomic:
  assumes "\<And>msg. sa_fail sy msg = None" and "\<not> distinct (uf_profile_ids f)"
  shows "\<exists>err w'. store_links sy uid f now w = (Err err, w') \<and> db_usuarios w' = db_usuarios w \<and>
    db_usuarios_empresas w' = filter (\<lambda>l. vi_usuario_id l \<noteq> uid) (db_usuarios_empresas w)"
proof -
  define v where "v = w\<lparr>db_usuarios_perfis := filter (\<lambda>l. vi_usuario_id l \<noteq> uid) (db_usuarios_perfis w),
    db_usuarios_empresas := filter (\<lambda>l. vi_usuario_id l \<noteq> uid) (db_usuarios_empresas w)\<rparr>"
  obtain r w' where run: "each (\<lambda>pid. exec sy (''Falha ao vincular perfil ao usu'' @ u_aacute @ ''rio'')
      (insert_profile_link sy \<lparr>vi_usuario_id = uid, vi_alvo_id = pid, vi_created_at = now\<rparr>)) (uf_profile_ids f) v = (r, w')"
    by (meson surj_pair)
  from link_steps [OF run] assms(2) obtain err where "r = Err err" "db_usuarios w' = db_usuarios w"
    "db_usuarios_empresas w' = filter (\<lambda>l. vi_usuario_id l \<noteq> uid) (db_usuarios_empresas w)"
    by (cases r) (auto simp: v_def)
  with run show ?thesis by (simp add: store_links_def exec_def assms(1) bindc_def v_def)
qed

theorem links_not_atomic_witness:
  "\<exists>err w'. store_links demo_app_sys 1 (ana_form\<lparr>uf_profile_ids := [1, 1]\<rparr>) ''now'' (master_world\<lparr>db_usuarios_empresas :=
     [\<lparr>vi_usuario_id = 1, vi_alvo_id = 1, vi_created_at = []\<rparr>]\<rparr>) = (Err err, w') \<and> db_usuarios_empresas w' = []"
  using links_not_atomic [OF demo_nofail, of "ana_form\<lparr>uf_profile_ids := [1, 1]\<rparr>" 1 "''now''" "master_world\<lparr>db_usuarios_empresas :=
     [\<lparr>vi_usuario_id = 1, vi_alvo_id = 1, vi_created_at = []\<rparr>]\<rparr>"] by auto

end
