(* ===== verification/Tunnel.thy ===== *)
theory Tunnel
  imports Json_Value
begin

text \<open>
  The native tunnel: the data model (\<^verbatim>\<open>tunnara-types\<close>, \<^verbatim>\<open>tunnara-protocol\<close>), the tunnel table of
  the agent (\<^verbatim>\<open>tunnara-agent-core\<close>), the C interface, the command-line agent, the coordinator with
  its registry and control channel, and the handshake of the relay. The JSON codec, HTTP and the
  generator of identifiers are parameters.
\<close>

subsection \<open>Data model\<close>

type_synonym uuid = "128 word"

datatype tunnel_protocol = Http | Https | Tcp | Udp | PrivateNetwork

datatype agent_status = Provisioning | Online | Offline | Revoked

record agent_registration =
  ag_name :: string
  ag_platform :: string
  ag_architecture :: string
  ag_version :: string
  ag_public_key :: string

record registered_agent =
  ra_id :: uuid
  ra_session_token :: string
  ra_heartbeat_interval_seconds :: "64 word"

record tunnel_definition =
  td_id :: uuid
  td_name :: string
  td_protocol :: tunnel_protocol
  td_target_host :: string
  td_target_port :: "16 word"
  td_public_hostname :: "string option"
  td_public_port :: "16 word option"

datatype control_message =
    Hello uuid string
  | Heartbeat uuid "64 word"
  | ConfigureTunnel tunnel_definition
  | CloseTunnel uuid string
  | Ack uuid
  | ErrorMessage string string

record control_envelope =
  ce_id :: uuid
  ce_correlation_id :: "uuid option"
  ce_message :: control_message

subsection \<open>Tunnels of an agent\<close>

text \<open>
  \<^verbatim>\<open>HashMap<Uuid, TunnelDefinition>\<close>. The order in which \<open>runtime_list\<close> reports is unspecified in
  the program, so the theorems speak of the listed set.
\<close>

type_synonym agent_runtime = "(uuid \<times> tunnel_definition) list"

definition runtime_apply :: "tunnel_definition \<Rightarrow> agent_runtime \<Rightarrow> agent_runtime" where
  "runtime_apply tunnel m = hm_insert (td_id tunnel) tunnel m"

definition runtime_remove :: "uuid \<Rightarrow> agent_runtime \<Rightarrow> agent_runtime" where
  "runtime_remove i m = hm_remove i m"

definition runtime_list :: "agent_runtime \<Rightarrow> tunnel_definition list" where
  "runtime_list m = map snd m"

subsection \<open>C interface\<close>

text \<open>A C string is \<open>None\<close> for the null pointer, or the bytes from the pointer on.\<close>

definition c_str :: "char list \<Rightarrow> string" where
  "c_str mem = takeWhile (\<lambda>c. c \<noteq> CHR 0x00) mem"

definition tunnara_validate_token :: "char list option \<Rightarrow> bool" where
  "tunnara_validate_token token = (case token of None \<Rightarrow> False | Some mem \<Rightarrow> 16 \<le> length (c_str mem))"

subsection \<open>Coordinator\<close>

text \<open>
  \<open>co_uuid\<close> is \<^verbatim>\<open>Uuid::new_v4\<close> at each call, \<open>co_of_json\<close> and \<open>co_to_json\<close> the codec of
  \<open>control_envelope\<close> (its errors by their text), \<open>co_json_text\<close> the text of a JSON value.
\<close>

record coordinator_sys =
  co_uuid :: "nat \<Rightarrow> uuid"
  co_uuid_text :: "uuid \<Rightarrow> string"
  co_of_json :: "string \<Rightarrow> (control_envelope, string) result"
  co_to_json :: "control_envelope \<Rightarrow> (string, string) result"
  co_json_text :: "json \<Rightarrow> string"

record coordinator =
  co_agents :: "(uuid \<times> agent_registration) list"
  co_uuids :: nat

definition draw_uuid :: "coordinator_sys \<Rightarrow> nat \<Rightarrow> uuid \<times> nat" where
  "draw_uuid sy n = (co_uuid sy n, Suc n)"

definition register :: "coordinator_sys \<Rightarrow> agent_registration \<Rightarrow> coordinator \<Rightarrow> (nat \<times> registered_agent) \<times> coordinator" where
  "register sy payload st =
     (let (i, n) = draw_uuid sy (co_uuids st);
          agents = hm_insert i payload (co_agents st);
          (token, n') = draw_uuid sy n in
      ((201, \<lparr>ra_id = i, ra_session_token = co_uuid_text sy token, ra_heartbeat_interval_seconds = 20\<rparr>),
       st\<lparr>co_agents := agents, co_uuids := n'\<rparr>))"

definition envelope_new :: "coordinator_sys \<Rightarrow> control_message \<Rightarrow> nat \<Rightarrow> control_envelope \<times> nat" where
  "envelope_new sy message n =
     (let (i, n') = draw_uuid sy n in (\<lparr>ce_id = i, ce_correlation_id = None, ce_message = message\<rparr>, n'))"

definition control_answer :: "coordinator_sys \<Rightarrow> string \<Rightarrow> nat \<Rightarrow> string \<times> nat" where
  "control_answer sy text n =
     (let (response, n') =
            (case co_of_json sy text of
               Inl err \<Rightarrow> (Err err, n)
             | Inr envelope \<Rightarrow>
                 (let (e, n') = envelope_new sy (Ack (ce_id envelope)) n in
                  (Ok (e\<lparr>ce_correlation_id := Some (ce_id envelope)\<rparr>), n'))) in
      (case and_then response (co_to_json sy) of
         Inl err \<Rightarrow> co_json_text sy (JObj [(''error'', JStr err)])
       | Inr payload \<Rightarrow> payload, n'))"

text \<open>What a WebSocket delivers: a message, or a transport error; the list ends with the stream.\<close>

datatype frame = TextFrame string | CloseFrame | OtherFrame | FrameError

record control_channel =
  ch_sent :: "string list"
  ch_uuids :: nat

fun handle_control :: "coordinator_sys \<Rightarrow> (nat \<Rightarrow> bool) \<Rightarrow> frame list \<Rightarrow> control_channel \<Rightarrow> control_channel" where
  "handle_control sy send_ok [] ch = ch"
| "handle_control sy send_ok (FrameError # fs) ch = ch"
| "handle_control sy send_ok (CloseFrame # fs) ch = ch"
| "handle_control sy send_ok (OtherFrame # fs) ch = handle_control sy send_ok fs ch"
| "handle_control sy send_ok (TextFrame text # fs) ch =
     (case control_answer sy text (ch_uuids ch) of
        (payload, n) \<Rightarrow>
          (if send_ok (length (ch_sent ch))
           then handle_control sy send_ok fs (ch\<lparr>ch_sent := ch_sent ch @ [payload], ch_uuids := n\<rparr>)
           else ch\<lparr>ch_uuids := n\<rparr>))"

subsection \<open>Agent\<close>

record http_sys =
  ht_os :: string
  ht_arch :: string
  ht_version :: string
  ht_post :: "string \<Rightarrow> agent_registration \<Rightarrow> (nat \<times> string, string) result"
  ht_status_error :: "nat \<Rightarrow> string"

definition agent_payload :: "http_sys \<Rightarrow> string \<Rightarrow> string \<Rightarrow> agent_registration" where
  "agent_payload ht name public_key =
     \<lparr>ag_name = name, ag_platform = ht_os ht, ag_architecture = ht_arch ht, ag_version = ht_version ht, ag_public_key = public_key\<rparr>"

definition register_endpoint :: "string \<Rightarrow> string" where
  "register_endpoint coordinator = trim_end_matches (CHR ''/'') coordinator @ ''/v1/agents/register''"

text \<open>\<^verbatim>\<open>error_for_status\<close> turns the statuses from 400 on into errors. The result is the printed text.\<close>

definition agent_register :: "http_sys \<Rightarrow> string \<Rightarrow> string \<Rightarrow> string \<Rightarrow> (string, string) result" where
  "agent_register ht coordinator name public_key =
     and_then (ht_post ht (register_endpoint coordinator) (agent_payload ht name public_key)) (\<lambda>(status, body).
       if 400 \<le> status \<and> status < 600 then Err (ht_status_error ht status) else Ok body)"

subsection \<open>Relay\<close>

text \<open>
  The bytes of a connection as the pieces that arrive; an empty piece is the end of the stream, and
  so is the end of the list. \<^verbatim>\<open>read_exact\<close> fills its buffer from as many pieces as it needs.
\<close>

fun read_exact :: "nat \<Rightarrow> char list list \<Rightarrow> (char list \<times> char list list) option" where
  "read_exact 0 pieces = Some ([], pieces)"
| "read_exact (Suc n) [] = None"
| "read_exact (Suc n) (p # pieces) =
     (if p = [] then None
      else if length p \<le> Suc n
      then map_option (\<lambda>(bytes, rest). (p @ bytes, rest)) (read_exact (Suc n - length p) pieces)
      else Some (take (Suc n) p, drop (Suc n) p # pieces))"

text \<open>The task of a connection: the bytes it writes before it drops the connection.\<close>

definition relay_connection :: "char list list \<Rightarrow> char list" where
  "relay_connection pieces =
     (case read_exact 8 pieces of
        Some (preface, _) \<Rightarrow> (if preface = ''TUNNARA1'' then ''OK'' @ [CHR 0x0A] else [])
      | None \<Rightarrow> [])"

text \<open>
  The accept loop over the results of \<^verbatim>\<open>accept\<close>. The first component collects what the tasks write;
  the second is the error with which the relay ends, if it does.
\<close>

fun relay_loop :: "(char list list, string) result list \<Rightarrow> char list list \<times> string option" where
  "relay_loop [] = ([], None)"
| "relay_loop (Inl err # accepts) = ([], Some err)"
| "relay_loop (Inr pieces # accepts) =
     (case relay_loop accepts of (written, e) \<Rightarrow> (relay_connection pieces # written, e))"

subsection \<open>The table of tunnels\<close>

datatype tunnel_op = Apply tunnel_definition | Remove uuid

fun runtime_run :: "agent_runtime \<Rightarrow> tunnel_op list \<Rightarrow> agent_runtime" where
  "runtime_run m [] = m"
| "runtime_run m (Apply t # ops) = runtime_run (runtime_apply t m) ops"
| "runtime_run m (Remove i # ops) = runtime_run (runtime_remove i m) ops"

fun store_op :: "tunnel_op \<Rightarrow> (uuid, tunnel_definition) store_cmd" where
  "store_op (Apply t) = Put (td_id t) t"
| "store_op (Remove i) = Del i"

text \<open>What the operations say about an identifier: the last one that names it counts.\<close>

fun current_tunnel :: "tunnel_op list \<Rightarrow> uuid \<Rightarrow> tunnel_definition option" where
  "current_tunnel [] i = None"
| "current_tunnel (op # ops) i =
     (if \<exists>p \<in> set ops. cmd_key (store_op p) = i then current_tunnel ops i
      else case op of Apply t \<Rightarrow> if td_id t = i then Some t else None | Remove _ \<Rightarrow> None)"

lemma runtime_run_store: "runtime_run m ops = store_run hm_insert hm_remove m (map store_op ops)"
  by (induction m ops rule: runtime_run.induct) (simp_all add: runtime_apply_def runtime_remove_def)

lemma absent_current: "\<not> (\<exists>p \<in> set ops. cmd_key (store_op p) = i) \<Longrightarrow> current_tunnel ops i = None"
proof (induction ops)
  case (Cons op ops)
  then show ?case by (cases op) (auto simp: cmd_key_def)
qed simp

lemma store_abs_current:
  "store_abs f (map store_op ops) i =
     (if \<exists>p \<in> set ops. cmd_key (store_op p) = i then current_tunnel ops i else f i)"
proof (induction ops arbitrary: f)
  case (Cons op ops)
  show ?case
  proof (cases "\<exists>p \<in> set ops. cmd_key (store_op p) = i")
    case True
    with Cons.IH show ?thesis by (cases op) (auto split: option.split)
  next
    case False
    with Cons.IH absent_current [OF False] show ?thesis by (cases op) (auto simp: cmd_key_def)
  qed
qed simp

lemma runtime_keys:
  assumes "\<forall>(i, t) \<in> set m. i = td_id t"
  shows "\<forall>(i, t) \<in> set (runtime_run m ops). i = td_id t"
  using assms
  by (induction m ops rule: runtime_run.induct) (auto simp: runtime_apply_def runtime_remove_def hm_insert_def hm_remove_def)

lemma no_tunnels_wf: "hm_wf []"
  by (simp add: hm_wf_def)

text \<open>C28. After any sequence of configured and closed tunnels the agent lists each identifier at most once, and lists exactly the tunnels whose last mention was a configuration, with that definition.\<close>

theorem agent_tunnels_current:
  "distinct (map td_id (runtime_list (runtime_run [] ops))) \<and>
   set (runtime_list (runtime_run [] ops)) = {t. current_tunnel ops (td_id t) = Some t}"
proof -
  define m where "m = runtime_run [] ops"
  have wf: "hm_wf m" unfolding m_def runtime_run_store by (rule hm.run_inv [OF no_tunnels_wf])
  have keys: "\<forall>(i, t) \<in> set m. i = td_id t" unfolding m_def by (rule runtime_keys) simp
  have look: "map_of m i = store_abs Map.empty (map store_op ops) i" for i
    using hm.run_refines [OF no_tunnels_wf, of "map store_op ops"] by (simp add: m_def runtime_run_store)
  have fsts: "map td_id (runtime_list m) = map fst m" using keys by (auto simp: runtime_list_def)
  have "t \<in> set (runtime_list m) \<longleftrightarrow> map_of m (td_id t) = Some t" for t
    using wf keys by (auto simp: runtime_list_def hm_wf_def intro: image_eqI [where x = "(td_id t, t)"] dest: map_of_SomeD)
  moreover have "store_abs Map.empty (map store_op ops) i = current_tunnel ops i" for i
    using store_abs_current [of Map.empty ops i] store_abs_current [of "\<lambda>_. current_tunnel ops i" ops i]
    by (cases "\<exists>p \<in> set ops. cmd_key (store_op p) = i") (auto simp: absent_current)
  ultimately show ?thesis using wf fsts look by (auto simp: m_def hm_wf_def)
qed

subsection \<open>Registrations\<close>

fun register_all :: "coordinator_sys \<Rightarrow> agent_registration list \<Rightarrow> coordinator \<Rightarrow> registered_agent list \<times> coordinator" where
  "register_all sy [] st = ([], st)"
| "register_all sy (p # ps) st =
     (case register sy p st of ((status, answer), st') \<Rightarrow>
        (case register_all sy ps st' of (answers, st'') \<Rightarrow> (answer # answers, st'')))"

lemma register_simp:
  "register sy p st =
     ((201, \<lparr>ra_id = co_uuid sy (co_uuids st), ra_session_token = co_uuid_text sy (co_uuid sy (Suc (co_uuids st))),
         ra_heartbeat_interval_seconds = 20\<rparr>),
      st\<lparr>co_agents := hm_insert (co_uuid sy (co_uuids st)) p (co_agents st), co_uuids := co_uuids st + 2\<rparr>)"
  by (simp add: register_def draw_uuid_def)

lemma register_all_uuids: "register_all sy ps st = (answers, st') \<Longrightarrow> co_uuids st' = co_uuids st + 2 * length ps"
  by (induction ps arbitrary: st answers) (fastforce simp: register_simp split: prod.splits)+

lemma register_all_kept:
  assumes "inj_on (co_uuid sy) {..<m}" and "register_all sy ps st = (answers, st')" and "co_uuids st' \<le> m"
  shows "(\<forall>a \<in> set answers. ra_id a \<in> co_uuid sy ` {co_uuids st..<m}) \<and> distinct (map ra_id answers) \<and>
    map (\<lambda>a. map_of (co_agents st') (ra_id a)) answers = map Some ps \<and>
    (\<forall>i. i \<notin> co_uuid sy ` {co_uuids st..<m} \<longrightarrow> map_of (co_agents st') i = map_of (co_agents st) i)"
  using assms(2,3)
proof (induction ps arbitrary: st answers)
  case (Cons p ps)
  define n where "n = co_uuids st"
  define st1 where "st1 = st\<lparr>co_agents := hm_insert (co_uuid sy n) p (co_agents st), co_uuids := n + 2\<rparr>"
  define a1 where "a1 = \<lparr>ra_id = co_uuid sy n, ra_session_token = co_uuid_text sy (co_uuid sy (Suc n)), ra_heartbeat_interval_seconds = 20\<rparr>"
  obtain rest where r: "register_all sy ps st1 = (rest, st')" and answers: "answers = a1 # rest"
    using Cons.prems by (auto simp: register_simp st1_def a1_def n_def split: prod.splits)
  have n1: "co_uuids st1 = n + 2" by (simp add: st1_def)
  have m: "n + 2 \<le> m" using register_all_uuids [OF r] Cons.prems(2) n1 by simp
  note IH = Cons.IH [OF r Cons.prems(2), unfolded n1]
  have i1: "ra_id a1 = co_uuid sy n" by (simp add: a1_def)
  have later: "co_uuid sy n \<notin> co_uuid sy ` {n + 2..<m}"
  proof
    assume "co_uuid sy n \<in> co_uuid sy ` {n + 2..<m}"
    then obtain k where "n + 2 \<le> k" "k < m" "co_uuid sy n = co_uuid sy k" by auto
    with inj_onD [OF assms(1), of n k] show False by simp
  qed
  then have fresh: "ra_id a1 \<notin> ra_id ` set rest" using IH i1 by (metis image_iff)
  have "map_of (co_agents st') (co_uuid sy n) = map_of (co_agents st1) (co_uuid sy n)" using IH later by blast
  then have first: "map_of (co_agents st') (ra_id a1) = Some p" by (simp add: i1 st1_def map_of_hm_insert)
  have sub: "co_uuid sy ` {n + 2..<m} \<subseteq> co_uuid sy ` {n..<m}" by auto
  have bound: "\<forall>a \<in> set answers. ra_id a \<in> co_uuid sy ` {n..<m}"
    using IH sub m by (auto simp: answers i1)
  have frame: "map_of (co_agents st') i = map_of (co_agents st) i" if i: "i \<notin> co_uuid sy ` {n..<m}" for i
  proof -
    have "i \<noteq> co_uuid sy n" using i m by auto
    moreover have "map_of (co_agents st') i = map_of (co_agents st1) i" using IH i sub by blast
    ultimately show ?thesis by (simp add: st1_def map_of_hm_insert)
  qed
  show ?case using IH fresh first bound frame by (simp add: answers n_def)
qed simp

text \<open>As long as the identifiers drawn so far are different, agents that register one after the other receive different identifiers, the registry holds under each what that agent sent, and earlier entries stay.\<close>

theorem registrations_kept:
  assumes "register_all sy ps st = (answers, st')" and "inj_on (co_uuid sy) {..<co_uuids st'}"
    and "dom (map_of (co_agents st)) \<subseteq> co_uuid sy ` {..<co_uuids st}"
  shows "distinct (map ra_id answers) \<and> map (\<lambda>a. map_of (co_agents st') (ra_id a)) answers = map Some ps \<and>
    map_of (co_agents st) \<subseteq>\<^sub>m map_of (co_agents st')"
proof -
  have "i \<notin> co_uuid sy ` {co_uuids st..<co_uuids st'}" if "i \<in> dom (map_of (co_agents st))" for i
  proof
    assume "i \<in> co_uuid sy ` {co_uuids st..<co_uuids st'}"
    then obtain k where k: "co_uuids st \<le> k" "k < co_uuids st'" "i = co_uuid sy k" by auto
    moreover have "i \<in> co_uuid sy ` {..<co_uuids st}" using that assms(3) by blast
    then obtain j where "j < co_uuids st" "i = co_uuid sy j" by blast
    ultimately show False using inj_onD [OF assms(2), of j k] by simp
  qed
  then show ?thesis using register_all_kept [OF assms(2,1)] by (simp add: map_le_def)
qed

definition demo_coordinator_sys :: coordinator_sys where
  "demo_coordinator_sys =
     \<lparr>co_uuid = (\<lambda>n. of_nat n), co_uuid_text = show_word, co_of_json = (\<lambda>_. Err ''expected value''),
      co_to_json = (\<lambda>_. Ok ''{}''), co_json_text = (\<lambda>_. ''{}'')\<rparr>"

definition demo_agent :: "string \<Rightarrow> agent_registration" where
  "demo_agent name = \<lparr>ag_name = name, ag_platform = ''linux'', ag_architecture = ''x86_64'', ag_version = ''2'', ag_public_key = ''k''\<rparr>"

theorem registrations_kept_witness:
  "let (answers, st') = register_all demo_coordinator_sys [demo_agent ''a'', demo_agent ''b''] \<lparr>co_agents = [], co_uuids = 0\<rparr> in
   distinct (map ra_id answers) \<and> map (\<lambda>a. map_of (co_agents st') (ra_id a)) answers = [Some (demo_agent ''a''), Some (demo_agent ''b'')]"
proof -
  let ?st = "\<lparr>co_agents = [], co_uuids = 0\<rparr>"
  obtain answers st' where r: "register_all demo_coordinator_sys [demo_agent ''a'', demo_agent ''b''] ?st = (answers, st')"
    by (meson surj_pair)
  have n: "co_uuids st' = 4" using register_all_uuids [OF r] by simp
  have "inj_on (co_uuid demo_coordinator_sys) {..<co_uuids st'}"
    unfolding n by (rule inj_onI) (auto simp: demo_coordinator_sys_def word_of_nat_eq_iff take_bit_nat_eq_self less_trans)
  then show ?thesis using registrations_kept [OF r] unfolding r Let_def prod.case by simp
qed

subsection \<open>The control channel\<close>

text \<open>The texts that arrive before the channel ends.\<close>

fun texts_received :: "frame list \<Rightarrow> string list" where
  "texts_received (TextFrame t # fs) = t # texts_received fs"
| "texts_received (OtherFrame # fs) = texts_received fs"
| "texts_received _ = []"

definition answers_text :: "coordinator_sys \<Rightarrow> string \<Rightarrow> string \<Rightarrow> bool" where
  "answers_text sy text payload \<longleftrightarrow>
     (case co_of_json sy text of
        Inl err \<Rightarrow> payload = co_json_text sy (JObj [(''error'', JStr err)])
      | Inr envelope \<Rightarrow>
          (\<exists>reply. co_of_json sy payload = Ok reply \<and> ce_correlation_id reply = Some (ce_id envelope) \<and>
             ce_message reply = Ack (ce_id envelope)))"

definition ack_reply :: "uuid \<Rightarrow> uuid \<Rightarrow> control_envelope" where
  "ack_reply i j = \<lparr>ce_id = i, ce_correlation_id = Some j, ce_message = Ack j\<rparr>"

text \<open>The codec reads back the acknowledgements it writes.\<close>

definition reads_back :: "coordinator_sys \<Rightarrow> bool" where
  "reads_back sy \<longleftrightarrow> (\<forall>i j. \<exists>t. co_to_json sy (ack_reply i j) = Ok t \<and> co_of_json sy t = Ok (ack_reply i j))"

lemma control_answer_answers:
  assumes "reads_back sy"
  shows "answers_text sy text (fst (control_answer sy text n))"
proof (cases "co_of_json sy text")
  case (Inr envelope)
  define reply where "reply = ack_reply (co_uuid sy n) (ce_id envelope)"
  obtain t where "co_to_json sy reply = Ok t" "co_of_json sy t = Ok reply" using assms by (auto simp: reads_back_def reply_def)
  with Inr show ?thesis
    by (auto simp: answers_text_def control_answer_def envelope_new_def draw_uuid_def reply_def ack_reply_def)
qed (simp add: answers_text_def control_answer_def)

text \<open>While its sends succeed, the control channel answers every text that arrives before the channel closes, in order and once each: a valid envelope with an acknowledgement that carries its identifier, any other text with an error document. When a send fails the answers given so far are a prefix of these.\<close>

theorem control_answers_in_order:
  assumes "reads_back sy"
  shows "\<exists>payloads. ch_sent (handle_control sy send_ok fs ch) = ch_sent ch @ payloads \<and>
    list_all2 (answers_text sy) (take (length payloads) (texts_received fs)) payloads \<and>
    ((\<forall>n. send_ok n) \<longrightarrow> length payloads = length (texts_received fs))"
  using assms
proof (induction sy send_ok fs ch rule: handle_control.induct)
  case (5 sy send_ok t fs ch)
  obtain payload n where a: "control_answer sy t (ch_uuids ch) = (payload, n)" by (meson surj_pair)
  have ok: "answers_text sy t payload" using control_answer_answers [OF "5.prems", of t "ch_uuids ch"] a by simp
  show ?case
  proof (cases "send_ok (length (ch_sent ch))")
    case True
    from "5.IH" [OF a [symmetric] True "5.prems"] obtain payloads where
      "ch_sent (handle_control sy send_ok (TextFrame t # fs) ch) = ch_sent ch @ payload # payloads"
      "list_all2 (answers_text sy) (take (length payloads) (texts_received fs)) payloads"
      "(\<forall>n. send_ok n) \<longrightarrow> length payloads = length (texts_received fs)"
      using a True by auto
    with ok show ?thesis by (intro exI [of _ "payload # payloads"]) simp
  next
    case False
    with a show ?thesis by (intro exI [of _ "[]"]) auto
  qed
qed auto

text \<open>A codec of acknowledgements that satisfies the law: identifier and correlation in decimal.\<close>

definition ack_of_text :: "string \<Rightarrow> (control_envelope, string) result" where
  "ack_of_text s =
     (case map (parse_unsigned (2 ^ 128 - 1)) (split_on (CHR '' '') s) of
        [Some i, Some j] \<Rightarrow> Ok (ack_reply (of_nat i) (of_nat j))
      | _ \<Rightarrow> Err ''expected value'')"

definition ack_to_text :: "control_envelope \<Rightarrow> (string, string) result" where
  "ack_to_text e =
     (case ce_message e of
        Ack j \<Rightarrow> Ok (show_word (ce_id e) @ CHR '' '' # show_word j)
      | _ \<Rightarrow> Err ''unsupported'')"

definition ack_sys :: coordinator_sys where
  "ack_sys = demo_coordinator_sys\<lparr>co_of_json := ack_of_text, co_to_json := ack_to_text\<rparr>"

lemma parse_show_uuid: "parse_unsigned 340282366920938463463374607431768211455 (show_word (i :: uuid)) = Some (unat i)"
proof -
  have "unat i < 2 ^ LENGTH(128)" by (rule unsigned_less)
  then have "unat i \<le> 340282366920938463463374607431768211455" by simp
  then show ?thesis by (simp add: show_word_def parse_show_nat)
qed

lemma show_no_blank: "CHR '' '' \<notin> set (show_word (i :: uuid))"
  using show_nat_digits [of "unat i"] by (auto simp: show_word_def is_ascii_digit_def list_all_iff)

lemma ack_sys_reads_back: "reads_back ack_sys"
  by (auto simp: reads_back_def ack_sys_def ack_to_text_def ack_of_text_def ack_reply_def split_on_append show_no_blank
      split_on_no_sep parse_show_uuid)

theorem control_answers_in_order_witness:
  "\<exists>payloads. ch_sent (handle_control ack_sys (\<lambda>_. True) [TextFrame ''7 9'', OtherFrame, TextFrame ''x'', CloseFrame, TextFrame ''y'']
       \<lparr>ch_sent = [], ch_uuids = 0\<rparr>) = payloads \<and> list_all2 (answers_text ack_sys) [''7 9'', ''x''] payloads"
  using control_answers_in_order [OF ack_sys_reads_back, of "\<lambda>_. True"
      "[TextFrame ''7 9'', OtherFrame, TextFrame ''x'', CloseFrame, TextFrame ''y'']" "\<lparr>ch_sent = [], ch_uuids = 0\<rparr>"]
  by (auto simp del: handle_control.simps)

subsection \<open>The handshake of the relay\<close>

definition stream_bytes :: "char list list \<Rightarrow> char list" where
  "stream_bytes pieces = concat (takeWhile (\<lambda>p. p \<noteq> []) pieces)"

lemma read_exact_bytes:
  "map_option fst (read_exact n pieces) = (if n \<le> length (stream_bytes pieces) then Some (take n (stream_bytes pieces)) else None)"
proof (induction n pieces rule: read_exact.induct)
  case (3 n p pieces)
  show ?case
  proof (cases "p \<noteq> [] \<and> length p \<le> Suc n")
    case True
    with 3 show ?thesis by (cases "read_exact (Suc n - length p) pieces") (auto simp: stream_bytes_def split: if_splits)
  next
    case False
    then show ?thesis by (auto simp: stream_bytes_def)
  qed
qed (auto simp: stream_bytes_def)

text \<open>The relay answers a connection exactly when the first eight bytes before the end of the stream are the preface, however the bytes are cut into pieces.\<close>

theorem relay_accepts_preface:
  "relay_connection pieces = (if take 8 (stream_bytes pieces) = ''TUNNARA1'' then ''OK'' @ [CHR 0x0A] else [])"
proof -
  have "8 \<le> length (stream_bytes pieces)" if "take 8 (stream_bytes pieces) = ''TUNNARA1''"
    using arg_cong [where f = length, OF that] by simp
  with read_exact_bytes [of 8 pieces] show ?thesis
    by (cases "read_exact 8 pieces") (auto simp: relay_connection_def split: if_splits)
qed

text \<open>One failed \<^verbatim>\<open>accept\<close> ends the relay: what was accepted before is served, nothing after it.\<close>

lemma relay_ends_at_first_error:
  "relay_loop (map Inr served @ Inl err # accepts) = (map relay_connection served, Some err)"
  by (induction served) simp_all

subsection \<open>An agent registers with the coordinator\<close>

text \<open>The registration sent by the command-line agent arrives at the coordinator's route, whatever number of slashes ends the configured address, and the agent prints the answer for an entry that holds its key.\<close>

lemma agent_registers:
  assumes "base \<noteq> []" and "last base \<noteq> CHR ''/''"
    and "\<And>p. ht_post ht (base @ ''/v1/agents/register'') p = Ok (map_prod id body (fst (register sy p st)))"
  shows "\<exists>answer. agent_register ht (base @ replicate k (CHR ''/'')) name key = Ok (body answer) \<and>
    map_of (co_agents (snd (register sy (agent_payload ht name key) st))) (ra_id answer) = Some (agent_payload ht name key)"
proof -
  have "dropWhile (\<lambda>x. x = CHR ''/'') (replicate k (CHR ''/'') @ rev base) = rev base"
    using assms(1,2) by (induction k) (simp_all add: dropWhile_eq_self_iff hd_rev)
  then have "trim_end_matches (CHR ''/'') (base @ replicate k (CHR ''/'')) = base" by (simp add: trim_end_matches_def)
  then have "agent_register ht (base @ replicate k (CHR ''/'')) name key =
      Ok (body (snd (fst (register sy (agent_payload ht name key) st))))"
    by (simp add: agent_register_def register_endpoint_def assms(3) register_simp)
  then show ?thesis by (auto simp: register_simp map_of_hm_insert)
qed

end
