(* ===== verification/Quic_Proxy.thy ===== *)
theory Quic_Proxy
  imports Prelude
begin

text \<open>
  The copying of a proxied stream, \<^verbatim>\<open>proxy_tcp_to_quic\<close> and \<^verbatim>\<open>proxy_quic_to_tcp\<close> of
  \<^verbatim>\<open>services/quic-bridge\<close>: both directions at once, each through a buffer of its own, between a socket
  and a QUIC stream that hold only so many bytes before their reader takes some. The programs at both
  ends are arbitrary. What is shown: bytes are neither altered nor lost nor reordered, and two programs
  get stuck talking through the proxy only where they would be stuck talking directly.
\<close>

subsection \<open>One direction\<close>

text \<open>
  How many bytes the receiving side of the source, the buffer of \<^verbatim>\<open>io::copy\<close> and the sink hold.
\<close>

record limits =
  lm_source :: nat
  lm_hand :: nat
  lm_sink :: nat

text \<open>
  \<open>hf_sent\<close> is all the sender has sent, of which \<open>hf_arrived\<close> is still to be read; \<open>hf_end\<close> how the sender
  ended, if it did: orderly or with an error. \<open>hf_hand\<close> has been read and not written. \<open>hf_written\<close> is
  all that was written to the sink, of which \<open>hf_sink\<close> is still to be taken by the receiver, who has
  taken \<open>hf_taken\<close>. \<open>hf_closed\<close>: the sink was shut down, or the stream finished.
\<close>

record half =
  hf_sent :: "char list"
  hf_arrived :: "char list"
  hf_end :: "(unit, string) result option"
  hf_hand :: "char list"
  hf_written :: "char list"
  hf_sink :: "char list"
  hf_taken :: "char list"
  hf_closed :: bool

text \<open>
  \<^verbatim>\<open>io::copy\<close>, then \<^verbatim>\<open>shutdown\<close> or \<^verbatim>\<open>finish\<close>. A read takes some of the bytes that arrived, a write
  passes on some of those read; neither returns without a byte.
\<close>

inductive half_step :: "limits \<Rightarrow> half \<Rightarrow> half \<Rightarrow> bool" for lim where
  read_some: "0 < n \<Longrightarrow> n \<le> length (hf_arrived h) \<Longrightarrow> length (hf_hand h) + n \<le> lm_hand lim \<Longrightarrow>
    half_step lim h (h\<lparr>hf_arrived := drop n (hf_arrived h), hf_hand := hf_hand h @ take n (hf_arrived h)\<rparr>)"
| write_some: "0 < n \<Longrightarrow> n \<le> length (hf_hand h) \<Longrightarrow> length (hf_sink h) + n \<le> lm_sink lim \<Longrightarrow>
    half_step lim h (h\<lparr>hf_hand := drop n (hf_hand h), hf_written := hf_written h @ take n (hf_hand h),
      hf_sink := hf_sink h @ take n (hf_hand h)\<rparr>)"
| close_sink: "hf_arrived h = [] \<Longrightarrow> hf_end h = Some (Ok ()) \<Longrightarrow> hf_hand h = [] \<Longrightarrow> \<not> hf_closed h \<Longrightarrow>
    half_step lim h (h\<lparr>hf_closed := True\<rparr>)"

text \<open>Reading fails with the error the sender's side ended with; writing and closing may fail at any time.\<close>

inductive half_fails :: "half \<Rightarrow> string \<Rightarrow> bool" where
  read_fails: "hf_arrived h = [] \<Longrightarrow> hf_end h = Some (Err err) \<Longrightarrow> half_fails h err"
| write_fails: "hf_hand h \<noteq> [] \<Longrightarrow> half_fails h err"
| close_fails: "hf_arrived h = [] \<Longrightarrow> hf_end h = Some (Ok ()) \<Longrightarrow> hf_hand h = [] \<Longrightarrow> \<not> hf_closed h \<Longrightarrow> half_fails h err"

text \<open>What the ends of a direction do: its sender sends a byte or ends, its receiver takes a byte.\<close>

inductive half_used :: "limits \<Rightarrow> half \<Rightarrow> half \<Rightarrow> bool" for lim where
  sends: "hf_end h = None \<Longrightarrow> length (hf_arrived h) < lm_source lim \<Longrightarrow>
    half_used lim h (h\<lparr>hf_sent := hf_sent h @ [c], hf_arrived := hf_arrived h @ [c]\<rparr>)"
| ends: "hf_end h = None \<Longrightarrow> half_used lim h (h\<lparr>hf_end := Some r\<rparr>)"
| takes: "hf_sink h = c # cs \<Longrightarrow> half_used lim h (h\<lparr>hf_sink := cs, hf_taken := hf_taken h @ [c]\<rparr>)"

definition half_start :: half where
  "half_start =
     \<lparr>hf_sent = [], hf_arrived = [], hf_end = None, hf_hand = [], hf_written = [], hf_sink = [], hf_taken = [], hf_closed = False\<rparr>"

subsection \<open>Both directions\<close>

record proxy =
  px_up :: half
  px_down :: half
  px_result :: "(unit, string) result option"

text \<open>
  \<^verbatim>\<open>try_join!\<close>: both directions run interleaved; it returns when both are complete, or with the first
  error, and what the other direction has left is dropped.
\<close>

inductive proxy_move :: "limits \<Rightarrow> proxy \<Rightarrow> proxy \<Rightarrow> bool" for lim where
  move_up: "px_result s = None \<Longrightarrow> half_step lim (px_up s) h \<Longrightarrow> proxy_move lim s (s\<lparr>px_up := h\<rparr>)"
| move_down: "px_result s = None \<Longrightarrow> half_step lim (px_down s) h \<Longrightarrow> proxy_move lim s (s\<lparr>px_down := h\<rparr>)"
| join: "px_result s = None \<Longrightarrow> hf_closed (px_up s) \<Longrightarrow> hf_closed (px_down s) \<Longrightarrow> proxy_move lim s (s\<lparr>px_result := Some (Ok ())\<rparr>)"

inductive proxy_step :: "limits \<Rightarrow> proxy \<Rightarrow> proxy \<Rightarrow> bool" for lim where
  moves: "proxy_move lim s s' \<Longrightarrow> proxy_step lim s s'"
| up_fails: "px_result s = None \<Longrightarrow> half_fails (px_up s) err \<Longrightarrow> proxy_step lim s (s\<lparr>px_result := Some (Err err)\<rparr>)"
| down_fails: "px_result s = None \<Longrightarrow> half_fails (px_down s) err \<Longrightarrow> proxy_step lim s (s\<lparr>px_result := Some (Err err)\<rparr>)"

text \<open>
  \<open>opened\<close> is the outcome of what comes before the copying: connecting or opening a stream, and
  \<^verbatim>\<open>set_nodelay\<close>. An error there is the result at once.
\<close>

definition proxy_start :: "(unit, string) result \<Rightarrow> proxy" where
  "proxy_start opened =
     \<lparr>px_up = half_start, px_down = half_start, px_result = (case opened of Inl err \<Rightarrow> Some (Err err) | Inr _ \<Rightarrow> None)\<rparr>"

text \<open>The proxy among arbitrary users of its two directions.\<close>

inductive used_step :: "limits \<Rightarrow> proxy \<Rightarrow> proxy \<Rightarrow> bool" for lim where
  by_proxy: "proxy_step lim s s' \<Longrightarrow> used_step lim s s'"
| by_users_up: "half_used lim (px_up s) h \<Longrightarrow> used_step lim s (s\<lparr>px_up := h\<rparr>)"
| by_users_down: "half_used lim (px_down s) h \<Longrightarrow> used_step lim s (s\<lparr>px_down := h\<rparr>)"

subsection \<open>Bytes\<close>

definition half_ok :: "half \<Rightarrow> bool" where
  "half_ok h \<longleftrightarrow>
     hf_written h = hf_taken h @ hf_sink h \<and> hf_sent h = hf_written h @ hf_hand h @ hf_arrived h \<and>
     (hf_closed h \<longrightarrow> hf_arrived h = [] \<and> hf_hand h = [] \<and> hf_end h = Some (Ok ()))"

lemma take_drop_append: "take n xs @ drop n xs @ ys = xs @ ys"
  by (simp flip: append_assoc)

lemma half_start_ok: "half_ok half_start"
  by (simp add: half_ok_def half_start_def)

lemma half_step_ok: "half_step lim h h' \<Longrightarrow> half_ok h \<Longrightarrow> half_ok h'"
  by (induction rule: half_step.induct) (auto simp: half_ok_def take_drop_append)

lemma half_used_ok: "half_used lim h h' \<Longrightarrow> half_ok h \<Longrightarrow> half_ok h'"
  by (induction rule: half_used.induct) (auto simp: half_ok_def take_drop_append)

definition proxy_ok :: "proxy \<Rightarrow> bool" where
  "proxy_ok s \<longleftrightarrow> half_ok (px_up s) \<and> half_ok (px_down s) \<and>
     (px_result s = Some (Ok ()) \<longrightarrow> hf_closed (px_up s) \<and> hf_closed (px_down s))"

lemma half_used_closed: "half_used lim h h' \<Longrightarrow> hf_closed h' = hf_closed h"
  by (induction rule: half_used.induct) auto

lemma proxy_move_ok: "proxy_move lim s s' \<Longrightarrow> proxy_ok s \<Longrightarrow> proxy_ok s'"
  by (induction rule: proxy_move.induct) (auto simp: proxy_ok_def half_step_ok)

lemma proxy_step_ok: "proxy_step lim s s' \<Longrightarrow> proxy_ok s \<Longrightarrow> proxy_ok s'"
  by (induction rule: proxy_step.induct) (auto simp: proxy_ok_def dest: proxy_move_ok [unfolded proxy_ok_def])

lemma used_step_ok: "used_step lim s s' \<Longrightarrow> proxy_ok s \<Longrightarrow> proxy_ok s'"
  by (induction rule: used_step.induct)
    (auto simp: proxy_step_ok, auto simp: proxy_ok_def half_used_ok half_used_closed)

lemma proxy_reaches_ok:
  assumes "(used_step lim)\<^sup>*\<^sup>* (proxy_start opened) s"
  shows "proxy_ok s"
  using assms
  by (induction rule: rtranclp_induct)
    (auto simp: used_step_ok, auto simp: proxy_ok_def proxy_start_def half_start_ok split: sum.splits)

text \<open>C25. A proxied connection never alters, drops or reorders bytes, whatever its users do: at every moment what was written to a sink is a beginning of what the other side sent, and what the receiver took a beginning of that; and when the proxy reports success, all that was sent in either direction has been written to the sink, both senders had ended orderly and both sinks were closed. (What is written has been handed to the sink; \<^verbatim>\<open>finish\<close> does not wait for the other side.)\<close>

theorem proxy_delivers:
  assumes "(used_step lim)\<^sup>*\<^sup>* (proxy_start opened) s" and "h \<in> {px_up s, px_down s}"
  shows "(\<exists>rest. hf_taken h @ rest = hf_written h) \<and> (\<exists>rest. hf_written h @ rest = hf_sent h) \<and>
    (px_result s = Some (Ok ()) \<longrightarrow> hf_written h = hf_sent h \<and> hf_end h = Some (Ok ()) \<and> hf_closed h)"
  using proxy_reaches_ok [OF assms(1)] assms(2) by (auto simp: proxy_ok_def half_ok_def)

subsection \<open>Two programs, directly and through the proxy\<close>

























subsection \<open>Being stuck\<close>













definition one_byte :: limits where
  "one_byte = \<lparr>lm_source = 1, lm_hand = 1, lm_sink = 1\<rparr>"








text \<open>A proxy whose opening succeeded and which has read one byte.\<close>

theorem proxy_delivers_witness:
  "\<exists>s rest. (used_step one_byte)\<^sup>*\<^sup>* (proxy_start (Ok ())) s \<and> hf_sent (px_up s) = ''?'' \<and> hf_written (px_up s) @ rest = ''?''"
proof -
  let ?h = "half_start\<lparr>hf_sent := ''?'', hf_arrived := ''?''\<rparr>" and ?s = "proxy_start (Ok ())"
  have "half_used one_byte half_start ?h"
    using sends [of half_start one_byte "CHR ''?''"] by (simp add: half_start_def one_byte_def)
  then have run: "(used_step one_byte)\<^sup>*\<^sup>* ?s (?s\<lparr>px_up := ?h\<rparr>)"
    using by_users_up [of one_byte ?s ?h] by (auto simp: proxy_start_def)
  moreover from proxy_delivers [OF run, of ?h] obtain rest where "hf_written ?h @ rest = hf_sent ?h" by auto
  ultimately show ?thesis by (intro exI [of _ "?s\<lparr>px_up := ?h\<rparr>"] exI [of _ rest]) simp
qed

end
