(* ===== verification/Quic_Bridge.thy ===== *)
theory Quic_Bridge
  imports Quic_Proxy
begin

text \<open>
  The QUIC bridge, \<^verbatim>\<open>services/quic-bridge\<close> over \<^verbatim>\<open>crates/tunnara-quic\<close>: the client that keeps one
  QUIC connection and starts a task for each local socket, and the server that accepts streams. What a
  task does once its stream is open, the copying of bytes, is the theory \<open>Quic_Proxy\<close>. TLS, QUIC and the
  sockets are parameters; connections, streams and sockets are numbered.
\<close>

subsection \<open>Transport\<close>

record quic_transport_config =
  qt_idle_timeout :: "64 word"
  qt_keep_alive_interval :: "64 word"
  qt_max_concurrent_bidi_streams :: "32 word"
  qt_max_concurrent_uni_streams :: "32 word"
  qt_datagram_receive_buffer_size :: "64 word"

text \<open>Durations in seconds.\<close>

definition quic_config_default :: quic_transport_config where
  "quic_config_default =
     \<lparr>qt_idle_timeout = 45, qt_keep_alive_interval = 15, qt_max_concurrent_bidi_streams = 4096,
      qt_max_concurrent_uni_streams = 128, qt_datagram_receive_buffer_size = 16 * 1024 * 1024\<rparr>"

text \<open>A connection as \<open>send_request\<close> uses it; \<open>qc_answer\<close> is what the peer sends for a payload.\<close>

record quic_conn =
  qc_open_err :: "string option"
  qc_write_err :: "string option"
  qc_finish_err :: "string option"
  qc_answer :: "char list \<Rightarrow> (char list, string) result"

definition read_to_end :: "nat \<Rightarrow> (char list, string) result \<Rightarrow> (char list, string) result" where
  "read_to_end limit answer =
     and_then answer (\<lambda>bytes. if limit < length bytes then Err ''stream too long'' else Ok bytes)"

definition try_unit :: "string option \<Rightarrow> (unit, string) result" where
  "try_unit e = (case e of None \<Rightarrow> Ok () | Some err \<Rightarrow> Err err)"

definition send_request :: "quic_conn \<Rightarrow> char list \<Rightarrow> (char list, string) result" where
  "send_request con payload =
     and_then (map_err (\<lambda>_. (''n'' @ u_atilde @ ''o foi poss'' @ u_iacute @ ''vel abrir stream QUIC'')) (try_unit (qc_open_err con))) (\<lambda>_.
     and_then (try_unit (qc_write_err con)) (\<lambda>_.
     and_then (try_unit (qc_finish_err con)) (\<lambda>_.
     read_to_end (64 * 1024 * 1024) (qc_answer con payload))))"

subsection \<open>Connecting\<close>

text \<open>
  What the bridge client meets. Files, the certificates of the system and the network may change
  between attempts, so they are indexed by the number of the attempt. \<open>bs_closed c t\<close> says whether
  connection \<open>c\<close> has a close reason at time \<open>t\<close>, where round \<open>r\<close> of the loop checks at time
  \<open>2 * r\<close> and accepts at time \<open>2 * r + 1\<close>. \<open>bs_nodelay\<close> is the error of \<^verbatim>\<open>set_nodelay\<close> on a socket,
  \<open>bs_open_bi c socket\<close> the outcome of opening a stream of connection \<open>c\<close> for a socket.
\<close>

record bridge_sys =
  bs_file_open :: "nat \<Rightarrow> string \<Rightarrow> bool"
  bs_pem_certs :: "nat \<Rightarrow> string \<Rightarrow> (string list, string) result"
  bs_parsable :: "string \<Rightarrow> bool"
  bs_native :: "nat \<Rightarrow> string list"
  bs_native_errors :: "nat \<Rightarrow> string"
  bs_endpoint :: "nat \<Rightarrow> string list \<Rightarrow> (unit, string) result"
  bs_connect :: "nat \<Rightarrow> string list \<Rightarrow> string \<Rightarrow> string \<Rightarrow> (nat, string) result"
  bs_closed :: "nat \<Rightarrow> nat \<Rightarrow> bool"
  bs_accept :: "nat \<Rightarrow> (nat, string) result"
  bs_nodelay :: "nat \<Rightarrow> string option"
  bs_open_bi :: "nat \<Rightarrow> nat \<Rightarrow> (unit, string) result"

record client_options =
  op_remote :: string
  op_server_name :: string
  op_ca :: "string option"
  op_reconnect_seconds :: "64 word"

definition load_certificates :: "bridge_sys \<Rightarrow> nat \<Rightarrow> string \<Rightarrow> (string list, string) result" where
  "load_certificates sy n path =
     (if \<not> bs_file_open sy n path then Err ((''n'' @ u_atilde @ ''o foi poss'' @ u_iacute @ ''vel abrir o certificado '') @ path)
      else and_then (map_err (\<lambda>_. (''certificado PEM inv'' @ u_aacute @ ''lido'')) (bs_pem_certs sy n path)) (\<lambda>certs.
        if certs = [] then Err (''nenhum certificado foi encontrado em '' @ path) else Ok certs))"

text \<open>\<^verbatim>\<open>add_parsable_certificates\<close>: the roots added and the number of certificates ignored.\<close>

definition add_parsable :: "bridge_sys \<Rightarrow> string list \<Rightarrow> string list \<times> nat" where
  "add_parsable sy certs = (filter (bs_parsable sy) certs, length (filter (\<lambda>c. \<not> bs_parsable sy c) certs))"

definition trusted_roots :: "bridge_sys \<Rightarrow> nat \<Rightarrow> string option \<Rightarrow> (string list, string) result" where
  "trusted_roots sy n ca =
     (case ca of
        Some path \<Rightarrow>
          and_then (load_certificates sy n path) (\<lambda>certs.
            case add_parsable sy certs of
              (roots, ignored) \<Rightarrow>
                if roots = [] then Err ((''nenhum certificado CA v'' @ u_aacute @ ''lido foi carregado; ignorados: '') @ show_nat ignored)
                else Ok roots)
      | None \<Rightarrow>
          (case add_parsable sy (bs_native sy n) of
             (roots, ignored) \<Rightarrow>
               if roots = []
               then Err (''nenhuma CA do sistema foi carregada; certificados ignorados: '' @ show_nat ignored @
                         ''; erros: '' @ bs_native_errors sy n)
               else Ok roots))"

definition connect_quic :: "bridge_sys \<Rightarrow> nat \<Rightarrow> client_options \<Rightarrow> (nat, string) result" where
  "connect_quic sy n opts =
     and_then (trusted_roots sy n (op_ca opts)) (\<lambda>roots.
     and_then (bs_endpoint sy n roots) (\<lambda>_.
     bs_connect sy n roots (op_remote opts) (op_server_name opts)))"

subsection \<open>The client\<close>

text \<open>What \<^verbatim>\<open>proxy_tcp_to_quic\<close> does before it copies.\<close>

definition open_task :: "bridge_sys \<Rightarrow> nat \<Rightarrow> nat \<Rightarrow> (unit, string) result" where
  "open_task sy socket c =
     and_then (try_unit (bs_nodelay sy socket)) (\<lambda>_.
     map_err (\<lambda>_. (''n'' @ u_atilde @ ''o foi poss'' @ u_iacute @ ''vel abrir stream QUIC'')) (bs_open_bi sy c socket))"

text \<open>\<open>br_tasks\<close>: the spawned tasks, each with its socket, the connection it was given and its proxy as it starts to copy.\<close>

record bridge =
  br_current :: "nat option"
  br_attempts :: nat
  br_slept :: nat
  br_round :: nat
  br_tasks :: "(nat \<times> nat \<times> proxy) list"

text \<open>The seconds between two attempts, \<^verbatim>\<open>reconnect_seconds.max(1)\<close>.\<close>

definition retry_pause :: "client_options \<Rightarrow> nat" where
  "retry_pause opts = max 1 (unat (op_reconnect_seconds opts))"

text \<open>The inner loop ends only with a connection, so it may run forever.\<close>

partial_function (option) reconnect :: "bridge_sys \<Rightarrow> client_options \<Rightarrow> bridge \<Rightarrow> bridge option" where
  "reconnect sy opts st =
     (case connect_quic sy (br_attempts st) opts of
        Inr c \<Rightarrow> Some (st\<lparr>br_current := Some c, br_attempts := Suc (br_attempts st)\<rparr>)
      | Inl err \<Rightarrow>
          reconnect sy opts (st\<lparr>br_attempts := Suc (br_attempts st), br_slept := br_slept st + retry_pause opts\<rparr>))"

definition needs_connection :: "bridge_sys \<Rightarrow> bridge \<Rightarrow> bool" where
  "needs_connection sy st = (case br_current st of None \<Rightarrow> True | Some c \<Rightarrow> bs_closed sy c (2 * br_round st))"

datatype round_result = Going bridge | Ended string bridge | Panicked string

text \<open>One round of the outer loop; \<open>None\<close> when it never ends.\<close>

definition client_round :: "bridge_sys \<Rightarrow> client_options \<Rightarrow> bridge \<Rightarrow> round_result option" where
  "client_round sy opts st =
     Option.bind (if needs_connection sy st then reconnect sy opts st else Some st) (\<lambda>st.
       Some (case bs_accept sy (br_round st) of
               Inl err \<Rightarrow> Ended err st
             | Inr socket \<Rightarrow>
                 (case br_current st of
                    None \<Rightarrow> Panicked (''conex'' @ u_atilde @ ''o QUIC inicializada'')
                  | Some c \<Rightarrow>
                      Going (st\<lparr>br_tasks := br_tasks st @ [(socket, c, proxy_start (open_task sy socket c))],
                               br_round := Suc (br_round st)\<rparr>))))"

fun client_rounds :: "bridge_sys \<Rightarrow> client_options \<Rightarrow> nat \<Rightarrow> bridge \<Rightarrow> round_result option" where
  "client_rounds sy opts 0 st = Some (Going st)"
| "client_rounds sy opts (Suc n) st =
     (case client_rounds sy opts n st of
        Some (Going st') \<Rightarrow> client_round sy opts st'
      | r \<Rightarrow> r)"

definition client_start :: bridge where
  "client_start = \<lparr>br_current = None, br_attempts = 0, br_slept = 0, br_round = 0, br_tasks = []\<rparr>"

subsection \<open>The server side of a connection\<close>

text \<open>What \<^verbatim>\<open>proxy_quic_to_tcp\<close> does before it copies, given the outcomes of connecting and of \<^verbatim>\<open>set_nodelay\<close>.\<close>

definition open_upstream :: "(string \<Rightarrow> (unit, string) result) \<Rightarrow> string option \<Rightarrow> string \<Rightarrow> (unit, string) result" where
  "open_upstream connect nodelay upstream =
     and_then (map_err (\<lambda>_. (''n'' @ u_atilde @ ''o foi poss'' @ u_iacute @ ''vel conectar ao upstream '') @ upstream) (connect upstream)) (\<lambda>_. try_unit nodelay)"

datatype task_result = TaskOk | TaskFailed string | TaskPanicked string

text \<open>What \<^verbatim>\<open>select!\<close> and the final loop see: a new stream, the end of the connection, a task that ends.\<close>

datatype serve_event = StreamAccepted nat | ConnectionClosed string | TaskEnded nat task_result

record serve_state =
  sv_open :: bool
  sv_tasks :: "nat list"
  sv_warnings :: "string list"

fun serve_step :: "serve_state \<Rightarrow> serve_event \<Rightarrow> serve_state" where
  "serve_step st (StreamAccepted i) = (if sv_open st then st\<lparr>sv_tasks := sv_tasks st @ [i]\<rparr> else st)"
| "serve_step st (ConnectionClosed err) = st\<lparr>sv_open := False\<rparr>"
| "serve_step st (TaskEnded i r) =
     (if i \<notin> set (sv_tasks st) then st
      else let st' = st\<lparr>sv_tasks := remove1 i (sv_tasks st)\<rparr> in
        (case r of
           TaskOk \<Rightarrow> st'
         | TaskFailed err \<Rightarrow> if sv_open st then st' else st'\<lparr>sv_warnings := sv_warnings st @ [err]\<rparr>
         | TaskPanicked err \<Rightarrow> if sv_open st then st'\<lparr>sv_warnings := sv_warnings st @ [err]\<rparr> else st'))"

definition serve_connection :: "serve_event list \<Rightarrow> serve_state" where
  "serve_connection events = foldl serve_step \<lparr>sv_open = True, sv_tasks = [], sv_warnings = []\<rparr> events"

definition serve_returns :: "serve_state \<Rightarrow> bool" where
  "serve_returns st \<longleftrightarrow> \<not> sv_open st \<and> sv_tasks st = []"

text \<open>The accept loop of the server: connections served and handshakes refused; it does not end.\<close>

fun run_server :: "(nat, string) result list \<Rightarrow> nat list \<times> string list" where
  "run_server [] = ([], [])"
| "run_server (Inr c # accepts) = (case run_server accepts of (served, refused) \<Rightarrow> (c # served, refused))"
| "run_server (Inl err # accepts) = (case run_server accepts of (served, refused) \<Rightarrow> (served, err # refused))"

subsection \<open>Reconnecting\<close>

definition reconnected :: "client_options \<Rightarrow> nat \<Rightarrow> nat \<Rightarrow> bridge \<Rightarrow> bridge" where
  "reconnected opts k c st =
     st\<lparr>br_current := Some c, br_attempts := br_attempts st + k + 1, br_slept := br_slept st + k * retry_pause opts\<rparr>"

lemma not_Inr_result: "(\<forall>x. r \<noteq> Ok x) \<Longrightarrow> \<exists>err. r = Err err"
  by (cases r) auto

lemma reconnect_after:
  assumes "\<And>j. j < k \<Longrightarrow> \<exists>err. connect_quic sy (br_attempts st + j) opts = Err err"
    and "connect_quic sy (br_attempts st + k) opts = Ok c"
  shows "reconnect sy opts st = Some (reconnected opts k c st)"
  using assms
proof (induction k arbitrary: st)
  case 0
  then show ?case by (subst reconnect.simps) (simp add: reconnected_def)
next
  case (Suc k)
  define st1 where "st1 = st\<lparr>br_attempts := Suc (br_attempts st), br_slept := br_slept st + retry_pause opts\<rparr>"
  obtain err where "connect_quic sy (br_attempts st) opts = Err err" using Suc.prems(1) [of 0] by auto
  then have "reconnect sy opts st = reconnect sy opts st1" by (subst reconnect.simps) (simp add: st1_def)
  moreover have "\<exists>err. connect_quic sy (br_attempts st1 + j) opts = Err err" if "j < k" for j
    using Suc.prems(1) [of "Suc j"] that by (simp add: st1_def)
  moreover have "connect_quic sy (br_attempts st1 + k) opts = Ok c" using Suc.prems(2) by (simp add: st1_def)
  ultimately show ?case using Suc.IH [of st1] by (simp add: st1_def reconnected_def add.assoc)
qed

lemma reconnect_needs:
  assumes "reconnect sy opts st = Some st'"
  shows "\<exists>k c. connect_quic sy (br_attempts st + k) opts = Ok c"
proof (rule reconnect.raw_induct [where P = "\<lambda>sy opts st _. \<exists>k c. connect_quic sy (br_attempts st + k) opts = Ok c", OF _ assms])
  fix self :: "bridge_sys \<Rightarrow> client_options \<Rightarrow> bridge \<Rightarrow> bridge option" and sy opts st st'
  assume IH: "\<And>sy opts st st'. self sy opts st = Some st' \<Longrightarrow> \<exists>k c. connect_quic sy (br_attempts st + k) opts = Ok c"
    and run: "(case connect_quic sy (br_attempts st) opts of
        Inl err \<Rightarrow> self sy opts (st\<lparr>br_attempts := Suc (br_attempts st), br_slept := br_slept st + retry_pause opts\<rparr>)
      | Inr c \<Rightarrow> Some (st\<lparr>br_current := Some c, br_attempts := Suc (br_attempts st)\<rparr>)) = Some st'"
  show "\<exists>k c. connect_quic sy (br_attempts st + k) opts = Ok c"
  proof (cases "connect_quic sy (br_attempts st) opts")
    case (Inl err)
    with run have "self sy opts (st\<lparr>br_attempts := Suc (br_attempts st), br_slept := br_slept st + retry_pause opts\<rparr>) = Some st'" by simp
    from IH [OF this] obtain k c where "connect_quic sy (Suc (br_attempts st) + k) opts = Ok c" by auto
    then show ?thesis by (intro exI [of _ "Suc k"] exI [of _ c]) simp
  next
    case (Inr c)
    then show ?thesis by (intro exI [of _ 0] exI [of _ c]) simp
  qed
qed

lemma reconnect_cases:
  assumes "is_ok (connect_quic sy (br_attempts st + m) opts)"
  shows "\<exists>k c. reconnect sy opts st = Some (reconnected opts k c st) \<and> connect_quic sy (br_attempts st + k) opts = Ok c \<and>
    (\<forall>j < k. \<not> is_ok (connect_quic sy (br_attempts st + j) opts))"
proof -
  define k where "k = (LEAST k. is_ok (connect_quic sy (br_attempts st + k) opts))"
  have "is_ok (connect_quic sy (br_attempts st + k) opts)" using LeastI [where P = "\<lambda>k. is_ok (connect_quic sy (br_attempts st + k) opts)", OF assms] by (simp add: k_def)
  then obtain c where c: "connect_quic sy (br_attempts st + k) opts = Ok c" by (auto simp: is_ok_iff)
  have before: "\<not> is_ok (connect_quic sy (br_attempts st + j) opts)" if "j < k" for j
    using not_less_Least that unfolding k_def by blast
  then have "\<exists>err. connect_quic sy (br_attempts st + j) opts = Err err" if "j < k" for j
    using that by (cases "connect_quic sy (br_attempts st + j) opts") (auto simp: is_ok_iff)
  from reconnect_after [OF this c] c before show ?thesis by blast
qed

text \<open>The reconnect loop returns exactly when some later attempt succeeds; it then uses the first one that does, after a pause of at least one second for every failure before it.\<close>

theorem reconnect_first_success:
  "(reconnect sy opts st = Some st' \<longleftrightarrow>
     (\<exists>k c. connect_quic sy (br_attempts st + k) opts = Ok c \<and> st' = reconnected opts k c st \<and>
        (\<forall>j < k. \<not> is_ok (connect_quic sy (br_attempts st + j) opts)))) \<and> 1 \<le> retry_pause opts"
proof -
  have "\<exists>k c. connect_quic sy (br_attempts st + k) opts = Ok c \<and> st' = reconnected opts k c st \<and>
      (\<forall>j < k. \<not> is_ok (connect_quic sy (br_attempts st + j) opts))" if r: "reconnect sy opts st = Some st'"
  proof -
    obtain m where "is_ok (connect_quic sy (br_attempts st + m) opts)"
      using reconnect_needs [OF r] is_ok_iff by metis
    from reconnect_cases [OF this] r show ?thesis by auto
  qed
  moreover have "reconnect sy opts st = Some (reconnected opts k c st)"
    if "connect_quic sy (br_attempts st + k) opts = Ok c" "\<forall>j < k. \<not> is_ok (connect_quic sy (br_attempts st + j) opts)" for k c
    using that by (intro reconnect_after) (metis is_ok_iff not_Inr_result)
  ultimately show ?thesis by (auto simp: retry_pause_def)
qed

subsection \<open>Rounds\<close>

definition attempts_recur :: "bridge_sys \<Rightarrow> client_options \<Rightarrow> bool" where
  "attempts_recur sy opts \<longleftrightarrow> (\<forall>a. \<exists>k. is_ok (connect_quic sy (a + k) opts))"

lemma reconnect_total:
  assumes "attempts_recur sy opts"
  shows "\<exists>k c. reconnect sy opts st = Some (reconnected opts k c st) \<and> connect_quic sy (br_attempts st + k) opts = Ok c"
proof -
  obtain m where "is_ok (connect_quic sy (br_attempts st + m) opts)" using assms by (auto simp: attempts_recur_def)
  from reconnect_cases [OF this] show ?thesis by blast
qed

text \<open>The connection a round uses, given the one of the round before.\<close>

definition round_connection :: "bridge_sys \<Rightarrow> client_options \<Rightarrow> nat \<Rightarrow> nat option \<Rightarrow> nat \<Rightarrow> bool" where
  "round_connection sy opts r prev c \<longleftrightarrow>
     (if (case prev of None \<Rightarrow> True | Some p \<Rightarrow> bs_closed sy p (2 * r)) then \<exists>a. connect_quic sy a opts = Ok c else prev = Some c)"

definition previous :: "(nat \<times> nat \<times> proxy) list \<Rightarrow> nat \<Rightarrow> nat option" where
  "previous tasks r = (if r = 0 then None else Some (fst (snd (tasks ! (r - 1)))))"

text \<open>The task of a round: its socket, the round's connection, and what came of opening a stream on it.\<close>

definition round_task :: "bridge_sys \<Rightarrow> client_options \<Rightarrow> nat \<Rightarrow> nat option \<Rightarrow> nat \<Rightarrow> nat \<times> nat \<times> proxy \<Rightarrow> bool" where
  "round_task sy opts r prev socket task \<longleftrightarrow>
     (\<exists>c. task = (socket, c, proxy_start (open_task sy socket c)) \<and> round_connection sy opts r prev c)"

lemma client_round_total:
  assumes "attempts_recur sy opts" and "bs_accept sy (br_round st) = Ok socket"
  shows "\<exists>c st'. client_round sy opts st = Some (Going st') \<and>
    br_tasks st' = br_tasks st @ [(socket, c, proxy_start (open_task sy socket c))] \<and>
    br_round st' = Suc (br_round st) \<and> br_current st' = Some c \<and> round_connection sy opts (br_round st) (br_current st) c"
proof (cases "needs_connection sy st")
  case True
  obtain k c where "reconnect sy opts st = Some (reconnected opts k c st)" "connect_quic sy (br_attempts st + k) opts = Ok c"
    using reconnect_total [OF assms(1)] by blast
  with True assms(2) show ?thesis
    by (auto simp: client_round_def reconnected_def round_connection_def needs_connection_def)
next
  case False
  then obtain c where "br_current st = Some c" by (auto simp: needs_connection_def split: option.splits)
  with False assms(2) show ?thesis by (auto simp: client_round_def round_connection_def needs_connection_def)
qed

lemma client_rounds_total:
  assumes "attempts_recur sy opts" and "\<forall>r < n. bs_accept sy r = Ok (sock r)"
  shows "\<exists>st. client_rounds sy opts n client_start = Some (Going st) \<and> br_round st = n \<and> length (br_tasks st) = n \<and>
    br_current st = previous (br_tasks st) n \<and>
    (\<forall>r < n. round_task sy opts r (previous (br_tasks st) r) (sock r) (br_tasks st ! r))"
  using assms(2)
proof (induction n)
  case (Suc n)
  then obtain st where st: "client_rounds sy opts n client_start = Some (Going st)" "br_round st = n"
    "length (br_tasks st) = n" "br_current st = previous (br_tasks st) n"
    "\<forall>r < n. round_task sy opts r (previous (br_tasks st) r) (sock r) (br_tasks st ! r)" by auto
  have "bs_accept sy (br_round st) = Ok (sock n)" using Suc.prems st(2) by simp
  from client_round_total [OF assms(1) this] obtain c st' where new: "client_round sy opts st = Some (Going st')"
    "br_tasks st' = br_tasks st @ [(sock n, c, proxy_start (open_task sy (sock n) c))]" "br_round st' = Suc n" "br_current st' = Some c"
    "round_connection sy opts n (br_current st) c" using st(2) by auto
  have prev: "previous (br_tasks st') r = previous (br_tasks st) r" if "r \<le> n" for r
    using that st(3) by (auto simp: previous_def new(2) nth_append)
  have "round_task sy opts r (previous (br_tasks st') r) (sock r) (br_tasks st' ! r)" if "r < Suc n" for r
  proof (cases "r = n")
    case True
    then show ?thesis using new(5) st(3,4) prev [of n] by (simp add: new(2) nth_append round_task_def)
  next
    case False
    with that have "r < n" by simp
    then show ?thesis using st(3,5) prev [of r] by (simp add: new(2) nth_append)
  qed
  moreover have "br_current st' = previous (br_tasks st') (Suc n)" using st(3) by (simp add: previous_def new(2,4) nth_append)
  ultimately show ?case using st(1,3) new by auto
qed (simp add: client_start_def previous_def)

text \<open>When attempts to connect keep succeeding eventually and the listener works, the client starts one task for every local socket, in the order of arrival; it stays with a connection until a check at the start of a round finds it closed, and only then uses one from a new attempt. A task whose stream cannot be opened ends at once with the error, its socket dropped; no later round takes the socket up.\<close>

theorem client_tasks_in_order:
  assumes "attempts_recur sy opts" and "\<forall>r < n. bs_accept sy r = Ok (sock r)"
  shows "\<exists>st. client_rounds sy opts n client_start = Some (Going st) \<and> length (br_tasks st) = n \<and>
    (\<forall>r < n. round_task sy opts r (previous (br_tasks st) r) (sock r) (br_tasks st ! r))"
  using client_rounds_total [OF assms] by blast

text \<open>A task that cannot open its stream has failed, and copies nothing.\<close>

lemma unopened_fails:
  assumes "open_task sy socket c = Err err"
  shows "px_result (proxy_start (open_task sy socket c)) = Some (Err err) \<and> \<not> proxy_step lim (proxy_start (open_task sy socket c)) s"
  using assms by (auto simp: proxy_start_def elim!: proxy_step.cases proxy_move.cases)

text \<open>A connection that closes while the client waits for a socket is still given this socket.\<close>

lemma stale_connection_used:
  assumes "br_current st = Some c" and "\<not> bs_closed sy c (2 * br_round st)" and "bs_accept sy (br_round st) = Ok socket"
  shows "client_round sy opts st = Some (Going (st\<lparr>br_tasks := br_tasks st @ [(socket, c, proxy_start (open_task sy socket c))], br_round := Suc (br_round st)\<rparr>))"
  using assms by (simp add: client_round_def needs_connection_def)

lemma client_never_panics: "client_rounds sy opts n client_start \<noteq> Some (Panicked err)"
proof -
  have set_by: "br_current st' \<noteq> None" if r: "reconnect sy opts st = Some st'" for st st'
  proof -
    obtain m where "is_ok (connect_quic sy (br_attempts st + m) opts)" using reconnect_needs [OF r] is_ok_iff by metis
    from reconnect_cases [OF this] r show ?thesis by (auto simp: reconnected_def)
  qed
  then have "client_round sy opts st \<noteq> Some (Panicked err)" for st
    by (auto simp: client_round_def needs_connection_def bind_eq_Some_conv split: if_splits sum.splits option.splits dest!: set_by)
  then show ?thesis by (induction n) (auto split: option.splits round_result.splits)
qed

definition demo_bridge_sys :: bridge_sys where
  "demo_bridge_sys =
     \<lparr>bs_file_open = (\<lambda>_ _. True), bs_pem_certs = (\<lambda>_ _. Ok [''ca'']), bs_parsable = (\<lambda>_. True), bs_native = (\<lambda>_. []),
      bs_native_errors = (\<lambda>_. []), bs_endpoint = (\<lambda>_ _. Ok ()),
      bs_connect = (\<lambda>a _ _ _. if even a then Err ''timed out'' else Ok a), bs_closed = (\<lambda>c t. c + 2 < t), bs_accept = (\<lambda>r. Ok (10 + r)),
      bs_nodelay = (\<lambda>_. None), bs_open_bi = (\<lambda>_ socket. if socket = 12 then Err ''reset'' else Ok ())\<rparr>"

definition demo_client_options :: client_options where
  "demo_client_options = \<lparr>op_remote = ''relay:7443'', op_server_name = ''relay'', op_ca = Some ''ca.pem'', op_reconnect_seconds = 0\<rparr>"

lemma demo_connects: "connect_quic demo_bridge_sys a demo_client_options = (if even a then Err ''timed out'' else Ok a)"
  by (simp add: connect_quic_def trusted_roots_def load_certificates_def add_parsable_def demo_bridge_sys_def demo_client_options_def)

lemma demo_recur: "attempts_recur demo_bridge_sys demo_client_options"
proof -
  have "odd (a + (if even a then 1 else 0))" for a :: nat by simp
  then have "is_ok (connect_quic demo_bridge_sys (a + (if even a then 1 else 0)) demo_client_options)" for a
    unfolding demo_connects by simp
  then show ?thesis unfolding attempts_recur_def by blast
qed

lemma demo_third_dropped: "open_task demo_bridge_sys 12 c = Err ((''n'' @ u_atilde @ ''o foi poss'' @ u_iacute @ ''vel abrir stream QUIC''))"
  by (simp add: open_task_def demo_bridge_sys_def try_unit_def)

theorem client_tasks_in_order_witness:
  "\<exists>st c. client_rounds demo_bridge_sys demo_client_options 5 client_start = Some (Going st) \<and>
     br_tasks st ! 2 = (12, c, proxy_start (Err ((''n'' @ u_atilde @ ''o foi poss'' @ u_iacute @ ''vel abrir stream QUIC'')))) \<and> length (br_tasks st) = 5"
proof -
  have "\<forall>r < 5. bs_accept demo_bridge_sys r = Ok (10 + r)" by (simp add: demo_bridge_sys_def)
  from client_tasks_in_order [OF demo_recur this] obtain st where
    "client_rounds demo_bridge_sys demo_client_options 5 client_start = Some (Going st)" "length (br_tasks st) = 5"
    and tasks: "\<forall>r < 5. round_task demo_bridge_sys demo_client_options r (previous (br_tasks st) r) (10 + r) (br_tasks st ! r)" by blast
  moreover from tasks [rule_format, of 2] obtain c where "br_tasks st ! 2 = (12, c, proxy_start (open_task demo_bridge_sys 12 c))"
    by (auto simp: round_task_def)
  ultimately show ?thesis unfolding demo_third_dropped by blast
qed

theorem reconnect_first_success_witness:
  "reconnect demo_bridge_sys demo_client_options client_start = Some (reconnected demo_client_options 1 1 client_start)"
proof -
  have "connect_quic demo_bridge_sys (br_attempts client_start + 1) demo_client_options = Ok 1"
    "\<forall>j < 1. \<not> is_ok (connect_quic demo_bridge_sys (br_attempts client_start + j) demo_client_options)"
    by (simp_all add: demo_connects client_start_def is_ok_iff)
  with reconnect_first_success show ?thesis by blast
qed

subsection \<open>Streams of a connection\<close>

fun accepted_before_close :: "serve_event list \<Rightarrow> nat list" where
  "accepted_before_close (StreamAccepted i # es) = i # accepted_before_close es"
| "accepted_before_close (TaskEnded i r # es) = accepted_before_close es"
| "accepted_before_close _ = []"

lemma serve_tasks:
  "set (sv_tasks st) \<union> (if sv_open st then set (accepted_before_close es) else {}) \<subseteq>
   set (sv_tasks (foldl serve_step st es)) \<union> {i. \<exists>r. TaskEnded i r \<in> set es}"
proof (induction es arbitrary: st)
  case (Cons e es)
  define s1 where "s1 = serve_step st e"
  have "set (sv_tasks st) \<subseteq> set (sv_tasks s1) \<union> {i. \<exists>r. e = TaskEnded i r}"
    by (cases e) (auto simp: s1_def Let_def split: task_result.splits dest: in_set_remove1 intro: ccontr)
  moreover have "set (accepted_before_close (e # es)) \<subseteq> set (sv_tasks s1) \<union> (if sv_open s1 then set (accepted_before_close es) else {})"
    if "sv_open st"
    using that by (cases e) (auto simp: s1_def Let_def split: task_result.splits)
  moreover have "foldl serve_step st (e # es) = foldl serve_step s1 es" by (simp add: s1_def)
  moreover note Cons.IH [of s1]
  ultimately show ?case by (cases "sv_open st") (simp_all, blast+)
qed auto

lemma serve_open_warnings:
  "\<forall>err. ConnectionClosed err \<notin> set es \<Longrightarrow> sv_open st \<Longrightarrow>
   set (sv_warnings (foldl serve_step st es)) \<subseteq> set (sv_warnings st) \<union> {err. \<exists>i. TaskEnded i (TaskPanicked err) \<in> set es}"
proof (induction es arbitrary: st)
  case (Cons e es)
  have "sv_open (serve_step st e)" "set (sv_warnings (serve_step st e)) \<subseteq> set (sv_warnings st) \<union> {err. \<exists>i. e = TaskEnded i (TaskPanicked err)}"
    using Cons.prems by (cases e; auto simp: Let_def split: task_result.splits)+
  with Cons.IH [of "serve_step st e"] Cons.prems(1) show ?case by (auto split: if_splits) blast
qed simp

text \<open>The handler of a connection returns only after every stream it accepted has ended; but while the connection is open a stream that fails leaves no warning, since only panics are reported there.\<close>

theorem serve_waits_for_streams:
  "(serve_returns (serve_connection es) \<longrightarrow> (\<forall>i \<in> set (accepted_before_close es). \<exists>r. TaskEnded i r \<in> set es)) \<and>
   ((\<forall>err. ConnectionClosed err \<notin> set es) \<longrightarrow>
      set (sv_warnings (serve_connection es)) \<subseteq> {err. \<exists>i. TaskEnded i (TaskPanicked err) \<in> set es})"
  using serve_tasks [of "\<lparr>sv_open = True, sv_tasks = [], sv_warnings = []\<rparr>" es]
    serve_open_warnings [of es "\<lparr>sv_open = True, sv_tasks = [], sv_warnings = []\<rparr>"]
  by (auto simp: serve_connection_def serve_returns_def)

theorem serve_waits_for_streams_witness:
  "serve_returns (serve_connection [StreamAccepted 1, ConnectionClosed ''bye'', TaskEnded 1 TaskOk]) \<and>
   sv_warnings (serve_connection [StreamAccepted 1, TaskEnded 1 (TaskFailed ''reset'')]) = []"
proof -
  have "set (sv_warnings (serve_connection [StreamAccepted 1, TaskEnded 1 (TaskFailed ''reset'')])) \<subseteq> {}"
    using serve_waits_for_streams [of "[StreamAccepted 1, TaskEnded 1 (TaskFailed ''reset'')]"] by simp
  then show ?thesis by (simp add: serve_connection_def serve_returns_def)
qed

end
