(* ===== verification/Quic_Chain.thy ===== *)
theory Quic_Chain
  imports Quic_Proxy
begin

text \<open>
  The bridge as a whole: a local program, the proxy of the client process, a QUIC stream, the proxy of
  the server process and the program behind it. A server process learns of a stream only by what is
  sent on it, so a stream that is opened and not yet used is not accepted by the other side.
\<close>

subsection \<open>Both processes\<close>










subsection \<open>What the chain keeps\<close>






























subsection \<open>Being stuck\<close>






subsection \<open>Bounded work\<close>












end
