(* ===== verification/Db_Provider.thy ===== *)
theory Db_Provider
  imports Access
begin

text \<open>
  The database layer behind the generic commands: the driver and its configuration
  (\<^verbatim>\<open>core/database/config.rs\<close>), the values of a statement (\<^verbatim>\<open>core/database/provider/types.rs\<close>), the
  interface of a provider (\<^verbatim>\<open>core/database/provider/mod.rs\<close>) and the provider for SQLite
  (\<^verbatim>\<open>core/database/sqlite.rs\<close>). Database engines are parameters: an engine takes the text of a
  statement and its parameters. A connection has a state of its own, since
  \<^verbatim>\<open>last_insert_rowid\<close> belongs to it.
\<close>

subsection \<open>Driver and configuration\<close>

datatype database_driver = Sqlite | Mysql | Postgres | FirebirdUnsupported

definition driver_from_str :: "string \<Rightarrow> database_driver" where
  "driver_from_str value =
     (let v = to_ascii_lowercase (trim value) in
      if v \<in> {''mysql'', ''mariadb''} then Mysql
      else if v \<in> {''postgres'', ''postgresql''} then Postgres
      else if v \<in> {''firebird'', ''fb''} then FirebirdUnsupported
      else Sqlite)"

fun driver_as_str :: "database_driver \<Rightarrow> string" where
  "driver_as_str Sqlite = ''sqlite''"
| "driver_as_str Mysql = ''mysql''"
| "driver_as_str Postgres = ''postgres''"
| "driver_as_str FirebirdUnsupported = ''firebird-unsupported''"

fun is_external :: "database_driver \<Rightarrow> bool" where
  "is_external Mysql = True"
| "is_external Postgres = True"
| "is_external _ = False"

record database_config =
  dc_driver :: database_driver
  dc_sqlite_path :: "string option"
  dc_host :: "string option"
  dc_port :: "16 word option"
  dc_database :: "string option"
  dc_username :: "string option"
  dc_password :: "string option"

definition database_config_default :: database_config where
  "database_config_default =
     \<lparr>dc_driver = Sqlite, dc_sqlite_path = Some ''app.db'', dc_host = None, dc_port = None, dc_database = None,
      dc_username = None, dc_password = None\<rparr>"

fun env_prefix :: "database_driver \<Rightarrow> string" where
  "env_prefix Mysql = ''TUNNARA_CONSOLE_MYSQL''"
| "env_prefix Postgres = ''TUNNARA_CONSOLE_POSTGRES''"
| "env_prefix _ = ''TUNNARA_CONSOLE_DB''"

fun default_port :: "database_driver \<Rightarrow> 16 word option" where
  "default_port Mysql = Some 3306"
| "default_port Postgres = Some 5432"
| "default_port _ = None"

definition prefixed_env :: "env \<Rightarrow> string \<Rightarrow> string \<Rightarrow> string option" where
  "prefixed_env e prefix suffix = or_else (e (prefix @ ''_'' @ suffix)) (e (''TUNNARA_CONSOLE_DB_'' @ suffix))"

definition from_env_with_driver :: "env \<Rightarrow> string \<Rightarrow> database_config" where
  "from_env_with_driver e driver =
     (let d = driver_from_str driver; prefix = env_prefix d in
      \<lparr>dc_driver = d,
       dc_sqlite_path = or_else (e ''TUNNARA_CONSOLE_SQLITE_PATH'') (Some ''app.db''),
       dc_host = prefixed_env e prefix ''HOST'',
       dc_port = or_else (Option.bind (prefixed_env e prefix ''PORT'') parse_u16) (default_port d),
       dc_database = prefixed_env e prefix ''DATABASE'',
       dc_username = prefixed_env e prefix ''USERNAME'',
       dc_password = prefixed_env e prefix ''PASSWORD''\<rparr>)"

definition external_dsn_label :: "database_config \<Rightarrow> string" where
  "external_dsn_label c =
     (case dc_driver c of
        Sqlite \<Rightarrow> unwrap_or ''app.db'' (dc_sqlite_path c)
      | FirebirdUnsupported \<Rightarrow> ''Firebird ignorado nesta etapa por compatibilidade''
      | _ \<Rightarrow>
          unwrap_or ''127.0.0.1'' (dc_host c) @ '':'' @ show_word (unwrap_or 0 (dc_port c)) @ '' / '' @
          unwrap_or ''<database>'' (dc_database c))"

subsection \<open>Values\<close>

text \<open>A real number is kept as the JSON number it comes from.\<close>

datatype db_value = DbNull | DbBool bool | DbInteger int | DbReal json_number | DbText string | DbJson json

fun db_value_of_json :: "json \<Rightarrow> db_value" where
  "db_value_of_json JNull = DbNull"
| "db_value_of_json (JBool b) = DbBool b"
| "db_value_of_json (JNum n) = (case num_as_i64 n of Some i \<Rightarrow> DbInteger i | None \<Rightarrow> DbReal n)"
| "db_value_of_json (JStr s) = DbText s"
| "db_value_of_json v = DbJson v"

fun db_value_to_json :: "db_value \<Rightarrow> json" where
  "db_value_to_json DbNull = JNull"
| "db_value_to_json (DbBool b) = JBool b"
| "db_value_to_json (DbInteger i) = js_int i"
| "db_value_to_json (DbReal n) = JNum n"
| "db_value_to_json (DbText s) = JStr s"
| "db_value_to_json (DbJson v) = v"

datatype sql_value = SqlNull | SqlInteger int | SqlReal json_number | SqlText string

definition to_rusqlite_value :: "(json \<Rightarrow> string) \<Rightarrow> db_value \<Rightarrow> sql_value" where
  "to_rusqlite_value json_text v =
     (case v of
        DbNull \<Rightarrow> SqlNull
      | DbBool b \<Rightarrow> SqlInteger (of_bool b)
      | DbInteger i \<Rightarrow> SqlInteger i
      | DbReal n \<Rightarrow> SqlReal n
      | DbText s \<Rightarrow> SqlText s
      | DbJson j \<Rightarrow> SqlText (json_text j))"

text \<open>A column of a result row; of a blob only the length is looked at. Texts are valid UTF-8.\<close>

datatype value_ref = RefNull | RefInteger int | RefReal json_number | RefText string | RefBlob nat

fun value_ref_json :: "value_ref \<Rightarrow> json" where
  "value_ref_json RefNull = JNull"
| "value_ref_json (RefInteger i) = js_int i"
| "value_ref_json (RefReal n) = JNum n"
| "value_ref_json (RefText s) = JStr s"
| "value_ref_json (RefBlob n) = JStr (''<blob:'' @ show_nat n @ '' bytes>'')"

definition row_to_json_map :: "(string \<times> value_ref) list \<Rightarrow> json_obj" where
  "row_to_json_map row = map (\<lambda>(k, v). (k, value_ref_json v)) row"

subsection \<open>Engines\<close>

datatype query_error = PrepareFailed string | QueryFailed string | MapFailed string

text \<open>
  A connection to a local database. \<open>'d\<close> is the state of the database, \<open>'c\<close> that of a connection.
\<close>

record ('c, 'd) engine =
  eg_open :: "'d \<Rightarrow> ('c, string) result"
  eg_execute :: "string \<Rightarrow> sql_value list \<Rightarrow> 'c \<times> 'd \<Rightarrow> (nat, string) result \<times> ('c \<times> 'd)"
  eg_query :: "string \<Rightarrow> sql_value list \<Rightarrow> 'c \<times> 'd \<Rightarrow> ((string \<times> value_ref) list list, query_error) result \<times> ('c \<times> 'd)"
  eg_last_id :: "'c \<Rightarrow> int"

definition with_conn :: "('c, 'd) engine \<Rightarrow> ('a, 'c \<times> 'd) cmd \<Rightarrow> ('a, 'd) cmd" where
  "with_conn eg body d =
     (case eg_open eg d of
        Inl err \<Rightarrow> (Err err, d)
      | Inr c \<Rightarrow> (case body (c, d) of (r, (_, d')) \<Rightarrow> (r, d')))"

fun query_error_text :: "string \<Rightarrow> string \<Rightarrow> string \<Rightarrow> query_error \<Rightarrow> string" where
  "query_error_text p q m (PrepareFailed err) = p @ '': '' @ err"
| "query_error_text p q m (QueryFailed err) = q @ '': '' @ err"
| "query_error_text p q m (MapFailed err) = m @ '': '' @ err"

definition mapped :: "('e \<Rightarrow> string) \<Rightarrow> ('a \<Rightarrow> 'b) \<Rightarrow> ('a, 'e) result \<times> 'w \<Rightarrow> ('b, string) result \<times> 'w" where
  "mapped err f rw = (case rw of (Inl e, w) \<Rightarrow> (Err (err e), w) | (Inr x, w) \<Rightarrow> (Ok (f x), w))"

text \<open>A step of the surroundings while a connection is open.\<close>

definition beside :: "('a, 'd) cmd \<Rightarrow> ('a, 'c \<times> 'd) cmd" where
  "beside m w = (case m (snd w) of (r, d) \<Rightarrow> (r, (fst w, d)))"

text \<open>\<^verbatim>\<open>row.get\<close> of rusqlite at a type, with the message of its error.\<close>

fun ref_type :: "value_ref \<Rightarrow> string" where
  "ref_type RefNull = ''Null''"
| "ref_type (RefInteger _) = ''Integer''"
| "ref_type (RefReal _) = ''Real''"
| "ref_type (RefText _) = ''Text''"
| "ref_type (RefBlob _) = ''Blob''"

definition wrong_type :: "nat \<Rightarrow> string \<times> value_ref \<Rightarrow> string" where
  "wrong_type i col =
     ''Invalid column type '' @ ref_type (snd col) @ '' at index: '' @ show_nat i @ '', name: '' @ fst col"

definition get_col :: "(string \<times> value_ref) list \<Rightarrow> nat \<Rightarrow> (value_ref \<Rightarrow> 'a option) \<Rightarrow> ('a, string) result" where
  "get_col row i conv =
     (if i < length row then ok_or (wrong_type i (row ! i)) (conv (snd (row ! i)))
      else Err (''Invalid column index: '' @ show_nat i))"

fun ref_i64 :: "value_ref \<Rightarrow> int option" where
  "ref_i64 (RefInteger i) = Some i"
| "ref_i64 _ = None"

fun ref_string :: "value_ref \<Rightarrow> string option" where
  "ref_string (RefText s) = Some s"
| "ref_string _ = None"

text \<open>Collecting mapped rows into a result stops at the first row that fails.\<close>

fun collect_rows :: "('a \<Rightarrow> ('b, string) result) \<Rightarrow> 'a list \<Rightarrow> ('b list, string) result" where
  "collect_rows f [] = Ok []"
| "collect_rows f (x # xs) = and_then (f x) (\<lambda>y. and_then (collect_rows f xs) (\<lambda>ys. Ok (y # ys)))"

text \<open>\<^verbatim>\<open>join\<close> of a slice of strings.\<close>

fun join :: "string \<Rightarrow> string list \<Rightarrow> string" where
  "join sep [] = []"
| "join sep [x] = x"
| "join sep (x # y # xs) = x @ sep @ join sep (y # xs)"

subsection \<open>Providers\<close>

record 'd provider =
  pv_driver :: database_driver
  pv_execute :: "string \<Rightarrow> db_value list \<Rightarrow> (nat, 'd) cmd"
  pv_query :: "string \<Rightarrow> db_value list \<Rightarrow> (json_obj list, 'd) cmd"
  pv_query_one :: "string \<Rightarrow> db_value list \<Rightarrow> (json_obj option, 'd) cmd"

definition placeholder :: "'d provider \<Rightarrow> nat \<Rightarrow> string" where
  "placeholder pv index = (if pv_driver pv = Postgres then ''$'' @ show_nat index else ''?'')"

definition last_insert_id_sql :: "'d provider \<Rightarrow> string" where
  "last_insert_id_sql pv =
     (case pv_driver pv of
        Sqlite \<Rightarrow> ''SELECT last_insert_rowid() AS id''
      | Mysql \<Rightarrow> ''SELECT LAST_INSERT_ID() AS id''
      | _ \<Rightarrow> [])"

definition begin_transaction :: "'d provider \<Rightarrow> (unit, 'd) cmd" where
  "begin_transaction pv = bindc (pv_execute pv ''BEGIN'' []) (\<lambda>_. ret ())"

definition commit :: "'d provider \<Rightarrow> (unit, 'd) cmd" where
  "commit pv = bindc (pv_execute pv ''COMMIT'' []) (\<lambda>_. ret ())"

definition rollback :: "'d provider \<Rightarrow> (unit, 'd) cmd" where
  "rollback pv = bindc (pv_execute pv ''ROLLBACK'' []) (\<lambda>_. ret ())"

text \<open>The provider for SQLite opens a connection of its own for every statement.\<close>

definition sqlite_execute :: "('c, 'd) engine \<Rightarrow> (json \<Rightarrow> string) \<Rightarrow> string \<Rightarrow> db_value list \<Rightarrow> (nat, 'd) cmd" where
  "sqlite_execute eg jt sql params =
     with_conn eg (\<lambda>w. mapped (\<lambda>err. ''Falha ao executar SQL SQLite pelo provider: '' @ err) id
       (eg_execute eg sql (map (to_rusqlite_value jt) params) w))"

definition sqlite_query :: "('c, 'd) engine \<Rightarrow> (json \<Rightarrow> string) \<Rightarrow> string \<Rightarrow> db_value list \<Rightarrow> (json_obj list, 'd) cmd" where
  "sqlite_query eg jt sql params =
     with_conn eg (\<lambda>w. mapped (query_error_text ''Falha ao preparar query SQLite pelo provider''
         ''Falha ao executar query SQLite pelo provider'' ''Falha ao mapear query SQLite pelo provider'')
       (map row_to_json_map) (eg_query eg sql (map (to_rusqlite_value jt) params) w))"

definition sqlite_query_one :: "('c, 'd) engine \<Rightarrow> (json \<Rightarrow> string) \<Rightarrow> string \<Rightarrow> db_value list \<Rightarrow> (json_obj option, 'd) cmd" where
  "sqlite_query_one eg jt sql params =
     with_conn eg (\<lambda>w. mapped (query_error_text ''Falha ao preparar query_one SQLite pelo provider''
         ''Falha ao executar query_one SQLite pelo provider'' ''Falha ao executar query_one SQLite pelo provider'')
       (\<lambda>rows. map_option row_to_json_map (first_row rows)) (eg_query eg sql (map (to_rusqlite_value jt) params) w))"

definition sqlite_provider :: "('c, 'd) engine \<Rightarrow> (json \<Rightarrow> string) \<Rightarrow> 'd provider" where
  "sqlite_provider eg jt =
     \<lparr>pv_driver = Sqlite, pv_execute = sqlite_execute eg jt, pv_query = sqlite_query eg jt, pv_query_one = sqlite_query_one eg jt\<rparr>"

text \<open>
  \<open>ho_external\<close> stands for the providers of MySQL and PostgreSQL, which are compiled in only with
  their features. The remaining components are the process environment, the path of the database,
  the text of a JSON value, the clock and the hashing of passwords; clock and randomness may
  keep a state beside the database.
\<close>

record ('c, 'd) host_sys =
  ho_engine :: "('c, 'd) engine"
  ho_external :: "database_config \<Rightarrow> 'd provider"
  ho_env :: env
  ho_db_path :: "(string, string) result"
  ho_json_text :: "json \<Rightarrow> string"
  ho_now :: "(string, 'd) cmd"
  ho_hash_password :: "string \<Rightarrow> (string, 'd) cmd"

definition provider_from_config :: "('c, 'd) host_sys \<Rightarrow> database_config \<Rightarrow> ('d provider, string) result" where
  "provider_from_config sy config =
     (case dc_driver config of
        Sqlite \<Rightarrow> Ok (sqlite_provider (ho_engine sy) (ho_json_text sy))
      | FirebirdUnsupported \<Rightarrow> Err ''Firebird permanece fora do escopo funcional por compatibilidade.''
      | _ \<Rightarrow> Ok (ho_external sy config))"

definition current_provider_driver :: "env \<Rightarrow> string" where
  "current_provider_driver e =
     to_ascii_lowercase (trim (unwrap_or ''sqlite'' (or_else (e ''TUNNARA_CONSOLE_DATABASE_DRIVER'') (e ''TUNNARA_CONSOLE_DB_DRIVER''))))"

definition active_provider :: "('c, 'd) host_sys \<Rightarrow> ('d provider, string) result" where
  "active_provider sy =
     and_then (ho_db_path sy) (\<lambda>_.
     provider_from_config sy (from_env_with_driver (ho_env sy) (current_provider_driver (ho_env sy))))"



end
