(* ===== verification/Entities.thy ===== *)
theory Entities
  imports Db_Provider
begin

text \<open>
  The generic commands on the master data, \<^verbatim>\<open>commands/entities.rs\<close>: listing, reading, saving and
  deleting a record of one of nine entities, over a local connection and over a provider. The
  statements are texts built from fixed tables of columns; the values travel as parameters. The
  operations whose statements are listed at the end are those over a provider; the desktop commands
  over the local connection are defined here and not among them.
\<close>

subsection \<open>The entities\<close>

record entity_def =
  ed_table :: string
  ed_fields :: "string list"
  ed_searchable :: "string list"
  ed_required :: "string list"
  ed_label_column :: string

abbreviation person_fields :: "string list" where
  "person_fields \<equiv>
     [''nome'', ''documento'', ''telefone'', ''email'', ''endereco'', ''cidade'', ''estado'', ''observacoes'', ''ativo'']"

definition entity_definition :: "string \<Rightarrow> entity_def option" where
  "entity_definition entity =
     (if entity \<in> {''empresas'', ''companies''} then
        Some \<lparr>ed_table = ''empresas'',
          ed_fields = [''nome'', ''nome_fantasia'', ''documento'', ''cidade'', ''estado'', ''ativo''],
          ed_searchable = [''nome'', ''nome_fantasia'', ''documento'', ''cidade''],
          ed_required = [''nome''], ed_label_column = ''nome''\<rparr>
      else if entity \<in> {''perfis'', ''perfis_acesso'', ''profiles''} then
        Some \<lparr>ed_table = ''perfis_acesso'',
          ed_fields = [''nome'', ''descricao'', ''perfil_master'', ''ativo''],
          ed_searchable = [''nome'', ''descricao''],
          ed_required = [''nome''], ed_label_column = ''nome''\<rparr>
      else if entity \<in> {''usuarios'', ''users''} then
        Some \<lparr>ed_table = ''usuarios'',
          ed_fields = [''nome'', ''login'', ''email'', ''telefone'', ''cargo'', ''observacoes'', ''master_user'',
            ''administrador'', ''senha_provisoria'', ''ativo''],
          ed_searchable = [''nome'', ''login'', ''email''],
          ed_required = [''nome'', ''login''], ed_label_column = ''nome''\<rparr>
      else if entity = ''departamentos'' then
        Some \<lparr>ed_table = ''departamentos'', ed_fields = [''descricao'', ''ativo''],
          ed_searchable = [''descricao''], ed_required = [''descricao''], ed_label_column = ''descricao''\<rparr>
      else if entity = ''funcoes'' then
        Some \<lparr>ed_table = ''funcoes'', ed_fields = [''descricao'', ''ativo''],
          ed_searchable = [''descricao''], ed_required = [''descricao''], ed_label_column = ''descricao''\<rparr>
      else if entity = ''centro_custos'' then
        Some \<lparr>ed_table = ''centro_custos'', ed_fields = [''codigo'', ''descricao'', ''ativo''],
          ed_searchable = [''codigo'', ''descricao''], ed_required = [''descricao''], ed_label_column = ''descricao''\<rparr>
      else if entity = ''clientes'' then
        Some \<lparr>ed_table = ''clientes'', ed_fields = person_fields,
          ed_searchable = [''nome'', ''documento'', ''email''], ed_required = [''nome''], ed_label_column = ''nome''\<rparr>
      else if entity = ''fornecedores'' then
        Some \<lparr>ed_table = ''fornecedores'', ed_fields = person_fields,
          ed_searchable = [''nome'', ''documento'', ''email''], ed_required = [''nome''], ed_label_column = ''nome''\<rparr>
      else if entity = ''produtos'' then
        Some \<lparr>ed_table = ''produtos'', ed_fields = [''codigo'', ''descricao'', ''tipo'', ''unidade'', ''valor'', ''ativo''],
          ed_searchable = [''codigo'', ''descricao'', ''tipo''], ed_required = [''descricao''], ed_label_column = ''descricao''\<rparr>
      else None)"

definition entity_or_error :: "string \<Rightarrow> (entity_def, string) result" where
  "entity_or_error entity = ok_or (''Entidade n'' @ u_atilde @ ''o permitida.'') (entity_definition entity)"

subsection \<open>Payloads\<close>

definition json_to_sql_value :: "(json \<Rightarrow> string) \<Rightarrow> json \<Rightarrow> sql_value" where
  "json_to_sql_value json_text value =
     (case value of
        JNull \<Rightarrow> SqlNull
      | JBool b \<Rightarrow> SqlInteger (of_bool b)
      | JNum n \<Rightarrow> (case num_as_i64 n of Some i \<Rightarrow> SqlInteger i | None \<Rightarrow> SqlReal n)
      | JStr s \<Rightarrow> (if trim s = [] then SqlNull else SqlText s)
      | _ \<Rightarrow> SqlText (json_text value))"

definition integer_fields :: "string list" where
  "integer_fields =
     [''empresa_id'', ''departamento_id'', ''funcao_id'', ''centro_custo_id'', ''horario_id'', ''escala_id'', ''numero'',
      ''porta'', ''carga_horaria_minutos'', ''tolerancia_minutos'', ''ativo'', ''administrador'', ''impacta_banco_horas'',
      ''abono'', ''banco_horas_ativo'', ''permite_hora_extra'', ''compensa_atraso_com_extra'', ''usa_banco_para_excedente'']"

definition normalize_value :: "json_obj \<Rightarrow> string \<Rightarrow> json" where
  "normalize_value payload field =
     (let value = unwrap_or JNull (obj_get payload field) in
      if field \<in> set integer_fields then
        (case value of
           JStr v \<Rightarrow> (if trim v = [] then JNull else (case parse_i64 v of Some i \<Rightarrow> js_int i | None \<Rightarrow> JNull))
         | other \<Rightarrow> other)
      else value)"

fun id_value :: "json \<Rightarrow> int option" where
  "id_value (JNum n) = num_as_i64 n"
| "id_value (JStr s) = parse_i64 s"
| "id_value _ = None"

definition payload_id :: "json_obj \<Rightarrow> int option" where
  "payload_id payload = Option.bind (obj_get payload ''id'') id_value"

fun check_required :: "json_obj \<Rightarrow> string list \<Rightarrow> (unit, string) result" where
  "check_required payload [] = Ok ()"
| "check_required payload (field # fs) =
     (if trim (unwrap_or [] (Option.bind (obj_get payload field) as_str)) = []
      then Err (''O campo '' @ field @ ('' '' @ u_eacute @ '' obrigat'' @ u_oacute @ ''rio.''))
      else check_required payload fs)"

subsection \<open>Statements\<close>

definition select_columns :: "entity_def \<Rightarrow> string" where
  "select_columns df = ''id, '' @ join '', '' (ed_fields df)"

text \<open>\<open>ph\<close> gives the placeholder of the parameter with a number, counted from 1.\<close>

definition numbered :: "(nat \<Rightarrow> string) \<Rightarrow> string list \<Rightarrow> (nat \<Rightarrow> string \<Rightarrow> string) \<Rightarrow> string list" where
  "numbered ph columns f = map (\<lambda>(i, column). f i column) (zip [1..<Suc (length columns)] columns)"

definition nth_mark :: "nat \<Rightarrow> string" where
  "nth_mark i = CHR ''?'' # show_nat i"

definition list_sql :: "(nat \<Rightarrow> string) \<Rightarrow> entity_def \<Rightarrow> bool \<Rightarrow> string" where
  "list_sql ph df searched =
     ''SELECT '' @ select_columns df @ '' FROM '' @ ed_table df @
     (if searched
      then '' WHERE ('' @ join '' OR '' (numbered ph (ed_searchable df) (\<lambda>i column. column @ '' LIKE '' @ ph i)) @ '')''
      else []) @
     '' ORDER BY id DESC''"

definition select_sql :: "string \<Rightarrow> entity_def \<Rightarrow> string" where
  "select_sql mark df = ''SELECT '' @ select_columns df @ '' FROM '' @ ed_table df @ '' WHERE id = '' @ mark"

definition update_sql :: "(nat \<Rightarrow> string) \<Rightarrow> string \<Rightarrow> string list \<Rightarrow> string" where
  "update_sql ph table columns =
     ''UPDATE '' @ table @ '' SET '' @
     join '', '' (numbered ph columns (\<lambda>i column. column @ '' = '' @ ph i) @ [''updated_at = '' @ ph (length columns + 1)]) @
     '' WHERE id = '' @ ph (length columns + 2)"

definition insert_sql :: "(nat \<Rightarrow> string) \<Rightarrow> string \<Rightarrow> string list \<Rightarrow> string" where
  "insert_sql ph table columns =
     (let insert_columns = columns @ [''created_at'', ''updated_at''] in
      ''INSERT INTO '' @ table @ '' ('' @ join '', '' insert_columns @ '') VALUES ('' @
      join '', '' (map ph [1..<Suc (length insert_columns)]) @ '')'')"

definition delete_sql :: "string \<Rightarrow> string \<Rightarrow> string" where
  "delete_sql mark table = ''DELETE FROM '' @ table @ '' WHERE id = '' @ mark"

definition combo_sql :: "entity_def \<Rightarrow> string" where
  "combo_sql df =
     ''SELECT id, COALESCE('' @ ed_label_column df @ ('', '[sem descri'' @ u_ccedil @ u_atilde @ ''o]') AS label FROM '') @ ed_table df @ '' ORDER BY label ASC''"

definition search_pattern :: "string \<Rightarrow> string" where
  "search_pattern search = ''%'' @ trim search @ ''%''"

subsection \<open>Over a local connection\<close>

definition local_conn :: "('c, 'd) host_sys \<Rightarrow> ('a, 'c \<times> 'd) cmd \<Rightarrow> ('a, 'd) cmd" where
  "local_conn sy body = bindc (lift (ho_db_path sy)) (\<lambda>_. with_conn (ho_engine sy) body)"

definition local_execute :: "('c, 'd) host_sys \<Rightarrow> string \<Rightarrow> string \<Rightarrow> sql_value list \<Rightarrow> (nat, 'c \<times> 'd) cmd" where
  "local_execute sy msg sql params w = mapped (\<lambda>err. msg @ '': '' @ err) id (eg_execute (ho_engine sy) sql params w)"

definition local_query ::
  "('c, 'd) host_sys \<Rightarrow> (query_error \<Rightarrow> string) \<Rightarrow> string \<Rightarrow> sql_value list \<Rightarrow> ((string \<times> value_ref) list list, 'c \<times> 'd) cmd" where
  "local_query sy msg sql params w = mapped msg id (eg_query (ho_engine sy) sql params w)"

text \<open>\<^verbatim>\<open>query_row(...).optional()\<close>: the first row, every error under one message.\<close>

definition local_row ::
  "('c, 'd) host_sys \<Rightarrow> string \<Rightarrow> string \<Rightarrow> sql_value list \<Rightarrow> ((string \<times> value_ref) list option, 'c \<times> 'd) cmd" where
  "local_row sy msg sql params =
     bindc (local_query sy (query_error_text msg msg msg) sql params) (\<lambda>rows. ret (first_row rows))"

text \<open>The lines of a statement in the source are indented by nine blanks.\<close>

definition sql_lines :: "string list \<Rightarrow> string" where
  "sql_lines ls = join (CHR 0x0A # replicate 9 CHR '' '') ls"

definition opt_sql :: "int option \<Rightarrow> sql_value" where
  "opt_sql v = (case v of None \<Rightarrow> SqlNull | Some i \<Rightarrow> SqlInteger i)"

definition audit_sql :: string where
  "audit_sql =
     sql_lines [''INSERT INTO audit_logs (entity_name, action_name, record_id, payload_json, created_at)'',
       ''VALUES (?1, ?2, ?3, ?4, datetime('now'))'']"

definition conn_write_audit ::
  "('c, 'd) host_sys \<Rightarrow> string \<Rightarrow> string \<Rightarrow> int option \<Rightarrow> json \<Rightarrow> (unit, 'c \<times> 'd) cmd" where
  "conn_write_audit sy entity action record_id payload =
     bindc (local_execute sy ''Falha ao gravar auditoria'' audit_sql
       [SqlText entity, SqlText action, opt_sql record_id, SqlText (ho_json_text sy payload)]) (\<lambda>_. ret ())"

definition sync_sql :: string where
  "sync_sql =
     sql_lines [''INSERT INTO sync_queue (entity_name, action_name, record_id, payload_json, status, created_at, updated_at)'',
       ''VALUES (?1, ?2, ?3, ?4, 'pending', datetime('now'), datetime('now'))'']"

definition conn_enqueue_sync ::
  "('c, 'd) host_sys \<Rightarrow> string \<Rightarrow> string \<Rightarrow> int option \<Rightarrow> json \<Rightarrow> (unit, 'c \<times> 'd) cmd" where
  "conn_enqueue_sync sy entity action record_id payload =
     bindc (local_execute sy (''Falha ao enfileirar sincroniza'' @ u_ccedil @ u_atilde @ ''o'') sync_sql
       [SqlText entity, SqlText action, opt_sql record_id, SqlText (ho_json_text sy payload)]) (\<lambda>_. ret ())"

abbreviation question :: "nat \<Rightarrow> string" where
  "question \<equiv> \<lambda>_. ''?''"

definition entity_list :: "('c, 'd) host_sys \<Rightarrow> string \<Rightarrow> string \<Rightarrow> (json_obj list, 'd) cmd" where
  "entity_list sy entity search =
     bindc (lift (entity_or_error entity)) (\<lambda>df.
     local_conn sy
       (bindc (local_query sy
          (query_error_text (''Falha ao preparar listagem de '' @ ed_table df) (''Falha ao executar listagem de '' @ ed_table df)
             (''Falha ao mapear listagem de '' @ ed_table df))
          (list_sql question df (trim search \<noteq> []))
          (if trim search = [] then [] else map (\<lambda>_. SqlText (search_pattern search)) (ed_searchable df))) (\<lambda>rows.
        ret (map row_to_json_map rows))))"

definition combo_option :: "(string \<times> value_ref) list \<Rightarrow> (int \<times> string, string) result" where
  "combo_option row = and_then (get_col row 0 ref_i64) (\<lambda>i. and_then (get_col row 1 ref_string) (\<lambda>label. Ok (i, label)))"

definition combo_list :: "('c, 'd) host_sys \<Rightarrow> string \<Rightarrow> ((int \<times> string) list, 'd) cmd" where
  "combo_list sy entity =
     bindc (lift (entity_or_error entity)) (\<lambda>df.
     local_conn sy
       (bindc (local_query sy
          (query_error_text (''Falha ao preparar combo de '' @ ed_table df) (''Falha ao executar combo de '' @ ed_table df)
             (''Falha ao mapear combo de '' @ ed_table df))
          (combo_sql df) []) (\<lambda>rows.
        lift (map_err (\<lambda>err. ''Falha ao mapear combo de '' @ ed_table df @ '': '' @ err) (collect_rows combo_option rows)))))"

subsection \<open>Saving and deleting over a local connection\<close>

text \<open>The columns an assignment names and their values; the branch for the password is as the code has it.\<close>

fun entity_columns ::
  "('c, 'd) host_sys \<Rightarrow> string \<Rightarrow> json_obj \<Rightarrow> int option \<Rightarrow> string list \<Rightarrow> ((string \<times> json) list, 'd) cmd" where
  "entity_columns sy entity payload i [] = ret []"
| "entity_columns sy entity payload i (field # fs) =
     (if entity = ''usuarios'' \<and> field = ''senha_hash'' then
        (case Option.bind (obj_get payload ''senha'') as_str of
           Some password \<Rightarrow>
             (if trim password \<noteq> [] then
                bindc (ho_hash_password sy password) (\<lambda>h.
                bindc (entity_columns sy entity payload i fs) (\<lambda>rest. ret ((field, JStr h) # rest)))
              else if i = None then fail (''Senha '' @ u_eacute @ '' obrigat'' @ u_oacute @ ''ria para novo usu'' @ u_aacute @ ''rio.'')
              else entity_columns sy entity payload i fs)
         | None \<Rightarrow>
             (if i = None then fail (''Senha '' @ u_eacute @ '' obrigat'' @ u_oacute @ ''ria para novo usu'' @ u_aacute @ ''rio.'')
              else entity_columns sy entity payload i fs))
      else
        bindc (entity_columns sy entity payload i fs) (\<lambda>rest.
        ret ((field, normalize_value payload field) # rest)))"

definition store_entity ::
  "('c, 'd) host_sys \<Rightarrow> entity_def \<Rightarrow> int option \<Rightarrow> (string \<times> json) list \<Rightarrow> string \<Rightarrow> (int, 'c \<times> 'd) cmd" where
  "store_entity sy df i cols now =
     (let values = map (\<lambda>(_, v). json_to_sql_value (ho_json_text sy) v) cols; columns = map fst cols in
      case i of
        Some existing_id \<Rightarrow>
          bindc (local_execute sy (''Falha ao atualizar '' @ ed_table df) (update_sql question (ed_table df) columns)
            (values @ [SqlText now, SqlInteger existing_id])) (\<lambda>_. ret existing_id)
      | None \<Rightarrow>
          bindc (local_execute sy (''Falha ao inserir em '' @ ed_table df) (insert_sql question (ed_table df) columns)
            (values @ [SqlText now, SqlText now])) (\<lambda>_ w. ret (eg_last_id (ho_engine sy) (fst w)) w))"

definition save_action :: "int option \<Rightarrow> string" where
  "save_action i = (if i = None then ''create'' else ''update'')"

definition entity_save :: "('c, 'd) host_sys \<Rightarrow> string \<Rightarrow> json_obj \<Rightarrow> (json_obj, 'd) cmd" where
  "entity_save sy entity payload =
     bindc (lift (entity_or_error entity)) (\<lambda>df.
     local_conn sy
       (bindc (beside (ho_now sy)) (\<lambda>now.
        let i = payload_id payload in
        bindc (lift (check_required payload (ed_required df))) (\<lambda>_.
        bindc (beside (entity_columns sy entity payload i (ed_fields df))) (\<lambda>cols.
        bindc (store_entity sy df i cols now) (\<lambda>record_id.
        bindc (local_row sy (''Falha ao reler registro salvo em '' @ ed_table df) (select_sql ''?1'' df) [SqlInteger record_id]) (\<lambda>row.
        case row of
          None \<Rightarrow> fail (''Registro salvo n'' @ u_atilde @ ''o encontrado.'')
        | Some r \<Rightarrow>
            let saved = row_to_json_map r; action = save_action i in
            bindc (conn_write_audit sy entity action (Some record_id) (JObj saved)) (\<lambda>_.
            bindc (conn_enqueue_sync sy entity action (Some record_id) (JObj saved)) (\<lambda>_.
            ret saved)))))))))"

definition delete_payload :: "string \<Rightarrow> int \<Rightarrow> json" where
  "delete_payload entity i = JObj [(''id'', js_int i), (''entity'', JStr entity)]"

definition entity_delete :: "('c, 'd) host_sys \<Rightarrow> string \<Rightarrow> int \<Rightarrow> (bool, 'd) cmd" where
  "entity_delete sy entity i =
     bindc (lift (entity_or_error entity)) (\<lambda>df.
     local_conn sy
       (bindc (local_execute sy (''Falha ao excluir de '' @ ed_table df) (delete_sql ''?1'' (ed_table df)) [SqlInteger i]) (\<lambda>affected.
        if affected = 0 then ret False
        else
          bindc (conn_write_audit sy entity ''delete'' (Some i) (delete_payload entity i)) (\<lambda>_.
          bindc (conn_enqueue_sync sy entity ''delete'' (Some i) (delete_payload entity i)) (\<lambda>_.
          ret True)))))"

subsection \<open>Over a provider\<close>

definition provider_list_with_database :: "'d provider \<Rightarrow> string \<Rightarrow> string \<Rightarrow> (json_obj list, 'd) cmd" where
  "provider_list_with_database pv entity search =
     bindc (lift (entity_or_error entity)) (\<lambda>df.
     pv_query pv (list_sql (placeholder pv) df (trim search \<noteq> []))
       (if trim search = [] then [] else map (\<lambda>_. DbText (search_pattern search)) (ed_searchable df)))"

definition provider_get_with_database :: "'d provider \<Rightarrow> string \<Rightarrow> int \<Rightarrow> (json_obj option, 'd) cmd" where
  "provider_get_with_database pv entity i =
     bindc (lift (entity_or_error entity)) (\<lambda>df.
     pv_query_one pv (select_sql (placeholder pv 1) df) [DbInteger i])"

definition opt_db :: "int option \<Rightarrow> db_value" where
  "opt_db v = (case v of None \<Rightarrow> DbNull | Some i \<Rightarrow> DbInteger i)"

definition values_sql :: "(nat \<Rightarrow> string) \<Rightarrow> nat \<Rightarrow> string" where
  "values_sql ph n = '' VALUES ('' @ join '', '' (map ph [1..<Suc n]) @ '')''"

definition provider_audit_sql :: "(nat \<Rightarrow> string) \<Rightarrow> string" where
  "provider_audit_sql ph =
     ''INSERT INTO audit_logs (entity_name, action_name, record_id, payload_json, created_at)'' @ values_sql ph 5"

definition provider_insert_audit ::
  "('d provider) \<Rightarrow> (json \<Rightarrow> string) \<Rightarrow> string \<Rightarrow> string \<Rightarrow> int option \<Rightarrow> json \<Rightarrow> string \<Rightarrow> (unit, 'd) cmd" where
  "provider_insert_audit pv jt entity action record_id payload now =
     bindc (pv_execute pv (provider_audit_sql (placeholder pv))
       [DbText entity, DbText action, opt_db record_id, DbText (jt payload), DbText now]) (\<lambda>_. ret ())"

definition provider_sync_sql :: "(nat \<Rightarrow> string) \<Rightarrow> string" where
  "provider_sync_sql ph =
     ''INSERT INTO sync_queue (entity_name, action_name, record_id, payload_json, status, created_at, updated_at)'' @ values_sql ph 7"

definition provider_enqueue_sync ::
  "'d provider \<Rightarrow> (json \<Rightarrow> string) \<Rightarrow> string \<Rightarrow> string \<Rightarrow> int option \<Rightarrow> json \<Rightarrow> string \<Rightarrow> (unit, 'd) cmd" where
  "provider_enqueue_sync pv jt entity action record_id payload now =
     bindc (pv_execute pv (provider_sync_sql (placeholder pv))
       [DbText entity, DbText action, opt_db record_id, DbText (jt payload), DbText ''pending'', DbText now, DbText now]) (\<lambda>_. ret ())"

text \<open>The key of a row an insertion or the query for the last key gives back.\<close>

definition returned_id :: "string \<Rightarrow> json_obj option \<Rightarrow> (int, string) result" where
  "returned_id msg row =
     and_then (ok_or msg row) (\<lambda>r. ok_or (''Id retornado pelo provider '' @ u_eacute @ '' inv'' @ u_aacute @ ''lido.'') (payload_id r))"

definition provider_store ::
  "'d provider \<Rightarrow> entity_def \<Rightarrow> int option \<Rightarrow> db_value list \<Rightarrow> string \<Rightarrow> (int, 'd) cmd" where
  "provider_store pv df i values now =
     (case i of
        Some existing_id \<Rightarrow>
          bindc (pv_execute pv (update_sql (placeholder pv) (ed_table df) (ed_fields df))
            (values @ [DbText now, DbInteger existing_id])) (\<lambda>_. ret existing_id)
      | None \<Rightarrow>
          (let sql = insert_sql (placeholder pv) (ed_table df) (ed_fields df); params = values @ [DbText now, DbText now] in
           if pv_driver pv = Postgres then
             bindc (pv_query_one pv (sql @ '' RETURNING id'') params) (\<lambda>row.
             lift (returned_id ''Falha ao obter id retornado pelo PostgreSQL.'' row))
           else
             bindc (pv_execute pv sql params) (\<lambda>_.
             bindc (pv_query_one pv (last_insert_id_sql pv) []) (\<lambda>row.
             lift (returned_id (''Falha ao obter '' @ u_uacute @ ''ltimo id inserido pelo provider.'') row)))))"

definition provider_save_with_database ::
  "('c, 'd) host_sys \<Rightarrow> 'd provider \<Rightarrow> string \<Rightarrow> json_obj \<Rightarrow> (json_obj, 'd) cmd" where
  "provider_save_with_database sy pv entity payload =
     bindc (lift (entity_or_error entity)) (\<lambda>df.
     bindc (ho_now sy) (\<lambda>now.
     let i = payload_id payload in
     bindc (lift (check_required payload (ed_required df))) (\<lambda>_.
     bindc (provider_store pv df i (map (\<lambda>field. db_value_of_json (normalize_value payload field)) (ed_fields df)) now) (\<lambda>record_id.
     bindc (provider_get_with_database pv entity record_id) (\<lambda>row.
     case row of
       None \<Rightarrow> fail (''Registro salvo n'' @ u_atilde @ ''o encontrado pelo provider.'')
     | Some saved \<Rightarrow>
         let action = save_action i in
         bindc (provider_insert_audit pv (ho_json_text sy) entity action (Some record_id) (JObj saved) now) (\<lambda>_.
         bindc (provider_enqueue_sync pv (ho_json_text sy) entity action (Some record_id) (JObj saved) now) (\<lambda>_.
         ret saved)))))))"

definition provider_delete_with_database :: "('c, 'd) host_sys \<Rightarrow> 'd provider \<Rightarrow> string \<Rightarrow> int \<Rightarrow> (bool, 'd) cmd" where
  "provider_delete_with_database sy pv entity i =
     bindc (lift (entity_or_error entity)) (\<lambda>df.
     bindc (pv_execute pv (delete_sql (placeholder pv 1) (ed_table df)) [DbInteger i]) (\<lambda>affected.
     if affected = 0 then ret False
     else
       bindc (ho_now sy) (\<lambda>now.
       bindc (provider_insert_audit pv (ho_json_text sy) entity ''delete'' (Some i) (delete_payload entity i) now) (\<lambda>_.
       bindc (provider_enqueue_sync pv (ho_json_text sy) entity ''delete'' (Some i) (delete_payload entity i) now) (\<lambda>_.
       ret True)))))"

definition entity_provider_list :: "('c, 'd) host_sys \<Rightarrow> string \<Rightarrow> string \<Rightarrow> (json_obj list, 'd) cmd" where
  "entity_provider_list sy entity search =
     bindc (lift (active_provider sy)) (\<lambda>pv. provider_list_with_database pv entity search)"

definition provider_entity_list :: "('c, 'd) host_sys \<Rightarrow> string \<Rightarrow> string \<Rightarrow> (json_obj list, 'd) cmd" where
  "provider_entity_list sy entity search = entity_provider_list sy entity search"

definition provider_entity_get :: "('c, 'd) host_sys \<Rightarrow> string \<Rightarrow> int \<Rightarrow> (json_obj option, 'd) cmd" where
  "provider_entity_get sy entity i =
     bindc (lift (active_provider sy)) (\<lambda>pv. provider_get_with_database pv entity i)"

definition provider_entity_create :: "('c, 'd) host_sys \<Rightarrow> string \<Rightarrow> json_obj \<Rightarrow> (json_obj, 'd) cmd" where
  "provider_entity_create sy entity payload =
     bindc (lift (active_provider sy)) (\<lambda>pv. provider_save_with_database sy pv entity payload)"

definition provider_entity_update :: "('c, 'd) host_sys \<Rightarrow> string \<Rightarrow> json_obj \<Rightarrow> (json_obj, 'd) cmd" where
  "provider_entity_update sy entity payload =
     (if obj_get payload ''id'' = None
      then fail (''Campo id '' @ u_eacute @ '' obrigat'' @ u_oacute @ ''rio para atualiza'' @ u_ccedil @ u_atilde @ ''o via provider_entity_update.'')
      else bindc (lift (active_provider sy)) (\<lambda>pv. provider_save_with_database sy pv entity payload))"

definition provider_entity_delete :: "('c, 'd) host_sys \<Rightarrow> string \<Rightarrow> int \<Rightarrow> (bool, 'd) cmd" where
  "provider_entity_delete sy entity i =
     bindc (lift (active_provider sy)) (\<lambda>pv. provider_delete_with_database sy pv entity i)"

subsection \<open>Which statements are issued\<close>

datatype entity_op =
    ListOp string string
  | GetOp string int
  | SaveOp string json_obj
  | DeleteOp string int

fun run_entity_op :: "('c, 'd) host_sys \<Rightarrow> 'd provider \<Rightarrow> entity_op \<Rightarrow> (json, 'd) cmd" where
  "run_entity_op sy pv (ListOp entity search) =
     bindc (provider_list_with_database pv entity search) (\<lambda>rows. ret (JArr (map JObj rows)))"
| "run_entity_op sy pv (GetOp entity i) =
     bindc (provider_get_with_database pv entity i) (\<lambda>row. ret (case row of None \<Rightarrow> JNull | Some r \<Rightarrow> JObj r))"
| "run_entity_op sy pv (SaveOp entity payload) =
     bindc (provider_save_with_database sy pv entity payload) (\<lambda>r. ret (JObj r))"
| "run_entity_op sy pv (DeleteOp entity i) =
     bindc (provider_delete_with_database sy pv entity i) (\<lambda>b. ret (JBool b))"

definition all_entities :: "entity_def list" where
  "all_entities =
     List.map_filter entity_definition
       [''empresas'', ''perfis'', ''usuarios'', ''departamentos'', ''funcoes'', ''centro_custos'', ''clientes'',
        ''fornecedores'', ''produtos'']"

text \<open>The statements on one entity, each with the number of its parameters.\<close>

definition statements_of :: "'d provider \<Rightarrow> entity_def \<Rightarrow> (string \<times> nat) list" where
  "statements_of pv df =
     (let ph = placeholder pv; n = length (ed_fields df) + 2; ins = insert_sql ph (ed_table df) (ed_fields df) in
      [(list_sql ph df False, 0), (list_sql ph df True, length (ed_searchable df)), (select_sql (ph 1) df, 1),
       (delete_sql (ph 1) (ed_table df), 1), (update_sql ph (ed_table df) (ed_fields df), n), (ins, n),
       (ins @ '' RETURNING id'', n)])"

definition entity_statements :: "'d provider \<Rightarrow> (string \<times> nat) list" where
  "entity_statements pv =
     [(last_insert_id_sql pv, 0), (provider_audit_sql (placeholder pv), 5), (provider_sync_sql (placeholder pv), 7)] @
     concat (map (statements_of pv) all_entities)"

definition agree_on :: "(string \<times> nat) list \<Rightarrow> 'd provider \<Rightarrow> 'd provider \<Rightarrow> bool" where
  "agree_on S pv pv' \<longleftrightarrow>
     pv_driver pv = pv_driver pv' \<and>
     (\<forall>(sql, n) \<in> set S. \<forall>ps. length ps = n \<longrightarrow>
        pv_execute pv sql ps = pv_execute pv' sql ps \<and> pv_query pv sql ps = pv_query pv' sql ps \<and>
        pv_query_one pv sql ps = pv_query_one pv' sql ps)"

lemma entity_or_error_Ok: "entity_or_error entity = Ok df \<longleftrightarrow> entity_definition entity = Some df"
  by (cases "entity_definition entity") (simp_all add: entity_or_error_def)

lemma entity_definition_listed: "entity_definition entity = Some df \<Longrightarrow> df \<in> set all_entities"
  unfolding entity_definition_def all_entities_def List.map_filter_def
  by (simp split: if_splits)

lemma agree_driver:
  assumes "agree_on S pv pv'"
  shows "placeholder pv' = placeholder pv" "last_insert_id_sql pv' = last_insert_id_sql pv" "pv_driver pv' = pv_driver pv"
  using assms by (auto simp: agree_on_def placeholder_def last_insert_id_sql_def fun_eq_iff)

lemma agree_statement:
  assumes "agree_on S pv pv'" and "(sql, length ps) \<in> set S"
  shows "pv_execute pv' sql ps = pv_execute pv sql ps" "pv_query pv' sql ps = pv_query pv sql ps"
    "pv_query_one pv' sql ps = pv_query_one pv sql ps"
  using assms by (auto simp: agree_on_def)

lemma agree_entity:
  assumes "agree_on (entity_statements pv) pv pv'" and "df \<in> set all_entities" and "(sql, length ps) \<in> set (statements_of pv df)"
  shows "pv_execute pv' sql ps = pv_execute pv sql ps" "pv_query pv' sql ps = pv_query pv sql ps"
    "pv_query_one pv' sql ps = pv_query_one pv sql ps"
  using assms by (auto intro!: agree_statement simp: entity_statements_def)

lemma bindc_lift_cong: "(\<And>x. r = Ok x \<Longrightarrow> f x = g x) \<Longrightarrow> bindc (lift r) f = bindc (lift r) g"
  by (cases r) (auto simp: bindc_def lift_def fun_eq_iff)

lemma statements_of_mem:
  "(list_sql (placeholder pv) df (trim search \<noteq> []),
      length (if trim search = [] then [] else map (\<lambda>_. x) (ed_searchable df))) \<in> set (statements_of pv df)"
  "(select_sql (placeholder pv (Suc 0)) df, Suc 0) \<in> set (statements_of pv df)"
  "(delete_sql (placeholder pv (Suc 0)) (ed_table df), Suc 0) \<in> set (statements_of pv df)"
  "(update_sql (placeholder pv) (ed_table df) (ed_fields df), length (ed_fields df) + 2) \<in> set (statements_of pv df)"
  "(insert_sql (placeholder pv) (ed_table df) (ed_fields df), length (ed_fields df) + 2) \<in> set (statements_of pv df)"
  "(insert_sql (placeholder pv) (ed_table df) (ed_fields df) @ '' RETURNING id'', length (ed_fields df) + 2) \<in> set (statements_of pv df)"
  by (simp_all add: statements_of_def Let_def)

lemma agree_bookkeeping:
  assumes "agree_on (entity_statements pv) pv pv'"
  shows "provider_insert_audit pv' jt e a r p now = provider_insert_audit pv jt e a r p now"
    "provider_enqueue_sync pv' jt e a r p now = provider_enqueue_sync pv jt e a r p now"
    "pv_query_one pv' (last_insert_id_sql pv) [] = pv_query_one pv (last_insert_id_sql pv) []"
  using assms
  by (simp_all add: provider_insert_audit_def provider_enqueue_sync_def agree_driver [OF assms] agree_statement [OF assms]
      entity_statements_def)

lemma agree_list:
  assumes "agree_on (entity_statements pv) pv pv'"
  shows "provider_list_with_database pv' entity search = provider_list_with_database pv entity search"
  unfolding provider_list_with_database_def
  by (rule bindc_lift_cong)
    (simp only: agree_driver [OF assms] entity_or_error_Ok
      agree_entity(2) [OF assms entity_definition_listed statements_of_mem(1)])

lemma agree_get:
  assumes "agree_on (entity_statements pv) pv pv'"
  shows "provider_get_with_database pv' entity i = provider_get_with_database pv entity i"
  unfolding provider_get_with_database_def
  by (rule bindc_lift_cong)
    (simp add: agree_driver [OF assms] entity_or_error_Ok agree_entity(3) [OF assms entity_definition_listed] statements_of_mem)

lemma agree_store:
  assumes "agree_on (entity_statements pv) pv pv'" and "df \<in> set all_entities" and "length values = length (ed_fields df)"
  shows "provider_store pv' df i values now = provider_store pv df i values now"
  using assms(3) statements_of_mem [of pv df]
  by (simp add: provider_store_def Let_def agree_driver [OF assms(1)] agree_entity [OF assms(1,2)]
      agree_bookkeeping [OF assms(1)] split: option.splits)

lemma agree_save:
  assumes "agree_on (entity_statements pv) pv pv'"
  shows "provider_save_with_database sy pv' entity payload = provider_save_with_database sy pv entity payload"
  unfolding provider_save_with_database_def
  by (rule bindc_lift_cong)
    (simp add: entity_or_error_Ok agree_store [OF assms entity_definition_listed] agree_get [OF assms]
      agree_bookkeeping [OF assms] Let_def cong: option.case_cong)

lemma agree_delete:
  assumes "agree_on (entity_statements pv) pv pv'"
  shows "provider_delete_with_database sy pv' entity i = provider_delete_with_database sy pv entity i"
  unfolding provider_delete_with_database_def
  by (rule bindc_lift_cong)
    (simp add: agree_driver [OF assms] entity_or_error_Ok agree_entity(1) [OF assms entity_definition_listed]
      statements_of_mem agree_bookkeeping [OF assms] cong: if_cong)

text \<open>C8. Whatever the entity name, the search text and the payload are, the generic commands issue only statements of a finite list that depends on the driver alone, and with as many parameters as the list says: two providers that agree on these statements cannot be told apart. No text from outside reaches a statement.\<close>

theorem entity_statements_fixed:
  assumes "agree_on (entity_statements pv) pv pv'"
  shows "run_entity_op sy pv' op = run_entity_op sy pv op"
  by (cases op) (simp_all add: agree_list [OF assms] agree_get [OF assms] agree_save [OF assms] agree_delete [OF assms])

subsection \<open>Placeholders\<close>

definition marks :: "char \<Rightarrow> string \<Rightarrow> nat" where
  "marks c s = length (filter (\<lambda>d. d = c) s)"

definition mark_char :: "'d provider \<Rightarrow> char" where
  "mark_char pv = (if pv_driver pv = Postgres then CHR ''$'' else CHR ''?'')"

lemma marks_simps [simp]: "marks c [] = 0" "marks c (d # s) = of_bool (d = c) + marks c s" "marks c (s @ t) = marks c s + marks c t"
  by (simp_all add: marks_def)

lemma marks_join: "marks c sep = 0 \<Longrightarrow> marks c (join sep xs) = sum_list (map (marks c) xs)"
  by (induction sep xs rule: join.induct) simp_all

lemma marks_absent: "marks c s = 0 \<longleftrightarrow> c \<notin> set s"
  by (induction s) auto

lemma marks_placeholder: "marks (mark_char pv) (placeholder pv i) = 1"
proof -
  have "CHR ''$'' \<notin> set (show_nat i)"
    using show_nat_digits [of i] by (auto simp: list_all_iff is_ascii_digit_def)
  then show ?thesis by (simp add: mark_char_def placeholder_def marks_absent)
qed

lemma sum_const: "(\<And>x. x \<in> set xs \<Longrightarrow> f x = (c :: nat)) \<Longrightarrow> sum_list (map f xs) = c * length xs"
  by (induction xs) auto

lemma marks_numbered:
  assumes "\<And>i column. column \<in> set columns \<Longrightarrow> marks c (f i column) = 1"
  shows "sum_list (map (marks c) (numbered ph columns f)) = length columns"
proof -
  have "marks c ((case x of (i, column) \<Rightarrow> f i column)) = 1" if "x \<in> set (zip [1..<Suc (length columns)] columns)" for x
    using assms set_zip_rightD [of "fst x" "snd x"] that by (cases x) auto
  then show ?thesis unfolding numbered_def map_map by (subst sum_const [where c = 1]) (auto simp del: upt_Suc)
qed

definition unmarked :: "entity_def \<Rightarrow> bool" where
  "unmarked df \<longleftrightarrow>
     list_all (\<lambda>s. CHR ''$'' \<notin> set s \<and> CHR ''?'' \<notin> set s) (ed_table df # ed_fields df @ ed_searchable df)"

lemma all_unmarked: "list_all unmarked all_entities"
  unfolding all_entities_def List.map_filter_def entity_definition_def unmarked_def by simp

lemma marks_columns: "(\<And>s. s \<in> set xs \<Longrightarrow> marks c s = 0) \<Longrightarrow> sum_list (map (marks c) xs) = 0"
  by (induction xs) auto

text \<open>What a style of placeholders promises: one mark each, a character that no name has.\<close>

locale placeholder_style =
  fixes c :: char and ph :: "nat \<Rightarrow> string"
  assumes mark: "c = CHR ''$'' \<or> c = CHR ''?''" and one: "marks c (ph i) = 1"
begin

lemma separators: "marks c (join '', '' xs) = sum_list (map (marks c) xs)" "marks c (join '' OR '' xs) = sum_list (map (marks c) xs)"
  using mark by (auto intro!: marks_join)

lemma names:
  assumes "unmarked df"
  shows "marks c (ed_table df) = 0" "s \<in> set (ed_fields df) \<Longrightarrow> marks c s = 0" "s \<in> set (ed_searchable df) \<Longrightarrow> marks c s = 0"
    "marks c (join '', '' (ed_fields df)) = 0"
  using mark assms by (auto simp: marks_absent unmarked_def list_all_iff separators intro!: marks_columns)

lemma list_marks: "unmarked df \<Longrightarrow> marks c (list_sql ph df searched) = (if searched then length (ed_searchable df) else 0)"
proof -
  assume df: "unmarked df"
  have "marks c (join '' OR '' (numbered ph (ed_searchable df) (\<lambda>i column. column @ '' LIKE '' @ ph i))) = length (ed_searchable df)"
    unfolding separators by (rule marks_numbered) (use names [OF df] one mark in auto)
  with names [OF df] mark show ?thesis by (auto simp: list_sql_def select_columns_def)
qed

lemma update_marks: "unmarked df \<Longrightarrow> marks c (update_sql ph (ed_table df) (ed_fields df)) = length (ed_fields df) + 2"
proof -
  assume df: "unmarked df"
  have "sum_list (map (marks c) (numbered ph (ed_fields df) (\<lambda>i column. column @ '' = '' @ ph i))) = length (ed_fields df)"
    by (rule marks_numbered) (use names [OF df] one mark in auto)
  with names [OF df] mark one show ?thesis by (auto simp: update_sql_def separators simp del: upt_Suc)
qed

lemma upt_marks: "sum_list (map (marks c) (map ph is)) = length is"
  by (induction "is") (simp_all add: one)

lemma insert_marks: "unmarked df \<Longrightarrow> marks c (insert_sql ph (ed_table df) (ed_fields df)) = length (ed_fields df) + 2"
proof -
  assume df: "unmarked df"
  have "sum_list (map (marks c) (ed_fields df)) = 0" using names [OF df] by (auto intro: marks_columns)
  with names [OF df] mark show ?thesis
    by (auto simp: insert_sql_def Let_def separators upt_marks simp del: upt_Suc map_map)
qed

lemma key_marks:
  "unmarked df \<Longrightarrow> marks c (select_sql (ph i) df) = 1" "unmarked df \<Longrightarrow> marks c (delete_sql (ph i) (ed_table df)) = 1"
proof -
  assume df: "unmarked df"
  from names [OF df] mark one [of i] show "marks c (select_sql (ph i) df) = 1" "marks c (delete_sql (ph i) (ed_table df)) = 1"
    by (auto simp: select_sql_def delete_sql_def select_columns_def)
qed

lemma values_marks: "marks c (values_sql ph n) = n"
  using mark by (auto simp: values_sql_def separators upt_marks simp del: upt_Suc map_map)

end

interpretation style: placeholder_style "mark_char pv" "placeholder pv" for pv
  by unfold_locales (auto simp: mark_char_def marks_placeholder [unfolded mark_char_def])

interpretation qmark: placeholder_style "CHR ''?''" question
  by unfold_locales simp_all

text \<open>C9. Every statement the generic commands issue through a provider has exactly as many placeholders as it gets parameters, for every driver.\<close>

theorem entity_placeholders_match:
  assumes "(sql, n) \<in> set (entity_statements pv)"
  shows "marks (mark_char pv) sql = n"
proof -
  have last: "marks (mark_char pv) (last_insert_id_sql pv) = 0"
    by (cases "pv_driver pv") (simp_all add: mark_char_def last_insert_id_sql_def)
  have books: "marks (mark_char pv) (provider_audit_sql (placeholder pv)) = 5" "marks (mark_char pv) (provider_sync_sql (placeholder pv)) = 7"
    using style.mark [of pv] style.values_marks [of pv] by (auto simp: provider_audit_sql_def provider_sync_sql_def)
  have "marks (mark_char pv) sql = n" if "(sql, n) \<in> set (statements_of pv df)" "unmarked df" for df
    using that style.mark [of pv] style.list_marks [of df pv] style.update_marks [of df pv] style.insert_marks [of df pv] style.key_marks [of df pv]
    by (auto simp: statements_of_def Let_def simp del: One_nat_def)
  with assms last books all_unmarked show ?thesis
    by (auto simp: entity_statements_def list_all_iff)
qed

lemma funcoes_statement: "(''INSERT INTO funcoes (descricao, ativo, created_at, updated_at) VALUES (?, ?, ?, ?)'', 4) \<in>
    set (entity_statements (sqlite_provider eg jt))"
  by (simp add: entity_statements_def statements_of_def Let_def all_entities_def List.map_filter_def entity_definition_def
      insert_sql_def placeholder_def sqlite_provider_def)

subsection \<open>Values on the two paths\<close>

text \<open>A value of a payload reaches the statement as the same parameter over a local connection and over the SQLite provider, except a blank text, which the local path stores as NULL and the provider stores as it is.\<close>

theorem parameter_paths_differ_on_blank:
  "to_rusqlite_value jt (db_value_of_json v) = json_to_sql_value jt v \<longleftrightarrow> (\<forall>s. v = JStr s \<longrightarrow> trim s \<noteq> [])"
  by (cases v) (auto simp: to_rusqlite_value_def json_to_sql_value_def split: option.splits)

theorem parameter_paths_differ_on_blank_witness:
  "to_rusqlite_value (\<lambda>_. []) (db_value_of_json (JStr ''Ana'')) = json_to_sql_value (\<lambda>_. []) (JStr ''Ana'')"
proof -
  have "trim ''Ana'' = ''Ana''" by (rule trim_graph) (simp_all add: graph_char_def)
  then show ?thesis using parameter_paths_differ_on_blank [of "\<lambda>_. []" "JStr ''Ana''"] by simp
qed

subsection \<open>Inserting through the SQLite provider\<close>

text \<open>
  A connection starts without a last key: \<^verbatim>\<open>last_insert_rowid()\<close> is 0 until the connection itself has
  inserted a row.
\<close>

definition fresh_connections :: "('c, 'd) engine \<Rightarrow> bool" where
  "fresh_connections eg \<longleftrightarrow>
     (\<forall>d c. eg_open eg d = Ok c \<longrightarrow>
        eg_query eg ''SELECT last_insert_rowid() AS id'' [] (c, d) = (Ok [[(''id'', RefInteger 0)]], (c, d)))"

definition insert_params :: "(json \<Rightarrow> string) \<Rightarrow> json_obj \<Rightarrow> entity_def \<Rightarrow> string \<Rightarrow> sql_value list" where
  "insert_params jt payload df now =
     map (\<lambda>field. to_rusqlite_value jt (db_value_of_json (normalize_value payload field))) (ed_fields df) @ [SqlText now, SqlText now]"

text \<open>A record that is created under a key of 0 is not found.\<close>

lemma provider_create_not_found:
  assumes df: "entity_definition entity = Some df" and new: "payload_id payload = None"
    and required: "check_required payload (ed_required df) = Ok ()" and clock: "ho_now sy da = (Ok now, db)"
    and driver: "pv_driver pv \<noteq> Postgres"
    and inserted: "pv_execute pv (insert_sql (placeholder pv) (ed_table df) (ed_fields df))
      (map (\<lambda>field. db_value_of_json (normalize_value payload field)) (ed_fields df) @ [DbText now, DbText now]) db = (Ok n, dc)"
    and key: "pv_query_one pv (last_insert_id_sql pv) [] dc = (Ok (Some [(''id'', js_int 0)]), dc)"
    and none: "pv_query_one pv (select_sql (placeholder pv 1) df) [DbInteger 0] dc = (Ok None, dc)"
  shows "provider_save_with_database sy pv entity payload da =
    (Err (''Registro salvo n'' @ u_atilde @ ''o encontrado pelo provider.''), dc)"
proof -
  have store: "provider_store pv df None (map (\<lambda>field. db_value_of_json (normalize_value payload field)) (ed_fields df)) now db = (Ok 0, dc)"
    using inserted key driver
    by (simp add: provider_store_def Let_def bindc_def lift_def returned_id_def payload_id_def js_int_def)
  have get: "provider_get_with_database pv entity 0 dc = (Ok None, dc)"
    using none df by (simp add: provider_get_with_database_def entity_or_error_def bindc_def lift_def)
  show ?thesis
    using store get df required clock new
    by (simp add: provider_save_with_database_def entity_or_error_def bindc_def lift_def fail_def Let_def)
qed

text \<open>C23. Creating a record through the provider of SQLite inserts the row and then reports that the saved record was not found: the key is asked for on another connection, which answers 0. The row stays, and neither audit trail nor synchronisation queue hears of it.\<close>

theorem sqlite_provider_create_fails:
  assumes df: "entity_definition entity = Some df" and new: "payload_id payload = None"
    and required: "check_required payload (ed_required df) = Ok ()"
    and clock: "ho_now sy da = (Ok now, db)" and opens: "\<And>d. eg_open eg d = Ok cz"
    and fresh: "fresh_connections eg"
    and inserted: "eg_execute eg (insert_sql question (ed_table df) (ed_fields df)) (insert_params jt payload df now) (cz, db) = (Ok n, (ce, dc))"
    and zero: "eg_query eg (select_sql ''?'' df) [SqlInteger 0] (cz, dc) = (Ok [], (cz, dc))"
  shows "provider_save_with_database sy (sqlite_provider eg jt) entity payload da =
    (Err (''Registro salvo n'' @ u_atilde @ ''o encontrado pelo provider.''), dc)"
proof (rule provider_create_not_found [OF df new required clock])
  let ?pv = "sqlite_provider eg jt"
  have ph: "placeholder ?pv = question" by (auto simp: placeholder_def sqlite_provider_def)
  have exec: "pv_execute ?pv sql ps = sqlite_execute eg jt sql ps" "pv_query_one ?pv sql ps = sqlite_query_one eg jt sql ps"
    "last_insert_id_sql ?pv = ''SELECT last_insert_rowid() AS id''" for sql ps
    by (simp_all add: sqlite_provider_def last_insert_id_sql_def)
  show "pv_execute ?pv (insert_sql (placeholder ?pv) (ed_table df) (ed_fields df))
      (map (\<lambda>field. db_value_of_json (normalize_value payload field)) (ed_fields df) @ [DbText now, DbText now]) db = (Ok n, dc)"
    using inserted by (simp add: exec ph sqlite_execute_def with_conn_def opens mapped_def insert_params_def comp_def to_rusqlite_value_def)
  show "pv_query_one ?pv (last_insert_id_sql ?pv) [] dc = (Ok (Some [(''id'', js_int 0)]), dc)"
    using fresh opens by (simp add: exec sqlite_query_one_def with_conn_def fresh_connections_def mapped_def row_to_json_map_def)
  show "pv_query_one ?pv (select_sql (placeholder ?pv 1) df) [DbInteger 0] dc = (Ok None, dc)"
    using zero by (simp add: exec ph sqlite_query_one_def with_conn_def opens mapped_def to_rusqlite_value_def)
  show "pv_driver ?pv \<noteq> Postgres" by (simp add: sqlite_provider_def)
qed

text \<open>An engine with one table that counts its rows; a connection remembers the last key it gave out.\<close>

definition counting_engine :: "(int, nat) engine" where
  "counting_engine =
     \<lparr>eg_open = (\<lambda>_. Ok 0),
      eg_execute = (\<lambda>sql _ (c, d). if starts_with sql ''INSERT'' then (Ok 1, (int d + 1, d + 1)) else (Ok 0, (c, d))),
      eg_query = (\<lambda>sql ps (c, d). (Ok (if ps = [] then [[(''id'', RefInteger c)]] else []), (c, d))),
      eg_last_id = id\<rparr>"

definition counting_host :: "(int, nat) host_sys" where
  "counting_host =
     \<lparr>ho_engine = counting_engine, ho_external = (\<lambda>_. sqlite_provider counting_engine (\<lambda>_. [])), ho_env = Map.empty,
      ho_db_path = Ok ''app.db'', ho_json_text = (\<lambda>_. []), ho_now = (\<lambda>d. (Ok ''now'', d)), ho_hash_password = (\<lambda>p d. (Ok p, d))\<rparr>"

theorem sqlite_provider_create_fails_witness:
  "provider_save_with_database counting_host (sqlite_provider counting_engine (\<lambda>_. [])) ''funcoes'' [(''descricao'', JStr ''Caixa'')] 4 =
    (Err (''Registro salvo n'' @ u_atilde @ ''o encontrado pelo provider.''), 5)"
proof -
  have t: "trim ''Caixa'' = ''Caixa''" by (rule trim_graph) (simp_all add: graph_char_def)
  have df: "entity_definition ''funcoes'' = Some \<lparr>ed_table = ''funcoes'', ed_fields = [''descricao'', ''ativo''],
      ed_searchable = [''descricao''], ed_required = [''descricao''], ed_label_column = ''descricao''\<rparr>"
    by (simp add: entity_definition_def)
  show ?thesis
    by (rule sqlite_provider_create_fails [OF df, where ce = 5 and cz = 0 and n = 1 and now = "''now''" and db = 4])
      (simp_all add: payload_id_def t counting_host_def counting_engine_def fresh_connections_def insert_sql_def Let_def)
qed

theorem entity_placeholders_match_witness:
  "marks (mark_char (sqlite_provider counting_engine (\<lambda>_. []))) ''INSERT INTO funcoes (descricao, ativo, created_at, updated_at) VALUES (?, ?, ?, ?)'' = 4"
  by (rule entity_placeholders_match [OF funcoes_statement])

text \<open>A provider that refuses to drop a table behaves like the one it guards.\<close>

definition guarded_provider :: "'d provider \<Rightarrow> 'd provider" where
  "guarded_provider pv =
     pv\<lparr>pv_execute := (\<lambda>sql ps. if starts_with sql ''DROP'' then fail ''refused'' else pv_execute pv sql ps)\<rparr>"

lemma statements_never_drop: "(sql, n) \<in> set (entity_statements pv) \<Longrightarrow> \<not> starts_with sql ''DROP''"
  by (auto simp: entity_statements_def statements_of_def Let_def list_sql_def select_sql_def delete_sql_def update_sql_def
      insert_sql_def last_insert_id_sql_def provider_audit_sql_def provider_sync_sql_def starts_with_def split: database_driver.splits)

theorem entity_statements_fixed_witness:
  "run_entity_op counting_host (guarded_provider (sqlite_provider counting_engine (\<lambda>_. []))) (ListOp ''funcoes; DROP TABLE usuarios'' [CHR 39]) =
   run_entity_op counting_host (sqlite_provider counting_engine (\<lambda>_. [])) (ListOp ''funcoes; DROP TABLE usuarios'' [CHR 39])"
  by (rule entity_statements_fixed) (auto simp: agree_on_def guarded_provider_def dest: statements_never_drop)

end
