(* ===== verification/Http_Runtime.thy ===== *)
theory Http_Runtime
  imports Service_Runtime App_Log
begin

text \<open>
  The life cycle of the two HTTP servers of the console: the internal API
  (\<^verbatim>\<open>internal_api/server.rs\<close>) and the web front with its proxy (\<^verbatim>\<open>internal_api/web_server.rs\<close>). A
  server thread is kept with the address it listens on and with what it serves, so that requests
  can be followed to their handler. As for the other services a graceful shutdown, also one by
  dropping the sender, ends its thread. Operations hold a lock for their whole body.
\<close>

subsection \<open>State\<close>

record internal_api_state =
  ia_db_path :: string
  ia_data_dir :: string
  ia_started_at :: string
  ia_host :: string
  ia_port :: "16 word"
  ia_config :: api_config

record web_proxy_state =
  wp_api_base_url :: string
  wp_api_token_header :: string
  wp_api_token :: string
  wp_command_state :: internal_api_state

datatype served = ServesApi internal_api_state | ServesWeb web_proxy_state

record api_handle =
  ah_bind_host :: string
  ah_public_host :: string
  ah_port :: "16 word"
  ah_started_at :: string
  ah_thread :: nat
  ah_docs_url :: string

record web_handle =
  wb_host :: string
  wb_port :: "16 word"
  wb_started_at :: string
  wb_thread :: nat
  wb_url :: string
  wb_loopback :: "nat option"

record api_status =
  aq_running :: bool
  aq_host :: string
  aq_port :: "16 word"
  aq_url :: "string option"
  aq_docs_url :: "string option"
  aq_started_at :: "string option"
  aq_external :: bool
  aq_message :: "string option"

record web_status =
  wq_running :: bool
  wq_host :: string
  wq_port :: "16 word"
  wq_url :: "string option"
  wq_started_at :: "string option"
  wq_external :: bool
  wq_message :: "string option"

record 's front_world =
  fw_api :: "api_handle option"
  fw_web :: "web_handle option"
  fw_threads :: "(nat \<times> (string \<times> served)) list"
  fw_next :: nat
  fw_net :: "'s net_world"
  fw_rt :: rt_world
  fw_logs :: log_world

text \<open>
  \<open>fx_get\<close> is an HTTP request: status code and, when it can be read, the body. \<open>fx_serve_err\<close> is what
  keeps a started thread from serving, by listener.
\<close>

record 's front_sys =
  fx_net :: "'s net_sys"
  fx_rt :: "runtime_settings rt_sys"
  fx_log :: log_sys
  fx_get :: "string \<Rightarrow> 's \<Rightarrow> (nat \<times> string option) option \<times> 's"
  fx_parse :: "string \<Rightarrow> json option"
  fx_client_err :: "string option"
  fx_nonblocking_err :: "string \<Rightarrow> string option"
  fx_spawn_err :: "string \<Rightarrow> string option"
  fx_serve_err :: "string \<Rightarrow> string option"
  fx_now :: string
  fx_version :: string

subsection \<open>Shared pieces\<close>

definition js_word :: "'a::len word \<Rightarrow> json" where
  "js_word n = JNum (JInt (uint n))"

definition front_event :: "'s front_sys \<Rightarrow> string \<Rightarrow> string \<Rightarrow> string \<Rightarrow> string \<Rightarrow> json \<Rightarrow> 's front_world \<Rightarrow> 's front_world" where
  "front_event sy category source level message details w =
     (if is_ok (state_db_path (fw_rt w)) \<and> is_ok (state_data_dir (fw_rt w)) \<and>
         is_ok (and_then (state_db_path (fw_rt w)) (open_connection (fx_rt sy)))
      then w\<lparr>fw_logs := snd (write_app_log (fx_log sy)
             \<lparr>ai_level = level, ai_category = category, ai_message = message, ai_source = Some source, ai_route = None,
              ai_details = Some details\<rparr> (fw_logs w))\<rparr>
      else w)"

abbreviation api_event :: "'s front_sys \<Rightarrow> string \<Rightarrow> string \<Rightarrow> json \<Rightarrow> 's front_world \<Rightarrow> 's front_world" where
  "api_event sy \<equiv> front_event sy ''internal-api'' ''internal_api::server''"

abbreviation web_event :: "'s front_sys \<Rightarrow> string \<Rightarrow> string \<Rightarrow> json \<Rightarrow> 's front_world \<Rightarrow> 's front_world" where
  "web_event sy \<equiv> front_event sy ''web-server'' ''internal_api::web_server''"

definition http_get :: "'s front_sys \<Rightarrow> string \<Rightarrow> 's front_world \<Rightarrow> (nat \<times> string option) option \<times> 's front_world" where
  "http_get sy url w =
     (case fx_get sy url (nw_state (fw_net w)) of (r, s) \<Rightarrow> (r, w\<lparr>fw_net := (fw_net w)\<lparr>nw_state := s\<rparr>\<rparr>))"

definition success_body :: "(nat \<times> string option) option \<Rightarrow> string option" where
  "success_body r =
     (case r of Some (code, body) \<Rightarrow> (if 200 \<le> code \<and> code < 300 then body else None) | None \<Rightarrow> None)"

definition build_api_state :: "'s front_sys \<Rightarrow> rt_world \<Rightarrow> api_config \<Rightarrow> (internal_api_state, string) result" where
  "build_api_state sy rt c =
     and_then (state_db_path rt) (\<lambda>db. and_then (state_data_dir rt) (\<lambda>dir.
     Ok \<lparr>ia_db_path = db, ia_data_dir = dir, ia_started_at = fx_now sy, ia_host = ac_host c, ia_port = ac_port c, ia_config = c\<rparr>))"

text \<open>A new thread; it lives on only when it comes to serving.\<close>

definition new_thread :: "'s front_sys \<Rightarrow> string \<Rightarrow> served option \<Rightarrow> 's front_world \<Rightarrow> nat \<times> 's front_world" where
  "new_thread sy listener app w =
     (fw_next w,
      w\<lparr>fw_next := Suc (fw_next w),
        fw_threads := (case app of
             Some a \<Rightarrow> (if fx_serve_err sy listener = None then hm_insert (fw_next w) (listener, a) (fw_threads w) else fw_threads w)
           | None \<Rightarrow> fw_threads w)\<rparr>)"

definition end_thread :: "nat \<Rightarrow> 's front_world \<Rightarrow> 's front_world" where
  "end_thread t w = w\<lparr>fw_threads := hm_remove t (fw_threads w)\<rparr>"

definition front_pause :: "nat \<Rightarrow> 's front_world \<Rightarrow> 's front_world" where
  "front_pause ms w = w\<lparr>fw_net := pause ms (fw_net w)\<rparr>"

subsection \<open>The internal API\<close>

definition api_url :: "string \<Rightarrow> 16 word \<Rightarrow> string" where
  "api_url host port = ''http://'' @ host @ '':'' @ show_word port"

definition api_running :: "api_handle \<Rightarrow> api_status" where
  "api_running h =
     \<lparr>aq_running = True, aq_host = ah_public_host h, aq_port = ah_port h, aq_url = Some (api_url (ah_public_host h) (ah_port h)),
      aq_docs_url = Some (ah_docs_url h), aq_started_at = Some (ah_started_at h), aq_external = False, aq_message = None\<rparr>"

definition adopt_existing_api_runtime ::
  "'s front_sys \<Rightarrow> string \<Rightarrow> 16 word \<Rightarrow> 's front_world \<Rightarrow> api_status option \<times> 's front_world" where
  "adopt_existing_api_runtime sy public_host port w =
     (if fx_client_err sy \<noteq> None then (None, w)
      else case http_get sy (api_url ''127.0.0.1'' port @ ''/health'') w of
             (r, w1) \<Rightarrow>
               (if Option.bind (Option.bind (Option.bind (success_body r) (fx_parse sy)) (\<lambda>v. json_get v ''version'')) as_str =
                   Some (fx_version sy)
                then (Some \<lparr>aq_running = True, aq_host = public_host, aq_port = port, aq_url = Some (api_url ''127.0.0.1'' port),
                        aq_docs_url = Some (api_url ''127.0.0.1'' port @ ''/docs''), aq_started_at = None, aq_external = True,
                        aq_message = Some (''API interna j'' @ u_aacute @ '' estava ativa em outra inst'' @ u_acirc @ ''ncia do Tunnara Console; esta janela reutilizou a inst'' @ u_acirc @ ''ncia existente sem tentar abrir uma segunda porta.'')\<rparr>, w1)
                else (None, w1)))"

definition api_status_of :: "'s front_sys \<Rightarrow> 's front_world \<Rightarrow> api_status \<times> 's front_world" where
  "api_status_of sy w =
     (case fw_api w of
        Some h \<Rightarrow> (api_running h, w)
      | None \<Rightarrow>
          (let e = rw_env (fw_rt w); host = unwrap_or ''127.0.0.1'' (e ''TUNNARA_CONSOLE_API_HOST'');
               port = unwrap_or 61001 (Option.bind (e ''TUNNARA_CONSOLE_API_PORT'') parse_u16)
           in case adopt_existing_api_runtime sy (public_url_host host) port w of
                (Some st, w1) \<Rightarrow> (st, w1)
              | (None, w1) \<Rightarrow>
                  (\<lparr>aq_running = False, aq_host = host, aq_port = port, aq_url = None, aq_docs_url = None, aq_started_at = None,
                    aq_external = False, aq_message = None\<rparr>, w1)))"

definition api_stop_background :: "'s front_sys \<Rightarrow> 's front_world \<Rightarrow> api_status \<times> 's front_world" where
  "api_stop_background sy w =
     api_status_of sy (case fw_api w of None \<Rightarrow> w | Some h \<Rightarrow> end_thread (ah_thread h) (w\<lparr>fw_api := None\<rparr>))"

definition set_api_env :: "string \<Rightarrow> string \<Rightarrow> 16 word \<Rightarrow> 's front_world \<Rightarrow> 's front_world" where
  "set_api_env host public_host port w =
     w\<lparr>fw_rt := (fw_rt w)\<lparr>rw_env := (rw_env (fw_rt w))(''TUNNARA_CONSOLE_API_HOST'' \<mapsto> host,
         ''TUNNARA_CONSOLE_API_PORT'' \<mapsto> show_word port, ''TUNNARA_CONSOLE_API_BASE_URL'' \<mapsto> api_url public_host port)\<rparr>\<rparr>"

text \<open>The port was taken: a console of the same version on it is adopted, anything else is an error.\<close>

definition api_bind_failed :: "'s front_sys \<Rightarrow> string \<Rightarrow> string \<Rightarrow> 16 word \<Rightarrow> io_error \<Rightarrow> 's front_world \<Rightarrow> (api_status, string) result \<times> 's front_world" where
  "api_bind_failed sy addr public_host port err w =
     (case (if ie_kind err = AddrInUse then adopt_existing_api_runtime sy public_host port w else (None, w)) of
        (Some st, w1) \<Rightarrow>
          (Ok st, api_event sy ''warning'' (''API interna j'' @ u_aacute @ '' estava ativa; reutilizando inst'' @ u_acirc @ ''ncia existente'')
             (JObj [(''configured'', JStr addr), (''port'', js_word port), (''error'', JStr (ie_text err)), (''external'', JBool True),
                    (''url'', js_opt (aq_url st))]) w1)
      | (None, w1) \<Rightarrow>
          (Err (''Porta da API interna '' @ addr @ ('' indispon'' @ u_iacute @ ''vel: '') @ ie_text err @
             (''. A porta est'' @ u_aacute @ '' ocupada por outro processo que n'' @ u_atilde @ ''o respondeu como Tunnara Console API. Altere TUNNARA_CONSOLE_API_PORT ou encerre o processo externo que est'' @ u_aacute @ '' usando esta porta.'')),
           api_event sy ''error'' (''Porta da API interna indispon'' @ u_iacute @ ''vel'')
             (JObj [(''configured'', JStr addr), (''port'', js_word port), (''error'', JStr (ie_text err)),
                    (''adopted_existing_instance'', JBool False)]) w1))"

subsection \<open>The web front\<close>

definition ends_with :: "string \<Rightarrow> string \<Rightarrow> bool" where
  "ends_with s p \<longleftrightarrow> starts_with (rev s) (rev p)"

text \<open>\<^verbatim>\<open>trim_end_matches\<close> with a text as its pattern.\<close>

definition trim_end_text :: "string \<Rightarrow> string \<Rightarrow> string" where
  "trim_end_text p s = rev (strip_seqs [rev p] (rev s))"

definition web_bind_host_from_env :: "env \<Rightarrow> string" where
  "web_bind_host_from_env e =
     unwrap_or ''0.0.0.0'' (opt_filter (\<lambda>v. v \<noteq> []) (map_option trim (or_else (e ''TUNNARA_CONSOLE_WEB_HOST'') (e ''APP_WEB_HOST''))))"

definition web_port_from_env :: "env \<Rightarrow> 16 word" where
  "web_port_from_env e =
     unwrap_or 61002 (Option.bind (or_else (e ''TUNNARA_CONSOLE_WEB_PORT'') (e ''APP_WEB_PORT'')) (\<lambda>v. parse_u16 (trim v)))"

definition normalize_client_base_url :: "string \<Rightarrow> string" where
  "normalize_client_base_url value =
     (let t = trim value; normalized = (if t = [] then ''http://127.0.0.1:61001'' else t) in
      trim_end_text ''/__internal_api''
        (trim_end_matches (CHR ''/'')
          (replace (replace (replace normalized ''http://0.0.0.0:'' ''http://127.0.0.1:'')
             ''http://[::]:'' ''http://127.0.0.1:'') ''http://:::'' ''http://127.0.0.1:'')))"

definition resolve_proxy_api_base_url :: "runtime_settings \<Rightarrow> 16 word \<Rightarrow> api_config \<Rightarrow> string" where
  "resolve_proxy_api_base_url s web_port internal_config =
     (let derived = api_url (public_url_host (ac_host internal_config)) (ac_port internal_config);
          configured = normalize_client_base_url (rs_internal_api_base_url s)
      in if trim configured = [] \<or> contains configured (CHR '':'' # show_word web_port) \<or>
            ends_with configured ''/__internal_api'' \<or> ends_with configured ''/__internal_api/''
         then derived else configured)"

definition web_running :: "web_handle \<Rightarrow> web_status" where
  "web_running h =
     \<lparr>wq_running = True, wq_host = wb_host h, wq_port = wb_port h, wq_url = Some (wb_url h),
      wq_started_at = Some (wb_started_at h), wq_external = False, wq_message = None\<rparr>"

definition web_idle :: "string \<Rightarrow> 16 word \<Rightarrow> string option \<Rightarrow> web_status" where
  "web_idle host port message =
     \<lparr>wq_running = False, wq_host = host, wq_port = port, wq_url = None, wq_started_at = None, wq_external = False,
      wq_message = message\<rparr>"

definition webport_body :: "'s front_sys \<Rightarrow> string \<Rightarrow> bool" where
  "webport_body sy body \<longleftrightarrow>
     Option.bind (Option.bind (fx_parse sy body) (\<lambda>v. json_get v ''service'')) as_str
       \<in> {Some ''tunnara-console-web-proxy'', Some ''internal-api-via-webport''} \<or>
     list_ex (contains (to_ascii_lowercase body))
       [''tunnara console'', ''tunnara-console-web-proxy'', ''tunnara_console_web_runtime'']"

definition probe_template_webport :: "'s front_sys \<Rightarrow> string \<Rightarrow> 's front_world \<Rightarrow> bool \<times> 's front_world" where
  "probe_template_webport sy url w =
     (case http_get sy url w of (r, w1) \<Rightarrow>
        (case success_body r of Some body \<Rightarrow> webport_body sy body | None \<Rightarrow> False, w1))"

definition adopt_existing_web_runtime ::
  "'s front_sys \<Rightarrow> string \<Rightarrow> 16 word \<Rightarrow> 's front_world \<Rightarrow> web_status option \<times> 's front_world" where
  "adopt_existing_web_runtime sy bind_host port w =
     (if fx_client_err sy \<noteq> None then (None, w)
      else
        (let local_url = api_url ''127.0.0.1'' port;
             (first, w1) = probe_template_webport sy (local_url @ ''/__web_health'') w;
             (found, w2) = (if first then (True, w1) else probe_template_webport sy local_url w1)
         in if found
            then (Some \<lparr>wq_running = True, wq_host = bind_host, wq_port = port, wq_url = Some local_url, wq_started_at = None,
                    wq_external = True,
                    wq_message = Some (''Webport j'' @ u_aacute @ '' estava ativo em outra inst'' @ u_acirc @ ''ncia do Tunnara Console; esta janela reutilizou a inst'' @ u_acirc @ ''ncia existente sem tentar abrir uma segunda porta.'')\<rparr>, w2)
            else (None, w2)))"

fun adopt_web_attempts :: "nat \<Rightarrow> 's front_sys \<Rightarrow> string \<Rightarrow> 16 word \<Rightarrow> 's front_world \<Rightarrow> web_status option \<times> 's front_world" where
  "adopt_web_attempts 0 sy bind_host port w = (None, w)"
| "adopt_web_attempts (Suc n) sy bind_host port w =
     (case adopt_existing_web_runtime sy bind_host port w of
        (Some st, w1) \<Rightarrow> (Some st, w1)
      | (None, w1) \<Rightarrow> adopt_web_attempts n sy bind_host port (front_pause 250 w1))"

definition adopt_existing_web_runtime_with_retry ::
  "'s front_sys \<Rightarrow> string \<Rightarrow> 16 word \<Rightarrow> 's front_world \<Rightarrow> web_status option \<times> 's front_world" where
  "adopt_existing_web_runtime_with_retry = adopt_web_attempts 12"

definition web_status_of :: "'s front_sys \<Rightarrow> 's front_world \<Rightarrow> web_status \<times> 's front_world" where
  "web_status_of sy w =
     (case fw_web w of
        Some h \<Rightarrow> (web_running h, w)
      | None \<Rightarrow>
          (let e = rw_env (fw_rt w); host = web_bind_host_from_env e; port = web_port_from_env e in
           case adopt_existing_web_runtime sy host port w of
             (Some st, w1) \<Rightarrow> (st, w1)
           | (None, w1) \<Rightarrow> (web_idle (public_host_for_bind host) port None, w1)))"

definition end_loopback :: "nat option \<Rightarrow> 's front_world \<Rightarrow> 's front_world" where
  "end_loopback lb w = (case lb of None \<Rightarrow> w | Some t \<Rightarrow> end_thread t w)"

definition web_stop_background :: "'s front_sys \<Rightarrow> 's front_world \<Rightarrow> web_status \<times> 's front_world" where
  "web_stop_background sy w =
     web_status_of sy
       (case fw_web w of
          None \<Rightarrow> w
        | Some h \<Rightarrow> end_thread (wb_thread h) (end_loopback (wb_loopback h) (w\<lparr>fw_web := None\<rparr>)))"

definition web_status_matches_config :: "string \<Rightarrow> string \<Rightarrow> bool" where
  "web_status_matches_config running_host configured_host \<longleftrightarrow>
     running_host = configured_host \<or> is_wildcard_host configured_host \<and> \<not> is_loopback_host running_host"

definition spawn_web_server_thread ::
  "'s front_sys \<Rightarrow> string \<Rightarrow> string \<Rightarrow> 16 word \<Rightarrow> string \<Rightarrow> web_proxy_state \<Rightarrow> 's front_world
   \<Rightarrow> (nat, string) result \<times> 's front_world" where
  "spawn_web_server_thread sy name host port listener proxy w =
     (case fx_nonblocking_err sy listener of
        Some err \<Rightarrow> (Err (''Falha ao configurar listener web em '' @ host_port host port @ '': '' @ err), w)
      | None \<Rightarrow>
          (case fx_spawn_err sy name of
             Some err \<Rightarrow> (Err (''Falha ao iniciar thread do servidor web: '' @ err), w)
           | None \<Rightarrow> (case new_thread sy listener (Some (ServesWeb proxy)) w of (t, w1) \<Rightarrow> (Ok t, w1))))"

definition web_needs_mirror :: "string \<Rightarrow> string \<Rightarrow> bool" where
  "web_needs_mirror configured_host effective_host \<longleftrightarrow>
     is_wildcard_host configured_host \<and> \<not> is_wildcard_host effective_host \<and> \<not> is_loopback_host effective_host"

definition on_front_net :: "('s net_world \<Rightarrow> 'a \<times> 's net_world) \<Rightarrow> 's front_world \<Rightarrow> 'a \<times> 's front_world" where
  "on_front_net f w = (case f (fw_net w) of (r, n) \<Rightarrow> (r, w\<lparr>fw_net := n\<rparr>))"

definition web_loopback_mirror ::
  "'s front_sys \<Rightarrow> string \<Rightarrow> string \<Rightarrow> 16 word \<Rightarrow> web_proxy_state \<Rightarrow> 's front_world \<Rightarrow> nat option \<times> 's front_world" where
  "web_loopback_mirror sy configured_host effective_host port proxy w =
     (if \<not> web_needs_mirror configured_host effective_host then (None, w)
      else
        (let lan = (''lan_bind'', JStr (host_port effective_host port)); lb = (''loopback_bind'', JStr (host_port ''127.0.0.1'' port)) in
         case on_front_net (bind_fixed_service_listener (fx_net sy) ''127.0.0.1'' port) w of
           (Inl err, w1) \<Rightarrow>
             (None, web_event sy ''warning'' (''Webport/proxy ativo na rede local, mas loopback est'' @ u_aacute @ '' indispon'' @ u_iacute @ ''vel'')
                (JObj [lan, lb, (''error'', JStr (ie_text err)), (''localhost_available'', JBool False),
                   (''hint'', JStr ''Outro processo pode estar usando 127.0.0.1 nesta porta. Acesse pelo IP local ou libere a porta para habilitar localhost.'')]) w1)
         | (Inr bound, w1) \<Rightarrow>
             (case spawn_web_server_thread sy ''tunnara-console-web-proxy-loopback'' ''127.0.0.1'' port (pl_listener bound) proxy w1 of
                (Inr t, w2) \<Rightarrow>
                  (Some t, web_event sy ''info'' (''Webport/proxy tamb'' @ u_eacute @ ''m publicado no loopback local'')
                     (JObj [lan, lb, (''url'', JStr (api_url ''127.0.0.1'' port)), (''localhost_available'', JBool True)]) w2)
              | (Inl err, w2) \<Rightarrow>
                  (None, web_event sy ''warning'' ''Falha ao iniciar listener loopback auxiliar do Webport/proxy''
                     (JObj [lan, lb, (''error'', JStr err), (''localhost_available'', JBool False)]) w2))))"

definition loopback_url_for :: "string \<Rightarrow> 16 word \<Rightarrow> string option" where
  "loopback_url_for host port =
     (if \<not> is_wildcard_host host \<and> \<not> is_loopback_host host then Some (api_url ''127.0.0.1'' port) else None)"

datatype web_bind =
    WebBound string "16 word" string string
  | WebExternal web_status

definition bind_details :: "string \<Rightarrow> string \<Rightarrow> 16 word \<Rightarrow> string \<Rightarrow> io_error \<Rightarrow> json_obj \<Rightarrow> json" where
  "bind_details configured_host host port addr err rest =
     JObj ([(''configured_host'', JStr configured_host), (''effective_host'', JStr host), (''configured_port'', js_word port),
            (''effective_port'', js_word port), (''addr'', JStr addr), (''error'', JStr (ie_text err))] @ rest)"

definition still_desktop :: json_obj where
  "still_desktop =
     [(''auto_port'', JBool False), (''fallback_to_localhost'', JBool False), (''desktop_startup_blocked'', JBool False)]"

definition web_socket_addr :: "'s front_sys \<Rightarrow> string \<Rightarrow> 16 word \<Rightarrow> (string, string) result" where
  "web_socket_addr sy host port =
     (case nb_addr_err (fx_net sy) (host_port host port) of
        Some err \<Rightarrow> Err ((''Endere'' @ u_ccedil @ ''o do servidor web inv'' @ u_aacute @ ''lido: '') @ err)
      | None \<Rightarrow> Ok (host_port host port))"

definition bind_web_listener ::
  "'s front_sys \<Rightarrow> string \<Rightarrow> 16 word \<Rightarrow> 's front_world \<Rightarrow> (web_bind, string) result \<times> 's front_world" where
  "bind_web_listener sy configured_host port w =
     (let primary_host = normalize_bind_host configured_host in
      case web_socket_addr sy primary_host port of
        Inl e \<Rightarrow> (Err e, w)
      | Inr addr \<Rightarrow>
          (case on_front_net (bind_fixed_service_listener (fx_net sy) primary_host port) w of
             (Inr bound, w1) \<Rightarrow>
               (let u = api_url (pl_public_host bound) (pl_port bound) in
                (Ok (WebBound (pl_bind_host bound) (pl_port bound) u (pl_listener bound)),
                 case pl_note bound of
                   None \<Rightarrow> w1
                 | Some note \<Rightarrow>
                     web_event sy ''warning'' ''Webport/proxy publicado em interface LAN alternativa''
                       (JObj [(''configured_host'', JStr configured_host), (''requested_host'', JStr primary_host),
                          (''effective_host'', JStr (pl_bind_host bound)), (''configured_port'', js_word port),
                          (''effective_port'', js_word (pl_port bound)), (''url'', JStr u), (''note'', JStr note),
                          (''fixed_port_policy'', JBool True), (''port_fallback'', JBool False)]) w1))
           | (Inl err, w1) \<Rightarrow>
               (if ie_kind err = AddrInUse then
                  (case adopt_existing_web_runtime_with_retry sy primary_host port w1 of
                     (Some st, w2) \<Rightarrow>
                       (Ok (WebExternal st),
                        web_event sy ''warning'' (''Servidor web/proxy j'' @ u_aacute @ '' estava ativo; reutilizando inst'' @ u_acirc @ ''ncia existente'')
                          (bind_details configured_host primary_host port addr err
                             [(''external'', JBool True), (''url'', js_opt (wq_url st)), (''fixed_port_policy'', JBool True)]) w2)
                   | (None, w2) \<Rightarrow>
                       (let message = (''Webport/proxy n'' @ u_atilde @ ''o foi iniciado em '') @ addr @ '': '' @ ie_text err @
                              (''. A aplica'' @ u_ccedil @ u_atilde @ ''o desktop continuar'' @ u_aacute @ '' funcionando. Ajuste a porta nos par'' @ u_acirc @ ''metros ou encerre o processo que est'' @ u_aacute @ '' usando esta porta.'')
                        in (Ok (WebExternal (web_idle primary_host port (Some message))),
                            web_event sy ''warning'' (''Webport/proxy n'' @ u_atilde @ ''o iniciado porque a porta configurada est'' @ u_aacute @ '' ocupada'')
                              (bind_details configured_host primary_host port addr err still_desktop) w2)))
                else
                  (let message = (''Webport/proxy n'' @ u_atilde @ ''o foi iniciado em '') @ addr @ '': '' @ ie_text err @
                         (''. A aplica'' @ u_ccedil @ u_atilde @ ''o desktop continuar'' @ u_aacute @ '' funcionando.'')
                   in (Ok (WebExternal (web_idle primary_host port (Some message))),
                       web_event sy ''warning'' (''Webport/proxy indispon'' @ u_iacute @ ''vel sem bloquear a aplica'' @ u_ccedil @ u_atilde @ ''o'')
                         (bind_details configured_host primary_host port addr err still_desktop) w1)))))"

definition web_settings :: "'s front_sys \<Rightarrow> 's front_world \<Rightarrow> runtime_settings \<times> 's front_world" where
  "web_settings sy w =
     (case load_settings (fx_rt sy) (fw_rt w) of
        (Inr p, rt) \<Rightarrow> (py_settings p, w\<lparr>fw_rt := rt\<rparr>)
      | (Inl _, rt) \<Rightarrow> (runtime_settings_default (rw_env rt), w\<lparr>fw_rt := rt\<rparr>))"

text \<open>What the proxy needs once its listener is bound.\<close>

definition prepare_proxy ::
  "'s front_sys \<Rightarrow> runtime_settings \<Rightarrow> 16 word \<Rightarrow> 's front_world \<Rightarrow> (web_proxy_state, string) result \<times> 's front_world" where
  "prepare_proxy sy s bound_port w =
     (case resolve_internal_api_config (fx_rt sy) (fw_rt w) of
        (Inl err, rt) \<Rightarrow> (Err ((''Falha ao resolver configura'' @ u_ccedil @ u_atilde @ ''o da API interna para o proxy web: '') @ err), w\<lparr>fw_rt := rt\<rparr>)
      | (Inr c, rt) \<Rightarrow>
          (case fx_client_err sy of
             Some err \<Rightarrow> (Err (''Falha ao preparar cliente HTTP do proxy web: '' @ err), w\<lparr>fw_rt := rt\<rparr>)
           | None \<Rightarrow>
               (and_then (build_api_state sy rt c) (\<lambda>st.
                  Ok \<lparr>wp_api_base_url = resolve_proxy_api_base_url s bound_port c, wp_api_token_header = rs_internal_api_token_header s,
                      wp_api_token = rs_internal_api_token s, wp_command_state = st\<rparr>), w\<lparr>fw_rt := rt\<rparr>)))"

definition launch_web ::
  "'s front_sys \<Rightarrow> string \<Rightarrow> string \<Rightarrow> 16 word \<Rightarrow> string \<Rightarrow> string \<Rightarrow> web_proxy_state \<Rightarrow> 's front_world
   \<Rightarrow> (web_status, string) result \<times> 's front_world" where
  "launch_web sy configured_host host port u listener proxy w =
     (case web_loopback_mirror sy configured_host host port proxy w of
        (lb, w1) \<Rightarrow>
          (case spawn_web_server_thread sy ''tunnara-console-web-proxy'' host port listener proxy w1 of
             (Inl err, w2) \<Rightarrow> (Err err, end_loopback lb w2)
           | (Inr t, w2) \<Rightarrow>
               (let h = \<lparr>wb_host = host, wb_port = port, wb_started_at = fx_now sy, wb_thread = t, wb_url = u, wb_loopback = lb\<rparr>
                in (Ok (web_running h),
                    web_event sy ''info'' ''Servidor web iniciado com sucesso''
                      (JObj [(''bind'', JStr (host_port host port)), (''url'', JStr u), (''loopback_url'', js_opt (loopback_url_for host port)),
                             (''api_proxy'', JStr (wp_api_base_url proxy))]) (w2\<lparr>fw_web := Some h\<rparr>)))))"

definition web_start_fresh ::
  "'s front_sys \<Rightarrow> runtime_settings \<Rightarrow> string \<Rightarrow> 's front_world \<Rightarrow> (web_status, string) result \<times> 's front_world" where
  "web_start_fresh sy s configured_host w =
     (case bind_web_listener sy configured_host (rs_local_web_port s) w of
        (Inl err, w1) \<Rightarrow> (Err err, w1)
      | (Inr (WebExternal st), w1) \<Rightarrow> (Ok st, w1)
      | (Inr (WebBound host port u listener), w1) \<Rightarrow>
          (case prepare_proxy sy s port w1 of
             (Inl err, w2) \<Rightarrow> (Err err, w2)
           | (Inr proxy, w2) \<Rightarrow> launch_web sy configured_host host port u listener proxy w2))"

definition web_start_background :: "'s front_sys \<Rightarrow> 's front_world \<Rightarrow> (web_status, string) result \<times> 's front_world" where
  "web_start_background sy w =
     (case web_settings sy w of
        (s, w1) \<Rightarrow>
          (if \<not> rs_local_web_enabled s
           then (Ok (web_idle (rs_local_web_host s) (rs_local_web_port s)
                  (Some (''Webport/proxy est'' @ u_aacute @ '' desabilitado nos par'' @ u_acirc @ ''metros runtime.''))), w1)
           else
             (let configured_host = normalize_bind_host (trim (rs_local_web_host s)) in
              case fw_web w1 of
                Some h \<Rightarrow>
                  (if web_status_matches_config (wb_host h) configured_host \<and> wb_port h = rs_local_web_port s
                   then (Ok (web_running h), w1)
                   else web_start_fresh sy s configured_host (front_pause 350 (snd (web_stop_background sy w1))))
              | None \<Rightarrow> web_start_fresh sy s configured_host w1)))"

subsection \<open>Starting the internal API\<close>

definition launch_api ::
  "'s front_sys \<Rightarrow> api_config \<Rightarrow> string \<Rightarrow> string \<Rightarrow> 's front_world \<Rightarrow> (api_status, string) result \<times> 's front_world" where
  "launch_api sy c addr public_host w =
     (case fx_nonblocking_err sy addr of
        Some err \<Rightarrow> (Err (''Falha ao configurar listener da API interna: '' @ err), w)
      | None \<Rightarrow>
          (let c' = c\<lparr>ac_base_url := api_url public_host (ac_port c)\<rparr> in
           case fx_spawn_err sy ''tunnara-console-internal-api'' of
             Some err \<Rightarrow> (Err (''Falha ao iniciar thread da API interna: '' @ err), w)
           | None \<Rightarrow>
               (case new_thread sy addr (map_option ServesApi (ok_opt (build_api_state sy (fw_rt w) c'))) w of
                  (t, w1) \<Rightarrow>
                    (let h = \<lparr>ah_bind_host = ac_host c, ah_public_host = public_host, ah_port = ac_port c, ah_started_at = fx_now sy,
                              ah_thread = t, ah_docs_url = api_docs_url c'\<rparr>
                     in case web_status_of sy (w1\<lparr>fw_api := Some h\<rparr>) of
                          (web, w2) \<Rightarrow>
                            (Ok (api_running h),
                             api_event sy ''info'' ''API iniciada com sucesso''
                               (JObj [(''bind_url'', JStr (api_url (ac_host c) (ac_port c))), (''url'', JStr (api_url public_host (ac_port c))),
                                  (''docs_url'', JStr (api_docs_url c')), (''web_url'', js_opt (wq_url web))]) w2)))))"

definition api_start_background ::
  "'s front_sys \<Rightarrow> api_config \<Rightarrow> 's front_world \<Rightarrow> (api_status, string) result \<times> 's front_world" where
  "api_start_background sy c w =
     (case api_validate_bind c of
        Inl err \<Rightarrow> (Err err, w)
      | Inr _ \<Rightarrow>
          (case fw_api w of
             Some h \<Rightarrow> (Ok (api_running h), w)
           | None \<Rightarrow>
               (let w1 = api_event sy ''info'' ''API iniciando'' (JObj [(''host'', JStr (ac_host c)), (''port'', js_word (ac_port c))]) w;
                    public_host = public_url_host (ac_host c); addr = host_port (ac_host c) (ac_port c)
                in case nb_addr_err (fx_net sy) addr of
                     Some err \<Rightarrow> (Err ((''Endere'' @ u_ccedil @ ''o da API interna inv'' @ u_aacute @ ''lido: '') @ err), w1)
                   | None \<Rightarrow>
                       (case on_front_net (tcp_bind (fx_net sy) addr) (set_api_env (ac_host c) public_host (ac_port c) w1) of
                          (Inl err, w2) \<Rightarrow> api_bind_failed sy addr public_host (ac_port c) err w2
                        | (Inr _, w2) \<Rightarrow> launch_api sy c addr public_host w2))))"

subsection \<open>No server without its handle\<close>

text \<open>What the life cycle turns on: the handles and the threads.\<close>

definition front_view :: "'s front_world \<Rightarrow> api_handle option \<times> web_handle option \<times> (nat \<times> (string \<times> served)) list \<times> nat" where
  "front_view w = (fw_api w, fw_web w, fw_threads w, fw_next w)"

fun owned :: "api_handle option \<Rightarrow> web_handle option \<Rightarrow> nat \<Rightarrow> served \<Rightarrow> bool" where
  "owned a b t (ServesApi st) \<longleftrightarrow> (\<exists>h. a = Some h \<and> ah_thread h = t)"
| "owned a b t (ServesWeb p) \<longleftrightarrow> (\<exists>h. b = Some h \<and> (wb_thread h = t \<or> wb_loopback h = Some t))"

definition front_inv :: "'s front_world \<Rightarrow> bool" where
  "front_inv w \<longleftrightarrow> (\<forall>(t, l, app) \<in> set (fw_threads w). t < fw_next w \<and> owned (fw_api w) (fw_web w) t app)"

datatype front_op = ApiStart api_config | ApiStop | ApiStatus | WebStart | WebStop | WebStatus

fun run_front :: "'s front_sys \<Rightarrow> front_op \<Rightarrow> 's front_world \<Rightarrow> 's front_world" where
  "run_front sy (ApiStart c) w = snd (api_start_background sy c w)"
| "run_front sy ApiStop w = snd (api_stop_background sy w)"
| "run_front sy ApiStatus w = snd (api_status_of sy w)"
| "run_front sy WebStart w = snd (web_start_background sy w)"
| "run_front sy WebStop w = snd (web_stop_background sy w)"
| "run_front sy WebStatus w = snd (web_status_of sy w)"

lemma front_inv_view: "front_view v = front_view w \<Longrightarrow> front_inv v \<longleftrightarrow> front_inv w"
  by (simp add: front_inv_def front_view_def)

lemma view_pieces [simp]:
  "front_view (front_event sy c s l m d w) = front_view w" "front_view (snd (http_get sy u w)) = front_view w"
  "front_view (front_pause n w) = front_view w" "front_view (set_api_env h q k w) = front_view w"
  "front_view (snd (on_front_net f w)) = front_view w" "front_view (w\<lparr>fw_rt := rt\<rparr>) = front_view w"
  by (simp_all add: front_view_def front_event_def http_get_def front_pause_def set_api_env_def on_front_net_def split: prod.splits)

lemmas inv_pieces [simp] = view_pieces [THEN front_inv_view]

lemma view_http_get: "http_get sy u w = (r, w') \<Longrightarrow> front_view w' = front_view w"
  by (metis snd_conv view_pieces(2))

lemma view_on_net: "on_front_net f w = (r, w') \<Longrightarrow> front_view w' = front_view w"
  by (metis snd_conv view_pieces(5))

lemma view_adopt_api: "adopt_existing_api_runtime sy h p w = (r, w') \<Longrightarrow> front_view w' = front_view w"
  by (auto simp: adopt_existing_api_runtime_def split: if_splits prod.splits dest: view_http_get)

lemma view_probe: "probe_template_webport sy u w = (r, w') \<Longrightarrow> front_view w' = front_view w"
  by (auto simp: probe_template_webport_def split: prod.splits dest: view_http_get)

lemma view_adopt_web: "adopt_existing_web_runtime sy h p w = (r, w') \<Longrightarrow> front_view w' = front_view w"
  by (auto simp: adopt_existing_web_runtime_def Let_def split: if_splits prod.splits dest!: view_probe)

lemma view_adopt_attempts: "adopt_web_attempts n sy h p w = (r, w') \<Longrightarrow> front_view w' = front_view w"
proof (induction n arbitrary: w)
  case (Suc n)
  obtain q w1 where a: "adopt_existing_web_runtime sy h p w = (q, w1)" by (cases "adopt_existing_web_runtime sy h p w")
  with Suc show ?case using view_adopt_web [OF a] by (cases q) auto
qed simp

lemma view_api_status: "front_view (snd (api_status_of sy w)) = front_view w"
  by (auto simp: api_status_of_def Let_def split: option.splits prod.splits dest: view_adopt_api)

lemma view_web_status: "front_view (snd (web_status_of sy w)) = front_view w"
  by (auto simp: web_status_of_def Let_def split: option.splits prod.splits dest: view_adopt_web)

lemma view_bind_failed: "front_view (snd (api_bind_failed sy a h p e w)) = front_view w"
  by (auto simp: api_bind_failed_def split: option.splits prod.splits if_splits dest: view_adopt_api)

lemma view_bind_web: "bind_web_listener sy h p w = (r, w') \<Longrightarrow> front_view w' = front_view w"
  by (auto simp: bind_web_listener_def Let_def adopt_existing_web_runtime_with_retry_def
      split: sum.splits prod.splits option.splits if_splits dest!: view_on_net view_adopt_attempts)

lemma view_settings: "web_settings sy w = (s, w') \<Longrightarrow> front_view w' = front_view w"
  by (auto simp: web_settings_def split: sum.splits prod.splits)

lemma view_prepare: "prepare_proxy sy s p w = (r, w') \<Longrightarrow> front_view w' = front_view w"
  by (auto simp: prepare_proxy_def split: sum.splits prod.splits option.splits)

lemma set_hm_insert: "set (hm_insert k v m) \<subseteq> insert (k, v) (set m)"
  by (auto simp: hm_insert_def hm_remove_def)

lemma new_thread_effect:
  assumes "new_thread sy l app w = (t, w')"
  shows "t = fw_next w \<and> fw_next w' = Suc t \<and> fw_api w' = fw_api w \<and> fw_web w' = fw_web w \<and>
    set (fw_threads w') \<subseteq> set (fw_threads w) \<union> (\<lambda>a. (t, l, a)) ` set_option app"
  using assms set_hm_insert [of "fw_next w" "(l, the app)" "fw_threads w"]
  by (auto simp: new_thread_def split: option.splits if_splits)

lemma end_thread_effect:
  "fw_api (end_thread t w) = fw_api w" "fw_web (end_thread t w) = fw_web w" "fw_next (end_thread t w) = fw_next w"
  "set (fw_threads (end_thread t w)) = {e \<in> set (fw_threads w). fst e \<noteq> t}"
  by (auto simp: end_thread_def hm_remove_def)

lemma inv_api_status: "front_inv (snd (api_status_of sy w)) \<longleftrightarrow> front_inv w"
  by (rule front_inv_view [OF view_api_status])

lemma inv_web_status: "front_inv (snd (web_status_of sy w)) \<longleftrightarrow> front_inv w"
  by (rule front_inv_view [OF view_web_status])

lemma owned_without_api: "owned a b t app \<Longrightarrow> (\<And>h. a = Some h \<Longrightarrow> ah_thread h \<noteq> t) \<Longrightarrow> owned None b t app"
  by (cases app) auto

lemma owned_without_web:
  "owned a b t app \<Longrightarrow> (\<And>h. b = Some h \<Longrightarrow> wb_thread h \<noteq> t \<and> wb_loopback h \<noteq> Some t) \<Longrightarrow> owned a None t app"
  by (cases app) auto

lemma inv_api_stop:
  assumes "front_inv w"
  shows "front_inv (snd (api_stop_background sy w)) \<and> fw_api (snd (api_stop_background sy w)) = None"
proof (cases "fw_api w")
  case None
  with assms view_api_status [of sy w] show ?thesis by (simp add: api_stop_background_def inv_api_status front_view_def)
next
  case (Some h)
  let ?w = "end_thread (ah_thread h) (w\<lparr>fw_api := None\<rparr>)"
  have "front_inv ?w"
    using assms Some by (auto simp: front_inv_def end_thread_effect intro: owned_without_api)
  with Some view_api_status [of sy ?w] show ?thesis
    by (simp add: api_stop_background_def inv_api_status front_view_def end_thread_effect)
qed

lemma inv_web_stop:
  assumes "front_inv w"
  shows "front_inv (snd (web_stop_background sy w)) \<and> fw_web (snd (web_stop_background sy w)) = None"
proof (cases "fw_web w")
  case None
  with assms view_web_status [of sy w] show ?thesis by (simp add: web_stop_background_def inv_web_status front_view_def)
next
  case (Some h)
  let ?w = "end_thread (wb_thread h) (end_loopback (wb_loopback h) (w\<lparr>fw_web := None\<rparr>))"
  have "front_inv ?w"
    using assms Some
    by (auto simp: front_inv_def end_thread_effect end_loopback_def split: option.splits intro: owned_without_web)
  with Some view_web_status [of sy ?w] show ?thesis
    by (auto simp: web_stop_background_def inv_web_status front_view_def end_thread_effect end_loopback_def split: option.splits)
qed

lemma spawn_web_effect:
  assumes "spawn_web_server_thread sy nm host port l proxy w = (r, w')"
  shows "case r of Inl _ \<Rightarrow> w' = w | Inr t \<Rightarrow> t = fw_next w \<and> fw_next w' = Suc t \<and> fw_api w' = fw_api w \<and> fw_web w' = fw_web w \<and>
    set (fw_threads w') \<subseteq> insert (t, l, ServesWeb proxy) (set (fw_threads w))"
  using assms new_thread_effect [of sy l "Some (ServesWeb proxy)" w]
  by (auto simp: spawn_web_server_thread_def split: option.splits prod.splits)

lemma mirror_effect:
  assumes "web_loopback_mirror sy ch eh port proxy w = (lb, w')"
  shows "fw_api w' = fw_api w \<and> fw_web w' = fw_web w \<and> fw_next w \<le> fw_next w' \<and> (\<forall>t. lb = Some t \<longrightarrow> t < fw_next w') \<and>
    (\<forall>t k app. (t, k, app) \<in> set (fw_threads w') \<longrightarrow> (t, k, app) \<in> set (fw_threads w) \<or> lb = Some t \<and> app = ServesWeb proxy)"
proof (cases "web_needs_mirror ch eh")
  case False
  with assms show ?thesis by (simp add: web_loopback_mirror_def)
next
  case True
  obtain q w1 where b: "on_front_net (bind_fixed_service_listener (fx_net sy) ''127.0.0.1'' port) w = (q, w1)"
    by (cases "on_front_net (bind_fixed_service_listener (fx_net sy) ''127.0.0.1'' port) w")
  note v1 = view_on_net [OF b, unfolded front_view_def prod.inject]
  have ev: "fw_api (web_event sy lv m d v) = fw_api v" "fw_web (web_event sy lv m d v) = fw_web v"
    "fw_threads (web_event sy lv m d v) = fw_threads v" "fw_next (web_event sy lv m d v) = fw_next v" for lv m d v
    using view_pieces(1) [of sy _ _ lv m d v] by (simp_all add: front_view_def)
  show ?thesis
  proof (cases q)
    case (Inl e)
    with assms True b v1 show ?thesis by (auto simp: web_loopback_mirror_def Let_def ev)
  next
    case (Inr bound)
    obtain r w2 where sp: "spawn_web_server_thread sy ''tunnara-console-web-proxy-loopback'' ''127.0.0.1'' port (pl_listener bound) proxy w1 = (r, w2)"
      by (cases "spawn_web_server_thread sy ''tunnara-console-web-proxy-loopback'' ''127.0.0.1'' port (pl_listener bound) proxy w1")
    note eff = spawn_web_effect [OF sp]
    show ?thesis
    proof (cases r)
      case (Inl e)
      with assms True b v1 \<open>q = _\<close> sp eff show ?thesis by (auto simp: web_loopback_mirror_def Let_def ev)
    next
      case (Inr t)
      with assms True b v1 \<open>q = _\<close> sp have "lb = Some t" "fw_api w' = fw_api w2" "fw_web w' = fw_web w2"
        "fw_threads w' = fw_threads w2" "fw_next w' = fw_next w2"
        by (auto simp: web_loopback_mirror_def Let_def ev)
      with Inr eff v1 show ?thesis by auto
    qed
  qed
qed

lemma inv_launch_web:
  assumes "front_inv w" and "fw_web w = None"
  shows "front_inv (snd (launch_web sy ch host port u l proxy w))"
proof -
  obtain lb w1 where m: "web_loopback_mirror sy ch host port proxy w = (lb, w1)" by (cases "web_loopback_mirror sy ch host port proxy w")
  obtain r w2 where sp: "spawn_web_server_thread sy ''tunnara-console-web-proxy'' host port l proxy w1 = (r, w2)"
    by (cases "spawn_web_server_thread sy ''tunnara-console-web-proxy'' host port l proxy w1")
  note me = mirror_effect [OF m] and se = spawn_web_effect [OF sp]
  have old: "(t, k, app) \<in> set (fw_threads w) \<Longrightarrow> t < fw_next w \<and> owned (fw_api w) None t app" for t k app
    using assms by (fastforce simp: front_inv_def)
  have lifted: "owned a None t app \<Longrightarrow> owned a b t app" for a b t app by (cases app) auto
  show ?thesis
  proof (cases r)
    case (Inl e)
    with me se old assms(2) have "front_inv (end_loopback lb w2)"
      by (fastforce simp: front_inv_def end_loopback_def end_thread_effect split: option.splits)
    with m sp Inl show ?thesis by (simp add: launch_web_def)
  next
    case (Inr t)
    let ?h = "\<lparr>wb_host = host, wb_port = port, wb_started_at = fx_now sy, wb_thread = t, wb_url = u, wb_loopback = lb\<rparr>"
    have "t' < fw_next w2 \<and> owned (fw_api w2) (Some ?h) t' app" if "(t', k, app) \<in> set (fw_threads w2)" for t' k app
    proof -
      from that se Inr consider "(t', k, app) = (t, l, ServesWeb proxy)" | "(t', k, app) \<in> set (fw_threads w1)" by auto
      then show ?thesis
      proof cases
        case 2
        show ?thesis
        proof (cases "(t', k, app) \<in> set (fw_threads w)")
          case True
          with old [OF True] me se Inr lifted show ?thesis by auto
        next
          case False
          with 2 me have "lb = Some t'" "app = ServesWeb proxy" "t' < fw_next w1" by auto
          with se Inr show ?thesis by auto
        qed
      qed (use se Inr in auto)
    qed
    then have "front_inv (w2\<lparr>fw_web := Some ?h\<rparr>)" by (auto simp: front_inv_def)
    with m sp Inr show ?thesis by (simp add: launch_web_def Let_def)
  qed
qed

lemma inv_web_fresh:
  assumes "front_inv w" and "fw_web w = None"
  shows "front_inv (snd (web_start_fresh sy s ch w))"
proof -
  obtain r w1 where b: "bind_web_listener sy ch (rs_local_web_port s) w = (r, w1)" by (cases "bind_web_listener sy ch (rs_local_web_port s) w")
  with view_bind_web [OF b] assms have w1: "front_inv w1" "fw_web w1 = None"
    by (simp_all add: front_inv_view [OF view_bind_web [OF b]]) (simp add: front_view_def)
  show ?thesis
  proof (cases r)
    case (Inr x)
    show ?thesis
    proof (cases x)
      case (WebBound host port u l)
      obtain q w2 where p: "prepare_proxy sy s port w1 = (q, w2)" by (cases "prepare_proxy sy s port w1")
      with view_prepare [OF p] w1 have "front_inv w2" "fw_web w2 = None"
        by (simp_all add: front_inv_view [OF view_prepare [OF p]]) (simp add: front_view_def)
      then show ?thesis using b Inr WebBound p by (cases q) (auto simp: web_start_fresh_def inv_launch_web)
    qed (use b Inr w1 in \<open>simp add: web_start_fresh_def\<close>)
  qed (use b w1 in \<open>simp add: web_start_fresh_def\<close>)
qed

lemma inv_web_start:
  assumes "front_inv w"
  shows "front_inv (snd (web_start_background sy w))"
proof -
  obtain s w1 where s: "web_settings sy w = (s, w1)" by (cases "web_settings sy w")
  with assms have w1: "front_inv w1" by (simp add: front_inv_view [OF view_settings [OF s]])
  let ?w = "front_pause 350 (snd (web_stop_background sy w1))"
  from inv_web_stop [OF w1, of sy] have "front_inv ?w" "fw_web ?w = None"
    by (simp_all add: front_pause_def) (simp flip: front_pause_def)
  then show ?thesis using s w1 by (auto simp: web_start_background_def Let_def inv_web_fresh split: option.splits)
qed

lemma inv_launch_api:
  assumes "front_inv w" and "fw_api w = None"
  shows "front_inv (snd (launch_api sy c addr q w))"
proof -
  let ?c = "c\<lparr>ac_base_url := api_url q (ac_port c)\<rparr>"
  obtain t w1 where n: "new_thread sy addr (map_option ServesApi (ok_opt (build_api_state sy (fw_rt w) ?c))) w = (t, w1)"
    by (cases "new_thread sy addr (map_option ServesApi (ok_opt (build_api_state sy (fw_rt w) ?c))) w")
  note eff = new_thread_effect [OF n]
  have lifted: "owned None b t app \<Longrightarrow> owned a b t app" for a b t app by (cases app) auto
  have "front_inv (w1\<lparr>fw_api := Some h\<rparr>)" if "ah_thread h = t" for h
    using assms eff that lifted by (fastforce simp: front_inv_def)
  then have "front_inv w2" if "web_status_of sy (w1\<lparr>fw_api := Some h\<rparr>) = (st, w2)" "ah_thread h = t" for st w2 h
    using that inv_web_status [of sy "w1\<lparr>fw_api := Some h\<rparr>"] by simp
  then show ?thesis using assms(1) n by (auto simp: launch_api_def Let_def split: option.splits prod.splits)
qed

lemma inv_api_start:
  assumes "front_inv w"
  shows "front_inv (snd (api_start_background sy c w))"
proof (cases "api_validate_bind c = Ok () \<and> fw_api w = None")
  case False
  with assms show ?thesis by (auto simp: api_start_background_def split: sum.splits option.splits)
next
  case True
  let ?w = "set_api_env (ac_host c) (public_url_host (ac_host c)) (ac_port c)
    (api_event sy ''info'' ''API iniciando'' (JObj [(''host'', JStr (ac_host c)), (''port'', js_word (ac_port c))]) w)"
  have bound: "front_inv v \<and> fw_api v = None" if "on_front_net f ?w = (r, v)" for f r v
    using view_on_net [OF that] True assms by (simp add: front_inv_view [OF view_on_net [OF that]]) (simp add: front_view_def set_api_env_def front_event_def)
  have failed: "front_inv (snd (api_bind_failed sy a q p e v))" if "front_inv v" for a q p e v
    using that front_inv_view [OF view_bind_failed] by blast
  from True assms show ?thesis
    by (auto simp: api_start_background_def Let_def failed inv_launch_api split: option.splits prod.splits sum.splits dest!: bound)
qed

lemma inv_run_front: "front_inv w \<Longrightarrow> front_inv (run_front sy op w)"
  by (cases op) (simp_all add: inv_api_start inv_api_stop inv_web_start inv_web_stop inv_api_status inv_web_status)

lemma inv_fold_front: "front_inv w \<Longrightarrow> front_inv (fold (run_front sy) ops w)"
  by (induction ops arbitrary: w) (simp_all add: inv_run_front)

fun serves_api :: "nat \<times> string \<times> served \<Rightarrow> bool" where
  "serves_api (_, _, ServesApi _) = True"
| "serves_api _ = False"

fun serves_web :: "nat \<times> string \<times> served \<Rightarrow> bool" where
  "serves_web (_, _, ServesWeb _) = True"
| "serves_web _ = False"

lemma unowned:
  assumes "front_inv w"
  shows "fw_api w = None \<Longrightarrow> filter serves_api (fw_threads w) = []" "fw_web w = None \<Longrightarrow> filter serves_web (fw_threads w) = []"
  using assms by (fastforce simp: front_inv_def filter_empty_conv elim!: serves_api.elims serves_web.elims)+

definition front_start_world :: "'s net_world \<Rightarrow> rt_world \<Rightarrow> log_world \<Rightarrow> 's front_world" where
  "front_start_world n rt l =
     \<lparr>fw_api = None, fw_web = None, fw_threads = [], fw_next = 0, fw_net = n, fw_rt = rt, fw_logs = l\<rparr>"

text \<open>C7. However the two HTTP servers are started, stopped, asked and restarted, and whatever binding, spawning and probing answer, every server thread alive belongs to the handle in its slot; so after a stop no thread of that server is left listening.\<close>

theorem front_servers_owned:
  "front_inv (fold (run_front sy) ops (front_start_world n rt l)) \<and>
   filter serves_api (fw_threads (run_front sy ApiStop (fold (run_front sy) ops (front_start_world n rt l)))) = [] \<and>
   filter serves_web (fw_threads (run_front sy WebStop (fold (run_front sy) ops (front_start_world n rt l)))) = []"
proof -
  let ?w = "fold (run_front sy) ops (front_start_world n rt l)"
  have inv: "front_inv ?w" by (rule inv_fold_front) (simp add: front_inv_def front_start_world_def)
  from inv_api_stop [OF inv, of sy] inv_web_stop [OF inv, of sy]
  show ?thesis unfolding run_front.simps by (intro conjI inv unowned) blast+
qed

end
