(* ===== verification/Http_Commands.thy ===== *)
theory Http_Commands
  imports Entities Http_Runtime Realtime
begin

text \<open>
  The commands of the internal API, \<^verbatim>\<open>internal_api/app_commands.rs\<close>: one entry point that looks up a
  handler by the name of the command. Handlers on master data build their statements and run them on
  the database engine; log-in, session and password run on the tables of \<open>app_world\<close>; the
  remaining ones ask the services of the process.
\<close>

subsection \<open>State and surroundings\<close>

record ('g, 's) http_world =
  hw_app :: "'g app_world"
  hw_front :: "'s front_world"
  hw_webhook :: "'s svc_world"
  hw_websocket :: "'s svc_world"
  hw_events :: webhook_store
  hw_hub :: hub

record ('c, 'g, 's) command_sys =
  hx_state :: internal_api_state
  hx_app :: "'g app_sys"
  hx_engine :: "('c, 'g app_world) engine"
  hx_external :: "database_config \<Rightarrow> 'g app_world provider"
  hx_front :: "'s front_sys"
  hx_webhook :: "'s svc_sys"
  hx_websocket :: "'s svc_sys"

definition hx_env :: "('c, 'g, 's) command_sys \<Rightarrow> env" where
  "hx_env sy = rw_env (sa_rw (hx_app sy))"

definition http_host :: "('c, 'g, 's) command_sys \<Rightarrow> ('c, 'g app_world) host_sys" where
  "http_host sy =
     \<lparr>ho_engine = hx_engine sy, ho_external = hx_external sy, ho_env = hx_env sy, ho_db_path = Ok (ia_db_path (hx_state sy)),
      ho_json_text = lg_json_text (sa_log (hx_app sy)), ho_now = clock_text (hx_app sy),
      ho_hash_password = hash_new_password (hx_app sy)\<rparr>"

definition on_app :: "('a, 'g app_world) cmd \<Rightarrow> ('a, ('g, 's) http_world) cmd" where
  "on_app m w = (case m (hw_app w) of (r, a) \<Rightarrow> (r, w\<lparr>hw_app := a\<rparr>))"

text \<open>A handler that opens the database, and one that uses the typed tables.\<close>

definition with_db :: "('c, 'g, 's) command_sys \<Rightarrow> ('a, 'c \<times> 'g app_world) cmd \<Rightarrow> ('a, ('g, 's) http_world) cmd" where
  "with_db sy body = on_app (with_conn (hx_engine sy) body)"

definition http_connect :: "('c, 'g, 's) command_sys \<Rightarrow> (unit, 'g app_world) cmd" where
  "http_connect sy = lift (and_then (open_connection (sa_rt (hx_app sy)) (ia_db_path (hx_state sy))) (\<lambda>_. Ok ()))"

definition provider_for_state :: "('c, 'g, 's) command_sys \<Rightarrow> ('g app_world provider, string) result" where
  "provider_for_state sy =
     provider_from_config (http_host sy) (from_env_with_driver (hx_env sy) (current_provider_driver (hx_env sy)))"

definition with_provider ::
  "('c, 'g, 's) command_sys \<Rightarrow> ('g app_world provider \<Rightarrow> ('a, 'g app_world) cmd) \<Rightarrow> ('a, ('g, 's) http_world) cmd" where
  "with_provider sy body = bindc (lift (provider_for_state sy)) (\<lambda>pv. on_app (body pv))"

fun each_map :: "('a \<Rightarrow> ('b, 'w) cmd) \<Rightarrow> 'a list \<Rightarrow> ('b list, 'w) cmd" where
  "each_map f [] = ret []"
| "each_map f (x # xs) = bindc (f x) (\<lambda>y. bindc (each_map f xs) (\<lambda>ys. ret (y # ys)))"

definition named_env :: "env \<Rightarrow> string \<Rightarrow> string \<Rightarrow> string \<Rightarrow> string" where
  "named_env e k1 k2 d = unwrap_or d (opt_filter (\<lambda>v. trim v \<noteq> []) (or_else (e k1) (e k2)))"

definition runtime_app_name :: "env \<Rightarrow> string" where
  "runtime_app_name e = named_env e ''TUNNARA_CONSOLE_NAME'' ''APP_NAME'' ''Tunnara Console''"

definition runtime_app_short_name :: "env \<Rightarrow> string" where
  "runtime_app_short_name e = named_env e ''TUNNARA_CONSOLE_SHORT_NAME'' ''APP_SHORT_NAME'' ''Template''"

definition runtime_app_identifier :: "env \<Rightarrow> string" where
  "runtime_app_identifier e =
     named_env e ''TUNNARA_CONSOLE_IDENTIFIER'' ''APP_IDENTIFIER'' ''br.com.wwsoftwares.tunnara.console''"

subsection \<open>Arguments\<close>

definition arg_string :: "json_obj \<Rightarrow> string \<Rightarrow> string" where
  "arg_string args key = trim (unwrap_or [] (Option.bind (obj_get args key) as_str))"

definition arg_i64 :: "json_obj \<Rightarrow> string \<Rightarrow> int" where
  "arg_i64 args key = unwrap_or 0 (Option.bind (obj_get args key) id_value)"

definition arg_object :: "json_obj \<Rightarrow> string \<Rightarrow> json_obj" where
  "arg_object args key = unwrap_or [] (Option.bind (obj_get args key) as_object)"

definition arg_payload :: "json_obj \<Rightarrow> json_obj" where
  "arg_payload args = arg_object args ''payload''"

definition arg_filters :: "json_obj \<Rightarrow> json_obj" where
  "arg_filters args = arg_object args ''filters''"

definition search_from_args :: "json_obj \<Rightarrow> string" where
  "search_from_args args =
     (let direct = arg_string args ''search'' in if direct \<noteq> [] then direct else arg_string (arg_filters args) ''search'')"

definition as_i64_list :: "json option \<Rightarrow> int list" where
  "as_i64_list v = filter (\<lambda>i. 0 < i) (List.map_filter id_value (unwrap_or [] (Option.bind v as_array)))"

subsection \<open>Statements on any table\<close>

definition quote_ident :: "string \<Rightarrow> string" where
  "quote_ident s = [CHR 0x22] @ replace s [CHR 0x22] [CHR 0x22, CHR 0x22] @ [CHR 0x22]"

definition table_columns :: "('c, 'd) host_sys \<Rightarrow> string \<Rightarrow> (string list, 'c \<times> 'd) cmd" where
  "table_columns sy table =
     bindc (local_query sy
         (query_error_text (''Falha ao inspecionar tabela '' @ table) (''Falha ao consultar colunas de '' @ table)
            (''Falha ao mapear coluna de '' @ table))
         (''PRAGMA table_info('' @ quote_ident table @ '')'') []) (\<lambda>rows.
     bindc (lift (map_err (\<lambda>err. ''Falha ao mapear coluna de '' @ table @ '': '' @ err)
         (collect_rows (\<lambda>row. get_col row 1 ref_string) rows))) (\<lambda>columns.
     if columns = [] then fail (''Tabela '' @ table @ ('' n'' @ u_atilde @ ''o encontrada ou sem colunas.'')) else ret columns))"

definition query_json :: "('c, 'd) host_sys \<Rightarrow> string \<Rightarrow> sql_value list \<Rightarrow> (json list, 'c \<times> 'd) cmd" where
  "query_json sy sql params =
     bindc (local_query sy (query_error_text ''Falha ao preparar consulta'' ''Falha ao executar consulta'' ''Falha ao mapear linha'') sql params)
       (\<lambda>rows. ret (map (\<lambda>r. JObj (row_to_json_map r)) rows))"

definition table_record :: "('c, 'd) host_sys \<Rightarrow> string \<Rightarrow> int \<Rightarrow> (json, 'c \<times> 'd) cmd" where
  "table_record sy table i =
     bindc (local_row sy ''Falha ao consultar registro'' (''SELECT * FROM '' @ quote_ident table @ '' WHERE id = ?1'') [SqlInteger i]) (\<lambda>row.
     case row of None \<Rightarrow> fail (''Registro n'' @ u_atilde @ ''o encontrado.'') | Some r \<Rightarrow> ret (JObj (row_to_json_map r)))"

definition order_column :: "string list \<Rightarrow> string" where
  "order_column available =
     (if ''nome'' \<in> set available then ''nome'' else if ''descricao'' \<in> set available then ''descricao''
      else if ''id'' \<in> set available then ''id'' else ''rowid'')"

definition like_clause :: "string \<Rightarrow> string" where
  "like_clause field =
     ''LOWER(COALESCE('' @ quote_ident field @ '', '' @ [CHR 0x27, CHR 0x27] @ '')) LIKE LOWER(?1)''"

definition table_list :: "('c, 'd) host_sys \<Rightarrow> string \<Rightarrow> string \<Rightarrow> string list \<Rightarrow> (json list, 'c \<times> 'd) cmd" where
  "table_list sy table search searchable =
     bindc (table_columns sy table) (\<lambda>available.
     let order = '' ORDER BY '' @ quote_ident (order_column available);
         columns = map like_clause (filter (\<lambda>field. field \<in> set available) searchable)
     in if trim search = [] \<or> columns = []
        then query_json sy (''SELECT * FROM '' @ quote_ident table @ order) []
        else query_json sy (''SELECT * FROM '' @ quote_ident table @ '' WHERE '' @ join '' OR '' columns @ order)
               [SqlText (search_pattern search)])"

text \<open>The columns and values that a record is saved with: sorted by name, each a column of the table.\<close>

definition add_missing :: "string \<Rightarrow> json \<Rightarrow> json_obj \<Rightarrow> json_obj" where
  "add_missing k v data = (if obj_get data k = None then hm_insert k v data else data)"

definition record_id :: "json_obj \<Rightarrow> int option" where
  "record_id payload = opt_filter (\<lambda>i. 0 < i) (payload_id payload)"

definition record_fields :: "string list \<Rightarrow> json_obj \<Rightarrow> string \<Rightarrow> json_obj" where
  "record_fields available payload timestamp =
     (let data1 = (if ''updated_at'' \<in> set available then add_missing ''updated_at'' (JStr timestamp) payload else payload);
          data2 = (if record_id payload = None \<and> ''created_at'' \<in> set available
                   then add_missing ''created_at'' (JStr timestamp) data1 else data1)
      in sort_key fst (filter (\<lambda>(k, v). k \<noteq> ''id'' \<and> k \<in> set available) data2))"

definition record_update_sql :: "string \<Rightarrow> string list \<Rightarrow> string" where
  "record_update_sql table columns =
     ''UPDATE '' @ quote_ident table @ '' SET '' @
     join '', '' (numbered nth_mark columns (\<lambda>i c. quote_ident c @ '' = '' @ nth_mark i)) @
     '' WHERE id = '' @ nth_mark (length columns + 1)"

definition record_insert_sql :: "string \<Rightarrow> string list \<Rightarrow> string" where
  "record_insert_sql table columns =
     ''INSERT INTO '' @ quote_ident table @ '' ('' @ join '', '' (map quote_ident columns) @ '') VALUES ('' @
     join '', '' (map nth_mark [1..<Suc (length columns)]) @ '')''"

definition save_record :: "('c, 'd) host_sys \<Rightarrow> string \<Rightarrow> json_obj \<Rightarrow> (json, 'c \<times> 'd) cmd" where
  "save_record sy table payload =
     bindc (table_columns sy table) (\<lambda>available.
     bindc (beside (ho_now sy)) (\<lambda>timestamp.
     let fs = record_fields available payload timestamp; columns = map fst fs;
         values = map (\<lambda>(_, v). json_to_sql_value (ho_json_text sy) v) fs
     in if fs = [] then fail ((''Nenhum campo v'' @ u_aacute @ ''lido foi informado para '') @ table @ ''.'')
        else case record_id payload of
               Some i \<Rightarrow>
                 bindc (local_execute sy (''Falha ao atualizar '' @ table) (record_update_sql table columns) (values @ [SqlInteger i])) (\<lambda>_.
                 table_record sy table i)
             | None \<Rightarrow>
                 bindc (local_execute sy (''Falha ao inserir em '' @ table) (record_insert_sql table columns) values) (\<lambda>_ w.
                 table_record sy table (eg_last_id (ho_engine sy) (fst w)) w)))"

definition delete_record :: "('c, 'd) host_sys \<Rightarrow> string \<Rightarrow> int \<Rightarrow> (json, 'c \<times> 'd) cmd" where
  "delete_record sy table i =
     bindc (local_execute sy (''Falha ao excluir registro de '' @ table) (''DELETE FROM '' @ quote_ident table @ '' WHERE id = ?1'')
       [SqlInteger i]) (\<lambda>_. ret (JBool True))"

definition sync_link_table ::
  "('c, 'd) host_sys \<Rightarrow> string \<Rightarrow> string \<Rightarrow> string \<Rightarrow> int \<Rightarrow> int list \<Rightarrow> (unit, 'c \<times> 'd) cmd" where
  "sync_link_table sy table owner_field target_field owner_id target_ids =
     (if target_ids = [] then ret ()
      else
        bindc (local_execute sy ((''Falha ao limpar v'' @ u_iacute @ ''nculos de '') @ table)
          (''DELETE FROM '' @ quote_ident table @ '' WHERE '' @ quote_ident owner_field @ '' = ?1'') [SqlInteger owner_id]) (\<lambda>_.
        bindc (beside (ho_now sy)) (\<lambda>timestamp.
        each (\<lambda>target_id.
          bindc (local_execute sy ((''Falha ao gravar v'' @ u_iacute @ ''nculo de '') @ table)
            (''INSERT INTO '' @ quote_ident table @ '' ('' @ quote_ident owner_field @ '', '' @ quote_ident target_field @
             '', created_at) VALUES (?1, ?2, ?3)'')
            [SqlInteger owner_id, SqlInteger target_id, SqlText timestamp]) (\<lambda>_. ret ())) target_ids)))"

definition string_rows ::
  "('c, 'd) host_sys \<Rightarrow> string \<Rightarrow> string \<Rightarrow> string \<Rightarrow> string \<Rightarrow> sql_value list \<Rightarrow> (string list, 'c \<times> 'd) cmd" where
  "string_rows sy prep run mapm sql params =
     bindc (local_query sy (query_error_text prep run mapm) sql params) (\<lambda>rows.
     lift (map_err (\<lambda>err. mapm @ '': '' @ err) (collect_rows (\<lambda>row. get_col row 0 ref_string) rows)))"

definition profile_permissions :: "('c, 'd) host_sys \<Rightarrow> int \<Rightarrow> (string list, 'c \<times> 'd) cmd" where
  "profile_permissions sy profile_id =
     string_rows sy (''Falha ao preparar permiss'' @ u_otilde @ ''es'') (''Falha ao consultar permiss'' @ u_otilde @ ''es'') (''Falha ao mapear permiss'' @ u_atilde @ ''o'')
       ''SELECT permissao_chave FROM perfis_permissoes WHERE perfil_id = ?1 ORDER BY permissao_chave'' [SqlInteger profile_id]"

subsection \<open>Settings\<close>

definition save_settings_value :: "('c, 'd) host_sys \<Rightarrow> string \<Rightarrow> json \<Rightarrow> (unit, 'c \<times> 'd) cmd" where
  "save_settings_value sy key v =
     bindc (beside (ho_now sy)) (\<lambda>timestamp.
     bindc (local_execute sy ((''Falha ao salvar configura'' @ u_ccedil @ u_atilde @ ''o '') @ key)
       (sql_lines [''INSERT INTO app_settings (chave, valor, created_at, updated_at)'', ''VALUES (?1, ?2, ?3, ?3)'',
          ''ON CONFLICT(chave) DO UPDATE SET valor = excluded.valor, updated_at = excluded.updated_at''])
       [SqlText key, SqlText (ho_json_text sy v), SqlText timestamp]) (\<lambda>_. ret ()))"

definition load_settings_value ::
  "('c, 'd) host_sys \<Rightarrow> (string \<Rightarrow> json option) \<Rightarrow> string \<Rightarrow> (json option, 'c \<times> 'd) cmd" where
  "load_settings_value sy parse key =
     (let msg = (''Falha ao carregar configura'' @ u_ccedil @ u_atilde @ ''o '') @ key in
      bindc (local_row sy msg ''SELECT valor FROM app_settings WHERE chave = ?1'' [SqlText key]) (\<lambda>row.
      case row of
        None \<Rightarrow> ret None
      | Some r \<Rightarrow> lift (map_err (\<lambda>err. msg @ '': '' @ err) (and_then (get_col r 0 ref_string) (\<lambda>raw. Ok (parse raw))))))"

abbreviation js_nat :: "nat \<Rightarrow> json" where
  "js_nat n \<equiv> JNum (JInt (int n))"

definition port_entry :: "string \<Rightarrow> string \<Rightarrow> string \<Rightarrow> json \<Rightarrow> nat \<Rightarrow> json" where
  "port_entry key label host port d =
     JObj [(''key'', JStr key), (''label'', JStr label), (''host'', JStr host), (''configured_port'', port),
       (''effective_port'', port), (''default_port'', js_nat d), (''available'', JBool True), (''fallback_applied'', JBool False)]"

definition runtime_settings_payload :: "internal_api_state \<Rightarrow> json \<Rightarrow> json" where
  "runtime_settings_payload st settings =
     JObj [(''env_path'', JStr ''app_settings:runtime.settings''), (''settings'', settings),
       (''ports'', JArr
         [port_entry ''internal_api'' ''API interna'' (ia_host st) (js_word (ia_port st)) 61001,
          port_entry ''local_web'' ''Servidor web local'' ''0.0.0.0'' (js_nat 61002) 61002,
          port_entry ''auxiliary'' ''Webhook Service'' ''0.0.0.0'' (js_nat 61003) 61003,
          port_entry ''bridge_core'' ''WebSocket Service'' ''0.0.0.0'' (js_nat 61004) 61004]),
       (''warnings'', JArr [JStr (''Configura'' @ u_ccedil @ u_otilde @ ''es carregadas pela API interna web. Reinicie os servi'' @ u_ccedil @ ''os nativos pelo desktop quando necess'' @ u_aacute @ ''rio.'')])]"

definition default_runtime_settings :: "internal_api_state \<Rightarrow> json" where
  "default_runtime_settings st =
     (let c = ia_config st; sec = ac_security c in
      JObj [(''internal_api_host'', JStr (ia_host st)), (''internal_api_port'', js_word (ia_port st)),
        (''internal_api_auto_start'', JBool True),
        (''internal_api_base_url'', JStr (api_url ''127.0.0.1'' (ia_port st))),
        (''internal_api_docs_url'', JStr (api_url ''127.0.0.1'' (ia_port st) @ ''/docs'')),
        (''internal_api_restart_on_config_change'', JBool True),
        (''internal_api_require_token'', JBool (as_require_token sec)),
        (''internal_api_allow_public_network'', JBool (as_allow_public_network sec)),
        (''internal_api_cors_enabled'', JBool (as_cors_enabled sec)),
        (''internal_api_token_header'', JStr (as_token_header sec)),
        (''internal_api_token'', JStr []),
        (''internal_api_docs_public_local'', JBool (as_docs_public_local sec)),
        (''internal_api_open_scalar_after_start'', JBool False), (''internal_api_timeout_ms'', js_nat 8000),
        (''internal_api_log_mode'', JStr ''normal''), (''internal_api_docs_enabled'', JBool (ac_expose_docs c)),
        (''internal_api_docs_path'', JStr (ad_path (ac_docs c))), (''local_web_enabled'', JBool True),
        (''local_web_auto_start'', JBool True), (''local_web_host'', JStr ''0.0.0.0''), (''local_web_port'', js_nat 61002),
        (''auxiliary_host'', JStr ''0.0.0.0''), (''auxiliary_port'', js_nat 61003),
        (''bridge_core_host'', JStr ''0.0.0.0''), (''bridge_core_port'', js_nat 61004),
        (''webhook_enabled'', JBool False), (''webhook_auto_start'', JBool False), (''webhook_host'', JStr ''0.0.0.0''),
        (''webhook_port'', js_nat 61003), (''webhook_base_path'', JStr ''/webhooks''), (''webhook_token_required'', JBool True),
        (''webhook_token_header'', JStr ''X-Webhook-Token''), (''webhook_token'', JStr []), (''webhook_allow_lan'', JBool True),
        (''webhook_allow_external'', JBool False), (''websocket_enabled'', JBool False), (''websocket_auto_start'', JBool False),
        (''websocket_host'', JStr ''0.0.0.0''), (''websocket_port'', js_nat 61004), (''websocket_path'', JStr ''/ws''),
        (''websocket_token_required'', JBool True), (''websocket_token_query'', JStr ''token''),
        (''websocket_token_header'', JStr ''X-WebSocket-Token''), (''websocket_token'', JStr []),
        (''websocket_allow_lan'', JBool True), (''websocket_allow_external'', JBool False),
        (''websocket_heartbeat_seconds'', js_nat 30), (''tray_enabled'', JBool False), (''minimize_to_tray'', JBool False),
        (''close_to_tray'', JBool False), (''start_with_windows'', JBool False), (''services_auto_start'', JBool True),
        (''app_service_name'', JStr ''TunnaraConsoleServer'')])"

subsection \<open>Log-in, session and password over HTTP\<close>

definition login_json :: "login_response \<Rightarrow> json" where
  "login_json r =
     JObj [(''success'', JBool (lr2_success r)), (''message'', JStr (lr2_message r)), (''session_token'', js_opt (lr2_session_token r)),
       (''user'', case lr2_user r of None \<Rightarrow> JNull | Some u \<Rightarrow>
          JObj [(''id'', js_int (ut_id u)), (''nome'', JStr (ut_nome u)), (''login'', JStr (ut_login u)), (''email'', js_opt (ut_email u)),
            (''telefone'', js_opt (ut_telefone u)), (''cargo'', js_opt (ut_cargo u)), (''photo_url'', js_opt (ut_photo_url u)),
            (''administrador'', JBool (ut_administrador u)), (''master_user'', JBool (ut_master_user u)),
            (''senha_provisoria'', JBool (ut_senha_provisoria u)), (''permission_keys'', js_strs (ut_permission_keys u)),
            (''profile_names'', js_strs (ut_profile_names u)), (''company_ids'', JArr (map js_int (ut_company_ids u))),
            (''company_names'', js_strs (ut_company_names u))])]"

definition logged_in :: "string \<Rightarrow> string \<Rightarrow> auth_user \<Rightarrow> login_response" where
  "logged_in message tok user =
     \<lparr>lr2_success = True, lr2_message = message, lr2_session_token = Some tok, lr2_user = Some user\<rparr>"

definition complete_login_http :: "'g app_sys \<Rightarrow> usuario \<Rightarrow> (login_response, 'g app_world) cmd" where
  "complete_login_http sy u =
     bindc (open_session sy u) (\<lambda>session_token.
     bindc (clock_text sy) (\<lambda>now.
     bindc (exec sy (''Falha ao atualizar '' @ u_uacute @ ''ltimo login'')
         (\<lambda>w. Ok (update_users (us_ultimo_login_em_update (\<lambda>_. Some now)) (us_id u) w))) (\<lambda>_.
     bindc (build_auth_user sy (us_id u)) (\<lambda>user.
     ret (logged_in ''Login efetuado com sucesso.'' session_token user)))))"

definition auth_login_http :: "('c, 'g, 's) command_sys \<Rightarrow> string \<Rightarrow> string \<Rightarrow> (login_response, 'g app_world) cmd" where
  "auth_login_http sy login senha =
     (let asy = hx_app sy in
      bindc (http_connect sy) (\<lambda>_.
      bindc (query asy (''Falha ao consultar usu'' @ u_aacute @ ''rio'') (user_by_login asy login)) (\<lambda>row.
      case row of
        None \<Rightarrow> ret (login_refused (''Usu'' @ u_aacute @ ''rio n'' @ u_atilde @ ''o encontrado.''))
      | Some u \<Rightarrow>
          if us_ativo u = 0 then ret (login_refused (''Usu'' @ u_aacute @ ''rio inativo.''))
          else
            bindc (lift (verify_password (sa_crypto asy) senha (us_senha_hash u))) (\<lambda>password_ok.
            if \<not> password_ok then ret (login_refused (''Senha inv'' @ u_aacute @ ''lida.''))
            else complete_login_http asy u))))"

definition auth_restore_http :: "('c, 'g, 's) command_sys \<Rightarrow> string \<Rightarrow> (login_response, 'g app_world) cmd" where
  "auth_restore_http sy session_token =
     bindc (http_connect sy) (\<lambda>_.
     bindc (require_session_by_token (hx_app sy) session_token) (\<lambda>identity.
     bindc (build_auth_user (hx_app sy) (si_user_id identity)) (\<lambda>user.
     ret (logged_in (''Sess'' @ u_atilde @ ''o restaurada.'') session_token user))))"

definition auth_logout_http :: "('c, 'g, 's) command_sys \<Rightarrow> string \<Rightarrow> (json, 'g app_world) cmd" where
  "auth_logout_http sy token =
     bindc (http_connect sy) (\<lambda>_.
     bindc (exec (hx_app sy) (''Falha ao encerrar sess'' @ u_atilde @ ''o'')
         (\<lambda>w. Ok (w\<lparr>db_sessions := filter (\<lambda>s. se_session_token s \<noteq> token) (db_sessions w)\<rparr>))) (\<lambda>_.
     ret (JBool True)))"

definition auth_change_password_http :: "('c, 'g, 's) command_sys \<Rightarrow> json_obj \<Rightarrow> (json, 'g app_world) cmd" where
  "auth_change_password_http sy args =
     (let asy = hx_app sy; session_token = arg_string args ''session_token'';
          current_password = arg_string args ''current_password''; new_password = arg_string args ''new_password''
      in if length new_password < 6 then fail (''A nova senha deve possuir no m'' @ u_iacute @ ''nimo 6 caracteres.'')
         else
           bindc (http_connect sy) (\<lambda>_.
           bindc (require_session_by_token asy session_token) (\<lambda>identity.
           bindc (query asy ''Falha ao carregar senha atual'' (find_user (si_user_id identity))) (\<lambda>row.
           case row of
             None \<Rightarrow> fail (''Falha ao carregar senha atual: '' @ ''Query returned no rows'')
           | Some u \<Rightarrow>
               bindc (if current_password = [] then ret True
                      else lift (verify_password (sa_crypto asy) current_password (us_senha_hash u))) (\<lambda>ok.
               bindc (ensure ok (''Senha atual inv'' @ u_aacute @ ''lida.'')) (\<lambda>_.
               bindc (hash_new_password asy new_password) (\<lambda>new_hash.
               bindc (clock_text asy) (\<lambda>now.
               bindc (exec asy ''Falha ao atualizar senha''
                   (\<lambda>w. Ok (update_users (\<lambda>u. u\<lparr>us_senha_hash := new_hash, us_senha_provisoria := 0, us_updated_at := now\<rparr>)
                      (si_user_id identity) w))) (\<lambda>_.
               ret (JBool True))))))))))"

definition first_nonempty_arg :: "json_obj \<Rightarrow> string \<Rightarrow> string \<Rightarrow> string" where
  "first_nonempty_arg args k1 k2 = (if arg_string args k1 \<noteq> [] then arg_string args k1 else arg_string args k2)"

type_synonym ('g, 's) handler = "string \<times> (json, ('g, 's) http_world) cmd"

definition auth_handlers :: "('c, 'g, 's) command_sys \<Rightarrow> json_obj \<Rightarrow> ('g, 's) handler list" where
  "auth_handlers sy args =
     [(''auth_login'',
         on_app (bindc (auth_login_http sy (first_nonempty_arg args ''login'' ''username'') (first_nonempty_arg args ''senha'' ''password''))
           (\<lambda>r. ret (login_json r)))),
      (''auth_restore'', on_app (bindc (auth_restore_http sy (arg_string args ''session_token'')) (\<lambda>r. ret (login_json r)))),
      (''auth_logout'', on_app (auth_logout_http sy (arg_string args ''session_token''))),
      (''auth_change_password'', on_app (auth_change_password_http sy args))]"

subsection \<open>Profiles, users and companies\<close>

definition permission_labels :: "(string \<times> string) list" where
  "permission_labels =
     [(''dashboard:view'', ''Visualizar dashboard''), (''empresas:view'', ''Visualizar empresas''),
      (''empresas:manage'', ''Gerenciar empresas''), (''cadastros:view'', (''Visualizar cadastros gen'' @ u_eacute @ ''ricos'')),
      (''cadastros:manage'', (''Gerenciar cadastros gen'' @ u_eacute @ ''ricos'')), (''usuarios:view'', (''Visualizar usu'' @ u_aacute @ ''rios'')),
      (''usuarios:manage'', (''Gerenciar usu'' @ u_aacute @ ''rios'')), (''perfis:view'', ''Visualizar perfis de acesso''),
      (''perfis:manage'', ''Gerenciar perfis de acesso''), (''config:view'', (''Visualizar configura'' @ u_ccedil @ u_otilde @ ''es'')),
      (''config:manage'', (''Gerenciar configura'' @ u_ccedil @ u_otilde @ ''es'')), (''licenciamento:view'', ''Visualizar licenciamento''),
      (''licenciamento:manage'', ''Gerenciar licenciamento''), (''logs:view'', ''Visualizar logs''),
      (''logs:manage'', ''Gerenciar logs''), (''sync:view'', (''Visualizar fila de sincroniza'' @ u_ccedil @ u_atilde @ ''o'')),
      (''relatorios:export'', (''Exportar relat'' @ u_oacute @ ''rios''))]"

definition catalog_entry :: "string \<times> string \<Rightarrow> json" where
  "catalog_entry entry =
     (let key = fst entry; label = snd entry; module = hd (split_on (CHR '':'') key) in
      JObj [(''key'', JStr key), (''label'', JStr label), (''descricao'', JStr label), (''module'', JStr module), (''group'', JStr module)])"

definition put_key :: "string \<Rightarrow> json \<Rightarrow> json \<Rightarrow> json" where
  "put_key k v row = (case row of JObj kvs \<Rightarrow> JObj (hm_insert k v kvs) | _ \<Rightarrow> row)"

definition drop_key :: "string \<Rightarrow> json \<Rightarrow> json" where
  "drop_key k row = (case row of JObj kvs \<Rightarrow> JObj (obj_remove k kvs) | _ \<Rightarrow> row)"

definition row_id :: "json \<Rightarrow> int option" where
  "row_id row = Option.bind (json_get row ''id'') as_i64"

definition http_profile_list :: "('c, 'd) host_sys \<Rightarrow> string \<Rightarrow> (json, 'c \<times> 'd) cmd" where
  "http_profile_list sy search =
     bindc (table_list sy ''perfis_acesso'' search [''nome'', ''descricao'']) (\<lambda>rows.
     bindc (each_map (\<lambda>row.
         case row_id row of
           None \<Rightarrow> ret row
         | Some i \<Rightarrow> bindc (profile_permissions sy i) (\<lambda>ps. ret (put_key ''permissions'' (js_strs ps) row))) rows) (\<lambda>rows'.
     ret (JArr rows')))"

definition http_profile_get :: "('c, 'd) host_sys \<Rightarrow> int \<Rightarrow> (json, 'c \<times> 'd) cmd" where
  "http_profile_get sy i =
     bindc (table_record sy ''perfis_acesso'' i) (\<lambda>row.
     bindc (profile_permissions sy (unwrap_or 0 (row_id row))) (\<lambda>ps.
     ret (put_key ''permission_keys'' (js_strs ps) (put_key ''permissions'' (js_strs ps) row))))"

definition payload_permissions :: "json_obj \<Rightarrow> string list" where
  "payload_permissions payload =
     List.map_filter as_str
       (unwrap_or [] (Option.bind (get_any payload [''permission_keys'', ''permissions'', ''permissoes'']) as_array))"

definition http_profile_save :: "('c, 'd) host_sys \<Rightarrow> json_obj \<Rightarrow> (json, 'c \<times> 'd) cmd" where
  "http_profile_save sy payload =
     bindc (save_record sy ''perfis_acesso'' payload) (\<lambda>saved.
     let saved_id = unwrap_or 0 (row_id saved); permissions = payload_permissions payload in
     bindc (if permissions = [] then ret ()
            else
              bindc (local_execute sy (''Falha ao limpar permiss'' @ u_otilde @ ''es'') ''DELETE FROM perfis_permissoes WHERE perfil_id = ?1''
                [SqlInteger saved_id]) (\<lambda>_.
              each (\<lambda>permission.
                bindc (beside (ho_now sy)) (\<lambda>now.
                bindc (local_execute sy (''Falha ao gravar permiss'' @ u_atilde @ ''o'')
                  ''INSERT INTO perfis_permissoes (perfil_id, permissao_chave, created_at) VALUES (?1, ?2, ?3)''
                  [SqlInteger saved_id, SqlText permission, SqlText now]) (\<lambda>_. ret ()))) permissions)) (\<lambda>_.
     table_record sy ''perfis_acesso'' saved_id))"

text \<open>The payload of a user with the hash of the password it comes with, or of the default one.\<close>

definition user_password :: "json_obj \<Rightarrow> string" where
  "user_password payload = trim (unwrap_or [] (Option.bind (get_any payload [''senha'', ''password'']) as_str))"

definition with_password ::
  "('c, 'd) host_sys \<Rightarrow> json_obj \<Rightarrow> (json_obj, 'd) cmd" where
  "with_password sy payload =
     (let i = unwrap_or 0 (Option.bind (obj_get payload ''id'') as_i64); senha = user_password payload;
          store = (\<lambda>password. bindc (ho_hash_password sy password) (\<lambda>h.
            ret (hm_insert ''senha_provisoria'' (js_int 1) (hm_insert ''senha_hash'' (JStr h) payload))))
      in if i \<le> 0 \<and> senha = [] then store ''123456''
         else if senha \<noteq> [] then store senha
         else ret payload)"

definition http_user_save :: "('c, 'd) host_sys \<Rightarrow> json_obj \<Rightarrow> (json, 'c \<times> 'd) cmd" where
  "http_user_save sy args_payload =
     bindc (beside (with_password sy args_payload)) (\<lambda>payload1.
     let payload = add_missing ''ativo'' (js_int 1) payload1;
         profile_ids = as_i64_list (get_any payload [''profile_ids'', ''perfil_ids'', ''perfis'']);
         company_ids = as_i64_list (get_any payload [''company_ids'', ''empresa_ids'', ''empresas''])
     in bindc (save_record sy ''usuarios'' payload) (\<lambda>saved.
        let saved_id = unwrap_or 0 (row_id saved) in
        bindc (sync_link_table sy ''usuarios_perfis'' ''usuario_id'' ''perfil_id'' saved_id profile_ids) (\<lambda>_.
        bindc (sync_link_table sy ''usuarios_empresas'' ''usuario_id'' ''empresa_id'' saved_id company_ids) (\<lambda>_.
        bindc (table_record sy ''usuarios'' saved_id) (\<lambda>row.
        ret (drop_key ''senha_hash'' row))))))"

definition rows_json :: "(json list, 'w) cmd \<Rightarrow> (json, 'w) cmd" where
  "rows_json m = bindc m (\<lambda>rows. ret (JArr rows))"

definition access_handlers :: "('c, 'g, 's) command_sys \<Rightarrow> json_obj \<Rightarrow> ('g, 's) handler list" where
  "access_handlers sy args =
     (let ho = http_host sy; db = with_db sy; search = search_from_args args; i = arg_i64 args ''id''; payload = arg_payload args in
      [(''permission_catalog'', ret (JArr (map catalog_entry permission_labels))),
       (''profile_list'', db (http_profile_list ho search)),
       (''profile_get'', db (http_profile_get ho i)),
       (''profile_save'', db (http_profile_save ho payload)),
       (''profile_delete'', db (delete_record ho ''perfis_acesso'' i)),
       (''user_policy_get'', ret (JObj [(''login_min_length'', js_nat 3), (''login_min_allowed'', js_nat 3),
          (''login_max_allowed'', js_nat 60), (''password_min_length'', js_nat 6)])),
       (''user_policy_save'', ret (JObj payload)),
       (''user_list'', db (rows_json (table_list ho ''usuarios'' search [''nome'', ''login'', ''email'']))),
       (''user_get'', db (bindc (table_record ho ''usuarios'' i) (\<lambda>row. ret (drop_key ''senha_hash'' row)))),
       (''user_save'', db (http_user_save ho payload)),
       (''user_delete'', db (delete_record ho ''usuarios'' i)),
       (''company_list'', db (rows_json (table_list ho ''empresas'' search
          [''nome'', ''nome_fantasia'', ''documento'', ''cidade'', ''estado'']))),
       (''company_get'', db (table_record ho ''empresas'' i)),
       (''company_save'', db (save_record ho ''empresas'' payload)),
       (''company_delete'', db (delete_record ho ''empresas'' i))])"

subsection \<open>Generic entities\<close>

definition rows_of :: "(json_obj list, 'w) cmd \<Rightarrow> (json, 'w) cmd" where
  "rows_of m = bindc m (\<lambda>rows. ret (JArr (map JObj rows)))"

definition entity_rows :: "('c, 'g, 's) command_sys \<Rightarrow> string \<Rightarrow> string \<Rightarrow> (json, ('g, 's) http_world) cmd" where
  "entity_rows sy entity search = with_provider sy (\<lambda>pv. rows_of (provider_list_with_database pv entity search))"

definition entity_row :: "('c, 'g, 's) command_sys \<Rightarrow> string \<Rightarrow> int \<Rightarrow> (json, ('g, 's) http_world) cmd" where
  "entity_row sy entity i =
     with_provider sy (\<lambda>pv. bindc (provider_get_with_database pv entity i) (\<lambda>row.
       case row of None \<Rightarrow> fail (''Registro n'' @ u_atilde @ ''o encontrado.'') | Some r \<Rightarrow> ret (JObj r)))"

definition entity_store :: "('c, 'g, 's) command_sys \<Rightarrow> string \<Rightarrow> json_obj \<Rightarrow> (json, ('g, 's) http_world) cmd" where
  "entity_store sy entity payload =
     with_provider sy (\<lambda>pv. bindc (provider_save_with_database (http_host sy) pv entity payload) (\<lambda>r. ret (JObj r)))"

definition entity_remove :: "('c, 'g, 's) command_sys \<Rightarrow> string \<Rightarrow> int \<Rightarrow> (json, ('g, 's) http_world) cmd" where
  "entity_remove sy entity i =
     with_provider sy (\<lambda>pv. bindc (provider_delete_with_database (http_host sy) pv entity i) (\<lambda>b. ret (JBool b)))"

definition combo_entry :: "(json \<Rightarrow> string) \<Rightarrow> json_obj \<Rightarrow> json" where
  "combo_entry json_text row =
     (let i = unwrap_or JNull (obj_get row ''id'') in
      JObj [(''id'', i), (''label'', unwrap_or (JStr (''Registro '' @ json_text i)) (get_any row [''nome'', ''descricao'', ''titulo'']))])"

definition http_combo_list :: "('c, 'g, 's) command_sys \<Rightarrow> string \<Rightarrow> (json, ('g, 's) http_world) cmd" where
  "http_combo_list sy entity =
     with_provider sy (\<lambda>pv. bindc (provider_list_with_database pv entity []) (\<lambda>rows.
       ret (JArr (map (combo_entry (ho_json_text (http_host sy))) rows))))"

definition entity_handlers :: "('c, 'g, 's) command_sys \<Rightarrow> json_obj \<Rightarrow> ('g, 's) handler list" where
  "entity_handlers sy args =
     (let entity = arg_string args ''entity''; i = arg_i64 args ''id''; search = search_from_args args; payload = arg_payload args in
      [(''entity_list'', entity_rows sy entity search), (''entity_save'', entity_store sy entity payload),
       (''entity_delete'', entity_remove sy entity i), (''combo_list'', http_combo_list sy entity),
       (''entity_provider_list'', entity_rows sy entity search), (''provider_entity_list'', entity_rows sy entity search),
       (''entity_provider_list_data'', entity_rows sy entity search), (''provider_entity_get'', entity_row sy entity i),
       (''provider_entity_create'', entity_store sy entity payload), (''provider_entity_update'', entity_store sy entity payload),
       (''provider_entity_delete'', entity_remove sy entity i)])"

subsection \<open>Logs, integrations, queue and settings\<close>

definition http_log_write :: "('c, 'g, 's) command_sys \<Rightarrow> json_obj \<Rightarrow> (json, 'g app_world) cmd" where
  "http_log_write sy payload =
     bindc (http_connect sy) (\<lambda>_.
     bindc (on_logs (write_app_log (sa_log (hx_app sy))
       \<lparr>ai_level = unwrap_or ''info'' (get_str payload [''level'']), ai_category = unwrap_or ''frontend'' (get_str payload [''category'']),
        ai_message = unwrap_or (''Evento da aplica'' @ u_ccedil @ u_atilde @ ''o web'') (get_str payload [''message'']), ai_source = get_str payload [''source''],
        ai_route = get_str payload [''route''], ai_details = Some (unwrap_or JNull (obj_get payload ''details''))\<rparr>)) (\<lambda>_.
     ret (JBool True)))"

definition exec_true :: "('c, 'd) host_sys \<Rightarrow> string \<Rightarrow> string \<Rightarrow> sql_value list \<Rightarrow> (json, 'c \<times> 'd) cmd" where
  "exec_true sy msg sql params = bindc (local_execute sy msg sql params) (\<lambda>_. ret (JBool True))"

definition record_handlers :: "('c, 'g, 's) command_sys \<Rightarrow> json_obj \<Rightarrow> ('g, 's) handler list" where
  "record_handlers sy args =
     (let ho = http_host sy; db = with_db sy; search = search_from_args args; i = arg_i64 args ''id''; payload = arg_payload args;
          st = hx_state sy
      in
      [(''app_log_write'', on_app (http_log_write sy payload)),
       (''app_log_list'', db (rows_json (query_json ho ''SELECT id, level, category, message, source, route, details_json, created_at FROM app_logs ORDER BY id DESC LIMIT 300'' []))),
       (''app_log_clear'', db (exec_true ho ''Falha ao limpar logs'' ''DELETE FROM app_logs'' [])),
       (''integration_list'', db (rows_json (table_list ho ''integration_configs'' search
          [''nome'', ''tipo'', ''base_url'', ''ambiente'', ''status'']))),
       (''integration_save'', db (save_record ho ''integration_configs'' payload)),
       (''integration_delete'', db (delete_record ho ''integration_configs'' i)),
       (''integration_logs'', db (rows_json (query_json ho ''SELECT * FROM integration_logs ORDER BY id DESC LIMIT 200'' []))),
       (''sync_queue_list'', db (rows_json (query_json ho ''SELECT id, entity_name, action_name, record_id, payload_json, status, created_at, updated_at FROM sync_queue ORDER BY id DESC LIMIT 300'' []))),
       (''sync_queue_mark_synced'', db (bindc (beside (ho_now ho)) (\<lambda>now.
          exec_true ho ''Falha ao marcar item como sincronizado''
            ''UPDATE sync_queue SET status = 'synced', updated_at = ?1 WHERE id = ?2'' [SqlText now, SqlInteger i]))),
       (''runtime_settings_load'', db (bindc (load_settings_value ho (fx_parse (hx_front sy)) ''runtime.settings'') (\<lambda>v.
          ret (runtime_settings_payload st (unwrap_or (default_runtime_settings st) v))))),
       (''runtime_settings_save'',
          (let settings = unwrap_or (JObj payload) (obj_get args ''settings'') in
           db (bindc (save_settings_value ho ''runtime.settings'' settings) (\<lambda>_. ret (runtime_settings_payload st settings))))),
       (''runtime_env_example'', ret (JStr default_env_template))])"

subsection \<open>Services of the process\<close>

definition svc_json :: "string \<Rightarrow> string \<Rightarrow> svc_status \<Rightarrow> json" where
  "svc_json path_key count_key st =
     JObj [(''running'', JBool (ss_running st)), (''host'', JStr (ss_host st)), (''port'', js_word (ss_port st)), (''url'', js_opt (ss_url st)),
       (path_key, JStr (ss_path st)), (count_key, js_nat (ss_count st)), (''started_at'', js_opt (ss_started_at st))]"

definition web_status_json :: "web_status \<Rightarrow> json" where
  "web_status_json st =
     JObj [(''running'', JBool (wq_running st)), (''host'', JStr (wq_host st)), (''port'', js_word (wq_port st)), (''url'', js_opt (wq_url st)),
       (''started_at'', js_opt (wq_started_at st)), (''external'', JBool (wq_external st)), (''message'', js_opt (wq_message st))]"

definition client_json :: "client_info \<Rightarrow> json" where
  "client_json c =
     JObj [(''id'', JStr (ci_id c)), (''connected_at'', JStr (ci_connected_at c)), (''user_agent'', js_opt (ci_user_agent c))]"

definition webhook_now :: "('c, 'g, 's) command_sys \<Rightarrow> ('g, 's) http_world \<Rightarrow> 's svc_sys" where
  "webhook_now sy w = (hx_webhook sy)\<lparr>sv_count := length (hk_events (hw_events w))\<rparr>"

definition websocket_now :: "('c, 'g, 's) command_sys \<Rightarrow> ('g, 's) http_world \<Rightarrow> 's svc_sys" where
  "websocket_now sy w = (hx_websocket sy)\<lparr>sv_count := length (hb_clients (hw_hub w))\<rparr>"

abbreviation webhook_json :: "svc_status \<Rightarrow> json" where
  "webhook_json \<equiv> svc_json ''base_path'' ''events_count''"

abbreviation websocket_json :: "svc_status \<Rightarrow> json" where
  "websocket_json \<equiv> svc_json ''path'' ''clients_count''"

definition web_status_cmd :: "('c, 'g, 's) command_sys \<Rightarrow> (web_status, ('g, 's) http_world) cmd" where
  "web_status_cmd sy w = (case web_status_of (hx_front sy) (hw_front w) of (st, f) \<Rightarrow> (Ok st, w\<lparr>hw_front := f\<rparr>))"

definition webhook_stop_cmd :: "('c, 'g, 's) command_sys \<Rightarrow> (json, ('g, 's) http_world) cmd" where
  "webhook_stop_cmd sy w =
     (case stop_webhook_service (webhook_now sy w) (hw_webhook w) of (st, v) \<Rightarrow> (Ok (webhook_json st), w\<lparr>hw_webhook := v\<rparr>))"

definition websocket_stop_cmd :: "('c, 'g, 's) command_sys \<Rightarrow> (json, ('g, 's) http_world) cmd" where
  "websocket_stop_cmd sy w =
     (case stop_background websocket_kind (websocket_now sy w) (hw_websocket w) of
        (st, v) \<Rightarrow> (Ok (websocket_json st), w\<lparr>hw_websocket := v\<rparr>))"

definition monitor_json :: "bool \<Rightarrow> string \<Rightarrow> json" where
  "monitor_json running message =
     JObj [(''running'', JBool running), (''runtime'', JStr ''internal-api-web''), (''message'', JStr message)]"

definition broadcast_test_cmd :: "('c, 'g, 's) command_sys \<Rightarrow> string \<Rightarrow> (json, ('g, 's) http_world) cmd" where
  "broadcast_test_cmd sy message =
     bindc (on_app (clock_text (hx_app sy))) (\<lambda>now w.
       let payload = JObj [(''type'', JStr ''template.broadcast.test''), (''message'', JStr message), (''sent_at'', JStr now)] in
       case broadcast_text (ho_json_text (http_host sy) payload) (hw_hub w) of
         (sent, h) \<Rightarrow> (Ok (JObj [(''ok'', JBool True), (''sent'', js_nat sent), (''payload'', payload)]), w\<lparr>hw_hub := h\<rparr>))"

definition test_receive_cmd :: "('c, 'g, 's) command_sys \<Rightarrow> json_obj \<Rightarrow> (json, ('g, 's) http_world) cmd" where
  "test_receive_cmd sy args =
     bindc (on_app (clock_text (hx_app sy))) (\<lambda>now.
     ret (JObj [(''ok'', JBool True),
       (''event'', JObj [(''provider'', JStr (arg_string args ''provider'')), (''event'', JStr (arg_string args ''event'')),
          (''status'', JStr ''received''), (''received_at'', JStr now)])]))"

definition api_status_cmd :: "('c, 'g, 's) command_sys \<Rightarrow> (json, ('g, 's) http_world) cmd" where
  "api_status_cmd sy =
     (let st = hx_state sy; h = ia_host st; p = ia_port st in
      bindc (web_status_cmd sy) (\<lambda>web.
      ret (JObj [(''running'', JBool True), (''status'', JStr ''running''), (''host'', JStr h), (''port'', js_word p),
        (''url'', JStr (api_url ''127.0.0.1'' p)), (''bind_url'', JStr (api_url h p)), (''docs_url'', JStr (api_url ''127.0.0.1'' p @ ''/docs'')),
        (''token_required'', JBool (as_require_token (ac_security (ia_config st)))), (''auto_start'', JBool True),
        (''web_server'', web_status_json web)])))"

definition service_handlers :: "('c, 'g, 's) command_sys \<Rightarrow> json_obj \<Rightarrow> ('g, 's) handler list" where
  "service_handlers sy args =
     (let wh = (\<lambda>w. svc_status_of webhook_kind (webhook_now sy w) (hw_webhook w));
          wk = (\<lambda>w. svc_status_of websocket_kind (websocket_now sy w) (hw_websocket w));
          wh_start = (\<lambda>w. (Ok (monitor_json (ss_running (wh w)) (''Inicie/reinicie o Webhook Service pelo desktop/headless; a sess'' @ u_atilde @ ''o web apenas monitora o servi'' @ u_ccedil @ ''o real.'')), w));
          wk_start = (\<lambda>w. (Ok (monitor_json (ss_running (wk w)) (''Inicie/reinicie o WebSocket Service pelo desktop/headless; a sess'' @ u_atilde @ ''o web apenas monitora o servi'' @ u_ccedil @ ''o real.'')), w))
      in
      [(''internal_api_status'', api_status_cmd sy),
       (''web_proxy_status'', bindc (web_status_cmd sy) (\<lambda>st. ret (web_status_json st))),
       (''webhook_status'', \<lambda>w. (Ok (webhook_json (wh w)), w)),
       (''webhook_start'', wh_start), (''webhook_restart'', wh_start), (''webhook_stop'', webhook_stop_cmd sy),
       (''webhook_list_events'', \<lambda>w. (Ok (JObj [(''items'', JArr (map event_json (list_events_snapshot (hw_events w))))]), w)),
       (''webhook_clear_events'', \<lambda>w. (Ok (JBool True), w\<lparr>hw_events := clear_events (hw_events w)\<rparr>)),
       (''webhook_test_receive'', test_receive_cmd sy args),
       (''websocket_status'', \<lambda>w. (Ok (websocket_json (wk w)), w)),
       (''websocket_start'', wk_start), (''websocket_restart'', wk_start), (''websocket_stop'', websocket_stop_cmd sy),
       (''websocket_list_clients'', \<lambda>w. (Ok (JObj [(''items'', JArr (map client_json (list_clients (hw_hub w))))]), w)),
       (''websocket_broadcast_test'', broadcast_test_cmd sy (arg_string args ''message''))])"

subsection \<open>Answers that touch nothing\<close>

definition note_json :: "bool \<Rightarrow> string \<Rightarrow> string \<Rightarrow> json" where
  "note_json ok key message = JObj [(''ok'', JBool ok), (key, JStr message)]"

definition running_json :: "bool \<Rightarrow> string \<Rightarrow> string \<Rightarrow> json" where
  "running_json ok key message = JObj [(''ok'', JBool ok), (''running'', JBool True), (key, JStr message)]"

definition web_only_json :: "(string \<times> json) list \<Rightarrow> json" where
  "web_only_json kvs = JObj (kvs @ [(''runtime'', JStr ''internal-api-web'')])"

definition runtime_name :: json where
  "runtime_name = JStr ''internal-api-web''"

definition app_answers :: "('c, 'g, 's) command_sys \<Rightarrow> (string \<times> json) list" where
  "app_answers sy =
     (let e = hx_env sy; st = hx_state sy in
      [(''app_meta'', JObj [(''name'', JStr (runtime_app_name e)), (''short_name'', JStr (runtime_app_short_name e)),
          (''version'', JStr (fx_version (hx_front sy))), (''identifier'', JStr (runtime_app_identifier e)), (''runtime'', runtime_name)]),
       (''app_bootstrap'', JObj [(''ok'', JBool True),
          (''runtime'', JObj [(''mode'', runtime_name), (''isWeb'', JBool True), (''isTauri'', JBool False)]),
          (''database'', JStr ''internal-api'')]),
       (''system_info'', JObj [(''runtime'', JObj [(''mode'', runtime_name)]),
          (''database_provider'', JStr (unwrap_or ''sqlite'' (e ''TUNNARA_CONSOLE_DATABASE_DRIVER''))), (''online'', JBool True),
          (''api'', JObj [(''host'', JStr (ia_host st)), (''port'', js_word (ia_port st))])]),
       (''system_set_data_dir'', note_json False ''warning'' (''Altera'' @ u_ccedil @ u_atilde @ ''o de diret'' @ u_oacute @ ''rio de dados deve ser aplicada pelo runtime desktop/Tauri.'')),
       (''internal_api_test'', JObj [(''ok'', JBool True), (''url'', JStr (api_url ''127.0.0.1'' (ia_port st) @ ''/health''))]),
       (''internal_api_test_port'', JObj [(''available'', JBool False), (''running_here'', JBool True), (''port'', js_word (ia_port st))])])"

definition for_each_name :: "string list \<Rightarrow> json \<Rightarrow> (string \<times> json) list" where
  "for_each_name names v = map (\<lambda>n. (n, v)) names"

definition fixed_answers :: "(string \<times> json) list" where
  "fixed_answers =
     [(''company_lookup_cnpj'', note_json False ''message'' (''Consulta externa n'' @ u_atilde @ ''o configurada nesta API interna.'')),
      (''company_lookup_ie'', note_json False ''message'' (''Consulta externa n'' @ u_atilde @ ''o configurada nesta API interna.''))] @
     for_each_name [''licensing_load_settings'', ''licensing_status'', ''licensing_device_info'', ''licensing_check_runtime'', ''support_guard_status'']
       (JObj [(''enabled'', JBool False), (''status'', JStr ''disabled''),
          (''message'', JStr (''Recurso administrativo dispon'' @ u_iacute @ ''vel pelo runtime desktop/Tauri.''))]) @
     for_each_name [''licensing_save_settings'', ''licensing_start_trial'', ''support_guard_provision'', ''support_guard_enable_totp'', ''support_guard_unlock'']
       (note_json True ''message'' (''Solicita'' @ u_ccedil @ u_atilde @ ''o registrada pela API interna web.'')) @
     [(''integration_test'', JObj [(''ok'', JBool True), (''status'', JStr ''not_tested''),
         (''message'', JStr (''Teste real de integra'' @ u_ccedil @ u_atilde @ ''o dispon'' @ u_iacute @ ''vel no desktop/API dedicada.''))])] @
     for_each_name [''web_proxy_start'', ''web_proxy_restart'']
       (running_json True ''message'' (''Webport j'' @ u_aacute @ '' est'' @ u_aacute @ '' ativo, pois esta chamada chegou pela pr'' @ u_oacute @ ''pria API interna/proxy.'')) @
     [(''web_proxy_stop'', running_json False ''warning'' (''O webport que serve a sess'' @ u_atilde @ ''o atual n'' @ u_atilde @ ''o pode ser parado pela pr'' @ u_oacute @ ''pria sess'' @ u_atilde @ ''o web.''))] @
     for_each_name [''internal_api_start'', ''internal_api_restart''] (running_json True ''message'' (''API j'' @ u_aacute @ '' est'' @ u_aacute @ '' ativa neste processo.'')) @
     [(''internal_api_stop'', running_json False ''warning'' (''A API que serve a aplica'' @ u_ccedil @ u_atilde @ ''o web n'' @ u_atilde @ ''o pode ser parada por esta pr'' @ u_oacute @ ''pria sess'' @ u_atilde @ ''o.'')),
      (''startup_with_windows_set'', JObj [(''implemented'', JBool False), (''runtime'', runtime_name),
         (''message'', JStr (''Inicializa'' @ u_ccedil @ u_atilde @ ''o com Windows deve ser aplicada pelo runtime desktop/Tauri.''))])] @
     for_each_name [''app_service_install'', ''app_service_uninstall'', ''app_service_start'', ''app_service_stop'', ''app_service_restart'']
       (note_json False ''warning'' (''Controle de servi'' @ u_ccedil @ ''o nativo indispon'' @ u_iacute @ ''vel pela sess'' @ u_atilde @ ''o web interna.'')) @
     [(''app_service_status'', web_only_json [(''running'', JBool False), (''installed'', JBool False), (''available'', JBool False)]),
      (''tray_status'', JObj [(''enabled'', JBool False), (''available'', JBool False), (''runtime'', runtime_name),
         (''message'', JStr (''Tray icon '' @ u_eacute @ '' recurso do processo desktop.''))])] @
     for_each_name [''open_print_preview'', ''tray_restore_window'', ''tray_exit_app''] (JBool True) @
     [(''provider_list_with_database'', JArr
         [web_only_json [(''id'', JStr ''sqlite''), (''name'', JStr ''SQLite interno'')],
          web_only_json [(''id'', JStr ''mysql''), (''name'', JStr ''MySQL'')],
          web_only_json [(''id'', JStr ''postgres''), (''name'', JStr ''PostgreSQL'')]])]"

definition answer_handlers :: "('c, 'g, 's) command_sys \<Rightarrow> ('g, 's) handler list" where
  "answer_handlers sy = map (\<lambda>(n, v). (n, ret v)) (app_answers sy @ fixed_answers)"

subsection \<open>Dispatch\<close>

definition handlers :: "('c, 'g, 's) command_sys \<Rightarrow> json_obj \<Rightarrow> ('g, 's) handler list" where
  "handlers sy args =
     auth_handlers sy args @ access_handlers sy args @ entity_handlers sy args @ record_handlers sy args @
     service_handlers sy args @ answer_handlers sy"

text \<open>The name of an entity in a command such as \<^verbatim>\<open>clientes_list\<close>.\<close>

definition entity_of :: "string \<Rightarrow> string \<Rightarrow> string" where
  "entity_of suffix command = replace (trim_end_text suffix command) ''_'' ''-''"

definition fallback_command :: "('c, 'g, 's) command_sys \<Rightarrow> string \<Rightarrow> json_obj \<Rightarrow> (json, ('g, 's) http_world) cmd" where
  "fallback_command sy command args =
     (if ends_with command ''_list'' then entity_rows sy (entity_of ''_list'' command) (search_from_args args)
      else if ends_with command ''_get'' then entity_row sy (entity_of ''_get'' command) (arg_i64 args ''id'')
      else if ends_with command ''_save'' then entity_store sy (entity_of ''_save'' command) (arg_payload args)
      else if ends_with command ''_delete'' then entity_remove sy (entity_of ''_delete'' command) (arg_i64 args ''id'')
      else fail ((''Comando ainda n'' @ u_atilde @ ''o exposto na API web interna: '') @ command))"

definition execute_command :: "('c, 'g, 's) command_sys \<Rightarrow> string \<Rightarrow> json_obj \<Rightarrow> (json, ('g, 's) http_world) cmd" where
  "execute_command sy command args =
     (case map_of (handlers sy args) command of Some h \<Rightarrow> h | None \<Rightarrow> fallback_command sy command args)"

text \<open>The HTTP answer: status code and body.\<close>

definition command_response ::
  "('c, 'g, 's) command_sys \<Rightarrow> string \<Rightarrow> json_obj \<Rightarrow> ('g, 's) http_world \<Rightarrow> (nat \<times> json) \<times> ('g, 's) http_world" where
  "command_response sy command args w =
     (case execute_command sy command args w of
        (Inr v, w') \<Rightarrow> ((200, JObj [(''ok'', JBool True), (''result'', v)]), w')
      | (Inl err, w') \<Rightarrow> ((400, JObj [(''ok'', JBool False), (''error'', JStr err)]), w'))"

end
