(* ===== verification/Web_App.thy ===== *)
theory Web_App
  imports Db_Provider
begin

text \<open>
  The files the web front serves, \<^verbatim>\<open>internal_api/web_app.rs\<close>: where the built interface is looked for,
  how a requested path becomes a path below it, and what the index page gets inserted. The file
  system is a parameter. Paths are those of Unix: \<^verbatim>\<open>Path::components\<close> skips empty and single-dot
  components and reports a leading slash and double dots.
\<close>

record disk =
  dk_canonical :: "string \<Rightarrow> string option"
  dk_is_file :: "string \<Rightarrow> bool"
  dk_text :: "string \<Rightarrow> string option"
  dk_bytes :: "string \<Rightarrow> string option"

record web_env =
  we2_env :: env
  we2_current_dir :: "string option"
  we2_exe_dir :: "string option"
  we2_manifest_dir :: string
  we2_disk :: disk

subsection \<open>Where the interface is\<close>

definition dist_candidates :: "web_env \<Rightarrow> string list" where
  "dist_candidates e =
     (case map_option trim (we2_env e ''TUNNARA_CONSOLE_WEB_DIST_DIR'') of
        Some d \<Rightarrow> (if d = [] then [] else [d]) | None \<Rightarrow> []) @
     (case we2_current_dir e of
        Some d \<Rightarrow> map (path_join d) [''dist'', ''src-tauri/dist'', ''../dist'', ''../../dist''] | None \<Rightarrow> []) @
     (case we2_exe_dir e of
        Some d \<Rightarrow> map (path_join d) [''dist'', ''resources/dist'', ''../dist'', ''../Resources/dist'', ''../share/tunnara-console/dist'']
      | None \<Rightarrow> []) @
     map (path_join (we2_manifest_dir e)) [''dist'', ''../dist'']"

definition resolve_dist_dir :: "web_env \<Rightarrow> string option" where
  "resolve_dist_dir e =
     find (\<lambda>d. dk_is_file (we2_disk e) (path_join d ''index.html'')) (List.map_filter (dk_canonical (we2_disk e)) (dist_candidates e))"

subsection \<open>Paths\<close>

definition normalize_asset_path :: "string \<Rightarrow> string list option" where
  "normalize_asset_path path =
     (let t = replace (trim_start_matches (CHR ''/'') path) [CHR 0x5C] ''/''; parts = split_on (CHR ''/'') t in
      if starts_with t ''/'' \<or> ''..'' \<in> set parts then None
      else Some (filter (\<lambda>c. c \<noteq> [] \<and> c \<noteq> ''.'') parts))"

fun join_parts :: "string \<Rightarrow> string list \<Rightarrow> string" where
  "join_parts d [] = d"
| "join_parts d (c # cs) = join_parts (d @ ''/'' @ c) cs"

definition path_below :: "string \<Rightarrow> string \<Rightarrow> bool" where
  "path_below path root \<longleftrightarrow> path = root \<or> starts_with path (root @ ''/'') \<or> root = ''/'' \<and> starts_with path ''/''"

definition is_inside :: "disk \<Rightarrow> string \<Rightarrow> string \<Rightarrow> bool" where
  "is_inside dk path root =
     (case (dk_canonical dk path, dk_canonical dk root) of (Some p, Some r) \<Rightarrow> path_below p r | _ \<Rightarrow> False)"

definition file_extension :: "string \<Rightarrow> string" where
  "file_extension name =
     (let parts = split_on (CHR ''.'') name in
      if length parts < 2 \<or> length parts = 2 \<and> hd parts = [] then [] else last parts)"

definition content_types :: "(string \<times> string) list" where
  "content_types =
     [(''html'', ''text/html; charset=utf-8''), (''js'', ''application/javascript; charset=utf-8''),
      (''mjs'', ''application/javascript; charset=utf-8''), (''css'', ''text/css; charset=utf-8''),
      (''json'', ''application/json; charset=utf-8''), (''webmanifest'', ''application/json; charset=utf-8''),
      (''svg'', ''image/svg+xml''), (''png'', ''image/png''), (''jpg'', ''image/jpeg''), (''jpeg'', ''image/jpeg''),
      (''gif'', ''image/gif''), (''ico'', ''image/x-icon''), (''wasm'', ''application/wasm''),
      (''txt'', ''text/plain; charset=utf-8''), (''woff'', ''font/woff''), (''woff2'', ''font/woff2''), (''ttf'', ''font/ttf'')]"

definition content_type_for :: "string list \<Rightarrow> string" where
  "content_type_for path =
     unwrap_or ''application/octet-stream''
       (map_of content_types (to_ascii_lowercase (if path = [] then [] else file_extension (last path))))"

subsection \<open>The index page\<close>

abbreviation dquote :: string where "dquote \<equiv> [CHR 0x22]"
abbreviation squote :: string where "squote \<equiv> [CHR 0x27]"

definition runtime_script :: string where
  "runtime_script =
     join [CHR 0x0A] [''<script>'', ''window.TUNNARA_CONSOLE_WEB_RUNTIME = true;'',
       ''window.TUNNARA_CONSOLE_INTERNAL_API_WEB_RUNTIME = true;'',
       ''window.TUNNARA_CONSOLE_COMMAND_PROXY_BASE = '' @ squote @ ''/__internal_api'' @ squote @ '';'', ''</script>'']"

definition rewrite_index_html :: "string \<Rightarrow> string \<Rightarrow> string" where
  "rewrite_index_html html mount_path =
     (let base = (if mount_path = [] then ''/'' else mount_path @ ''/'');
          move = (\<lambda>before s. replace s (before @ ''/'') (before @ mount_path @ ''/''));
          o1 = move ''url('' (move (''src='' @ squote) (move (''href='' @ squote) (move (''src='' @ dquote) (move (''href='' @ dquote) html))));
          o2 = (if contains o1 ''<base '' then o1
                else replace o1 ''<head>'' (''<head>'' @ [CHR 0x0A] @ ''    <base href='' @ dquote @ base @ dquote @ '' />''))
      in if contains o2 ''TUNNARA_CONSOLE_INTERNAL_API_WEB_RUNTIME'' then o2
         else if contains o2 ''</head>'' then replace o2 ''</head>'' (''    '' @ runtime_script @ [CHR 0x0A] @ ''</head>'')
         else runtime_script @ [CHR 0x0A] @ o2)"

subsection \<open>Answers\<close>

text \<open>\<open>NotAvailable\<close> is the page with the hint how to build the interface, sent with status 503.\<close>

datatype web_answer =
    IndexPage string
  | NotAvailable
  | BadAssetPath
  | AssetNotFound
  | AssetFile string string string string

definition index_response :: "web_env \<Rightarrow> string \<Rightarrow> web_answer" where
  "index_response e mount_path =
     (case Option.bind (resolve_dist_dir e) (\<lambda>d. dk_text (we2_disk e) (path_join d ''index.html'')) of
        Some html \<Rightarrow> IndexPage (rewrite_index_html html mount_path)
      | None \<Rightarrow> NotAvailable)"

text \<open>\<open>AssetFile\<close> has the path, the bytes, the content type and the caching rule.\<close>

definition asset_response :: "web_env \<Rightarrow> string \<Rightarrow> string \<Rightarrow> web_answer" where
  "asset_response e path mount_path =
     (case resolve_dist_dir e of
        None \<Rightarrow> index_response e mount_path
      | Some dist_dir \<Rightarrow>
          (case normalize_asset_path path of
             None \<Rightarrow> BadAssetPath
           | Some parts \<Rightarrow>
               (if parts = [] \<or> parts = [''index.html''] then index_response e mount_path
                else
                  (let asset_path = join_parts dist_dir parts in
                   if \<not> is_inside (we2_disk e) asset_path dist_dir \<or> \<not> dk_is_file (we2_disk e) asset_path
                   then index_response e mount_path
                   else case dk_bytes (we2_disk e) asset_path of
                          None \<Rightarrow> AssetNotFound
                        | Some bytes \<Rightarrow>
                            AssetFile asset_path bytes (content_type_for parts)
                              (if hd parts = ''assets'' then ''public, max-age=31536000, immutable'' else ''public, max-age=3600'')))))"

definition web_index :: "web_env \<Rightarrow> web_answer" where
  "web_index e = index_response e []"

definition web_asset :: "web_env \<Rightarrow> string \<Rightarrow> web_answer" where
  "web_asset e path = asset_response e path []"

definition below_folder :: "string \<Rightarrow> web_env \<Rightarrow> string \<Rightarrow> web_answer" where
  "below_folder folder e path = asset_response e (folder @ ''/'' @ path) []"

definition root_assets :: "web_env \<Rightarrow> string \<Rightarrow> web_answer" where
  "root_assets = below_folder ''assets''"

definition root_branding :: "web_env \<Rightarrow> string \<Rightarrow> web_answer" where
  "root_branding = below_folder ''branding''"

definition root_icons :: "web_env \<Rightarrow> string \<Rightarrow> web_answer" where
  "root_icons = below_folder ''icons''"

definition manifest :: "web_env \<Rightarrow> web_answer" where
  "manifest e = asset_response e ''manifest.webmanifest'' []"

subsection \<open>No way out of the folder\<close>

definition plain_part :: "string \<Rightarrow> bool" where
  "plain_part c \<longleftrightarrow> c \<noteq> [] \<and> c \<noteq> ''.'' \<and> c \<noteq> ''..'' \<and> CHR ''/'' \<notin> set c \<and> CHR 0x5C \<notin> set c"

lemma split_on_parts: "p \<in> set (split_on c s) \<Longrightarrow> c \<notin> set p \<and> set p \<subseteq> set s"
proof (induction s arbitrary: p)
  case (Cons x s)
  show ?case
  proof (cases "split_on c s")
    case Nil
    then show ?thesis by simp
  next
    case (Cons q qs)
    then have "c \<notin> set q \<and> set q \<subseteq> set s" "r \<in> set qs \<Longrightarrow> c \<notin> set r \<and> set r \<subseteq> set s" for r
      using Cons.IH by auto
    with Cons Cons.prems show ?thesis by (auto split: if_splits)
  qed
qed simp

lemma replace_char: "replace s [c] [d] = map (\<lambda>x. if x = c then d else x) s"
  by (induction s) (simp_all add: replace_one)

lemma normalized_parts: "normalize_asset_path path = Some parts \<Longrightarrow> list_all plain_part parts"
proof -
  assume n: "normalize_asset_path path = Some parts"
  define t where "t = replace (trim_start_matches (CHR ''/'') path) [CHR 0x5C] ''/''"
  have "CHR 0x5C \<notin> set t" by (auto simp: t_def replace_char)
  with n show ?thesis
    unfolding normalize_asset_path_def t_def [symmetric] Let_def
    by (fastforce simp: list_all_iff plain_part_def split: if_splits dest!: split_on_parts)
qed

text \<open>C10. A file the web front hands out lies below the folder of the built interface: its path is that folder followed by plain names, with no empty, dot or double-dot component and no backslash, and after links are resolved it is still inside.\<close>

theorem asset_confined:
  assumes "asset_response e path mount = AssetFile p bytes ct cc"
  shows "\<exists>d parts. resolve_dist_dir e = Some d \<and> parts \<noteq> [] \<and> list_all plain_part parts \<and> p = join_parts d parts \<and>
    is_inside (we2_disk e) p d \<and> dk_bytes (we2_disk e) p = Some bytes"
  using assms
  by (auto simp: asset_response_def index_response_def Let_def split: option.splits if_splits dest: normalized_parts)

definition demo_disk :: disk where
  "demo_disk =
     \<lparr>dk_canonical = Some, dk_is_file = (\<lambda>p. p \<in> {''/app/dist/index.html'', ''/app/dist/assets/a.js''}),
      dk_text = (\<lambda>_. Some ''<html></html>''), dk_bytes = (\<lambda>_. Some ''code'')\<rparr>"

definition demo_web_env :: web_env where
  "demo_web_env =
     \<lparr>we2_env = Map.empty, we2_current_dir = Some ''/app'', we2_exe_dir = None, we2_manifest_dir = ''/m'', we2_disk = demo_disk\<rparr>"

lemma demo_asset:
  "root_assets demo_web_env ''/./a.js'' = AssetFile ''/app/dist/assets/a.js'' ''code'' ''application/javascript; charset=utf-8'' ''public, max-age=31536000, immutable''"
  "root_assets demo_web_env ''../../etc/passwd'' = BadAssetPath"
proof -
  have d: "resolve_dist_dir demo_web_env = Some ''/app/dist''"
    by (simp add: resolve_dist_dir_def dist_candidates_def demo_web_env_def demo_disk_def path_join_def List.map_filter_def)
  have disk: "we2_disk demo_web_env = demo_disk" by (simp add: demo_web_env_def)
  have n: "normalize_asset_path (''assets'' @ ''/'' @ ''/./a.js'') = Some [''assets'', ''a.js'']"
    "normalize_asset_path (''assets'' @ ''/'' @ ''../../etc/passwd'') = None"
    by (simp_all add: normalize_asset_path_def replace_char trim_start_matches_def strip_seqs.simps Let_def)
  have ct: "content_type_for [''assets'', ''a.js''] = ''application/javascript; charset=utf-8''"
    by (simp add: content_type_for_def content_types_def file_extension_def to_ascii_lowercase_def ascii_lower_def Let_def)
  show "root_assets demo_web_env ''/./a.js'' = AssetFile ''/app/dist/assets/a.js'' ''code'' ''application/javascript; charset=utf-8'' ''public, max-age=31536000, immutable''"
    unfolding root_assets_def below_folder_def asset_response_def d n option.case disk ct
    by (simp add: demo_disk_def is_inside_def path_below_def Let_def)
  show "root_assets demo_web_env ''../../etc/passwd'' = BadAssetPath"
    unfolding root_assets_def below_folder_def asset_response_def d n option.case ..
qed

theorem asset_confined_witness:
  "\<exists>d parts. resolve_dist_dir demo_web_env = Some d \<and> parts \<noteq> [] \<and> list_all plain_part parts \<and>
    ''/app/dist/assets/a.js'' = join_parts d parts \<and> is_inside (we2_disk demo_web_env) ''/app/dist/assets/a.js'' d \<and>
    dk_bytes (we2_disk demo_web_env) ''/app/dist/assets/a.js'' = Some ''code''"
  by (rule asset_confined [OF demo_asset(1) [unfolded root_assets_def below_folder_def]])

end
