(* ===== verification/Http_Front.thy ===== *)
theory Http_Front
  imports Http_Commands Web_App
begin

text \<open>
  Requests to the two HTTP servers: the routes and the token of the internal API
  (\<^verbatim>\<open>internal_api/routes.rs\<close>, \<^verbatim>\<open>internal_api/docs.rs\<close>), the routes and the proxy of the web front
  (request part of \<^verbatim>\<open>internal_api/web_server.rs\<close>), and what they make of the commands. Header names
  are in lower case, as the HTTP library keeps them; a body that is a command comes decoded, and is
  refused by the library otherwise.
\<close>

subsection \<open>Requests\<close>

record front_request =
  rq_method :: string
  rq_path :: string
  rq_query :: "string option"
  rq_headers :: headers
  rq_body :: string
  rq_command :: "(string \<times> json_obj) option"

text \<open>A request that the proxy sends on, with the headers it sets.\<close>

record upstream_request =
  up_method :: string
  up_url :: string
  up_headers :: "(string \<times> string) list"
  up_body :: string

datatype http_answer =
    Answer nat json
  | HtmlPage string
  | RedirectTo string
  | WebAnswer web_answer
  | ServiceWorker
  | Forward upstream_request
  | PlainText nat string
  | NotDecodable
  | NoRoute

subsection \<open>Documentation pages\<close>

definition docs_openapi_url :: "string \<Rightarrow> string option \<Rightarrow> string" where
  "docs_openapi_url docs_path token =
     (let openapi_path = (if starts_with docs_path ''/__internal_api'' then ''/__internal_api/openapi.json'' else ''/openapi.json'')
      in case token of Some v \<Rightarrow> openapi_path @ ''?token='' @ v | None \<Rightarrow> openapi_path)"

definition scalar_html :: "string \<Rightarrow> string option \<Rightarrow> string" where
  "scalar_html docs_path token =
     (let openapi_url = docs_openapi_url docs_path token in
      join [CHR 0x0A]
       [''<!doctype html>'',
        ''<html lang='' @ dquote @ ''pt-BR'' @ dquote @ ''>'',
        ''<head>'',
        ''  <meta charset='' @ dquote @ ''utf-8'' @ dquote @ '' />'',
        ''  <meta name='' @ dquote @ ''viewport'' @ dquote @ '' content='' @ dquote @ ''width=device-width, initial-scale=1'' @ dquote @ '' />'',
        ''  <title>Tunnara Console API Docs</title>'',
        ''  <style>'',
        ''    :root { color-scheme: light only; }'',
        ''    html, body { margin:0; min-height:100%; background:#ffffff !important; color:#172033 !important; }'',
        ''    body { font-family: Inter, ui-sans-serif, system-ui, -apple-system, BlinkMacSystemFont, '' @ squote @ ''Segoe UI'' @ squote @ '', sans-serif; }'',
        ''    scalar-api-reference {'',
        ''      --scalar-background-1:#ffffff !important;'',
        ''      --scalar-background-2:#f8fafc !important;'',
        ''      --scalar-background-3:#eef2f7 !important;'',
        ''      --scalar-color-1:#172033 !important;'',
        ''      --scalar-color-2:#475569 !important;'',
        ''      --scalar-color-3:#64748b !important;'',
        ''      color-scheme: light only !important;'',
        ''    }'',
        ''  </style>'',
        ''</head>'',
        ''<body>'',
        ''  <script id='' @ dquote @ ''api-reference'' @ dquote @ '' data-url='' @ dquote @ openapi_url @ dquote @ '' data-theme='' @ dquote @ ''default'' @ dquote @ ''></script>'',
        ''  <script src='' @ dquote @ ''https://cdn.jsdelivr.net/npm/@scalar/api-reference'' @ dquote @ ''></script>'',
        ''</body>'',
        ''</html>''])"

definition described :: "string \<Rightarrow> json" where
  "described what = JObj [(''description'', JStr what)]"

definition path_doc :: "json option \<Rightarrow> string \<Rightarrow> (string \<times> json) list \<Rightarrow> json" where
  "path_doc security summary responses =
     JObj [(''get'', JObj ((case security of Some s \<Rightarrow> [(''security'', s)] | None \<Rightarrow> []) @
       [(''summary'', JStr summary), (''responses'', JObj responses)]))]"

definition openapi_json :: "string \<Rightarrow> string \<Rightarrow> bool \<Rightarrow> string \<Rightarrow> json" where
  "openapi_json version token_header require_token docs_path =
     (let sec = Some (JArr (if require_token then [JObj [(''LocalToken'', JArr [])]] else [])); ok = [(''200'', described ''OK'')] in
      JObj [(''openapi'', JStr ''3.0.3''),
        (''info'', JObj [(''title'', JStr ''Tunnara Console Internal API''), (''version'', JStr version)]),
        (''components'', JObj [(''securitySchemes'', JObj [(''LocalToken'',
           JObj [(''type'', JStr ''apiKey''), (''in'', JStr ''header''), (''name'', JStr token_header)])])]),
        (''paths'', JObj
          [(''/health'', path_doc None (''Health check p'' @ u_uacute @ ''blico/local'') ok),
           (''/version'', path_doc sec (''Vers'' @ u_atilde @ ''o da aplica'' @ u_ccedil @ u_atilde @ ''o'') (ok @ [(''401'', described (''Token inv'' @ u_aacute @ ''lido''))])),
           (''/status'', path_doc sec ''Status operacional'' ok),
           (''/app/meta'', path_doc sec (''Metadados da aplica'' @ u_ccedil @ u_atilde @ ''o'') ok),
           (''/features'', path_doc sec ''Feature flags'' ok),
           (''/logs'', path_doc sec ([CHR 0xC3, CHR 0x9A] @ ''ltimos logs'') ok),
           (''/openapi.json'', path_doc None ''OpenAPI'' [(''200'', described ''JSON'')]),
           (docs_path, path_doc None (''Documenta'' @ u_ccedil @ u_atilde @ ''o Scalar em tema claro fixo'') [(''200'', described ''HTML'')])])])"

subsection \<open>The token of the internal API\<close>

definition header_name_ok :: "string \<Rightarrow> bool" where
  "header_name_ok s \<longleftrightarrow>
     s \<noteq> [] \<and> length s < 65536 \<and>
     list_all (\<lambda>c. is_ascii_digit c \<or> CHR ''a'' \<le> ascii_lower c \<and> ascii_lower c \<le> CHR ''z'' \<or>
       c \<in> set ([CHR 0x27] @ ''!#$%&*+-.^_`|~'')) s"

text \<open>The first pair of the query with one of the three names.\<close>

fun find_token :: "(string \<Rightarrow> string) \<Rightarrow> string list \<Rightarrow> string option" where
  "find_token f [] = None"
| "find_token f (pair # pairs) =
     (case split_once (CHR ''='') pair of
        (key, value) \<Rightarrow>
          (if key \<in> {''token'', ''api_token'', ''x-app-token''} then Some (f (unwrap_or [] value)) else find_token f pairs))"

definition query_token :: "(string \<Rightarrow> string) \<Rightarrow> front_request \<Rightarrow> string option" where
  "query_token f rq = Option.bind (rq_query rq) (\<lambda>q. find_token f (split_on (CHR ''&'') q))"

definition configured_token :: "api_config \<Rightarrow> string" where
  "configured_token c = trim (unwrap_or [] (as_token (ac_security c)))"

definition received_token :: "api_config \<Rightarrow> front_request \<Rightarrow> string" where
  "received_token c rq =
     (let header_token = trim (header_text (rq_headers rq) (as_token_header (ac_security c)))
      in if header_token = [] then unwrap_or [] (query_token trim rq) else header_token)"

text \<open>What the middleware answers instead of the handler, if anything.\<close>

definition token_guard :: "api_config \<Rightarrow> front_request \<Rightarrow> http_answer option" where
  "token_guard c rq =
     (if \<not> as_require_token (ac_security c) then None
      else if configured_token c = [] then
        Some (Answer 503 (JObj [(''error'', JStr (''API token n'' @ u_atilde @ ''o configurado no servidor.'')),
          (''hint'', JStr ''Defina TUNNARA_CONSOLE_API_TOKEN ou desative TUNNARA_CONSOLE_API_REQUIRE_TOKEN apenas em ambiente local controlado.'')]))
      else if \<not> header_name_ok (as_token_header (ac_security c)) then
        Some (Answer 500 (JObj [(''error'', JStr (''Nome do header de token inv'' @ u_aacute @ ''lido na configura'' @ u_ccedil @ u_atilde @ ''o da API interna.''))]))
      else if received_token c rq \<noteq> configured_token c then
        Some (Answer 401 (JObj [(''error'', JStr (''Token da API interna inv'' @ u_aacute @ ''lido ou ausente.''))]))
      else None)"

subsection \<open>Routes of the internal API\<close>

datatype api_endpoint = EpCommand | EpVersion | EpStatus | EpMeta | EpFeatures | EpLogs | EpRoot | EpHealth | EpOpenapi | EpScalar

definition twice :: "string \<Rightarrow> 'a \<Rightarrow> (string \<times> 'a) list" where
  "twice path x = [(path, x), (''/__internal_api'' @ path, x)]"

text \<open>Method, endpoint and whether the middleware stands before it.\<close>

definition docs_guarded :: "api_config \<Rightarrow> bool" where
  "docs_guarded c \<longleftrightarrow> as_require_token (ac_security c) \<and> \<not> docs_are_public_for_current_bind c"

definition api_routes :: "api_config \<Rightarrow> (string \<times> (string \<times> api_endpoint \<times> bool)) list" where
  "api_routes c =
     twice ''/api/command'' (''POST'', EpCommand, True) @ twice ''/version'' (''GET'', EpVersion, True) @
     twice ''/status'' (''GET'', EpStatus, True) @ twice ''/app/meta'' (''GET'', EpMeta, True) @
     twice ''/features'' (''GET'', EpFeatures, True) @ twice ''/logs'' (''GET'', EpLogs, True) @
     twice ''/'' (''GET'', EpRoot, False) @ twice ''/health'' (''GET'', EpHealth, False) @
     (if ac_expose_docs c
      then twice ''/openapi.json'' (''GET'', EpOpenapi, docs_guarded c) @
           twice (ad_path (ac_docs c)) (''GET'', EpScalar, docs_guarded c)
      else [])"

text \<open>A route for GET takes HEAD as well; the library drops the body of the answer.\<close>

definition method_ok :: "string \<Rightarrow> string \<Rightarrow> bool" where
  "method_ok m meth \<longleftrightarrow> meth = m \<or> m = ''GET'' \<and> meth = ''HEAD''"

definition api_route :: "api_config \<Rightarrow> string \<Rightarrow> string \<Rightarrow> (api_endpoint \<times> bool) option" where
  "api_route c meth path =
     (case map_of (api_routes c) path of Some (m, ep, guarded) \<Rightarrow> (if method_ok m meth then Some (ep, guarded) else None) | None \<Rightarrow> None)"

subsection \<open>Handlers of the internal API\<close>

text \<open>Which optional parts the program was built with, and the build identifiers.\<close>

record build_info =
  bi_hash :: "string option"
  bi_env :: "string option"
  bi_windows :: bool
  bi_linux :: bool
  bi_mysql :: bool
  bi_postgres :: bool

definition api_root :: "('c, 'g, 's) command_sys \<Rightarrow> http_answer" where
  "api_root sy =
     (let c = ia_config (hx_state sy) in
      if ac_expose_docs c then RedirectTo (ad_path (ac_docs c))
      else Answer 200 (JObj [(''ok'', JBool True), (''service'', JStr ''internal-api''), (''version'', JStr (fx_version (hx_front sy))),
             (''health'', JStr ''/health'')]))"

definition api_health :: "('c, 'g, 's) command_sys \<Rightarrow> 'g app_world \<Rightarrow> http_answer" where
  "api_health sy w =
     (let c = ia_config (hx_state sy) in
      Answer 200 (JObj [(''ok'', JBool True), (''database'', JBool (is_ok (eg_open (hx_engine sy) w))),
        (''version'', JStr (fx_version (hx_front sy))), (''docs_exposed'', JBool (ac_expose_docs c)),
        (''token_required'', JBool (as_require_token (ac_security c))), (''bind_host'', JStr (as_bind_host (ac_security c)))]))"

definition api_version :: "build_info \<Rightarrow> ('c, 'g, 's) command_sys \<Rightarrow> http_answer" where
  "api_version bi sy =
     Answer 200 (JObj [(''version'', JStr (fx_version (hx_front sy))), (''build'', JStr (unwrap_or ''dev'' (bi_hash bi)))])"

definition api_status_page :: "('c, 'g, 's) command_sys \<Rightarrow> http_answer" where
  "api_status_page sy =
     (let st = hx_state sy; c = ia_config st; sec = ac_security c in
      Answer 200 (JObj [(''runtime'', JStr ''headless-api''), (''host'', JStr (ia_host st)), (''port'', js_word (ia_port st)),
        (''started_at'', JStr (ia_started_at st)), (''database_path'', JStr (ia_db_path st)), (''data_dir'', JStr (ia_data_dir st)),
        (''security'', JObj [(''require_token'', JBool (as_require_token sec)), (''token_header'', JStr (as_token_header sec)),
           (''allow_public_network'', JBool (as_allow_public_network sec)), (''cors_enabled'', JBool (as_cors_enabled sec)),
           (''expose_docs'', JBool (ac_expose_docs c)), (''docs_public'', JBool (as_docs_public sec))])]))"

definition api_meta :: "build_info \<Rightarrow> ('c, 'g, 's) command_sys \<Rightarrow> http_answer" where
  "api_meta bi sy =
     Answer 200 (JObj [(''name'', JStr (runtime_app_name (hx_env sy))), (''identifier'', JStr (runtime_app_identifier (hx_env sy))),
       (''version'', JStr (fx_version (hx_front sy))), (''environment'', JStr (unwrap_or ''production'' (bi_env bi)))])"

definition api_features :: "build_info \<Rightarrow> ('c, 'g, 's) command_sys \<Rightarrow> http_answer" where
  "api_features bi sy =
     Answer 200 (JObj [(''licensing'', JBool True), (''logs'', JBool True), (''systemSettings'', JBool True), (''internalApi'', JBool True),
       (''scalarDocs'', JBool (ac_expose_docs (ia_config (hx_state sy)))), (''integrations'', JBool True), (''tray'', JBool True),
       (''windowsService'', JBool (bi_windows bi)), (''linuxService'', JBool (bi_linux bi)), (''mysql'', JBool (bi_mysql bi)),
       (''postgres'', JBool (bi_postgres bi)), (''firebird'', JBool False), (''headlessMode'', JBool True)])"

fun ref_opt_string :: "value_ref \<Rightarrow> string option option" where
  "ref_opt_string RefNull = Some None"
| "ref_opt_string (RefText s) = Some (Some s)"
| "ref_opt_string _ = None"

definition log_item :: "(string \<times> value_ref) list \<Rightarrow> (json, string) result" where
  "log_item row =
     and_then (get_col row 0 ref_i64) (\<lambda>i. and_then (get_col row 1 ref_string) (\<lambda>level.
     and_then (get_col row 2 ref_string) (\<lambda>category. and_then (get_col row 3 ref_string) (\<lambda>message.
     and_then (get_col row 4 ref_opt_string) (\<lambda>source. and_then (get_col row 5 ref_opt_string) (\<lambda>route.
     and_then (get_col row 6 ref_string) (\<lambda>created.
       Ok (JObj [(''id'', js_int i), (''level'', JStr level), (''category'', JStr category), (''message'', JStr message),
         (''source'', js_opt source), (''route'', js_opt route), (''created_at'', JStr created)]))))))))"

text \<open>Any failure leaves the list of logs empty.\<close>

definition api_logs :: "('c, 'g, 's) command_sys \<Rightarrow> 'g app_world \<Rightarrow> http_answer \<times> 'g app_world" where
  "api_logs sy w =
     (case with_conn (hx_engine sy)
        (bindc (local_query (http_host sy) (\<lambda>_. [])
            ''SELECT id, level, category, message, source, route, created_at FROM app_logs ORDER BY id DESC LIMIT 100'' [])
          (\<lambda>rows. lift (collect_rows log_item rows))) w of
        (r, w') \<Rightarrow> (Answer 200 (JObj [(''items'', JArr (unwrap_or [] (ok_opt r)))]), w'))"

definition api_endpoint_answer ::
  "build_info \<Rightarrow> ('c, 'g, 's) command_sys \<Rightarrow> api_endpoint \<Rightarrow> front_request \<Rightarrow> ('g, 's) http_world \<Rightarrow> http_answer \<times> ('g, 's) http_world" where
  "api_endpoint_answer bi sy ep rq w =
     (let c = ia_config (hx_state sy) in
      case ep of
        EpCommand \<Rightarrow>
          (case rq_command rq of
             None \<Rightarrow> (NotDecodable, w)
           | Some (command, args) \<Rightarrow> (case command_response sy command args w of ((code, body), w') \<Rightarrow> (Answer code body, w')))
      | EpVersion \<Rightarrow> (api_version bi sy, w)
      | EpStatus \<Rightarrow> (api_status_page sy, w)
      | EpMeta \<Rightarrow> (api_meta bi sy, w)
      | EpFeatures \<Rightarrow> (api_features bi sy, w)
      | EpLogs \<Rightarrow> (case api_logs sy (hw_app w) of (a, v) \<Rightarrow> (a, w\<lparr>hw_app := v\<rparr>))
      | EpRoot \<Rightarrow> (api_root sy, w)
      | EpHealth \<Rightarrow> (api_health sy (hw_app w), w)
      | EpOpenapi \<Rightarrow> (Answer 200 (openapi_json (fx_version (hx_front sy)) (as_token_header (ac_security c))
            (as_require_token (ac_security c)) (ad_path (ac_docs c))), w)
      | EpScalar \<Rightarrow> (HtmlPage (scalar_html (rq_path rq) (query_token id rq)), w))"

definition handle_api ::
  "build_info \<Rightarrow> ('c, 'g, 's) command_sys \<Rightarrow> front_request \<Rightarrow> ('g, 's) http_world \<Rightarrow> http_answer \<times> ('g, 's) http_world" where
  "handle_api bi sy rq w =
     (let c = ia_config (hx_state sy) in
      case api_route c (rq_method rq) (rq_path rq) of
        None \<Rightarrow> (NoRoute, w)
      | Some (ep, guarded) \<Rightarrow>
          (case (if guarded then token_guard c rq else None) of
             Some refused \<Rightarrow> (refused, w)
           | None \<Rightarrow> api_endpoint_answer bi sy ep rq w))"

subsection \<open>The web front\<close>

definition upstream_url :: "string \<Rightarrow> front_request \<Rightarrow> string" where
  "upstream_url api_base_url rq =
     (let stripped = unwrap_or (rq_path rq) (strip_prefix (rq_path rq) ''/__internal_api'');
          path = (if stripped = [] then ''/'' else stripped)
      in trim_end_matches (CHR ''/'') api_base_url @ path @
         (case rq_query rq of Some q \<Rightarrow> CHR ''?'' # q | None \<Rightarrow> []))"

definition body_limit :: nat where
  "body_limit = 10 * 1024 * 1024"

text \<open>The request sent on: two headers of the client, and the token of the settings.\<close>

definition proxy_internal_api :: "web_proxy_state \<Rightarrow> front_request \<Rightarrow> http_answer" where
  "proxy_internal_api px rq =
     (if body_limit < length (rq_body rq) then PlainText 400 (''Falha ao ler corpo da requisi'' @ u_ccedil @ u_atilde @ ''o do proxy: length limit exceeded'')
      else
        Forward \<lparr>up_method = rq_method rq, up_url = upstream_url (wp_api_base_url px) rq,
          up_headers =
            (case Option.bind (map_of (rq_headers rq) ''accept'') id of Some v \<Rightarrow> [(''accept'', v)] | None \<Rightarrow> []) @
            (case Option.bind (map_of (rq_headers rq) ''content-type'') id of Some v \<Rightarrow> [(''content-type'', v)] | None \<Rightarrow> []) @
            (if trim (wp_api_token px) \<noteq> [] \<and> trim (wp_api_token_header px) \<noteq> []
             then [(to_ascii_lowercase (trim (wp_api_token_header px)), trim (wp_api_token px))] else []),
          up_body = rq_body rq\<rparr>)"

text \<open>What comes back: the status, the content type and the body of the other server, or an error.\<close>

record upstream_response =
  ur_status :: nat
  ur_content_type :: "string option"
  ur_body :: "(string, string) result"

record proxied =
  po_status :: nat
  po_content_type :: "string option"
  po_cache_control :: "string option"
  po_body :: string

definition proxy_answer :: "string \<Rightarrow> (upstream_response, string) result \<Rightarrow> proxied" where
  "proxy_answer u r =
     (let plain = (\<lambda>msg. \<lparr>po_status = 502, po_content_type = Some ''text/plain; charset=utf-8'', po_cache_control = None, po_body = msg\<rparr>) in
      case r of
        Inl err \<Rightarrow> plain (''Falha ao acessar API interna pelo proxy em '' @ u @ '': '' @ err)
      | Inr v \<Rightarrow>
          (case ur_body v of
             Inl err \<Rightarrow> plain (''Falha ao ler resposta da API interna pelo proxy: '' @ err)
           | Inr b \<Rightarrow>
               \<lparr>po_status = ur_status v, po_content_type = ur_content_type v,
                po_cache_control = Some ''no-store, no-cache, must-revalidate'', po_body = b\<rparr>))"

definition web_health_json :: "string \<Rightarrow> env \<Rightarrow> json" where
  "web_health_json version e =
     JObj [(''ok'', JBool True), (''service'', JStr ''tunnara-console-web-proxy''), (''version'', JStr version),
       (''web_port'', js_word (web_port_from_env e)),
       (''api_base_url'', JStr (normalize_client_base_url (unwrap_or ''http://127.0.0.1:61001'' (e ''TUNNARA_CONSOLE_API_BASE_URL'')))),
       (''bind_host'', JStr (web_bind_host_from_env e)), (''lan_expected'', JBool True)]"

definition web_internal_health_json :: "string \<Rightarrow> internal_api_state \<Rightarrow> json" where
  "web_internal_health_json version st =
     JObj [(''ok'', JBool True), (''service'', JStr ''internal-api-via-webport''), (''version'', JStr version), (''host'', JStr (ia_host st)),
       (''port'', js_word (ia_port st)), (''started_at'', JStr (ia_started_at st)), (''transport'', JStr ''in-process'')]"

datatype web_endpoint = WIndex | WHealth | WApiHealth | WCommand | WProxy | WAssets string | WBranding string | WIcons string | WManifest | WWorker | WAsset string

definition web_fixed_routes :: "(string \<times> (string option \<times> web_endpoint)) list" where
  "web_fixed_routes =
     [(''/'', (Some ''GET'', WIndex)), (''/index.html'', (Some ''GET'', WIndex)), (''/__web_health'', (Some ''GET'', WHealth)),
      (''/__internal_api/health'', (Some ''GET'', WApiHealth)), (''/__internal_api/api/command'', (Some ''POST'', WCommand)),
      (''/__internal_api'', (None, WProxy)), (''/__internal_api/'', (None, WProxy)),
      (''/manifest.webmanifest'', (Some ''GET'', WManifest)), (''/sw.js'', (Some ''GET'', WWorker))]"

text \<open>A path with a wildcard needs at least one character in its place; fixed paths come first.\<close>

definition wild :: "string \<Rightarrow> string \<Rightarrow> string option" where
  "wild prefix path = opt_filter (\<lambda>t. t \<noteq> []) (strip_prefix path prefix)"

definition web_wild_route :: "string \<Rightarrow> (string option \<times> web_endpoint) option" where
  "web_wild_route path =
     or_else (map_option (\<lambda>_. (None, WProxy)) (wild ''/__internal_api/'' path))
     (or_else (map_option (\<lambda>t. (Some ''GET'', WAssets t)) (wild ''/assets/'' path))
     (or_else (map_option (\<lambda>t. (Some ''GET'', WBranding t)) (wild ''/branding/'' path))
     (or_else (map_option (\<lambda>t. (Some ''GET'', WIcons t)) (wild ''/icons/'' path))
       (map_option (\<lambda>t. (Some ''GET'', WAsset t)) (wild ''/'' path)))))"

definition web_route :: "string \<Rightarrow> string \<Rightarrow> web_endpoint option" where
  "web_route meth path =
     (case or_else (map_of web_fixed_routes path) (web_wild_route path) of
        Some (m, ep) \<Rightarrow> (if (case m of None \<Rightarrow> True | Some n \<Rightarrow> method_ok n meth) then Some ep else None)
      | None \<Rightarrow> None)"

text \<open>\<open>sy\<close> holds the state of the commands the front was started with.\<close>

definition handle_web ::
  "web_env \<Rightarrow> ('c, 'g, 's) command_sys \<Rightarrow> web_proxy_state \<Rightarrow> front_request \<Rightarrow> ('g, 's) http_world \<Rightarrow> http_answer \<times> ('g, 's) http_world" where
  "handle_web we sy px rq w =
     (case web_route (rq_method rq) (rq_path rq) of
        None \<Rightarrow> (NoRoute, w)
      | Some WIndex \<Rightarrow> (WebAnswer (web_index we), w)
      | Some WHealth \<Rightarrow> (Answer 200 (web_health_json (fx_version (hx_front sy)) (we2_env we)), w)
      | Some WApiHealth \<Rightarrow> (Answer 200 (web_internal_health_json (fx_version (hx_front sy)) (wp_command_state px)), w)
      | Some WCommand \<Rightarrow>
          (case rq_command rq of
             None \<Rightarrow> (NotDecodable, w)
           | Some (command, args) \<Rightarrow>
               (case command_response (sy\<lparr>hx_state := wp_command_state px\<rparr>) command args w of ((code, body), w') \<Rightarrow> (Answer code body, w')))
      | Some WProxy \<Rightarrow> (proxy_internal_api px rq, w)
      | Some (WAssets t) \<Rightarrow> (WebAnswer (root_assets we t), w)
      | Some (WBranding t) \<Rightarrow> (WebAnswer (root_branding we t), w)
      | Some (WIcons t) \<Rightarrow> (WebAnswer (root_icons we t), w)
      | Some WManifest \<Rightarrow> (WebAnswer (manifest we), w)
      | Some WWorker \<Rightarrow> (ServiceWorker, w)
      | Some (WAsset t) \<Rightarrow> (WebAnswer (web_asset we t), w))"

end
