(* ===== verification/Http_Props.thy ===== *)
theory Http_Props
  imports Http_Front Access_Props
begin

text \<open>
  What the two HTTP servers guarantee and what they give away: the token of the internal API, the
  web front that stands beside it, the commands without a session, and the statements on any table.
\<close>

subsection \<open>The token\<close>

lemma token_guard_passes:
  "token_guard c rq = None \<longleftrightarrow> \<not> as_require_token (ac_security c) \<or>
    configured_token c \<noteq> [] \<and> header_name_ok (as_token_header (ac_security c)) \<and> received_token c rq = configured_token c"
  by (auto simp: token_guard_def)

lemma token_guard_refuses:
  "token_guard c rq = Some a \<Longrightarrow> \<exists>code body. a = Answer code body \<and> code \<in> {401, 500, 503}"
  by (auto simp: token_guard_def split: if_splits)

lemma guarded_routes: "api_route c meth path = Some (ep, False) \<Longrightarrow> ep \<in> {EpRoot, EpHealth, EpOpenapi, EpScalar}"
  by (auto simp: api_route_def api_routes_def twice_def split: option.splits if_splits dest!: map_of_SomeD)

text \<open>C3. With a token required, a request without the configured token (or with none configured) is answered 401, 500 or 503 and changes nothing, unless it asks for the start page, the health of the service or its documentation; with the right token, or no token required, every request reaches its handler.\<close>

theorem api_token_enforced:
  assumes "api_route (ia_config (hx_state sy)) (rq_method rq) (rq_path rq) = Some (ep, guarded)"
  shows "(as_require_token (ac_security (ia_config (hx_state sy))) \<and>
      (configured_token (ia_config (hx_state sy)) = [] \<or>
       received_token (ia_config (hx_state sy)) rq \<noteq> configured_token (ia_config (hx_state sy))) \<and>
      ep \<notin> {EpRoot, EpHealth, EpOpenapi, EpScalar} \<longrightarrow>
      (\<exists>code body. code \<in> {401, 500, 503} \<and> handle_api bi sy rq w = (Answer code body, w))) \<and>
    (token_guard (ia_config (hx_state sy)) rq = None \<longrightarrow> handle_api bi sy rq w = api_endpoint_answer bi sy ep rq w)"
proof (cases "token_guard (ia_config (hx_state sy)) rq")
  case None
  have "handle_api bi sy rq w = api_endpoint_answer bi sy ep rq w"
    using assms None by (cases guarded) (simp_all add: handle_api_def Let_def)
  with None [unfolded token_guard_passes] show ?thesis by blast
next
  case (Some a)
  from token_guard_refuses [OF Some] obtain code body where "a = Answer code body" "code \<in> {401, 500, 503}" by blast
  with Some assms guarded_routes [of "ia_config (hx_state sy)" "rq_method rq" "rq_path rq" ep] show ?thesis
    by (cases guarded) (auto simp: handle_api_def Let_def)
qed

subsection \<open>The way around the token\<close>

lemma web_command_route: "web_route ''POST'' ''/__internal_api/api/command'' = Some WCommand"
  by (simp add: web_route_def web_fixed_routes_def method_ok_def)

text \<open>C4. A command that the internal API refuses for want of its token is executed when the same request goes to the port of the web front, which has no such check: the answer and the changes are those of the command itself.\<close>

theorem web_front_skips_token:
  assumes post: "rq_method rq = ''POST''" "rq_path rq = ''/__internal_api/api/command''" "rq_command rq = Some (command, args)"
    and state: "wp_command_state px = hx_state sy"
    and token: "as_require_token (ac_security (ia_config (hx_state sy)))"
      "received_token (ia_config (hx_state sy)) rq \<noteq> configured_token (ia_config (hx_state sy))"
  shows "(\<exists>code body. code \<in> {401, 500, 503} \<and> handle_api bi sy rq w = (Answer code body, w)) \<and>
    handle_web we sy px rq w = (case command_response sy command args w of ((code, body), w') \<Rightarrow> (Answer code body, w'))"
proof -
  have "api_route (ia_config (hx_state sy)) ''POST'' ''/__internal_api/api/command'' = Some (EpCommand, True)"
    by (simp add: api_route_def api_routes_def twice_def method_ok_def)
  moreover have "token_guard (ia_config (hx_state sy)) rq \<noteq> None" using token by (simp add: token_guard_passes)
  then obtain a where a: "token_guard (ia_config (hx_state sy)) rq = Some a" by blast
  moreover obtain code body where "a = Answer code body" "code \<in> {401, 500, 503}" using token_guard_refuses [OF a] by blast
  moreover have "sy\<lparr>hx_state := wp_command_state px\<rparr> = sy" using state by simp
  ultimately show ?thesis using post by (auto simp: handle_api_def Let_def handle_web_def web_command_route)
qed

text \<open>Whatever a client of the web front sends, the proxied request carries the configured token, so the internal API lets it pass; the client needs none.\<close>

theorem proxy_lends_token:
  assumes up: "proxy_internal_api px rq = Forward up"
    and same: "as_token (ac_security c) = Some (wp_api_token px)" "as_token_header (ac_security c) = wp_api_token_header px"
    and token: "trim (wp_api_token px) \<noteq> []"
    and header: "header_name_ok (wp_api_token_header px)" "trim (wp_api_token_header px) = wp_api_token_header px"
      "to_ascii_lowercase (wp_api_token_header px) \<notin> {''accept'', ''content-type''}"
    and arrives: "rq_headers arrived = map (\<lambda>(k, v). (k, Some v)) (up_headers up)"
  shows "token_guard c arrived = None"
proof -
  have ne: "wp_api_token_header px \<noteq> []" using header(1) by (simp add: header_name_ok_def)
  have "map_of (rq_headers arrived) (to_ascii_lowercase (wp_api_token_header px)) = Some (Some (trim (wp_api_token px)))"
    using up header ne token unfolding arrives
    by (auto simp: proxy_internal_api_def split: if_splits option.splits)
  then have "header_text (rq_headers arrived) (as_token_header (ac_security c)) = trim (wp_api_token px)"
    by (simp add: header_text_def same)
  then have "received_token c arrived = configured_token c" "configured_token c = trim (wp_api_token px)"
    using token by (simp_all add: received_token_def configured_token_def same Let_def)
  then show ?thesis using token header same by (simp add: token_guard_passes)
qed

subsection \<open>Log-in over HTTP and on the desktop\<close>

definition without_message :: "(login_response, string) result \<Rightarrow> (login_response, string) result" where
  "without_message r = (case r of Inl e \<Rightarrow> Inl e | Inr l \<Rightarrow> Inr (l\<lparr>lr2_message := []\<rparr>))"

definition same_login :: "(login_response, string) result \<times> 'g app_world \<Rightarrow> (login_response, string) result \<times> 'g app_world \<Rightarrow> bool" where
  "same_login a b \<longleftrightarrow> without_message (fst a) = without_message (fst b) \<and> (snd b)\<lparr>aw_logs := aw_logs (snd a)\<rparr> = snd a"

lemma same_login_refl: "same_login x x"
  by (simp add: same_login_def)

lemma find_user_updated:
  assumes "\<And>u. us_id (f u) = us_id u"
  shows "find_user i (update_users f i w) = map_option f (find_user i w)"
proof -
  have "find (\<lambda>u. us_id u = i) (map (\<lambda>u. if us_id u = i then f u else u) us) = map_option f (find (\<lambda>u. us_id u = i) us)" for us
    using assms by (induction us) auto
  then show ?thesis by (simp add: find_user_def update_users_def)
qed

lemma complete_login_agrees: "same_login (complete_login_http sy u w) (complete_login sy u w)"
  by (auto simp: same_login_def complete_login_http_def complete_login_def bindc_def ret_def log_quietly_def logged_in_def
      without_message_def split: sum.splits prod.splits)

lemma http_login_agrees:
  assumes "http_connect sy w = (Ok (), w)" and "connect (hx_app sy) w = (Ok (), w)"
  shows "same_login (auth_login_http sy login senha w) (auth_login (hx_app sy) login senha w)"
  using assms
  by (auto simp: auth_login_http_def auth_login_def Let_def bindc_def query_def lift_def ret_def same_login_refl complete_login_agrees
      split: option.splits sum.splits)

definition login_args :: "string \<Rightarrow> string \<Rightarrow> json_obj" where
  "login_args login senha = [(''login'', JStr login), (''senha'', JStr senha)]"

lemma login_handler:
  "execute_command sy ''auth_login'' (login_args login senha) =
    on_app (bindc (auth_login_http sy (trim login) (trim senha)) (\<lambda>r. ret (login_json r)))"
  by (auto simp: execute_command_def handlers_def auth_handlers_def Let_def first_nonempty_arg_def arg_string_def login_args_def)

lemma auth_login_trims_login: "auth_login sy (trim login) senha = auth_login sy login senha"
  by (simp add: auth_login_def user_by_login_def [abs_def])

text \<open>C22. The command \<open>auth_login\<close> of the internal API is the log-in of the desktop with the blanks around the password removed: it answers the same but for the wording and leaves the same sessions, users and everything else but for the entry the desktop writes to the log. With the password as it was typed the two disagree: a user whose stored hash is that of the trimmed text, as every command that sets a password stores it, logs in over HTTP with blanks around the password and is refused on the desktop.\<close>

theorem http_login_trims:
  assumes "http_connect sy (hw_app w) = (Ok (), hw_app w)" and "connect (hx_app sy) (hw_app w) = (Ok (), hw_app w)"
  shows "\<exists>r v. execute_command sy ''auth_login'' (login_args login senha) w = (and_then r (\<lambda>x. Ok (login_json x)), w\<lparr>hw_app := v\<rparr>) \<and>
    same_login (r, v) (auth_login (hx_app sy) login (trim senha) (hw_app w)) \<and>
    (\<forall>u v'. query (hx_app sy) (''Falha ao consultar usu'' @ u_aacute @ ''rio'') (user_by_login (hx_app sy) login) (hw_app w) = (Ok (Some u), v') \<and>
        us_ativo u \<noteq> 0 \<and> verify_password (sa_crypto (hx_app sy)) (trim senha) (us_senha_hash u) = Ok True \<and>
        verify_password (sa_crypto (hx_app sy)) senha (us_senha_hash u) = Ok False \<longrightarrow>
      (r, v) = complete_login_http (hx_app sy) u v' \<and>
      fst (auth_login (hx_app sy) login senha (hw_app w)) = Ok (login_refused (''Senha inv'' @ u_aacute @ ''lida.'')))"
proof -
  obtain r v where run: "auth_login_http sy (trim login) (trim senha) (hw_app w) = (r, v)" by fastforce
  have "execute_command sy ''auth_login'' (login_args login senha) w = (and_then r (\<lambda>x. Ok (login_json x)), w\<lparr>hw_app := v\<rparr>)"
    by (cases r) (simp_all add: login_handler on_app_def bindc_def run ret_def)
  moreover have "same_login (r, v) (auth_login (hx_app sy) login (trim senha) (hw_app w))"
    using http_login_agrees [OF assms, of "trim login" "trim senha"] by (simp add: run auth_login_trims_login)
  moreover have "(r, v) = complete_login_http (hx_app sy) u v' \<and>
      fst (auth_login (hx_app sy) login senha (hw_app w)) = Ok (login_refused (''Senha inv'' @ u_aacute @ ''lida.''))"
    if "query (hx_app sy) (''Falha ao consultar usu'' @ u_aacute @ ''rio'') (user_by_login (hx_app sy) login) (hw_app w) = (Ok (Some u), v')"
      "us_ativo u \<noteq> 0" "verify_password (sa_crypto (hx_app sy)) (trim senha) (us_senha_hash u) = Ok True"
      "verify_password (sa_crypto (hx_app sy)) senha (us_senha_hash u) = Ok False" for u v'
  proof -
    have same: "user_by_login (hx_app sy) (trim login) = user_by_login (hx_app sy) login" by (simp add: user_by_login_def [abs_def])
    have "auth_login_http sy (trim login) (trim senha) (hw_app w) = complete_login_http (hx_app sy) u v'"
      using assms(1) that by (simp add: auth_login_http_def Let_def bindc_def lift_def same)
    moreover have "fst (auth_login (hx_app sy) login senha (hw_app w)) = Ok (login_refused (''Senha inv'' @ u_aacute @ ''lida.''))"
      using assms(2) that by (simp add: auth_login_def bindc_def lift_def ret_def)
    ultimately show ?thesis by (simp add: run)
  qed
  ultimately show ?thesis by blast
qed

text \<open>The HTTP command changes the password of a session's user without the old password when the field is left empty, where the desktop command refuses: whoever holds a session token can take the account over.\<close>

theorem http_password_without_old:
  assumes connect: "\<And>v. http_connect sy v = (Ok (), v)" "\<And>v. connect (hx_app sy) v = (Ok (), v)"
    and working: "\<And>msg. sa_fail (hx_app sy) msg = None"
    and session: "require_session_by_token (hx_app sy) (trim tok) w = (Ok idn, v)" and user: "find_user (si_user_id idn) v = Some u"
    and hash: "hash_new_password (hx_app sy) (trim new) v = (Ok h, v')" and long: "6 \<le> length (trim new)"
    and wrong: "verify_password (sa_crypto (hx_app sy)) [] (us_senha_hash u) = Ok False"
  shows "(\<exists>w'. auth_change_password_http sy [(''session_token'', JStr tok), (''new_password'', JStr new)] w = (Ok (JBool True), w') \<and>
      find_user (si_user_id idn) w' = map_option (\<lambda>u. u\<lparr>us_senha_hash := h, us_senha_provisoria := 0,
        us_updated_at := sa_rfc3339 (hx_app sy) (sa_time (hx_app sy) (aw_reads v'))\<rparr>) (find_user (si_user_id idn) v')) \<and>
    fst (auth_change_password (hx_app sy) (trim tok) [] new w) = Err (''A senha atual informada est'' @ u_aacute @ '' incorreta.'')"
proof -
  let ?n = "sa_rfc3339 (hx_app sy) (sa_time (hx_app sy) (aw_reads v'))"
  let ?f = "\<lambda>u. u\<lparr>us_senha_hash := h, us_senha_provisoria := 0, us_updated_at := ?n\<rparr>"
  let ?args = "[(''session_token'', JStr tok), (''new_password'', JStr new)]"
  have args: "arg_string ?args ''session_token'' = trim tok" "arg_string ?args ''current_password'' = []" "arg_string ?args ''new_password'' = trim new"
    by (simp_all add: arg_string_def)
  have http: "auth_change_password_http sy ?args w = (Ok (JBool True), update_users ?f (si_user_id idn) (v'\<lparr>aw_reads := Suc (aw_reads v')\<rparr>))"
    unfolding auth_change_password_http_def args Let_def
    using connect working session user hash long
    by (simp add: bindc_def query_def ret_def ensure_def clock_text_def clock_def exec_def)
  have desktop: "fst (auth_change_password (hx_app sy) (trim tok) [] new w) = Err (''A senha atual informada est'' @ u_aacute @ '' incorreta.'')"
    using connect working session user long wrong
    by (simp add: auth_change_password_def bindc_def query_def ensure_def lift_def ret_def fail_def)
  have "find_user (si_user_id idn) (update_users ?f (si_user_id idn) (v'\<lparr>aw_reads := Suc (aw_reads v')\<rparr>)) = map_option ?f (find_user (si_user_id idn) v')"
    by (subst find_user_updated) (simp_all add: find_user_def)
  with http desktop show ?thesis by blast
qed

subsection \<open>Users saved over HTTP\<close>

lemma obj_get_hm_insert: "obj_get (hm_insert k v kvs) k' = (if k' = k then Some v else obj_get kvs k')"
  by (simp add: obj_get_def map_of_hm_insert)

lemma record_fields_set:
  "set (record_fields available payload ts) \<supseteq> {(k, v) \<in> set payload. k \<noteq> ''id'' \<and> k \<in> set available \<and> k \<noteq> ''updated_at'' \<and> k \<noteq> ''created_at''}"
  by (auto simp: record_fields_def Let_def add_missing_def hm_insert_def hm_remove_def)

text \<open>Saving an existing user through the HTTP command with the key as a text, and no password, replaces the password by 123456: the check for a new user reads only numbers as keys, the statement reads texts too and updates the row. With the key as a number the password stays.\<close>

theorem text_key_resets_password:
  assumes key: "obj_get payload ''id'' = Some (JStr s)" "parse_i64 s = Some i" "0 < i" and no_password: "user_password payload = []"
    and hash: "ho_hash_password sy ''123456'' d = (Ok h, d')"
  shows "(\<exists>p. with_password sy payload d = (Ok p, d') \<and> record_id p = Some i \<and>
      (''senha_hash'' \<in> set available \<longrightarrow> (''senha_hash'', JStr h) \<in> set (record_fields available (add_missing ''ativo'' (js_int 1) p) ts))) \<and>
    (\<forall>n q. num_as_i64 n = Some i \<and> obj_get q ''id'' = Some (JNum n) \<and> user_password q = [] \<longrightarrow> with_password sy q d = (Ok q, d))"
proof -
  let ?p = "hm_insert ''senha_provisoria'' (js_int 1) (hm_insert ''senha_hash'' (JStr h) payload)"
  have run: "with_password sy payload d = (Ok ?p, d')"
    using key no_password hash by (simp add: with_password_def Let_def bindc_def ret_def)
  have rid: "record_id ?p = Some i"
    using key by (simp add: record_id_def payload_id_def obj_get_hm_insert)
  have mem: "(''senha_hash'', JStr h) \<in> set (add_missing ''ativo'' (js_int 1) ?p)"
    by (auto simp: add_missing_def hm_insert_def hm_remove_def)
  have "(''senha_hash'', JStr h) \<in> set (record_fields available (add_missing ''ativo'' (js_int 1) ?p) ts)" if "''senha_hash'' \<in> set available"
    using record_fields_set [of "add_missing ''ativo'' (js_int 1) ?p" available ts] mem that by auto
  moreover have "with_password sy q d = (Ok q, d)" if "num_as_i64 n = Some i" "obj_get q ''id'' = Some (JNum n)" "user_password q = []" for n q
    using that key by (simp add: with_password_def Let_def ret_def)
  ultimately show ?thesis using run rid by blast
qed

subsection \<open>Names in a statement\<close>

text \<open>Reading a quoted identifier, as SQL does: a doubled quote stands for one, a single one ends it.\<close>

fun read_quoted :: "string \<Rightarrow> (string \<times> string) option" where
  "read_quoted [] = None"
| "read_quoted (c # s) =
     (if c = CHR 0x22
      then (case s of
              d # t \<Rightarrow> (if d = CHR 0x22 then map_option (apfst (Cons c)) (read_quoted t) else Some ([], s))
            | [] \<Rightarrow> Some ([], []))
      else map_option (apfst (Cons c)) (read_quoted s))"

definition read_ident :: "string \<Rightarrow> (string \<times> string) option" where
  "read_ident s = (case s of c # t \<Rightarrow> (if c = CHR 0x22 then read_quoted t else None) | [] \<Rightarrow> None)"

lemma read_escaped:
  assumes "rest = [] \<or> hd rest \<noteq> CHR 0x22"
  shows "read_quoted (concat (map (\<lambda>c. if c = CHR 0x22 then [CHR 0x22, CHR 0x22] else [c]) s) @ CHR 0x22 # rest) = Some (s, rest)"
  using assms by (induction s) (auto split: list.splits)

text \<open>A quoted name is read back as the name it was made from, whatever characters it has, and what follows it in the statement is left alone: no name can end its quotation.\<close>

theorem quoted_name_roundtrip:
  assumes "rest = [] \<or> hd rest \<noteq> CHR 0x22"
  shows "read_ident (quote_ident s @ rest) = Some (s, rest)"
  using read_escaped [OF assms, of s] by (simp add: read_ident_def quote_ident_def replace_one)

theorem quoted_name_roundtrip_witness: "read_ident (quote_ident [CHR ''a'', CHR 0x22] @ '' = ?1'') = Some ([CHR ''a'', CHR 0x22], '' = ?1'')"
  by (rule quoted_name_roundtrip) simp

text \<open>A record saved from a payload assigns only columns that the table has, never its key, each once and in the order of their names; what the payload gives for such a column is assigned as it is.\<close>

theorem record_fields_known:
  assumes "hm_wf payload"
  shows "set (map fst (record_fields available payload ts)) \<subseteq> set available - {''id''} \<and>
    sorted (map fst (record_fields available payload ts)) \<and> distinct (map fst (record_fields available payload ts)) \<and>
    (k \<noteq> ''id'' \<longrightarrow> k \<in> set available \<longrightarrow> obj_get payload k = Some v \<longrightarrow> map_of (record_fields available payload ts) k = Some v)"
proof -
  define data where "data = (let data1 = (if ''updated_at'' \<in> set available then add_missing ''updated_at'' (JStr ts) payload else payload)
    in if record_id payload = None \<and> ''created_at'' \<in> set available then add_missing ''created_at'' (JStr ts) data1 else data1)"
  have wf: "hm_wf data" and keep: "obj_get payload k = Some v \<Longrightarrow> map_of data k = Some v" for k v
    using assms by (auto simp: data_def Let_def add_missing_def hm_wf_insert obj_get_def map_of_hm_insert)
  define fs where "fs = filter (\<lambda>(k, v). k \<noteq> ''id'' \<and> k \<in> set available) data"
  have rf: "record_fields available payload ts = sort_key fst fs"
    by (simp add: record_fields_def Let_def fs_def data_def)
  have dist: "distinct (map fst fs)" using wf by (auto simp: fs_def hm_wf_def intro: distinct_map_filter)
  then have d: "distinct (map fst (sort_key fst fs))" by (simp add: distinct_map)
  have "map_of (sort_key fst fs) k = Some v" if "k \<noteq> ''id''" "k \<in> set available" "obj_get payload k = Some v"
  proof -
    from keep [OF that(3)] have "(k, v) \<in> set fs" using that by (auto simp: fs_def dest: map_of_SomeD)
    with d show ?thesis by (simp add: map_of_eq_Some_iff)
  qed
  with d show ?thesis by (auto simp: rf fs_def)
qed

theorem record_fields_known_witness:
  "set (map fst (record_fields [''id'', ''nome''] [(''id'', js_int 1), (''nome'', JStr ''x''), (''zz'', JNull)] ''t'')) \<subseteq> set [''id'', ''nome''] - {''id''} \<and>
    map_of (record_fields [''id'', ''nome''] [(''id'', js_int 1), (''nome'', JStr ''x''), (''zz'', JNull)] ''t'') ''nome'' = Some (JStr ''x'')"
  using record_fields_known [of "[(''id'', js_int 1), (''nome'', JStr ''x''), (''zz'', JNull)]" "[''id'', ''nome'']" "''t''" "''nome''" "JStr ''x''"]
  by (simp add: hm_wf_def)

subsection \<open>From no session to master user\<close>

definition promote_args :: "int \<Rightarrow> string \<Rightarrow> string \<Rightarrow> json_obj" where
  "promote_args i nome login =
     [(''entity'', JStr ''usuarios''),
      (''payload'', JObj [(''id'', js_int i), (''nome'', JStr nome), (''login'', JStr login), (''master_user'', js_int 1),
         (''administrador'', js_int 1), (''senha_provisoria'', js_int 0), (''ativo'', js_int 1)])]"

definition promote_params :: "int \<Rightarrow> string \<Rightarrow> string \<Rightarrow> string \<Rightarrow> sql_value list" where
  "promote_params i nome login now =
     [SqlText nome, SqlText login, SqlNull, SqlNull, SqlNull, SqlNull, SqlInteger 1, SqlInteger 1, SqlInteger 0, SqlInteger 1,
      SqlText now, SqlInteger i]"

abbreviation user_update_sql :: string where
  "user_update_sql \<equiv>
     update_sql question ''usuarios'' [''nome'', ''login'', ''email'', ''telefone'', ''cargo'', ''observacoes'', ''master_user'',
       ''administrador'', ''senha_provisoria'', ''ativo'']"

text \<open>A statement that changes neither users nor sessions.\<close>

definition leaves_access :: "('c \<times> 'g app_world \<Rightarrow> 'r \<times> ('c \<times> 'g app_world)) \<Rightarrow> bool" where
  "leaves_access f \<longleftrightarrow>
     (\<forall>w. db_usuarios (snd (snd (f w))) = db_usuarios (snd w) \<and> db_sessions (snd (snd (f w))) = db_sessions (snd w))"

abbreviation access_is :: "usuario list \<Rightarrow> user_session list \<Rightarrow> 'g app_world \<Rightarrow> bool" where
  "access_is us ss \<equiv> \<lambda>v. db_usuarios v = us \<and> db_sessions v = ss"

lemma keeps_sqlite:
  "(\<And>qs. leaves_access (eg_execute eg sql qs)) \<Longrightarrow> keeps (access_is us ss) (sqlite_execute eg jt sql ps)"
  "(\<And>qs. leaves_access (eg_query eg sql qs)) \<Longrightarrow> keeps (access_is us ss) (sqlite_query_one eg jt sql ps)"
  by (auto simp: keeps_def sqlite_execute_def sqlite_query_one_def with_conn_def mapped_def leaves_access_def split: sum.splits prod.splits)
    (metis snd_conv)+

lemma sqlite_by_default:
  assumes "hx_env sy ''TUNNARA_CONSOLE_DATABASE_DRIVER'' = None" and "hx_env sy ''TUNNARA_CONSOLE_DB_DRIVER'' = None"
  shows "provider_for_state sy = Ok (sqlite_provider (hx_engine sy) (lg_json_text (sa_log (hx_app sy))))"
proof -
  have t: "trim ''sqlite'' = ''sqlite''" by (rule trim_graph) (simp_all add: graph_char_def)
  have "current_provider_driver (hx_env sy) = ''sqlite''"
    using assms by (simp add: current_provider_driver_def t to_ascii_lowercase_def ascii_lower_def)
  then show ?thesis
    by (simp add: provider_for_state_def provider_from_config_def from_env_with_driver_def Let_def driver_from_str_def t
        to_ascii_lowercase_def ascii_lower_def http_host_def)
qed

lemma entity_save_handler: "execute_command sy ''entity_save'' args = entity_store sy (arg_string args ''entity'') (arg_payload args)"
  by (simp add: execute_command_def handlers_def auth_handlers_def access_handlers_def entity_handlers_def Let_def)

lemma usuarios_entity:
  "entity_definition ''usuarios'' = Some \<lparr>ed_table = ''usuarios'',
     ed_fields = [''nome'', ''login'', ''email'', ''telefone'', ''cargo'', ''observacoes'', ''master_user'', ''administrador'', ''senha_provisoria'', ''ativo''],
     ed_searchable = [''nome'', ''login'', ''email''], ed_required = [''nome'', ''login''], ed_label_column = ''nome''\<rparr>"
  by (simp add: entity_definition_def)

lemma promote_values:
  assumes "- (2 ^ 63) \<le> i" "i < 2 ^ 63"
  shows "payload_id (arg_payload (promote_args i nome login)) = Some i"
    "arg_string (promote_args i nome login) ''entity'' = ''usuarios''"
    "map (\<lambda>field. db_value_of_json (normalize_value (arg_payload (promote_args i nome login)) field))
      [''nome'', ''login'', ''email'', ''telefone'', ''cargo'', ''observacoes'', ''master_user'', ''administrador'', ''senha_provisoria'', ''ativo''] =
      [DbText nome, DbText login, DbNull, DbNull, DbNull, DbNull, DbInteger 1, DbInteger 1, DbInteger 0, DbInteger 1]"
    "trim nome \<noteq> [] \<Longrightarrow> trim login \<noteq> [] \<Longrightarrow> check_required (arg_payload (promote_args i nome login)) [''nome'', ''login''] = Ok ()"
proof -
  have u: "trim ''usuarios'' = ''usuarios''" by (rule trim_graph) (simp_all add: graph_char_def)
  show "payload_id (arg_payload (promote_args i nome login)) = Some i" using assms
    by (simp add: payload_id_def arg_payload_def arg_object_def promote_args_def js_int_def)
  show "arg_string (promote_args i nome login) ''entity'' = ''usuarios''" by (simp add: arg_string_def promote_args_def u)
  show "map (\<lambda>field. db_value_of_json (normalize_value (arg_payload (promote_args i nome login)) field))
      [''nome'', ''login'', ''email'', ''telefone'', ''cargo'', ''observacoes'', ''master_user'', ''administrador'', ''senha_provisoria'', ''ativo''] =
      [DbText nome, DbText login, DbNull, DbNull, DbNull, DbNull, DbInteger 1, DbInteger 1, DbInteger 0, DbInteger 1]"
    by (simp add: normalize_value_def integer_fields_def arg_payload_def arg_object_def promote_args_def js_int_def Let_def)
  show "check_required (arg_payload (promote_args i nome login)) [''nome'', ''login''] = Ok ()" if "trim nome \<noteq> []" "trim login \<noteq> []"
    using that by (simp add: arg_payload_def arg_object_def promote_args_def)
qed

text \<open>C2. A client of the internal API that has no session can make any user a master user: when the database carries out the UPDATE that \<open>entity_save\<close> issues, a session of that user is one of an active master user afterwards, whatever becomes of the rest of the command, and every command reserved to masters accepts it.\<close>

theorem entity_save_escalates:
  assumes env: "hx_env sy ''TUNNARA_CONSOLE_DATABASE_DRIVER'' = None" "hx_env sy ''TUNNARA_CONSOLE_DB_DRIVER'' = None"
    and opens: "\<And>d. eg_open (hx_engine sy) d = Ok cz"
    and upd: "eg_execute (hx_engine sy) user_update_sql
        (promote_params i nome login (sa_rfc3339 (hx_app sy) (sa_time (hx_app sy) (aw_reads (hw_app w)))))
        (cz, (hw_app w)\<lparr>aw_reads := Suc (aw_reads (hw_app w))\<rparr>) =
      (Ok n, (ce, update_users g i ((hw_app w)\<lparr>aw_reads := Suc (aw_reads (hw_app w))\<rparr>)))"
      "\<And>u. us_id (g u) = us_id u \<and> us_master_user (g u) = 1 \<and> us_ativo (g u) = 1"
    and others: "\<And>df ps. leaves_access (eg_query (hx_engine sy) (select_sql ''?'' df) ps)"
      "\<And>ps. leaves_access (eg_execute (hx_engine sy) (provider_audit_sql question) ps)"
      "\<And>ps. leaves_access (eg_execute (hx_engine sy) (provider_sync_sql question) ps)"
    and texts: "trim nome \<noteq> []" "trim login \<noteq> []" and key: "- (2 ^ 63) \<le> i" "i < 2 ^ 63"
    and session: "se \<in> set (db_sessions (hw_app w))" "se_session_token se = trim tok" "se_usuario_id se = i"
      "\<And>k. sa_rfc3339 (hx_app sy) (sa_time (hx_app sy) k) < se_expires_at se"
    and user: "u \<in> set (db_usuarios (hw_app w))" "us_id u = i"
  shows "master_session (hx_app sy) tok (hw_app (snd (execute_command sy ''entity_save'' (promote_args i nome login) w))) i"
proof -
  let ?eg = "hx_engine sy" and ?jt = "lg_json_text (sa_log (hx_app sy))" and ?ho = "http_host sy"
  let ?pv = "sqlite_provider ?eg ?jt" and ?args = "promote_args i nome login"
  let ?v = "(hw_app w)\<lparr>aw_reads := Suc (aw_reads (hw_app w))\<rparr>" and ?now = "sa_rfc3339 (hx_app sy) (sa_time (hx_app sy) (aw_reads (hw_app w)))"
  let ?w1 = "update_users g i ?v"
  let ?I = "access_is (db_usuarios ?w1) (db_sessions ?w1)"
  have ph: "placeholder ?pv = question" by (auto simp: placeholder_def sqlite_provider_def)
  have pv: "pv_execute ?pv = sqlite_execute ?eg ?jt" "pv_query_one ?pv = sqlite_query_one ?eg ?jt" by (simp_all add: sqlite_provider_def)
  have clock: "ho_now ?ho (hw_app w) = (Ok ?now, ?v)"
    by (simp add: http_host_def clock_text_def clock_def bindc_def ret_def)
  have store: "provider_store ?pv df (Some i) vs ?now ?v = (Ok i, ?w1)"
    if "df = \<lparr>ed_table = ''usuarios'', ed_fields = fs, ed_searchable = ss, ed_required = rs, ed_label_column = lc\<rparr>"
      "update_sql question ''usuarios'' fs = user_update_sql"
      "vs = [DbText nome, DbText login, DbNull, DbNull, DbNull, DbNull, DbInteger 1, DbInteger 1, DbInteger 0, DbInteger 1]" for df fs ss rs lc vs
  proof -
    have "sqlite_execute ?eg ?jt user_update_sql (vs @ [DbText ?now, DbInteger i]) ?v = (Ok n, ?w1)"
      using upd(1) by (simp only: sqlite_execute_def with_conn_def opens that(3)) (simp add: mapped_def promote_params_def to_rusqlite_value_def del: update_sql_def)
    then show ?thesis using that by (simp add: provider_store_def pv ph bindc_def ret_def)
  qed
  have get: "keeps ?I (provider_get_with_database ?pv e j)" for e j
    unfolding provider_get_with_database_def pv ph by (intro keeps_intros keeps_sqlite others)
  have audit: "keeps ?I (provider_insert_audit ?pv ?jt e a r p t)" "keeps ?I (provider_enqueue_sync ?pv ?jt e a r p t)" for e a r p t
    unfolding provider_insert_audit_def provider_enqueue_sync_def pv ph by (intro keeps_intros keeps_sqlite others)+
  define rest where "rest = (\<lambda>rid. bindc (provider_get_with_database ?pv ''usuarios'' rid) (\<lambda>row.
     case row of
       None \<Rightarrow> fail (''Registro salvo n'' @ u_atilde @ ''o encontrado pelo provider.'')
     | Some saved \<Rightarrow>
         let action = save_action (Some i) in
         bindc (provider_insert_audit ?pv ?jt ''usuarios'' action (Some rid) (JObj saved) ?now) (\<lambda>_.
         bindc (provider_enqueue_sync ?pv ?jt ''usuarios'' action (Some rid) (JObj saved) ?now) (\<lambda>_.
         ret saved))))"
  have "keeps ?I (rest rid)" for rid
    unfolding rest_def Let_def by (auto intro!: keeps_intros get audit split: option.splits)
  then have kept: "?I (snd (rest i ?w1))" by (simp add: keeps_def)
  have jt: "ho_json_text ?ho = ?jt" by (simp add: http_host_def)
  have save: "provider_save_with_database ?ho ?pv ''usuarios'' (arg_payload ?args) (hw_app w) = rest i ?w1"
    using clock promote_values [OF key] texts
    by (simp add: provider_save_with_database_def entity_or_error_def usuarios_entity lift_def bindc_run store rest_def Let_def jt)
  have "?I (hw_app (snd (execute_command sy ''entity_save'' ?args w)))"
    using kept
    by (auto simp: entity_save_handler promote_values [OF key] entity_store_def with_provider_def sqlite_by_default [OF env] bindc_lift_Ok on_app_def
        bindc_def save ret_def split: prod.splits sum.splits)
  moreover have "g u \<in> set (db_usuarios ?w1)" using user by (auto simp: update_users_def)
  ultimately show ?thesis
    using session upd(2) [of u] user
    unfolding master_session_def
    by (intro bexI [of _ se] bexI [of _ "g u"]) (auto simp: update_users_def)
qed

subsection \<open>A small installation\<close>

text \<open>An engine that knows one UPDATE and otherwise answers with one row and changes nothing.\<close>

definition demo_engine :: "(unit, unit app_world) engine" where
  "demo_engine =
     \<lparr>eg_open = (\<lambda>_. Ok ()),
      eg_execute = (\<lambda>sql _ (c, w).
        if starts_with sql ''UPDATE usuarios''
        then (Ok 1, (c, update_users (\<lambda>u. u\<lparr>us_master_user := 1, us_administrador := 1, us_ativo := 1\<rparr>) 2 w)) else (Ok 1, (c, w))),
      eg_query = (\<lambda>_ _ w. (Ok [[(''id'', RefInteger 2)]], w)), eg_last_id = (\<lambda>_. 0)\<rparr>"

definition demo_api_state :: internal_api_state where
  "demo_api_state =
     (let c = api_config_default Map.empty in
      \<lparr>ia_db_path = ''/d/app.db'', ia_data_dir = ''/d'', ia_started_at = ''now'', ia_host = ''127.0.0.1'', ia_port = 61001,
       ia_config = c\<lparr>ac_security := (ac_security c)\<lparr>as_require_token := True, as_token := Some ''t0k''\<rparr>\<rparr>\<rparr>)"

definition demo_front_sys :: "unit front_sys" where
  "demo_front_sys =
     \<lparr>fx_net = \<lparr>nb_addr_err = (\<lambda>_. None), nb_bind = (\<lambda>_ s. (Ok (), s)), nb_udp_local = (\<lambda>s. (None, s))\<rparr>, fx_rt = demo_sys,
      fx_log = demo_log_ctx, fx_get = (\<lambda>_ s. (None, s)), fx_parse = (\<lambda>_. None), fx_client_err = None,
      fx_nonblocking_err = (\<lambda>_. None), fx_spawn_err = (\<lambda>_. None), fx_serve_err = (\<lambda>_. None), fx_now = ''now'', fx_version = ''1''\<rparr>"

definition demo_service_sys :: "unit svc_sys" where
  "demo_service_sys =
     \<lparr>sv_net = fx_net demo_front_sys, sv_get = (\<lambda>_ _. None), sv_spawn_err = (\<lambda>_. None), sv_env = Map.empty, sv_now = ''now'', sv_count = 0\<rparr>"

definition demo_http_sys :: "(unit, unit, unit) command_sys" where
  "demo_http_sys =
     \<lparr>hx_state = demo_api_state, hx_app = demo_app_sys, hx_engine = demo_engine,
      hx_external = (\<lambda>_. sqlite_provider demo_engine (\<lambda>_. [])), hx_front = demo_front_sys, hx_webhook = demo_service_sys,
      hx_websocket = demo_service_sys\<rparr>"

definition demo_service_world :: "unit svc_world" where
  "demo_service_world = \<lparr>vw_slot = None, vw_threads = [], vw_next = 0, vw_net = \<lparr>nw_state = (), nw_events = []\<rparr>\<rparr>"

text \<open>\<open>bob\<close>, who is no master user, has a session with the token \<open>b\<close>.\<close>

definition bob_session :: user_session where
  "bob_session =
     \<lparr>se_usuario_id = 2, se_session_token = ''b'', se_created_at = [], se_expires_at = replicate 9 CHR ''1'', se_last_activity_at = []\<rparr>"

definition demo_http_world :: "(unit, unit) http_world" where
  "demo_http_world =
     \<lparr>hw_app = demo_app_world\<lparr>db_sessions := [bob_session]\<rparr>,
      hw_front = front_start_world \<lparr>nw_state = (), nw_events = []\<rparr> demo_rw
        \<lparr>lw_sync_queue = [], lw_audit_logs = [], lw_app_logs = [], lw_log_file = []\<rparr>,
      hw_webhook = demo_service_world, hw_websocket = demo_service_world, hw_events = \<lparr>hk_events = [], hk_seq = 0\<rparr>,
      hw_hub = \<lparr>hb_clients = [], hb_channels = (\<lambda>_. \<lparr>ch_open = False, ch_queue = []\<rparr>)\<rparr>\<rparr>"

definition front_build :: build_info where
  "front_build = \<lparr>bi_hash = None, bi_env = None, bi_windows = False, bi_linux = True, bi_mysql = False, bi_postgres = False\<rparr>"

definition demo_request :: "string \<Rightarrow> string \<Rightarrow> front_request" where
  "demo_request meth path =
     \<lparr>rq_method = meth, rq_path = path, rq_query = None, rq_headers = [(''accept'', Some ''*'')], rq_body = [],
      rq_command = Some (''app_bootstrap'', [])\<rparr>"

definition demo_proxy :: web_proxy_state where
  "demo_proxy =
     \<lparr>wp_api_base_url = ''http://127.0.0.1:61001'', wp_api_token_header = ''X-App-Token'', wp_api_token = ''t0k'',
      wp_command_state = demo_api_state\<rparr>"

lemma plain_words: "trim ''t0k'' = ''t0k''" "trim ''X-App-Token'' = ''X-App-Token''" "trim ''b'' = ''b''" "trim ''bob'' = ''bob''"
  by (auto intro!: trim_graph simp: graph_char_def)

lemma lower_header: "to_ascii_lowercase ''X-App-Token'' = ''x-app-token''"
  by code_simp

lemma demo_header: "header_name_ok ''X-App-Token''"
  unfolding header_name_ok_def by (intro conjI) (simp, simp, code_simp)

lemma demo_security:
  "as_require_token (ac_security (ia_config demo_api_state))" "as_token (ac_security (ia_config demo_api_state)) = Some ''t0k''"
  "as_token_header (ac_security (ia_config demo_api_state)) = ''X-App-Token''"
  by (simp_all add: demo_api_state_def Let_def api_config_default_def)

lemma demo_received: "received_token (ia_config demo_api_state) (demo_request m p) \<noteq> configured_token (ia_config demo_api_state)"
  by (simp add: received_token_def configured_token_def demo_security demo_request_def header_text_def query_token_def plain_words
      to_ascii_lowercase_def ascii_lower_def Let_def)

theorem api_token_enforced_witness:
  "\<exists>code body. code \<in> {401, 500, 503} \<and>
    handle_api front_build demo_http_sys (demo_request ''GET'' ''/status'') demo_http_world = (Answer code body, demo_http_world)"
proof -
  have "api_route (ia_config (hx_state demo_http_sys)) (rq_method (demo_request ''GET'' ''/status'')) (rq_path (demo_request ''GET'' ''/status'')) = Some (EpStatus, True)"
    by (simp add: demo_http_sys_def demo_request_def api_route_def api_routes_def twice_def method_ok_def)
  from api_token_enforced [OF this] show ?thesis
    by (simp add: demo_http_sys_def demo_security demo_received)
qed

theorem web_front_skips_token_witness:
  "handle_web demo_web_env demo_http_sys demo_proxy (demo_request ''POST'' ''/__internal_api/api/command'') demo_http_world =
    (Answer 200 (JObj [(''ok'', JBool True), (''result'', JObj [(''ok'', JBool True),
       (''runtime'', JObj [(''mode'', JStr ''internal-api-web''), (''isWeb'', JBool True), (''isTauri'', JBool False)]),
       (''database'', JStr ''internal-api'')])]), demo_http_world)"
proof -
  have "execute_command demo_http_sys ''app_bootstrap'' [] demo_http_world = (Ok (JObj [(''ok'', JBool True),
       (''runtime'', JObj [(''mode'', JStr ''internal-api-web''), (''isWeb'', JBool True), (''isTauri'', JBool False)]),
       (''database'', JStr ''internal-api'')]), demo_http_world)"
    by (simp add: execute_command_def handlers_def auth_handlers_def access_handlers_def entity_handlers_def record_handlers_def
        service_handlers_def answer_handlers_def app_answers_def Let_def ret_def runtime_name_def)
  then show ?thesis
    using web_front_skips_token [of "demo_request ''POST'' ''/__internal_api/api/command''" "''app_bootstrap''" "[]" demo_proxy demo_http_sys front_build demo_http_world demo_web_env]
    by (simp add: demo_request_def [of "''POST''"] demo_http_sys_def demo_proxy_def demo_security demo_received [unfolded demo_request_def] command_response_def)
qed

theorem proxy_lends_token_witness:
  "token_guard (ia_config demo_api_state)
    \<lparr>rq_method = ''GET'', rq_path = ''/status'', rq_query = None, rq_headers = [(''accept'', Some ''*''), (''x-app-token'', Some ''t0k'')],
     rq_body = [], rq_command = None\<rparr> = None"
proof -
  have up: "proxy_internal_api demo_proxy (demo_request ''GET'' ''/__internal_api/status'') =
    Forward \<lparr>up_method = ''GET'', up_url = upstream_url ''http://127.0.0.1:61001'' (demo_request ''GET'' ''/__internal_api/status''),
      up_headers = [(''accept'', ''*''), (''x-app-token'', ''t0k'')], up_body = []\<rparr>"
    by (simp add: proxy_internal_api_def demo_proxy_def demo_request_def plain_words lower_header)
  show ?thesis
    by (rule proxy_lends_token [OF up])
      (simp_all add: demo_proxy_def demo_security plain_words lower_header demo_header)
qed

definition strict_app_sys :: "unit app_sys" where
  "strict_app_sys = demo_app_sys\<lparr>sa_crypto := demo_crypto\<lparr>cr_argon_verify := (\<lambda>p h. p = h)\<rparr>\<rparr>"

definition strict_http_sys :: "(unit, unit, unit) command_sys" where
  "strict_http_sys = demo_http_sys\<lparr>hx_app := strict_app_sys\<rparr>"

lemma strict_connects:
  "http_connect strict_http_sys v = (Ok (), v)" "connect (hx_app strict_http_sys) v = (Ok (), v)"
  "http_connect demo_http_sys v = (Ok (), v)" "connect (hx_app demo_http_sys) v = (Ok (), v)"
  "sa_fail (hx_app strict_http_sys) msg = None"
  by (simp_all add: http_connect_def connect_def lift_def open_connection_def state_db_path_def strict_http_sys_def strict_app_sys_def
      demo_http_sys_def demo_app_sys_def)

definition bob_world :: "unit app_world" where
  "bob_world = hw_app demo_http_world"

theorem http_login_trims_witness:
  "(\<exists>r v. execute_command strict_http_sys ''auth_login'' (login_args ''bob'' '' secret'') demo_http_world =
       (and_then r (\<lambda>x. Ok (login_json x)), demo_http_world\<lparr>hw_app := v\<rparr>) \<and>
     (r, v) = complete_login_http strict_app_sys (demo_user 2 ''bob'' 0) bob_world) \<and>
   fst (auth_login strict_app_sys ''bob'' '' secret'' bob_world) = Ok (login_refused (''Senha inv'' @ u_aacute @ ''lida.''))"
proof -
  have "trim_start '' secret'' = trim_start ''secret''"
    unfolding trim_start_def by (subst strip_seqs.simps) (simp add: ws_seqs_def)
  then have t: "trim '' secret'' = ''secret''" "trim ''bob'' = ''bob''"
    using trim_graph [of "''secret''"] trim_graph [of "''bob''"] by (simp_all add: trim_def graph_char_def)
  have sys: "hx_app strict_http_sys = strict_app_sys" "hw_app demo_http_world = bob_world" by (simp_all add: strict_http_sys_def bob_world_def)
  have "query (hx_app strict_http_sys) (''Falha ao consultar usu'' @ u_aacute @ ''rio'') (user_by_login (hx_app strict_http_sys) ''bob'') (hw_app demo_http_world) =
      (Ok (Some (demo_user 2 ''bob'' 0)), hw_app demo_http_world)"
    by (simp add: query_def user_by_login_def t strict_http_sys_def strict_app_sys_def demo_app_sys_def demo_http_world_def demo_app_world_def
        demo_user_def to_ascii_lowercase_def ascii_lower_def)
  moreover have "us_ativo (demo_user 2 ''bob'' 0) \<noteq> 0"
    "verify_password (sa_crypto (hx_app strict_http_sys)) (trim '' secret'') (us_senha_hash (demo_user 2 ''bob'' 0)) = Ok True"
    "verify_password (sa_crypto (hx_app strict_http_sys)) '' secret'' (us_senha_hash (demo_user 2 ''bob'' 0)) = Ok False"
    by (simp_all add: t verify_password_def strict_http_sys_def strict_app_sys_def demo_crypto_def demo_user_def)
  ultimately show ?thesis
    using http_login_trims [OF strict_connects(1,2), of "''bob''" "'' secret''" demo_http_world] unfolding sys by blast
qed

lemma bob_is_known:
  "require_session_by_token (hx_app strict_http_sys) (trim ''b'') bob_world =
    (Ok \<lparr>si_user_id = 2, si_master_user = False\<rparr>,
     bob_world\<lparr>aw_reads := 1, db_sessions := [bob_session\<lparr>se_last_activity_at := replicate 5 CHR ''1''\<rparr>]\<rparr>)"
  by (simp add: require_session_by_token_def Let_def plain_words bindc_def clock_text_def clock_def query_def exec_def ensure_def ret_def
      session_rows_def touch_session_def strict_http_sys_def strict_app_sys_def demo_http_sys_def bob_world_def demo_http_world_def
      bob_session_def demo_app_defs replicate_less)

theorem http_password_without_old_witness:
  "\<exists>w'. auth_change_password_http strict_http_sys [(''session_token'', JStr ''b''), (''new_password'', JStr ''abcdef'')] bob_world =
     (Ok (JBool True), w')"
proof -
  have t: "trim ''abcdef'' = ''abcdef''" by (rule trim_graph) (simp_all add: graph_char_def)
  let ?v = "bob_world\<lparr>aw_reads := 1, db_sessions := [bob_session\<lparr>se_last_activity_at := replicate 5 CHR ''1''\<rparr>]\<rparr>"
  have user: "find_user (si_user_id \<lparr>si_user_id = 2, si_master_user = False\<rparr>) ?v = Some (demo_user 2 ''bob'' 0)"
    by (simp add: find_user_def bob_world_def demo_http_world_def demo_app_world_def demo_user_def)
  have hash: "hash_new_password (hx_app strict_http_sys) (trim ''abcdef'') ?v = (Ok ''sabcdef'', ?v)"
    by (simp add: t hash_new_password_def hash_password_def strict_http_sys_def strict_app_sys_def demo_http_sys_def demo_app_sys_def
        demo_crypto_def bob_world_def demo_http_world_def demo_app_world_def)
  have wrong: "verify_password (sa_crypto (hx_app strict_http_sys)) [] (us_senha_hash (demo_user 2 ''bob'' 0)) = Ok False"
    by (simp add: verify_password_def strict_http_sys_def strict_app_sys_def demo_http_sys_def demo_crypto_def demo_user_def)
  have long: "6 \<le> length (trim ''abcdef'')" by (simp add: t)
  show ?thesis
    using http_password_without_old [OF strict_connects(1,2,5) bob_is_known user hash long wrong] by blast
qed

theorem text_key_resets_password_witness:
  "\<exists>p. with_password (http_host demo_http_sys) [(''id'', JStr ''2''), (''nome'', JStr ''Bob'')] demo_app_world = (Ok p, demo_app_world) \<and>
     record_id p = Some 2 \<and> (''senha_hash'', JStr ''s123456'') \<in> set (record_fields [''senha_hash''] (add_missing ''ativo'' (js_int 1) p) [])"
proof -
  let ?p = "[(''id'', JStr ''2''), (''nome'', JStr ''Bob'')]"
  have key: "obj_get ?p ''id'' = Some (JStr ''2'')" "parse_i64 ''2'' = Some 2" "(0 :: int) < 2" "user_password ?p = []"
    by (simp_all add: parse_i64_def parse_unsigned_def is_ascii_digit_def read_digits_def digit_val_def user_password_def)
  have hash: "ho_hash_password (http_host demo_http_sys) ''123456'' demo_app_world = (Ok ''s123456'', demo_app_world)"
    by (simp add: http_host_def demo_http_sys_def hash_new_password_def hash_password_def demo_app_sys_def demo_crypto_def demo_app_world_def)
  show ?thesis
    using text_key_resets_password [OF key hash, of "[''senha_hash'']" "[]"] by auto
qed

theorem entity_save_escalates_witness:
  "master_session demo_app_sys ''b''
    (hw_app (snd (execute_command demo_http_sys ''entity_save'' (promote_args 2 ''bob'' ''bob'') demo_http_world))) 2"
proof -
  have sys: "hx_app demo_http_sys = demo_app_sys" "hx_engine demo_http_sys = demo_engine" by (simp_all add: demo_http_sys_def)
  have "master_session (hx_app demo_http_sys) ''b''
    (hw_app (snd (execute_command demo_http_sys ''entity_save'' (promote_args 2 ''bob'' ''bob'') demo_http_world))) 2"
    by (rule entity_save_escalates [where cz = "()" and ce = "()" and n = 1 and se = bob_session and u = "demo_user 2 ''bob'' 0"
        and g = "\<lambda>u. u\<lparr>us_master_user := 1, us_administrador := 1, us_ativo := 1\<rparr>"])
      (simp_all add: sys plain_words, simp_all add: demo_engine_def hx_env_def demo_http_sys_def demo_app_sys_def update_sql_def leaves_access_def
        demo_http_world_def bob_session_def demo_app_world_def replicate_less demo_user_def plain_words
        provider_audit_sql_def provider_sync_sql_def split_beta)
  then show ?thesis by (simp add: sys)
qed

end
