(* ===== verification/Companies.thy ===== *)
theory Companies
  imports Entities
begin

text \<open>
  The companies, \<^verbatim>\<open>commands/companies.rs\<close>: the checks of a company before it is stored, the commands
  on the table, and the lookup of a company by its number at two public services, with a limit per
  minute, a pause after a refusal and a cache, all three kept in memory of the process. The lock on
  that memory is taken for each access, not for a whole lookup. Case mapping outside ASCII is a
  parameter.
\<close>

subsection \<open>Values of a payload\<close>

definition company_flag :: "json_obj \<Rightarrow> string \<Rightarrow> bool \<Rightarrow> int" where
  "company_flag payload key d =
     (case obj_get payload key of
        Some (JBool b) \<Rightarrow> of_bool b
      | Some (JNum n) \<Rightarrow> of_bool (unwrap_or 0 (num_as_i64 n) \<noteq> 0)
      | Some (JStr t) \<Rightarrow> of_bool (trim t \<in> {''1'', ''true'', ''TRUE'', ''sim'', ''SIM''})
      | _ \<Rightarrow> of_bool d)"

definition digits_of :: "string \<Rightarrow> string" where
  "digits_of s = filter is_ascii_digit s"

definition ascii_alnum :: "char \<Rightarrow> bool" where
  "ascii_alnum c \<longleftrightarrow> is_ascii_digit c \<or> CHR ''a'' \<le> ascii_lower c \<and> ascii_lower c \<le> CHR ''z''"

definition normalize_document_key :: "string \<Rightarrow> string" where
  "normalize_document_key s = map ascii_upper (filter ascii_alnum s)"

definition normalize_registration :: "(string \<Rightarrow> string) \<Rightarrow> string \<Rightarrow> string" where
  "normalize_registration up text =
     (let upper = up text; digits = digits_of upper in
      if upper = ''ISENTO'' then upper
      else if digits \<noteq> [] \<and> length digits = length (filter is_ascii_digit upper) then digits
      else upper)"

definition normalize_optional_registration :: "(string \<Rightarrow> string) \<Rightarrow> string option \<Rightarrow> string option" where
  "normalize_optional_registration up v =
     map_option (normalize_registration up) (opt_filter (\<lambda>t. t \<noteq> []) (map_option trim v))"

definition normalize_upper_uf :: "(string \<Rightarrow> string) \<Rightarrow> string option \<Rightarrow> string option" where
  "normalize_upper_uf up v = opt_filter (\<lambda>t. t \<noteq> []) (map_option up v)"

subsection \<open>Documents\<close>

definition weighted_sum :: "nat list \<Rightarrow> nat list \<Rightarrow> nat" where
  "weighted_sum ns ws = sum_list (map (\<lambda>(n, k). n * k) (zip ns ws))"

definition check_digit :: "nat \<Rightarrow> nat" where
  "check_digit s = (let r = s mod 11 in if r < 2 then 0 else 11 - r)"

definition all_same :: "string \<Rightarrow> bool" where
  "all_same s \<longleftrightarrow> list_all (\<lambda>c. c = hd s) s"

definition is_valid_cpf :: "string \<Rightarrow> bool" where
  "is_valid_cpf value =
     (let digits = digits_of value; nums = map digit_val digits in
      if length digits \<noteq> 11 then False
      else if all_same digits then False
      else if nums ! 9 \<noteq> check_digit (weighted_sum (take 9 nums) (rev [2..<11])) then False
      else nums ! 10 = check_digit (weighted_sum (take 10 nums) (rev [2..<12])))"

definition is_valid_cnpj :: "string \<Rightarrow> bool" where
  "is_valid_cnpj value =
     (let digits = digits_of value; nums = map digit_val digits in
      if length digits \<noteq> 14 then False
      else if all_same digits then False
      else if nums ! 12 \<noteq> check_digit (weighted_sum (take 12 nums) [5, 4, 3, 2, 9, 8, 7, 6, 5, 4, 3, 2]) then False
      else nums ! 13 = check_digit (weighted_sum (take 13 nums) [6, 5, 4, 3, 2, 9, 8, 7, 6, 5, 4, 3, 2]))"

definition validate_company_document :: "string \<Rightarrow> bool" where
  "validate_company_document document =
     (let normalized = normalize_document_key document; digits = digits_of normalized; d = length digits; n = length normalized in
      if n < 3 then False
      else if d = 11 \<and> d = n then is_valid_cpf digits
      else if d = 14 \<and> d = n then is_valid_cnpj digits
      else if d = 0 then 3 \<le> n \<and> n \<le> 20
      else if d = n then 3 \<le> d \<and> d \<le> 20
      else 3 \<le> n \<and> n \<le> 20)"

subsection \<open>Statements\<close>

text \<open>Lines of a statement with their indentation.\<close>

definition indented :: "string \<Rightarrow> (nat \<times> string) list \<Rightarrow> string" where
  "indented first rest = first @ concat (map (\<lambda>(n, l). CHR 0x0A # replicate n CHR '' '' @ l) rest)"

definition company_select_sql :: string where
  "company_select_sql =
     indented ''SELECT id, nome, nome_fantasia, documento, inscricao_estadual, inscricao_municipal, telefone, email,''
       [(12, ''responsavel_nome, responsavel_telefone, cep, endereco, numero, complemento, bairro, cidade,''),
        (12, ''estado, observacoes, ativo, created_at, updated_at''), (5, ''FROM empresas'')]"

definition company_columns :: "string list" where
  "company_columns =
     [''nome'', ''nome_fantasia'', ''documento'', ''inscricao_estadual'', ''inscricao_municipal'', ''telefone'', ''email'',
      ''responsavel_nome'', ''responsavel_telefone'', ''cep'', ''endereco'', ''numero'', ''complemento'', ''bairro'',
      ''cidade'', ''estado'', ''observacoes'', ''ativo'']"

definition company_update_sql :: string where
  "company_update_sql =
     ''UPDATE empresas'' @ CHR 0x0A # replicate 13 CHR '' '' @ ''SET '' @
     join ('','' @ CHR 0x0A # replicate 17 CHR '' '') (numbered nth_mark (company_columns @ [''updated_at'']) (\<lambda>i c. c @ '' = '' @ nth_mark i)) @
     CHR 0x0A # replicate 13 CHR '' '' @ ''WHERE id = ?20''"

definition company_insert_sql :: string where
  "company_insert_sql =
     indented ''INSERT INTO empresas (''
       [(16, ''nome, nome_fantasia, documento, inscricao_estadual, inscricao_municipal, telefone, email,''),
        (16, ''responsavel_nome, responsavel_telefone, cep, endereco, numero, complemento, bairro,''),
        (16, ''cidade, estado, observacoes, ativo, created_at, updated_at''),
        (13, '') VALUES ('' @ join '', '' (map nth_mark [1..<20]) @ '', ?19)'')]"

definition duplicate_sql :: string where
  "duplicate_sql =
     (let none = [CHR 0x27, CHR 0x27] in
      ''SELECT id FROM empresas WHERE UPPER(REPLACE(REPLACE(REPLACE(COALESCE(documento, '' @ none @ ''), '.', '' @ none @
      ''), '-', '' @ none @ ''), '/', '' @ none @ '')) = ?1 AND (?2 IS NULL OR id <> ?2) LIMIT 1'')"

definition company_list_sql :: "bool \<Rightarrow> bool \<Rightarrow> string" where
  "company_list_sql searched only_active =
     company_select_sql @ '' WHERE 1=1'' @
     (if searched then '' AND (nome LIKE ? OR nome_fantasia LIKE ? OR documento LIKE ? OR cidade LIKE ?)'' else []) @
     (if only_active then '' AND ativo = 1'' else []) @ '' ORDER BY nome ASC''"

definition opt_text :: "string option \<Rightarrow> sql_value" where
  "opt_text v = (case v of None \<Rightarrow> SqlNull | Some s \<Rightarrow> SqlText s)"

subsection \<open>Commands on the table\<close>

definition company_list :: "('c, 'd) host_sys \<Rightarrow> json_obj \<Rightarrow> (json_obj list, 'd) cmd" where
  "company_list sy filters =
     local_conn sy
       (let search = unwrap_or [] (get_string filters ''search''); wildcard = ''%'' @ search @ ''%'';
            doc = (if digits_of search = [] then wildcard else ''%'' @ digits_of search @ ''%'') in
        bindc (local_query sy
          (query_error_text ''Falha ao preparar listagem de empresas'' ''Falha ao executar listagem de empresas'' ''Falha ao mapear empresas'')
          (company_list_sql (search \<noteq> []) (company_flag filters ''onlyActive'' False = 1))
          (if search = [] then [] else map SqlText [wildcard, wildcard, doc, wildcard])) (\<lambda>rows.
        ret (map row_to_json_map rows)))"

definition company_row :: "('c, 'd) host_sys \<Rightarrow> string \<Rightarrow> string \<Rightarrow> int \<Rightarrow> (json_obj, 'c \<times> 'd) cmd" where
  "company_row sy msg missing i =
     bindc (local_row sy msg (company_select_sql @ '' WHERE id = ?1'') [SqlInteger i]) (\<lambda>row.
     case row of None \<Rightarrow> fail missing | Some r \<Rightarrow> ret (row_to_json_map r))"

definition company_get :: "('c, 'd) host_sys \<Rightarrow> int \<Rightarrow> (json_obj, 'd) cmd" where
  "company_get sy i = local_conn sy (company_row sy ''Falha ao consultar empresa'' (''Empresa n'' @ u_atilde @ ''o encontrada.'') i)"

text \<open>The checks of a payload before anything is asked of the database: name, document, e-mail and federal unit.\<close>

record company_form =
  cf_nome :: string
  cf_documento :: string
  cf_email :: "string option"
  cf_estado :: "string option"

definition check_company :: "(string \<Rightarrow> string) \<Rightarrow> json_obj \<Rightarrow> (company_form, string) result" where
  "check_company up payload =
     and_then (ok_or (''Informe a raz'' @ u_atilde @ ''o social da empresa.'') (get_string payload ''nome'')) (\<lambda>nome.
     and_then (ok_or (''Informe o documento da empresa usu'' @ u_aacute @ ''ria.'') (get_string payload ''documento'')) (\<lambda>documento_raw.
     let documento = normalize_document_key documento_raw; email = get_string payload ''email'';
         estado = normalize_upper_uf up (get_string payload ''estado'') in
     if \<not> validate_company_document documento then
       Err (''Documento inv'' @ u_aacute @ ''lido para empresa usu'' @ u_aacute @ ''ria. Informe CPF/CNPJ v'' @ u_aacute @ ''lido ou identificador interno compat'' @ u_iacute @ ''vel com o cadastro local.'')
     else if (case email of Some value \<Rightarrow> \<not> validate_email value | None \<Rightarrow> False) then Err (''E-mail da empresa '' @ u_eacute @ '' inv'' @ u_aacute @ ''lido.'')
     else if (case estado of Some uf \<Rightarrow> length uf \<noteq> 2 | None \<Rightarrow> False) then Err ''UF da empresa deve conter 2 caracteres.''
     else Ok \<lparr>cf_nome = nome, cf_documento = documento, cf_email = email, cf_estado = estado\<rparr>))"

definition company_duplicate :: "('c, 'd) host_sys \<Rightarrow> string \<Rightarrow> int option \<Rightarrow> (int option, 'c \<times> 'd) cmd" where
  "company_duplicate sy documento i =
     (let msg = ''Falha ao validar documento da empresa'' in
      bindc (local_row sy msg duplicate_sql [SqlText documento, opt_sql i]) (\<lambda>row.
      case row of
        None \<Rightarrow> ret None
      | Some r \<Rightarrow> lift (map_err (\<lambda>err. msg @ '': '' @ err) (and_then (get_col r 0 ref_i64) (\<lambda>d. Ok (Some d))))))"

text \<open>The values of the columns, in the order of \<open>company_columns\<close>.\<close>

definition company_values :: "(string \<Rightarrow> string) \<Rightarrow> json_obj \<Rightarrow> company_form \<Rightarrow> sql_value list" where
  "company_values up payload f =
     (let text = (\<lambda>k. opt_text (get_string payload k)); number = (\<lambda>k. opt_text (map_option digits_of (get_string payload k)));
          registration = (\<lambda>k. opt_text (normalize_optional_registration up (get_string payload k))) in
      [SqlText (cf_nome f), text ''nome_fantasia'', SqlText (cf_documento f), registration ''inscricao_estadual'',
       registration ''inscricao_municipal'', number ''telefone'', opt_text (cf_email f), text ''responsavel_nome'',
       number ''responsavel_telefone'', number ''cep'', text ''endereco'', text ''numero'', text ''complemento'', text ''bairro'',
       text ''cidade'', opt_text (cf_estado f), text ''observacoes'', SqlInteger (company_flag payload ''ativo'' True)])"

definition store_company :: "('c, 'd) host_sys \<Rightarrow> int option \<Rightarrow> sql_value list \<Rightarrow> string \<Rightarrow> (int, 'c \<times> 'd) cmd" where
  "store_company sy i values now =
     (case i of
        Some existing_id \<Rightarrow>
          bindc (local_execute sy ''Falha ao atualizar empresa'' company_update_sql (values @ [SqlText now, SqlInteger existing_id]))
            (\<lambda>_. ret existing_id)
      | None \<Rightarrow>
          bindc (local_execute sy ''Falha ao inserir empresa'' company_insert_sql (values @ [SqlText now]))
            (\<lambda>_ w. ret (eg_last_id (ho_engine sy) (fst w)) w))"

definition company_save :: "('c, 'd) host_sys \<Rightarrow> (string \<Rightarrow> string) \<Rightarrow> json_obj \<Rightarrow> (json_obj, 'd) cmd" where
  "company_save sy up payload =
     local_conn sy
       (let i = get_id payload in
        bindc (beside (ho_now sy)) (\<lambda>now.
        bindc (lift (check_company up payload)) (\<lambda>f.
        bindc (company_duplicate sy (cf_documento f) i) (\<lambda>duplicate_id.
        bindc (ensure (duplicate_id = None) (''J'' @ u_aacute @ '' existe uma empresa usu'' @ u_aacute @ ''ria com este documento.'')) (\<lambda>_.
        bindc (store_company sy i (company_values up payload f) now) (\<lambda>record_id.
        bindc (company_row sy ''Falha ao reler empresa salva'' (''Empresa salva n'' @ u_atilde @ ''o encontrada.'') record_id) (\<lambda>saved.
        bindc (conn_write_audit sy ''empresas'' (save_action i) (Some record_id) (JObj saved)) (\<lambda>_.
        bindc (conn_enqueue_sync sy ''empresas'' (save_action i) (Some record_id) (JObj saved)) (\<lambda>_.
        ret saved)))))))))"

definition company_delete :: "('c, 'd) host_sys \<Rightarrow> int \<Rightarrow> (bool, 'd) cmd" where
  "company_delete sy i =
     local_conn sy
       (bindc (local_execute sy ''Falha ao excluir empresa'' ''DELETE FROM empresas WHERE id = ?1'' [SqlInteger i]) (\<lambda>affected.
        if affected = 0 then ret False
        else
          bindc (conn_write_audit sy ''empresas'' ''delete'' (Some i) (delete_payload ''empresas'' i)) (\<lambda>_.
          bindc (conn_enqueue_sync sy ''empresas'' ''delete'' (Some i) (delete_payload ''empresas'' i)) (\<lambda>_.
          ret True))))"

subsection \<open>Answers of the public services\<close>

definition nonempty :: "string option \<Rightarrow> string option" where
  "nonempty v = opt_filter (\<lambda>t. t \<noteq> []) v"

fun json_string :: "json \<Rightarrow> string option" where
  "json_string (JStr t) = nonempty (Some (trim t))"
| "json_string (JNum n) = Some (show_number n)"
| "json_string _ = None"

definition optional_json_string :: "json option \<Rightarrow> string option" where
  "optional_json_string v = Option.bind v json_string"

fun json_flag :: "json \<Rightarrow> bool option" where
  "json_flag (JBool b) = Some b"
| "json_flag (JNum n) = Some (unwrap_or 0 (num_as_i64 n) \<noteq> 0)"
| "json_flag (JStr t) = Some (trim t \<in> {''1'', ''true'', ''TRUE'', ''sim'', ''SIM'', ''ativo'', ''ATIVO''})"
| "json_flag _ = None"

definition optional_json_bool :: "json option \<Rightarrow> bool option" where
  "optional_json_bool v = Option.bind v json_flag"

text \<open>The state registration for a federal unit: the first active entry of that unit, then the first of any.\<close>

definition registration_of :: "(string \<Rightarrow> string) \<Rightarrow> string option \<Rightarrow> json list \<Rightarrow> string option" where
  "registration_of up current_uf items =
     (let ie = (\<lambda>item. optional_json_string (json_get item ''inscricao_estadual''));
          sigla = (\<lambda>item. unwrap_or [] (map_option up (Option.bind (Option.bind (json_get item ''estado'') (\<lambda>e. json_get e ''sigla'')) as_str)));
          of_uf = Option.bind current_uf (\<lambda>target_uf.
            Option.bind (find (\<lambda>item. sigla item = target_uf \<and> unwrap_or True (optional_json_bool (json_get item ''ativo''))) items) ie)
      in or_else of_uf (case List.map_filter ie items of [] \<Rightarrow> None | v # _ \<Rightarrow> Some v))"

definition clean_uf :: "(string \<Rightarrow> string) \<Rightarrow> string option \<Rightarrow> string option" where
  "clean_uf up uf = nonempty (map_option (\<lambda>v. up (trim v)) uf)"

definition field_texts :: "json_obj \<Rightarrow> (string \<times> string) list \<Rightarrow> json_obj" where
  "field_texts obj names = map (\<lambda>(k, source). (k, JStr (unwrap_or [] (optional_json_string (obj_get obj source))))) names"

definition parse_publica_ws_response ::
  "(string \<Rightarrow> (json, string) result) \<Rightarrow> (string \<Rightarrow> string) \<Rightarrow> string \<Rightarrow> string option \<Rightarrow> (json_obj, string) result" where
  "parse_publica_ws_response parse up body uf_hint =
     and_then (map_err (\<lambda>err. ''Falha ao interpretar resposta do CNPJ.ws: '' @ err) (parse body)) (\<lambda>parsed.
     and_then (ok_or (''Resposta inv'' @ u_aacute @ ''lida do CNPJ.ws.'') (as_object parsed)) (\<lambda>root.
     and_then (ok_or ''Resposta do CNPJ.ws sem estabelecimento.'' (Option.bind (obj_get root ''estabelecimento'') as_object)) (\<lambda>est.
     let estado_obj = Option.bind (obj_get est ''estado'') as_object;
         cidade_obj = Option.bind (obj_get est ''cidade'') as_object;
         text = (\<lambda>obj k. unwrap_or [] (optional_json_string (obj_get obj k)));
         current_uf = or_else (clean_uf up uf_hint)
           (map_option up (optional_json_string (Option.bind estado_obj (\<lambda>obj. obj_get obj ''sigla''))));
         inscricao_estadual = Option.bind (Option.bind (obj_get est ''inscricoes_estaduais'') as_array) (registration_of up current_uf)
     in Ok (field_texts root [(''nome'', ''razao_social'')] @ field_texts est [(''nome_fantasia'', ''nome_fantasia'')] @
        [(''documento'', JStr (text root ''cnpj_raiz'' @ text root ''cnpj_ordem'' @ text root ''cnpj_digito_verificador'')),
         (''inscricao_estadual'', JStr (unwrap_or ''ISENTO'' inscricao_estadual)),
         (''telefone'', JStr (trim (text est ''ddd1'' @ text est ''telefone1'')))] @
        field_texts est [(''email'', ''email''), (''cep'', ''cep''), (''endereco'', ''logradouro''), (''numero'', ''numero''),
          (''complemento'', ''complemento''), (''bairro'', ''bairro'')] @
        [(''cidade'', JStr (unwrap_or [] (optional_json_string (Option.bind cidade_obj (\<lambda>obj. obj_get obj ''nome''))))),
         (''estado'', JStr (unwrap_or [] current_uf))] @
        field_texts est [(''inscricao_municipal'', ''inscricao_municipal'')] @
        [(''source'', JStr ''publica_cnpj_ws'')]))))"

definition parse_receita_ws_response ::
  "(string \<Rightarrow> (json, string) result) \<Rightarrow> (string \<Rightarrow> string) \<Rightarrow> string \<Rightarrow> (json_obj, string) result" where
  "parse_receita_ws_response parse up body =
     and_then (map_err (\<lambda>err. ''Falha ao interpretar resposta do ReceitaWS: '' @ err) (parse body)) (\<lambda>parsed.
     and_then (ok_or (''Resposta inv'' @ u_aacute @ ''lida do ReceitaWS.'') (as_object parsed)) (\<lambda>root.
     if (case optional_json_string (obj_get root ''status'') of Some status \<Rightarrow> eq_ignore_ascii_case status ''ERROR'' | None \<Rightarrow> False)
     then Err (unwrap_or ''ReceitaWS retornou erro.'' (optional_json_string (obj_get root ''message'')))
     else
       Ok (field_texts root [(''nome'', ''nome''), (''nome_fantasia'', ''fantasia''), (''documento'', ''cnpj'')] @
         [(''inscricao_estadual'', JStr (unwrap_or ''ISENTO'' (optional_json_string (obj_get root ''ie''))))] @
         field_texts root [(''telefone'', ''telefone''), (''email'', ''email''), (''cep'', ''cep''), (''endereco'', ''logradouro''),
           (''numero'', ''numero''), (''complemento'', ''complemento''), (''bairro'', ''bairro''), (''cidade'', ''municipio'')] @
         [(''estado'', JStr (up (unwrap_or [] (optional_json_string (obj_get root ''uf''))))),
          (''source'', JStr ''receita_ws'')])))"

subsection \<open>Limit, pause and cache\<close>

record provider_rate =
  pr_window_start :: int
  pr_recent :: "int list"
  pr_cooldown_until :: int

record lookup_runtime =
  lr_providers :: "(string \<times> provider_rate) list"
  lr_cache :: "(string \<times> (int \<times> json_obj)) list"

definition fresh_rate :: "int \<Rightarrow> provider_rate" where
  "fresh_rate now = \<lparr>pr_window_start = now, pr_recent = [], pr_cooldown_until = 0\<rparr>"

definition purge_old_requests :: "int \<Rightarrow> int list \<Rightarrow> int list" where
  "purge_old_requests now recent = dropWhile (\<lambda>t. 60 \<le> now - t) recent"

definition sanitize_lookup_cache :: "int \<Rightarrow> lookup_runtime \<Rightarrow> lookup_runtime" where
  "sanitize_lookup_cache now rt = rt\<lparr>lr_cache := filter (\<lambda>(_, expires_at, _). now < expires_at) (lr_cache rt)\<rparr>"

definition rate_of :: "lookup_runtime \<Rightarrow> string \<Rightarrow> int \<Rightarrow> provider_rate" where
  "rate_of rt key now = unwrap_or (fresh_rate now) (map_of (lr_providers rt) key)"

definition set_rate :: "string \<Rightarrow> provider_rate \<Rightarrow> lookup_runtime \<Rightarrow> lookup_runtime" where
  "set_rate key st rt = rt\<lparr>lr_providers := hm_insert key st (lr_providers rt)\<rparr>"

definition renew_window :: "int \<Rightarrow> provider_rate \<Rightarrow> provider_rate" where
  "renew_window now st =
     (let st1 = (if pr_window_start st + 60 \<le> now then st\<lparr>pr_window_start := now, pr_recent := []\<rparr> else st)
      in st1\<lparr>pr_recent := purge_old_requests now (pr_recent st1)\<rparr>)"

definition provider_can_run :: "string \<Rightarrow> int \<Rightarrow> nat \<Rightarrow> lookup_runtime \<Rightarrow> (unit, string) result \<times> lookup_runtime" where
  "provider_can_run key now limit rt =
     (let st = renew_window now (rate_of rt key now) in
      if now < pr_cooldown_until st then
        (Err (''Provedor em cooldown por '' @ show_int (pr_cooldown_until st - now) @ '' segundo(s).''), set_rate key st rt)
      else if limit \<le> length (pr_recent st) then
        (Err (''Limite por minuto atingido ('' @ show_nat limit @ '' req/min).''), set_rate key st rt)
      else (Ok (), set_rate key (st\<lparr>pr_recent := pr_recent st @ [now]\<rparr>) rt))"

definition provider_mark_cooldown :: "string \<Rightarrow> int \<Rightarrow> int \<Rightarrow> lookup_runtime \<Rightarrow> lookup_runtime" where
  "provider_mark_cooldown key now cooldown rt = set_rate key ((rate_of rt key now)\<lparr>pr_cooldown_until := now + cooldown\<rparr>) rt"

subsection \<open>Lookup\<close>

text \<open>
  \<open>lk_fetch\<close> is a GET request: the error of sending it, or the status with the body or the error of
  reading it. \<open>lk_seconds\<close> is the clock in seconds.
\<close>

record ('g, 's) lookup_world =
  lw_app :: "'g app_world"
  lw_runtime :: lookup_runtime
  lw_net :: 's

record ('c, 'g, 's) lookup_sys =
  lk_app :: "'g app_sys"
  lk_host :: "('c, 'g app_world) host_sys"
  lk_fetch :: "string \<Rightarrow> 's \<Rightarrow> (nat \<times> (string, string) result, string) result \<times> 's"
  lk_parse :: "string \<Rightarrow> (json, string) result"
  lk_upper :: "string \<Rightarrow> string"
  lk_seconds :: "(int, 'g app_world) cmd"

type_synonym ('a, 'c, 'g, 's) lookup_cmd = "('a, 'c \<times> ('g, 's) lookup_world) cmd"

definition on_conn :: "('a, 'c \<times> 'g app_world) cmd \<Rightarrow> ('a, 'c, 'g, 's) lookup_cmd" where
  "on_conn m cw = (case m (fst cw, lw_app (snd cw)) of (r, (c, a)) \<Rightarrow> (r, (c, (snd cw)\<lparr>lw_app := a\<rparr>)))"

definition on_runtime :: "(lookup_runtime \<Rightarrow> 'a \<times> lookup_runtime) \<Rightarrow> ('a, 'c, 'g, 's) lookup_cmd" where
  "on_runtime f cw = (case f (lw_runtime (snd cw)) of (x, rt) \<Rightarrow> (Ok x, (fst cw, (snd cw)\<lparr>lw_runtime := rt\<rparr>)))"

definition setting_row :: "('c, 'd) host_sys \<Rightarrow> string \<Rightarrow> (string option, 'c \<times> 'd) cmd" where
  "setting_row sy key =
     (let msg = (''Falha ao consultar configura'' @ u_ccedil @ u_atilde @ ''o '') @ key in
      bindc (local_row sy msg ''SELECT valor FROM app_settings WHERE chave = ?1 LIMIT 1'' [SqlText key]) (\<lambda>row.
      case row of
        None \<Rightarrow> ret None
      | Some r \<Rightarrow> lift (map_err (\<lambda>err. msg @ '': '' @ err) (and_then (get_col r 0 ref_string) (\<lambda>v. Ok (Some v))))))"

definition get_setting_url :: "('c, 'd) host_sys \<Rightarrow> string \<Rightarrow> string \<Rightarrow> (string, 'c \<times> 'd) cmd" where
  "get_setting_url sy key d = bindc (setting_row sy key) (\<lambda>raw. ret (unwrap_or d (nonempty (map_option trim raw))))"

definition get_setting_i64 :: "('c, 'd) host_sys \<Rightarrow> string \<Rightarrow> int \<Rightarrow> int \<Rightarrow> int \<Rightarrow> (int, 'c \<times> 'd) cmd" where
  "get_setting_i64 sy key d lo hi =
     bindc (setting_row sy key) (\<lambda>raw. ret (min hi (max lo (unwrap_or d (Option.bind raw (\<lambda>v. parse_i64 (trim v)))))))"

record lookup_limits =
  ll_per_minute :: nat
  ll_cooldown :: int
  ll_ttl :: int

definition lookup_limits_of :: "('c, 'd) host_sys \<Rightarrow> (lookup_limits, 'c \<times> 'd) cmd" where
  "lookup_limits_of sy =
     bindc (get_setting_i64 sy ''company_lookup_rate_limit_per_minute'' 3 1 30) (\<lambda>limit.
     bindc (get_setting_i64 sy ''company_lookup_cooldown_seconds'' 90 15 900) (\<lambda>cooldown.
     bindc (get_setting_i64 sy ''company_lookup_cache_ttl_seconds'' 120 10 1800) (\<lambda>ttl.
     ret \<lparr>ll_per_minute = nat limit, ll_cooldown = cooldown, ll_ttl = ttl\<rparr>)))"

text \<open>Key, label and address of a service.\<close>

definition lookup_providers :: "('c, 'd) host_sys \<Rightarrow> ((string \<times> string \<times> string) list, 'c \<times> 'd) cmd" where
  "lookup_providers sy =
     bindc (get_setting_url sy ''company_lookup_publica_url'' ''https://publica.cnpj.ws/cnpj/'') (\<lambda>publica.
     bindc (get_setting_url sy ''company_lookup_receita_url'' ''https://www.receitaws.com.br/v1/cnpj/'') (\<lambda>receita.
     ret [(''publica_cnpj_ws'', ''Publica CNPJ WS'', publica), (''receita_ws'', ''ReceitaWS'', receita)]))"

definition provider_log :: "'g app_sys \<Rightarrow> string \<Rightarrow> string \<Rightarrow> json \<Rightarrow> (unit, 'g app_world) cmd" where
  "provider_log sy level message details =
     (if is_ok (state_data_dir (sa_rw sy))
      then log_quietly sy \<lparr>ai_level = level, ai_category = ''company_lookup'', ai_message = message, ai_source = Some ''backend'',
             ai_route = Some ''#/empresas'', ai_details = Some details\<rparr>
      else ret ())"

definition fetch_json_text ::
  "('c, 'g, 's) lookup_sys \<Rightarrow> string \<Rightarrow> (((string, nat option \<times> string) result), 'c, 'g, 's) lookup_cmd" where
  "fetch_json_text sy u cw =
     (case lk_fetch sy u (lw_net (snd cw)) of
        (r, s) \<Rightarrow>
          (Ok (case r of
                 Inl err \<Rightarrow> Err (None, (''Falha ao consultar servi'' @ u_ccedil @ ''o p'' @ u_uacute @ ''blico: '') @ err)
               | Inr (status, body) \<Rightarrow>
                   if \<not> (200 \<le> status \<and> status < 300)
                   then Err (Some status, (''Servi'' @ u_ccedil @ ''o p'' @ u_uacute @ ''blico retornou erro HTTP '') @ show_nat status @ ''.'')
                   else map_err (\<lambda>err. (Some status, (''Falha ao ler resposta do servi'' @ u_ccedil @ ''o p'' @ u_uacute @ ''blico: '') @ err)) body),
           (fst cw, (snd cw)\<lparr>lw_net := s\<rparr>)))"

definition cached_payload :: "json_obj \<Rightarrow> json_obj" where
  "cached_payload payload =
     hm_insert ''message'' (JStr ''Consulta retornada do cache local.'') (hm_insert ''cache_hit'' (JBool True) payload)"

definition fetched_payload :: "json_obj \<Rightarrow> json_obj" where
  "fetched_payload payload =
     (let p = hm_insert ''cache_hit'' (JBool False) payload in
      case Option.bind (obj_get p ''source'') as_str of
        Some source \<Rightarrow> hm_insert ''message'' (JStr ((''Consulta conclu'' @ u_iacute @ ''da via '') @ source @ ''.'')) p
      | None \<Rightarrow> p)"

definition remember :: "string \<Rightarrow> int \<Rightarrow> json_obj \<Rightarrow> lookup_runtime \<Rightarrow> lookup_runtime" where
  "remember digits expires_at payload rt = rt\<lparr>lr_cache := hm_insert digits (expires_at, payload) (lr_cache rt)\<rparr>"

text \<open>One service: skipped, failed or answered.\<close>

datatype attempt = Skipped string | Failed string | Answered json_obj

definition try_provider ::
  "('c, 'g, 's) lookup_sys \<Rightarrow> lookup_limits \<Rightarrow> int \<Rightarrow> string \<Rightarrow> string option \<Rightarrow> string \<times> string \<times> string
   \<Rightarrow> (attempt, 'c, 'g, 's) lookup_cmd" where
  "try_provider sy ll now digits uf_hint pv =
     (case pv of (key, label, base_url) \<Rightarrow>
        bindc (on_runtime (provider_can_run key now (ll_per_minute ll))) (\<lambda>may.
        case may of
          Inl reason \<Rightarrow> ret (Skipped (label @ ('' indispon'' @ u_iacute @ ''vel agora: '') @ reason))
        | Inr _ \<Rightarrow>
            bindc (fetch_json_text sy (trim_end_matches (CHR ''/'') base_url @ ''/'' @ digits)) (\<lambda>fetched.
            case fetched of
              Inr body \<Rightarrow>
                (case (if key = ''publica_cnpj_ws'' then parse_publica_ws_response (lk_parse sy) (lk_upper sy) body uf_hint
                       else parse_receita_ws_response (lk_parse sy) (lk_upper sy) body) of
                   Inl err \<Rightarrow> ret (Failed (label @ '': '' @ err))
                 | Inr payload \<Rightarrow>
                     let p = fetched_payload payload in
                     bindc (on_runtime (\<lambda>rt. ((), remember digits (now + ll_ttl ll) p rt))) (\<lambda>_. ret (Answered p)))
            | Inl (status, message) \<Rightarrow>
                if status = Some 429 then
                  bindc (on_runtime (\<lambda>rt. ((), provider_mark_cooldown key now (ll_cooldown ll) rt))) (\<lambda>_.
                  bindc (on_conn (beside (provider_log (lk_app sy) ''warning'' (''Provedor p'' @ u_uacute @ ''blico em cooldown por rate limit.'')
                    (JObj [(''provider'', JStr key), (''documento'', JStr digits), (''cooldown_seconds'', js_int (ll_cooldown ll)),
                       (''http_status'', js_int 429)])))) (\<lambda>_.
                  ret (Failed (label @ ('' indispon'' @ u_iacute @ ''vel por limite de requisi'' @ u_ccedil @ u_otilde @ ''es (429).'')))))
                else ret (Failed (label @ '': '' @ message)))))"

fun try_providers ::
  "('c, 'g, 's) lookup_sys \<Rightarrow> lookup_limits \<Rightarrow> int \<Rightarrow> string \<Rightarrow> string option \<Rightarrow> (string \<times> string \<times> string) list
   \<Rightarrow> string list \<Rightarrow> string list \<Rightarrow> (json_obj + string list \<times> string list, 'c, 'g, 's) lookup_cmd" where
  "try_providers sy ll now digits uf_hint [] errors skipped = ret (Inr (errors, skipped))"
| "try_providers sy ll now digits uf_hint (pv # pvs) errors skipped =
     bindc (try_provider sy ll now digits uf_hint pv) (\<lambda>a.
     case a of
       Answered p \<Rightarrow> ret (Inl p)
     | Failed err \<Rightarrow> try_providers sy ll now digits uf_hint pvs (errors @ [err]) skipped
     | Skipped reason \<Rightarrow> try_providers sy ll now digits uf_hint pvs errors (skipped @ [reason]))"

definition lookup_failed ::
  "('c, 'g, 's) lookup_sys \<Rightarrow> string \<Rightarrow> string list \<Rightarrow> string list \<Rightarrow> (json_obj, 'c, 'g, 's) lookup_cmd" where
  "lookup_failed sy digits errors skipped =
     bindc (on_conn (beside (provider_log (lk_app sy) ''warning'' (''Falha de consulta CNPJ em todos os provedores dispon'' @ u_iacute @ ''veis.'')
       (JObj [(''documento'', JStr digits), (''erros'', js_strs errors), (''indisponiveis'', js_strs skipped)])))) (\<lambda>_.
     fail ((''N'' @ u_atilde @ ''o foi poss'' @ u_iacute @ ''vel consultar o CNPJ agora. '') @ join '' | '' errors @
       (if skipped = [] then [] else '' Provedores em cooldown/limite: '' @ join '' | '' skipped @ ''.'')))"

definition lookup_cached :: "string \<Rightarrow> int \<Rightarrow> lookup_runtime \<Rightarrow> json_obj option \<times> lookup_runtime" where
  "lookup_cached digits now rt =
     (let rt' = sanitize_lookup_cache now rt in (map_option (\<lambda>hit. cached_payload (snd hit)) (map_of (lr_cache rt') digits), rt'))"

definition lookup_cnpj ::
  "('c, 'g, 's) lookup_sys \<Rightarrow> string \<Rightarrow> string option \<Rightarrow> (json_obj, 'c, 'g, 's) lookup_cmd" where
  "lookup_cnpj sy documento uf =
     (let digits = digits_of documento in
      if length digits \<noteq> 14 then fail (''Informe um CNPJ v'' @ u_aacute @ ''lido com 14 d'' @ u_iacute @ ''gitos para consulta.'')
      else
        bindc (on_conn (beside (lk_seconds sy))) (\<lambda>now.
        bindc (on_conn (lookup_limits_of (lk_host sy))) (\<lambda>ll.
        bindc (on_runtime (lookup_cached digits now)) (\<lambda>hit.
        case hit of
          Some payload \<Rightarrow> ret payload
        | None \<Rightarrow>
            bindc (on_conn (lookup_providers (lk_host sy))) (\<lambda>pvs.
            bindc (try_providers sy ll now digits (clean_uf (lk_upper sy) uf) pvs [] []) (\<lambda>r.
            case r of Inl payload \<Rightarrow> ret payload | Inr (errors, skipped) \<Rightarrow> lookup_failed sy digits errors skipped))))))"

definition company_lookup_cnpj ::
  "('c, 'g, 's) lookup_sys \<Rightarrow> string \<Rightarrow> string option \<Rightarrow> (json_obj, ('g, 's) lookup_world) cmd" where
  "company_lookup_cnpj sy documento uf w =
     (case ho_db_path (lk_host sy) of
        Inl err \<Rightarrow> (Err err, w)
      | Inr _ \<Rightarrow>
          (case eg_open (ho_engine (lk_host sy)) (lw_app w) of
             Inl err \<Rightarrow> (Err err, w)
           | Inr c \<Rightarrow> (case lookup_cnpj sy documento uf (c, w) of (r, (_, w')) \<Rightarrow> (r, w'))))"

definition company_lookup_ie ::
  "('c, 'g, 's) lookup_sys \<Rightarrow> string \<Rightarrow> string option \<Rightarrow> (json_obj, ('g, 's) lookup_world) cmd" where
  "company_lookup_ie sy documento uf =
     (if length (digits_of documento) \<noteq> 14
      then fail (''Consulta de inscri'' @ u_ccedil @ u_atilde @ ''o estadual '' @ u_eacute @ '' feita via CNPJ. Informe um CNPJ v'' @ u_aacute @ ''lido com 14 d'' @ u_iacute @ ''gitos.'')
      else
        bindc (company_lookup_cnpj sy documento uf) (\<lambda>payload.
        let p = (if optional_json_string (obj_get payload ''inscricao_estadual'') = None
                 then hm_insert ''inscricao_estadual'' (JStr ''ISENTO'') payload else payload)
        in ret (case opt_filter (\<lambda>v. trim v \<noteq> []) uf of
                  Some v \<Rightarrow> hm_insert ''estado'' (JStr (lk_upper sy (trim v))) p
                | None \<Rightarrow> p)))"

subsection \<open>How many requests a minute\<close>

text \<open>Accesses to the memory of one service: the question whether a request may go out, and the pause.\<close>

datatype rate_op = MayRun int | Pause int int

fun op_time :: "rate_op \<Rightarrow> int" where
  "op_time (MayRun now) = now"
| "op_time (Pause now _) = now"

text \<open>The moments at which a request was let through.\<close>

fun granted :: "string \<Rightarrow> nat \<Rightarrow> rate_op list \<Rightarrow> lookup_runtime \<Rightarrow> int list" where
  "granted key limit [] rt = []"
| "granted key limit (MayRun now # ops) rt =
     (case provider_can_run key now limit rt of
        (r, rt') \<Rightarrow> (if is_ok r then [now] else []) @ granted key limit ops rt')"
| "granted key limit (Pause now secs # ops) rt = granted key limit ops (provider_mark_cooldown key now secs rt)"

definition within_minute :: "int \<Rightarrow> int list \<Rightarrow> int list" where
  "within_minute t xs = filter (\<lambda>x. t \<le> x \<and> x < t + 60) xs"

lemma within_minute_simps [simp]:
  "within_minute t [] = []" "within_minute t (xs @ ys) = within_minute t xs @ within_minute t ys"
  by (simp_all add: within_minute_def)

lemma within_minute_length: "length (within_minute t xs) \<le> length xs"
  by (simp add: within_minute_def)

text \<open>What was let through before the window of a service, \<open>old\<close>, and in it, with the bounds that hold at each moment.\<close>

definition rate_inv :: "nat \<Rightarrow> int list \<Rightarrow> int \<Rightarrow> provider_rate \<Rightarrow> bool" where
  "rate_inv limit old prev st \<longleftrightarrow>
     pr_window_start st \<le> prev \<and> (\<forall>x \<in> set (pr_recent st). pr_window_start st \<le> x \<and> x < pr_window_start st + 60) \<and>
     length (pr_recent st) \<le> limit \<and> (\<forall>x \<in> set old. x < pr_window_start st) \<and>
     length (filter (\<lambda>x. pr_window_start st - 60 < x) old) \<le> limit \<and> (\<forall>t. length (within_minute t old) \<le> 2 * limit)"

lemma rate_inv_fresh: "rate_inv limit [] now (fresh_rate now)"
  by (simp add: rate_inv_def fresh_rate_def)

lemma rate_inv_bound:
  assumes "rate_inv limit old prev st"
  shows "length (within_minute t (old @ pr_recent st)) \<le> 2 * limit"
proof (cases "within_minute t (pr_recent st) = []")
  case False
  then obtain x where "x \<in> set (pr_recent st)" "x < t + 60"
    by (auto simp: within_minute_def filter_empty_conv)
  with assms have "pr_window_start st < t + 60" by (auto simp: rate_inv_def)
  then have "length (within_minute t old) \<le> length (filter (\<lambda>x. pr_window_start st - 60 < x) old)"
    unfolding within_minute_def by (induction old) auto
  moreover have "length (within_minute t (pr_recent st)) \<le> limit"
    using assms within_minute_length [of t "pr_recent st"] by (simp add: rate_inv_def)
  ultimately show ?thesis using assms by (simp add: rate_inv_def)
qed (use assms in \<open>simp add: rate_inv_def\<close>)

text \<open>The removal of old moments never removes any: they are all of the current window.\<close>

lemma purge_nothing: "\<forall>x \<in> set recent. start \<le> x \<Longrightarrow> now < start + 60 \<Longrightarrow> purge_old_requests now recent = recent"
  by (cases recent) (auto simp: purge_old_requests_def)

lemma rate_inv_renew:
  assumes inv: "rate_inv limit old prev st" and now: "prev \<le> now"
  shows "\<exists>old'. rate_inv limit old' now (renew_window now st) \<and> old' @ pr_recent (renew_window now st) = old @ pr_recent st \<and>
    now < pr_window_start (renew_window now st) + 60"
proof (cases "pr_window_start st + 60 \<le> now")
  case True
  have early: "filter (\<lambda>x. now - 60 < x) old = []" using inv True by (fastforce simp: rate_inv_def filter_empty_conv)
  have "length (filter (\<lambda>x. now - 60 < x) (pr_recent st)) \<le> limit"
    using inv le_trans [OF length_filter_le] by (auto simp: rate_inv_def)
  with early True inv have "rate_inv limit (old @ pr_recent st) now (renew_window now st)"
    using rate_inv_bound [OF inv] by (fastforce simp: rate_inv_def renew_window_def Let_def purge_old_requests_def)
  with True show ?thesis by (auto simp: renew_window_def Let_def purge_old_requests_def)
next
  case False
  then have "purge_old_requests now (pr_recent st) = pr_recent st"
    using inv by (intro purge_nothing [of _ "pr_window_start st"]) (auto simp: rate_inv_def)
  with False inv now show ?thesis
    by (intro exI [of _ old]) (auto simp: renew_window_def Let_def rate_inv_def)
qed

lemma can_run_step:
  assumes inv: "rate_inv limit old prev (rate_of rt key now)" and now: "prev \<le> now"
    and run: "provider_can_run key now limit rt = (r, rt')"
  shows "\<exists>old' st. map_of (lr_providers rt') key = Some st \<and> rate_inv limit old' now st \<and>
    old' @ pr_recent st = old @ pr_recent (rate_of rt key now) @ (if is_ok r then [now] else [])"
proof -
  let ?st = "renew_window now (rate_of rt key now)"
  obtain old' where o: "rate_inv limit old' now ?st" "old' @ pr_recent ?st = old @ pr_recent (rate_of rt key now)" "now < pr_window_start ?st + 60"
    using rate_inv_renew [OF inv now] by blast
  have "length (pr_recent ?st) < limit \<Longrightarrow> rate_inv limit old' now (?st\<lparr>pr_recent := pr_recent ?st @ [now]\<rparr>)"
    using o by (auto simp: rate_inv_def)
  with o run show ?thesis
    by (auto simp: provider_can_run_def Let_def set_rate_def map_of_hm_insert split: if_splits intro!: exI [of _ old'])
qed

lemma granted_bound:
  assumes "map_of (lr_providers rt) key = Some st" and "rate_inv limit old prev st"
    and "sorted (map op_time ops)" and "\<forall>op \<in> set ops. prev \<le> op_time op"
  shows "length (within_minute t (old @ pr_recent st @ granted key limit ops rt)) \<le> 2 * limit"
  using assms
proof (induction ops arbitrary: rt st old prev)
  case Nil
  then show ?case using rate_inv_bound [of limit old prev st t] by simp
next
  case (Cons op ops)
  have st: "rate_of rt key now = st" for now using Cons.prems(1) by (simp add: rate_of_def)
  show ?case
  proof (cases op)
    case (MayRun now)
    obtain r rt' where run: "provider_can_run key now limit rt = (r, rt')" by fastforce
    obtain old' st' where s: "map_of (lr_providers rt') key = Some st'" "rate_inv limit old' now st'"
        "old' @ pr_recent st' = old @ pr_recent st @ (if is_ok r then [now] else [])"
      using can_run_step [OF _ _ run, of old prev] Cons.prems MayRun st by auto
    have "old @ pr_recent st @ granted key limit (op # ops) rt = old' @ pr_recent st' @ granted key limit ops rt'"
      using MayRun run s(3) by (simp flip: append_assoc)
    with Cons.IH [OF s(1,2)] Cons.prems MayRun show ?thesis by auto
  next
    case (Pause now secs)
    have "rate_inv limit old prev (st\<lparr>pr_cooldown_until := now + secs\<rparr>)" using Cons.prems by (simp add: rate_inv_def)
    moreover have "map_of (lr_providers (provider_mark_cooldown key now secs rt)) key = Some (st\<lparr>pr_cooldown_until := now + secs\<rparr>)"
      by (simp add: provider_mark_cooldown_def set_rate_def map_of_hm_insert st)
    ultimately show ?thesis
      using Cons.IH [of "provider_mark_cooldown key now secs rt" "st\<lparr>pr_cooldown_until := now + secs\<rparr>" old prev] Cons.prems Pause by simp
  qed
qed

lemma granted_first:
  assumes "sorted (map op_time ops)" and "map_of (lr_providers rt) key = None"
  shows "length (within_minute t (granted key limit ops rt)) \<le> 2 * limit"
proof (cases ops)
  case (Cons op ops')
  have fresh: "rate_of rt key now = fresh_rate now" for now using assms(2) by (simp add: rate_of_def)
  show ?thesis
  proof (cases op)
    case (MayRun now)
    obtain r rt' where run: "provider_can_run key now limit rt = (r, rt')" by fastforce
    obtain old st where s: "map_of (lr_providers rt') key = Some st" "rate_inv limit old now st"
        "old @ pr_recent st = (if is_ok r then [now] else [])"
      using can_run_step [OF _ _ run, of "[]" now] rate_inv_fresh by (auto simp: fresh) (simp add: fresh_rate_def)
    have "granted key limit ops rt = old @ pr_recent st @ granted key limit ops' rt'"
      using Cons MayRun run s(3) by (simp flip: append_assoc)
    with granted_bound [OF s(1,2)] assms(1) Cons MayRun show ?thesis by auto
  next
    case (Pause now secs)
    have "rate_inv limit [] now ((fresh_rate now)\<lparr>pr_cooldown_until := now + secs\<rparr>)" by (simp add: rate_inv_def fresh_rate_def)
    moreover have "map_of (lr_providers (provider_mark_cooldown key now secs rt)) key = Some ((fresh_rate now)\<lparr>pr_cooldown_until := now + secs\<rparr>)"
      by (simp add: provider_mark_cooldown_def set_rate_def map_of_hm_insert fresh)
    ultimately have "length (within_minute t ([] @ pr_recent ((fresh_rate now)\<lparr>pr_cooldown_until := now + secs\<rparr>) @
        granted key limit ops' (provider_mark_cooldown key now secs rt))) \<le> 2 * limit"
      using assms(1) Cons Pause by (intro granted_bound) auto
    with Cons Pause show ?thesis by (simp add: fresh_rate_def)
  qed
qed simp

text \<open>As many requests at one moment as the window has room for.\<close>

definition open_at :: "int \<Rightarrow> provider_rate \<Rightarrow> bool" where
  "open_at now st \<longleftrightarrow> now < pr_window_start st + 60 \<and> (\<forall>x \<in> set (pr_recent st). now < x + 60) \<and> pr_cooldown_until st \<le> now"

lemma renew_open: "open_at now st \<Longrightarrow> renew_window now st = st"
  by (cases "pr_recent st") (auto simp: renew_window_def purge_old_requests_def open_at_def Let_def)

lemma grant_many:
  assumes "map_of (lr_providers rt) key = Some st" and "open_at now (renew_window now st)"
    and "length (pr_recent (renew_window now st)) + n \<le> limit"
  shows "\<exists>rt'. granted key limit (replicate n (MayRun now) @ ops) rt = replicate n now @ granted key limit ops rt' \<and>
    (0 < n \<longrightarrow> map_of (lr_providers rt') key = Some ((renew_window now st)\<lparr>pr_recent := pr_recent (renew_window now st) @ replicate n now\<rparr>))"
  using assms
proof (induction n arbitrary: rt st)
  case (Suc n)
  define R where "R = renew_window now st"
  define st1 where "st1 = R\<lparr>pr_recent := pr_recent R @ [now]\<rparr>"
  have run: "provider_can_run key now limit rt = (Ok (), set_rate key st1 rt)"
    using Suc.prems by (simp add: provider_can_run_def rate_of_def Let_def open_at_def st1_def R_def)
  have same: "renew_window now st1 = st1"
    using Suc.prems(2) by (intro renew_open) (auto simp: open_at_def st1_def R_def)
  have m1: "map_of (lr_providers (set_rate key st1 rt)) key = Some st1" by (simp add: set_rate_def map_of_hm_insert)
  have "open_at now (renew_window now st1)" "length (pr_recent (renew_window now st1)) + n \<le> limit"
    using Suc.prems(2,3) unfolding same by (auto simp: open_at_def st1_def R_def)
  from Suc.IH [OF m1 this] obtain rt' where
    g: "granted key limit (replicate n (MayRun now) @ ops) (set_rate key st1 rt) = replicate n now @ granted key limit ops rt'"
    and m: "0 < n \<Longrightarrow> map_of (lr_providers rt') key = Some (st1\<lparr>pr_recent := pr_recent st1 @ replicate n now\<rparr>)"
    unfolding same by blast
  show ?case
  proof (cases "n = 0")
    case True
    then show ?thesis
      using run by (intro exI [of _ "set_rate key st1 rt"]) (simp add: set_rate_def map_of_hm_insert st1_def R_def)
  next
    case False
    then show ?thesis
      using run g m by (intro exI [of _ rt']) (simp add: st1_def R_def)
  qed
qed auto

lemma granted_append_refused: "\<not> is_ok (fst (provider_can_run key now limit rt)) \<Longrightarrow>
    granted key limit (MayRun now # ops) rt = granted key limit ops (snd (provider_can_run key now limit rt))"
  by (cases "provider_can_run key now limit rt") simp

definition burst :: "nat \<Rightarrow> rate_op list" where
  "burst limit = [MayRun 0, Pause 0 90, MayRun 70] @ replicate limit (MayRun 129) @ replicate limit (MayRun 130)"

lemma burst_granted:
  assumes "map_of (lr_providers rt) key = None"
  shows "\<exists>xs. granted key limit (burst limit) rt = xs @ replicate limit 129 @ replicate limit 130 \<and> set xs \<subseteq> {0}"
proof -
  obtain r rt1 where r1: "provider_can_run key 0 limit rt = (r, rt1)" by fastforce
  have s1: "\<exists>xs. map_of (lr_providers rt1) key = Some \<lparr>pr_window_start = 0, pr_recent = xs, pr_cooldown_until = 0\<rparr>"
    using r1 assms
    by (auto simp: provider_can_run_def rate_of_def fresh_rate_def renew_window_def purge_old_requests_def Let_def set_rate_def map_of_hm_insert split: if_splits)
  define rt2 where "rt2 = provider_mark_cooldown key 0 90 rt1"
  from s1 obtain xs where s2: "map_of (lr_providers rt2) key = Some \<lparr>pr_window_start = 0, pr_recent = xs, pr_cooldown_until = 90\<rparr>"
    by (auto simp: rt2_def provider_mark_cooldown_def rate_of_def set_rate_def map_of_hm_insert)
  define st3 where "st3 = \<lparr>pr_window_start = 70, pr_recent = [], pr_cooldown_until = 90\<rparr>"
  have r3: "\<not> is_ok (fst (provider_can_run key 70 limit rt2))"
    and s3: "map_of (lr_providers (snd (provider_can_run key 70 limit rt2))) key = Some st3"
    using s2 by (simp_all add: provider_can_run_def rate_of_def renew_window_def purge_old_requests_def Let_def set_rate_def map_of_hm_insert st3_def)
  have o3: "renew_window 129 st3 = st3" by (simp add: renew_window_def st3_def purge_old_requests_def)
  from grant_many [OF s3, of 129 limit limit "replicate limit (MayRun 130)"] obtain rt4 where
    g4: "granted key limit (replicate limit (MayRun 129) @ replicate limit (MayRun 130)) (snd (provider_can_run key 70 limit rt2)) =
      replicate limit 129 @ granted key limit (replicate limit (MayRun 130)) rt4"
    and s4: "0 < limit \<Longrightarrow> map_of (lr_providers rt4) key = Some (st3\<lparr>pr_recent := replicate limit 129\<rparr>)"
    unfolding o3 by (auto simp: open_at_def st3_def)
  have g5: "granted key limit (replicate limit (MayRun 130)) rt4 = replicate limit 130"
  proof (cases "limit = 0")
    case False
    have o4: "renew_window 130 (st3\<lparr>pr_recent := replicate limit 129\<rparr>) = \<lparr>pr_window_start = 130, pr_recent = [], pr_cooldown_until = 90\<rparr>"
      by (simp add: renew_window_def st3_def purge_old_requests_def)
    from False s4 have "map_of (lr_providers rt4) key = Some (st3\<lparr>pr_recent := replicate limit 129\<rparr>)" by simp
    from grant_many [OF this, of 130 limit limit "[]"] show ?thesis unfolding o4 by (simp add: open_at_def)
  qed simp
  have "granted key limit (burst limit) rt = (if is_ok r then [0] else []) @ granted key limit (MayRun 70 # replicate limit (MayRun 129) @ replicate limit (MayRun 130)) rt2"
    using r1 by (simp add: burst_def rt2_def)
  then show ?thesis unfolding granted_append_refused [OF r3] g4 g5 by auto
qed

text \<open>C38. With accesses in the order of the clock, a service gets at most twice the configured number of requests in any sixty seconds, counted by the time each lookup read at its start (the request itself goes out later, to the second service after the first has answered), and twice the number is reached: the window is emptied as a whole sixty seconds after it was opened, so requests at its end and at the beginning of the next one add up.\<close>

theorem lookups_per_minute:
  assumes "sorted (map op_time ops)" and "map_of (lr_providers rt) key = None"
  shows "length (within_minute t (granted key limit ops rt)) \<le> 2 * limit \<and>
    sorted (map op_time (burst limit)) \<and> length (within_minute 129 (granted key limit (burst limit) rt)) = 2 * limit"
proof -
  obtain xs where "granted key limit (burst limit) rt = xs @ replicate limit 129 @ replicate limit 130" "set xs \<subseteq> {0}"
    using burst_granted [OF assms(2)] by blast
  moreover have "within_minute 129 xs = []" if "set xs \<subseteq> {0}"
    using that by (auto simp: within_minute_def filter_empty_conv)
  ultimately have "length (within_minute 129 (granted key limit (burst limit) rt)) = 2 * limit"
    by (simp add: within_minute_def)
  moreover have "sorted (map op_time (burst limit))" by (auto simp: burst_def sorted_append)
  ultimately show ?thesis using granted_first [OF assms] by blast
qed

theorem lookups_per_minute_witness:
  "length (within_minute 0 (granted ''receita_ws'' 1 [MayRun 0, MayRun 30] \<lparr>lr_providers = [], lr_cache = []\<rparr>)) \<le> 2"
  using lookups_per_minute [of "[MayRun 0, MayRun 30]" "\<lparr>lr_providers = [], lr_cache = []\<rparr>" "''receita_ws''" 0 1] by simp

subsection \<open>Check digits\<close>

text \<open>The check digit as the rule of both numbers has it: the weighted sum times ten, modulo eleven, with ten read as zero.\<close>

definition mod11_digit :: "string \<Rightarrow> nat list \<Rightarrow> char" where
  "mod11_digit base ws = digit_char (10 * weighted_sum (map digit_val base) ws mod 11 mod 10)"

definition with_check_digits :: "nat list \<Rightarrow> nat list \<Rightarrow> string \<Rightarrow> string" where
  "with_check_digits ws1 ws2 base =
     (let one = base @ [mod11_digit base ws1] in one @ [mod11_digit one ws2])"

lemma check_digit_mod11: "check_digit s = 10 * s mod 11 mod 10"
proof -
  have "\<forall>r \<in> set [0..<11]. (if r < 2 then 0 else 11 - r) = 10 * r mod 11 mod (10 :: nat)" by code_simp
  then have "(if s mod 11 < 2 then 0 else 11 - s mod 11) = 10 * (s mod 11) mod 11 mod 10" by (rule bspec) simp
  then show ?thesis by (simp add: check_digit_def Let_def mod_mult_right_eq)
qed

lemma digit_val_chars: "is_ascii_digit c \<Longrightarrow> is_ascii_digit d \<Longrightarrow> digit_val c = digit_val d \<longleftrightarrow> c = d"
  by (auto simp: is_ascii_digit_def digit_val_def) (metis le_add_diff_inverse of_char_eq_iff)

lemma mod11_digit_val: "digit_val (mod11_digit base ws) = 10 * weighted_sum (map digit_val base) ws mod 11 mod 10"
  "is_ascii_digit (mod11_digit base ws)"
  using digit_char_digit [of "10 * weighted_sum (map digit_val base) ws mod 11 mod 10"] by (simp_all add: mod11_digit_def)

lemma digits_of_digits: "list_all is_ascii_digit s \<Longrightarrow> digits_of s = s"
  by (induction s) (auto simp: digits_of_def)

lemma digits_of_all: "list_all is_ascii_digit (digits_of s)"
  by (simp add: digits_of_def list_all_iff)

lemma check_pair:
  assumes "list_all is_ascii_digit ds" and "length ds = Suc (Suc n)"
  shows "digit_val (ds ! n) = check_digit (weighted_sum (take n (map digit_val ds)) ws1) \<and>
      digit_val (ds ! Suc n) = check_digit (weighted_sum (take (Suc n) (map digit_val ds)) ws2) \<longleftrightarrow>
    ds = with_check_digits ws1 ws2 (take n ds)"
proof -
  define base where "base = take n ds"
  have split: "ds = base @ [ds ! n, ds ! Suc n]" and len: "length base = n"
    using assms(2) by (simp_all add: base_def take_Suc_conv_app_nth [symmetric] flip: append_assoc take_Suc_conv_app_nth)
       (metis Suc_n_not_le_n append_take_drop_id Cons_nth_drop_Suc drop_all lessI less_SucI nat_le_linear order_refl)
  have dig: "is_ascii_digit (ds ! n)" "is_ascii_digit (ds ! Suc n)"
    using assms by (auto simp: list_all_length)
  have "ds = with_check_digits ws1 ws2 base \<longleftrightarrow>
      ds ! n = mod11_digit base ws1 \<and> ds ! Suc n = mod11_digit (base @ [mod11_digit base ws1]) ws2"
    by (subst split) (simp add: with_check_digits_def Let_def)
  also have "\<dots> \<longleftrightarrow> ds ! n = mod11_digit base ws1 \<and> ds ! Suc n = mod11_digit (base @ [ds ! n]) ws2" by auto
  also have "\<dots> \<longleftrightarrow> digit_val (ds ! n) = check_digit (weighted_sum (map digit_val base) ws1) \<and>
      digit_val (ds ! Suc n) = check_digit (weighted_sum (map digit_val (base @ [ds ! n])) ws2)"
    using dig by (simp add: digit_val_chars [symmetric] mod11_digit_val check_digit_mod11)
  also have "map digit_val base = take n (map digit_val ds)" by (simp add: base_def take_map)
  also have "map digit_val (base @ [ds ! n]) = take (Suc n) (map digit_val ds)"
    using assms(2) by (simp add: base_def take_map take_Suc_conv_app_nth)
  finally show ?thesis by (simp add: base_def)
qed

text \<open>C39. The validation of both numbers of the tax office is the official rule: the digits, whatever stands between them, end in the two check digits that the weighted sums modulo eleven give for the digits before, and are not all the same. So every base has exactly one completion.\<close>

theorem documents_match_mod11:
  "(is_valid_cpf s \<longleftrightarrow>
     length (digits_of s) = 11 \<and> \<not> all_same (digits_of s) \<and>
     digits_of s = with_check_digits (rev [2..<11]) (rev [2..<12]) (take 9 (digits_of s))) \<and>
   (is_valid_cnpj s \<longleftrightarrow>
     length (digits_of s) = 14 \<and> \<not> all_same (digits_of s) \<and>
     digits_of s = with_check_digits [5, 4, 3, 2, 9, 8, 7, 6, 5, 4, 3, 2] [6, 5, 4, 3, 2, 9, 8, 7, 6, 5, 4, 3, 2] (take 12 (digits_of s)))"
  using check_pair [OF digits_of_all, of s 9 "rev [2..<11]" "rev [2..<12]"]
    check_pair [OF digits_of_all, of s 12 "[5, 4, 3, 2, 9, 8, 7, 6, 5, 4, 3, 2]" "[6, 5, 4, 3, 2, 9, 8, 7, 6, 5, 4, 3, 2]"]
  by (auto simp: is_valid_cpf_def is_valid_cnpj_def Let_def nth_map simp del: upt_Suc)

subsection \<open>The cache\<close>

lemma fresh_entry:
  "map_of xs k = Some (e, p) \<Longrightarrow> now < e \<Longrightarrow> map_of (filter (\<lambda>(_, expires_at, _). now < expires_at) xs) k = Some (e, p)"
  by (induction xs) (auto split: if_splits)

lemma stale_entry:
  assumes "hm_wf xs" and "\<And>e q. map_of xs k = Some (e, q) \<Longrightarrow> e \<le> (now :: int)"
  shows "map_of (filter (\<lambda>(_, expires_at, _). now < expires_at) xs) k = None"
proof (rule ccontr)
  assume "map_of (filter (\<lambda>(_, expires_at, _). now < expires_at) xs) k \<noteq> None"
  then obtain e q where "map_of (filter (\<lambda>(_, expires_at, _). now < expires_at) xs) k = Some (e, q)" by auto
  from map_of_SomeD [OF this] have "(k, e, q) \<in> set xs" "now < e" by auto
  moreover from this have "map_of xs k = Some (e, q)" using assms(1) by (intro map_of_is_SomeI) (auto simp: hm_wf_def)
  ultimately show False using assms(2) [of e q] by simp
qed

text \<open>The surroundings let a lookup come to the cache.\<close>

definition lookup_ready ::
  "('c, 'g, 's) lookup_sys \<Rightarrow> ('g, 's) lookup_world \<Rightarrow> int \<Rightarrow> bool" where
  "lookup_ready sy w now \<longleftrightarrow>
     (\<exists>path c a ll ca. ho_db_path (lk_host sy) = Ok path \<and> eg_open (ho_engine (lk_host sy)) (lw_app w) = Ok c \<and>
        lk_seconds sy (lw_app w) = (Ok now, a) \<and> lookup_limits_of (lk_host sy) (c, a) = (Ok ll, ca))"

lemma lookup_hit:
  assumes "lookup_ready sy w now" and "length (digits_of doc) = 14"
    and "map_of (lr_cache (lw_runtime w)) (digits_of doc) = Some (e, p)" and "now < e"
  shows "\<exists>w'. company_lookup_cnpj sy doc uf w = (Ok (cached_payload p), w') \<and> lw_net w' = lw_net w \<and>
    lr_providers (lw_runtime w') = lr_providers (lw_runtime w)"
  using assms fresh_entry [OF assms(3,4)]
  by (auto simp: lookup_ready_def company_lookup_cnpj_def lookup_cnpj_def Let_def bindc_def on_conn_def beside_def on_runtime_def
      lookup_cached_def sanitize_lookup_cache_def ret_def split: prod.splits)

lemma fetch_frame: "fetch_json_text sy u (c, w) = (r, (c', w')) \<Longrightarrow> lw_runtime w' = lw_runtime w"
  by (auto simp: fetch_json_text_def split: prod.splits)

lemma answered_remembered:
  assumes "try_provider sy ll now digits uf pv cw = (Ok (Answered p), (c, w))"
  shows "map_of (lr_cache (lw_runtime w)) digits = Some (now + ll_ttl ll, p)"
  using assms
  by (cases cw)
    (auto simp: try_provider_def bindc_def ret_def on_runtime_def on_conn_def remember_def map_of_hm_insert Let_def
      split: prod.splits sum.splits if_splits)

lemma answer_remembered:
  "try_providers sy ll now digits uf pvs errors skipped cw = (Ok (Inl p), (c, w)) \<Longrightarrow>
     map_of (lr_cache (lw_runtime w)) digits = Some (now + ll_ttl ll, p)"
  by (induction sy ll now digits uf pvs errors skipped arbitrary: cw rule: try_providers.induct)
    (auto simp: bindc_def ret_def split: prod.splits sum.splits attempt.splits dest: answered_remembered)

lemma setting_range: "get_setting_i64 sy key d lo hi cw = (Ok v, cw') \<Longrightarrow> lo \<le> hi \<Longrightarrow> lo \<le> v \<and> v \<le> hi"
  by (auto simp: get_setting_i64_def bindc_def ret_def split: prod.splits sum.splits)

lemma limits_range: "lookup_limits_of sy cw = (Ok ll, cw') \<Longrightarrow> 10 \<le> ll_ttl ll \<and> ll_ttl ll \<le> 1800"
  by (auto simp: lookup_limits_of_def bindc_def ret_def split: prod.splits sum.splits dest!: setting_range)

lemma lookup_miss:
  assumes run: "company_lookup_cnpj sy doc uf w = (Ok p, w')" and clock: "fst (lk_seconds sy (lw_app w)) = Ok now"
    and wf: "hm_wf (lr_cache (lw_runtime w))"
    and miss: "\<And>e q. map_of (lr_cache (lw_runtime w)) (digits_of doc) = Some (e, q) \<Longrightarrow> e \<le> now"
  shows "\<exists>ttl. 10 \<le> ttl \<and> ttl \<le> 1800 \<and> map_of (lr_cache (lw_runtime w')) (digits_of doc) = Some (now + ttl, p) \<and>
    length (digits_of doc) = 14"
proof -
  have "map_of (lr_cache (sanitize_lookup_cache now (lw_runtime w))) (digits_of doc) = None"
    using stale_entry [OF wf miss] by (simp add: sanitize_lookup_cache_def)
  with run clock show ?thesis
    by (auto simp: company_lookup_cnpj_def lookup_cnpj_def Let_def bindc_def on_conn_def beside_def on_runtime_def lookup_failed_def
        lookup_cached_def ret_def fail_def split: prod.splits sum.splits if_splits dest!: limits_range answer_remembered)
qed

lemma can_run_cache: "lr_cache (snd (provider_can_run key now limit rt)) = lr_cache rt"
  by (simp add: provider_can_run_def set_rate_def Let_def)

lemma hm_wf_filter: "hm_wf xs \<Longrightarrow> hm_wf (filter f xs)"
  by (simp add: hm_wf_def distinct_map_filter)

lemma attempt_keeps_cache:
  "try_provider sy ll now digits uf pv cw = (r, (c, w)) \<Longrightarrow> hm_wf (lr_cache (lw_runtime (snd cw))) \<Longrightarrow> hm_wf (lr_cache (lw_runtime w))"
  using can_run_cache [of "fst pv" now "ll_per_minute ll" "lw_runtime (snd cw)"]
  by (cases cw)
    (auto simp: try_provider_def bindc_def ret_def on_runtime_def on_conn_def remember_def provider_mark_cooldown_def set_rate_def Let_def
      hm_wf_insert split: prod.splits sum.splits if_splits dest!: fetch_frame)

lemma attempts_keep_cache:
  "try_providers sy ll now digits uf pvs errors skipped cw = (r, (c, w)) \<Longrightarrow> hm_wf (lr_cache (lw_runtime (snd cw))) \<Longrightarrow>
     hm_wf (lr_cache (lw_runtime w))"
proof (induction sy ll now digits uf pvs errors skipped arbitrary: cw rule: try_providers.induct)
  case (2 sy ll now digits uf pv pvs errors skipped)
  then show ?case
    by (fastforce simp: bindc_def ret_def split: prod.splits sum.splits attempt.splits dest: attempt_keeps_cache)
qed (simp add: ret_def)

lemma lookup_keeps_cache:
  assumes "company_lookup_cnpj sy doc uf w = (r, w')" and "hm_wf (lr_cache (lw_runtime w))"
  shows "hm_wf (lr_cache (lw_runtime w'))"
  using assms
  by (auto simp: company_lookup_cnpj_def lookup_cnpj_def Let_def bindc_def on_conn_def beside_def on_runtime_def lookup_failed_def
      lookup_cached_def sanitize_lookup_cache_def ret_def fail_def hm_wf_filter split: prod.splits sum.splits if_splits option.splits
      dest!: attempts_keep_cache)

text \<open>An answer of a service is kept for a time between ten seconds and half an hour. In that time every further lookup of the same number gives it again, marked as coming from the cache, without a request and without counting against a limit, whatever federal unit is asked for; afterwards the cache does not answer.\<close>

theorem answer_is_cached:
  assumes run: "company_lookup_cnpj sy doc uf w = (Ok p, w')" and clock: "fst (lk_seconds sy (lw_app w)) = Ok now"
    and wf: "hm_wf (lr_cache (lw_runtime w))"
    and miss: "\<And>e q. map_of (lr_cache (lw_runtime w)) (digits_of doc) = Some (e, q) \<Longrightarrow> e \<le> now"
    and later: "lw_runtime v = lw_runtime w'" "digits_of doc' = digits_of doc" "lookup_ready sy v now'"
  shows "\<exists>ttl. 10 \<le> ttl \<and> ttl \<le> 1800 \<and>
    (now' < now + ttl \<longrightarrow>
       (\<exists>v'. company_lookup_cnpj sy doc' uf' v = (Ok (cached_payload p), v') \<and> lw_net v' = lw_net v \<and>
          lr_providers (lw_runtime v') = lr_providers (lw_runtime v))) \<and>
    (now + ttl \<le> now' \<longrightarrow> fst (lookup_cached (digits_of doc') now' (lw_runtime v)) = None)"
proof -
  obtain ttl where ttl: "10 \<le> ttl" "ttl \<le> 1800" "map_of (lr_cache (lw_runtime w')) (digits_of doc) = Some (now + ttl, p)"
      "length (digits_of doc) = 14"
    using lookup_miss [OF run clock wf] miss by blast
  have "fst (lookup_cached (digits_of doc') now' (lw_runtime v)) = None" if "now + ttl \<le> now'"
    using stale_entry [OF lookup_keeps_cache [OF run wf], of "digits_of doc" now'] ttl(3) that later(1,2)
    by (auto simp: lookup_cached_def sanitize_lookup_cache_def Let_def)
  with ttl lookup_hit [OF later(3), of doc'] later(1,2) show ?thesis by auto
qed

text \<open>The lookup of a state registration labels a cached registration with the federal unit it is asked for, whatever unit it was looked up for: the cache is kept by number alone.\<close>

theorem registration_under_other_unit:
  assumes ready: "lookup_ready sy w now" and number: "length (digits_of doc) = 14"
    and entry: "map_of (lr_cache (lw_runtime w)) (digits_of doc) = Some (e, p)" "now < e"
    and known: "optional_json_string (obj_get p ''inscricao_estadual'') = Some x" and unit: "trim u \<noteq> []"
  shows "\<exists>r w'. company_lookup_ie sy doc (Some u) w = (Ok r, w') \<and>
    optional_json_string (obj_get r ''inscricao_estadual'') = Some x \<and> obj_get r ''estado'' = Some (JStr (lk_upper sy (trim u)))"
proof -
  have get: "obj_get (hm_insert k v kvs) k' = (if k' = k then Some v else obj_get kvs k')" for k v kvs k'
    by (simp add: obj_get_def map_of_hm_insert)
  obtain w' where "company_lookup_cnpj sy doc (Some u) w = (Ok (cached_payload p), w')"
    using lookup_hit [OF ready number entry] by blast
  with number known unit show ?thesis
    by (auto simp: company_lookup_ie_def bindc_def ret_def Let_def get cached_payload_def)
qed

definition idle_engine :: "(unit, unit app_world) engine" where
  "idle_engine = \<lparr>eg_open = (\<lambda>_. Ok ()), eg_execute = (\<lambda>_ _ w. (Ok 0, w)), eg_query = (\<lambda>_ _ w. (Ok [], w)), eg_last_id = (\<lambda>_. 0)\<rparr>"

definition idle_host :: "(unit, unit app_world) host_sys" where
  "idle_host =
     \<lparr>ho_engine = idle_engine, ho_external = (\<lambda>_. sqlite_provider idle_engine (\<lambda>_. [])), ho_env = Map.empty,
      ho_db_path = Ok ''app.db'', ho_json_text = (\<lambda>_. []), ho_now = (\<lambda>d. (Ok ''now'', d)), ho_hash_password = (\<lambda>p d. (Ok p, d))\<rparr>"

text \<open>A service that knows one registration; the clock goes on a second with each reading.\<close>

definition demo_lookup_sys :: "(unit, unit, nat) lookup_sys" where
  "demo_lookup_sys =
     \<lparr>lk_app = demo_app_sys, lk_host = idle_host, lk_fetch = (\<lambda>_ n. (Ok (200, Ok ''{}''), Suc n)),
      lk_parse = (\<lambda>_. Ok (JObj [(''estabelecimento'', JObj [(''inscricoes_estaduais'', JArr [JObj [(''inscricao_estadual'', JNum (JInt 123))]])])])),
      lk_upper = id, lk_seconds = (\<lambda>d. (Ok (1000 + int (aw_reads d)), d\<lparr>aw_reads := Suc (aw_reads d)\<rparr>))\<rparr>"

definition demo_number :: string where
  "demo_number = ''11222333000181''"

definition demo_lookup_world :: "(unit, nat) lookup_world" where
  "demo_lookup_world = \<lparr>lw_app = demo_app_world, lw_runtime = \<lparr>lr_providers = [], lr_cache = []\<rparr>, lw_net = 0\<rparr>"

lemma demo_number: "digits_of demo_number = demo_number" "length demo_number = 14"
  by (simp_all add: demo_number_def digits_of_def is_ascii_digit_def)

lemma idle_row: "local_row idle_host msg sql ps cw = (Ok None, cw)"
  by (simp add: local_row_def local_query_def idle_host_def idle_engine_def bindc_def ret_def mapped_def split: prod.splits)

lemma idle_settings:
  "lookup_limits_of idle_host cw = (Ok \<lparr>ll_per_minute = 3, ll_cooldown = 90, ll_ttl = 120\<rparr>, cw)"
  "lookup_providers idle_host cw =
     (Ok [(''publica_cnpj_ws'', ''Publica CNPJ WS'', ''https://publica.cnpj.ws/cnpj/''),
          (''receita_ws'', ''ReceitaWS'', ''https://www.receitaws.com.br/v1/cnpj/'')], cw)"
  by (simp_all add: lookup_limits_of_def lookup_providers_def get_setting_i64_def get_setting_url_def setting_row_def bindc_def ret_def
      idle_row nonempty_def)

lemma demo_ready: "lookup_ready demo_lookup_sys w (1000 + int (aw_reads (lw_app w)))"
  by (simp add: lookup_ready_def demo_lookup_sys_def idle_settings) (simp add: idle_host_def idle_engine_def)

lemma demo_fields:
  "lk_host demo_lookup_sys = idle_host" "ho_db_path idle_host = Ok ''app.db''" "eg_open (ho_engine idle_host) a = Ok ()"
  "lk_seconds demo_lookup_sys a = (Ok (1000 + int (aw_reads a)), a\<lparr>aw_reads := Suc (aw_reads a)\<rparr>)"
  "lk_fetch demo_lookup_sys u n = (Ok (200, Ok ''{}''), Suc n)" "lk_upper demo_lookup_sys = id"
  "lk_parse demo_lookup_sys s = Ok (JObj [(''estabelecimento'', JObj [(''inscricoes_estaduais'', JArr [JObj [(''inscricao_estadual'', JNum (JInt 123))]])])])"
  "aw_reads (lw_app demo_lookup_world) = 0" "lw_runtime demo_lookup_world = \<lparr>lr_providers = [], lr_cache = []\<rparr>"
  by (simp_all add: demo_lookup_sys_def idle_host_def idle_engine_def demo_lookup_world_def demo_app_world_def)

lemma demo_publica:
  "\<exists>p. parse_publica_ws_response (lk_parse demo_lookup_sys) id body None = Ok p \<and> map_of p ''inscricao_estadual'' = Some (JStr ''123'') \<and>
     map_of p ''source'' = Some (JStr ''publica_cnpj_ws'')"
proof -
  have n: "show_int 123 = ''123''" by code_simp
  show ?thesis
    by (simp add: parse_publica_ws_response_def demo_fields registration_of_def optional_json_string_def obj_get_def List.map_filter_def n
        field_texts_def clean_uf_def nonempty_def Let_def)
qed

lemma demo_lookup:
  "\<exists>p w'. company_lookup_cnpj demo_lookup_sys demo_number None demo_lookup_world = (Ok p, w') \<and> aw_reads (lw_app w') = 1 \<and>
     optional_json_string (obj_get p ''inscricao_estadual'') = Some ''123''"
proof -
  have t: "trim ''123'' = ''123''" by (rule trim_graph) (simp_all add: graph_char_def)
  obtain p where p: "parse_publica_ws_response (lk_parse demo_lookup_sys) id ''{}'' None = Ok p" "map_of p ''inscricao_estadual'' = Some (JStr ''123'')"
      "map_of p ''source'' = Some (JStr ''publica_cnpj_ws'')"
    using demo_publica by blast
  have run: "company_lookup_cnpj demo_lookup_sys demo_number None demo_lookup_world =
    (case lookup_cnpj demo_lookup_sys demo_number None ((), demo_lookup_world) of (r, (_, w')) \<Rightarrow> (r, w'))"
    by (simp add: company_lookup_cnpj_def demo_fields)
  show ?thesis
    unfolding run
    by (simp add: lookup_cnpj_def demo_number demo_fields idle_settings bindc_def ret_def on_conn_def beside_def on_runtime_def
        lookup_cached_def sanitize_lookup_cache_def clean_uf_def nonempty_def try_provider_def provider_can_run_def rate_of_def fresh_rate_def
        renew_window_def purge_old_requests_def set_rate_def Let_def fetch_json_text_def p fetched_payload_def obj_get_def map_of_hm_insert
        remember_def optional_json_string_def t)
qed

theorem answer_is_cached_witness:
  "\<exists>p w' v'. company_lookup_cnpj demo_lookup_sys demo_number None demo_lookup_world = (Ok p, w') \<and>
     company_lookup_cnpj demo_lookup_sys demo_number (Some ''RJ'') w' = (Ok (cached_payload p), v') \<and> lw_net v' = lw_net w'"
proof -
  obtain p w' where first: "company_lookup_cnpj demo_lookup_sys demo_number None demo_lookup_world = (Ok p, w')" "aw_reads (lw_app w') = 1"
    using demo_lookup by blast
  have "\<exists>ttl :: int. 10 \<le> ttl \<and> ttl \<le> 1800 \<and>
    (1001 < 1000 + ttl \<longrightarrow>
       (\<exists>v'. company_lookup_cnpj demo_lookup_sys demo_number (Some ''RJ'') w' = (Ok (cached_payload p), v') \<and> lw_net v' = lw_net w' \<and>
          lr_providers (lw_runtime v') = lr_providers (lw_runtime w'))) \<and>
    (1000 + ttl \<le> 1001 \<longrightarrow> fst (lookup_cached (digits_of demo_number) 1001 (lw_runtime w')) = None)"
    using demo_ready [of w'] first(2)
    by (intro answer_is_cached [OF first(1)])
      (auto simp: demo_lookup_sys_def demo_lookup_world_def demo_app_world_def hm_wf_def)
  with first(1) show ?thesis by auto
qed

theorem registration_under_other_unit_witness:
  "\<exists>r w'. company_lookup_ie demo_lookup_sys demo_number (Some ''RJ'')
      (demo_lookup_world\<lparr>lw_runtime := \<lparr>lr_providers = [], lr_cache = [(demo_number, (1100, [(''inscricao_estadual'', JNum (JInt 123)), (''estado'', JStr ''SP'')]))]\<rparr>\<rparr>) = (Ok r, w') \<and>
    optional_json_string (obj_get r ''inscricao_estadual'') = Some ''123'' \<and> obj_get r ''estado'' = Some (JStr ''RJ'')"
proof -
  have rj: "trim ''RJ'' = ''RJ''" by (rule trim_graph) (simp_all add: graph_char_def)
  have n: "show_int 123 = ''123''" by code_simp
  let ?w = "demo_lookup_world\<lparr>lw_runtime := \<lparr>lr_providers = [], lr_cache = [(demo_number, (1100, [(''inscricao_estadual'', JNum (JInt 123)), (''estado'', JStr ''SP'')]))]\<rparr>\<rparr>"
  have "\<exists>r w'. company_lookup_ie demo_lookup_sys demo_number (Some ''RJ'') ?w = (Ok r, w') \<and>
    optional_json_string (obj_get r ''inscricao_estadual'') = Some ''123'' \<and> obj_get r ''estado'' = Some (JStr (lk_upper demo_lookup_sys (trim ''RJ'')))"
    by (rule registration_under_other_unit [OF demo_ready [of ?w], where e = 1100 and
          p = "[(''inscricao_estadual'', JNum (JInt 123)), (''estado'', JStr ''SP'')]"])
      (simp_all add: demo_number rj n optional_json_string_def obj_get_def demo_lookup_world_def demo_app_world_def)
  then show ?thesis by (simp add: rj) (simp add: demo_lookup_sys_def)
qed

subsection \<open>What a stored company has been checked for\<close>

lemma ascii_upper_alnum: "ascii_alnum c \<Longrightarrow> is_ascii_digit (ascii_upper c) \<or> CHR ''A'' \<le> ascii_upper c \<and> ascii_upper c \<le> CHR ''Z''"
  by (auto simp: ascii_alnum_def is_ascii_digit_def ascii_upper_def ascii_lower_def less_eq_char_def split: if_splits)

lemma duplicate_none:
  "first_row rows = None \<longleftrightarrow> rows = []" "map_err h (and_then r (\<lambda>x. Ok (Some x))) \<noteq> Ok None"
  by (cases rows; simp) (cases r; simp)

lemma get_string_nonempty: "get_string payload key = Some v \<Longrightarrow> v \<noteq> []"
  by (cases "Option.bind (obj_get payload key) scalar_text") (auto simp: get_string_def split: if_splits)

lemma check_company_Ok:
  assumes "check_company up payload = Ok f"
  shows "cf_nome f \<noteq> [] \<and> validate_company_document (cf_documento f) \<and> (\<exists>raw. cf_documento f = normalize_document_key raw)"
  using assms
  by (cases "get_string payload ''nome''"; cases "get_string payload ''documento''")
    (auto simp: check_company_def Let_def get_string_nonempty split: if_splits)

text \<open>A company that \<open>company_save\<close> reports as saved has a name, a document of capital letters and digits that passes the validation, and no other company with that document was found just before; a failure of any of these leaves the table alone.\<close>

theorem company_save_checks:
  assumes "company_save sy up payload d = (Ok saved, d')"
  shows "\<exists>f c now d1 cd. check_company up payload = Ok f \<and> cf_nome f \<noteq> [] \<and> validate_company_document (cf_documento f) \<and>
    list_all (\<lambda>x. is_ascii_digit x \<or> CHR ''A'' \<le> x \<and> x \<le> CHR ''Z'') (cf_documento f) \<and>
    eg_open (ho_engine sy) d = Ok c \<and> ho_now sy d = (Ok now, d1) \<and>
    eg_query (ho_engine sy) duplicate_sql [SqlText (cf_documento f), opt_sql (get_id payload)] (c, d1) = (Ok [], cd)"
proof -
  obtain c cw now w1 f cd where c: "eg_open (ho_engine sy) d = Ok c" and n: "beside (ho_now sy) (c, d) = (Ok now, w1)"
    and f: "check_company up payload = Ok f" and dup: "company_duplicate sy (cf_documento f) (get_id payload) w1 = (Ok None, cd)"
    using assms
    by (auto simp: company_save_def local_conn_def with_conn_def lift_Ok ensure_Ok Let_def elim!: bindc_OkE split: sum.splits prod.splits)
  obtain d1 where d1: "w1 = (c, d1)" "ho_now sy d = (Ok now, d1)"
    using n by (auto simp: beside_def split: prod.splits)
  obtain cd' where "eg_query (ho_engine sy) duplicate_sql [SqlText (cf_documento f), opt_sql (get_id payload)] (c, d1) = (Ok [], cd')"
    using dup d1
    by (auto simp: company_duplicate_def local_row_def local_query_def mapped_def lift_Ok ret_def Let_def duplicate_none elim!: bindc_OkE
        split: sum.splits prod.splits option.splits)
  with check_company_Ok [OF f] show ?thesis
    using f c d1 by (auto simp: normalize_document_key_def list_all_iff dest!: ascii_upper_alnum)
qed

text \<open>An engine that finds no duplicate and reads every row as one with the key 7.\<close>

definition saving_engine :: "(unit, nat) engine" where
  "saving_engine =
     \<lparr>eg_open = (\<lambda>_. Ok ()), eg_execute = (\<lambda>_ _ (c, d). (Ok 1, (c, Suc d))),
      eg_query = (\<lambda>sql _ w. (Ok (if sql = duplicate_sql then [] else [[(''id'', RefInteger 7)]]), w)), eg_last_id = (\<lambda>_. 7)\<rparr>"

definition saving_host :: "(unit, nat) host_sys" where
  "saving_host =
     \<lparr>ho_engine = saving_engine, ho_external = (\<lambda>_. sqlite_provider saving_engine (\<lambda>_. [])), ho_env = Map.empty,
      ho_db_path = Ok ''app.db'', ho_json_text = (\<lambda>_. []), ho_now = (\<lambda>d. (Ok ''now'', d)), ho_hash_password = (\<lambda>p d. (Ok p, d))\<rparr>"

definition demo_payload :: json_obj where
  "demo_payload = [(''nome'', JStr ''ACME''), (''documento'', JStr demo_number)]"

lemma demo_company_check: "check_company id demo_payload = Ok \<lparr>cf_nome = ''ACME'', cf_documento = demo_number, cf_email = None, cf_estado = None\<rparr>"
proof -
  have n: "trim demo_number = demo_number" by (rule trim_graph) (simp_all add: graph_char_def demo_number_def)
  have t: "trim ''ACME'' = ''ACME''" by (rule trim_graph) (simp_all add: graph_char_def)
  have k: "normalize_document_key demo_number = demo_number" "validate_company_document demo_number"
    unfolding demo_number_def by code_simp+
  have "demo_number \<noteq> []" using demo_number(2) by auto
  then have g: "get_string demo_payload ''nome'' = Some ''ACME''" "get_string demo_payload ''documento'' = Some demo_number"
    "get_string demo_payload ''email'' = None" "get_string demo_payload ''estado'' = None"
    by (simp_all add: get_string_def obj_get_def t n demo_payload_def)
  show ?thesis unfolding check_company_def g by (simp add: k normalize_upper_uf_def)
qed

lemma saving_steps:
  "local_row saving_host msg sql ps cw = (Ok (if sql = duplicate_sql then None else Some [(''id'', RefInteger 7)]), cw)"
  "local_execute saving_host msg sql ps (c, d) = (Ok 1, (c, Suc d))"
  by (simp_all add: local_row_def local_query_def local_execute_def mapped_def saving_host_def saving_engine_def bindc_def ret_def)

lemma demo_company: "company_save saving_host id demo_payload 0 = (Ok [(''id'', js_int 7)], 3)"
proof -
  have host: "ho_db_path saving_host = Ok ''app.db''" "eg_open (ho_engine saving_host) d = Ok ()" "ho_now saving_host d = (Ok ''now'', d)"
    "eg_last_id (ho_engine saving_host) c = 7" for d c
    by (simp_all add: saving_host_def saving_engine_def)
  have new: "get_id demo_payload = None" by (simp add: get_id_def get_i64_def obj_get_def demo_payload_def)
  have q: "company_select_sql @ '' WHERE id = ?1'' \<noteq> duplicate_sql" by (simp add: company_select_sql_def duplicate_sql_def indented_def Let_def)
  have steps: "company_duplicate saving_host doc i cw = (Ok None, cw)"
    "company_row saving_host msg missing j cw = (Ok [(''id'', js_int 7)], cw)"
    "store_company saving_host None values now (c, d) = (Ok 7, (c, Suc d))"
    "conn_write_audit saving_host e a i v (c, d) = (Ok (), (c, Suc d))" "conn_enqueue_sync saving_host e a i v (c, d) = (Ok (), (c, Suc d))"
    for doc i j cw msg missing "values" now c d e a v
    by (simp_all add: company_duplicate_def company_row_def store_company_def conn_write_audit_def conn_enqueue_sync_def saving_steps q
        bindc_def ret_def row_to_json_map_def host Let_def)
  show ?thesis
    unfolding company_save_def new Let_def local_conn_def with_conn_def bindc_def lift_def host demo_company_check beside_def
    by (simp add: host steps ensure_def ret_def)
qed

theorem company_save_checks_witness:
  "\<exists>f. check_company id demo_payload = Ok f \<and> cf_nome f \<noteq> [] \<and>
    validate_company_document (cf_documento f)"
  using company_save_checks [OF demo_company] by blast

end
