(* ===== verification/Migrations.thy ===== *)
theory Migrations
  imports Entities Access_Props
begin

text \<open>
  The start of the local database, \<^verbatim>\<open>migrations.rs\<close>: the schema, the columns added to older
  databases, the normalisation of existing rows, the unique indexes and the rows that every start
  makes sure of. The statements run one by one without a transaction. A row of an older database
  already carries the default of a column that is added here.
\<close>

subsection \<open>The schema\<close>

datatype column_type = TextCol | IntegerCol | RealCol

datatype column_rule = PrimaryKey | Autoincrement | NotNull | Unique | Default string | Check string

datatype on_delete = NoAction | Cascade | SetNull

type_synonym column_def = "string \<times> column_type \<times> column_rule list"

text \<open>Name, columns and foreign keys of a table.\<close>

datatype table_def = Table (tb_name: string) (tb_columns: "column_def list") (tb_foreign: "(string \<times> string \<times> on_delete) list")

definition access_schema :: "table_def list" where
  "access_schema =
     [Table ''empresas''
        [(''id'', IntegerCol, [PrimaryKey, Autoincrement]), (''nome'', TextCol, [NotNull]),
         (''nome_fantasia'', TextCol, []), (''documento'', TextCol, []), (''inscricao_estadual'', TextCol, []),
         (''inscricao_municipal'', TextCol, []), (''telefone'', TextCol, []), (''email'', TextCol, []),
         (''responsavel_nome'', TextCol, []), (''responsavel_telefone'', TextCol, []), (''cep'', TextCol, []),
         (''endereco'', TextCol, []), (''numero'', TextCol, []), (''complemento'', TextCol, []),
         (''bairro'', TextCol, []), (''cidade'', TextCol, []), (''estado'', TextCol, []), (''observacoes'', TextCol, []),
         (''ativo'', IntegerCol, [NotNull, Default ''1'']), (''created_at'', TextCol, [NotNull]),
         (''updated_at'', TextCol, [NotNull])]
        [],
      Table ''usuarios''
        [(''id'', IntegerCol, [PrimaryKey, Autoincrement]), (''nome'', TextCol, [NotNull]),
         (''login'', TextCol, [NotNull, Unique]), (''email'', TextCol, []), (''telefone'', TextCol, []),
         (''cargo'', TextCol, []), (''observacoes'', TextCol, []), (''photo_url'', TextCol, []),
         (''senha_hash'', TextCol, [NotNull]), (''master_user'', IntegerCol, [NotNull, Default ''0'']),
         (''administrador'', IntegerCol, [NotNull, Default ''0'']),
         (''senha_provisoria'', IntegerCol, [NotNull, Default ''0'']), (''ultimo_login_em'', TextCol, []),
         (''ativo'', IntegerCol, [NotNull, Default ''1'']), (''created_at'', TextCol, [NotNull]),
         (''updated_at'', TextCol, [NotNull])]
        [],
      Table ''perfis_acesso''
        [(''id'', IntegerCol, [PrimaryKey, Autoincrement]), (''nome'', TextCol, [NotNull, Unique]),
         (''descricao'', TextCol, []), (''perfil_master'', IntegerCol, [NotNull, Default ''0'']),
         (''ativo'', IntegerCol, [NotNull, Default ''1'']), (''created_at'', TextCol, [NotNull]),
         (''updated_at'', TextCol, [NotNull])]
        [],
      Table ''perfis_permissoes''
        [(''id'', IntegerCol, [PrimaryKey, Autoincrement]), (''perfil_id'', IntegerCol, [NotNull]),
         (''permissao_chave'', TextCol, [NotNull]), (''created_at'', TextCol, [NotNull])]
        [(''perfil_id'', ''perfis_acesso'', Cascade)],
      Table ''usuarios_perfis''
        [(''id'', IntegerCol, [PrimaryKey, Autoincrement]), (''usuario_id'', IntegerCol, [NotNull]),
         (''perfil_id'', IntegerCol, [NotNull]), (''created_at'', TextCol, [NotNull])]
        [(''usuario_id'', ''usuarios'', Cascade), (''perfil_id'', ''perfis_acesso'', Cascade)],
      Table ''usuarios_empresas''
        [(''id'', IntegerCol, [PrimaryKey, Autoincrement]), (''usuario_id'', IntegerCol, [NotNull]),
         (''empresa_id'', IntegerCol, [NotNull]), (''created_at'', TextCol, [NotNull])]
        [(''usuario_id'', ''usuarios'', Cascade), (''empresa_id'', ''empresas'', Cascade)],
      Table ''user_sessions''
        [(''id'', IntegerCol, [PrimaryKey, Autoincrement]), (''usuario_id'', IntegerCol, [NotNull]),
         (''session_token'', TextCol, [NotNull, Unique]), (''created_at'', TextCol, [NotNull]),
         (''expires_at'', TextCol, [NotNull]), (''last_activity_at'', TextCol, [NotNull])]
        [(''usuario_id'', ''usuarios'', Cascade)]]"

definition master_data_schema :: "table_def list" where
  "master_data_schema =
     [Table ''departamentos''
        [(''id'', IntegerCol, [PrimaryKey, Autoincrement]), (''descricao'', TextCol, [NotNull]),
         (''ativo'', IntegerCol, [NotNull, Default ''1'']), (''created_at'', TextCol, [NotNull]),
         (''updated_at'', TextCol, [NotNull])]
        [],
      Table ''funcoes''
        [(''id'', IntegerCol, [PrimaryKey, Autoincrement]), (''descricao'', TextCol, [NotNull]),
         (''ativo'', IntegerCol, [NotNull, Default ''1'']), (''created_at'', TextCol, [NotNull]),
         (''updated_at'', TextCol, [NotNull])]
        [],
      Table ''centro_custos''
        [(''id'', IntegerCol, [PrimaryKey, Autoincrement]), (''codigo'', TextCol, []),
         (''descricao'', TextCol, [NotNull]), (''ativo'', IntegerCol, [NotNull, Default ''1'']),
         (''created_at'', TextCol, [NotNull]), (''updated_at'', TextCol, [NotNull])]
        [],
      Table ''clientes''
        [(''id'', IntegerCol, [PrimaryKey, Autoincrement]), (''nome'', TextCol, [NotNull]), (''documento'', TextCol, []),
         (''telefone'', TextCol, []), (''email'', TextCol, []), (''endereco'', TextCol, []), (''cidade'', TextCol, []),
         (''estado'', TextCol, []), (''observacoes'', TextCol, []), (''ativo'', IntegerCol, [NotNull, Default ''1'']),
         (''created_at'', TextCol, [NotNull]), (''updated_at'', TextCol, [NotNull])]
        [],
      Table ''fornecedores''
        [(''id'', IntegerCol, [PrimaryKey, Autoincrement]), (''nome'', TextCol, [NotNull]), (''documento'', TextCol, []),
         (''telefone'', TextCol, []), (''email'', TextCol, []), (''endereco'', TextCol, []), (''cidade'', TextCol, []),
         (''estado'', TextCol, []), (''observacoes'', TextCol, []), (''ativo'', IntegerCol, [NotNull, Default ''1'']),
         (''created_at'', TextCol, [NotNull]), (''updated_at'', TextCol, [NotNull])]
        [],
      Table ''produtos''
        [(''id'', IntegerCol, [PrimaryKey, Autoincrement]), (''codigo'', TextCol, []),
         (''descricao'', TextCol, [NotNull]), (''tipo'', TextCol, []), (''unidade'', TextCol, []),
         (''valor'', RealCol, [NotNull, Default ''0'']), (''ativo'', IntegerCol, [NotNull, Default ''1'']),
         (''created_at'', TextCol, [NotNull]), (''updated_at'', TextCol, [NotNull])]
        []]"

definition system_schema :: "table_def list" where
  "system_schema =
     [Table ''audit_logs''
        [(''id'', IntegerCol, [PrimaryKey, Autoincrement]), (''entity_name'', TextCol, [NotNull]),
         (''action_name'', TextCol, [NotNull]), (''record_id'', IntegerCol, []), (''payload_json'', TextCol, []),
         (''created_at'', TextCol, [NotNull])]
        [],
      Table ''sync_queue''
        [(''id'', IntegerCol, [PrimaryKey, Autoincrement]), (''entity_name'', TextCol, [NotNull]),
         (''action_name'', TextCol, [NotNull]), (''record_id'', IntegerCol, []), (''payload_json'', TextCol, []),
         (''status'', TextCol, [NotNull, Default ''pending'']), (''created_at'', TextCol, [NotNull]),
         (''updated_at'', TextCol, [NotNull])]
        [],
      Table ''app_settings''
        [(''chave'', TextCol, [PrimaryKey]), (''valor'', TextCol, []),
         (''created_at'', TextCol, [NotNull, Default ''(datetime('now'))'']),
         (''updated_at'', TextCol, [NotNull, Default ''(datetime('now'))''])]
        [],
      Table ''app_logs''
        [(''id'', IntegerCol, [PrimaryKey, Autoincrement]), (''level'', TextCol, [NotNull]),
         (''category'', TextCol, [NotNull]), (''message'', TextCol, [NotNull]), (''source'', TextCol, []),
         (''route'', TextCol, []), (''details_json'', TextCol, []), (''created_at'', TextCol, [NotNull])]
        [],
      Table ''admin_guard''
        [(''id'', IntegerCol, [PrimaryKey, Check ''id = 1'']), (''support_secret_hash'', TextCol, []),
         (''totp_secret_encrypted'', TextCol, []), (''totp_enabled'', IntegerCol, [NotNull, Default ''0'']),
         (''recovery_codes_encrypted'', TextCol, []), (''licensing_protected'', IntegerCol, [NotNull, Default ''1'']),
         (''white_label_protected'', IntegerCol, [NotNull, Default ''1'']), (''created_at'', TextCol, [NotNull]),
         (''updated_at'', TextCol, [NotNull]), (''last_rotated_at'', TextCol, [])]
        [],
      Table ''admin_unlock_sessions''
        [(''id'', IntegerCol, [PrimaryKey, Autoincrement]), (''usuario_id'', IntegerCol, [NotNull]),
         (''scope'', TextCol, [NotNull]), (''unlock_token'', TextCol, [NotNull, Unique]),
         (''expires_at'', TextCol, [NotNull]), (''created_at'', TextCol, [NotNull]), (''last_used_at'', TextCol, [])]
        [(''usuario_id'', ''usuarios'', Cascade)],
      Table ''local_licenses''
        [(''id'', IntegerCol, [PrimaryKey, Autoincrement]), (''empresa_id'', IntegerCol, [NotNull]),
         (''cnpj'', TextCol, [NotNull]), (''license_kind'', TextCol, [NotNull]),
         (''status'', TextCol, [NotNull, Default ''active'']), (''issued_at'', TextCol, [NotNull]),
         (''expires_at'', TextCol, [NotNull]), (''fingerprint'', TextCol, []), (''payload_encrypted'', TextCol, []),
         (''integrity_hash'', TextCol, []), (''created_at'', TextCol, [NotNull]), (''updated_at'', TextCol, [NotNull])]
        [(''empresa_id'', ''empresas'', NoAction)],
      Table ''feature_flags''
        [(''chave'', TextCol, [PrimaryKey]), (''ativo'', IntegerCol, [NotNull, Default ''1'']),
         (''descricao'', TextCol, []), (''created_at'', TextCol, [NotNull, Default ''(datetime('now'))'']),
         (''updated_at'', TextCol, [NotNull, Default ''(datetime('now'))''])]
        [],
      Table ''integration_configs''
        [(''id'', IntegerCol, [PrimaryKey, Autoincrement]), (''nome'', TextCol, [NotNull]),
         (''tipo'', TextCol, [NotNull, Default ''rest'']), (''base_url'', TextCol, [NotNull]),
         (''metodo_padrao'', TextCol, [NotNull, Default ''GET'']), (''headers_json'', TextCol, []),
         (''token_encrypted'', TextCol, []), (''ambiente'', TextCol, [NotNull, Default ''production'']),
         (''status'', TextCol, [NotNull, Default ''inactive'']),
         (''timeout_seconds'', IntegerCol, [NotNull, Default ''30'']),
         (''retry_attempts'', IntegerCol, [NotNull, Default ''0'']), (''ultimo_erro'', TextCol, []),
         (''ultima_execucao_em'', TextCol, []), (''ativo'', IntegerCol, [NotNull, Default ''1'']),
         (''created_at'', TextCol, [NotNull]), (''updated_at'', TextCol, [NotNull])]
        [],
      Table ''integration_logs''
        [(''id'', IntegerCol, [PrimaryKey, Autoincrement]), (''integration_id'', IntegerCol, []),
         (''method'', TextCol, []), (''url'', TextCol, []), (''request_headers_json'', TextCol, []),
         (''status_code'', IntegerCol, []), (''success'', IntegerCol, [NotNull, Default ''0'']),
         (''duration_ms'', IntegerCol, []), (''error_message'', TextCol, []), (''created_at'', TextCol, [NotNull])]
        [(''integration_id'', ''integration_configs'', SetNull)],
      Table ''api_tokens''
        [(''id'', IntegerCol, [PrimaryKey, Autoincrement]), (''nome'', TextCol, [NotNull]),
         (''token_hash'', TextCol, [NotNull]), (''escopo'', TextCol, []),
         (''ativo'', IntegerCol, [NotNull, Default ''1'']), (''expires_at'', TextCol, []),
         (''created_at'', TextCol, [NotNull]), (''updated_at'', TextCol, [NotNull])]
        [],
      Table ''configuracoes''
        [(''nome'', TextCol, [PrimaryKey]), (''valor'', TextCol, []), (''updated_at'', TextCol, [NotNull])]
        []]"

definition schema :: "table_def list" where
  "schema = access_schema @ master_data_schema @ system_schema"

subsection \<open>The rest of the database\<close>

record cadastro =
  cd_id :: int
  cd_codigo :: "string option"
  cd_descricao :: string
  cd_ativo :: int
  cd_created_at :: string
  cd_updated_at :: string

record config_row =
  cg_valor :: "string option"
  cg_updated_at :: string

record guard_row =
  gd_support_secret_hash :: "string option"
  gd_totp_secret_encrypted :: "string option"
  gd_totp_enabled :: int
  gd_recovery_codes_encrypted :: "string option"
  gd_licensing_protected :: int
  gd_white_label_protected :: int
  gd_created_at :: string
  gd_updated_at :: string
  gd_last_rotated_at :: "string option"

record local_license =
  loc_id :: int
  loc_empresa_id :: int
  loc_cnpj :: string
  loc_license_kind :: string
  loc_status :: string
  loc_issued_at :: string
  loc_expires_at :: string
  loc_fingerprint :: "string option"
  loc_payload_encrypted :: "string option"
  loc_integrity_hash :: "string option"
  loc_created_at :: string
  loc_updated_at :: string

text \<open>
  \<open>cw_columns\<close> gives the columns a table has, none when it does not exist; \<open>cw_cadastros\<close> the rows of
  \<^verbatim>\<open>departamentos\<close>, \<^verbatim>\<open>funcoes\<close> and \<^verbatim>\<open>centro_custos\<close>. The table \<^verbatim>\<open>admin_guard\<close> has one row at most, by its
  \<^verbatim>\<open>CHECK (id = 1)\<close>.
\<close>

record 'g console_world =
  cw_app :: "'g app_world"
  cw_columns :: "string \<Rightarrow> string list"
  cw_cadastros :: "string \<Rightarrow> cadastro list"
  cw_configuracoes :: "string \<rightharpoonup> config_row"
  cw_guard :: "guard_row option"
  cw_licenses :: "local_license list"

definition on_tables :: "('a, 'g app_world) cmd \<Rightarrow> ('a, 'g console_world) cmd" where
  "on_tables m w = (case m (cw_app w) of (r, a) \<Rightarrow> (r, w\<lparr>cw_app := a\<rparr>))"

definition cw_query :: "'g app_sys \<Rightarrow> string \<Rightarrow> ('g console_world \<Rightarrow> 'a) \<Rightarrow> ('a, 'g console_world) cmd" where
  "cw_query sy msg q w = (case sa_fail sy msg of Some err \<Rightarrow> (Err (msg @ '': '' @ err), w) | None \<Rightarrow> (Ok (q w), w))"

definition cw_exec ::
  "'g app_sys \<Rightarrow> string \<Rightarrow> ('g console_world \<Rightarrow> ('g console_world, string) result) \<Rightarrow> (unit, 'g console_world) cmd" where
  "cw_exec sy msg stmt w =
     (case sa_fail sy msg of
        Some err \<Rightarrow> (Err (msg @ '': '' @ err), w)
      | None \<Rightarrow> (case stmt w of Inl err \<Rightarrow> (Err (msg @ '': '' @ err), w) | Inr w' \<Rightarrow> (Ok (), w')))"

subsection \<open>Older databases\<close>

definition create_table :: "table_def \<Rightarrow> 'g console_world \<Rightarrow> 'g console_world" where
  "create_table t w =
     (if cw_columns w (tb_name t) \<noteq> [] then w
      else w\<lparr>cw_columns := (cw_columns w)(tb_name t := map fst (tb_columns t))\<rparr>)"

definition create_tables :: "'g app_sys \<Rightarrow> (unit, 'g console_world) cmd" where
  "create_tables sy = each (\<lambda>t. cw_exec sy ''Falha ao executar migrations'' (\<lambda>w. Ok (create_table t w))) schema"

definition added_columns :: "(string \<times> string) list" where
  "added_columns =
     map (Pair ''empresas'') [''nome_fantasia'', ''inscricao_estadual'', ''inscricao_municipal'', ''responsavel_nome'',
       ''responsavel_telefone'', ''cep'', ''numero'', ''complemento'', ''observacoes''] @
     map (Pair ''usuarios'') [''email'', ''telefone'', ''cargo'', ''observacoes'', ''photo_url'', ''master_user'',
       ''senha_provisoria'', ''ultimo_login_em'']"

definition add_column :: "string \<Rightarrow> string \<Rightarrow> 'g console_world \<Rightarrow> 'g console_world" where
  "add_column table column w = w\<lparr>cw_columns := (cw_columns w)(table := cw_columns w table @ [column])\<rparr>"

definition add_column_if_missing :: "'g app_sys \<Rightarrow> string \<Rightarrow> string \<Rightarrow> (unit, 'g console_world) cmd" where
  "add_column_if_missing sy table column =
     bindc (cw_query sy (''Falha ao inspecionar tabela '' @ table) (\<lambda>_. ())) (\<lambda>_.
     bindc (cw_query sy (''Falha ao ler colunas de '' @ table) (\<lambda>_. ())) (\<lambda>_.
     bindc (cw_query sy (''Falha ao mapear coluna de '' @ table) (\<lambda>w. column \<in> set (cw_columns w table))) (\<lambda>exists.
     if exists then ret ()
     else cw_exec sy (''Falha ao adicionar coluna '' @ column @ '' em '' @ table) (\<lambda>w. Ok (add_column table column w)))))"

text \<open>Nested \<^verbatim>\<open>REPLACE(..., c, '')\<close> around \<^verbatim>\<open>COALESCE(column, '')\<close>, and \<^verbatim>\<open>LOWER(TRIM(...))\<close> of SQLite.\<close>

definition without :: "string \<Rightarrow> string option \<Rightarrow> string option" where
  "without cs v = Some (filter (\<lambda>c. c \<notin> set cs) (unwrap_or [] v))"

definition sql_trim :: "string \<Rightarrow> string" where
  "sql_trim s = rev (dropWhile (\<lambda>c. c = CHR '' '') (rev (dropWhile (\<lambda>c. c = CHR '' '') s)))"

definition normal_login :: "string \<Rightarrow> string" where
  "normal_login s = to_ascii_lowercase (sql_trim s)"

definition update_companies :: "(empresa \<Rightarrow> empresa) \<Rightarrow> 'g app_world \<Rightarrow> 'g app_world" where
  "update_companies f w = w\<lparr>db_empresas := map f (db_empresas w)\<rparr>"

definition lower_logins :: "'g app_world \<Rightarrow> 'g app_world" where
  "lower_logins w = w\<lparr>db_usuarios := map (\<lambda>u. u\<lparr>us_login := normal_login (us_login u)\<rparr>) (db_usuarios w)\<rparr>"

definition normalize_rows :: "'g app_sys \<Rightarrow> (unit, 'g app_world) cmd" where
  "normalize_rows sy =
     (let run = exec sy ''Falha ao normalizar dados existentes''; phone = ''()- .'' in
      bindc (run (\<lambda>w. Ok (update_companies (em_documento_update (without ''.-/() '')) w))) (\<lambda>_.
      bindc (run (\<lambda>w. Ok (update_companies (em_telefone_update (without phone)) w))) (\<lambda>_.
      bindc (run (\<lambda>w. Ok (update_companies (em_responsavel_telefone_update (without phone)) w))) (\<lambda>_.
      bindc (run (\<lambda>w. Ok (update_companies (em_cep_update (without ''.- '')) w))) (\<lambda>_.
      bindc (run (\<lambda>w. and_then (checked sy ''usuarios.login'' (\<lambda>w. distinct (map us_login (db_usuarios (lower_logins w)))) w)
        (\<lambda>w. Ok (lower_logins w)))) (\<lambda>_.
      run (\<lambda>w. Ok (w\<lparr>db_usuarios := map (us_telefone_update (without phone)) (db_usuarios w)\<rparr>))))))))"

definition migrate_existing_schema :: "'g app_sys \<Rightarrow> (unit, 'g console_world) cmd" where
  "migrate_existing_schema sy =
     bindc (each (\<lambda>(table, column). add_column_if_missing sy table column) added_columns) (\<lambda>_. on_tables (normalize_rows sy))"

definition ensure_optional_columns :: "'g app_sys \<Rightarrow> (unit, 'g console_world) cmd" where
  "ensure_optional_columns sy =
     bindc (cw_query sy (''Falha ao verificar colunas de usu'' @ u_aacute @ ''rios'') (\<lambda>w. ''photo_url'' \<in> set (cw_columns w ''usuarios''))) (\<lambda>has_photo.
     if has_photo then ret ()
     else cw_exec sy ''Falha ao adicionar coluna photo_url em usuarios'' (\<lambda>w. Ok (add_column ''usuarios'' ''photo_url'' w)))"

text \<open>The unique indexes; the others restrict nothing.\<close>

definition unique_indexes :: "(string \<times> ('g console_world \<Rightarrow> bool)) list" where
  "unique_indexes =
     [(''perfis_acesso.nome'', \<lambda>w. distinct (map pf_nome (db_perfis (cw_app w)))),
      (''perfis_permissoes.perfil_id, perfis_permissoes.permissao_chave'',
         \<lambda>w. distinct (map (\<lambda>q. (pp_perfil_id q, pp_chave q)) (db_permissoes (cw_app w)))),
      (''usuarios_perfis.usuario_id, usuarios_perfis.perfil_id'',
         \<lambda>w. distinct (map (\<lambda>l. (vi_usuario_id l, vi_alvo_id l)) (db_usuarios_perfis (cw_app w)))),
      (''usuarios_empresas.usuario_id, usuarios_empresas.empresa_id'',
         \<lambda>w. distinct (map (\<lambda>l. (vi_usuario_id l, vi_alvo_id l)) (db_usuarios_empresas (cw_app w)))),
      (''user_sessions.session_token'', \<lambda>w. distinct (map se_session_token (db_sessions (cw_app w)))),
      (''local_licenses.empresa_id'', \<lambda>w. distinct (map loc_empresa_id (cw_licenses w)))]"

definition ensure_indexes :: "'g app_sys \<Rightarrow> (unit, 'g console_world) cmd" where
  "ensure_indexes sy =
     each (\<lambda>(name, ok). cw_exec sy (''Falha ao criar '' @ u_iacute @ ''ndices'') (\<lambda>w. if ok w then Ok w else Err (sa_constraint sy name))) unique_indexes"

subsection \<open>Rows every start makes sure of\<close>

definition demonstration_company :: "string \<Rightarrow> int \<Rightarrow> empresa" where
  "demonstration_company now k =
     \<lparr>em_id = k, em_nome = (''Empresa Demonstra'' @ u_ccedil @ u_atilde @ ''o''), em_nome_fantasia = Some ''Empresa Demo'',
      em_documento = Some ''00000000000000'', em_inscricao_estadual = None, em_inscricao_municipal = None,
      em_telefone = Some ''0000000000'', em_email = Some ''contato@empresa.local'', em_responsavel_nome = None,
      em_responsavel_telefone = None, em_cep = None, em_endereco = None, em_numero = None, em_complemento = None,
      em_bairro = None, em_cidade = Some ''Cidade'', em_estado = Some ''UF'', em_observacoes = None, em_ativo = 1,
      em_created_at = now, em_updated_at = now\<rparr>"

definition insert_company :: "(int \<Rightarrow> empresa) \<Rightarrow> 'g app_world \<Rightarrow> 'g app_world" where
  "insert_company row w =
     (let e = row (next_key ''empresas'' w)
      in w\<lparr>db_empresas := db_empresas w @ [e], db_seq := (db_seq w)(''empresas'' := em_id e)\<rparr>)"

definition ensure_company_seed :: "'g app_sys \<Rightarrow> string \<Rightarrow> (unit, 'g app_world) cmd" where
  "ensure_company_seed sy now =
     bindc (query sy ''Falha ao verificar empresa inicial'' (\<lambda>w. first_row (db_empresas w))) (\<lambda>found.
     case found of
       Some _ \<Rightarrow> ret ()
     | None \<Rightarrow> exec sy ''Falha ao criar empresa inicial'' (\<lambda>w. Ok (insert_company (demonstration_company now) w)))"

definition legacy_account :: "string \<Rightarrow> string \<Rightarrow> int \<Rightarrow> usuario" where
  "legacy_account password_hash now k =
     \<lparr>us_id = k, us_nome = ''Conta local desativada'', us_login = ''legacy-disabled'', us_email = None, us_telefone = None,
      us_cargo = None, us_observacoes = None, us_photo_url = None, us_senha_hash = password_hash, us_master_user = 0,
      us_administrador = 0, us_senha_provisoria = 1, us_ultimo_login_em = None, us_ativo = 0, us_created_at = now,
      us_updated_at = now\<rparr>"

definition legacy_account_id :: "'g app_sys \<Rightarrow> string \<Rightarrow> (int, 'g app_world) cmd" where
  "legacy_account_id sy now =
     bindc (query sy (''Falha ao verificar usu'' @ u_aacute @ ''rio admin'') (\<lambda>w. find (\<lambda>u. us_login u = ''legacy-disabled'') (db_usuarios w))) (\<lambda>found.
     case found of
       Some u \<Rightarrow> ret (us_id u)
     | None \<Rightarrow>
         bindc (new_uuid sy) (\<lambda>password.
         bindc (hash_new_password sy password) (\<lambda>password_hash.
         bindc (exec sy (''Falha ao criar usu'' @ u_aacute @ ''rio admin'') (insert_user sy (legacy_account password_hash now))) (\<lambda>_ w.
         (Ok (db_seq w ''usuarios''), w)))))"

definition disable_account :: "string \<Rightarrow> usuario \<Rightarrow> usuario" where
  "disable_account now u = u\<lparr>us_master_user := 0, us_administrador := 0, us_ativo := 0, us_updated_at := now\<rparr>"

definition ensure_legacy_account :: "'g app_sys \<Rightarrow> string \<Rightarrow> (int, 'g app_world) cmd" where
  "ensure_legacy_account sy now =
     bindc (legacy_account_id sy now) (\<lambda>admin_id.
     bindc (exec sy (''Falha ao atualizar usu'' @ u_aacute @ ''rio admin'') (\<lambda>w. Ok (update_users (disable_account now) admin_id w))) (\<lambda>_.
     ret admin_id))"

definition master_profile :: "string \<Rightarrow> int \<Rightarrow> perfil" where
  "master_profile now k =
     \<lparr>pf_id = k, pf_nome = ''Master'', pf_descricao = Some ''Perfil com acesso total ao sistema.'', pf_perfil_master = 1,
      pf_ativo = 1, pf_created_at = now, pf_updated_at = now\<rparr>"

definition master_profile_id :: "'g app_sys \<Rightarrow> string \<Rightarrow> (int, 'g app_world) cmd" where
  "master_profile_id sy now =
     bindc (query sy ''Falha ao verificar perfil master'' (\<lambda>w. find (\<lambda>p. pf_nome p = ''Master'') (db_perfis w))) (\<lambda>found.
     case found of
       Some p \<Rightarrow> ret (pf_id p)
     | None \<Rightarrow>
         bindc (exec sy ''Falha ao criar perfil master'' (insert_profile sy (master_profile now))) (\<lambda>_ w.
         (Ok (db_seq w ''perfis_acesso''), w)))"

definition full_profile :: "string \<Rightarrow> perfil \<Rightarrow> perfil" where
  "full_profile now p =
     p\<lparr>pf_descricao := Some ''Perfil com acesso total ao sistema.'', pf_perfil_master := 1, pf_ativo := 1, pf_updated_at := now\<rparr>"

definition ensure_master_profile :: "'g app_sys \<Rightarrow> string \<Rightarrow> (int, 'g app_world) cmd" where
  "ensure_master_profile sy now =
     bindc (master_profile_id sy now) (\<lambda>perfil_id.
     bindc (exec sy ''Falha ao atualizar perfil master'' (update_profile sy perfil_id (full_profile now))) (\<lambda>_.
     ret perfil_id))"

text \<open>\<^verbatim>\<open>INSERT OR IGNORE\<close>: a row that is there already is no error.\<close>

definition or_ignore :: "('g app_world \<Rightarrow> bool) \<Rightarrow> ('g app_world \<Rightarrow> ('g app_world, string) result) \<Rightarrow> 'g app_world \<Rightarrow> ('g app_world, string) result" where
  "or_ignore there statement w = (if there w then Ok w else statement w)"

definition access_permission_keys :: "string list" where
  "access_permission_keys =
     [''dashboard:view'', ''empresas:view'', ''empresas:manage'', ''cadastros:view'', ''cadastros:manage'',
      ''usuarios:view'', ''usuarios:manage'', ''perfis:view'', ''perfis:manage'', ''config:view'', ''config:manage'',
      ''licenciamento:view'', ''licenciamento:manage'', ''logs:view'', ''logs:manage'', ''sync:view'', ''relatorios:export'']"

definition store_permission :: "'g app_sys \<Rightarrow> int \<Rightarrow> string \<Rightarrow> string \<Rightarrow> (unit, 'g app_world) cmd" where
  "store_permission sy perfil_id now key =
     exec sy (''Falha ao gravar permiss'' @ u_atilde @ ''o do perfil master'')
       (or_ignore (\<lambda>w. (perfil_id, key) \<in> set (map (\<lambda>q. (pp_perfil_id q, pp_chave q)) (db_permissoes w)))
         (insert_permission sy \<lparr>pp_perfil_id = perfil_id, pp_chave = key, pp_created_at = now\<rparr>))"

definition ensure_master_permissions :: "'g app_sys \<Rightarrow> int \<Rightarrow> string \<Rightarrow> (unit, 'g app_world) cmd" where
  "ensure_master_permissions sy perfil_id now =
     bindc (exec sy (''Falha ao limpar permiss'' @ u_otilde @ ''es do perfil master'')
         (\<lambda>w. Ok (w\<lparr>db_permissoes := filter (\<lambda>q. pp_perfil_id q \<noteq> perfil_id) (db_permissoes w)\<rparr>))) (\<lambda>_.
     each (store_permission sy perfil_id now) access_permission_keys)"

definition link_company :: "'g app_sys \<Rightarrow> int \<Rightarrow> string \<Rightarrow> int \<Rightarrow> (unit, 'g app_world) cmd" where
  "link_company sy admin_id now eid =
     exec sy (''Falha ao vincular empresa ao usu'' @ u_aacute @ ''rio admin'')
       (or_ignore (\<lambda>w. (admin_id, eid) \<in> set (map (\<lambda>l. (vi_usuario_id l, vi_alvo_id l)) (db_usuarios_empresas w)))
         (insert_company_link sy \<lparr>vi_usuario_id = admin_id, vi_alvo_id = eid, vi_created_at = now\<rparr>))"

definition ensure_admin_links :: "'g app_sys \<Rightarrow> int \<Rightarrow> int \<Rightarrow> string \<Rightarrow> (unit, 'g app_world) cmd" where
  "ensure_admin_links sy admin_id perfil_id now =
     bindc (exec sy ''Falha ao vincular perfil master ao admin''
         (or_ignore (\<lambda>w. (admin_id, perfil_id) \<in> set (map (\<lambda>l. (vi_usuario_id l, vi_alvo_id l)) (db_usuarios_perfis w)))
           (insert_profile_link sy \<lparr>vi_usuario_id = admin_id, vi_alvo_id = perfil_id, vi_created_at = now\<rparr>))) (\<lambda>_.
     bindc (listing sy [(''Falha ao preparar v'' @ u_iacute @ ''nculo de empresas do admin''), ''Falha ao consultar empresas para o admin'',
         ''Falha ao mapear empresas do admin''] (\<lambda>w. sort (map em_id (db_empresas w)))) (\<lambda>empresa_ids.
     each (link_company sy admin_id now) empresa_ids))"

definition ensure_access_seed :: "'g app_sys \<Rightarrow> string \<Rightarrow> (unit, 'g app_world) cmd" where
  "ensure_access_seed sy now =
     bindc (ensure_legacy_account sy now) (\<lambda>admin_id.
     bindc (ensure_master_profile sy now) (\<lambda>perfil_id.
     bindc (ensure_master_permissions sy perfil_id now) (\<lambda>_.
     ensure_admin_links sy admin_id perfil_id now)))"

text \<open>The seeds of \<^verbatim>\<open>departamentos\<close>, \<^verbatim>\<open>funcoes\<close> and \<^verbatim>\<open>centro_custos\<close>.\<close>

definition insert_cadastro :: "string \<Rightarrow> string option \<Rightarrow> string \<Rightarrow> string \<Rightarrow> 'g console_world \<Rightarrow> 'g console_world" where
  "insert_cadastro table codigo descricao now w =
     (let k = next_key table (cw_app w)
      in w\<lparr>cw_cadastros := (cw_cadastros w)(table := cw_cadastros w table @
             [\<lparr>cd_id = k, cd_codigo = codigo, cd_descricao = descricao, cd_ativo = 1, cd_created_at = now, cd_updated_at = now\<rparr>]),
           cw_app := (cw_app w)\<lparr>db_seq := (db_seq (cw_app w))(table := k)\<rparr>\<rparr>)"

definition ensure_simple_seed :: "'g app_sys \<Rightarrow> string \<Rightarrow> string \<Rightarrow> string \<Rightarrow> (unit, 'g console_world) cmd" where
  "ensure_simple_seed sy table value now =
     bindc (cw_query sy (''Falha ao verificar seed de '' @ table) (\<lambda>w. find (\<lambda>r. cd_descricao r = value) (cw_cadastros w table))) (\<lambda>found.
     case found of
       Some _ \<Rightarrow> ret ()
     | None \<Rightarrow> cw_exec sy (''Falha ao inserir seed em '' @ table) (\<lambda>w. Ok (insert_cadastro table None value now w)))"

definition ensure_center_cost_seed :: "'g app_sys \<Rightarrow> string \<Rightarrow> (unit, 'g console_world) cmd" where
  "ensure_center_cost_seed sy now =
     bindc (cw_query sy ''Falha ao verificar centro de custo inicial''
         (\<lambda>w. find (\<lambda>r. cd_codigo r = Some ''ADM'') (cw_cadastros w ''centro_custos''))) (\<lambda>found.
     case found of
       Some _ \<Rightarrow> ret ()
     | None \<Rightarrow> cw_exec sy ''Falha ao inserir centro de custo inicial''
         (\<lambda>w. Ok (insert_cadastro ''centro_custos'' (Some ''ADM'') ''Administrativo'' now w)))"

text \<open>\<open>version\<close> is the version of the package, \<^verbatim>\<open>CARGO_PKG_VERSION\<close>.\<close>

definition initial_settings :: "string \<Rightarrow> (string \<times> string) list" where
  "initial_settings version =
     [(''bootstrap_seed_version'', ''1''), (''bootstrap_seed_status'', ''ok''), (''app_template_version'', version),
      (''runtime_license_mode'', ''local''), (''login_session_days'', ''7'')]"

definition replace_setting :: "string \<Rightarrow> string \<Rightarrow> string \<Rightarrow> 'g app_world \<Rightarrow> 'g app_world" where
  "replace_setting key value now w =
     w\<lparr>db_settings := (db_settings w)(key \<mapsto> \<lparr>as_valor = value, as_created_at = now, as_updated_at = now\<rparr>)\<rparr>"

definition store_start_setting :: "'g app_sys \<Rightarrow> string \<Rightarrow> string \<times> string \<Rightarrow> (unit, 'g console_world) cmd" where
  "store_start_setting sy now kv =
     (case kv of (key, value) \<Rightarrow>
        bindc (on_tables (exec sy ((''Falha ao gravar configura'' @ u_ccedil @ u_atilde @ ''o '') @ key) (\<lambda>w. Ok (replace_setting key value now w)))) (\<lambda>_.
        cw_exec sy ((''Falha ao gravar par'' @ u_acirc @ ''metro '') @ key)
          (\<lambda>w. Ok (w\<lparr>cw_configuracoes := (cw_configuracoes w)(key \<mapsto> \<lparr>cg_valor = Some value, cg_updated_at = now\<rparr>)\<rparr>))))"

definition ensure_app_settings :: "'g app_sys \<Rightarrow> string \<Rightarrow> string \<Rightarrow> (unit, 'g console_world) cmd" where
  "ensure_app_settings sy version now = each (store_start_setting sy now) (initial_settings version)"

definition seed_data :: "'g app_sys \<Rightarrow> string \<Rightarrow> (unit, 'g console_world) cmd" where
  "seed_data sy version =
     bindc (on_tables (clock_text sy)) (\<lambda>now.
     bindc (on_tables (ensure_company_seed sy now)) (\<lambda>_.
     bindc (on_tables (ensure_access_seed sy now)) (\<lambda>_.
     bindc (ensure_simple_seed sy ''departamentos'' ''Administrativo'' now) (\<lambda>_.
     bindc (ensure_simple_seed sy ''funcoes'' ''Administrador'' now) (\<lambda>_.
     bindc (ensure_center_cost_seed sy now) (\<lambda>_.
     ensure_app_settings sy version now))))))"

definition migrate :: "'g app_sys \<Rightarrow> string \<Rightarrow> string \<Rightarrow> (unit, 'g console_world) cmd" where
  "migrate sy version db_path =
     bindc (on_tables (lift (open_connection (sa_rt sy) db_path))) (\<lambda>_.
     bindc (create_tables sy) (\<lambda>_.
     bindc (migrate_existing_schema sy) (\<lambda>_.
     bindc (ensure_optional_columns sy) (\<lambda>_.
     bindc (ensure_indexes sy) (\<lambda>_.
     seed_data sy version)))))"

subsection \<open>What a start keeps\<close>

lemma keeps_on_tables [keeps_intros]: "keeps I m \<Longrightarrow> keeps (\<lambda>w. I (cw_app w)) (on_tables m)"
  by (auto simp: keeps_def on_tables_def split: prod.splits)

lemma keeps_cw_query [keeps_intros]: "keeps I (cw_query sy msg q)"
  by (auto simp: keeps_def cw_query_def split: option.splits)

lemma keeps_cw_exec [keeps_intros]: "(\<And>w w'. I w \<Longrightarrow> stmt w = Ok w' \<Longrightarrow> I w') \<Longrightarrow> keeps I (cw_exec sy msg stmt)"
  by (auto simp: keeps_def cw_exec_def split: option.splits sum.splits)

lemma keeps_schema_steps [keeps_intros]:
  "keeps (\<lambda>w. I (cw_app w)) (create_tables sy)" "keeps (\<lambda>w. I (cw_app w)) (add_column_if_missing sy t c)"
  "keeps (\<lambda>w. I (cw_app w)) (ensure_optional_columns sy)" "keeps (\<lambda>w. I (cw_app w)) (ensure_indexes sy)"
  unfolding create_tables_def add_column_if_missing_def ensure_optional_columns_def ensure_indexes_def
  by (auto intro!: keeps_intros simp: create_table_def add_column_def split: if_splits prod.splits)

lemma keeps_seed_rows [keeps_intros]:
  assumes "\<And>w f. I (w\<lparr>db_seq := f\<rparr>) = I w"
  shows "keeps (\<lambda>w. I (cw_app w)) (ensure_simple_seed sy t v now)" "keeps (\<lambda>w. I (cw_app w)) (ensure_center_cost_seed sy now)"
  unfolding ensure_simple_seed_def ensure_center_cost_seed_def
  by (auto intro!: keeps_intros simp: insert_cadastro_def Let_def assms split: option.splits)

definition nobody_active :: "'g app_world \<Rightarrow> bool" where
  "nobody_active w \<longleftrightarrow> (\<forall>u \<in> set (db_usuarios w). us_ativo u = 0)"

lemma inactive_surroundings [keeps_intros]:
  "keeps nobody_active (clock_text sy)" "keeps nobody_active (new_uuid sy)" "keeps nobody_active (hash_new_password sy p)"
  by (auto simp: keeps_def clock_text_def clock_def bindc_def ret_def new_uuid_def hash_new_password_def nobody_active_def split: prod.splits)

lemma inactive_normalize [keeps_intros]: "keeps nobody_active (normalize_rows sy)"
  unfolding normalize_rows_def Let_def
  by (auto intro!: keeps_intros simp: nobody_active_def update_companies_def lower_logins_def checked_def split: if_splits)

lemma inactive_inserts:
  "or_ignore t (insert_permission sy q) w = Ok w' \<Longrightarrow> nobody_active w \<Longrightarrow> nobody_active w'"
  "or_ignore t (insert_profile_link sy l) w = Ok w' \<Longrightarrow> nobody_active w \<Longrightarrow> nobody_active w'"
  "or_ignore t (insert_company_link sy l) w = Ok w' \<Longrightarrow> nobody_active w \<Longrightarrow> nobody_active w'"
  "insert_profile sy f w = Ok w' \<Longrightarrow> nobody_active w \<Longrightarrow> nobody_active w'"
  "update_profile sy i g w = Ok w' \<Longrightarrow> nobody_active w \<Longrightarrow> nobody_active w'"
  "insert_user sy (legacy_account h now) w = Ok w' \<Longrightarrow> nobody_active w \<Longrightarrow> nobody_active w'"
  by (auto simp: or_ignore_def insert_permission_def insert_profile_link_def insert_company_link_def insert_profile_def
      update_profile_def insert_user_def legacy_account_def checked_def nobody_active_def Let_def split: if_splits)

lemma inactive_updates:
  "nobody_active w \<Longrightarrow> nobody_active (update_users (disable_account now) i w)"
  "nobody_active (w\<lparr>db_permissoes := q\<rparr>) = nobody_active w" "nobody_active (insert_company f w) = nobody_active w"
  "nobody_active (replace_setting k v now w) = nobody_active w" "nobody_active (w\<lparr>db_seq := g\<rparr>) = nobody_active w"
  by (auto simp: nobody_active_def update_users_def disable_account_def insert_company_def replace_setting_def Let_def)

lemma keeps_read [keeps_intros]: "keeps I (\<lambda>w. (Ok (q w), w))"
  by (simp add: keeps_def)

lemma inactive_accounts [keeps_intros]:
  "keeps nobody_active (ensure_legacy_account sy now)" "keeps nobody_active (ensure_master_profile sy now)"
  "keeps nobody_active (ensure_master_permissions sy i now)" "keeps nobody_active (ensure_company_seed sy now)"
  unfolding ensure_legacy_account_def legacy_account_id_def ensure_master_profile_def master_profile_id_def ensure_master_permissions_def store_permission_def ensure_company_seed_def
  by (auto intro!: keeps_intros simp: inactive_updates dest: inactive_inserts split: option.splits)

lemma inactive_seeds [keeps_intros]:
  "keeps nobody_active (ensure_access_seed sy now)" "keeps (\<lambda>w. nobody_active (cw_app w)) (ensure_app_settings sy version now)"
  unfolding ensure_access_seed_def ensure_admin_links_def link_company_def ensure_app_settings_def store_start_setting_def
  by (auto intro!: keeps_intros simp: inactive_updates dest: inactive_inserts split: prod.splits)

lemma inactive_migrate: "keeps (\<lambda>w. nobody_active (cw_app w)) (migrate sy version path)"
  unfolding migrate_def migrate_existing_schema_def seed_data_def
  by (intro keeps_intros) (auto intro!: keeps_intros simp: inactive_updates)

lemma nobody_stays_out:
  assumes "nobody_active w"
  shows "nobody_active (run_ops sy ops w)"
proof -
  have "no_active_master w" using assms by (simp add: nobody_active_def no_active_master_def)
  from locked_out [OF this, of sy ops] have "master_view (run_ops sy ops w) = master_view w" .
  moreover have "nobody_active v \<longleftrightarrow> (\<forall>(i, l, m, a) \<in> set (fst (master_view v)). a = 0)" for v :: "'a app_world"
    by (auto simp: nobody_active_def master_view_def)
  ultimately show ?thesis using assms by simp
qed

lemma inactive_login_refused: "nobody_active w \<Longrightarrow> fst (auth_login sy login senha w) = Ok r \<Longrightarrow> \<not> lr2_success r"
  by (auto simp: auth_login_def connect_def bindc_def lift_def query_def ret_def user_by_login_def login_refused_def nobody_active_def
      find_Some_iff split: sum.splits option.splits prod.splits if_splits)

text \<open>C11. A start activates nobody: if no account is active, as in a new database, none is after the start, and no sequence of log-ins and commands on users and profiles changes this; every log-in is refused.\<close>

theorem fresh_start_locks_everyone_out:
  assumes "\<forall>u \<in> set (db_usuarios (cw_app w)). us_ativo u = 0"
  shows "(\<forall>u \<in> set (db_usuarios (run_ops sy ops (cw_app (snd (migrate sy version path w))))). us_ativo u = 0) \<and>
    (\<forall>login senha r. fst (auth_login sy login senha (run_ops sy ops (cw_app (snd (migrate sy version path w))))) = Ok r \<longrightarrow> \<not> lr2_success r)"
proof -
  have "nobody_active (cw_app (snd (migrate sy version path w)))"
    using inactive_migrate [of sy version path] assms by (simp add: keeps_def nobody_active_def)
  from nobody_stays_out [OF this, of sy ops] show ?thesis
    by (auto simp: nobody_active_def [symmetric] dest: inactive_login_refused)
qed

definition new_console :: "unit console_world" where
  "new_console =
     \<lparr>cw_app = demo_app_world\<lparr>db_usuarios := []\<rparr>, cw_columns = (\<lambda>_. []), cw_cadastros = (\<lambda>_. []), cw_configuracoes = Map.empty,
      cw_guard = None, cw_licenses = []\<rparr>"

theorem fresh_start_locks_everyone_out_witness:
  "list_all (\<lambda>u. us_ativo u = 0) (db_usuarios (run_ops demo_app_sys [Login ''admin'' ''admin'']
     (cw_app (snd (migrate demo_app_sys ''1'' ''app.db'' new_console)))))"
  using fresh_start_locks_everyone_out [of new_console demo_app_sys "[Login ''admin'' ''admin'']" "''1''" "''app.db''"]
  by (simp add: new_console_def list_all_iff)

subsection \<open>What a start restores\<close>

definition legacy_closed :: "usuario list \<Rightarrow> bool" where
  "legacy_closed us \<longleftrightarrow>
     (\<exists>u \<in> set us. us_login u = ''legacy-disabled'') \<and>
     (\<forall>u \<in> set us. us_login u = ''legacy-disabled'' \<longrightarrow> us_ativo u = 0 \<and> us_master_user u = 0 \<and> us_administrador u = 0)"

definition master_row :: "int \<Rightarrow> perfil list \<Rightarrow> bool" where
  "master_row i ps \<longleftrightarrow> (\<exists>p \<in> set ps. pf_id p = i \<and> pf_nome p = ''Master'' \<and> pf_perfil_master p = 1 \<and> pf_ativo p = 1)"

definition keys_of :: "int \<Rightarrow> permissao list \<Rightarrow> string list" where
  "keys_of i qs = map pp_chave (filter (\<lambda>q. pp_perfil_id q = i) qs)"

lemma legacy_key:
  assumes "legacy_account_id sy now w = (Ok i, w1)" and logins: "distinct (map us_login (db_usuarios w))"
  shows "\<exists>u \<in> set (db_usuarios w1). us_login u = ''legacy-disabled''"
    and "\<forall>u \<in> set (db_usuarios w1). us_login u = ''legacy-disabled'' \<longrightarrow> us_id u = i"
proof -
  have "(\<exists>u \<in> set (db_usuarios w1). us_login u = ''legacy-disabled'') \<and>
    (\<forall>u \<in> set (db_usuarios w1). us_login u = ''legacy-disabled'' \<longrightarrow> us_id u = i)"
  proof (cases "find (\<lambda>u. us_login u = ''legacy-disabled'') (db_usuarios w)")
    case (Some u)
    then have u: "u \<in> set (db_usuarios w)" "us_login u = ''legacy-disabled''"
      by (auto simp: find_Some_iff)
    have "us_id v = us_id u" if "v \<in> set (db_usuarios w)" "us_login v = ''legacy-disabled''" for v
      using logins u that by (metis distinct_map inj_onD)
    moreover have "w1 = w" "i = us_id u"
      using assms(1) Some unfolding legacy_account_id_def by (auto simp: query_Ok ret_def elim!: bindc_OkE)
    ultimately show ?thesis using u by blast
  next
    case None
    then have none: "\<forall>u \<in> set (db_usuarios w). us_login u \<noteq> ''legacy-disabled''" by (simp add: find_None_iff)
    from assms(1) None obtain p h w3 w2 where steps: "new_uuid sy w = (Ok p, w3)" "hash_new_password sy p w3 = (Ok h, w2)"
      and ins: "insert_user sy (legacy_account h now) w2 = Ok w1" and i: "i = db_seq w1 ''usuarios''"
      unfolding legacy_account_id_def by (elim bindc_OkE) (simp add: query_Ok, elim bindc_OkE, auto simp: exec_Ok)
    from steps have same: "db_usuarios w2 = db_usuarios w"
      by (auto simp: new_uuid_def hash_new_password_def split: prod.splits)
    from ins have "db_usuarios w1 = db_usuarios w2 @ [legacy_account h now (db_seq w1 ''usuarios'')]"
      by (auto simp: insert_user_def checked_def Let_def legacy_account_def split: if_splits)
    with same none i show ?thesis by (auto simp: legacy_account_def)
  qed
  then show "\<exists>u \<in> set (db_usuarios w1). us_login u = ''legacy-disabled''"
    and "\<forall>u \<in> set (db_usuarios w1). us_login u = ''legacy-disabled'' \<longrightarrow> us_id u = i" by auto
qed

lemma legacy_established:
  assumes "ensure_legacy_account sy now w = (Ok i, w')" and "distinct (map us_login (db_usuarios w))"
  shows "legacy_closed (db_usuarios w')"
proof -
  from assms(1) obtain w1 where run: "legacy_account_id sy now w = (Ok i, w1)" and w': "w' = update_users (disable_account now) i w1"
    unfolding ensure_legacy_account_def by (elim bindc_OkE) (simp add: exec_Ok ret_def)
  let ?f = "\<lambda>u. if us_id u = i then disable_account now u else u"
  have us: "db_usuarios w' = map ?f (db_usuarios w1)" by (simp add: w' update_users_def)
  have login: "us_login (?f u) = us_login u" for u by (simp add: disable_account_def)
  have "us_ativo (?f u) = 0 \<and> us_master_user (?f u) = 0 \<and> us_administrador (?f u) = 0"
    if "u \<in> set (db_usuarios w1)" "us_login u = ''legacy-disabled''" for u
    using legacy_key(2) [OF run assms(2)] that by (simp add: disable_account_def)
  with legacy_key(1) [OF run assms(2)] show ?thesis
    unfolding legacy_closed_def us set_map by (metis (no_types, lifting) imageE image_eqI login)
qed

lemma master_row_key:
  assumes "master_profile_id sy now w = (Ok i, w1)"
  shows "\<exists>p \<in> set (db_perfis w1). pf_id p = i \<and> pf_nome p = ''Master''"
proof (cases "find (\<lambda>p. pf_nome p = ''Master'') (db_perfis w)")
  case (Some p)
  then have "p \<in> set (db_perfis w)" "pf_nome p = ''Master''" by (auto simp: find_Some_iff)
  moreover have "w1 = w" "i = pf_id p"
    using assms Some unfolding master_profile_id_def by (auto simp: query_Ok ret_def elim!: bindc_OkE)
  ultimately show ?thesis by auto
next
  case None
  with assms have "insert_profile sy (master_profile now) w = Ok w1" "i = db_seq w1 ''perfis_acesso''"
    unfolding master_profile_id_def by (auto simp: query_Ok exec_Ok elim!: bindc_OkE)
  then show ?thesis by (auto simp: insert_profile_def checked_def Let_def master_profile_def split: if_splits)
qed

lemma master_row_established:
  assumes "ensure_master_profile sy now w = (Ok i, w')"
  shows "master_row i (db_perfis w')"
proof -
  from assms obtain w1 where run: "master_profile_id sy now w = (Ok i, w1)" and upd: "update_profile sy i (full_profile now) w1 = Ok w'"
    unfolding ensure_master_profile_def by (elim bindc_OkE) (simp add: exec_Ok ret_def)
  from upd have "db_perfis w' = map (\<lambda>p. if pf_id p = i then full_profile now p else p) (db_perfis w1)"
    by (auto simp: update_profile_def checked_def Let_def split: if_splits)
  moreover obtain p where "p \<in> set (db_perfis w1)" "pf_id p = i" "pf_nome p = ''Master''" using master_row_key [OF run] by blast
  ultimately have "full_profile now p \<in> set (db_perfis w')" "pf_id (full_profile now p) = i" "pf_nome (full_profile now p) = ''Master''"
    by (force simp: full_profile_def)+
  then show ?thesis unfolding master_row_def by (intro bexI) (auto simp: full_profile_def)
qed

lemma keys_stored:
  assumes "each (store_permission sy i now) keys w = (Ok (), w')" and "distinct (keys_of i (db_permissoes w) @ keys)"
  shows "keys_of i (db_permissoes w') = keys_of i (db_permissoes w) @ keys"
  using assms
proof (induction keys arbitrary: w)
  case (Cons key keys)
  from Cons.prems(1) obtain w1 where run: "store_permission sy i now key w = (Ok (), w1)" and rest: "each (store_permission sy i now) keys w1 = (Ok (), w')"
    by (auto elim!: bindc_OkE)
  from Cons.prems(2) have "(i, key) \<notin> set (map (\<lambda>q. (pp_perfil_id q, pp_chave q)) (db_permissoes w))"
    by (auto simp: keys_of_def)
  with run have "keys_of i (db_permissoes w1) = keys_of i (db_permissoes w) @ [key]"
    by (auto simp: store_permission_def exec_Ok or_ignore_def insert_permission_def checked_def keys_of_def split: if_splits)
  with Cons.IH [OF rest] Cons.prems(2) show ?case by simp
qed (simp add: ret_def)

lemma master_keys_established:
  assumes "ensure_master_permissions sy i now w = (Ok (), w')"
  shows "keys_of i (db_permissoes w') = access_permission_keys"
proof -
  let ?w = "w\<lparr>db_permissoes := filter (\<lambda>q. pp_perfil_id q \<noteq> i) (db_permissoes w)\<rparr>"
  have none: "keys_of i (db_permissoes ?w) = []" by (auto simp: keys_of_def filter_empty_conv)
  have rest: "each (store_permission sy i now) access_permission_keys ?w = (Ok (), w')"
    using assms unfolding ensure_master_permissions_def by (elim bindc_OkE) (simp add: exec_Ok)
  have "distinct access_permission_keys" by code_simp
  with keys_stored [OF rest] none show ?thesis by simp
qed

lemma cw_exec_Ok: "cw_exec sy msg stmt w = (Ok x, w') \<longleftrightarrow> sa_fail sy msg = None \<and> stmt w = Ok w'"
  by (auto simp: cw_exec_def split: option.splits sum.splits)

lemma on_tables_Ok: "on_tables m w = (Ok x, w') \<longleftrightarrow> (\<exists>a. m (cw_app w) = (Ok x, a) \<and> w' = w\<lparr>cw_app := a\<rparr>)"
  by (auto simp: on_tables_def split: prod.splits)

lemma normalize_logins:
  assumes "normalize_rows sy w = (Ok (), w')"
  shows "map us_login (db_usuarios w') = map (\<lambda>u. normal_login (us_login u)) (db_usuarios w)" and "distinct (map us_login (db_usuarios w'))"
  using assms
  by (auto simp: normalize_rows_def Let_def exec_Ok checked_def update_companies_def lower_logins_def comp_def
      elim!: bindc_OkE split: if_splits)

definition restored :: "usuario list \<times> perfil list \<times> permissao list \<Rightarrow> bool" where
  "restored t \<longleftrightarrow>
     (case t of (us, ps, qs) \<Rightarrow>
        legacy_closed us \<and> (\<exists>i. master_row i ps \<and> keys_of i qs = access_permission_keys))"

abbreviation "access_rows w \<equiv> (db_usuarios w, db_perfis w, db_permissoes w)"

lemma rows_frames [keeps_intros]:
  "keeps (\<lambda>w. db_usuarios w = c) (ensure_master_profile sy now)" "keeps (\<lambda>w. db_usuarios w = c) (ensure_master_permissions sy i now)"
  "keeps (\<lambda>w. db_perfis w = d) (ensure_master_permissions sy i now)" "keeps (\<lambda>w. db_usuarios w = c) (ensure_company_seed sy now)"
  unfolding ensure_master_profile_def master_profile_id_def ensure_master_permissions_def store_permission_def ensure_company_seed_def
  by (auto intro!: keeps_intros simp: insert_profile_def update_profile_def checked_def Let_def or_ignore_def insert_permission_def
      insert_company_def split: option.splits if_splits)

lemma links_frame:
  "or_ignore t (insert_profile_link sy l) w = Ok w' \<Longrightarrow> access_rows w' = access_rows w"
  "or_ignore t (insert_company_link sy l) w = Ok w' \<Longrightarrow> access_rows w' = access_rows w"
  by (auto simp: or_ignore_def insert_profile_link_def insert_company_link_def checked_def split: if_splits)

lemma admin_links_frame: "keeps (\<lambda>w. access_rows w = c) (ensure_admin_links sy a i now)"
  unfolding ensure_admin_links_def link_company_def by (auto intro!: keeps_intros dest: links_frame)

lemma access_seed_restores:
  assumes "ensure_access_seed sy now w = (Ok (), w')" and "distinct (map us_login (db_usuarios w))"
  shows "restored (access_rows w')"
proof -
  from assms(1) obtain a i w1 w2 w3 where 1: "ensure_legacy_account sy now w = (Ok a, w1)"
    and 2: "ensure_master_profile sy now w1 = (Ok i, w2)" and 3: "ensure_master_permissions sy i now w2 = (Ok (), w3)"
    and 4: "ensure_admin_links sy a i now w3 = (Ok (), w')"
    unfolding ensure_access_seed_def by (auto elim!: bindc_OkE)
  have "access_rows w' = access_rows w3" using keepsD [OF admin_links_frame 4] by simp
  moreover have "db_usuarios w3 = db_usuarios w1" using keepsD [OF rows_frames(1) 2] keepsD [OF rows_frames(2) 3] by simp
  moreover have "db_perfis w3 = db_perfis w2" using keepsD [OF rows_frames(3) 3] by simp
  ultimately show ?thesis
    using legacy_established [OF 1 assms(2)] master_row_established [OF 2] master_keys_established [OF 3]
    by (auto simp: restored_def)
qed

definition setting_is :: "'g console_world \<Rightarrow> string \<times> string \<Rightarrow> bool" where
  "setting_is w kv \<longleftrightarrow>
     map_option as_valor (db_settings (cw_app w) (fst kv)) = Some (snd kv) \<and>
     map_option cg_valor (cw_configuracoes w (fst kv)) = Some (Some (snd kv))"

lemma store_start_setting_effect:
  assumes "store_start_setting sy now kv w = (Ok (), w')"
  shows "setting_is w' kv" and "fst kv' \<noteq> fst kv \<Longrightarrow> setting_is w' kv' = setting_is w kv'" and "access_rows (cw_app w') = access_rows (cw_app w)"
  using assms
  by (cases kv; auto simp: store_start_setting_def on_tables_Ok exec_Ok cw_exec_Ok replace_setting_def setting_is_def elim!: bindc_OkE)+

lemma settings_stored:
  assumes "each (store_start_setting sy now) kvs w = (Ok (), w')" and "distinct (map fst kvs)"
  shows "(\<forall>kv \<in> set kvs. setting_is w' kv) \<and> access_rows (cw_app w') = access_rows (cw_app w) \<and>
    (\<forall>kv. fst kv \<notin> set (map fst kvs) \<longrightarrow> setting_is w' kv = setting_is w kv)"
  using assms
proof (induction kvs arbitrary: w)
  case (Cons kv kvs)
  from Cons.prems(1) obtain w1 where 1: "store_start_setting sy now kv w = (Ok (), w1)" and 2: "each (store_start_setting sy now) kvs w1 = (Ok (), w')"
    by (auto elim!: bindc_OkE)
  note first = store_start_setting_effect [OF 1]
  from Cons.prems(2) have "distinct (map fst kvs)" and new: "fst kv \<notin> set (map fst kvs)" by auto
  note rest = Cons.IH [OF 2 this(1)]
  have "setting_is w' kv" using rest new first(1) by blast
  moreover have "setting_is w' kv' = setting_is w kv'" if "fst kv' \<notin> set (map fst (kv # kvs))" for kv'
  proof -
    have "fst kv' \<notin> set (map fst kvs)" using that by simp
    then have "setting_is w' kv' = setting_is w1 kv'" using rest by blast
    also have "\<dots> = setting_is w kv'" using that by (intro first(2)) simp
    finally show ?thesis .
  qed
  ultimately show ?case using rest first(3) by auto
qed (simp add: ret_def)

lemma settings_restored:
  assumes "ensure_app_settings sy version now w = (Ok (), w')"
  shows "access_rows (cw_app w') = access_rows (cw_app w)" and "\<forall>kv \<in> set (initial_settings version). setting_is w' kv"
  using settings_stored [OF assms [unfolded ensure_app_settings_def]] by (simp_all add: initial_settings_def)

lemma seed_data_restores:
  assumes "seed_data sy version w = (Ok (), w')" and "distinct (map us_login (db_usuarios (cw_app w)))"
  shows "restored (access_rows (cw_app w'))" and
    "\<forall>kv \<in> set (initial_settings version). setting_is w' kv"
proof -
  from assms(1) obtain now w1 w2 w3 w4 where 1: "on_tables (clock_text sy) w = (Ok now, w1)" and 2: "on_tables (ensure_company_seed sy now) w1 = (Ok (), w2)"
    and 3: "on_tables (ensure_access_seed sy now) w2 = (Ok (), w3)"
    and 4: "bindc (ensure_simple_seed sy ''departamentos'' ''Administrativo'' now) (\<lambda>_.
     bindc (ensure_simple_seed sy ''funcoes'' ''Administrador'' now) (\<lambda>_. ensure_center_cost_seed sy now)) w3 = (Ok (), w4)"
    and 5: "ensure_app_settings sy version now w4 = (Ok (), w')"
    unfolding seed_data_def by (elim bindc_OkE) (auto simp: bindc_run)
  have "db_usuarios (cw_app w1) = db_usuarios (cw_app w)"
    using 1 by (auto simp: on_tables_Ok clock_text_def clock_def bindc_def ret_def)
  moreover from 2 obtain a where "ensure_company_seed sy now (cw_app w1) = (Ok (), a)" "w2 = w1\<lparr>cw_app := a\<rparr>" by (auto simp: on_tables_Ok)
  ultimately have "db_usuarios (cw_app w2) = db_usuarios (cw_app w)" using keepsD [OF rows_frames(4)] by fastforce
  then have r: "restored (access_rows (cw_app w3))"
    using 3 assms(2) access_seed_restores [of sy now "cw_app w2"] by (auto simp: on_tables_Ok)
  have k: "keeps (\<lambda>w. restored (access_rows (cw_app w))) (bindc (ensure_simple_seed sy ''departamentos'' ''Administrativo'' now) (\<lambda>_.
     bindc (ensure_simple_seed sy ''funcoes'' ''Administrador'' now) (\<lambda>_. ensure_center_cost_seed sy now)))"
    by (intro keeps_bindc keeps_seed_rows [where I = "\<lambda>a. restored (access_rows a)"]) simp_all
  have "restored (access_rows (cw_app w4))" by (rule keepsD [OF k 4 r])
  with settings_restored [OF 5] show "restored (access_rows (cw_app w'))" by simp
  show "\<forall>kv \<in> set (initial_settings version). setting_is w' kv"
    by (rule settings_restored(2) [OF 5])
qed

lemma migrate_stages:
  assumes "migrate sy version path w = (Ok (), w')"
  shows "\<exists>w1. seed_data sy version w1 = (Ok (), w') \<and>
    map us_login (db_usuarios (cw_app w1)) = map (\<lambda>u. normal_login (us_login u)) (db_usuarios (cw_app w)) \<and>
    distinct (map us_login (db_usuarios (cw_app w1)))"
proof -
  from assms obtain p w1 w2 w3 w4 w5 w6 where 1: "on_tables (lift (open_connection (sa_rt sy) path)) w = (Ok p, w1)" "create_tables sy w1 = (Ok (), w2)"
    and 2: "each (\<lambda>(table, column). add_column_if_missing sy table column) added_columns w2 = (Ok (), w3)"
    and 3: "on_tables (normalize_rows sy) w3 = (Ok (), w4)" and 4: "ensure_optional_columns sy w4 = (Ok (), w5)" "ensure_indexes sy w5 = (Ok (), w6)"
    and 5: "seed_data sy version w6 = (Ok (), w')"
    unfolding migrate_def migrate_existing_schema_def by (auto elim!: bindc_OkE)
  have "keeps (\<lambda>w. db_usuarios (cw_app w) = c) (each (\<lambda>(table, column). add_column_if_missing sy table column) added_columns)" for c
    by (rule keeps_each) (auto intro: keeps_schema_steps(2) [where I = "\<lambda>a. db_usuarios a = c"])
  note step = keepsD [OF this 2]
  have "db_usuarios (cw_app w1) = db_usuarios (cw_app w)" using 1(1) by (auto simp: on_tables_Ok lift_def)
  moreover have "db_usuarios (cw_app w2) = db_usuarios (cw_app w1)"
    using keepsD [OF keeps_schema_steps(1) [where I = "\<lambda>a. db_usuarios a = c" for c] 1(2)] by simp
  moreover have "db_usuarios (cw_app w3) = db_usuarios (cw_app w2)" using step by simp
  moreover have "db_usuarios (cw_app w6) = db_usuarios (cw_app w4)"
    using keepsD [OF keeps_schema_steps(3) [where I = "\<lambda>a. db_usuarios a = c" for c] 4(1)]
      keepsD [OF keeps_schema_steps(4) [where I = "\<lambda>a. db_usuarios a = c" for c] 4(2)] by simp
  moreover from 3 obtain a where "normalize_rows sy (cw_app w3) = (Ok (), a)" "cw_app w4 = a" by (auto simp: on_tables_Ok)
  ultimately show ?thesis using 5 normalize_logins by metis
qed

text \<open>C12. Every start that succeeds restores what it makes sure of: the account \<open>legacy-disabled\<close> is there and without rights, there is an active profile \<open>Master\<close> with exactly the permissions of the catalogue, and five settings, the length of a session and the licence mode among them, have their first values in both tables. No change of these rows survives a start.\<close>

theorem start_restores:
  assumes "migrate sy version path w = (Ok (), w')"
  shows "legacy_closed (db_usuarios (cw_app w')) \<and>
    (\<exists>i. master_row i (db_perfis (cw_app w')) \<and> keys_of i (db_permissoes (cw_app w')) = access_permission_keys) \<and>
    (\<forall>kv \<in> set (initial_settings version). setting_is w' kv)"
proof -
  obtain w1 where "seed_data sy version w1 = (Ok (), w')" "distinct (map us_login (db_usuarios (cw_app w1)))"
    using migrate_stages [OF assms] by blast
  from seed_data_restores [OF this] show ?thesis by (simp add: restored_def)
qed

text \<open>C13. A login that differs from an existing one only in case or in blanks around it passes the unique constraint of the table, but the next start cannot normalise the logins any more and fails, and so does every start after it.\<close>

theorem login_variant_stops_start:
  assumes "u \<in> set (db_usuarios a)" and "us_login (row (next_key ''usuarios'' a)) \<notin> set (map us_login (db_usuarios a))"
    and "normal_login (us_login (row (next_key ''usuarios'' a))) = normal_login (us_login u)"
  shows "\<exists>a'. insert_user sy row a = Ok a' \<and>
    (\<forall>w. map us_login (db_usuarios (cw_app w)) = map us_login (db_usuarios a') \<longrightarrow> (\<exists>err. fst (migrate sy version path w) = Err err))"
proof -
  obtain a' where a': "insert_user sy row a = Ok a'" "db_usuarios a' = db_usuarios a @ [row (next_key ''usuarios'' a)]"
    using assms(2) by (auto simp: insert_user_def checked_def Let_def)
  have "\<not> distinct (map (\<lambda>u. normal_login (us_login u)) (db_usuarios a'))"
    using assms(1,3) by (auto simp: a'(2))
  then have "\<exists>err. fst (migrate sy version path w) = Err err" if "map us_login (db_usuarios (cw_app w)) = map us_login (db_usuarios a')" for w
  proof (cases "migrate sy version path w")
    case (Pair r w')
    have "map normal_login (map us_login (db_usuarios (cw_app w))) = map normal_login (map us_login (db_usuarios a'))" using that by simp
    with migrate_stages [of sy version path w w'] Pair \<open>\<not> distinct _\<close> show ?thesis by (cases r) (auto simp: comp_def)
  qed
  with a'(1) show ?thesis by blast
qed

theorem login_variant_stops_start_witness:
  "\<exists>a'. insert_user demo_app_sys (\<lambda>k. demo_user k ''Ana'' 0) demo_app_world = Ok a' \<and>
    (\<forall>w. map us_login (db_usuarios (cw_app w)) = map us_login (db_usuarios a') \<longrightarrow> (\<exists>err. fst (migrate demo_app_sys ''1'' ''app.db'' w) = Err err))"
proof (rule login_variant_stops_start [where u = "demo_user 1 ''ana'' 1"])
  show "demo_user 1 ''ana'' 1 \<in> set (db_usuarios demo_app_world)" by (simp add: demo_app_world_def)
  have "normal_login ''Ana'' = normal_login ''ana''" by code_simp
  then show "normal_login (us_login (demo_user (next_key ''usuarios'' demo_app_world) ''Ana'' 0)) = normal_login (us_login (demo_user 1 ''ana'' 1))"
    by (simp add: demo_user_def)
  show "us_login (demo_user (next_key ''usuarios'' demo_app_world) ''Ana'' 0) \<notin> set (map us_login (db_usuarios demo_app_world))"
    by (simp add: demo_app_world_def demo_user_def)
qed

subsection \<open>A first start\<close>

lemma run_each:
  assumes "\<And>x w. x \<in> set xs \<Longrightarrow> I w \<Longrightarrow> \<exists>w'. f x w = (Ok (), w') \<and> I w'" and "I w"
  shows "\<exists>w'. each f xs w = (Ok (), w') \<and> I w'"
  using assms
proof (induction xs arbitrary: w)
  case (Cons x xs)
  from Cons.prems obtain w1 where 1: "f x w = (Ok (), w1)" "I w1" by (meson list.set_intros(1))
  have "\<exists>w'. each f xs w1 = (Ok (), w') \<and> I w'" by (rule Cons.IH) (use Cons.prems(1) 1(2) in auto)
  then obtain w2 where "each f xs w1 = (Ok (), w2)" "I w2" by blast
  with 1 show ?case by (simp add: bindc_run)
qed (simp add: ret_def)

lemma demo_cw: "cw_query demo_app_sys msg q w = (Ok (q w), w)"
  "cw_exec demo_app_sys msg stmt w = (case stmt w of Inl err \<Rightarrow> (Err (msg @ '': '' @ err), w) | Inr w' \<Rightarrow> (Ok (), w'))"
  by (simp_all add: cw_query_def cw_exec_def demo_nofail)

lemma demo_schema:
  "\<exists>w'. create_tables demo_app_sys w = (Ok (), w') \<and> cw_app w' = cw_app w \<and> cw_licenses w' = cw_licenses w"
  "\<exists>w'. each (\<lambda>(table, column). add_column_if_missing demo_app_sys table column) added_columns w = (Ok (), w') \<and> cw_app w' = cw_app w \<and> cw_licenses w' = cw_licenses w"
  "\<exists>w'. ensure_optional_columns demo_app_sys w = (Ok (), w') \<and> cw_app w' = cw_app w \<and> cw_licenses w' = cw_licenses w"
  unfolding create_tables_def
  by (rule run_each [where I = "\<lambda>w'. cw_app w' = cw_app w \<and> cw_licenses w' = cw_licenses w"],
      auto simp: demo_cw create_table_def add_column_if_missing_def add_column_def ensure_optional_columns_def bindc_def ret_def)+

definition start_app :: "unit app_world" where
  "start_app = demo_app_world\<lparr>db_usuarios := []\<rparr>"

lemma demo_normalize: "normalize_rows demo_app_sys start_app = (Ok (), start_app)"
  by (simp add: normalize_rows_def Let_def demo_exec bindc_def update_companies_def lower_logins_def checked_def)
    (simp add: start_app_def demo_app_world_def)

lemma demo_permissions:
  assumes "i \<in> set (map pf_id (db_perfis w))"
  shows "\<exists>w'. ensure_master_permissions demo_app_sys i now w = (Ok (), w') \<and> access_rows w' = (db_usuarios w, db_perfis w, db_permissoes w') \<and>
    db_empresas w' = db_empresas w \<and> db_seq w' = db_seq w \<and> db_usuarios_perfis w' = db_usuarios_perfis w \<and> db_usuarios_empresas w' = db_usuarios_empresas w"
proof -
  let ?I = "\<lambda>w'. db_usuarios w' = db_usuarios w \<and> db_perfis w' = db_perfis w \<and> db_empresas w' = db_empresas w \<and> db_seq w' = db_seq w \<and>
    db_usuarios_perfis w' = db_usuarios_perfis w \<and> db_usuarios_empresas w' = db_usuarios_empresas w"
  have "\<exists>w'. each (store_permission demo_app_sys i now) access_permission_keys (w\<lparr>db_permissoes := q\<rparr>) = (Ok (), w') \<and> ?I w'" for q
    by (rule run_each) (use assms in \<open>auto simp: store_permission_def demo_exec or_ignore_def insert_permission_def checked_def\<close>)
  then show ?thesis by (auto simp: ensure_master_permissions_def bindc_def demo_exec)
qed

lemma demo_hash: "hash_new_password demo_app_sys p w = (Ok (''s'' @ p), w)"
  by (simp add: hash_new_password_def hash_password_def demo_app_defs)

lemma demo_links:
  assumes "u \<in> set (map us_id (db_usuarios w))" and "i \<in> set (map pf_id (db_perfis w))" and "db_usuarios_perfis w = []"
  shows "\<exists>w'. ensure_admin_links demo_app_sys u i now w = (Ok (), w')"
proof -
  let ?w = "w\<lparr>db_usuarios_perfis := [\<lparr>vi_usuario_id = u, vi_alvo_id = i, vi_created_at = now\<rparr>]\<rparr>"
  have "\<exists>w'. each (link_company demo_app_sys u now) (sort (map em_id (db_empresas w))) ?w = (Ok (), w') \<and>
    db_usuarios w' = db_usuarios w \<and> db_empresas w' = db_empresas w"
    by (rule run_each) (use assms(1) in \<open>auto simp: link_company_def demo_exec or_ignore_def insert_company_link_def checked_def\<close>)
  then show ?thesis
    using assms by (auto simp: ensure_admin_links_def bindc_def demo_exec demo_listing or_ignore_def insert_profile_link_def checked_def)
qed

lemma demo_seed: "\<exists>w'. seed_data demo_app_sys ''1'' w = (Ok (), w')" if "cw_app w = start_app" for w
proof -
  have "\<exists>w1. on_tables (clock_text demo_app_sys) w = (Ok (replicate 5 CHR ''1''), w1) \<and> cw_app w1 = start_app\<lparr>aw_reads := Suc (aw_reads start_app)\<rparr>"
    by (simp add: on_tables_def demo_clock that)
  then obtain w1 where 1: "on_tables (clock_text demo_app_sys) w = (Ok (replicate 5 CHR ''1''), w1)" "cw_app w1 = start_app\<lparr>aw_reads := Suc (aw_reads start_app)\<rparr>"
    by blast
  let ?now = "replicate 5 CHR ''1''"
  obtain a2 where 2: "ensure_company_seed demo_app_sys ?now (cw_app w1) = (Ok (), a2)" "db_usuarios a2 = []" "db_perfis a2 = []" "db_usuarios_perfis a2 = []"
      "db_usuarios_empresas a2 = []"
    by (simp add: ensure_company_seed_def bindc_def demo_query demo_exec ret_def 1(2) start_app_def demo_app_world_def insert_company_def Let_def)
  obtain u a3 where 3: "ensure_legacy_account demo_app_sys ?now a2 = (Ok u, a3)" "u \<in> set (map us_id (db_usuarios a3))" "db_perfis a3 = []" "db_usuarios_perfis a3 = []"
      "db_usuarios_empresas a3 = []"
    by (simp add: ensure_legacy_account_def legacy_account_id_def bindc_def demo_query demo_exec ret_def 2 new_uuid_def demo_hash
        insert_user_def checked_def Let_def update_users_def disable_account_def legacy_account_def)
  obtain i a4 where 4: "ensure_master_profile demo_app_sys ?now a3 = (Ok i, a4)" "i \<in> set (map pf_id (db_perfis a4))" "db_usuarios a4 = db_usuarios a3"
      "db_usuarios_perfis a4 = []" "db_usuarios_empresas a4 = []"
    by (simp add: ensure_master_profile_def master_profile_id_def bindc_def demo_query demo_exec ret_def 3 insert_profile_def update_profile_def
        checked_def Let_def full_profile_def master_profile_def)
  obtain a5 where 5: "ensure_master_permissions demo_app_sys i ?now a4 = (Ok (), a5)" "db_usuarios a5 = db_usuarios a4" "db_perfis a5 = db_perfis a4"
      "db_usuarios_perfis a5 = []" "db_usuarios_empresas a5 = []"
    using demo_permissions [OF 4(2), of ?now] 4 by auto
  have "u \<in> set (map us_id (db_usuarios a5))" "i \<in> set (map pf_id (db_perfis a5))" using 3(2) 4(2,3) 5(2,3) by simp_all
  from demo_links [OF this 5(4), of ?now] have "\<exists>a6. ensure_admin_links demo_app_sys u i ?now a5 = (Ok (), a6)" .
  then obtain a6 where 6: "ensure_access_seed demo_app_sys ?now a2 = (Ok (), a6)"
    using 3(1) 4(1) 5(1) by (auto simp: ensure_access_seed_def bindc_def)
  have rows: "\<exists>w'. ensure_simple_seed demo_app_sys t v ?now w = (Ok (), w')" "\<exists>w'. ensure_center_cost_seed demo_app_sys ?now w = (Ok (), w')" for t v w
    by (auto simp: ensure_simple_seed_def ensure_center_cost_seed_def bindc_def demo_cw ret_def split: option.splits)
  have settings: "\<exists>w'. ensure_app_settings demo_app_sys ''1'' ?now w = (Ok (), w') \<and> True" for w
    unfolding ensure_app_settings_def
    by (rule run_each) (auto simp: store_start_setting_def bindc_def on_tables_def demo_exec demo_cw split: prod.splits)
  obtain w4 where 7: "ensure_simple_seed demo_app_sys ''departamentos'' ''Administrativo'' ?now (w1\<lparr>cw_app := a6\<rparr>) = (Ok (), w4)" using rows by blast
  obtain w5 where 8: "ensure_simple_seed demo_app_sys ''funcoes'' ''Administrador'' ?now w4 = (Ok (), w5)" using rows by blast
  obtain w6 where 9: "ensure_center_cost_seed demo_app_sys ?now w5 = (Ok (), w6)" using rows by blast
  have "on_tables (ensure_company_seed demo_app_sys ?now) w1 = (Ok (), w1\<lparr>cw_app := a2\<rparr>)"
    "on_tables (ensure_access_seed demo_app_sys ?now) (w1\<lparr>cw_app := a2\<rparr>) = (Ok (), w1\<lparr>cw_app := a6\<rparr>)"
    using 2(1) 6 by (simp_all add: on_tables_def)
  with 1(1) 7 8 9 settings [of w6] show ?thesis by (simp add: seed_data_def bindc_run)
qed

lemma demo_migrate: "\<exists>w'. migrate demo_app_sys ''1'' ''app.db'' new_console = (Ok (), w')"
proof -
  have opened: "on_tables (lift (open_connection (sa_rt demo_app_sys) ''app.db'')) new_console = (Ok ''app.db'', new_console)"
    by (simp add: on_tables_def lift_def open_connection_def demo_app_sys_def demo_log_ctx_def)
  obtain w1 where 1: "create_tables demo_app_sys new_console = (Ok (), w1)" "cw_app w1 = start_app" "cw_licenses w1 = []"
    using demo_schema(1) [of new_console] by (auto simp: new_console_def start_app_def)
  obtain w2 where 2: "each (\<lambda>(table, column). add_column_if_missing demo_app_sys table column) added_columns w1 = (Ok (), w2)"
      "cw_app w2 = start_app" "cw_licenses w2 = []"
    using demo_schema(2) [of w1] 1 by auto
  have 3: "on_tables (normalize_rows demo_app_sys) w2 = (Ok (), w2)" using 2 by (simp add: on_tables_def demo_normalize)
  obtain w4 where 4: "ensure_optional_columns demo_app_sys w2 = (Ok (), w4)" "cw_app w4 = start_app" "cw_licenses w4 = []"
    using demo_schema(3) [of w2] 2 by auto
  have "\<exists>w'. ensure_indexes demo_app_sys w4 = (Ok (), w') \<and> cw_app w' = start_app \<and> cw_licenses w' = []"
    unfolding ensure_indexes_def
    by (rule run_each) (use 4 in \<open>auto simp: unique_indexes_def demo_cw start_app_def demo_app_world_def\<close>)
  then obtain w5 where 5: "ensure_indexes demo_app_sys w4 = (Ok (), w5)" "cw_app w5 = start_app" by blast
  from demo_seed [OF 5(2)] opened 1(1) 2(1) 3 4(1) 5(1) show ?thesis
    by (simp add: migrate_def migrate_existing_schema_def bindc_run)
qed

theorem start_restores_witness:
  "\<exists>w'. migrate demo_app_sys ''1'' ''app.db'' new_console = (Ok (), w') \<and> legacy_closed (db_usuarios (cw_app w')) \<and>
     setting_is w' (''login_session_days'', ''7'')"
proof -
  obtain w' where "migrate demo_app_sys ''1'' ''app.db'' new_console = (Ok (), w')" using demo_migrate by blast
  with start_restores [OF this] show ?thesis by (auto simp: initial_settings_def)
qed

subsection \<open>The schema and the generic commands\<close>

definition declared_table :: "string \<Rightarrow> table_def option" where
  "declared_table name = find (\<lambda>t. tb_name t = name) schema"

text \<open>The columns an insertion has to give a value.\<close>

definition mandatory :: "table_def \<Rightarrow> string list" where
  "mandatory t =
     map fst (filter (\<lambda>(_, _, rules). NotNull \<in> set rules \<and> list_all (\<lambda>r. case r of Default _ \<Rightarrow> False | _ \<Rightarrow> True) rules) (tb_columns t))"

definition left_out :: "entity_def \<Rightarrow> table_def \<Rightarrow> string list" where
  "left_out df t = filter (\<lambda>c. c \<notin> set (ed_fields df @ [''created_at'', ''updated_at''])) (mandatory t)"

definition columns_declared :: "entity_def \<Rightarrow> bool" where
  "columns_declared df \<longleftrightarrow>
     (case declared_table (ed_table df) of
        None \<Rightarrow> False
      | Some t \<Rightarrow>
          list_all (\<lambda>c. c \<in> set (map fst (tb_columns t)))
            ([''id'', ''created_at'', ''updated_at'', ed_label_column df] @ ed_fields df @ ed_searchable df) \<and>
          left_out df t = (if ed_table df = ''usuarios'' then [''senha_hash''] else []))"

lemma all_declared: "list_all columns_declared all_entities"
  by code_simp

lemma schema_closed:
  "list_all (\<lambda>t. list_all (\<lambda>(c, target, _). c \<in> set (map fst (tb_columns t)) \<and> declared_table target \<noteq> None) (tb_foreign t)) schema \<and>
   list_all (\<lambda>(table, c). case declared_table table of None \<Rightarrow> False | Some t \<Rightarrow> c \<in> set (map fst (tb_columns t))) added_columns \<and>
   distinct (map tb_name schema)"
  by code_simp

text \<open>C14. Every column that a generic command names is declared by the schema for the table of the entity, and every column an insertion has to fill is among those it fills, with one exception: the statement that creates a user gives no \<open>senha_hash\<close>, which the table requires.\<close>

theorem entity_columns_declared:
  assumes "entity_definition entity = Some df"
  shows "\<exists>t. declared_table (ed_table df) = Some t \<and>
    set ([''id'', ''created_at'', ''updated_at'', ed_label_column df] @ ed_fields df @ ed_searchable df) \<subseteq> set (map fst (tb_columns t)) \<and>
    left_out df t = (if ed_table df = ''usuarios'' then [''senha_hash''] else [])"
proof -
  have "columns_declared df" using all_declared entity_definition_listed [OF assms] by (simp add: list_all_iff)
  then show ?thesis unfolding columns_declared_def list_all_iff by (auto split: option.splits)
qed

theorem entity_columns_declared_witness:
  "\<exists>df t. entity_definition ''users'' = Some df \<and> declared_table ''usuarios'' = Some t \<and> left_out df t = [''senha_hash'']"
proof -
  obtain df where df: "entity_definition ''users'' = Some df" "ed_table df = ''usuarios''" by (simp add: entity_definition_def)
  from entity_columns_declared [OF df(1)] show ?thesis using df by auto
qed

end
