(* ===== verification/Support.thy ===== *)
theory Support
  imports Migrations
begin

text \<open>
  The administrative protection, \<^verbatim>\<open>commands/support.rs\<close>: a support secret, a second factor and
  recovery codes in the one row of \<^verbatim>\<open>admin_guard\<close>, and the unlock sessions that protected commands
  ask for.
\<close>

definition minutes_15 :: int where
  "minutes_15 = 15 * 60 * 1000000000"

text \<open>The path of the database, the data directory and the connection, in this order.\<close>

definition connect_logging :: "'g app_sys \<Rightarrow> (unit, 'g console_world) cmd" where
  "connect_logging sy =
     lift (and_then (state_db_path (sa_rw sy)) (\<lambda>path. and_then (state_data_dir (sa_rw sy)) (\<lambda>_.
       and_then (open_connection (sa_rt sy) path) (\<lambda>_. Ok ()))))"

definition support_ensure_master :: "'g app_sys \<Rightarrow> string \<Rightarrow> (int, 'g console_world) cmd" where
  "support_ensure_master sy session_token =
     bindc (on_tables (require_session_by_token sy session_token)) (\<lambda>identity.
     bindc (ensure (si_master_user identity) (''Apenas usu'' @ u_aacute @ ''rio master pode acessar a prote'' @ u_ccedil @ u_atilde @ ''o administrativa.'')) (\<lambda>_.
     ret (si_user_id identity)))"

definition guard_json :: "guard_row \<Rightarrow> json_obj" where
  "guard_json g =
     [(''id'', js_int 1), (''support_secret_hash'', js_opt (gd_support_secret_hash g)),
      (''totp_secret_encrypted'', js_opt (gd_totp_secret_encrypted g)), (''totp_enabled'', js_int (gd_totp_enabled g)),
      (''recovery_codes_encrypted'', js_opt (gd_recovery_codes_encrypted g)),
      (''licensing_protected'', js_int (gd_licensing_protected g)),
      (''white_label_protected'', js_int (gd_white_label_protected g)), (''created_at'', JStr (gd_created_at g)),
      (''updated_at'', JStr (gd_updated_at g)), (''last_rotated_at'', js_opt (gd_last_rotated_at g))]"

definition read_guard :: "'g app_sys \<Rightarrow> (json_obj option, 'g console_world) cmd" where
  "read_guard sy = cw_query sy (''Falha ao consultar prote'' @ u_ccedil @ u_atilde @ ''o administrativa'') (\<lambda>w. map_option guard_json (cw_guard w))"

definition guard_text :: "json_obj \<Rightarrow> string \<Rightarrow> string" where
  "guard_text row field = unwrap_or [] (Option.bind (obj_get row field) as_str)"

definition host_key :: "'g app_sys \<Rightarrow> string" where
  "host_key sy = machine_key (rw_env (sa_rw sy))"

definition decrypt_guard_secret :: "'g app_sys \<Rightarrow> json_obj \<Rightarrow> string \<Rightarrow> (string option, string) result" where
  "decrypt_guard_secret sy row field =
     (let value = guard_text row field in
      if trim value = [] then Ok None
      else and_then (decrypt_text (sa_crypto sy) (host_key sy) value) (\<lambda>s. Ok (Some s)))"

subsection \<open>Unlock sessions\<close>

definition unlocks :: "int \<Rightarrow> string \<Rightarrow> string \<Rightarrow> string \<Rightarrow> unlock_session \<Rightarrow> bool" where
  "unlocks user_id token scope now s \<longleftrightarrow>
     ul_usuario_id s = user_id \<and> ul_unlock_token s = token \<and> (ul_scope s = scope \<or> ul_scope s = ''global'') \<and>
     now < ul_expires_at s"

definition touch_unlock :: "string \<Rightarrow> string \<Rightarrow> unlock_session \<Rightarrow> unlock_session" where
  "touch_unlock token now s = (if ul_unlock_token s = token then s\<lparr>ul_last_used_at := Some now\<rparr> else s)"

definition require_admin_unlock :: "'g app_sys \<Rightarrow> int \<Rightarrow> string \<Rightarrow> string \<Rightarrow> (unit, 'g app_world) cmd" where
  "require_admin_unlock sy user_id unlock_token scope =
     (let token = trim unlock_token in
      bindc (ensure (token \<noteq> []) (''Autoriza'' @ u_ccedil @ u_atilde @ ''o administrativa refor'' @ u_ccedil @ ''ada '' @ u_eacute @ '' obrigat'' @ u_oacute @ ''ria.'')) (\<lambda>_.
      bindc (clock_text sy) (\<lambda>now.
      bindc (query sy (''Falha ao validar autoriza'' @ u_ccedil @ u_atilde @ ''o administrativa'') (\<lambda>w. find (unlocks user_id token scope now) (db_unlocks w))) (\<lambda>found.
      bindc (ensure (found \<noteq> None) (''Sess'' @ u_atilde @ ''o administrativa refor'' @ u_ccedil @ ''ada ausente, inv'' @ u_aacute @ ''lida ou expirada.'')) (\<lambda>_.
      exec sy (''Falha ao atualizar uso da autoriza'' @ u_ccedil @ u_atilde @ ''o administrativa'')
        (\<lambda>w. Ok (w\<lparr>db_unlocks := map (touch_unlock token now) (db_unlocks w)\<rparr>)))))))"

definition insert_unlock :: "'g app_sys \<Rightarrow> unlock_session \<Rightarrow> 'g app_world \<Rightarrow> ('g app_world, string) result" where
  "insert_unlock sy s w =
     and_then (checked sy ''admin_unlock_sessions.unlock_token''
         (\<lambda>w. ul_unlock_token s \<notin> set (map ul_unlock_token (db_unlocks w))) w)
       (\<lambda>w. and_then (checked sy ''admin_unlock_sessions.usuario_id'' (\<lambda>w. ul_usuario_id s \<in> set (map us_id (db_usuarios w))) w)
       (\<lambda>w. Ok (w\<lparr>db_unlocks := db_unlocks w @ [s]\<rparr>)))"

subsection \<open>Commands\<close>

definition support_guard_status :: "'g app_sys \<Rightarrow> string \<Rightarrow> (json_obj, 'g console_world) cmd" where
  "support_guard_status sy session_token =
     bindc (on_tables (connect sy)) (\<lambda>_.
     bindc (support_ensure_master sy session_token) (\<lambda>user_id.
     bindc (read_guard sy) (\<lambda>row.
     bindc (on_tables (clock_text sy)) (\<lambda>now.
     bindc (on_tables (query sy (''Falha ao consultar sess'' @ u_atilde @ ''o administrativa'')
         (\<lambda>w. length (filter (\<lambda>s. ul_usuario_id s = user_id \<and> now < ul_expires_at s) (db_unlocks w))))) (\<lambda>live.
     let result = unwrap_or [] row;
         result = hm_insert ''configured'' (JBool (10 < length (guard_text result ''support_secret_hash''))) result;
         result = hm_insert ''unlocked'' (JBool (0 < live)) result
     in ret (hm_insert ''totp_uri'' JNull result))))))"

text \<open>A value drawn from the random generator.\<close>

definition draw :: "('g \<Rightarrow> 'a \<times> 'g) \<Rightarrow> ('a, 'g app_world) cmd" where
  "draw f w = (case f (aw_rng w) of (x, g) \<Rightarrow> (Ok x, w\<lparr>aw_rng := g\<rparr>))"

definition upsert_guard :: "string \<Rightarrow> string \<Rightarrow> string \<Rightarrow> string \<Rightarrow> 'g console_world \<Rightarrow> 'g console_world" where
  "upsert_guard secret_hash totp_encrypted recovery_encrypted now w =
     (let fresh = \<lparr>gd_support_secret_hash = Some secret_hash, gd_totp_secret_encrypted = Some totp_encrypted,
            gd_totp_enabled = 0, gd_recovery_codes_encrypted = Some recovery_encrypted, gd_licensing_protected = 1,
            gd_white_label_protected = 1, gd_created_at = now, gd_updated_at = now, gd_last_rotated_at = Some now\<rparr>
      in w\<lparr>cw_guard := Some (case cw_guard w of
             None \<Rightarrow> fresh
           | Some g \<Rightarrow> fresh\<lparr>gd_licensing_protected := gd_licensing_protected g,
               gd_white_label_protected := gd_white_label_protected g, gd_created_at := gd_created_at g\<rparr>)\<rparr>)"

definition support_log :: "string \<Rightarrow> string \<Rightarrow> json_obj \<Rightarrow> app_log_input" where
  "support_log level message details =
     \<lparr>ai_level = level, ai_category = ''support_guard'', ai_message = message, ai_source = Some ''backend'', ai_route = None,
      ai_details = Some (JObj details)\<rparr>"

definition provisioned :: "string \<Rightarrow> string \<Rightarrow> string list \<Rightarrow> json_obj" where
  "provisioned support_secret totp_secret recovery_codes =
     [(''support_secret'', JStr support_secret), (''totp_secret'', JStr totp_secret),
      (''otpauth_url'', JStr (build_otpauth_url totp_secret ''Tunnara Console:Suporte Admin'' ''Tunnara Console'')),
      (''recovery_codes'', JArr (map JStr recovery_codes)), (''totp_enabled'', JBool False)]"

definition support_guard_provision :: "'g app_sys \<Rightarrow> string \<Rightarrow> bool option \<Rightarrow> (json_obj, 'g console_world) cmd" where
  "support_guard_provision sy session_token force_rotate =
     bindc (connect_logging sy) (\<lambda>_.
     bindc (support_ensure_master sy session_token) (\<lambda>user_id.
     bindc (read_guard sy) (\<lambda>existing.
     bindc (ensure (existing = None \<or> unwrap_or False force_rotate)
         (''A prote'' @ u_ccedil @ u_atilde @ ''o administrativa j'' @ u_aacute @ '' foi provisionada. Use rota'' @ u_ccedil @ u_atilde @ ''o expl'' @ u_iacute @ ''cita para gerar novos segredos.'')) (\<lambda>_.
     bindc (on_tables (draw (generate_support_secret (sa_rng sy)))) (\<lambda>support_secret.
     bindc (on_tables (draw (generate_totp_secret (sa_crypto sy) (sa_rng sy)))) (\<lambda>totp_secret.
     bindc (on_tables (draw (generate_recovery_codes (sa_rng sy)))) (\<lambda>recovery_codes.
     bindc (on_tables (clock_text sy)) (\<lambda>now.
     bindc (on_tables (hash_new_password sy support_secret)) (\<lambda>secret_hash.
     let recovery_json = lg_json_text (sa_log sy) (JArr (map JStr recovery_codes));
         totp_encrypted = encrypt_text (sa_crypto sy) (host_key sy) totp_secret;
         recovery_encrypted = encrypt_text (sa_crypto sy) (host_key sy) recovery_json;
         payload = [(''usuario_id'', js_int user_id), (''rotated'', JBool (existing \<noteq> None))] in
     bindc (cw_exec sy (''Falha ao provisionar prote'' @ u_ccedil @ u_atilde @ ''o administrativa'')
         (\<lambda>w. Ok (upsert_guard secret_hash totp_encrypted recovery_encrypted now w))) (\<lambda>_.
     bindc (on_tables (on_logs (write_audit (sa_log sy) ''admin_guard'' ''provision'' (Some 1) (JObj payload)))) (\<lambda>_.
     bindc (on_tables (log_quietly sy (support_log ''warning'' (''Prote'' @ u_ccedil @ u_atilde @ ''o administrativa provisionada/rotacionada.'') payload))) (\<lambda>_.
     ret (provisioned support_secret totp_secret recovery_codes)))))))))))))"

definition user_password_hash :: "'g app_sys \<Rightarrow> int \<Rightarrow> (string, 'g console_world) cmd" where
  "user_password_hash sy user_id =
     bindc (on_tables (query sy (''Falha ao consultar senha do usu'' @ u_aacute @ ''rio master'') (find_user user_id))) (\<lambda>row.
     case row of
       None \<Rightarrow> fail ((''Falha ao consultar senha do usu'' @ u_aacute @ ''rio master: '') @ ''Query returned no rows'')
     | Some u \<Rightarrow> ret (us_senha_hash u))"

text \<open>The clock of \<^verbatim>\<open>verify_totp_code\<close>, in seconds.\<close>

definition check_totp :: "'g app_sys \<Rightarrow> string \<Rightarrow> string \<Rightarrow> (bool, 'g console_world) cmd" where
  "check_totp sy totp_secret code =
     bindc (on_tables (clock sy)) (\<lambda>now. lift (verify_totp_code (sa_crypto sy) (now div 1000000000) totp_secret code))"

definition support_guard_enable_totp ::
  "'g app_sys \<Rightarrow> string \<Rightarrow> string \<Rightarrow> string \<Rightarrow> string \<Rightarrow> (bool, 'g console_world) cmd" where
  "support_guard_enable_totp sy session_token current_password support_secret code =
     bindc (connect_logging sy) (\<lambda>_.
     bindc (support_ensure_master sy session_token) (\<lambda>user_id.
     bindc (read_guard sy) (\<lambda>guard.
     bindc (lift (ok_or (''Prote'' @ u_ccedil @ u_atilde @ ''o administrativa ainda n'' @ u_atilde @ ''o provisionada.'') guard)) (\<lambda>row.
     bindc (lift (verify_password (sa_crypto sy) support_secret (guard_text row ''support_secret_hash''))) (\<lambda>ok.
     bindc (ensure ok (''Secret de suporte inv'' @ u_aacute @ ''lido.'')) (\<lambda>_.
     bindc (user_password_hash sy user_id) (\<lambda>password_hash.
     bindc (lift (verify_password (sa_crypto sy) (trim current_password) password_hash)) (\<lambda>ok.
     bindc (ensure ok (''Senha atual inv'' @ u_aacute @ ''lida.'')) (\<lambda>_.
     bindc (lift (and_then (decrypt_guard_secret sy row ''totp_secret_encrypted'')
         (ok_or (''Secret TOTP n'' @ u_atilde @ ''o encontrado para provisionamento.'')))) (\<lambda>totp_secret.
     bindc (check_totp sy totp_secret code) (\<lambda>ok.
     bindc (ensure ok (''C'' @ u_oacute @ ''digo TOTP inv'' @ u_aacute @ ''lido.'')) (\<lambda>_.
     bindc (on_tables (clock_text sy)) (\<lambda>now.
     bindc (cw_exec sy ''Falha ao ativar TOTP administrativo''
         (\<lambda>w. Ok (w\<lparr>cw_guard := map_option (\<lambda>g. g\<lparr>gd_totp_enabled := 1, gd_updated_at := now\<rparr>) (cw_guard w)\<rparr>))) (\<lambda>_.
     bindc (on_tables (log_quietly sy (support_log ''info'' ''TOTP administrativo ativado.'' [(''usuario_id'', js_int user_id)]))) (\<lambda>_.
     ret True)))))))))))))))"

definition check_second_factor :: "'g app_sys \<Rightarrow> json_obj \<Rightarrow> string option \<Rightarrow> (unit, 'g console_world) cmd" where
  "check_second_factor sy row code =
     (if unwrap_or 0 (Option.bind (obj_get row ''totp_enabled'') as_i64) = 1
      then
        bindc (lift (and_then (decrypt_guard_secret sy row ''totp_secret_encrypted'') (ok_or (''Secret TOTP n'' @ u_atilde @ ''o configurado.'')))) (\<lambda>totp_secret.
        bindc (check_totp sy totp_secret (unwrap_or [] code)) (\<lambda>ok.
        ensure ok (''C'' @ u_oacute @ ''digo TOTP inv'' @ u_aacute @ ''lido.'')))
      else ret ())"

text \<open>The checks of an unlock, in the order of the code, and the session it opens.\<close>

definition unlock_factors ::
  "'g app_sys \<Rightarrow> string \<Rightarrow> string \<Rightarrow> string \<Rightarrow> string option \<Rightarrow> (int, 'g console_world) cmd" where
  "unlock_factors sy session_token current_password support_secret code =
     bindc (support_ensure_master sy session_token) (\<lambda>user_id.
     bindc (read_guard sy) (\<lambda>guard.
     bindc (lift (ok_or (''Prote'' @ u_ccedil @ u_atilde @ ''o administrativa ainda n'' @ u_atilde @ ''o provisionada.'') guard)) (\<lambda>row.
     bindc (user_password_hash sy user_id) (\<lambda>password_hash.
     bindc (lift (verify_password (sa_crypto sy) (trim current_password) password_hash)) (\<lambda>ok.
     bindc (ensure ok (''Senha atual inv'' @ u_aacute @ ''lida.'')) (\<lambda>_.
     bindc (lift (verify_password (sa_crypto sy) support_secret (guard_text row ''support_secret_hash''))) (\<lambda>ok.
     bindc (ensure ok (''Secret de suporte inv'' @ u_aacute @ ''lido.'')) (\<lambda>_.
     bindc (check_second_factor sy row code) (\<lambda>_.
     ret user_id)))))))))"

definition open_unlock :: "'g app_sys \<Rightarrow> int \<Rightarrow> string \<Rightarrow> (json_obj, 'g app_world) cmd" where
  "open_unlock sy user_id scope_value =
     bindc (new_uuid sy) (\<lambda>unlock_token.
     bindc (clock_text sy) (\<lambda>created_at.
     bindc (clock sy) (\<lambda>now.
     let expires_at = sa_rfc3339 sy (now + minutes_15) in
     bindc (exec sy (''Falha ao criar sess'' @ u_atilde @ ''o administrativa refor'' @ u_ccedil @ ''ada'')
         (insert_unlock sy \<lparr>ul_usuario_id = user_id, ul_scope = scope_value, ul_unlock_token = unlock_token,
            ul_expires_at = expires_at, ul_created_at = created_at, ul_last_used_at = Some created_at\<rparr>)) (\<lambda>_.
     bindc (log_quietly sy (support_log ''warning'' (''Acesso administrativo refor'' @ u_ccedil @ ''ado liberado.'')
         [(''usuario_id'', js_int user_id), (''scope'', JStr scope_value), (''expires_at'', JStr expires_at)])) (\<lambda>_.
     ret [(''unlock_token'', JStr unlock_token), (''expires_at'', JStr expires_at), (''scope'', JStr scope_value)])))))"

definition support_guard_unlock ::
  "'g app_sys \<Rightarrow> string \<Rightarrow> string \<Rightarrow> string \<Rightarrow> string option \<Rightarrow> string option \<Rightarrow> (json_obj, 'g console_world) cmd" where
  "support_guard_unlock sy session_token current_password support_secret code scope =
     bindc (connect_logging sy) (\<lambda>_.
     bindc (unlock_factors sy session_token current_password support_secret code) (\<lambda>user_id.
     on_tables (open_unlock sy user_id (unwrap_or ''global'' scope))))"

subsection \<open>What an unlock asks for\<close>

lemma keeps_guard_steps [keeps_intros]: "keeps I (connect_logging sy)" "keeps I (read_guard sy)"
  by (auto intro!: keeps_intros simp: connect_logging_def read_guard_def)

lemma keeps_on_query [keeps_intros]: "keeps I (on_tables (query sy msg q))"
  by (auto simp: keeps_def on_tables_def query_def split: option.splits prod.splits)

lemma support_master_Ok:
  assumes "support_ensure_master sy tok w = (Ok uid, w')"
  shows "\<exists>a. require_session_by_token sy tok (cw_app w) = (Ok \<lparr>si_user_id = uid, si_master_user = True\<rparr>, a) \<and> w' = w\<lparr>cw_app := a\<rparr>"
  using assms by (force simp: support_ensure_master_def on_tables_Ok ensure_Ok ret_def elim!: bindc_OkE)

text \<open>The part of the state that the checks of an unlock leave alone.\<close>

definition behind_unlock :: "'g console_world \<Rightarrow> guard_row option \<times> unlock_session list \<times> usuario list \<times> nat" where
  "behind_unlock w = (cw_guard w, db_unlocks (cw_app w), db_usuarios (cw_app w), aw_uuids (cw_app w))"

lemma core_parts:
  assumes "access_core a = access_core b"
  shows "db_unlocks a = db_unlocks b \<and> db_usuarios a = db_usuarios b \<and> aw_uuids a = aw_uuids b \<and> db_settings a = db_settings b"
proof -
  from assms have "db_unlocks (access_core a) = db_unlocks (access_core b) \<and> db_usuarios (access_core a) = db_usuarios (access_core b) \<and>
    aw_uuids (access_core a) = aw_uuids (access_core b) \<and> db_settings (access_core a) = db_settings (access_core b)" by simp
  then show ?thesis by (simp add: access_core_def)
qed

lemma session_reads:
  assumes "require_session_by_token sy tok w = (Ok i, w')"
  shows "aw_reads w' = Suc (aw_reads w)"
  using assms
  by (auto simp: require_session_by_token_def Let_def clock_text_def clock_def query_Ok exec_Ok ensure_Ok ret_def fail_def
      elim!: bindc_OkE split: if_splits option.splits)

lemma session_behind [keeps_intros]: "keeps (\<lambda>w. behind_unlock w = c) (on_tables (require_session_by_token sy tok))"
proof (rule keepsI)
  fix w r w'
  assume c: "behind_unlock w = c" and r: "on_tables (require_session_by_token sy tok) w = (r, w')"
  then obtain q a where a: "require_session_by_token sy tok (cw_app w) = (q, a)" "w' = w\<lparr>cw_app := a\<rparr>"
    by (auto simp: on_tables_def split: prod.splits)
  with core_parts [OF session.auth_core [OF a(1)]] c show "behind_unlock w' = c" by (simp add: behind_unlock_def)
qed

lemma checks_behind [keeps_intros]:
  "keeps (\<lambda>w. behind_unlock w = c) (support_ensure_master sy tok)" "keeps (\<lambda>w. behind_unlock w = c) (user_password_hash sy uid)"
  "keeps (\<lambda>w. behind_unlock w = c) (on_tables (clock sy))" "keeps (\<lambda>w. behind_unlock w = c) (check_totp sy s t)"
  "keeps (\<lambda>w. behind_unlock w = c) (check_second_factor sy row code)"
proof -
  show clock: "keeps (\<lambda>w. behind_unlock w = c) (on_tables (clock sy))"
    by (auto simp: keeps_def on_tables_def clock_def behind_unlock_def)
  show "keeps (\<lambda>w. behind_unlock w = c) (support_ensure_master sy tok)" unfolding support_ensure_master_def by (intro keeps_intros)
  show "keeps (\<lambda>w. behind_unlock w = c) (user_password_hash sy uid)"
    unfolding user_password_hash_def by (auto intro!: keeps_intros split: option.splits)
  show totp: "keeps (\<lambda>w. behind_unlock w = c) (check_totp sy s t)" for s t
    unfolding check_totp_def by (intro keeps_intros clock)
  show "keeps (\<lambda>w. behind_unlock w = c) (check_second_factor sy row code)"
    unfolding check_second_factor_def by (auto intro!: keeps_intros totp)
qed

lemma factors_behind: "keeps (\<lambda>w. behind_unlock w = c) (unlock_factors sy tok pw secret code)"
  unfolding unlock_factors_def by (intro keeps_intros)

text \<open>The factors an unlock verifies, for the row of the protection and the time of the second factor.\<close>

definition factors_hold :: "'g app_sys \<Rightarrow> usuario \<Rightarrow> guard_row \<Rightarrow> string \<Rightarrow> string \<Rightarrow> string option \<Rightarrow> int \<Rightarrow> bool" where
  "factors_hold sy u g pw secret code t \<longleftrightarrow>
     verify_password (sa_crypto sy) (trim pw) (us_senha_hash u) = Ok True \<and>
     verify_password (sa_crypto sy) secret (unwrap_or [] (gd_support_secret_hash g)) = Ok True \<and>
     (gd_totp_enabled g = 1 \<longrightarrow>
        (\<exists>enc totp. gd_totp_secret_encrypted g = Some enc \<and> decrypt_text (sa_crypto sy) (host_key sy) enc = Ok totp \<and>
           verify_totp_code (sa_crypto sy) (t div 1000000000) totp (unwrap_or [] code) = Ok True))"

lemma guard_text_json:
  "guard_text (guard_json g) ''support_secret_hash'' = unwrap_or [] (gd_support_secret_hash g)"
  "guard_text (guard_json g) ''totp_secret_encrypted'' = unwrap_or [] (gd_totp_secret_encrypted g)"
  by (cases "gd_support_secret_hash g"; cases "gd_totp_secret_encrypted g"; simp add: guard_text_def guard_json_def)+

lemma totp_flag: "unwrap_or 0 (Option.bind (obj_get (guard_json g) ''totp_enabled'') as_i64) = 1 \<longleftrightarrow> gd_totp_enabled g = 1"
  by (auto simp: guard_json_def js_int_def)

lemma second_factor_Ok:
  assumes "check_second_factor sy (guard_json g) code w = (Ok x, w')"
  shows "gd_totp_enabled g = 1 \<longrightarrow>
        (\<exists>enc totp. gd_totp_secret_encrypted g = Some enc \<and> decrypt_text (sa_crypto sy) (host_key sy) enc = Ok totp \<and>
           verify_totp_code (sa_crypto sy) (sa_time sy (aw_reads (cw_app w)) div 1000000000) totp (unwrap_or [] code) = Ok True)"
proof
  assume on: "gd_totp_enabled g = 1"
  then have "unwrap_or 0 (Option.bind (obj_get (guard_json g) ''totp_enabled'') as_i64) = 1" by (simp only: totp_flag)
  with assms obtain totp where d: "and_then (decrypt_guard_secret sy (guard_json g) ''totp_secret_encrypted'')
        (ok_or (''Secret TOTP n'' @ u_atilde @ ''o configurado.'')) = Ok totp"
    and v: "verify_totp_code (sa_crypto sy) (sa_time sy (aw_reads (cw_app w)) div 1000000000) totp (unwrap_or [] code) = Ok True"
    by (auto simp: check_second_factor_def check_totp_def lift_Ok ensure_Ok on_tables_Ok clock_def elim!: bindc_OkE)
  from d have "gd_totp_secret_encrypted g \<noteq> None"
    by (cases "gd_totp_secret_encrypted g") (auto simp: decrypt_guard_secret_def Let_def guard_text_json ok_or_Ok)
  with d v show "\<exists>enc totp. gd_totp_secret_encrypted g = Some enc \<and> decrypt_text (sa_crypto sy) (host_key sy) enc = Ok totp \<and>
           verify_totp_code (sa_crypto sy) (sa_time sy (aw_reads (cw_app w)) div 1000000000) totp (unwrap_or [] code) = Ok True"
    by (auto simp: decrypt_guard_secret_def Let_def guard_text_json ok_or_Ok and_then_Ok_iff split: if_splits)
qed

lemma cw_query_Ok: "cw_query sy msg q w = (Ok x, w') \<longleftrightarrow> sa_fail sy msg = None \<and> x = q w \<and> w' = w"
  by (auto simp: cw_query_def split: option.splits)

lemma password_hash_Ok:
  "user_password_hash sy uid w = (Ok h, w') \<Longrightarrow> w' = w \<and> (\<exists>u. find_user uid (cw_app w) = Some u \<and> h = us_senha_hash u)"
  by (auto simp: user_password_hash_def on_tables_Ok query_Ok fail_def ret_def elim!: bindc_OkE split: option.splits)

lemma factors_steps:
  assumes "unlock_factors sy tok pw secret code w = (Ok uid, w')"
  shows "\<exists>w1 w2 row h. support_ensure_master sy tok w = (Ok uid, w1) \<and> map_option guard_json (cw_guard w1) = Some row \<and>
    user_password_hash sy uid w1 = (Ok h, w2) \<and> verify_password (sa_crypto sy) (trim pw) h = Ok True \<and>
    verify_password (sa_crypto sy) secret (guard_text row ''support_secret_hash'') = Ok True \<and>
    check_second_factor sy row code w2 = (Ok (), w')"
  using assms
  by (fastforce simp: unlock_factors_def read_guard_def cw_query_Ok lift_Ok ok_or_Ok ensure_Ok ret_def elim!: bindc_OkE)

lemma unlock_factors_Ok:
  assumes "unlock_factors sy tok pw secret code w = (Ok uid, w')"
  shows "\<exists>u g. fst (require_session_by_token sy tok (cw_app w)) = Ok \<lparr>si_user_id = uid, si_master_user = True\<rparr> \<and>
    find_user uid (cw_app w) = Some u \<and> cw_guard w = Some g \<and>
    factors_hold sy u g pw secret code (sa_time sy (Suc (aw_reads (cw_app w))))"
proof -
  from factors_steps [OF assms] obtain w1 w2 row h where m: "support_ensure_master sy tok w = (Ok uid, w1)"
    and g: "map_option guard_json (cw_guard w1) = Some row"
    and h: "user_password_hash sy uid w1 = (Ok h, w2)"
    and pw: "verify_password (sa_crypto sy) (trim pw) h = Ok True"
    and s: "verify_password (sa_crypto sy) secret (guard_text row ''support_secret_hash'') = Ok True"
    and t: "check_second_factor sy row code w2 = (Ok (), w')" by blast
  from support_master_Ok [OF m] obtain a where a: "require_session_by_token sy tok (cw_app w) = (Ok \<lparr>si_user_id = uid, si_master_user = True\<rparr>, a)"
    and w1: "w1 = w\<lparr>cw_app := a\<rparr>" by blast
  have same: "db_usuarios a = db_usuarios (cw_app w)" and reads: "aw_reads a = Suc (aw_reads (cw_app w))"
    using core_parts [OF session.auth_core [OF a]] session_reads [OF a] by simp_all
  from g w1 obtain gr where gr: "cw_guard w = Some gr" "row = guard_json gr" by auto
  from password_hash_Ok [OF h] obtain u where u: "find_user uid (cw_app w) = Some u" "h = us_senha_hash u" and w2: "w2 = w1"
    by (auto simp: w1 find_user_def same)
  have "factors_hold sy u gr pw secret code (sa_time sy (Suc (aw_reads (cw_app w))))"
    using pw s second_factor_Ok [of sy gr code w1 "()" w'] t by (simp add: factors_hold_def u(2) gr(2) guard_text_json w1 w2 reads)
  with a u(1) gr(1) show ?thesis by (intro exI [of _ u] exI [of _ gr]) simp
qed

lemma open_unlock_Ok:
  assumes "open_unlock sy uid scope w = (Ok r, w')"
  shows "\<exists>s. r = [(''unlock_token'', JStr (ul_unlock_token s)), (''expires_at'', JStr (ul_expires_at s)), (''scope'', JStr scope)] \<and>
    s = \<lparr>ul_usuario_id = uid, ul_scope = scope, ul_unlock_token = sa_uuid sy (aw_uuids w),
      ul_expires_at = sa_rfc3339 sy (sa_time sy (Suc (aw_reads w)) + minutes_15),
      ul_created_at = sa_rfc3339 sy (sa_time sy (aw_reads w)), ul_last_used_at = Some (sa_rfc3339 sy (sa_time sy (aw_reads w)))\<rparr> \<and>
    ul_unlock_token s \<notin> set (map ul_unlock_token (db_unlocks w)) \<and> db_unlocks w' = db_unlocks w @ [s] \<and>
    aw_reads w' = Suc (Suc (aw_reads w)) \<and> db_usuarios w' = db_usuarios w"
  using assms
  by (auto simp: open_unlock_def Let_def new_uuid_def clock_text_def clock_def exec_Ok insert_unlock_def checked_def ret_def image_iff
      elim!: bindc_OkE dest!: log_quietly_frame split: if_splits) metis

lemma open_unlock_Err:
  assumes "open_unlock sy uid scope w = (Err e, w')"
  shows "db_unlocks w' = db_unlocks w"
  using assms
  by (auto simp: open_unlock_def Let_def new_uuid_def clock_text_def clock_def exec_def bindc_def ret_def log_quietly_def
      split: option.splits sum.splits)

text \<open>C17. A session of administrative access is only ever added by a request that carries the valid session of a master user, the password of this user, the support secret and, when it is switched on, a code of the second factor; exactly one session is added, it belongs to that user, its token is new, and the protection itself does not change.\<close>

theorem unlock_needs_factors:
  assumes "support_guard_unlock sy tok pw secret code scope w = (r, w')" and "db_unlocks (cw_app w') \<noteq> db_unlocks (cw_app w)"
  shows "\<exists>uid u g s. fst (require_session_by_token sy tok (cw_app w)) = Ok \<lparr>si_user_id = uid, si_master_user = True\<rparr> \<and>
    find_user uid (cw_app w) = Some u \<and> cw_guard w = Some g \<and>
    factors_hold sy u g pw secret code (sa_time sy (Suc (aw_reads (cw_app w)))) \<and>
    db_unlocks (cw_app w') = db_unlocks (cw_app w) @ [s] \<and> ul_usuario_id s = uid \<and> ul_scope s = unwrap_or ''global'' scope \<and>
    ul_unlock_token s \<notin> set (map ul_unlock_token (db_unlocks (cw_app w))) \<and> cw_guard w' = cw_guard w"
proof -
  obtain q w1 where f: "unlock_factors sy tok pw secret code w = (q, w1)" by fastforce
  from keepsD [OF factors_behind f refl] have same: "cw_guard w1 = cw_guard w" "db_unlocks (cw_app w1) = db_unlocks (cw_app w)"
    by (simp_all add: behind_unlock_def)
  obtain c where "connect_logging sy w = (c, w)" by (simp add: connect_logging_def lift_def)
  with assms f same obtain uid where c: "c = Ok ()" and q: "q = Ok uid" and o: "on_tables (open_unlock sy uid (unwrap_or ''global'' scope)) w1 = (r, w')"
    by (cases c; cases q) (auto simp: support_guard_unlock_def bindc_def)
  from o obtain a where a: "open_unlock sy uid (unwrap_or ''global'' scope) (cw_app w1) = (r, a)" "w' = w1\<lparr>cw_app := a\<rparr>"
    by (auto simp: on_tables_def split: prod.splits)
  with open_unlock_Err [of sy uid "unwrap_or ''global'' scope" "cw_app w1"] assms(2) same obtain x where "r = Ok x" by (cases r) auto
  from open_unlock_Ok [OF a(1) [unfolded this]] obtain s where db: "db_unlocks a = db_unlocks (cw_app w1) @ [s]"
    and fresh: "ul_unlock_token s \<notin> set (map ul_unlock_token (db_unlocks (cw_app w1)))"
    and s: "s = \<lparr>ul_usuario_id = uid, ul_scope = unwrap_or ''global'' scope, ul_unlock_token = sa_uuid sy (aw_uuids (cw_app w1)),
      ul_expires_at = sa_rfc3339 sy (sa_time sy (Suc (aw_reads (cw_app w1))) + minutes_15),
      ul_created_at = sa_rfc3339 sy (sa_time sy (aw_reads (cw_app w1))),
      ul_last_used_at = Some (sa_rfc3339 sy (sa_time sy (aw_reads (cw_app w1))))\<rparr>" by blast
  have "ul_usuario_id s = uid" "ul_scope s = unwrap_or ''global'' scope" by (simp_all add: s)
  with unlock_factors_Ok [OF f [unfolded q]] db fresh show ?thesis unfolding a(2) same [symmetric] by (simp add: same)
qed

subsection \<open>How long an unlock lasts\<close>

lemma require_unlock_answer:
  assumes "sa_fail sy (''Falha ao validar autoriza'' @ u_ccedil @ u_atilde @ ''o administrativa'') = None" and "sa_fail sy (''Falha ao atualizar uso da autoriza'' @ u_ccedil @ u_atilde @ ''o administrativa'') = None"
    and "trim tok \<noteq> []"
  shows "fst (require_admin_unlock sy uid tok scope w) =
    (if \<exists>s \<in> set (db_unlocks w). unlocks uid (trim tok) scope (sa_rfc3339 sy (sa_time sy (aw_reads w))) s then Ok ()
     else Err (''Sess'' @ u_atilde @ ''o administrativa refor'' @ u_ccedil @ ''ada ausente, inv'' @ u_aacute @ ''lida ou expirada.''))"
proof -
  have "find P xs \<noteq> None \<longleftrightarrow> (\<exists>s \<in> set xs. P s)" for P and xs :: "unlock_session list" by (auto simp: find_None_iff)
  then show ?thesis
    using assms
    by (simp add: require_admin_unlock_def Let_def bindc_def clock_text_def clock_def ret_def fail_def query_def exec_def ensure_def)
qed

text \<open>C19. The token of a successful unlock lets its user, and nobody else, pass for exactly fifteen minutes: in the scope it was asked for, and in every scope when that was \<open>global\<close>.\<close>

theorem unlock_lasts_fifteen_minutes:
  assumes sys: "times_ordered sy" "uuids_plain sy" "sa_fail sy (''Falha ao validar autoriza'' @ u_ccedil @ u_atilde @ ''o administrativa'') = None"
      "sa_fail sy (''Falha ao atualizar uso da autoriza'' @ u_ccedil @ u_atilde @ ''o administrativa'') = None"
    and unlock: "support_guard_unlock sy tok pw secret code scope w = (Ok r, w')"
  shows "\<exists>uid utok. fst (require_session_by_token sy tok (cw_app w)) = Ok \<lparr>si_user_id = uid, si_master_user = True\<rparr> \<and>
    obj_get r ''unlock_token'' = Some (JStr utok) \<and>
    (\<forall>v uid' asked. db_unlocks v = db_unlocks (cw_app w') \<longrightarrow>
      fst (require_admin_unlock sy uid' utok asked v) =
        (if uid' = uid \<and> (asked = unwrap_or ''global'' scope \<or> unwrap_or ''global'' scope = ''global'') \<and>
            sa_time sy (aw_reads v) < sa_time sy (aw_reads (cw_app w') - 1) + minutes_15
         then Ok () else Err (''Sess'' @ u_atilde @ ''o administrativa refor'' @ u_ccedil @ ''ada ausente, inv'' @ u_aacute @ ''lida ou expirada.'')))"
proof -
  from unlock obtain uid w0 w1 where f: "unlock_factors sy tok pw secret code w0 = (Ok uid, w1)" and w0: "w0 = w"
    and o: "on_tables (open_unlock sy uid (unwrap_or ''global'' scope)) w1 = (Ok r, w')"
    by (auto simp: support_guard_unlock_def connect_logging_def lift_Ok elim!: bindc_OkE)
  from o obtain a where a: "open_unlock sy uid (unwrap_or ''global'' scope) (cw_app w1) = (Ok r, a)" "w' = w1\<lparr>cw_app := a\<rparr>"
    by (auto simp: on_tables_Ok)
  let ?n = "sa_time sy (Suc (aw_reads (cw_app w1)))" and ?sc = "unwrap_or ''global'' scope"
  from open_unlock_Ok [OF a(1)] obtain s where r0: "r = [(''unlock_token'', JStr (ul_unlock_token s)), (''expires_at'', JStr (ul_expires_at s)), (''scope'', JStr ?sc)]"
    and s0: "s = \<lparr>ul_usuario_id = uid, ul_scope = ?sc, ul_unlock_token = sa_uuid sy (aw_uuids (cw_app w1)),
      ul_expires_at = sa_rfc3339 sy (?n + minutes_15), ul_created_at = sa_rfc3339 sy (sa_time sy (aw_reads (cw_app w1))),
      ul_last_used_at = Some (sa_rfc3339 sy (sa_time sy (aw_reads (cw_app w1))))\<rparr>"
    and fresh: "ul_unlock_token s \<notin> set (map ul_unlock_token (db_unlocks (cw_app w1)))" and db: "db_unlocks a = db_unlocks (cw_app w1) @ [s]"
    and reads: "aw_reads a = Suc (Suc (aw_reads (cw_app w1)))" by blast
  have r: "obj_get r ''unlock_token'' = Some (JStr (ul_unlock_token s))"
    and s: "ul_usuario_id s = uid" "ul_scope s = ?sc" "ul_unlock_token s = sa_uuid sy (aw_uuids (cw_app w1))"
      "ul_expires_at s = sa_rfc3339 sy (?n + minutes_15)"
    by (simp_all add: r0) (simp_all add: s0)
  have old: "\<forall>x \<in> set (db_unlocks (cw_app w1)). ul_unlock_token x \<noteq> ul_unlock_token s" using fresh by (simp add: image_iff) metis
  have plain: "trim (ul_unlock_token s) = ul_unlock_token s" "ul_unlock_token s \<noteq> []"
    using sys(2) by (auto simp: uuids_plain_def s(3))
  have "fst (require_admin_unlock sy uid' (ul_unlock_token s) asked v) =
        (if uid' = uid \<and> (asked = ?sc \<or> ?sc = ''global'') \<and>
            sa_time sy (aw_reads v) < sa_time sy (aw_reads (cw_app w') - 1) + minutes_15
         then Ok () else Err (''Sess'' @ u_atilde @ ''o administrativa refor'' @ u_ccedil @ ''ada ausente, inv'' @ u_aacute @ ''lida ou expirada.''))"
    if v: "db_unlocks v = db_unlocks (cw_app w')" for v uid' asked
  proof -
    let ?t = "sa_time sy (aw_reads v)"
    have "sa_rfc3339 sy ?t < sa_rfc3339 sy (?n + minutes_15) \<longleftrightarrow> ?t < ?n + minutes_15"
    proof -
      have "0 \<le> ?t" "?t < max_time" "0 \<le> ?n + minutes_15" "?n + minutes_15 < max_time"
        using sys(1) by (auto simp: times_ordered_def seven_days_def minutes_15_def intro: less_trans [rotated] order_trans
            dest: spec [of _ "aw_reads v"] spec [of _ "Suc (aw_reads (cw_app w1))"])
      with sys(1) show ?thesis by (simp add: times_ordered_def)
    qed
    moreover have "(\<exists>x \<in> set (db_unlocks v). unlocks uid' (ul_unlock_token s) asked t x) \<longleftrightarrow> unlocks uid' (ul_unlock_token s) asked t s" for t
      using old by (auto simp: v a(2) db unlocks_def)
    ultimately show ?thesis
      by (simp add: require_unlock_answer [OF sys(3,4)] plain) (auto simp: unlocks_def s a(2) reads)
  qed
  with unlock_factors_Ok [OF f] w0 r show ?thesis by blast
qed

subsection \<open>Rotation\<close>

text \<open>A stored hash of a text.\<close>

definition hash_of :: "crypto \<Rightarrow> string \<Rightarrow> string \<Rightarrow> bool" where
  "hash_of cr p h \<longleftrightarrow> (\<exists>salt. cr_argon_hash cr p salt = Ok h)"

lemma hash_ofI: "cr_argon_hash cr p salt = Ok h \<Longrightarrow> hash_of cr p h"
  by (auto simp: hash_of_def)

lemma provision_Ok:
  assumes "support_guard_provision sy tok force w = (Ok r, w')"
  shows "\<exists>secret secret_hash g. obj_get r ''support_secret'' = Some (JStr secret) \<and>
    hash_of (sa_crypto sy) secret secret_hash \<and> cw_guard w' = Some g \<and>
    gd_support_secret_hash g = Some secret_hash \<and> gd_totp_enabled g = 0 \<and>
    db_unlocks (cw_app w') = db_unlocks (cw_app w) \<and> connect_logging sy w = (Ok (), w)"
proof -
  from assms obtain uid w1 where c: "connect_logging sy w = (Ok (), w)" and m: "support_ensure_master sy tok w = (Ok uid, w1)"
    and rest: "\<exists>secret secret_hash a b c'. obj_get r ''support_secret'' = Some (JStr secret) \<and>
      hash_of (sa_crypto sy) secret secret_hash \<and> cw_guard w' = cw_guard (upsert_guard secret_hash a b c' w1) \<and>
      db_unlocks (cw_app w') = db_unlocks (cw_app w1)"
    unfolding support_guard_provision_def
    by (elim bindc_OkE)
      (auto simp: connect_logging_def read_guard_def lift_Ok cw_query_Ok on_tables_Ok cw_exec_Ok ensure_Ok draw_def clock_text_def
        clock_def hash_new_password_def hash_password_def map_err_Ok on_logs_def write_audit_def provisioned_def ret_def upsert_guard_def Let_def
        elim!: bindc_OkE dest!: log_quietly_frame split: prod.splits option.splits; blast intro: hash_ofI)
  from support_master_Ok [OF m] obtain a where a: "require_session_by_token sy tok (cw_app w) = (Ok \<lparr>si_user_id = uid, si_master_user = True\<rparr>, a)"
    and w1: "w1 = w\<lparr>cw_app := a\<rparr>" by blast
  with core_parts [OF session.auth_core [OF a]] rest c show ?thesis
    by (auto simp: upsert_guard_def Let_def split: option.splits)
qed

lemma factors_succeed:
  assumes fine: "\<And>msg. sa_fail sy msg = None"
    and session: "fst (require_session_by_token sy tok (cw_app w)) = Ok \<lparr>si_user_id = uid, si_master_user = True\<rparr>"
    and user: "find_user uid (cw_app w) = Some u" and guard: "cw_guard w = Some g" and off: "gd_totp_enabled g \<noteq> 1"
    and factors: "factors_hold sy u g pw secret code t"
  shows "\<exists>a. unlock_factors sy tok pw secret code w = (Ok uid, w\<lparr>cw_app := a\<rparr>) \<and> access_core a = access_core (cw_app w)"
proof -
  from session obtain a where a: "require_session_by_token sy tok (cw_app w) = (Ok \<lparr>si_user_id = uid, si_master_user = True\<rparr>, a)"
    by (metis prod.collapse)
  note core = session.auth_core [OF a]
  have "find_user uid a = Some u" using user core_parts [OF core] by (simp add: find_user_def)
  moreover have "check_second_factor sy (guard_json g) code v = (Ok (), v)" for v
    using off by (simp add: check_second_factor_def totp_flag ret_def)
  ultimately have "unlock_factors sy tok pw secret code w = (Ok uid, w\<lparr>cw_app := a\<rparr>)"
    using factors
    by (simp add: unlock_factors_def support_ensure_master_def on_tables_def a bindc_def ensure_def ret_def read_guard_def cw_query_def
        fine guard lift_def user_password_hash_def query_def factors_hold_def guard_text_json)
  with core show ?thesis by blast
qed

lemma open_unlock_succeeds:
  assumes "\<And>msg. sa_fail sy msg = None" and "sa_uuid sy (aw_uuids w) \<notin> set (map ul_unlock_token (db_unlocks w))"
    and "uid \<in> set (map us_id (db_usuarios w))"
  shows "\<exists>r w'. open_unlock sy uid scope w = (Ok r, w')"
  using assms
  by (simp add: open_unlock_def Let_def new_uuid_def clock_text_def clock_def exec_def bindc_def ret_def log_quietly_def insert_unlock_def
      checked_def)

lemma find_user_id: "find_user uid w = Some u \<Longrightarrow> uid \<in> set (map us_id (db_usuarios w))"
  by (auto simp: find_user_def find_Some_iff)

text \<open>C18. A rotation, which asks for the session of a master user and nothing else, does away with the other factors: it hands out a new support secret and switches the second factor off, so that whoever holds the session and the password opens administrative access with that secret and without a code. The sessions that were open before stay open.\<close>

theorem rotation_replaces_factors:
  assumes sys: "\<And>msg. sa_fail sy msg = None" "\<And>p h. hash_of (sa_crypto sy) p h \<Longrightarrow> verify_password (sa_crypto sy) p h = Ok True"
    and rotated: "support_guard_provision sy tok (Some True) w = (Ok r, w1)"
    and session: "fst (require_session_by_token sy tok (cw_app w1)) = Ok \<lparr>si_user_id = uid, si_master_user = True\<rparr>"
    and user: "find_user uid (cw_app w1) = Some u" "verify_password (sa_crypto sy) (trim pw) (us_senha_hash u) = Ok True"
    and fresh: "sa_uuid sy (aw_uuids (cw_app w1)) \<notin> set (map ul_unlock_token (db_unlocks (cw_app w1)))"
  shows "\<exists>secret. obj_get r ''support_secret'' = Some (JStr secret) \<and> db_unlocks (cw_app w1) = db_unlocks (cw_app w) \<and>
    (\<exists>r2 w2. support_guard_unlock sy tok pw secret None scope w1 = (Ok r2, w2))"
proof -
  from provision_Ok [OF rotated] obtain secret h g where p: "obj_get r ''support_secret'' = Some (JStr secret)"
    "hash_of (sa_crypto sy) secret h" "cw_guard w1 = Some g" "gd_support_secret_hash g = Some h" "gd_totp_enabled g = 0"
    "db_unlocks (cw_app w1) = db_unlocks (cw_app w)" and c: "connect_logging sy w = (Ok (), w)" by blast
  have "factors_hold sy u g pw secret None 0" using user(2) sys(2) [OF p(2)] by (simp add: factors_hold_def p(4,5))
  then have "\<exists>a. unlock_factors sy tok pw secret None w1 = (Ok uid, w1\<lparr>cw_app := a\<rparr>) \<and> access_core a = access_core (cw_app w1)"
    using p(5) by (intro factors_succeed [OF sys(1) session user(1) p(3)]) simp_all
  then obtain a
    where f: "unlock_factors sy tok pw secret None w1 = (Ok uid, w1\<lparr>cw_app := a\<rparr>)" and a: "access_core a = access_core (cw_app w1)" by blast
  have "\<exists>r2 b. open_unlock sy uid (unwrap_or ''global'' scope) a = (Ok r2, b)"
    by (rule open_unlock_succeeds [OF sys(1)]) (use core_parts [OF a] fresh find_user_id [OF user(1)] in simp_all)
  then obtain r2 b where "open_unlock sy uid (unwrap_or ''global'' scope) a = (Ok r2, b)" by blast
  then have "support_guard_unlock sy tok pw secret None scope w1 = (Ok r2, w1\<lparr>cw_app := b\<rparr>)"
    using c f by (simp add: support_guard_unlock_def connect_logging_def lift_def bindc_def on_tables_def)
  with p(1,6) show ?thesis by blast
qed

subsection \<open>A small protected installation\<close>

definition demo_guard :: guard_row where
  "demo_guard =
     \<lparr>gd_support_secret_hash = Some ''sword'', gd_totp_secret_encrypted = Some ''x'', gd_totp_enabled = 0,
      gd_recovery_codes_encrypted = None, gd_licensing_protected = 1, gd_white_label_protected = 1, gd_created_at = [],
      gd_updated_at = [], gd_last_rotated_at = None\<rparr>"

definition guarded_console :: "unit console_world" where
  "guarded_console = new_console\<lparr>cw_app := master_world, cw_guard := Some demo_guard\<rparr>"

lemma demo_session:
  assumes "db_sessions w = map (touch_session ''0'' n) (db_sessions master_world)" and "db_usuarios w = db_usuarios master_world"
  shows "fst (require_session_by_token demo_app_sys ''0'' w) = Ok \<lparr>si_user_id = 1, si_master_user = True\<rparr>"
  using assms
  by (simp add: require_session_by_token_def Let_def trim_zero demo_steps session_rows_def touch_session_def
      master_world_def demo_app_world_def demo_user_def replicate_less)

lemma demo_logging: "connect_logging demo_app_sys w = (Ok (), w)"
  by (simp add: connect_logging_def lift_def state_db_path_def state_data_dir_def open_connection_def demo_app_sys_def)

lemma demo_password: "verify_password (sa_crypto demo_app_sys) (trim ''secret'') (us_senha_hash (demo_user 1 ''ana'' 1)) = Ok True"
proof -
  have "trim ''secret'' = ''secret''" by (rule trim_graph) (simp_all add: graph_char_def)
  then show ?thesis by (simp add: verify_password_def demo_app_defs)
qed

lemma demo_owner: "db_usuarios w = db_usuarios master_world \<Longrightarrow> find_user 1 w = Some (demo_user 1 ''ana'' 1)"
  by (simp add: find_user_def master_world_def demo_app_world_def demo_user_def)

lemma demo_unlock: "\<exists>r w'. support_guard_unlock demo_app_sys ''0'' ''secret'' ''word'' None None guarded_console = (Ok r, w')"
proof -
  have app: "cw_app guarded_console = master_world" "cw_guard guarded_console = Some demo_guard" by (simp_all add: guarded_console_def)
  have "db_sessions master_world = map (touch_session ''0'' []) (db_sessions master_world)"
    by (simp add: master_world_def touch_session_def)
  then have s: "fst (require_session_by_token demo_app_sys ''0'' (cw_app guarded_console)) = Ok \<lparr>si_user_id = 1, si_master_user = True\<rparr>"
    by (intro demo_session) (simp_all add: app)
  have "factors_hold demo_app_sys (demo_user 1 ''ana'' 1) demo_guard ''secret'' ''word'' None 0"
    using demo_password by (simp add: factors_hold_def demo_guard_def) (simp add: verify_password_def demo_app_defs)
  then have "\<exists>a. unlock_factors demo_app_sys ''0'' ''secret'' ''word'' None guarded_console = (Ok 1, guarded_console\<lparr>cw_app := a\<rparr>) \<and>
      access_core a = access_core (cw_app guarded_console)"
    by (rule factors_succeed [OF demo_nofail s _ app(2), rotated 2]) (simp_all add: app demo_owner, simp add: demo_guard_def)
  then obtain a where f: "unlock_factors demo_app_sys ''0'' ''secret'' ''word'' None guarded_console = (Ok 1, guarded_console\<lparr>cw_app := a\<rparr>)"
    and a: "access_core a = access_core master_world" by (auto simp: app)
  have "\<exists>r b. open_unlock demo_app_sys 1 ''global'' a = (Ok r, b)"
    by (rule open_unlock_succeeds [OF demo_nofail])
      (use core_parts [OF a] in \<open>simp_all add: master_world_def demo_app_world_def demo_user_def\<close>)
  then show ?thesis using f by (auto simp: support_guard_unlock_def bindc_def demo_logging on_tables_def)
qed

theorem unlock_needs_factors_witness:
  "\<exists>r w' g. support_guard_unlock demo_app_sys ''0'' ''secret'' ''word'' None None guarded_console = (r, w') \<and>
     cw_guard guarded_console = Some g \<and> length (db_unlocks (cw_app w')) = Suc 0 \<and>
     verify_password (sa_crypto demo_app_sys) ''word'' (unwrap_or [] (gd_support_secret_hash g)) = Ok True"
proof -
  obtain r w' where u: "support_guard_unlock demo_app_sys ''0'' ''secret'' ''word'' None None guarded_console = (Ok r, w')"
    using demo_unlock by blast
  have none: "db_unlocks (cw_app guarded_console) = []" by (simp add: guarded_console_def master_world_def demo_app_world_def)
  from u have "db_unlocks (cw_app w') \<noteq> []"
    by (auto simp: support_guard_unlock_def on_tables_Ok elim!: bindc_OkE dest!: open_unlock_Ok)
  with unlock_needs_factors [OF u] none show ?thesis unfolding factors_hold_def u by (metis append_Nil length_Cons list.size(3))
qed

theorem unlock_lasts_fifteen_minutes_witness:
  "\<exists>r w' utok. support_guard_unlock demo_app_sys ''0'' ''secret'' ''word'' None None guarded_console = (Ok r, w') \<and>
     obj_get r ''unlock_token'' = Some (JStr utok) \<and> fst (require_admin_unlock demo_app_sys 1 utok ''licensing'' (cw_app w')) = Ok () \<and>
     fst (require_admin_unlock demo_app_sys 2 utok ''licensing'' (cw_app w')) \<noteq> Ok ()"
proof -
  obtain r w' where u: "support_guard_unlock demo_app_sys ''0'' ''secret'' ''word'' None None guarded_console = (Ok r, w')"
    using demo_unlock by blast
  have "db_sessions master_world = map (touch_session ''0'' []) (db_sessions master_world)"
    by (simp add: master_world_def touch_session_def)
  then have s: "fst (require_session_by_token demo_app_sys ''0'' (cw_app guarded_console)) = Ok \<lparr>si_user_id = 1, si_master_user = True\<rparr>"
    by (intro demo_session) (simp_all add: guarded_console_def)
  have time: "sa_time demo_app_sys n = 5" for n by (simp add: demo_app_sys_def)
  from unlock_lasts_fifteen_minutes [OF demo_laws demo_nofail demo_nofail u] s u show ?thesis
    by (auto simp: time minutes_15_def)
qed

lemma demo_rotation:
  "\<exists>r w1. support_guard_provision demo_app_sys ''0'' (Some True) guarded_console = (Ok r, w1) \<and> db_usuarios (cw_app w1) = db_usuarios master_world \<and>
     db_sessions (cw_app w1) = map (touch_session ''0'' (replicate 5 CHR ''1'')) (db_sessions master_world) \<and> db_unlocks (cw_app w1) = []"
proof -
  let ?n = "replicate 5 CHR ''1''"
  let ?a = "master_world\<lparr>aw_reads := Suc (aw_reads master_world), db_sessions := map (touch_session ''0'' ?n) (db_sessions master_world)\<rparr>"
  have s: "require_session_by_token demo_app_sys ''0'' master_world = (Ok \<lparr>si_user_id = 1, si_master_user = True\<rparr>, ?a)"
    by (simp add: require_session_by_token_def Let_def trim_zero bindc_def demo_clock demo_query demo_exec
      session_rows_def ensure_def ret_def master_world_def demo_app_world_def demo_user_def replicate_less)
  have m: "support_ensure_master demo_app_sys ''0'' guarded_console = (Ok 1, guarded_console\<lparr>cw_app := ?a\<rparr>)"
    by (simp add: support_ensure_master_def on_tables_def bindc_def ensure_def ret_def guarded_console_def s)
  show ?thesis
    unfolding support_guard_provision_def
    by (simp add: bindc_def demo_logging m read_guard_def demo_cw ensure_def ret_def on_tables_def draw_def demo_hash demo_clock cw_exec_def
        demo_nofail upsert_guard_def on_logs_def write_audit_def demo_log log_quietly_def Let_def split_beta)
      (simp add: master_world_def demo_app_world_def guarded_console_def)
qed

theorem rotation_replaces_factors_witness:
  "\<exists>r w1 secret r2 w2. support_guard_provision demo_app_sys ''0'' (Some True) guarded_console = (Ok r, w1) \<and>
     obj_get r ''support_secret'' = Some (JStr secret) \<and>
     support_guard_unlock demo_app_sys ''0'' ''secret'' secret None None w1 = (Ok r2, w2)"
proof -
  obtain r w1 where p: "support_guard_provision demo_app_sys ''0'' (Some True) guarded_console = (Ok r, w1)"
    and us: "db_usuarios (cw_app w1) = db_usuarios master_world" and un: "db_unlocks (cw_app w1) = []"
    and ss: "db_sessions (cw_app w1) = map (touch_session ''0'' (replicate 5 CHR ''1'')) (db_sessions master_world)"
    using demo_rotation by blast
  have law: "verify_password (sa_crypto demo_app_sys) q h = Ok True" if "hash_of (sa_crypto demo_app_sys) q h" for q h
    using that by (auto simp: hash_of_def verify_password_def demo_app_sys_def demo_crypto_def)
  have "sa_uuid demo_app_sys (aw_uuids (cw_app w1)) \<notin> set (map ul_unlock_token (db_unlocks (cw_app w1)))" by (simp add: un)
  from rotation_replaces_factors [OF demo_nofail law p demo_session [OF ss us] demo_owner [OF us] demo_password this, of None]
  show ?thesis using p by blast
qed

end
