(* ===== verification/Licensing.thy ===== *)
theory Licensing
  imports Support License_Instances
begin

text \<open>
  The licensing commands of the console, \<^verbatim>\<open>commands/licensing.rs\<close>: settings behind the
  administrative protection, the check of the licence through the licensing crate, and the local
  trial.
\<close>

text \<open>
  The licensing crate with what it reads of the machine, the version of the package, the text of
  \<^verbatim>\<open>datetime('now')\<close>, and the derived serialisation of a decision.
\<close>

record 's license_host =
  lh_ext :: "'s ext"
  lh_os :: os_env
  lh_version :: string
  lh_sql_now :: string
  lh_decision_json :: "license_decision \<Rightarrow> (json, string) result"

type_synonym seed = "int \<times> string \<times> string \<times> string option"

definition company_seed :: "'g app_sys \<Rightarrow> int option \<Rightarrow> (seed, 'g console_world) cmd" where
  "company_seed sy empresa_id =
     bindc (on_tables (query sy ''Falha ao localizar empresa para licenciamento''
         (\<lambda>w. case empresa_id of
                Some i \<Rightarrow> find (\<lambda>e. em_id e = i) (db_empresas w)
              | None \<Rightarrow> first_row (sort_key em_id (db_empresas w))))) (\<lambda>row.
     lift (ok_or ''Cadastre ao menos uma empresa para utilizar o licenciamento.''
       (map_option (\<lambda>e. (em_id e, unwrap_or [] (em_documento e), em_nome e, em_email e)) row)))"

subsection \<open>Settings\<close>

definition license_settings_key :: string where
  "license_settings_key = ''licensing_settings''"

definition default_license_settings :: "'g app_sys \<Rightarrow> os_env \<Rightarrow> json_obj" where
  "default_license_settings sy os =
     [(''service_url'', JStr (lc_base_url license_config_default)), (''company_name'', JStr []), (''company_document'', JStr []),
      (''company_email'', JStr []), (''station_name'', JStr (default_device_name os)), (''machine_key'', JStr (host_key sy)),
      (''app_instance'', JStr ''app-template''), (''auto_register_machine'', JBool True),
      (''auto_register_requested_licenses'', JNull), (''auto_register_validation_mode'', JStr ''standard''),
      (''auto_register_interface_mode'', JStr ''interactive''), (''auto_register_device_identifier'', JStr []),
      (''licensing_disabled'', JBool False)]"

text \<open>\<^verbatim>\<open>for (k, v) in saved { result.insert(k, v); }\<close>\<close>

definition overlay :: "json_obj \<Rightarrow> json_obj \<Rightarrow> json_obj" where
  "overlay saved result = foldl (\<lambda>m (k, v). hm_insert k v m) result saved"

definition load_settings_from_db :: "'g app_sys \<Rightarrow> 's license_host \<Rightarrow> (json_obj, 'g console_world) cmd" where
  "load_settings_from_db sy h =
     (let msg = (''Falha ao consultar configura'' @ u_ccedil @ u_atilde @ ''o de licenciamento'') in
      bindc (cw_query sy msg (\<lambda>w. cw_configuracoes w license_settings_key)) (\<lambda>row.
      bindc (case row of
               None \<Rightarrow> ret None
             | Some r \<Rightarrow> (case cg_valor r of
                 None \<Rightarrow> fail (msg @ '': Invalid column type Null at index: 0, name: valor'')
               | Some raw \<Rightarrow> ret (Some raw))) (\<lambda>existing.
      ret (case Option.bind existing (\<lambda>raw. x_json_of_slice (lh_ext h) raw) of
             Some (JObj saved) \<Rightarrow> overlay saved (default_license_settings sy (lh_os h))
           | _ \<Rightarrow> default_license_settings sy (lh_os h)))))"

definition save_settings_to_db :: "'g app_sys \<Rightarrow> 's license_host \<Rightarrow> json_obj \<Rightarrow> (unit, 'g console_world) cmd" where
  "save_settings_to_db sy h settings =
     cw_exec sy (''Falha ao salvar configura'' @ u_ccedil @ u_atilde @ ''o de licenciamento'')
       (\<lambda>w. Ok (w\<lparr>cw_configuracoes := (cw_configuracoes w)(license_settings_key \<mapsto>
          \<lparr>cg_valor = Some (lg_json_text (sa_log sy) (JObj settings)), cg_updated_at = lh_sql_now h\<rparr>)\<rparr>))"

definition protected_keys :: "string list" where
  "protected_keys =
     [''service_url'', ''app_instance'', ''auto_register_validation_mode'', ''auto_register_interface_mode'',
      ''auto_register_device_identifier'', ''auto_register_requested_licenses'']"

definition mask_protected_settings :: "json_obj \<Rightarrow> json_obj" where
  "mask_protected_settings settings =
     hm_insert ''protected'' (JBool True)
       (foldl (\<lambda>m key. if obj_get m key \<noteq> None then hm_insert key (JStr ''[protegido]'') m else m) settings protected_keys)"

text \<open>The readers of \<^verbatim>\<open>commands/access.rs\<close>, written out a second time in this file.\<close>

definition license_flag :: "json_obj \<Rightarrow> string \<Rightarrow> bool \<Rightarrow> bool" where
  "license_flag m key d \<longleftrightarrow> get_bool01 m key d = 1"

definition map_requested_licenses :: "json_obj \<Rightarrow> 32 word option" where
  "map_requested_licenses settings =
     (case obj_get settings ''auto_register_requested_licenses'' of
        Some (JNum n) \<Rightarrow> map_option word_of_nat (as_u64 (JNum n))
      | Some (JStr t) \<Rightarrow> parse_u32 (trim t)
      | _ \<Rightarrow> None)"

definition build_check_input :: "'s license_host \<Rightarrow> json_obj \<Rightarrow> string \<Rightarrow> string \<Rightarrow> string option \<Rightarrow> license_check_input" where
  "build_check_input h settings documento nome email =
     (let input =
        \<lparr>li_company_document = unwrap_or documento (get_string settings ''company_document''),
         li_company_name = or_else (get_string settings ''company_name'') (Some nome),
         li_company_email = or_else (get_string settings ''company_email'') email,
         li_company_legal_name = Some nome,
         li_app_id = ''tunnara-console'', li_app_name = ''Tunnara Console'', li_app_version = lh_version h,
         li_app_slug = Some (unwrap_or ''app-template'' (get_string settings ''app_instance'')),
         li_device_key = None, li_device_name = None, li_station_name = get_string settings ''station_name'',
         li_hostname = None, li_computer_name = None, li_serial_number = None, li_machine_guid = None,
         li_bios_serial = None, li_motherboard_serial = None, li_logged_user = None, li_os_name = None,
         li_os_version = None, li_os_arch = None, li_domain_name = None, li_mac_addresses = [], li_install_mode = None,
         li_registration_file_content_b64 = None, li_registration_file_path = None, li_registration_file_verified = None,
         li_allow_company_auto_create = Some (license_flag settings ''auto_register_machine'' True),
         li_allow_device_auto_create = Some (license_flag settings ''auto_register_machine'' True),
         li_allow_device_auto_update = Some True,
         li_requested_licenses = map_requested_licenses settings,
         li_device_identifier = get_string settings ''auto_register_device_identifier'',
         li_validation_mode = get_string settings ''auto_register_validation_mode'',
         li_interface_mode = get_string settings ''auto_register_interface_mode'',
         li_local_license_mode = None, li_metadata = [], li_login_context = False\<rparr>
      in input\<lparr>li_device_key := Some (generate_device_key (lh_ext h) input)\<rparr>)"

subsection \<open>The local licence\<close>

definition license_json :: "local_license \<Rightarrow> json_obj" where
  "license_json l =
     [(''id'', js_int (loc_id l)), (''empresa_id'', js_int (loc_empresa_id l)), (''cnpj'', JStr (loc_cnpj l)),
      (''license_kind'', JStr (loc_license_kind l)), (''status'', JStr (loc_status l)), (''issued_at'', JStr (loc_issued_at l)),
      (''expires_at'', JStr (loc_expires_at l)), (''fingerprint'', js_opt (loc_fingerprint l)),
      (''payload_encrypted'', js_opt (loc_payload_encrypted l)), (''integrity_hash'', js_opt (loc_integrity_hash l)),
      (''created_at'', JStr (loc_created_at l)), (''updated_at'', JStr (loc_updated_at l))]"

definition trial_license_row :: "'g app_sys \<Rightarrow> int \<Rightarrow> (json_obj option, 'g console_world) cmd" where
  "trial_license_row sy empresa_id =
     cw_query sy (''Falha ao consultar licen'' @ u_ccedil @ ''a local'')
       (\<lambda>w. map_option license_json (find (\<lambda>l. loc_empresa_id l = empresa_id) (cw_licenses w)))"

definition attach_decrypted_payload :: "'g app_sys \<Rightarrow> json_obj \<Rightarrow> string \<Rightarrow> json_obj" where
  "attach_decrypted_payload sy row cnpj =
     (let encrypted = guard_text row ''payload_encrypted'';
          decrypted = (if encrypted = [] then None
                       else case decrypt_text (sa_crypto sy) cnpj encrypted of Inr s \<Rightarrow> Some s | Inl _ \<Rightarrow> None);
          row = hm_insert ''payload_decrypted'' (js_opt decrypted) row
      in hm_insert ''is_trial'' (JBool (Option.bind (obj_get row ''license_kind'') as_str = Some ''trial'')) row)"

subsection \<open>Commands\<close>

definition licensing_load_settings ::
  "'g app_sys \<Rightarrow> 's license_host \<Rightarrow> string \<Rightarrow> string option \<Rightarrow> (json_obj, 'g console_world) cmd" where
  "licensing_load_settings sy h session_token admin_unlock_token =
     bindc (on_tables (connect sy)) (\<lambda>_.
     bindc (on_tables (require_session_by_token sy session_token)) (\<lambda>identity.
     bindc (load_settings_from_db sy h) (\<lambda>settings.
     case (if si_master_user identity then admin_unlock_token else None) of
       None \<Rightarrow> ret (mask_protected_settings settings)
     | Some token \<Rightarrow> (\<lambda>w.
         case on_tables (require_admin_unlock sy (si_user_id identity) token ''licensing'') w of
           (Inr _, w') \<Rightarrow> (Ok settings, w')
         | (Inl _, w') \<Rightarrow> (Ok (mask_protected_settings settings), w')))))"

definition licensing_save_settings ::
  "'g app_sys \<Rightarrow> 's license_host \<Rightarrow> string \<Rightarrow> string \<Rightarrow> json_obj \<Rightarrow> (json_obj, 'g console_world) cmd" where
  "licensing_save_settings sy h session_token admin_unlock_token payload =
     bindc (connect_logging sy) (\<lambda>_.
     bindc (on_tables (require_session_by_token sy session_token)) (\<lambda>identity.
     bindc (ensure (si_master_user identity) (''Apenas usu'' @ u_aacute @ ''rio master pode alterar configura'' @ u_ccedil @ u_otilde @ ''es de licenciamento.'')) (\<lambda>_.
     bindc (on_tables (require_admin_unlock sy (si_user_id identity) admin_unlock_token ''licensing'')) (\<lambda>_.
     let settings = overlay payload (default_license_settings sy (lh_os h)) in
     bindc (save_settings_to_db sy h settings) (\<lambda>_.
     bindc (on_tables (on_logs (write_audit (sa_log sy) ''licensing_settings'' ''update'' None (JObj settings)))) (\<lambda>_.
     bindc (on_tables (log_quietly sy
         \<lparr>ai_level = ''warning'', ai_category = ''licensing'', ai_message = (''Configura'' @ u_ccedil @ u_otilde @ ''es sens'' @ u_iacute @ ''veis de licenciamento atualizadas.''),
          ai_source = Some ''backend'', ai_route = None,
          ai_details = Some (JObj [(''usuario_id'', js_int (si_user_id identity))])\<rparr>)) (\<lambda>_.
     ret settings)))))))"

text \<open>The serialisation of \<^verbatim>\<open>DeviceCollectedInfo\<close>, which has texts only and cannot fail.\<close>

definition device_json :: "device_collected_info \<Rightarrow> json_obj" where
  "device_json d =
     [(''station_name'', JStr (dc_station_name d)), (''hostname'', JStr (dc_hostname d)),
      (''computer_name'', JStr (dc_computer_name d)), (''serial_number'', JStr (dc_serial_number d)),
      (''machine_guid'', JStr (dc_machine_guid d)), (''bios_serial'', JStr (dc_bios_serial d)),
      (''motherboard_serial'', JStr (dc_motherboard_serial d)), (''logged_user'', JStr (dc_logged_user d)),
      (''os_name'', JStr (dc_os_name d)), (''os_version'', JStr (dc_os_version d)), (''os_arch'', JStr (dc_os_arch d)),
      (''domain_name'', JStr (dc_domain_name d)), (''mac_addresses'', JArr (map JStr (dc_mac_addresses d))),
      (''install_mode'', JStr (dc_install_mode d))]"

definition licensing_device_info :: "'g app_sys \<Rightarrow> 's license_host \<Rightarrow> string \<Rightarrow> (json_obj, 'g console_world) cmd" where
  "licensing_device_info sy h session_token =
     bindc (on_tables (connect sy)) (\<lambda>_.
     bindc (on_tables (require_session_by_token sy session_token)) (\<lambda>_.
     ret (hm_insert ''device_key'' (JStr (host_key sy)) (device_json (collect_device_metadata (lh_os h))))))"

definition license_header :: "'g app_sys \<Rightarrow> json_obj \<Rightarrow> seed \<Rightarrow> json_obj" where
  "license_header sy settings seed =
     (case seed of (i, documento, nome, _) \<Rightarrow>
        [(''empresa_id'', js_int i), (''empresa_nome'', JStr nome), (''cnpj'', JStr documento),
         (''machine_key'', JStr (host_key sy)), (''settings'', JObj (mask_protected_settings settings))])"

definition local_license_json :: "'g app_sys \<Rightarrow> json_obj option \<Rightarrow> string \<Rightarrow> json" where
  "local_license_json sy row documento =
     (case row of Some r \<Rightarrow> JObj (attach_decrypted_payload sy r documento) | None \<Rightarrow> JNull)"

text \<open>What \<^verbatim>\<open>licensing_check_runtime\<close> does before it asks the licensing crate.\<close>

definition runtime_state :: "'g app_sys \<Rightarrow> 's license_host \<Rightarrow> string \<Rightarrow> int option \<Rightarrow> (json_obj \<times> seed \<times> json_obj, 'g console_world) cmd" where
  "runtime_state sy h session_token empresa_id =
     bindc (on_tables (connect sy)) (\<lambda>_.
     bindc (on_tables (require_session_by_token sy session_token)) (\<lambda>_.
     bindc (load_settings_from_db sy h) (\<lambda>settings.
     bindc (company_seed sy empresa_id) (\<lambda>seed.
     bindc (trial_license_row sy (fst seed)) (\<lambda>row.
     ret (settings, seed, license_header sy settings seed @
       [(''local_license'', local_license_json sy row (fst (snd seed)))]))))))"

definition disabled_decision :: json where
  "disabled_decision =
     JObj [(''allowed'', JBool True), (''decision'', JStr ''allowed''), (''reason_code'', JStr ''LICENSING_DISABLED''),
           (''step'', JStr ''settings''), (''message'', JStr (''Licenciamento desabilitado na configura'' @ u_ccedil @ u_atilde @ ''o da aplica'' @ u_ccedil @ u_atilde @ ''o.'')),
           (''source'', JStr ''settings'')]"

definition runtime_config_of :: "json_obj \<Rightarrow> int \<Rightarrow> license_config" where
  "runtime_config_of settings i =
     (let config = license_config_default\<lparr>lc_cache_namespace := ''app-template-'' @ show_int i\<rparr>
      in case get_string settings ''service_url'' of Some service_url \<Rightarrow> config\<lparr>lc_base_url := service_url\<rparr> | None \<Rightarrow> config)"

definition decided :: "'s license_host \<Rightarrow> json_obj \<Rightarrow> (license_decision, license_error) result \<Rightarrow> (json_obj, string) result" where
  "decided h result r =
     and_then (map_err error_to_string r) (\<lambda>decision.
     and_then (map_err (\<lambda>e. (''Falha ao serializar decis'' @ u_atilde @ ''o de licen'' @ u_ccedil @ ''a: '') @ e) (lh_decision_json h decision)) (\<lambda>value.
     Ok (result @ [(''mode'', JStr ''generic-license-tauri''), (''allowed'', JBool (ld_allowed decision)), (''decision'', value)])))"

definition licensing_check_runtime ::
  "'g app_sys \<Rightarrow> 's license_host \<Rightarrow> nat \<Rightarrow> string \<Rightarrow> int option \<Rightarrow> 'g console_world \<Rightarrow> 's world
   \<Rightarrow> ((json_obj, string) result \<times> 'g console_world \<times> 's world) option" where
  "licensing_check_runtime sy h fuel session_token empresa_id w s =
     (case runtime_state sy h session_token empresa_id w of
        (Inl err, w') \<Rightarrow> Some (Err err, w', s)
      | (Inr (settings, (i, documento, nome, email), result), w') \<Rightarrow>
          (if license_flag settings ''licensing_disabled'' False
           then Some (Ok (result @ [(''mode'', JStr ''disabled''), (''allowed'', JBool True), (''decision'', disabled_decision)]), w', s)
           else map_option (\<lambda>(r, s'). (decided h result r, w', s'))
             (check (lh_ext h) (runtime_config_of settings i) (lh_os h) fuel (build_check_input h settings documento nome email) s)))"

definition licensing_status :: "'g app_sys \<Rightarrow> 's license_host \<Rightarrow> string \<Rightarrow> int option \<Rightarrow> (json_obj, 'g console_world) cmd" where
  "licensing_status sy h session_token empresa_id =
     bindc (on_tables (connect sy)) (\<lambda>_.
     bindc (on_tables (require_session_by_token sy session_token)) (\<lambda>_.
     bindc (load_settings_from_db sy h) (\<lambda>settings.
     bindc (company_seed sy empresa_id) (\<lambda>seed.
     bindc (trial_license_row sy (fst seed)) (\<lambda>row.
     ret (license_header sy settings seed @ [(''license'', local_license_json sy row (fst (snd seed)))]))))))"

definition days_45 :: int where
  "days_45 = 45 * 86400 * 1000000000"

definition trial_payload :: "'g app_sys \<Rightarrow> int \<Rightarrow> string \<Rightarrow> string \<Rightarrow> string \<Rightarrow> string \<Rightarrow> json" where
  "trial_payload sy i nome cnpj issued_at expires_at =
     JObj [(''empresa_id'', js_int i), (''empresa_nome'', JStr nome), (''cnpj'', JStr cnpj), (''kind'', JStr ''trial''),
           (''issued_at'', JStr issued_at), (''expires_at'', JStr expires_at), (''machine_key'', JStr (host_key sy)),
           (''days'', js_int 45)]"

definition insert_license :: "'g app_sys \<Rightarrow> (int \<Rightarrow> local_license) \<Rightarrow> 'g console_world \<Rightarrow> ('g console_world, string) result" where
  "insert_license sy row w =
     (let k = next_key ''local_licenses'' (cw_app w); l = row k in
      if loc_empresa_id l \<in> set (map loc_empresa_id (cw_licenses w)) then Err (sa_constraint sy ''local_licenses.empresa_id'')
      else if loc_empresa_id l \<notin> set (map em_id (db_empresas (cw_app w))) then Err (sa_constraint sy ''local_licenses.empresa_id'')
      else Ok (w\<lparr>cw_licenses := cw_licenses w @ [l],
                 cw_app := (cw_app w)\<lparr>db_seq := (db_seq (cw_app w))(''local_licenses'' := k)\<rparr>\<rparr>))"

definition new_trial :: "'g app_sys \<Rightarrow> int \<Rightarrow> string \<Rightarrow> string \<Rightarrow> string \<Rightarrow> string \<Rightarrow> int \<Rightarrow> local_license" where
  "new_trial sy i nome cnpj issued_at expires_at k =
     (let payload_str = lg_json_text (sa_log sy) (trial_payload sy i nome cnpj issued_at expires_at) in
      \<lparr>loc_id = k, loc_empresa_id = i, loc_cnpj = cnpj, loc_license_kind = ''trial'', loc_status = ''active'',
       loc_issued_at = issued_at, loc_expires_at = expires_at, loc_fingerprint = Some (host_key sy),
       loc_payload_encrypted = Some (encrypt_text (sa_crypto sy) cnpj payload_str),
       loc_integrity_hash = Some (integrity_hash (sa_crypto sy) cnpj payload_str), loc_created_at = issued_at,
       loc_updated_at = issued_at\<rparr>)"

definition store_trial :: "'g app_sys \<Rightarrow> (int \<Rightarrow> local_license) \<Rightarrow> (json_obj, 'g console_world) cmd" where
  "store_trial sy row =
     bindc (cw_exec sy (''Falha ao gravar licen'' @ u_ccedil @ ''a de teste'') (insert_license sy row)) (\<lambda>_.
     bindc (\<lambda>w. (Ok (db_seq (cw_app w) ''local_licenses''), w)) (\<lambda>i.
     bindc (cw_query sy (''Falha ao reler licen'' @ u_ccedil @ ''a salva'') (\<lambda>w. find (\<lambda>l. loc_id l = i) (cw_licenses w))) (\<lambda>found.
     bindc (lift (ok_or (''Falha ao reler licen'' @ u_ccedil @ ''a salva: Query returned no rows'') (map_option license_json found))) (\<lambda>saved.
     bindc (on_tables (on_logs (write_audit (sa_log sy) ''local_licenses'' ''create_trial'' (Some i) (JObj saved)))) (\<lambda>_.
     bindc (on_tables (on_logs (enqueue_sync (sa_log sy) ''local_licenses'' ''create_trial'' (Some i) (JObj saved)))) (\<lambda>_.
     ret saved))))))"

definition licensing_start_trial :: "'g app_sys \<Rightarrow> string \<Rightarrow> int option \<Rightarrow> (json_obj, 'g console_world) cmd" where
  "licensing_start_trial sy session_token empresa_id =
     bindc (on_tables (connect sy)) (\<lambda>_.
     bindc (on_tables (require_session_by_token sy session_token)) (\<lambda>_.
     bindc (on_tables (clock sy)) (\<lambda>now.
     bindc (company_seed sy empresa_id) (\<lambda>(i, documento, nome, _).
     let cnpj = trim documento in
     bindc (ensure (cnpj \<noteq> []) (''A licen'' @ u_ccedil @ ''a de teste exige CNPJ/CPF cadastrado na empresa ativa.'')) (\<lambda>_.
     bindc (trial_license_row sy i) (\<lambda>existing.
     case existing of
       Some row \<Rightarrow> ret (attach_decrypted_payload sy row cnpj)
     | None \<Rightarrow>
         bindc (store_trial sy (new_trial sy i nome cnpj (sa_rfc3339 sy now) (sa_rfc3339 sy (now + days_45)))) (\<lambda>saved.
         ret (attach_decrypted_payload sy saved documento))))))))"

subsection \<open>The device key\<close>

text \<open>C20. The key that identifies the device in the check of a licence is a hash of the name of the application and its instance alone: it is made before anything of the machine is collected, and the collection keeps a key that is there. Every machine, and every company, has the same key.\<close>

theorem device_key_ignores_machine:
  assumes "\<And>t. x_hex (lh_ext h) (x_sha256 (lh_ext h) t) \<noteq> []"
  shows "li_device_key (enrich_input (lh_ext h) os ((build_check_input h settings documento nome email)\<lparr>li_company_document := d\<rparr>)) =
    Some (x_hex (lh_ext h) (x_sha256 (lh_ext h)
      (''tunnara-console|'' @ unwrap_or ''app-template'' (get_string settings ''app_instance'') @ ''|||||||'')))"
  using assms
  by (simp add: build_check_input_def Let_def enrich_input_def enrich_fields_def missing_def generate_device_key_def device_key_parts_def)

subsection \<open>Protected settings\<close>

lemma obj_get_insert: "obj_get (hm_insert k v m) k' = (if k' = k then Some v else obj_get m k')"
  by (simp add: obj_get_def map_of_hm_insert)

lemma mask_keys:
  "obj_get (foldl (\<lambda>m key. if obj_get m key \<noteq> None then hm_insert key v m else m) settings ks) k =
     (if k \<in> set ks \<and> obj_get settings k \<noteq> None then Some v else obj_get settings k)"
  by (induction ks arbitrary: settings) (auto simp: obj_get_insert)

lemma masked: "k \<in> set protected_keys \<Longrightarrow> obj_get settings k \<noteq> None \<Longrightarrow>
    obj_get (mask_protected_settings settings) k = Some (JStr ''[protegido]'')"
  unfolding mask_protected_settings_def
  by (simp only: obj_get_insert mask_keys) (auto simp: protected_keys_def)

definition has_keys :: "string list \<Rightarrow> json_obj \<Rightarrow> bool" where
  "has_keys ks m \<longleftrightarrow> (\<forall>k \<in> set ks. obj_get m k \<noteq> None)"

lemma overlay_keeps: "has_keys ks m \<Longrightarrow> has_keys ks (overlay saved m)"
  unfolding overlay_def
proof (induction saved arbitrary: m)
  case (Cons kv saved)
  have "has_keys ks (hm_insert (fst kv) (snd kv) m)" using Cons.prems by (auto simp: has_keys_def obj_get_insert)
  from Cons.IH [OF this] show ?case by (simp add: split_beta)
qed simp

lemma loaded_settings:
  assumes "load_settings_from_db sy h w = (Ok settings, w')"
  shows "w' = w \<and> has_keys protected_keys settings"
proof -
  have "has_keys protected_keys (default_license_settings sy os)" for os
    by (simp add: has_keys_def protected_keys_def default_license_settings_def)
  with assms show ?thesis
    by (auto simp: load_settings_from_db_def Let_def cw_query_Ok ret_def fail_def overlay_keeps elim!: bindc_OkE
        split: option.splits json.splits)
qed

text \<open>The address of the licence service, the instance of the application and the parameters of the automatic registration are shown as stored only to a master user whose request carries the token of an open administrative session of this user, for licensing or global; every other answer shows a mask in their place.\<close>

theorem settings_shown_after_unlock:
  assumes "licensing_load_settings sy h tok unlock w = (Ok r, w')" and "k \<in> set protected_keys"
    and "obj_get r k \<noteq> Some (JStr ''[protegido]'')"
  shows "\<exists>uid utok s. fst (require_session_by_token sy tok (cw_app w)) = Ok \<lparr>si_user_id = uid, si_master_user = True\<rparr> \<and>
    unlock = Some utok \<and> s \<in> set (db_unlocks (cw_app w)) \<and>
    unlocks uid (trim utok) ''licensing'' (sa_rfc3339 sy (sa_time sy (Suc (aw_reads (cw_app w))))) s"
proof -
  from assms(1) obtain i w1 v settings where ses: "on_tables (require_session_by_token sy tok) w = (Ok i, w1)"
    and l: "load_settings_from_db sy h w1 = (Ok settings, v)"
    and rest: "(case (if si_master_user i then unlock else None) of
       None \<Rightarrow> ret (mask_protected_settings settings)
     | Some token \<Rightarrow> (\<lambda>w.
         case on_tables (require_admin_unlock sy (si_user_id i) token ''licensing'') w of
           (Inr _, w') \<Rightarrow> (Ok settings, w')
         | (Inl _, w') \<Rightarrow> (Ok (mask_protected_settings settings), w'))) v = (Ok r, w')"
    unfolding licensing_load_settings_def by (elim bindc_OkE) (auto simp: on_tables_Ok dest!: connect_Ok)
  from loaded_settings [OF l] assms(2) have v: "v = w1" and "obj_get settings k \<noteq> None" by (auto simp: has_keys_def)
  from masked [OF assms(2) this(2)] assms(3) have "r \<noteq> mask_protected_settings settings" by auto
  with rest obtain utok x w2 where m: "si_master_user i" and u: "unlock = Some utok"
    and req: "on_tables (require_admin_unlock sy (si_user_id i) utok ''licensing'') w1 = (Ok x, w2)"
    by (auto simp: ret_def v split: if_splits option.splits prod.splits sum.splits)
  from req obtain a where "require_admin_unlock sy (si_user_id i) utok ''licensing'' (cw_app w1) = (Ok x, a)" by (auto simp: on_tables_Ok)
  then obtain s where s: "s \<in> set (db_unlocks (cw_app w1))"
    "unlocks (si_user_id i) (trim utok) ''licensing'' (sa_rfc3339 sy (sa_time sy (aw_reads (cw_app w1)))) s"
    by (auto simp: require_admin_unlock_def Let_def ensure_Ok query_Ok clock_text_def clock_def ret_def find_Some_iff exec_Ok
        elim!: bindc_OkE) (metis find_Some_iff nth_mem)
  from ses obtain b where b: "require_session_by_token sy tok (cw_app w) = (Ok i, b)" "cw_app w1 = b" by (auto simp: on_tables_Ok)
  from core_parts [OF session.auth_core [OF b(1)]] session_reads [OF b(1)] s b m u show ?thesis
    by (intro exI [of _ "si_user_id i"] exI [of _ utok] exI [of _ s]) (cases i, auto)
qed

subsection \<open>Trials\<close>

text \<open>The rows of \<^verbatim>\<open>local_licenses\<close> are those of \<open>ls\<close> and, behind them, trials of 45 days.\<close>

definition trial_of :: "'g app_sys \<Rightarrow> local_license \<Rightarrow> bool" where
  "trial_of sy l \<longleftrightarrow> loc_license_kind l = ''trial'' \<and>
     (\<exists>t. loc_issued_at l = sa_rfc3339 sy t \<and> loc_expires_at l = sa_rfc3339 sy (t + days_45))"

definition trials_added :: "'g app_sys \<Rightarrow> local_license list \<Rightarrow> 'g console_world \<Rightarrow> bool" where
  "trials_added sy ls w \<longleftrightarrow>
     distinct (map loc_empresa_id (cw_licenses w)) \<and> (\<exists>new. cw_licenses w = ls @ new \<and> list_all (trial_of sy) new)"

lemma keeps_tables [keeps_intros]: "keeps (trials_added sy ls) (on_tables m)"
  by (auto simp: keeps_def on_tables_def trials_added_def split: prod.splits)

lemma keeps_settings [keeps_intros]:
  "keeps (trials_added sy ls) (load_settings_from_db sy h)" "keeps (trials_added sy ls) (save_settings_to_db sy h m)"
  "keeps (trials_added sy ls) (company_seed sy e)" "keeps (trials_added sy ls) (trial_license_row sy i)"
  "keeps (trials_added sy ls) (connect_logging sy)"
  unfolding load_settings_from_db_def Let_def save_settings_to_db_def company_seed_def trial_license_row_def connect_logging_def
  by (auto intro!: keeps_intros split: option.splits) (auto simp: trials_added_def)

lemma keeps_store_trial [keeps_intros]:
  "keeps (trials_added sy ls) (store_trial sy (new_trial sy i nome cnpj (sa_rfc3339 sy t) (sa_rfc3339 sy (t + days_45))))"
proof -
  have "trials_added sy ls w'" if w: "trials_added sy ls w" and ins: "insert_license sy (new_trial sy i nome cnpj (sa_rfc3339 sy t) (sa_rfc3339 sy (t + days_45))) w = Ok w'" for w w'
  proof -
    let ?l = "new_trial sy i nome cnpj (sa_rfc3339 sy t) (sa_rfc3339 sy (t + days_45)) (next_key ''local_licenses'' (cw_app w))"
    from ins have l: "cw_licenses w' = cw_licenses w @ [?l]" "loc_empresa_id ?l \<notin> set (map loc_empresa_id (cw_licenses w))"
      by (auto simp: insert_license_def Let_def split: if_splits)
    have "trial_of sy ?l" by (auto simp: trial_of_def new_trial_def Let_def)
    with w l show ?thesis by (auto simp: trials_added_def)
  qed
  then show ?thesis
    unfolding store_trial_def by (intro keeps_intros) (auto simp: keeps_def)
qed

text \<open>The check of the licence changes the console only in \<open>runtime_state\<close>.\<close>

lemma check_runtime_console:
  "licensing_check_runtime sy h fuel tok e w s = Some (r, w', s') \<Longrightarrow> w' = snd (runtime_state sy h tok e w)"
  by (auto simp: licensing_check_runtime_def split: prod.splits sum.splits if_splits)

datatype license_op =
    StartTrial string "int option"
  | CheckLicense string "int option"
  | LicenseStatus string "int option"
  | LoadLicense string "string option"
  | SaveLicense string string json_obj
  | DeviceInfo string

fun run_license :: "'g app_sys \<Rightarrow> 's license_host \<Rightarrow> license_op \<Rightarrow> 'g console_world \<Rightarrow> 'g console_world" where
  "run_license sy h (StartTrial tok e) w = snd (licensing_start_trial sy tok e w)"
| "run_license sy h (CheckLicense tok e) w = snd (runtime_state sy h tok e w)"
| "run_license sy h (LicenseStatus tok e) w = snd (licensing_status sy h tok e w)"
| "run_license sy h (LoadLicense tok unlock) w = snd (licensing_load_settings sy h tok unlock w)"
| "run_license sy h (SaveLicense tok unlock payload) w = snd (licensing_save_settings sy h tok unlock payload w)"
| "run_license sy h (DeviceInfo tok) w = snd (licensing_device_info sy h tok w)"

lemma keeps_license_commands:
  "keeps (trials_added sy ls) (licensing_start_trial sy tok e)" "keeps (trials_added sy ls) (licensing_status sy h tok e)"
  "keeps (trials_added sy ls) (licensing_load_settings sy h tok unlock)"
  "keeps (trials_added sy ls) (licensing_save_settings sy h tok ut payload)" "keeps (trials_added sy ls) (licensing_device_info sy h tok)"
  "keeps (trials_added sy ls) (runtime_state sy h tok e)"
proof -
  show "keeps (trials_added sy ls) (runtime_state sy h tok e)"
    unfolding runtime_state_def by (intro keeps_intros)
  show "keeps (trials_added sy ls) (licensing_start_trial sy tok e)"
    unfolding licensing_start_trial_def Let_def by (auto intro!: keeps_intros split: option.splits)
  show "keeps (trials_added sy ls) (licensing_status sy h tok e)"
    unfolding licensing_status_def by (intro keeps_intros)
  show "keeps (trials_added sy ls) (licensing_save_settings sy h tok ut payload)"
    unfolding licensing_save_settings_def Let_def by (intro keeps_intros)
  show "keeps (trials_added sy ls) (licensing_device_info sy h tok)"
    unfolding licensing_device_info_def by (intro keeps_intros)
  have "keeps (trials_added sy ls) (\<lambda>w. case on_tables m w of (Inr _, w') \<Rightarrow> (Ok a, w') | (Inl _, w') \<Rightarrow> (Ok b, w'))"
    for m :: "(unit, 'a app_world) cmd" and a b :: json_obj
    using keeps_tables [of sy ls m] by (auto simp: keeps_def split: prod.splits sum.splits)
  then show "keeps (trials_added sy ls) (licensing_load_settings sy h tok unlock)"
    unfolding licensing_load_settings_def by (auto intro!: keeps_intros split: option.splits)
qed

text \<open>C21. Along every sequence of licensing commands a company has at most one local licence, a licence once stored is never changed, extended or removed, and every new one is a trial that ends 45 days after it was issued.\<close>

theorem trials_final:
  assumes "distinct (map loc_empresa_id (cw_licenses w))"
  shows "distinct (map loc_empresa_id (cw_licenses (fold (run_license sy h) ops w))) \<and>
    (\<exists>new. cw_licenses (fold (run_license sy h) ops w) = cw_licenses w @ new \<and> list_all (trial_of sy) new)"
proof -
  have step: "trials_added sy ls (run_license sy h op v)" if "trials_added sy ls v" for ls op v
    using that by (cases op) (simp_all add: keeps_license_commands [unfolded keeps_def, rule_format])
  have "trials_added sy (cw_licenses w) (fold (run_license sy h) ops v)" if "trials_added sy (cw_licenses w) v" for v
    using that by (induction ops arbitrary: v) (simp_all add: step)
  moreover have "trials_added sy (cw_licenses w) w" using assms by (simp add: trials_added_def)
  ultimately show ?thesis by (auto simp: trials_added_def)
qed

subsection \<open>The trial and the check\<close>

text \<open>What the front end decides on: whether the program may run, and the decision.\<close>

definition runtime_verdict :: "(json_obj, string) result \<Rightarrow> (json option \<times> json option, string) result" where
  "runtime_verdict r = and_then r (\<lambda>m. Ok (obj_get m ''allowed'', obj_get m ''decision''))"

definition without_licenses :: "'g console_world \<Rightarrow> 'g console_world" where
  "without_licenses w = w\<lparr>cw_licenses := []\<rparr>"

definition blind :: "('a, 'g console_world) cmd \<Rightarrow> bool" where
  "blind m \<longleftrightarrow> (\<forall>w ls. m (w\<lparr>cw_licenses := ls\<rparr>) = (case m w of (r, w') \<Rightarrow> (r, w'\<lparr>cw_licenses := ls\<rparr>)))"

lemma blind_steps:
  "blind (on_tables m)" "blind (load_settings_from_db sy h)" "blind (company_seed sy e)"
proof -
  show tables: "blind (on_tables m)" for m :: "('x, 'g app_world) cmd"
    by (simp add: blind_def on_tables_def split: prod.splits)
  show "blind (load_settings_from_db sy h)"
    by (auto simp: blind_def load_settings_from_db_def Let_def bindc_def cw_query_def ret_def fail_def split: option.splits prod.splits sum.splits)
  show "blind (company_seed sy e)"
    by (auto simp: blind_def company_seed_def bindc_def on_tables_def query_def lift_def split: option.splits prod.splits sum.splits)
qed

lemma blind_run:
  assumes "blind m" and "m w = (r, w')"
  shows "m (w\<lparr>cw_licenses := ls\<rparr>) = (r, w'\<lparr>cw_licenses := ls\<rparr>)"
  using assms by (simp add: blind_def)

lemma runtime_state_blind:
  "(\<exists>e w1 w2. runtime_state sy h tok eid w = (Err e, w1) \<and> runtime_state sy h tok eid (w\<lparr>cw_licenses := ls\<rparr>) = (Err e, w2)) \<or>
   (\<exists>settings seed l1 l2 w1 w2. runtime_state sy h tok eid w = (Ok (settings, seed, license_header sy settings seed @ [(''local_license'', l1)]), w1) \<and>
      runtime_state sy h tok eid (w\<lparr>cw_licenses := ls\<rparr>) = (Ok (settings, seed, license_header sy settings seed @ [(''local_license'', l2)]), w2))"
proof -
  define pre where "pre = bindc (on_tables (connect sy)) (\<lambda>_. bindc (on_tables (require_session_by_token sy tok)) (\<lambda>_.
     bindc (load_settings_from_db sy h) (\<lambda>settings. bindc (company_seed sy eid) (\<lambda>seed. ret (settings, seed)))))"
  have split: "runtime_state sy h tok eid = bindc pre (\<lambda>(settings, seed). bindc (trial_license_row sy (fst seed)) (\<lambda>row.
     ret (settings, seed, license_header sy settings seed @ [(''local_license'', local_license_json sy row (fst (snd seed)))])))"
    by (simp add: pre_def runtime_state_def bindc_assoc)
  have "blind pre"
    unfolding pre_def blind_def
    by (auto simp: bindc_def ret_def blind_run [OF blind_steps(1)] blind_run [OF blind_steps(2)] blind_run [OF blind_steps(3)] split: prod.splits sum.splits)
  then show ?thesis
    by (cases "pre w") (auto simp: split bindc_def blind_run [OF \<open>blind pre\<close>] trial_license_row_def cw_query_def ret_def split: sum.splits option.splits prod.splits)
qed

text \<open>The local trial licence plays no part in the check at run time: whatever the table of local licences holds, the check sends the same requests and gives the same verdict.\<close>

theorem trial_not_checked:
  "map_option (\<lambda>(r, _, s'). (runtime_verdict r, s')) (licensing_check_runtime sy h fuel tok eid (w\<lparr>cw_licenses := ls\<rparr>) s) =
   map_option (\<lambda>(r, _, s'). (runtime_verdict r, s')) (licensing_check_runtime sy h fuel tok eid w s)"
  using runtime_state_blind [of sy h tok eid w ls]
proof (elim disjE exE conjE)
  fix settings seed l1 l2 w1 w2
  assume a: "runtime_state sy h tok eid w = (Ok (settings, seed, license_header sy settings seed @ [(''local_license'', l1)]), w1)"
    "runtime_state sy h tok eid (w\<lparr>cw_licenses := ls\<rparr>) = (Ok (settings, seed, license_header sy settings seed @ [(''local_license'', l2)]), w2)"
  obtain i documento nome email where seed: "seed = (i, documento, nome, email)" by (cases seed) auto
  let ?result = "\<lambda>l. license_header sy settings seed @ [(''local_license'', l)]"
  have same: "runtime_verdict (Ok (license_header sy settings seed @ (''local_license'', l2) # rest)) =
      runtime_verdict (Ok (license_header sy settings seed @ (''local_license'', l1) # rest))" for rest
    by (simp add: runtime_verdict_def seed license_header_def)
  have decided: "runtime_verdict (decided h (?result l2) r) = runtime_verdict (decided h (?result l1) r)" for r
  proof (cases r)
    case (Inr d)
    then show ?thesis using same by (cases "lh_decision_json h d") (simp_all add: decided_def)
  qed (simp add: decided_def)
  from a show ?thesis
    unfolding licensing_check_runtime_def
    by (simp add: seed option.map_comp comp_def split_beta same [unfolded seed] decided [unfolded seed])
qed (auto simp: licensing_check_runtime_def runtime_verdict_def)

subsection \<open>A small licensed installation\<close>

definition demo_host :: "unit license_host" where
  "demo_host =
     \<lparr>lh_ext = demo_server JNull, lh_os = demo_os, lh_version = ''1'', lh_sql_now = ''now'',
      lh_decision_json = (\<lambda>_. Ok JNull)\<rparr>"

theorem device_key_ignores_machine_witness:
  "li_device_key (enrich_input (lh_ext demo_host) (demo_os\<lparr>os_fs := (\<lambda>_. Contents ''id'')\<rparr>)
     ((build_check_input demo_host [] ''1'' ''E'' None)\<lparr>li_company_document := ''1''\<rparr>)) = Some ''htunnara-console|app-template|||||||''"
proof -
  have "x_hex (lh_ext demo_host) (x_sha256 (lh_ext demo_host) t) \<noteq> []" for t by (simp add: demo_host_def demo_server_def)
  from device_key_ignores_machine [of demo_host, OF this, of "demo_os\<lparr>os_fs := (\<lambda>_. Contents ''id'')\<rparr>" "''1''" "[]" "''1''" "''E''" None]
  show ?thesis by (simp add: get_string_def demo_host_def demo_server_def)
qed

definition open_console :: "unit console_world" where
  "open_console = guarded_console\<lparr>cw_app := master_world\<lparr>db_unlocks :=
     [\<lparr>ul_usuario_id = 1, ul_scope = ''licensing'', ul_unlock_token = ''0'', ul_expires_at = replicate 9 CHR ''1'',
       ul_created_at = [], ul_last_used_at = None\<rparr>]\<rparr>\<rparr>"

lemma demo_unlocked:
  "\<exists>r w'. licensing_load_settings demo_app_sys demo_host ''0'' (Some ''0'') open_console = (Ok r, w') \<and>
     obj_get r ''app_instance'' = Some (JStr ''app-template'')"
proof -
  let ?n = "replicate 5 CHR ''1''"
  let ?w = "cw_app open_console"
  let ?a = "?w\<lparr>aw_reads := Suc (aw_reads ?w), db_sessions := map (touch_session ''0'' ?n) (db_sessions ?w)\<rparr>"
  have s: "require_session_by_token demo_app_sys ''0'' ?w = (Ok \<lparr>si_user_id = 1, si_master_user = True\<rparr>, ?a)"
    by (simp add: open_console_def require_session_by_token_def Let_def trim_zero bindc_def demo_clock demo_query demo_exec
      session_rows_def ensure_def ret_def master_world_def demo_app_world_def demo_user_def replicate_less)
  have l: "load_settings_from_db demo_app_sys demo_host w = (Ok (default_license_settings demo_app_sys demo_os), w)"
    if "cw_configuracoes w = Map.empty" for w :: "unit console_world"
    using that by (simp add: load_settings_from_db_def Let_def bindc_def demo_cw ret_def demo_host_def)
  have u: "\<exists>b. require_admin_unlock demo_app_sys 1 ''0'' ''licensing'' ?a = (Ok (), b)"
    by (simp add: require_admin_unlock_def Let_def trim_zero bindc_def ensure_def ret_def demo_clock demo_query demo_exec unlocks_def
        open_console_def replicate_less)
  have "cw_configuracoes (open_console\<lparr>cw_app := ?a\<rparr>) = Map.empty" by (simp add: open_console_def guarded_console_def new_console_def)
  with u s show ?thesis
    by (auto simp: licensing_load_settings_def bindc_def on_tables_def demo_connect l default_license_settings_def)
qed

theorem settings_shown_after_unlock_witness:
  "\<exists>r w' s. licensing_load_settings demo_app_sys demo_host ''0'' (Some ''0'') open_console = (Ok r, w') \<and>
     s \<in> set (db_unlocks (cw_app open_console)) \<and> ul_scope s \<in> {''licensing'', ''global''} \<and> ul_usuario_id s = 1"
proof -
  obtain r w' where l: "licensing_load_settings demo_app_sys demo_host ''0'' (Some ''0'') open_console = (Ok r, w')"
    and r: "obj_get r ''app_instance'' = Some (JStr ''app-template'')" using demo_unlocked by blast
  have "''app_instance'' \<in> set protected_keys" by (simp add: protected_keys_def)
  from settings_shown_after_unlock [OF l this] r obtain uid utok s
    where "s \<in> set (db_unlocks (cw_app open_console))" "unlocks uid (trim utok) ''licensing'' (sa_rfc3339 demo_app_sys (sa_time demo_app_sys (Suc (aw_reads (cw_app open_console))))) s"
    by auto
  with l show ?thesis by (auto simp: unlocks_def open_console_def)
qed

theorem trials_final_witness:
  "distinct (map loc_empresa_id (cw_licenses (fold (run_license demo_app_sys demo_host) [StartTrial ''0'' None, StartTrial ''0'' (Some 1)] open_console)))"
  using trials_final [of open_console demo_app_sys demo_host "[StartTrial ''0'' None, StartTrial ''0'' (Some 1)]"]
  by (simp add: open_console_def guarded_console_def new_console_def)

end
