(* ===== verification/External_Db.thy ===== *)
theory External_Db
  imports Migrations Entities
begin

text \<open>
  The databases that are not SQLite: the providers of MySQL/MariaDB (\<^verbatim>\<open>core/database/mysql.rs\<close>) and of
  PostgreSQL (\<^verbatim>\<open>core/database/postgres.rs\<close>) with the schemas they create, the refusals for Firebird
  (\<^verbatim>\<open>core/database/firebird.rs\<close>) and the functions over all four drivers: \<^verbatim>\<open>core/database/health.rs\<close>,
  \<^verbatim>\<open>core/database/migrations.rs\<close> and \<^verbatim>\<open>core/database/connection.rs\<close>. The crates \<^verbatim>\<open>mysql\<close> and \<^verbatim>\<open>postgres\<close>
  are parameters. Either provider is compiled in with a Cargo feature, which is a flag here; without it
  every operation answers an error. Texts are valid UTF-8, and a floating-point number is the JSON number
  it is turned into.
\<close>

definition labelled :: "string \<Rightarrow> ('a, 'd) cmd \<Rightarrow> ('a, 'd) cmd" where
  "labelled msg m d = mapped (\<lambda>err. msg @ '': '' @ err) id (m d)"

subsection \<open>Where a database is\<close>

text \<open>The Rust types of the two drivers have the same fields.\<close>

record connection_info =
  ci_host :: string
  ci_port :: "16 word"
  ci_database :: string
  ci_username :: string
  ci_password_configured :: bool

definition connection_info_or ::
  "database_driver \<Rightarrow> string \<Rightarrow> 16 word \<Rightarrow> string \<Rightarrow> string \<Rightarrow> database_config \<Rightarrow> (connection_info, string) result" where
  "connection_info_or driver wrong_driver port missing user config =
     (if dc_driver config \<noteq> driver then Err wrong_driver
      else and_then (ok_or missing (dc_database config)) (\<lambda>database.
        Ok \<lparr>ci_host = unwrap_or ''127.0.0.1'' (dc_host config), ci_port = unwrap_or port (dc_port config),
            ci_database = database, ci_username = unwrap_or user (dc_username config),
            ci_password_configured = (case dc_password config of None \<Rightarrow> False | Some p \<Rightarrow> p \<noteq> [])\<rparr>))"

definition mysql_connection_info :: "database_config \<Rightarrow> (connection_info, string) result" where
  "mysql_connection_info config =
     connection_info_or Mysql ((''Driver informado n'' @ u_atilde @ ''o '' @ u_eacute @ '' MySQL/MariaDB.'')) 3306 ((''Banco MySQL n'' @ u_atilde @ ''o informado.''))
       ''root'' config"

definition postgres_connection_info :: "database_config \<Rightarrow> (connection_info, string) result" where
  "postgres_connection_info config =
     connection_info_or Postgres ((''Driver informado n'' @ u_atilde @ ''o '' @ u_eacute @ '' PostgreSQL.'')) 5432 ((''Banco PostgreSQL n'' @ u_atilde @ ''o informado.''))
       ''postgres'' config"

definition urlencoding :: "string \<Rightarrow> string" where
  "urlencoding s = replace (replace (replace (replace s ''@'' ''%40'') '':'' ''%3A'') ''/'' ''%2F'') ''#'' ''%23''"

definition connection_url :: "database_config \<Rightarrow> (string, string) result" where
  "connection_url config =
     and_then (mysql_connection_info config) (\<lambda>info.
     Ok (''mysql://'' @ urlencoding (ci_username info) @ '':'' @ urlencoding (unwrap_or [] (dc_password config)) @ ''@'' @
       ci_host info @ '':'' @ show_word (ci_port info) @ ''/'' @ ci_database info))"

definition connection_string :: "database_config \<Rightarrow> (string, string) result" where
  "connection_string config =
     and_then (postgres_connection_info config) (\<lambda>info.
     Ok (join '' ''
       ([''host='' @ ci_host info, ''port='' @ show_word (ci_port info), ''dbname='' @ ci_database info,
         ''user='' @ ci_username info] @
        (case opt_filter (\<lambda>p. p \<noteq> []) (dc_password config) of None \<Rightarrow> [] | Some p \<Rightarrow> [''password='' @ p]))))"

subsection \<open>The schemas\<close>

text \<open>
  A table with its columns, each with the text that declares it; an index as whether it is unique, its
  name, its table and the text of its columns. The table groups are those of the schema of SQLite.
\<close>

type_synonym external_table = "string \<times> (string \<times> string) list"

definition quoted :: "string \<Rightarrow> string" where
  "quoted s = CHR 0x27 # s @ [CHR 0x27]"

definition create_table_text :: "external_table \<Rightarrow> string" where
  "create_table_text t =
     ''CREATE TABLE IF NOT EXISTS '' @ fst t @ '' ('' @ join '', '' (map (\<lambda>(c, d). c @ '' '' @ d) (snd t)) @ '')''"

definition create_index_text :: "string \<Rightarrow> bool \<times> string \<times> string \<times> string \<Rightarrow> string" where
  "create_index_text exists i =
     (case i of (unique, name, table, columns) \<Rightarrow>
        ''CREATE '' @ (if unique then ''UNIQUE '' else []) @ ''INDEX '' @ exists @ name @ '' ON '' @ table @ ''('' @ columns @ '')'')"

definition mysql_access_tables :: "external_table list" where
  "mysql_access_tables =
   [(''empresas'',
      [(''id'', ''BIGINT PRIMARY KEY AUTO_INCREMENT''), (''nome'', ''VARCHAR(255) NOT NULL''),
       (''nome_fantasia'', ''VARCHAR(255)''), (''documento'', ''VARCHAR(32)''),
       (''inscricao_estadual'', ''VARCHAR(64)''), (''inscricao_municipal'', ''VARCHAR(64)''),
       (''telefone'', ''VARCHAR(64)''), (''email'', ''VARCHAR(255)''), (''responsavel_nome'', ''VARCHAR(255)''),
       (''responsavel_telefone'', ''VARCHAR(64)''), (''cep'', ''VARCHAR(32)''), (''endereco'', ''TEXT''),
       (''numero'', ''VARCHAR(32)''), (''complemento'', ''VARCHAR(255)''), (''bairro'', ''VARCHAR(120)''),
       (''cidade'', ''VARCHAR(120)''), (''estado'', ''VARCHAR(32)''), (''observacoes'', ''TEXT''),
       (''ativo'', ''TINYINT NOT NULL DEFAULT 1''), (''created_at'', ''VARCHAR(40) NOT NULL''),
       (''updated_at'', ''VARCHAR(40) NOT NULL'')]),
    (''usuarios'',
      [(''id'', ''BIGINT PRIMARY KEY AUTO_INCREMENT''), (''nome'', ''VARCHAR(255) NOT NULL''),
       (''login'', ''VARCHAR(120) NOT NULL UNIQUE''), (''email'', ''VARCHAR(255)''), (''telefone'', ''VARCHAR(64)''),
       (''cargo'', ''VARCHAR(120)''), (''observacoes'', ''TEXT''), (''senha_hash'', ''TEXT NOT NULL''),
       (''master_user'', ''TINYINT NOT NULL DEFAULT 0''), (''administrador'', ''TINYINT NOT NULL DEFAULT 0''),
       (''senha_provisoria'', ''TINYINT NOT NULL DEFAULT 0''), (''ultimo_login_em'', ''VARCHAR(40)''),
       (''ativo'', ''TINYINT NOT NULL DEFAULT 1''), (''created_at'', ''VARCHAR(40) NOT NULL''),
       (''updated_at'', ''VARCHAR(40) NOT NULL'')]),
    (''perfis_acesso'',
      [(''id'', ''BIGINT PRIMARY KEY AUTO_INCREMENT''), (''nome'', ''VARCHAR(160) NOT NULL UNIQUE''),
       (''descricao'', ''TEXT''), (''perfil_master'', ''TINYINT NOT NULL DEFAULT 0''),
       (''ativo'', ''TINYINT NOT NULL DEFAULT 1''), (''created_at'', ''VARCHAR(40) NOT NULL''),
       (''updated_at'', ''VARCHAR(40) NOT NULL'')]),
    (''perfis_permissoes'',
      [(''id'', ''BIGINT PRIMARY KEY AUTO_INCREMENT''), (''perfil_id'', ''BIGINT NOT NULL''),
       (''permissao_chave'', ''VARCHAR(190) NOT NULL''), (''created_at'', ''VARCHAR(40) NOT NULL'')]),
    (''usuarios_perfis'',
      [(''id'', ''BIGINT PRIMARY KEY AUTO_INCREMENT''), (''usuario_id'', ''BIGINT NOT NULL''),
       (''perfil_id'', ''BIGINT NOT NULL''), (''created_at'', ''VARCHAR(40) NOT NULL'')]),
    (''usuarios_empresas'',
      [(''id'', ''BIGINT PRIMARY KEY AUTO_INCREMENT''), (''usuario_id'', ''BIGINT NOT NULL''),
       (''empresa_id'', ''BIGINT NOT NULL''), (''created_at'', ''VARCHAR(40) NOT NULL'')]),
    (''user_sessions'',
      [(''id'', ''BIGINT PRIMARY KEY AUTO_INCREMENT''), (''usuario_id'', ''BIGINT NOT NULL''),
       (''session_token'', ''VARCHAR(190) NOT NULL UNIQUE''), (''created_at'', ''VARCHAR(40) NOT NULL''),
       (''expires_at'', ''VARCHAR(40) NOT NULL''), (''last_activity_at'', ''VARCHAR(40) NOT NULL'')])]"

definition mysql_master_tables :: "external_table list" where
  "mysql_master_tables =
   [(''departamentos'',
      [(''id'', ''BIGINT PRIMARY KEY AUTO_INCREMENT''), (''descricao'', ''VARCHAR(255) NOT NULL''),
       (''ativo'', ''TINYINT NOT NULL DEFAULT 1''), (''created_at'', ''VARCHAR(40) NOT NULL''),
       (''updated_at'', ''VARCHAR(40) NOT NULL'')]),
    (''funcoes'',
      [(''id'', ''BIGINT PRIMARY KEY AUTO_INCREMENT''), (''descricao'', ''VARCHAR(255) NOT NULL''),
       (''ativo'', ''TINYINT NOT NULL DEFAULT 1''), (''created_at'', ''VARCHAR(40) NOT NULL''),
       (''updated_at'', ''VARCHAR(40) NOT NULL'')]),
    (''centro_custos'',
      [(''id'', ''BIGINT PRIMARY KEY AUTO_INCREMENT''), (''codigo'', ''VARCHAR(80)''),
       (''descricao'', ''VARCHAR(255) NOT NULL''), (''ativo'', ''TINYINT NOT NULL DEFAULT 1''),
       (''created_at'', ''VARCHAR(40) NOT NULL''), (''updated_at'', ''VARCHAR(40) NOT NULL'')]),
    (''clientes'',
      [(''id'', ''BIGINT PRIMARY KEY AUTO_INCREMENT''), (''nome'', ''VARCHAR(255) NOT NULL''),
       (''documento'', ''VARCHAR(32)''), (''telefone'', ''VARCHAR(64)''), (''email'', ''VARCHAR(255)''),
       (''endereco'', ''TEXT''), (''cidade'', ''VARCHAR(120)''), (''estado'', ''VARCHAR(32)''),
       (''observacoes'', ''TEXT''), (''ativo'', ''TINYINT NOT NULL DEFAULT 1''),
       (''created_at'', ''VARCHAR(40) NOT NULL''), (''updated_at'', ''VARCHAR(40) NOT NULL'')]),
    (''fornecedores'',
      [(''id'', ''BIGINT PRIMARY KEY AUTO_INCREMENT''), (''nome'', ''VARCHAR(255) NOT NULL''),
       (''documento'', ''VARCHAR(32)''), (''telefone'', ''VARCHAR(64)''), (''email'', ''VARCHAR(255)''),
       (''endereco'', ''TEXT''), (''cidade'', ''VARCHAR(120)''), (''estado'', ''VARCHAR(32)''),
       (''observacoes'', ''TEXT''), (''ativo'', ''TINYINT NOT NULL DEFAULT 1''),
       (''created_at'', ''VARCHAR(40) NOT NULL''), (''updated_at'', ''VARCHAR(40) NOT NULL'')]),
    (''produtos'',
      [(''id'', ''BIGINT PRIMARY KEY AUTO_INCREMENT''), (''codigo'', ''VARCHAR(80)''),
       (''descricao'', ''VARCHAR(255) NOT NULL''), (''tipo'', ''VARCHAR(80)''), (''unidade'', ''VARCHAR(32)''),
       (''valor'', ''DECIMAL(15,4) NOT NULL DEFAULT 0''), (''ativo'', ''TINYINT NOT NULL DEFAULT 1''),
       (''created_at'', ''VARCHAR(40) NOT NULL''), (''updated_at'', ''VARCHAR(40) NOT NULL'')])]"

definition mysql_system_tables :: "external_table list" where
  "mysql_system_tables =
   [(''audit_logs'',
      [(''id'', ''BIGINT PRIMARY KEY AUTO_INCREMENT''), (''entity_name'', ''VARCHAR(120) NOT NULL''),
       (''action_name'', ''VARCHAR(80) NOT NULL''), (''record_id'', ''BIGINT''), (''payload_json'', ''TEXT''),
       (''created_at'', ''VARCHAR(40) NOT NULL'')]),
    (''sync_queue'',
      [(''id'', ''BIGINT PRIMARY KEY AUTO_INCREMENT''), (''entity_name'', ''VARCHAR(120) NOT NULL''),
       (''action_name'', ''VARCHAR(80) NOT NULL''), (''record_id'', ''BIGINT''), (''payload_json'', ''TEXT''),
       (''status'', (''VARCHAR(40) NOT NULL DEFAULT '' @ quoted ''pending'')),
       (''created_at'', ''VARCHAR(40) NOT NULL''), (''updated_at'', ''VARCHAR(40) NOT NULL'')]),
    (''app_settings'',
      [(''chave'', ''VARCHAR(190) PRIMARY KEY''), (''valor'', ''TEXT''), (''created_at'', ''VARCHAR(40) NOT NULL''),
       (''updated_at'', ''VARCHAR(40) NOT NULL'')]),
    (''app_logs'',
      [(''id'', ''BIGINT PRIMARY KEY AUTO_INCREMENT''), (''level'', ''VARCHAR(40) NOT NULL''),
       (''category'', ''VARCHAR(120) NOT NULL''), (''message'', ''TEXT NOT NULL''), (''source'', ''VARCHAR(255)''),
       (''route'', ''VARCHAR(255)''), (''details_json'', ''TEXT''), (''created_at'', ''VARCHAR(40) NOT NULL'')]),
    (''admin_guard'',
      [(''id'', ''BIGINT PRIMARY KEY''), (''support_secret_hash'', ''TEXT''), (''totp_secret_encrypted'', ''TEXT''),
       (''totp_enabled'', ''TINYINT NOT NULL DEFAULT 0''), (''recovery_codes_encrypted'', ''TEXT''),
       (''licensing_protected'', ''TINYINT NOT NULL DEFAULT 1''),
       (''white_label_protected'', ''TINYINT NOT NULL DEFAULT 1''), (''created_at'', ''VARCHAR(40) NOT NULL''),
       (''updated_at'', ''VARCHAR(40) NOT NULL''), (''last_rotated_at'', ''VARCHAR(40)'')]),
    (''admin_unlock_sessions'',
      [(''id'', ''BIGINT PRIMARY KEY AUTO_INCREMENT''), (''usuario_id'', ''BIGINT NOT NULL''),
       (''scope'', ''VARCHAR(120) NOT NULL''), (''unlock_token'', ''VARCHAR(190) NOT NULL UNIQUE''),
       (''expires_at'', ''VARCHAR(40) NOT NULL''), (''created_at'', ''VARCHAR(40) NOT NULL''),
       (''last_used_at'', ''VARCHAR(40)'')]),
    (''local_licenses'',
      [(''id'', ''BIGINT PRIMARY KEY AUTO_INCREMENT''), (''empresa_id'', ''BIGINT NOT NULL''),
       (''cnpj'', ''VARCHAR(32) NOT NULL''), (''license_kind'', ''VARCHAR(80) NOT NULL''),
       (''status'', (''VARCHAR(40) NOT NULL DEFAULT '' @ quoted ''active'')),
       (''issued_at'', ''VARCHAR(40) NOT NULL''), (''expires_at'', ''VARCHAR(40) NOT NULL''),
       (''fingerprint'', ''TEXT''), (''payload_encrypted'', ''TEXT''), (''integrity_hash'', ''TEXT''),
       (''created_at'', ''VARCHAR(40) NOT NULL''), (''updated_at'', ''VARCHAR(40) NOT NULL'')]),
    (''feature_flags'',
      [(''chave'', ''VARCHAR(190) PRIMARY KEY''), (''ativo'', ''TINYINT NOT NULL DEFAULT 1''),
       (''descricao'', ''TEXT''), (''created_at'', ''VARCHAR(40) NOT NULL''),
       (''updated_at'', ''VARCHAR(40) NOT NULL'')]),
    (''integration_configs'',
      [(''id'', ''BIGINT PRIMARY KEY AUTO_INCREMENT''), (''nome'', ''VARCHAR(255) NOT NULL''),
       (''tipo'', (''VARCHAR(40) NOT NULL DEFAULT '' @ quoted ''rest'')), (''base_url'', ''TEXT NOT NULL''),
       (''metodo_padrao'', (''VARCHAR(16) NOT NULL DEFAULT '' @ quoted ''GET'')), (''headers_json'', ''TEXT''),
       (''token_encrypted'', ''TEXT''), (''ambiente'', (''VARCHAR(80) NOT NULL DEFAULT '' @ quoted ''production'')),
       (''status'', (''VARCHAR(40) NOT NULL DEFAULT '' @ quoted ''inactive'')),
       (''timeout_seconds'', ''INT NOT NULL DEFAULT 30''), (''retry_attempts'', ''INT NOT NULL DEFAULT 0''),
       (''ultimo_erro'', ''TEXT''), (''ultima_execucao_em'', ''VARCHAR(40)''),
       (''ativo'', ''TINYINT NOT NULL DEFAULT 1''), (''created_at'', ''VARCHAR(40) NOT NULL''),
       (''updated_at'', ''VARCHAR(40) NOT NULL'')]),
    (''integration_logs'',
      [(''id'', ''BIGINT PRIMARY KEY AUTO_INCREMENT''), (''integration_id'', ''BIGINT''),
       (''method'', ''VARCHAR(16)''), (''url'', ''TEXT''), (''request_headers_json'', ''TEXT''),
       (''status_code'', ''INT''), (''success'', ''TINYINT NOT NULL DEFAULT 0''), (''duration_ms'', ''BIGINT''),
       (''error_message'', ''TEXT''), (''created_at'', ''VARCHAR(40) NOT NULL'')]),
    (''api_tokens'',
      [(''id'', ''BIGINT PRIMARY KEY AUTO_INCREMENT''), (''nome'', ''VARCHAR(255) NOT NULL''),
       (''token_hash'', ''TEXT NOT NULL''), (''escopo'', ''TEXT''), (''ativo'', ''TINYINT NOT NULL DEFAULT 1''),
       (''expires_at'', ''VARCHAR(40)''), (''created_at'', ''VARCHAR(40) NOT NULL''),
       (''updated_at'', ''VARCHAR(40) NOT NULL'')]),
    (''configuracoes'',
      [(''nome'', ''VARCHAR(190) PRIMARY KEY''), (''valor'', ''TEXT''), (''updated_at'', ''VARCHAR(40) NOT NULL'')])]"


definition postgres_access_tables :: "external_table list" where
  "postgres_access_tables =
   [(''empresas'',
      [(''id'', ''BIGSERIAL PRIMARY KEY''), (''nome'', ''VARCHAR(255) NOT NULL''),
       (''nome_fantasia'', ''VARCHAR(255)''), (''documento'', ''VARCHAR(32)''),
       (''inscricao_estadual'', ''VARCHAR(64)''), (''inscricao_municipal'', ''VARCHAR(64)''),
       (''telefone'', ''VARCHAR(64)''), (''email'', ''VARCHAR(255)''), (''responsavel_nome'', ''VARCHAR(255)''),
       (''responsavel_telefone'', ''VARCHAR(64)''), (''cep'', ''VARCHAR(32)''), (''endereco'', ''TEXT''),
       (''numero'', ''VARCHAR(32)''), (''complemento'', ''VARCHAR(255)''), (''bairro'', ''VARCHAR(120)''),
       (''cidade'', ''VARCHAR(120)''), (''estado'', ''VARCHAR(32)''), (''observacoes'', ''TEXT''),
       (''ativo'', ''BOOLEAN NOT NULL DEFAULT TRUE''), (''created_at'', ''VARCHAR(40) NOT NULL''),
       (''updated_at'', ''VARCHAR(40) NOT NULL'')]),
    (''usuarios'',
      [(''id'', ''BIGSERIAL PRIMARY KEY''), (''nome'', ''VARCHAR(255) NOT NULL''),
       (''login'', ''VARCHAR(120) NOT NULL UNIQUE''), (''email'', ''VARCHAR(255)''), (''telefone'', ''VARCHAR(64)''),
       (''cargo'', ''VARCHAR(120)''), (''observacoes'', ''TEXT''), (''senha_hash'', ''TEXT NOT NULL''),
       (''master_user'', ''BOOLEAN NOT NULL DEFAULT FALSE''), (''administrador'', ''BOOLEAN NOT NULL DEFAULT FALSE''),
       (''senha_provisoria'', ''BOOLEAN NOT NULL DEFAULT FALSE''), (''ultimo_login_em'', ''VARCHAR(40)''),
       (''ativo'', ''BOOLEAN NOT NULL DEFAULT TRUE''), (''created_at'', ''VARCHAR(40) NOT NULL''),
       (''updated_at'', ''VARCHAR(40) NOT NULL'')]),
    (''perfis_acesso'',
      [(''id'', ''BIGSERIAL PRIMARY KEY''), (''nome'', ''VARCHAR(160) NOT NULL UNIQUE''), (''descricao'', ''TEXT''),
       (''perfil_master'', ''BOOLEAN NOT NULL DEFAULT FALSE''), (''ativo'', ''BOOLEAN NOT NULL DEFAULT TRUE''),
       (''created_at'', ''VARCHAR(40) NOT NULL''), (''updated_at'', ''VARCHAR(40) NOT NULL'')]),
    (''perfis_permissoes'',
      [(''id'', ''BIGSERIAL PRIMARY KEY''), (''perfil_id'', ''BIGINT NOT NULL''),
       (''permissao_chave'', ''VARCHAR(190) NOT NULL''), (''created_at'', ''VARCHAR(40) NOT NULL'')]),
    (''usuarios_perfis'',
      [(''id'', ''BIGSERIAL PRIMARY KEY''), (''usuario_id'', ''BIGINT NOT NULL''),
       (''perfil_id'', ''BIGINT NOT NULL''), (''created_at'', ''VARCHAR(40) NOT NULL'')]),
    (''usuarios_empresas'',
      [(''id'', ''BIGSERIAL PRIMARY KEY''), (''usuario_id'', ''BIGINT NOT NULL''),
       (''empresa_id'', ''BIGINT NOT NULL''), (''created_at'', ''VARCHAR(40) NOT NULL'')]),
    (''user_sessions'',
      [(''id'', ''BIGSERIAL PRIMARY KEY''), (''usuario_id'', ''BIGINT NOT NULL''),
       (''session_token'', ''VARCHAR(190) NOT NULL UNIQUE''), (''created_at'', ''VARCHAR(40) NOT NULL''),
       (''expires_at'', ''VARCHAR(40) NOT NULL''), (''last_activity_at'', ''VARCHAR(40) NOT NULL'')])]"

definition postgres_master_tables :: "external_table list" where
  "postgres_master_tables =
   [(''departamentos'',
      [(''id'', ''BIGSERIAL PRIMARY KEY''), (''descricao'', ''VARCHAR(255) NOT NULL''),
       (''ativo'', ''BOOLEAN NOT NULL DEFAULT TRUE''), (''created_at'', ''VARCHAR(40) NOT NULL''),
       (''updated_at'', ''VARCHAR(40) NOT NULL'')]),
    (''funcoes'',
      [(''id'', ''BIGSERIAL PRIMARY KEY''), (''descricao'', ''VARCHAR(255) NOT NULL''),
       (''ativo'', ''BOOLEAN NOT NULL DEFAULT TRUE''), (''created_at'', ''VARCHAR(40) NOT NULL''),
       (''updated_at'', ''VARCHAR(40) NOT NULL'')]),
    (''centro_custos'',
      [(''id'', ''BIGSERIAL PRIMARY KEY''), (''codigo'', ''VARCHAR(80)''), (''descricao'', ''VARCHAR(255) NOT NULL''),
       (''ativo'', ''BOOLEAN NOT NULL DEFAULT TRUE''), (''created_at'', ''VARCHAR(40) NOT NULL''),
       (''updated_at'', ''VARCHAR(40) NOT NULL'')]),
    (''clientes'',
      [(''id'', ''BIGSERIAL PRIMARY KEY''), (''nome'', ''VARCHAR(255) NOT NULL''), (''documento'', ''VARCHAR(32)''),
       (''telefone'', ''VARCHAR(64)''), (''email'', ''VARCHAR(255)''), (''endereco'', ''TEXT''),
       (''cidade'', ''VARCHAR(120)''), (''estado'', ''VARCHAR(32)''), (''observacoes'', ''TEXT''),
       (''ativo'', ''BOOLEAN NOT NULL DEFAULT TRUE''), (''created_at'', ''VARCHAR(40) NOT NULL''),
       (''updated_at'', ''VARCHAR(40) NOT NULL'')]),
    (''fornecedores'',
      [(''id'', ''BIGSERIAL PRIMARY KEY''), (''nome'', ''VARCHAR(255) NOT NULL''), (''documento'', ''VARCHAR(32)''),
       (''telefone'', ''VARCHAR(64)''), (''email'', ''VARCHAR(255)''), (''endereco'', ''TEXT''),
       (''cidade'', ''VARCHAR(120)''), (''estado'', ''VARCHAR(32)''), (''observacoes'', ''TEXT''),
       (''ativo'', ''BOOLEAN NOT NULL DEFAULT TRUE''), (''created_at'', ''VARCHAR(40) NOT NULL''),
       (''updated_at'', ''VARCHAR(40) NOT NULL'')]),
    (''produtos'',
      [(''id'', ''BIGSERIAL PRIMARY KEY''), (''codigo'', ''VARCHAR(80)''), (''descricao'', ''VARCHAR(255) NOT NULL''),
       (''tipo'', ''VARCHAR(80)''), (''unidade'', ''VARCHAR(32)''), (''valor'', ''NUMERIC(15,4) NOT NULL DEFAULT 0''),
       (''ativo'', ''BOOLEAN NOT NULL DEFAULT TRUE''), (''created_at'', ''VARCHAR(40) NOT NULL''),
       (''updated_at'', ''VARCHAR(40) NOT NULL'')])]"

definition postgres_system_tables :: "external_table list" where
  "postgres_system_tables =
   [(''audit_logs'',
      [(''id'', ''BIGSERIAL PRIMARY KEY''), (''entity_name'', ''VARCHAR(120) NOT NULL''),
       (''action_name'', ''VARCHAR(80) NOT NULL''), (''record_id'', ''BIGINT''), (''payload_json'', ''TEXT''),
       (''created_at'', ''VARCHAR(40) NOT NULL'')]),
    (''sync_queue'',
      [(''id'', ''BIGSERIAL PRIMARY KEY''), (''entity_name'', ''VARCHAR(120) NOT NULL''),
       (''action_name'', ''VARCHAR(80) NOT NULL''), (''record_id'', ''BIGINT''), (''payload_json'', ''TEXT''),
       (''status'', (''VARCHAR(40) NOT NULL DEFAULT '' @ quoted ''pending'')),
       (''created_at'', ''VARCHAR(40) NOT NULL''), (''updated_at'', ''VARCHAR(40) NOT NULL'')]),
    (''app_settings'',
      [(''chave'', ''VARCHAR(190) PRIMARY KEY''), (''valor'', ''TEXT''), (''created_at'', ''VARCHAR(40) NOT NULL''),
       (''updated_at'', ''VARCHAR(40) NOT NULL'')]),
    (''app_logs'',
      [(''id'', ''BIGSERIAL PRIMARY KEY''), (''level'', ''VARCHAR(40) NOT NULL''),
       (''category'', ''VARCHAR(120) NOT NULL''), (''message'', ''TEXT NOT NULL''), (''source'', ''VARCHAR(255)''),
       (''route'', ''VARCHAR(255)''), (''details_json'', ''TEXT''), (''created_at'', ''VARCHAR(40) NOT NULL'')]),
    (''admin_guard'',
      [(''id'', ''BIGINT PRIMARY KEY''), (''support_secret_hash'', ''TEXT''), (''totp_secret_encrypted'', ''TEXT''),
       (''totp_enabled'', ''BOOLEAN NOT NULL DEFAULT FALSE''), (''recovery_codes_encrypted'', ''TEXT''),
       (''licensing_protected'', ''BOOLEAN NOT NULL DEFAULT TRUE''),
       (''white_label_protected'', ''BOOLEAN NOT NULL DEFAULT TRUE''), (''created_at'', ''VARCHAR(40) NOT NULL''),
       (''updated_at'', ''VARCHAR(40) NOT NULL''), (''last_rotated_at'', ''VARCHAR(40)'')]),
    (''admin_unlock_sessions'',
      [(''id'', ''BIGSERIAL PRIMARY KEY''), (''usuario_id'', ''BIGINT NOT NULL''),
       (''scope'', ''VARCHAR(120) NOT NULL''), (''unlock_token'', ''VARCHAR(190) NOT NULL UNIQUE''),
       (''expires_at'', ''VARCHAR(40) NOT NULL''), (''created_at'', ''VARCHAR(40) NOT NULL''),
       (''last_used_at'', ''VARCHAR(40)'')]),
    (''local_licenses'',
      [(''id'', ''BIGSERIAL PRIMARY KEY''), (''empresa_id'', ''BIGINT NOT NULL''),
       (''cnpj'', ''VARCHAR(32) NOT NULL''), (''license_kind'', ''VARCHAR(80) NOT NULL''),
       (''status'', (''VARCHAR(40) NOT NULL DEFAULT '' @ quoted ''active'')),
       (''issued_at'', ''VARCHAR(40) NOT NULL''), (''expires_at'', ''VARCHAR(40) NOT NULL''),
       (''fingerprint'', ''TEXT''), (''payload_encrypted'', ''TEXT''), (''integrity_hash'', ''TEXT''),
       (''created_at'', ''VARCHAR(40) NOT NULL''), (''updated_at'', ''VARCHAR(40) NOT NULL'')]),
    (''feature_flags'',
      [(''chave'', ''VARCHAR(190) PRIMARY KEY''), (''ativo'', ''BOOLEAN NOT NULL DEFAULT TRUE''),
       (''descricao'', ''TEXT''), (''created_at'', ''VARCHAR(40) NOT NULL''),
       (''updated_at'', ''VARCHAR(40) NOT NULL'')]),
    (''integration_configs'',
      [(''id'', ''BIGSERIAL PRIMARY KEY''), (''nome'', ''VARCHAR(255) NOT NULL''),
       (''tipo'', (''VARCHAR(40) NOT NULL DEFAULT '' @ quoted ''rest'')), (''base_url'', ''TEXT NOT NULL''),
       (''metodo_padrao'', (''VARCHAR(16) NOT NULL DEFAULT '' @ quoted ''GET'')), (''headers_json'', ''TEXT''),
       (''token_encrypted'', ''TEXT''), (''ambiente'', (''VARCHAR(80) NOT NULL DEFAULT '' @ quoted ''production'')),
       (''status'', (''VARCHAR(40) NOT NULL DEFAULT '' @ quoted ''inactive'')),
       (''timeout_seconds'', ''INT NOT NULL DEFAULT 30''), (''retry_attempts'', ''INT NOT NULL DEFAULT 0''),
       (''ultimo_erro'', ''TEXT''), (''ultima_execucao_em'', ''VARCHAR(40)''),
       (''ativo'', ''BOOLEAN NOT NULL DEFAULT TRUE''), (''created_at'', ''VARCHAR(40) NOT NULL''),
       (''updated_at'', ''VARCHAR(40) NOT NULL'')]),
    (''integration_logs'',
      [(''id'', ''BIGSERIAL PRIMARY KEY''), (''integration_id'', ''BIGINT''), (''method'', ''VARCHAR(16)''),
       (''url'', ''TEXT''), (''request_headers_json'', ''TEXT''), (''status_code'', ''INT''),
       (''success'', ''BOOLEAN NOT NULL DEFAULT FALSE''), (''duration_ms'', ''BIGINT''),
       (''error_message'', ''TEXT''), (''created_at'', ''VARCHAR(40) NOT NULL'')]),
    (''api_tokens'',
      [(''id'', ''BIGSERIAL PRIMARY KEY''), (''nome'', ''VARCHAR(255) NOT NULL''),
       (''token_hash'', ''TEXT NOT NULL''), (''escopo'', ''TEXT''), (''ativo'', ''BOOLEAN NOT NULL DEFAULT TRUE''),
       (''expires_at'', ''VARCHAR(40)''), (''created_at'', ''VARCHAR(40) NOT NULL''),
       (''updated_at'', ''VARCHAR(40) NOT NULL'')]),
    (''configuracoes'',
      [(''nome'', ''VARCHAR(190) PRIMARY KEY''), (''valor'', ''TEXT''), (''updated_at'', ''VARCHAR(40) NOT NULL'')])]"


definition external_indexes :: "(bool \<times> string \<times> string \<times> string) list" where
  "external_indexes =
     [(False, ''idx_empresas_nome'', ''empresas'', ''nome''),
      (False, ''idx_empresas_documento'', ''empresas'', ''documento''),
      (False, ''idx_usuarios_login'', ''usuarios'', ''login''),
      (False, ''idx_usuarios_master'', ''usuarios'', ''master_user, ativo''),
      (True, ''ux_perfis_permissao'', ''perfis_permissoes'', ''perfil_id, permissao_chave''),
      (True, ''ux_usuarios_perfis'', ''usuarios_perfis'', ''usuario_id, perfil_id''),
      (True, ''ux_usuarios_empresas'', ''usuarios_empresas'', ''usuario_id, empresa_id''),
      (False, ''idx_app_logs_created_at'', ''app_logs'', ''created_at''),
      (False, ''idx_app_logs_category'', ''app_logs'', ''category''),
      (False, ''idx_admin_unlock_sessions_usuario'', ''admin_unlock_sessions'', ''usuario_id''),
      (False, ''idx_local_licenses_cnpj'', ''local_licenses'', ''cnpj''),
      (False, ''idx_clientes_nome'', ''clientes'', ''nome''),
      (False, ''idx_fornecedores_nome'', ''fornecedores'', ''nome''),
      (False, ''idx_produtos_descricao'', ''produtos'', ''descricao''),
      (False, ''idx_sync_queue_status'', ''sync_queue'', ''status'')]"

definition mysql_tables :: "external_table list" where
  "mysql_tables = mysql_access_tables @ mysql_master_tables @ mysql_system_tables"

definition postgres_tables :: "external_table list" where
  "postgres_tables = postgres_access_tables @ postgres_master_tables @ postgres_system_tables"

definition mysql_schema :: "string list" where
  "mysql_schema = map create_table_text mysql_tables @ map (create_index_text []) external_indexes"

definition postgres_schema :: "string list" where
  "postgres_schema =
     map create_table_text postgres_tables @ map (create_index_text ''IF NOT EXISTS '') external_indexes"

subsection \<open>MySQL and MariaDB\<close>

text \<open>
  The values of the crate. A date has year, month, day, hour, minute, second and microseconds; a time span
  a sign, days, hours, minutes, seconds and microseconds.
\<close>

datatype mysql_value =
    MyNull
  | MyBytes string
  | MyInt int
  | MyUInt int
  | MyFloat json_number
  | MyDouble json_number
  | MyDate "16 word" "8 word" "8 word" "8 word" "8 word" "8 word" "32 word"
  | MyTime bool "32 word" "8 word" "8 word" "8 word" "32 word"

definition to_mysql_value :: "(json \<Rightarrow> string) \<Rightarrow> db_value \<Rightarrow> mysql_value" where
  "to_mysql_value jt v =
     (case v of
        DbNull \<Rightarrow> MyNull
      | DbBool b \<Rightarrow> MyInt (of_bool b)
      | DbInteger i \<Rightarrow> MyInt i
      | DbReal n \<Rightarrow> MyDouble n
      | DbText s \<Rightarrow> MyBytes s
      | DbJson j \<Rightarrow> MyBytes (jt j))"

text \<open>\<^verbatim>\<open>{:0k}\<close>: at least \<open>k\<close> digits.\<close>

definition zero_padded :: "nat \<Rightarrow> 'a::len word \<Rightarrow> string" where
  "zero_padded k w = replicate (k - length (show_word w)) (CHR ''0'') @ show_word w"

definition clock_digits :: "8 word \<Rightarrow> 8 word \<Rightarrow> 8 word \<Rightarrow> 32 word \<Rightarrow> string" where
  "clock_digits hour minute second micros =
     zero_padded 2 hour @ '':'' @ zero_padded 2 minute @ '':'' @ zero_padded 2 second @ ''.'' @ zero_padded 6 micros"

fun mysql_value_to_json :: "mysql_value \<Rightarrow> json" where
  "mysql_value_to_json MyNull = JNull"
| "mysql_value_to_json (MyBytes s) = JStr s"
| "mysql_value_to_json (MyInt i) = js_int i"
| "mysql_value_to_json (MyUInt i) = js_int i"
| "mysql_value_to_json (MyFloat n) = JNum n"
| "mysql_value_to_json (MyDouble n) = JNum n"
| "mysql_value_to_json (MyDate year month day hour minute second micros) =
     JStr (zero_padded 4 year @ ''-'' @ zero_padded 2 month @ ''-'' @ zero_padded 2 day @ ''T'' @
       clock_digits hour minute second micros)"
| "mysql_value_to_json (MyTime negative days hours minutes seconds micros) =
     JStr ((if negative then ''-'' else []) @ show_word days @ '' '' @ clock_digits hours minutes seconds micros)"

definition mysql_row_to_json :: "(string \<times> mysql_value) list \<Rightarrow> json_obj" where
  "mysql_row_to_json row = map (\<lambda>(k, v). (k, mysql_value_to_json v)) row"

text \<open>\<open>'p\<close> is a pool of connections, \<open>'c\<close> a connection, \<open>'d\<close> the server and whatever else keeps a state.\<close>

record ('p, 'c, 'd) mysql_client =
  my_pool :: "string \<Rightarrow> ('p, 'd) cmd"
  my_get_conn :: "'p \<Rightarrow> ('c, 'd) cmd"
  my_query_drop :: "string \<Rightarrow> (unit, 'c \<times> 'd) cmd"
  my_exec_drop :: "string \<Rightarrow> mysql_value list \<Rightarrow> (unit, 'c \<times> 'd) cmd"
  my_exec :: "string \<Rightarrow> mysql_value list \<Rightarrow> ((string \<times> mysql_value) list list, 'c \<times> 'd) cmd"
  my_affected_rows :: "'c \<Rightarrow> nat"

definition mysql_pool :: "('p, 'c, 'd) mysql_client \<Rightarrow> database_config \<Rightarrow> ('p, 'd) cmd" where
  "mysql_pool cl config =
     bindc (lift (connection_url config)) (\<lambda>text. labelled ''Falha ao criar pool MySQL'' (my_pool cl text))"

text \<open>Every operation makes a pool of its own and takes a connection from it.\<close>

definition with_mysql :: "('p, 'c, 'd) mysql_client \<Rightarrow> database_config \<Rightarrow> ('a, 'c \<times> 'd) cmd \<Rightarrow> ('a, 'd) cmd" where
  "with_mysql cl config body =
     bindc (mysql_pool cl config) (\<lambda>p.
     bindc (labelled ''Falha ao conectar MySQL'' (my_get_conn cl p)) (\<lambda>conn d.
     case body (conn, d) of (r, (_, d')) \<Rightarrow> (r, d')))"

definition mysql_health :: "bool \<Rightarrow> ('p, 'c, 'd) mysql_client \<Rightarrow> database_config \<Rightarrow> (bool, 'd) cmd" where
  "mysql_health feature cl config =
     (if feature then
        with_mysql cl config
          (bindc (labelled ''Falha no health check MySQL'' (my_query_drop cl ''SELECT 1'')) (\<lambda>_. ret True))
      else
        bindc (lift (mysql_connection_info config)) (\<lambda>_.
        fail ((''MySQL/MariaDB configurado, mas a feature Rust '') @ quoted ''mysql-db'' @
          (('' n'' @ u_atilde @ ''o est'' @ u_aacute @ '' habilitada. Compile com --features mysql-db para conex'' @ u_atilde @ ''o real.'')))))"

definition mysql_statement :: "('p, 'c, 'd) mysql_client \<Rightarrow> string \<Rightarrow> (unit, 'c \<times> 'd) cmd" where
  "mysql_statement cl sql w =
     (case my_query_drop cl sql w of
        (Inr _, w') \<Rightarrow> (Ok (), w')
      | (Inl err, w') \<Rightarrow>
          (if contains err ''Duplicate key name'' \<or> contains err ''1061'' then Ok ()
           else Err (''Falha ao migrar MySQL: '' @ err @ ''; SQL: '' @ sql), w'))"

definition mysql_migrate :: "bool \<Rightarrow> ('p, 'c, 'd) mysql_client \<Rightarrow> database_config \<Rightarrow> (unit, 'd) cmd" where
  "mysql_migrate feature cl config =
     (if feature then with_mysql cl config (each (mysql_statement cl) mysql_schema)
      else
        bindc (lift (mysql_connection_info config)) (\<lambda>_.
        fail ((''Migrations MySQL exigem compila'' @ u_ccedil @ u_atilde @ ''o com --features mysql-db.''))))"

definition execute_mysql ::
  "('p, 'c, 'd) mysql_client \<Rightarrow> (json \<Rightarrow> string) \<Rightarrow> database_config \<Rightarrow> string \<Rightarrow> db_value list \<Rightarrow> (nat, 'd) cmd" where
  "execute_mysql cl jt config sql params =
     with_mysql cl config
       (bindc (labelled ''Falha ao executar SQL MySQL'' (my_exec_drop cl sql (map (to_mysql_value jt) params))) (\<lambda>_ w.
        (Ok (my_affected_rows cl (fst w)), w)))"

definition query_mysql ::
  "('p, 'c, 'd) mysql_client \<Rightarrow> (json \<Rightarrow> string) \<Rightarrow> database_config \<Rightarrow> string \<Rightarrow> db_value list \<Rightarrow> (json_obj list, 'd) cmd" where
  "query_mysql cl jt config sql params =
     with_mysql cl config
       (bindc (labelled ''Falha ao consultar MySQL'' (my_exec cl sql (map (to_mysql_value jt) params))) (\<lambda>rows.
        ret (map mysql_row_to_json rows)))"

text \<open>\<^verbatim>\<open>Vec::pop\<close>: the last row.\<close>

definition popped :: "'a list \<Rightarrow> 'a option" where
  "popped rows = (if rows = [] then None else Some (List.last rows))"

definition mysql_provider ::
  "bool \<Rightarrow> ('p, 'c, 'd) mysql_client \<Rightarrow> (json \<Rightarrow> string) \<Rightarrow> database_config \<Rightarrow> 'd provider" where
  "mysql_provider feature cl jt config =
     (let refused = (''CRUD provider MySQL exige compila'' @ u_ccedil @ u_atilde @ ''o com --features mysql-db.'') in
      \<lparr>pv_driver = Mysql,
       pv_execute = (\<lambda>sql ps. if feature then execute_mysql cl jt config sql ps else fail refused),
       pv_query = (\<lambda>sql ps. if feature then query_mysql cl jt config sql ps else fail refused),
       pv_query_one =
         (\<lambda>sql ps. if feature then bindc (query_mysql cl jt config sql ps) (\<lambda>rows. ret (popped rows)) else fail refused)\<rparr>)"

subsection \<open>PostgreSQL\<close>

text \<open>
  The Rust values that are handed to the crate as parameters, and a column of a row as the answers of
  \<^verbatim>\<open>try_get\<close> at the five types that are tried: \<^verbatim>\<open>None\<close> where the type does not fit the column, else the
  value, which may be null.
\<close>

datatype pg_param = PgNone | PgBool bool | PgI64 int | PgF64 json_number | PgString string

record pg_column =
  pc_string :: "string option option"
  pc_i64 :: "int option option"
  pc_i32 :: "int option option"
  pc_f64 :: "json_number option option"
  pc_bool :: "bool option option"

definition to_postgres_value :: "(json \<Rightarrow> string) \<Rightarrow> db_value \<Rightarrow> pg_param" where
  "to_postgres_value jt v =
     (case v of
        DbNull \<Rightarrow> PgNone
      | DbBool b \<Rightarrow> PgBool b
      | DbInteger i \<Rightarrow> PgI64 i
      | DbReal n \<Rightarrow> PgF64 n
      | DbText s \<Rightarrow> PgString s
      | DbJson j \<Rightarrow> PgString (jt j))"

definition or_null :: "('a \<Rightarrow> json) \<Rightarrow> 'a option \<Rightarrow> json" where
  "or_null f v = (case v of None \<Rightarrow> JNull | Some x \<Rightarrow> f x)"

definition postgres_value_to_json :: "pg_column \<Rightarrow> json" where
  "postgres_value_to_json column =
     (case pc_string column of Some v \<Rightarrow> or_null JStr v
      | None \<Rightarrow> (case pc_i64 column of Some v \<Rightarrow> or_null js_int v
      | None \<Rightarrow> (case pc_i32 column of Some v \<Rightarrow> or_null js_int v
      | None \<Rightarrow> (case pc_f64 column of Some v \<Rightarrow> or_null JNum v
      | None \<Rightarrow> (case pc_bool column of Some v \<Rightarrow> or_null JBool v
      | None \<Rightarrow> JNull)))))"

definition postgres_row_to_json :: "(string \<times> pg_column) list \<Rightarrow> json_obj" where
  "postgres_row_to_json row = map (\<lambda>(k, v). (k, postgres_value_to_json v)) row"

record ('k, 'd) pg_client =
  pg_connect :: "string \<Rightarrow> ('k, 'd) cmd"
  pg_simple_query :: "string \<Rightarrow> (unit, 'k \<times> 'd) cmd"
  pg_batch_execute :: "string \<Rightarrow> (unit, 'k \<times> 'd) cmd"
  pg_execute :: "string \<Rightarrow> pg_param list \<Rightarrow> (nat, 'k \<times> 'd) cmd"
  pg_query :: "string \<Rightarrow> pg_param list \<Rightarrow> ((string \<times> pg_column) list list, 'k \<times> 'd) cmd"

definition postgres_client :: "('k, 'd) pg_client \<Rightarrow> database_config \<Rightarrow> ('k, 'd) cmd" where
  "postgres_client cl config =
     bindc (lift (connection_string config)) (\<lambda>text. labelled ''Falha ao conectar PostgreSQL'' (pg_connect cl text))"

definition with_postgres :: "('k, 'd) pg_client \<Rightarrow> database_config \<Rightarrow> ('a, 'k \<times> 'd) cmd \<Rightarrow> ('a, 'd) cmd" where
  "with_postgres cl config body =
     bindc (postgres_client cl config) (\<lambda>k d. case body (k, d) of (r, (_, d')) \<Rightarrow> (r, d'))"

definition postgres_health :: "bool \<Rightarrow> ('k, 'd) pg_client \<Rightarrow> database_config \<Rightarrow> (bool, 'd) cmd" where
  "postgres_health feature cl config =
     (if feature then
        with_postgres cl config
          (bindc (labelled ''Falha no health check PostgreSQL'' (pg_simple_query cl ''SELECT 1'')) (\<lambda>_. ret True))
      else
        bindc (lift (postgres_connection_info config)) (\<lambda>_.
        fail ((''PostgreSQL configurado, mas a feature Rust '') @ quoted ''postgres-db'' @
          (('' n'' @ u_atilde @ ''o est'' @ u_aacute @ '' habilitada. Compile com --features postgres-db para conex'' @ u_atilde @ ''o real.'')))))"

definition postgres_statement :: "('k, 'd) pg_client \<Rightarrow> string \<Rightarrow> (unit, 'k \<times> 'd) cmd" where
  "postgres_statement cl sql w =
     mapped (\<lambda>err. ''Falha ao migrar PostgreSQL: '' @ err @ ''; SQL: '' @ sql) id (pg_batch_execute cl sql w)"

definition postgres_migrate :: "bool \<Rightarrow> ('k, 'd) pg_client \<Rightarrow> database_config \<Rightarrow> (unit, 'd) cmd" where
  "postgres_migrate feature cl config =
     (if feature then with_postgres cl config (each (postgres_statement cl) postgres_schema)
      else
        bindc (lift (postgres_connection_info config)) (\<lambda>_.
        fail ((''Migrations PostgreSQL exigem compila'' @ u_ccedil @ u_atilde @ ''o com --features postgres-db.''))))"

definition execute_postgres ::
  "('k, 'd) pg_client \<Rightarrow> (json \<Rightarrow> string) \<Rightarrow> database_config \<Rightarrow> string \<Rightarrow> db_value list \<Rightarrow> (nat, 'd) cmd" where
  "execute_postgres cl jt config sql params =
     with_postgres cl config
       (labelled ''Falha ao executar SQL PostgreSQL'' (pg_execute cl sql (map (to_postgres_value jt) params)))"

definition query_postgres ::
  "('k, 'd) pg_client \<Rightarrow> (json \<Rightarrow> string) \<Rightarrow> database_config \<Rightarrow> string \<Rightarrow> db_value list \<Rightarrow> (json_obj list, 'd) cmd" where
  "query_postgres cl jt config sql params =
     with_postgres cl config
       (bindc (labelled ''Falha ao consultar PostgreSQL'' (pg_query cl sql (map (to_postgres_value jt) params))) (\<lambda>rows.
        ret (map postgres_row_to_json rows)))"

definition postgres_provider ::
  "bool \<Rightarrow> ('k, 'd) pg_client \<Rightarrow> (json \<Rightarrow> string) \<Rightarrow> database_config \<Rightarrow> 'd provider" where
  "postgres_provider feature cl jt config =
     (let refused = (''CRUD provider PostgreSQL exige compila'' @ u_ccedil @ u_atilde @ ''o com --features postgres-db.'') in
      \<lparr>pv_driver = Postgres,
       pv_execute = (\<lambda>sql ps. if feature then execute_postgres cl jt config sql ps else fail refused),
       pv_query = (\<lambda>sql ps. if feature then query_postgres cl jt config sql ps else fail refused),
       pv_query_one =
         (\<lambda>sql ps. if feature then bindc (query_postgres cl jt config sql ps) (\<lambda>rows. ret (popped rows)) else fail refused)\<rparr>)"

subsection \<open>Firebird\<close>

definition firebird_health :: "database_config \<Rightarrow> (bool, string) result" where
  "firebird_health config =
     (if dc_driver config \<noteq> FirebirdUnsupported then Err ((''Driver informado n'' @ u_atilde @ ''o '' @ u_eacute @ '' Firebird.''))
      else Err (''Firebird foi ignorado nesta etapa por compatibilidade. Use SQLite, MySQL/MariaDB ou PostgreSQL.''))"

definition firebird_migrate :: "database_config \<Rightarrow> (unit, string) result" where
  "firebird_migrate config =
     (if dc_driver config \<noteq> FirebirdUnsupported then Err ((''Driver informado n'' @ u_atilde @ ''o '' @ u_eacute @ '' Firebird.''))
      else Err ((''Migrations Firebird n'' @ u_atilde @ ''o fazem parte da Etapa 2.2.'')))"

subsection \<open>All drivers\<close>

text \<open>
  The features the program is built with, the two crates, the engine of SQLite and its migration, which is
  \<^const>\<open>migrate\<close> in the program.
\<close>

record ('e, 'p, 'c, 'k, 'd) databases =
  da_mysql_db :: bool
  da_postgres_db :: bool
  da_mysql :: "('p, 'c, 'd) mysql_client"
  da_postgres :: "('k, 'd) pg_client"
  da_engine :: "('e, 'd) engine"
  da_migrate :: "(unit, 'd) cmd"
  da_json_text :: "json \<Rightarrow> string"

definition external_provider :: "('e, 'p, 'c, 'k, 'd) databases \<Rightarrow> database_config \<Rightarrow> 'd provider" where
  "external_provider dbs config =
     (if dc_driver config = Mysql then mysql_provider (da_mysql_db dbs) (da_mysql dbs) (da_json_text dbs) config
      else postgres_provider (da_postgres_db dbs) (da_postgres dbs) (da_json_text dbs) config)"

text \<open>\<^verbatim>\<open>query_row\<close> of rusqlite: the first row, an error when there is none.\<close>

fun plain_error :: "query_error \<Rightarrow> string" where
  "plain_error (PrepareFailed err) = err"
| "plain_error (QueryFailed err) = err"
| "plain_error (MapFailed err) = err"

definition sqlite_health :: "('e, 'd) engine \<Rightarrow> (bool, 'd) cmd" where
  "sqlite_health eg =
     with_conn eg (\<lambda>w.
       case eg_query eg ''SELECT 1'' [] w of (rows, w') \<Rightarrow>
         (map_err (\<lambda>err. ''Falha no health check SQLite: '' @ err)
            (and_then (map_err plain_error rows) (\<lambda>rs.
             and_then (ok_or ''Query returned no rows'' (first_row rs)) (\<lambda>row.
             and_then (get_col row 0 ref_i64) (\<lambda>v. Ok (v = 1))))), w'))"

definition check_database :: "('e, 'p, 'c, 'k, 'd) databases \<Rightarrow> database_config \<Rightarrow> (bool, 'd) cmd" where
  "check_database dbs config =
     (case dc_driver config of
        Sqlite \<Rightarrow> sqlite_health (da_engine dbs)
      | Mysql \<Rightarrow> mysql_health (da_mysql_db dbs) (da_mysql dbs) config
      | Postgres \<Rightarrow> postgres_health (da_postgres_db dbs) (da_postgres dbs) config
      | FirebirdUnsupported \<Rightarrow> lift (firebird_health config))"

record health_report =
  hr_driver :: string
  hr_ok :: bool
  hr_message :: string
  hr_target :: string
  hr_feature_required :: "string option"

fun feature_of :: "database_driver \<Rightarrow> string option" where
  "feature_of Mysql = Some ''mysql-db''"
| "feature_of Postgres = Some ''postgres-db''"
| "feature_of _ = None"

definition database_report :: "('e, 'p, 'c, 'k, 'd) databases \<Rightarrow> database_config \<Rightarrow> string \<Rightarrow> 'd \<Rightarrow> health_report \<times> 'd" where
  "database_report dbs config sqlite_path d =
     (let target = (if dc_driver config = Sqlite then sqlite_path else external_dsn_label config);
          name = driver_as_str (dc_driver config) in
      case check_database dbs config d of
        (Inr fine, d') \<Rightarrow>
          (\<lparr>hr_driver = name, hr_ok = fine,
            hr_message = (if fine then ''Conex'' @ u_atilde @ ''o verificada com sucesso.'' else ''Conex'' @ u_atilde @ ''o indispon'' @ u_iacute @ ''vel.''),
            hr_target = target, hr_feature_required = None\<rparr>, d')
      | (Inl message, d') \<Rightarrow>
          (\<lparr>hr_driver = name, hr_ok = False, hr_message = message, hr_target = target,
            hr_feature_required = feature_of (dc_driver config)\<rparr>, d'))"

definition migrate_database :: "('e, 'p, 'c, 'k, 'd) databases \<Rightarrow> database_config \<Rightarrow> (unit, 'd) cmd" where
  "migrate_database dbs config =
     (case dc_driver config of
        Sqlite \<Rightarrow> da_migrate dbs
      | Mysql \<Rightarrow> mysql_migrate (da_mysql_db dbs) (da_mysql dbs) config
      | Postgres \<Rightarrow> postgres_migrate (da_postgres_db dbs) (da_postgres dbs) config
      | FirebirdUnsupported \<Rightarrow> lift (firebird_migrate config))"

datatype 'e app_connection = SqliteConnection 'e | MysqlEnabled string | PostgresEnabled string

definition connect_database :: "('e, 'p, 'c, 'k, 'd) databases \<Rightarrow> database_config \<Rightarrow> ('e app_connection, 'd) cmd" where
  "connect_database dbs config =
     (case dc_driver config of
        Sqlite \<Rightarrow> (\<lambda>d. (and_then (eg_open (da_engine dbs) d) (\<lambda>conn. Ok (SqliteConnection conn)), d))
      | Mysql \<Rightarrow>
          bindc (mysql_health (da_mysql_db dbs) (da_mysql dbs) config) (\<lambda>_. ret (MysqlEnabled (external_dsn_label config)))
      | Postgres \<Rightarrow>
          bindc (postgres_health (da_postgres_db dbs) (da_postgres dbs) config) (\<lambda>_. ret (PostgresEnabled (external_dsn_label config)))
      | FirebirdUnsupported \<Rightarrow>
          fail (''Firebird foi ignorado nesta etapa por compatibilidade. Configure sqlite, mysql ou postgres.''))"

record provider_status =
  ps_driver :: string
  ps_available :: bool
  ps_message :: string

text \<open>\<^verbatim>\<open>health\<close> and \<^verbatim>\<open>migrate\<close> of a provider, which hold its own configuration.\<close>

definition provider_health :: "('e, 'p, 'c, 'k, 'd) databases \<Rightarrow> database_config \<Rightarrow> (provider_status, 'd) cmd" where
  "provider_health dbs config =
     (case dc_driver config of
        Sqlite \<Rightarrow>
          bindc (sqlite_health (da_engine dbs)) (\<lambda>fine.
          ret \<lparr>ps_driver = ''sqlite'', ps_available = fine,
               ps_message = (if fine then ''SQLite funcional.'' else ''SQLite indispon'' @ u_iacute @ ''vel.'')\<rparr>)
      | Mysql \<Rightarrow>
          bindc (mysql_health (da_mysql_db dbs) (da_mysql dbs) config) (\<lambda>fine.
          ret \<lparr>ps_driver = ''mysql'', ps_available = fine,
               ps_message = ((''MySQL/MariaDB dispon'' @ u_iacute @ ''vel via feature Rust mysql-db.''))\<rparr>)
      | Postgres \<Rightarrow>
          bindc (postgres_health (da_postgres_db dbs) (da_postgres dbs) config) (\<lambda>fine.
          ret \<lparr>ps_driver = ''postgres'', ps_available = fine,
               ps_message = ((''PostgreSQL dispon'' @ u_iacute @ ''vel via feature Rust postgres-db.''))\<rparr>)
      | FirebirdUnsupported \<Rightarrow> fail ''Firebird permanece fora do escopo funcional por compatibilidade.'')"


definition provider_migrate :: "('e, 'p, 'c, 'k, 'd) databases \<Rightarrow> database_config \<Rightarrow> (unit, 'd) cmd" where
  "provider_migrate dbs config =
     (if dc_driver config = FirebirdUnsupported
      then fail ''Firebird permanece fora do escopo funcional por compatibilidade.''
      else migrate_database dbs config)"

subsection \<open>The three schemas\<close>

definition column_names :: "external_table \<Rightarrow> string \<times> string list" where
  "column_names t = (fst t, map fst (snd t))"

text \<open>The schemas of MySQL and of PostgreSQL have the tables of the SQLite schema, in the same order and with the same columns in the same order, except that neither has \<open>photo_url\<close> among the columns of a user; every index names a table and columns of them.\<close>

theorem external_schemas_agree:
  "map column_names mysql_tables =
     map (\<lambda>t. (tb_name t, filter (\<lambda>c. c \<noteq> ''photo_url'') (map fst (tb_columns t)))) schema"
  "map column_names postgres_tables = map column_names mysql_tables"
  "''photo_url'' \<in> set (concat (map (\<lambda>t. map fst (tb_columns t)) schema))"
  by code_simp+

subsection \<open>Credentials in a URL\<close>

definition url_char :: "char \<Rightarrow> string" where
  "url_char c =
     (if c = CHR ''@'' then ''%40'' else if c = CHR '':'' then ''%3A'' else if c = CHR ''/'' then ''%2F''
      else if c = CHR ''#'' then ''%23'' else [c])"

lemma urlencoding_chars: "urlencoding s = concat (map url_char s)"
  unfolding urlencoding_def replace_one by (induction s) (simp_all add: url_char_def)

lemma urlencoding_append: "urlencoding (s @ t) = urlencoding s @ urlencoding t"
  by (simp add: urlencoding_chars)

lemma urlencoding_escapes: "urlencoding ''@'' = ''%40''" "urlencoding ''%40'' = ''%40''" "urlencoding ''?'' = ''?''"
  by (simp_all add: urlencoding_chars url_char_def)

text \<open>The percent sign is not escaped, so two passwords may have one URL; nor is the question mark, which ends the part of a URL the password stands in.\<close>

theorem mysql_passwords_merge:
  "connection_url (config\<lparr>dc_password := Some (p @ ''@'' @ q)\<rparr>) = connection_url (config\<lparr>dc_password := Some (p @ ''%40'' @ q)\<rparr>) \<and>
   urlencoding (p @ ''?'' @ q) = urlencoding p @ ''?'' @ urlencoding q"
proof -
  have "urlencoding (p @ ''@'' @ q) = urlencoding (p @ ''%40'' @ q)"
    by (simp only: urlencoding_append urlencoding_escapes)
  moreover have "urlencoding (p @ ''?'' @ q) = urlencoding p @ ''?'' @ urlencoding q"
    by (simp only: urlencoding_append urlencoding_escapes)
  ultimately show ?thesis
    by (simp add: connection_url_def mysql_connection_info_def connection_info_or_def)
qed

subsection \<open>The types of PostgreSQL\<close>

text \<open>
  A column has the type its declaration begins with. \<open>fits\<close> is the table of conversions the crate documents
  for parameters: an \<open>i64\<close> is a \<open>BIGINT\<close>, a \<open>bool\<close> a \<open>BOOLEAN\<close>, a \<open>String\<close>, given or not, a \<open>VARCHAR\<close> or a \<open>TEXT\<close>,
  an \<open>f64\<close> a \<open>DOUBLE PRECISION\<close>; nothing is a \<open>NUMERIC\<close>.
\<close>

definition sql_type :: "string \<Rightarrow> string" where
  "sql_type declaration = takeWhile (\<lambda>c. c \<noteq> CHR '' '' \<and> c \<noteq> CHR ''('') declaration"

definition postgres_type :: "string \<Rightarrow> string \<Rightarrow> string option" where
  "postgres_type table column =
     map_option sql_type (Option.bind (map_of postgres_tables table) (\<lambda>columns. map_of columns column))"

fun fits :: "pg_param \<Rightarrow> string \<Rightarrow> bool" where
  "fits PgNone t \<longleftrightarrow> t \<in> {''VARCHAR'', ''TEXT''}"
| "fits (PgString _) t \<longleftrightarrow> t \<in> {''VARCHAR'', ''TEXT''}"
| "fits (PgBool _) t \<longleftrightarrow> t = ''BOOLEAN''"
| "fits (PgI64 _) t \<longleftrightarrow> t \<in> {''BIGINT'', ''BIGSERIAL''}"
| "fits (PgF64 _) t \<longleftrightarrow> t = ''DOUBLE''"

definition fits_column :: "string \<Rightarrow> pg_param \<Rightarrow> string \<Rightarrow> bool" where
  "fits_column table p column = (case postgres_type table column of None \<Rightarrow> False | Some t \<Rightarrow> fits p t)"

definition insert_fits :: "entity_def \<Rightarrow> pg_param list \<Rightarrow> bool" where
  "insert_fits df ps = list_all2 (fits_column (ed_table df)) ps (ed_fields df @ [''created_at'', ''updated_at''])"

definition update_fits :: "entity_def \<Rightarrow> pg_param list \<Rightarrow> bool" where
  "update_fits df ps = list_all2 (fits_column (ed_table df)) ps (ed_fields df @ [''updated_at'', ''id''])"

abbreviation dollar :: "nat \<Rightarrow> string" where
  "dollar index \<equiv> ''$'' @ show_nat index"

definition insert_statement :: "entity_def \<Rightarrow> string" where
  "insert_statement df = insert_sql dollar (ed_table df) (ed_fields df) @ '' RETURNING id''"

definition update_statement :: "entity_def \<Rightarrow> string" where
  "update_statement df = update_sql dollar (ed_table df) (ed_fields df)"

text \<open>The crate refuses a parameter whose type does not fit the one the server gives it, that of its column.\<close>

definition checks_types :: "('k, 'd) pg_client \<Rightarrow> bool" where
  "checks_types cl \<longleftrightarrow>
     (\<forall>df \<in> set all_entities. \<forall>ps w.
        (\<not> insert_fits df ps \<longrightarrow> (\<exists>err w'. pg_query cl (insert_statement df) ps w = (Err err, w'))) \<and>
        (\<not> update_fits df ps \<longrightarrow> (\<exists>err w'. pg_execute cl (update_statement df) ps w = (Err err, w'))))"

lemma with_postgres_Ok:
  assumes "with_postgres cl config body d = (Ok x, d')"
  obtains k d1 c' where "body (k, d1) = (Ok x, (c', d'))"
  using assms by (auto simp: with_postgres_def elim!: bindc_OkE split: prod.splits)

lemma labelled_Ok: "labelled msg m d = (Ok x, d') \<longleftrightarrow> m d = (Ok x, d')"
  by (auto simp: labelled_def mapped_def split: prod.splits sum.splits)

lemma insert_typed:
  assumes cl: "checks_types cl" "df \<in> set all_entities"
    and run: "query_postgres cl jt config (insert_statement df) params d = (Ok rows, d')"
  shows "insert_fits df (map (to_postgres_value jt) params)"
proof (rule ccontr)
  assume "\<not> ?thesis"
  with cl have refused: "\<exists>err w'. pg_query cl (insert_statement df) (map (to_postgres_value jt) params) w = (Err err, w')" for w
    unfolding checks_types_def by blast
  from run obtain k d1 c' w' where "pg_query cl (insert_statement df) (map (to_postgres_value jt) params) (k, d1) = (Ok c', w')"
    unfolding query_postgres_def by (elim with_postgres_Ok bindc_OkE) (auto simp: labelled_Ok)
  with refused [of "(k, d1)"] show False by auto
qed

lemma update_typed:
  assumes cl: "checks_types cl" "df \<in> set all_entities"
    and run: "execute_postgres cl jt config (update_statement df) params d = (Ok n, d')"
  shows "update_fits df (map (to_postgres_value jt) params)"
proof (rule ccontr)
  assume "\<not> ?thesis"
  with cl have refused: "\<exists>err w'. pg_execute cl (update_statement df) (map (to_postgres_value jt) params) w = (Err err, w')" for w
    unfolding checks_types_def by blast
  from run obtain k d1 c' w' where "pg_execute cl (update_statement df) (map (to_postgres_value jt) params) (k, d1) = (Ok c', w')"
    unfolding execute_postgres_def by (elim with_postgres_Ok) (auto simp: labelled_Ok)
  with refused [of "(k, d1)"] show False by auto
qed

lemma postgres_operations:
  "pv_driver (postgres_provider True cl jt config) = Postgres" "placeholder (postgres_provider True cl jt config) = dollar"
  "pv_execute (postgres_provider True cl jt config) sql ps = execute_postgres cl jt config sql ps"
  "pv_query_one (postgres_provider True cl jt config) sql ps = bindc (query_postgres cl jt config sql ps) (\<lambda>rows. ret (popped rows))"
  by (auto simp: postgres_provider_def placeholder_def)

lemma store_typed:
  assumes cl: "checks_types cl" "df \<in> set all_entities"
    and run: "provider_store (postgres_provider True cl jt config) df i values now d = (Ok n, d')" and len: "length values = length (ed_fields df)"
  shows "list_all2 (fits_column (ed_table df)) (map (to_postgres_value jt) values) (ed_fields df)"
proof (cases i)
  case None
  from run have "\<exists>rows d1. query_postgres cl jt config (insert_statement df) (values @ [DbText now, DbText now]) d = (Ok rows, d1)"
    by (auto simp: None provider_store_def Let_def postgres_operations insert_statement_def elim!: bindc_OkE)
  with insert_typed [OF cl] have "insert_fits df (map (to_postgres_value jt) (values @ [DbText now, DbText now]))" by blast
  then show ?thesis using len by (simp add: insert_fits_def list_all2_append)
next
  case (Some r)
  from run have "\<exists>m d1. execute_postgres cl jt config (update_statement df) (values @ [DbText now, DbInteger r]) d = (Ok m, d1)"
    by (auto simp: Some provider_store_def Let_def postgres_operations update_statement_def elim!: bindc_OkE)
  with update_typed [OF cl] have "update_fits df (map (to_postgres_value jt) (values @ [DbText now, DbInteger r]))" by blast
  then show ?thesis using len by (simp add: update_fits_def list_all2_append)
qed

text \<open>The JSON values a column of a generic entity takes: booleans the flags, everything but booleans and numbers the texts.\<close>

definition column_takes :: "string option \<Rightarrow> json \<Rightarrow> bool" where
  "column_takes t v =
     (case v of
        JBool b \<Rightarrow> t = Some ''BOOLEAN''
      | JNum n \<Rightarrow> False
      | _ \<Rightarrow> t \<in> {Some ''VARCHAR'', Some ''TEXT''})"

lemma entity_column_types:
  "list_all (\<lambda>df. list_all (\<lambda>f. postgres_type (ed_table df) f \<in> {Some ''VARCHAR'', Some ''TEXT'', Some ''BOOLEAN'', Some ''NUMERIC''} \<and>
     (if f \<in> set integer_fields then postgres_type (ed_table df) f = Some ''BOOLEAN'' else True)) (ed_fields df) \<and>
     (if ed_table df = ''produtos'' then ''valor'' \<in> set (ed_fields df) else True)) all_entities"
  "postgres_type ''produtos'' ''valor'' = Some ''NUMERIC''"
  by code_simp+

lemma fits_takes:
  assumes "fits_column table (to_postgres_value jt (db_value_of_json v)) f"
    and "postgres_type table f \<in> {Some ''VARCHAR'', Some ''TEXT'', Some ''BOOLEAN'', Some ''NUMERIC''}"
  shows "column_takes (postgres_type table f) v"
  using assms by (cases v) (auto simp: fits_column_def to_postgres_value_def column_takes_def split: option.splits)

lemma normalized_takes:
  assumes "column_takes t (normalize_value payload f)" "f \<in> set integer_fields \<Longrightarrow> t = Some ''BOOLEAN''"
  shows "column_takes t (unwrap_or JNull (obj_get payload f))"
  using assms by (auto simp: normalize_value_def Let_def column_takes_def js_int_def split: json.splits if_splits option.splits)

lemma provider_save_stores:
  assumes "provider_save_with_database sy pv entity payload d = (Ok saved, d')"
  obtains df now i d1 d2 where "entity_definition entity = Some df"
    "provider_store pv df (payload_id payload) (map (\<lambda>field. db_value_of_json (normalize_value payload field)) (ed_fields df)) now d1 = (Ok i, d2)"
  using assms by (auto simp: provider_save_with_database_def lift_Ok entity_or_error_Ok Let_def elim!: bindc_OkE)

text \<open>C15. On PostgreSQL a generic command saves a record only when the payload gives every flag as a boolean and no text column a number or a boolean: a flag that is a number, as SQLite answers it, or is missing makes the command fail. A product is never saved, since no type the provider sends fits its value, a \<open>NUMERIC\<close>.\<close>

theorem postgres_saves_typed:
  assumes "checks_types cl" "entity_definition entity = Some df"
    and "provider_save_with_database sy (postgres_provider True cl jt config) entity payload d = (Ok saved, d')"
  shows "list_all (\<lambda>f. column_takes (postgres_type (ed_table df) f) (unwrap_or JNull (obj_get payload f))) (ed_fields df) \<and>
    ed_table df \<noteq> ''produtos''"
proof -
  note df = entity_definition_listed [OF assms(2)]
  obtain now i d1 d2 where "provider_store (postgres_provider True cl jt config) df (payload_id payload)
      (map (\<lambda>field. db_value_of_json (normalize_value payload field)) (ed_fields df)) now d1 = (Ok i, d2)"
    using assms(2, 3) by (auto elim: provider_save_stores)
  from store_typed [OF assms(1) df this]
  have fit: "fits_column (ed_table df) (to_postgres_value jt (db_value_of_json (normalize_value payload f))) f" if "f \<in> set (ed_fields df)" for f
    using that by (auto simp: list_all2_conv_all_nth in_set_conv_nth)
  have types: "\<forall>f \<in> set (ed_fields df). postgres_type (ed_table df) f \<in> {Some ''VARCHAR'', Some ''TEXT'', Some ''BOOLEAN'', Some ''NUMERIC''} \<and>
      (f \<in> set integer_fields \<longrightarrow> postgres_type (ed_table df) f = Some ''BOOLEAN'')"
    "ed_table df = ''produtos'' \<Longrightarrow> ''valor'' \<in> set (ed_fields df)"
    using entity_column_types(1) df unfolding list_all_iff by (metis+)
  have "column_takes (postgres_type (ed_table df) f) (unwrap_or JNull (obj_get payload f))" if "f \<in> set (ed_fields df)" for f
    using fits_takes [OF fit [OF that]] types(1) that by (blast intro: normalized_takes)
  moreover have "\<not> column_takes (Some ''NUMERIC'') v" for v by (cases v) (simp_all add: column_takes_def)
  ultimately show ?thesis using types(2) entity_column_types(2) unfolding list_all_iff by metis
qed

text \<open>A server that counts what it stores, and refuses parameters of the wrong type.\<close>

definition typed_client :: "(unit, nat) pg_client" where
  "typed_client =
     \<lparr>pg_connect = (\<lambda>_. ret ()), pg_simple_query = (\<lambda>_. ret ()), pg_batch_execute = (\<lambda>_. ret ()),
      pg_execute = (\<lambda>sql ps w.
        if list_ex (\<lambda>df. starts_with sql (''UPDATE '' @ ed_table df @ '' SET '') \<and> \<not> update_fits df ps) all_entities then (Err ''wrong type'', w)
        else (Ok 1, (fst w, snd w + 1))),
      pg_query = (\<lambda>sql ps w.
        if list_ex (\<lambda>df. starts_with sql (''INSERT INTO '' @ ed_table df @ '' ('') \<and> \<not> insert_fits df ps) all_entities then (Err ''wrong type'', w)
        else (Ok [[(''id'', \<lparr>pc_string = None, pc_i64 = Some (Some 1), pc_i32 = None, pc_f64 = None, pc_bool = None\<rparr>)]],
              (fst w, snd w + 1)))\<rparr>"

lemma typed_client_checks: "checks_types typed_client"
  by (auto simp: checks_types_def typed_client_def list_ex_iff insert_statement_def update_statement_def insert_sql_def update_sql_def
      Let_def starts_with_def)

definition postgres_config :: database_config where
  "postgres_config = database_config_default\<lparr>dc_driver := Postgres, dc_database := Some ''loja''\<rparr>"

lemma typed_operations:
  defines "tp \<equiv> postgres_provider True typed_client (\<lambda>_. []) postgres_config"
  shows "pv_driver tp = Postgres" "placeholder tp = dollar"
    "pv_execute tp sql ps d =
      (if list_ex (\<lambda>df. starts_with sql (''UPDATE '' @ ed_table df @ '' SET '') \<and> \<not> update_fits df (map (to_postgres_value (\<lambda>_. [])) ps)) all_entities
       then (Err ''Falha ao executar SQL PostgreSQL: wrong type'', d) else (Ok 1, d + 1))"
    "pv_query_one tp sql ps d =
      (if list_ex (\<lambda>df. starts_with sql (''INSERT INTO '' @ ed_table df @ '' ('') \<and> \<not> insert_fits df (map (to_postgres_value (\<lambda>_. [])) ps)) all_entities
       then (Err ''Falha ao consultar PostgreSQL: wrong type'', d) else (Ok (Some [(''id'', js_int 1)]), d + 1))"
proof -
  have opened: "with_postgres typed_client postgres_config body d = (case body ((), d) of (r, (_, d')) \<Rightarrow> (r, d'))"
    for body :: "('a, unit \<times> nat) cmd" and d
    by (simp add: with_postgres_def postgres_client_def connection_string_def postgres_connection_info_def connection_info_or_def
        postgres_config_def database_config_default_def typed_client_def labelled_def mapped_def lift_def bindc_def ret_def)
  show "pv_execute tp sql ps d =
      (if list_ex (\<lambda>df. starts_with sql (''UPDATE '' @ ed_table df @ '' SET '') \<and> \<not> update_fits df (map (to_postgres_value (\<lambda>_. [])) ps)) all_entities
       then (Err ''Falha ao executar SQL PostgreSQL: wrong type'', d) else (Ok 1, d + 1))"
    by (simp add: tp_def postgres_operations execute_postgres_def opened labelled_def mapped_def) (simp add: typed_client_def)
  show "pv_query_one tp sql ps d =
      (if list_ex (\<lambda>df. starts_with sql (''INSERT INTO '' @ ed_table df @ '' ('') \<and> \<not> insert_fits df (map (to_postgres_value (\<lambda>_. [])) ps)) all_entities
       then (Err ''Falha ao consultar PostgreSQL: wrong type'', d) else (Ok (Some [(''id'', js_int 1)]), d + 1))"
    by (simp add: tp_def postgres_operations query_postgres_def opened labelled_def mapped_def bindc_def)
      (simp add: typed_client_def ret_def popped_def postgres_row_to_json_def postgres_value_to_json_def or_null_def)
qed (simp_all add: tp_def postgres_operations)

theorem postgres_saves_typed_witness:
  "list_all (\<lambda>f. column_takes (postgres_type ''funcoes'' f)
     (unwrap_or JNull (obj_get [(''descricao'', JStr ''Caixa''), (''ativo'', JBool True)] f))) [''descricao'', ''ativo'']"
proof -
  define payload where "payload = [(''descricao'', JStr ''Caixa''), (''ativo'', JBool True)]"
  define df where "df = \<lparr>ed_table = ''funcoes'', ed_fields = [''descricao'', ''ativo''],
      ed_searchable = [''descricao''], ed_required = [''descricao''], ed_label_column = ''descricao''\<rparr>"
  have def: "entity_definition ''funcoes'' = Some df" by (simp add: entity_definition_def df_def)
  have t: "trim ''Caixa'' = ''Caixa''" by (rule trim_graph) (simp_all add: graph_char_def)
  have "postgres_type ''funcoes'' ''descricao'' = Some ''VARCHAR''" "postgres_type ''funcoes'' ''ativo'' = Some ''BOOLEAN''"
    "postgres_type ''funcoes'' ''created_at'' = Some ''VARCHAR''" "postgres_type ''funcoes'' ''updated_at'' = Some ''VARCHAR''"
    by code_simp+
  then have fits: "insert_fits df [PgString x, PgBool b, PgString y, PgString z]" for x b y z
    by (simp add: insert_fits_def df_def fits_column_def)
  have table: "list_all (\<lambda>e. if starts_with (''INSERT INTO funcoes ('' @ r) (''INSERT INTO '' @ ed_table e @ '' ('') then e = df else True) all_entities" for r
    by (simp add: all_entities_def entity_definition_def List.map_filter_def df_def)
  let ?tp = "postgres_provider True typed_client (\<lambda>_. []) postgres_config"
  have "provider_store ?tp df None [DbText ''Caixa'', DbBool True] now 4 = (Ok 1, 5)" for now
  proof -
    have "\<not> list_ex (\<lambda>e. starts_with (insert_sql dollar ''funcoes'' [''descricao'', ''ativo''] @ r) (''INSERT INTO '' @ ed_table e @ '' ('') \<and>
      \<not> insert_fits e [PgString x, PgBool b, PgString y, PgString z]) all_entities" for r x b y z
      using table fits by (auto simp: list_ex_iff list_all_iff insert_sql_def Let_def)
    then show ?thesis
      by (simp add: provider_store_def Let_def typed_operations bindc_def lift_def df_def to_postgres_value_def returned_id_def payload_id_def js_int_def)
  qed
  moreover have "provider_get_with_database ?tp ''funcoes'' 1 5 = (Ok (Some [(''id'', js_int 1)]), 6)"
    by (simp add: provider_get_with_database_def entity_or_error_def def bindc_def lift_def typed_operations select_sql_def list_ex_iff)
  moreover have "provider_insert_audit ?tp jt e a i p now 6 = (Ok (), 7)" "provider_enqueue_sync ?tp jt e a i p now 7 = (Ok (), 8)" for jt e a i p now
    by (simp_all add: provider_insert_audit_def provider_enqueue_sync_def bindc_def ret_def typed_operations provider_audit_sql_def
        provider_sync_sql_def list_ex_iff)
  ultimately have "provider_save_with_database counting_host ?tp ''funcoes'' payload 4 = (Ok [(''id'', js_int 1)], 8)"
    by (simp add: provider_save_with_database_def entity_or_error_def def bindc_def lift_def ret_def Let_def payload_def payload_id_def
        counting_host_def df_def t normalize_value_def integer_fields_def)
  from postgres_saves_typed [OF typed_client_checks def this] show ?thesis by (simp add: payload_def df_def)
qed

subsection \<open>Creating a record on MySQL\<close>

lemma mysql_operations:
  "pv_driver (mysql_provider True cl jt config) = Mysql" "placeholder (mysql_provider True cl jt config) = question"
  "last_insert_id_sql (mysql_provider True cl jt config) = ''SELECT LAST_INSERT_ID() AS id''"
  "pv_execute (mysql_provider True cl jt config) sql ps = execute_mysql cl jt config sql ps"
  "pv_query_one (mysql_provider True cl jt config) sql ps = bindc (query_mysql cl jt config sql ps) (\<lambda>rows. ret (popped rows))"
  by (auto simp: mysql_provider_def placeholder_def last_insert_id_sql_def)

text \<open>Pools and connections that are made without a trace on the server, every one of them fresh: its \<^verbatim>\<open>LAST_INSERT_ID()\<close> is 0.\<close>

definition fresh_mysql :: "('p, 'c, 'd) mysql_client \<Rightarrow> database_config \<Rightarrow> 'c \<Rightarrow> bool" where
  "fresh_mysql cl config conn \<longleftrightarrow>
     (\<forall>d. \<exists>p. mysql_pool cl config d = (Ok p, d) \<and> my_get_conn cl p d = (Ok conn, d) \<and>
        my_exec cl ''SELECT LAST_INSERT_ID() AS id'' [] (conn, d) = (Ok [[(''id'', MyInt 0)]], (conn, d)))"

lemma with_fresh_mysql:
  assumes "fresh_mysql cl config conn"
  shows "with_mysql cl config body d = (case body (conn, d) of (r, (_, d')) \<Rightarrow> (r, d'))"
proof -
  obtain p where "mysql_pool cl config d = (Ok p, d)" "my_get_conn cl p d = (Ok conn, d)"
    using assms unfolding fresh_mysql_def by blast
  then show ?thesis by (simp add: with_mysql_def bindc_def labelled_def mapped_def)
qed

lemma fresh_last_id:
  "fresh_mysql cl config conn \<Longrightarrow> my_exec cl ''SELECT LAST_INSERT_ID() AS id'' [] (conn, d) = (Ok [[(''id'', MyInt 0)]], (conn, d))"
  unfolding fresh_mysql_def by blast

theorem mysql_provider_create_fails:
  assumes df: "entity_definition entity = Some df" and new: "payload_id payload = None"
    and required: "check_required payload (ed_required df) = Ok ()"
    and clock: "ho_now sy da = (Ok now, db)" and fresh: "fresh_mysql cl config conn"
    and inserted: "my_exec_drop cl (insert_sql question (ed_table df) (ed_fields df))
      (map (\<lambda>field. to_mysql_value jt (db_value_of_json (normalize_value payload field))) (ed_fields df) @ [MyBytes now, MyBytes now]) (conn, db) =
      (Ok (), (ce, dc))"
    and zero: "my_exec cl (select_sql ''?'' df) [MyInt 0] (conn, dc) = (Ok [], (conn, dc))"
  shows "provider_save_with_database sy (mysql_provider True cl jt config) entity payload da =
    (Err (''Registro salvo n'' @ u_atilde @ ''o encontrado pelo provider.''), dc)"
proof (rule provider_create_not_found [OF df new required clock])
  show "pv_execute (mysql_provider True cl jt config) (insert_sql (placeholder (mysql_provider True cl jt config)) (ed_table df) (ed_fields df))
      (map (\<lambda>field. db_value_of_json (normalize_value payload field)) (ed_fields df) @ [DbText now, DbText now]) db =
      (Ok (my_affected_rows cl ce), dc)"
    using inserted by (simp add: mysql_operations execute_mysql_def with_fresh_mysql [OF fresh] bindc_def labelled_def mapped_def comp_def
        to_mysql_value_def)
  show "pv_query_one (mysql_provider True cl jt config) (last_insert_id_sql (mysql_provider True cl jt config)) [] dc =
      (Ok (Some [(''id'', js_int 0)]), dc)"
    using fresh_last_id [OF fresh] by (simp add: mysql_operations query_mysql_def with_fresh_mysql [OF fresh] bindc_def labelled_def mapped_def
        ret_def popped_def mysql_row_to_json_def)
  show "pv_query_one (mysql_provider True cl jt config) (select_sql (placeholder (mysql_provider True cl jt config) 1) df) [DbInteger 0] dc =
      (Ok None, dc)"
    using zero by (simp add: mysql_operations query_mysql_def with_fresh_mysql [OF fresh] bindc_def labelled_def mapped_def
        ret_def popped_def to_mysql_value_def)
qed (simp add: mysql_operations)

subsection \<open>Reports and schemas\<close>

lemma database_report_ok:
  "hr_ok (fst (database_report dbs config path d)) \<longleftrightarrow> fst (check_database dbs config d) = Ok True"
  by (auto simp: database_report_def Let_def split: prod.splits sum.splits)

lemma firebird_refused: "fst (check_database dbs (config\<lparr>dc_driver := FirebirdUnsupported\<rparr>) d) \<noteq> Ok b"
  by (simp add: check_database_def firebird_health_def lift_def)

text \<open>A statement of the MySQL migration passes over every error whose text holds the digits 1061.\<close>

lemma mysql_statement_ignores:
  assumes "my_query_drop cl sql w = (Err err, w')" "contains err ''1061''"
  shows "mysql_statement cl sql w = (Ok (), w')"
  using assms by (simp add: mysql_statement_def)

text \<open>A blank in the password starts a new setting of the connection string.\<close>

lemma password_adds_settings:
  assumes "connection_string (config\<lparr>dc_password := Some p\<rparr>) = Ok text" "p \<noteq> []"
  shows "connection_string (config\<lparr>dc_password := Some (p @ '' '' @ extra)\<rparr>) = Ok (text @ '' '' @ extra)"
  using assms by (auto simp: connection_string_def postgres_connection_info_def connection_info_or_def and_then_Ok_iff split: if_splits)

end
