(* ===== verification/Integrations.thy ===== *)
theory Integrations
  imports License_Env Support
begin

text \<open>
  The integrations with services over HTTP, \<^verbatim>\<open>commands/integrations.rs\<close>: the tables \<^verbatim>\<open>integration_configs\<close>
  and \<^verbatim>\<open>integration_logs\<close>, the commands on them and the request that tests an integration. The HTTP
  client and the JSON parser are parameters; what was sent is kept, in order, in the state.
\<close>

subsection \<open>State\<close>

record integration =
  ig_id :: int
  ig_nome :: string
  ig_tipo :: string
  ig_base_url :: string
  ig_metodo_padrao :: string
  ig_headers_json :: "string option"
  ig_token_encrypted :: "string option"
  ig_ambiente :: string
  ig_status :: string
  ig_timeout_seconds :: int
  ig_retry_attempts :: int
  ig_ultimo_erro :: "string option"
  ig_ultima_execucao_em :: "string option"
  ig_ativo :: int
  ig_created_at :: string
  ig_updated_at :: string

record integration_log =
  il_id :: int
  il_integration_id :: "int option"
  il_method :: string
  il_url :: string
  il_status_code :: "int option"
  il_success :: int
  il_duration_ms :: int
  il_error_message :: "string option"
  il_created_at :: string

record test_request =
  tr_method :: string
  tr_url :: string
  tr_headers :: "(string \<times> string) list"
  tr_bearer :: "string option"
  tr_timeout :: nat

text \<open>The rows of both tables stand in the order of their keys.\<close>

record 'g integration_world =
  iw_app :: "'g app_world"
  iw_configs :: "integration list"
  iw_logs :: "integration_log list"
  iw_sent :: "test_request list"

text \<open>
  \<open>ih_send\<close> gives the status of the answer or the error, and the milliseconds that passed; it may depend
  on what was sent before.
\<close>

record 'g integration_host =
  ih_sys :: "'g app_sys"
  ih_parse :: "string \<Rightarrow> json option"
  ih_client :: "nat \<Rightarrow> (unit, string) result"
  ih_send :: "test_request \<Rightarrow> test_request list \<Rightarrow> (nat, string) result \<times> int"

definition on_console :: "('a, 'g app_world) cmd \<Rightarrow> ('a, 'g integration_world) cmd" where
  "on_console m w = (case m (iw_app w) of (r, a) \<Rightarrow> (r, w\<lparr>iw_app := a\<rparr>))"

definition iw_query :: "'g integration_host \<Rightarrow> string \<Rightarrow> ('g integration_world \<Rightarrow> 'a) \<Rightarrow> ('a, 'g integration_world) cmd" where
  "iw_query h msg q w = (case sa_fail (ih_sys h) msg of Some err \<Rightarrow> (Err (msg @ '': '' @ err), w) | None \<Rightarrow> (Ok (q w), w))"

definition iw_exec ::
  "'g integration_host \<Rightarrow> string \<Rightarrow> ('g integration_world \<Rightarrow> 'g integration_world) \<Rightarrow> (unit, 'g integration_world) cmd" where
  "iw_exec h msg stmt w = (case sa_fail (ih_sys h) msg of Some err \<Rightarrow> (Err (msg @ '': '' @ err), w) | None \<Rightarrow> (Ok (), stmt w))"

subsection \<open>Listing\<close>

definition integration_json :: "integration \<Rightarrow> json" where
  "integration_json c = JObj
     [(''id'', js_int (ig_id c)), (''nome'', JStr (ig_nome c)), (''tipo'', JStr (ig_tipo c)), (''base_url'', JStr (ig_base_url c)),
      (''metodo_padrao'', JStr (ig_metodo_padrao c)), (''headers_json'', js_opt (ig_headers_json c)),
      (''ambiente'', JStr (ig_ambiente c)), (''status'', JStr (ig_status c)), (''timeout_seconds'', js_int (ig_timeout_seconds c)),
      (''retry_attempts'', js_int (ig_retry_attempts c)), (''ultimo_erro'', js_opt (ig_ultimo_erro c)),
      (''ultima_execucao_em'', js_opt (ig_ultima_execucao_em c)), (''ativo'', js_int (ig_ativo c)),
      (''created_at'', JStr (ig_created_at c)), (''updated_at'', JStr (ig_updated_at c))]"

definition integration_list :: "'g integration_host \<Rightarrow> (json list, 'g integration_world) cmd" where
  "integration_list h =
     bindc (on_console (connect (ih_sys h))) (\<lambda>_ w.
     (and_then (stmts (ih_sys h) [(''Falha ao preparar listagem de integra'' @ u_ccedil @ u_otilde @ ''es''), (''Falha ao consultar integra'' @ u_ccedil @ u_otilde @ ''es''), (''Falha ao mapear integra'' @ u_ccedil @ u_atilde @ ''o'')])
        (\<lambda>_. Ok (map integration_json (sort_key ig_nome (iw_configs w)))), w))"

subsection \<open>Saving and deleting\<close>

definition payload_text :: "json_obj \<Rightarrow> string \<Rightarrow> string option" where
  "payload_text payload key = opt_filter (\<lambda>v. v \<noteq> []) (map_option trim (Option.bind (obj_get payload key) as_str))"

definition payload_int :: "json_obj \<Rightarrow> string \<Rightarrow> int option" where
  "payload_int payload key = Option.bind (obj_get payload key) as_i64"

fun true_flag :: "json \<Rightarrow> bool option" where
  "true_flag (JBool b) = Some b"
| "true_flag _ = None"

text \<open>The row a payload describes; its key and the columns that only a test writes are filled in later.\<close>

definition payload_row :: "'g integration_host \<Rightarrow> json_obj \<Rightarrow> string \<Rightarrow> string \<Rightarrow> string \<Rightarrow> integration" where
  "payload_row h payload nome base_url now =
     \<lparr>ig_id = 0, ig_nome = nome, ig_tipo = unwrap_or ''rest'' (payload_text payload ''tipo''), ig_base_url = base_url,
      ig_metodo_padrao = unwrap_or ''GET'' (payload_text payload ''metodo_padrao''),
      ig_headers_json =
        map_option (lg_json_text (sa_log (ih_sys h))) (or_else (obj_get payload ''headers'') (obj_get payload ''headers_json'')),
      ig_token_encrypted =
        map_option (encrypt_text (sa_crypto (ih_sys h)) (host_key (ih_sys h))) (payload_text payload ''token''),
      ig_ambiente = unwrap_or ''production'' (payload_text payload ''ambiente''),
      ig_status = unwrap_or ''inactive'' (payload_text payload ''status''),
      ig_timeout_seconds = unwrap_or 30 (payload_int payload ''timeout_seconds''),
      ig_retry_attempts = unwrap_or 0 (payload_int payload ''retry_attempts''),
      ig_ultimo_erro = None, ig_ultima_execucao_em = None,
      ig_ativo = of_bool (unwrap_or True (Option.bind (obj_get payload ''ativo'') true_flag)),
      ig_created_at = now, ig_updated_at = now\<rparr>"

text \<open>Without a token the update leaves the stored one.\<close>

definition updated_integration :: "integration \<Rightarrow> integration \<Rightarrow> integration" where
  "updated_integration row c =
     row\<lparr>ig_id := ig_id c, ig_token_encrypted := or_else (ig_token_encrypted row) (ig_token_encrypted c),
       ig_ultimo_erro := ig_ultimo_erro c, ig_ultima_execucao_em := ig_ultima_execucao_em c, ig_created_at := ig_created_at c\<rparr>"

definition update_configs :: "int \<Rightarrow> (integration \<Rightarrow> integration) \<Rightarrow> 'g integration_world \<Rightarrow> 'g integration_world" where
  "update_configs i f w = w\<lparr>iw_configs := map (\<lambda>c. if ig_id c = i then f c else c) (iw_configs w)\<rparr>"

definition next_row :: "string \<Rightarrow> 'g integration_world \<Rightarrow> int \<times> 'g integration_world" where
  "next_row table w =
     (let i = next_key table (iw_app w) in (i, w\<lparr>iw_app := (iw_app w)\<lparr>db_seq := (db_seq (iw_app w))(table := i)\<rparr>\<rparr>))"

definition insert_config :: "integration \<Rightarrow> 'g integration_world \<Rightarrow> 'g integration_world" where
  "insert_config row w =
     (case next_row ''integration_configs'' w of (i, w1) \<Rightarrow> w1\<lparr>iw_configs := iw_configs w1 @ [row\<lparr>ig_id := i\<rparr>]\<rparr>)"

definition integration_save :: "'g integration_host \<Rightarrow> json_obj \<Rightarrow> (int, 'g integration_world) cmd" where
  "integration_save h payload =
     bindc (on_console (connect (ih_sys h))) (\<lambda>_.
     bindc (lift (ok_or ((''Informe o nome da integra'' @ u_ccedil @ u_atilde @ ''o.'')) (payload_text payload ''nome''))) (\<lambda>nome.
     bindc (lift (ok_or ((''Informe a URL base da integra'' @ u_ccedil @ u_atilde @ ''o.'')) (payload_text payload ''base_url''))) (\<lambda>base_url.
     bindc (on_console (clock_text (ih_sys h))) (\<lambda>now.
     let row = payload_row h payload nome base_url now in
     case payload_int payload ''id'' of
       Some i \<Rightarrow>
         bindc (iw_exec h ((''Falha ao atualizar integra'' @ u_ccedil @ u_atilde @ ''o'')) (update_configs i (updated_integration row))) (\<lambda>_. ret i)
     | None \<Rightarrow>
         bindc (iw_exec h ((''Falha ao criar integra'' @ u_ccedil @ u_atilde @ ''o'')) (insert_config row)) (\<lambda>_ w.
         (Ok (db_seq (iw_app w) ''integration_configs''), w))))))"

text \<open>Deleting an integration takes it out of the rows that logged its tests.\<close>

definition unlink :: "int \<Rightarrow> integration_log \<Rightarrow> integration_log" where
  "unlink i l = (if il_integration_id l = Some i then l\<lparr>il_integration_id := None\<rparr> else l)"

definition delete_config :: "int \<Rightarrow> 'g integration_world \<Rightarrow> 'g integration_world" where
  "delete_config i w =
     (if i \<in> set (map ig_id (iw_configs w)) then
        w\<lparr>iw_configs := filter (\<lambda>c. ig_id c \<noteq> i) (iw_configs w),
          iw_logs := map (unlink i) (iw_logs w)\<rparr>
      else w)"

definition integration_delete :: "'g integration_host \<Rightarrow> int \<Rightarrow> (bool, 'g integration_world) cmd" where
  "integration_delete h i =
     bindc (on_console (connect (ih_sys h))) (\<lambda>_.
     bindc (iw_exec h ((''Falha ao excluir integra'' @ u_ccedil @ u_atilde @ ''o'')) (delete_config i)) (\<lambda>_. ret True))"

subsection \<open>Testing\<close>

definition request_method :: "string \<Rightarrow> string" where
  "request_method stored =
     (let m = map ascii_upper stored in if m \<in> {''POST'', ''PUT'', ''PATCH'', ''DELETE''} then m else ''GET'')"

definition request_headers :: "(string \<Rightarrow> json option) \<Rightarrow> string option \<Rightarrow> (string \<times> string) list" where
  "request_headers parse stored =
     (case Option.bind stored parse of
        Some (JObj m) \<Rightarrow> List.map_filter (\<lambda>(k, v). map_option (Pair k) (as_str v)) m
      | _ \<Rightarrow> [])"

definition request_bearer :: "crypto \<Rightarrow> string \<Rightarrow> string option \<Rightarrow> string option" where
  "request_bearer cr key stored =
     Option.bind stored (\<lambda>cipher. opt_filter (\<lambda>token. trim token \<noteq> []) (ok_opt (decrypt_text cr key cipher)))"

definition request_of :: "'g integration_host \<Rightarrow> integration \<Rightarrow> test_request" where
  "request_of h c =
     \<lparr>tr_method = request_method (ig_metodo_padrao c), tr_url = ig_base_url c,
      tr_headers = request_headers (ih_parse h) (ig_headers_json c),
      tr_bearer = request_bearer (sa_crypto (ih_sys h)) (host_key (ih_sys h)) (ig_token_encrypted c),
      tr_timeout = nat (max 1 (ig_timeout_seconds c))\<rparr>"

definition send_test ::
  "'g integration_host \<Rightarrow> test_request \<Rightarrow> ((nat, string) result \<times> int, 'g integration_world) cmd" where
  "send_test h rq w = (Ok (ih_send h rq (iw_sent w)), w\<lparr>iw_sent := iw_sent w @ [rq]\<rparr>)"

definition outcome_of :: "(nat, string) result \<Rightarrow> bool \<times> int option \<times> string option" where
  "outcome_of r = (case r of Inr status \<Rightarrow> (is_success status, Some (int status), None) | Inl err \<Rightarrow> (False, None, Some err))"

definition insert_test_log :: "integration_log \<Rightarrow> 'g integration_world \<Rightarrow> 'g integration_world" where
  "insert_test_log row w =
     (case next_row ''integration_logs'' w of (i, w1) \<Rightarrow> w1\<lparr>iw_logs := iw_logs w1 @ [row\<lparr>il_id := i\<rparr>]\<rparr>)"

definition tested_row :: "bool \<Rightarrow> string option \<Rightarrow> string \<Rightarrow> integration \<Rightarrow> integration" where
  "tested_row success error_message created c =
     c\<lparr>ig_status := (if success then ''active'' else ''error''), ig_ultimo_erro := error_message,
       ig_ultima_execucao_em := Some created, ig_updated_at := created\<rparr>"

definition test_log :: "integration \<Rightarrow> (nat, string) result \<Rightarrow> int \<Rightarrow> string \<Rightarrow> integration_log" where
  "test_log c response duration created =
     (case outcome_of response of (success, status_code, error_message) \<Rightarrow>
        \<lparr>il_id = 0, il_integration_id = Some (ig_id c), il_method = ig_metodo_padrao c, il_url = ig_base_url c,
         il_status_code = status_code, il_success = of_bool success, il_duration_ms = duration,
         il_error_message = error_message, il_created_at = created\<rparr>)"

definition test_answer :: "(nat, string) result \<Rightarrow> int \<Rightarrow> json_obj" where
  "test_answer response duration =
     (case outcome_of response of (success, status_code, error_message) \<Rightarrow>
        [(''duration_ms'', js_int duration), (''error_message'', js_opt error_message),
         (''status_code'', case status_code of None \<Rightarrow> JNull | Some s \<Rightarrow> js_int s), (''success'', JBool success)])"

definition record_test :: "'g integration_host \<Rightarrow> integration \<Rightarrow> (nat, string) result \<Rightarrow> int \<Rightarrow> (json_obj, 'g integration_world) cmd" where
  "record_test h c response duration =
     bindc (on_console (clock_text (ih_sys h))) (\<lambda>created.
     bindc (iw_exec h ((''Falha ao registrar log de integra'' @ u_ccedil @ u_atilde @ ''o'')) (insert_test_log (test_log c response duration created))) (\<lambda>_.
     bindc (iw_exec h ((''Falha ao atualizar status da integra'' @ u_ccedil @ u_atilde @ ''o''))
         (update_configs (ig_id c) (tested_row (fst (outcome_of response)) (snd (snd (outcome_of response))) created))) (\<lambda>_.
     ret (test_answer response duration))))"

definition integration_of :: "int \<Rightarrow> 'g integration_world \<Rightarrow> integration option" where
  "integration_of i w = find (\<lambda>c. ig_id c = i) (iw_configs w)"

definition integration_test :: "'g integration_host \<Rightarrow> int \<Rightarrow> (json_obj, 'g integration_world) cmd" where
  "integration_test h i =
     bindc (on_console (connect (ih_sys h))) (\<lambda>_.
     bindc (iw_query h ((''Falha ao localizar integra'' @ u_ccedil @ u_atilde @ ''o'')) (integration_of i)) (\<lambda>row.
     bindc (lift (ok_or ((''Integra'' @ u_ccedil @ u_atilde @ ''o n'' @ u_atilde @ ''o encontrada.'')) row)) (\<lambda>c.
     bindc (lift (map_err (\<lambda>err. ''Falha ao criar cliente HTTP: '' @ err) (ih_client h (tr_timeout (request_of h c))))) (\<lambda>_.
     bindc (send_test h (request_of h c)) (\<lambda>(response, duration).
     record_test h c response duration)))))"

subsection \<open>The log of tests\<close>

definition test_log_json :: "integration_log \<Rightarrow> json" where
  "test_log_json l = JObj
     [(''id'', js_int (il_id l)), (''integration_id'', case il_integration_id l of None \<Rightarrow> JNull | Some i \<Rightarrow> js_int i),
      (''method'', JStr (il_method l)), (''url'', JStr (il_url l)),
      (''status_code'', case il_status_code l of None \<Rightarrow> JNull | Some s \<Rightarrow> js_int s), (''success'', js_int (il_success l)),
      (''duration_ms'', js_int (il_duration_ms l)), (''error_message'', js_opt (il_error_message l)),
      (''created_at'', JStr (il_created_at l))]"

text \<open>The errors of this listing are reported without a text of their own.\<close>

definition integration_logs :: "'g integration_host \<Rightarrow> int option \<Rightarrow> (json list, 'g integration_world) cmd" where
  "integration_logs h integration_id =
     bindc (on_console (connect (ih_sys h))) (\<lambda>_ w.
     (case sa_fail (ih_sys h) ''integration_logs'' of
        Some err \<Rightarrow> Err err
      | None \<Rightarrow>
          Ok (map test_log_json (take 200 (rev (filter (\<lambda>l. case integration_id of None \<Rightarrow> True | Some i \<Rightarrow> il_integration_id l = Some i)
            (iw_logs w))))), w))"

subsection \<open>What a test does\<close>

definition tested :: "(nat, string) result \<Rightarrow> string \<Rightarrow> integration \<Rightarrow> integration" where
  "tested response created = tested_row (fst (outcome_of response)) (snd (snd (outcome_of response))) created"

text \<open>A host on which no statement fails, the database opens and an HTTP client is made.\<close>

definition calm :: "'g integration_host \<Rightarrow> bool" where
  "calm h \<longleftrightarrow> sa_fail (ih_sys h) = (\<lambda>_. None) \<and> (\<forall>a. connect (ih_sys h) a = (Ok (), a)) \<and> (\<forall>n. ih_client h n = Ok ())"

lemma calm_steps:
  assumes "calm h"
  shows "on_console (connect (ih_sys h)) w = (Ok (), w)" "iw_query h msg q w = (Ok (q w), w)" "iw_exec h msg stmt w = (Ok (), stmt w)"
  using assms by (simp_all add: calm_def on_console_def iw_query_def iw_exec_def)

lemma clock_app: "on_console (clock_text sy) w =
   (Ok (sa_rfc3339 sy (sa_time sy (aw_reads (iw_app w)))), w\<lparr>iw_app := (iw_app w)\<lparr>aw_reads := Suc (aw_reads (iw_app w))\<rparr>\<rparr>)"
  by (simp add: on_console_def clock_text_def clock_def bindc_def ret_def)

lemma bindcE:
  assumes "bindc m f w = (r, w')"
  obtains e where "m w = (Err e, w')" "r = Err e" | x w1 where "m w = (Ok x, w1)" "f x w1 = (r, w')"
  using assms by (auto simp: bindc_def split: prod.splits sum.splits)

lemma connect_app: "on_console (connect sy) w = (r, w') \<Longrightarrow> w' = w"
  by (auto simp: on_console_def connect_def lift_def)

lemma iw_query_cases: "iw_query h msg q w = (r, w') \<Longrightarrow> w' = w \<and> (r = Ok (q w) \<or> (\<exists>e. r = Err e))"
  by (auto simp: iw_query_def split: option.splits)

lemma iw_exec_cases: "iw_exec h msg stmt w = (r, w') \<Longrightarrow> r = Ok () \<and> w' = stmt w \<or> (\<exists>e. r = Err e \<and> w' = w)"
  by (auto simp: iw_exec_def split: option.splits)

definition read_clock :: "'g integration_world \<Rightarrow> 'g integration_world" where
  "read_clock w = w\<lparr>iw_app := (iw_app w)\<lparr>aw_reads := Suc (aw_reads (iw_app w))\<rparr>\<rparr>"

lemma record_world:
  assumes "record_test h c response duration w = (r, w')"
  shows "\<exists>created. w' = read_clock w \<or> w' = insert_test_log (test_log c response duration created) (read_clock w) \<or>
    w' = update_configs (ig_id c) (tested response created) (insert_test_log (test_log c response duration created) (read_clock w))"
  using assms by (auto simp: record_test_def clock_app read_clock_def tested_def ret_def elim!: bindcE dest!: iw_exec_cases)

lemma test_world:
  assumes "integration_test h i w = (r, w')"
  shows "w' = w \<or> (\<exists>c response duration. integration_of i w = Some c \<and>
    ih_send h (request_of h c) (iw_sent w) = (response, duration) \<and>
    record_test h c response duration (w\<lparr>iw_sent := iw_sent w @ [request_of h c]\<rparr>) = (r, w'))"
  using assms by (auto simp: integration_test_def lift_def send_test_def ok_or_Ok split: prod.splits
      elim!: bindcE dest!: connect_app iw_query_cases)

lemma find_updated:
  assumes "find (\<lambda>c. ig_id c = i) cs = Some c" "\<And>c. ig_id (f c) = ig_id c"
  shows "find (\<lambda>c. ig_id c = i) (map (\<lambda>c. if ig_id c = i then f c else c) cs) = Some (f c)"
  using assms(1) by (induction cs) (auto simp: assms(2) split: if_splits)

lemma save_existing:
  assumes "calm h" "payload_text payload ''nome'' = Some n" "payload_text payload ''base_url'' = Some u" "payload_int payload ''id'' = Some i"
  shows "\<exists>now. integration_save h payload w = (Ok i, update_configs i (updated_integration (payload_row h payload n u now)) (read_clock w))"
  using assms by (auto simp: integration_save_def Let_def bindc_def calm_steps lift_def clock_app read_clock_def ret_def)

lemma test_runs:
  assumes "calm h" "integration_of i w = Some c"
  shows "\<exists>out w'. integration_test h i w = (Ok out, w') \<and> iw_sent w' = iw_sent w @ [request_of h c]"
  using assms
  by (cases "ih_send h (request_of h c) (iw_sent w)")
    (simp add: integration_test_def bindc_def calm_steps lift_def send_test_def calm_def record_test_def clock_app ret_def
      update_configs_def insert_test_log_def next_row_def Let_def)

text \<open>C16. A saved token goes wherever the integration is pointed to later: saving it with another address and no token keeps the token, and the next test sends it to that address. No session is asked for on the way.\<close>

theorem token_follows_address:
  assumes "calm h" and "integration_of i w = Some c"
    and "request_bearer (sa_crypto (ih_sys h)) (host_key (ih_sys h)) (ig_token_encrypted c) = Some token"
    and "payload_int payload ''id'' = Some i" "payload_text payload ''nome'' = Some n"
    and "payload_text payload ''base_url'' = Some address" "payload_text payload ''token'' = None"
  shows "\<exists>w1 out w2 rq. integration_save h payload w = (Ok i, w1) \<and> integration_test h i w1 = (Ok out, w2) \<and>
    iw_sent w2 = iw_sent w @ [rq] \<and> tr_url rq = address \<and> tr_bearer rq = Some token"
proof -
  obtain now where saved: "integration_save h payload w = (Ok i, update_configs i (updated_integration (payload_row h payload n address now)) (read_clock w))"
    using save_existing [OF assms(1, 5, 6, 4)] by blast
  let ?w1 = "update_configs i (updated_integration (payload_row h payload n address now)) (read_clock w)"
  let ?c = "updated_integration (payload_row h payload n address now) c"
  have "integration_of i ?w1 = Some ?c"
    using find_updated [OF assms(2) [unfolded integration_of_def], of "updated_integration (payload_row h payload n address now)"]
    by (simp add: integration_of_def update_configs_def read_clock_def updated_integration_def)
  from test_runs [OF assms(1) this] obtain out w2 where "integration_test h i ?w1 = (Ok out, w2)" "iw_sent w2 = iw_sent ?w1 @ [request_of h ?c]" by blast
  moreover have "tr_url (request_of h ?c) = address" "tr_bearer (request_of h ?c) = Some token"
    using assms(3, 7) by (simp_all add: request_of_def updated_integration_def payload_row_def)
  ultimately show ?thesis using saved by (auto simp: update_configs_def read_clock_def)
qed

definition demo_integration_host :: "unit integration_host" where
  "demo_integration_host = \<lparr>ih_sys = demo_app_sys, ih_parse = (\<lambda>_. None), ih_client = (\<lambda>_. Ok ()), ih_send = (\<lambda>_ _. (Ok 200, 12))\<rparr>"

definition bank_integration :: integration where
  "bank_integration =
     \<lparr>ig_id = 7, ig_nome = ''bank'', ig_tipo = ''rest'', ig_base_url = ''https://bank'', ig_metodo_padrao = ''GET'', ig_headers_json = None,
      ig_token_encrypted = Some (encrypt_text demo_crypto (host_key demo_app_sys) ''k3y''), ig_ambiente = ''production'', ig_status = ''active'',
      ig_timeout_seconds = 30, ig_retry_attempts = 0, ig_ultimo_erro = None, ig_ultima_execucao_em = None, ig_ativo = 1,
      ig_created_at = [], ig_updated_at = []\<rparr>"

definition bank_world :: "unit integration_world" where
  "bank_world = \<lparr>iw_app = demo_app_world, iw_configs = [bank_integration], iw_logs = [], iw_sent = []\<rparr>"

definition repoint :: json_obj where
  "repoint = [(''id'', js_int 7), (''nome'', JStr ''bank''), (''base_url'', JStr ''https://evil'')]"

lemma demo_host_calm: "calm demo_integration_host"
  by (simp add: calm_def demo_integration_host_def demo_app_sys_def connect_def lift_def open_connection_def state_db_path_def)

lemma bank_bearer:
  "request_bearer (sa_crypto (ih_sys demo_integration_host)) (host_key (ih_sys demo_integration_host)) (ig_token_encrypted bank_integration) = Some ''k3y''"
proof -
  have "decrypt_text demo_crypto (host_key demo_app_sys) (encrypt_text demo_crypto (host_key demo_app_sys) ''k3y'') = Ok ''k3y''"
    by (rule encrypted_text_recovers [OF demo_crypto_laws]) (simp add: as_bytes_def in_range_def)
  moreover have "trim ''k3y'' = ''k3y''" by (rule trim_graph) (simp_all add: graph_char_def)
  ultimately show ?thesis
    by (simp add: request_bearer_def demo_integration_host_def demo_app_sys_def bank_integration_def)
qed

lemma repoint_fields:
  "payload_int repoint ''id'' = Some 7" "payload_text repoint ''nome'' = Some ''bank''"
  "payload_text repoint ''base_url'' = Some ''https://evil''" "payload_text repoint ''token'' = None"
proof -
  have t: "trim ''bank'' = ''bank''" "trim ''https://evil'' = ''https://evil''"
    using trim_graph [of "''bank''"] trim_graph [of "''https://evil''"] by (simp_all add: graph_char_def)
  show "payload_int repoint ''id'' = Some 7" "payload_text repoint ''nome'' = Some ''bank''"
    "payload_text repoint ''base_url'' = Some ''https://evil''" "payload_text repoint ''token'' = None"
    by (simp_all add: payload_int_def payload_text_def repoint_def t js_int_def)
qed

theorem token_follows_address_witness:
  "\<exists>w1 out w2 rq. integration_save demo_integration_host repoint bank_world = (Ok 7, w1) \<and>
    integration_test demo_integration_host 7 w1 = (Ok out, w2) \<and> iw_sent w2 = [rq] \<and>
    tr_url rq = ''https://evil'' \<and> tr_bearer rq = Some ''k3y''"
proof -
  have "integration_of 7 bank_world = Some bank_integration"
    by (simp add: integration_of_def bank_world_def bank_integration_def)
  from token_follows_address [OF demo_host_calm this bank_bearer repoint_fields] show ?thesis by (simp add: bank_world_def)
qed

subsection \<open>The tables\<close>

datatype integration_op = ListIntegrations | SaveIntegration json_obj | DeleteIntegration int | TestIntegration int | ListTests "int option"

fun run_integration_op :: "'g integration_host \<Rightarrow> integration_op \<Rightarrow> 'g integration_world \<Rightarrow> 'g integration_world" where
  "run_integration_op h ListIntegrations w = snd (integration_list h w)"
| "run_integration_op h (SaveIntegration payload) w = snd (integration_save h payload w)"
| "run_integration_op h (DeleteIntegration i) w = snd (integration_delete h i w)"
| "run_integration_op h (TestIntegration i) w = snd (integration_test h i w)"
| "run_integration_op h (ListTests i) w = snd (integration_logs h i w)"

fun rows_below :: "int \<Rightarrow> int list \<Rightarrow> bool" where
  "rows_below n ids \<longleftrightarrow> sorted_wrt (<) ids \<and> list_all (\<lambda>i. i \<le> n) ids"

text \<open>What a row of the log says of the request it stands for.\<close>

definition log_sound :: "int list \<Rightarrow> string list \<Rightarrow> integration_log \<Rightarrow> bool" where
  "log_sound ids urls l \<longleftrightarrow>
     (case il_integration_id l of None \<Rightarrow> True | Some i \<Rightarrow> i \<in> set ids) \<and> il_url l \<in> set urls \<and>
     (il_status_code l = None) = (il_error_message l \<noteq> None) \<and>
     il_success l = of_bool (case il_status_code l of None \<Rightarrow> False | Some s \<Rightarrow> 200 \<le> s \<and> s < 300)"

definition integrations_wf :: "'g integration_world \<Rightarrow> bool" where
  "integrations_wf w \<longleftrightarrow>
     rows_below (db_seq (iw_app w) ''integration_configs'') (map ig_id (iw_configs w)) \<and>
     rows_below (db_seq (iw_app w) ''integration_logs'') (map il_id (iw_logs w)) \<and>
     length (iw_logs w) \<le> length (iw_sent w) \<and>
     list_all (log_sound (map ig_id (iw_configs w)) (map tr_url (iw_sent w))) (iw_logs w)"

lemma rows_below_snoc: "rows_below n ids \<Longrightarrow> rows_below (n + 1) (ids @ [n + 1])"
  by (auto simp: sorted_wrt_append list_all_iff)

lemma rows_below_filter: "rows_below n (map f xs) \<Longrightarrow> rows_below n (map f (filter P xs))"
  by (auto simp: sorted_wrt_map sorted_wrt_filter list_all_iff)

declare rows_below.simps [simp del]

lemma log_sound_mono: "log_sound ids urls l \<Longrightarrow> set ids \<subseteq> set ids' \<Longrightarrow> set urls \<subseteq> set urls' \<Longrightarrow> log_sound ids' urls' l"
  by (auto simp: log_sound_def split: option.splits)

lemma ids_updated: "(\<And>c. ig_id (f c) = ig_id c) \<Longrightarrow> map ig_id (iw_configs (update_configs i f w)) = map ig_id (iw_configs w)"
  by (simp add: update_configs_def)

lemma wf_update: "(\<And>c. ig_id (f c) = ig_id c) \<Longrightarrow> integrations_wf (update_configs i f w) = integrations_wf w"
  by (simp only: integrations_wf_def ids_updated) (simp add: update_configs_def)

lemma wf_clock: "integrations_wf (read_clock w) = integrations_wf w"
  by (simp add: integrations_wf_def read_clock_def)

lemma wf_insert: "integrations_wf w \<Longrightarrow> integrations_wf (insert_config row w)"
  using rows_below_snoc [of "db_seq (iw_app w) ''integration_configs''" "map ig_id (iw_configs w)"]
  by (auto simp: integrations_wf_def insert_config_def next_row_def next_key_def Let_def list_all_iff intro: log_sound_mono)

lemma unlink_id: "il_id (unlink i l) = il_id l"
  by (simp add: unlink_def)

lemma log_sound_unlink: "log_sound ids urls l \<Longrightarrow> log_sound (filter (\<lambda>j. j \<noteq> i) ids) urls (unlink i l)"
  by (cases "il_integration_id l") (simp_all add: log_sound_def unlink_def)

lemma wf_delete:
  assumes "integrations_wf w"
  shows "integrations_wf (delete_config i w)"
proof (cases "i \<in> set (map ig_id (iw_configs w))")
  case True
  have "map ig_id (filter (\<lambda>c. ig_id c \<noteq> i) (iw_configs w)) = filter (\<lambda>j. j \<noteq> i) (map ig_id (iw_configs w))"
    by (simp add: filter_map comp_def)
  moreover have "map il_id (map (unlink i) (iw_logs w)) = map il_id (iw_logs w)" by (simp add: unlink_id)
  ultimately show ?thesis using assms True rows_below_filter [where f = "\<lambda>j. j" and xs = "map ig_id (iw_configs w)"]
    by (simp add: integrations_wf_def delete_config_def list.pred_map comp_def unlink_id)
      (auto simp: list_all_iff log_sound_unlink)
qed (use assms in \<open>simp add: delete_config_def\<close>)

lemma wf_log:
  assumes "integrations_wf w" "integration_of i w = Some c"
  shows "integrations_wf (insert_test_log (test_log c response duration created) (read_clock (w\<lparr>iw_sent := iw_sent w @ [request_of h c]\<rparr>)))"
proof -
  have "ig_id c \<in> set (map ig_id (iw_configs w))" using assms(2) by (auto simp: integration_of_def find_Some_iff)
  then have "log_sound (map ig_id (iw_configs w)) (map tr_url (iw_sent w @ [request_of h c])) ((test_log c response duration created)\<lparr>il_id := n\<rparr>)" for n
    by (auto simp: log_sound_def test_log_def outcome_of_def is_success_def request_of_def split: sum.splits)
  then show ?thesis
    using assms(1) rows_below_snoc [of "db_seq (iw_app w) ''integration_logs''" "map il_id (iw_logs w)"]
    by (auto simp: integrations_wf_def insert_test_log_def next_row_def next_key_def read_clock_def Let_def list_all_iff intro: log_sound_mono)
qed

lemma wf_sent: "integrations_wf w \<Longrightarrow> integrations_wf (w\<lparr>iw_sent := iw_sent w @ [rq]\<rparr>)"
  by (auto simp: integrations_wf_def list_all_iff intro: log_sound_mono)

lemma tested_id: "ig_id (tested response created c) = ig_id c"
  by (simp add: tested_def tested_row_def)

lemma wf_test:
  assumes "integrations_wf w" "integration_test h i w = (r, w')"
  shows "integrations_wf w'"
  using test_world [OF assms(2)] assms(1)
  by (auto dest!: record_world simp: wf_update tested_id wf_clock wf_sent wf_log)

lemma integration_step: "integrations_wf w \<Longrightarrow> integrations_wf (run_integration_op h op w)"
proof (cases op)
  case (SaveIntegration payload)
  assume "integrations_wf w"
  moreover obtain r w' where "integration_save h payload w = (r, w')" by fastforce
  ultimately show ?thesis unfolding SaveIntegration
    by (auto simp: integration_save_def Let_def lift_def clock_app read_clock_def [symmetric] wf_clock ret_def
        wf_insert wf_update updated_integration_def split: option.splits elim!: bindcE dest!: connect_app iw_exec_cases)
next
  case (DeleteIntegration i)
  assume "integrations_wf w"
  moreover obtain r w' where "integration_delete h i w = (r, w')" by fastforce
  ultimately show ?thesis unfolding DeleteIntegration
    by (auto simp: integration_delete_def ret_def wf_delete elim!: bindcE dest!: connect_app iw_exec_cases)
next
  case (TestIntegration i)
  assume "integrations_wf w"
  then show ?thesis unfolding TestIntegration using wf_test [of w h i] by (cases "integration_test h i w") auto
qed (auto simp: integration_list_def integration_logs_def bindc_def on_console_def connect_def lift_def split: sum.splits)

text \<open>Along every sequence of the commands the keys of integrations and of logged tests grow and are never used twice; a logged test belongs to an integration that exists or to none; it stands for a request that was sent to its address, at most one row a request; and it counts as a success exactly when a status from 200 to 299 came back, and has an error text exactly when no status did.\<close>

theorem integration_tables_sound:
  assumes "integrations_wf w"
  shows "integrations_wf (fold (run_integration_op h) ops w)"
  using assms by (induction ops arbitrary: w) (simp_all add: integration_step)

end
