(* ===== verification/Spec2Isabelle.thy ===== *)
theory Spec2Isabelle
  imports License_Decision Realtime Cli Access_Props Tunnel Quic_Bridge Quic_Chain Http_Props Companies Licensing External_Db Integrations
begin

text \<open>
  \<^bold>\<open>Verification library of Tunnara.\<close>

  \<^bold>\<open>The program.\<close> Tunnara publishes applications behind NAT through tunnels. The repository holds,
  in Rust: the services of the tunnel (\<^verbatim>\<open>services\<close> over \<^verbatim>\<open>crates\<close>: coordinator, agent, relay, QUIC
  bridge), the console \<^verbatim>\<open>apps/console/src-tauri\<close> (a desktop program that is also an HTTP server with
  a web front, a webhook receiver and a WebSocket hub, over a SQLite database), and the licensing
  crate \<^verbatim>\<open>generic-license-tauri\<close> that the console asks whether it may run. Commands of the console
  are reached in two ways: from the window, or by HTTP through the internal API and the web front.

  \<^bold>\<open>Conventions.\<close> A Rust \<^verbatim>\<open>Result\<close> is a sum with \<open>Ok\<close> and \<open>Err\<close>, an \<^verbatim>\<open>Option\<close> an option, a
  struct a record, an enum a datatype, an integer of a fixed width a word (an \<^verbatim>\<open>i64\<close> that is only
  compared and stored is an \<open>int\<close> within its range), a string a list of bytes, written with the
  names \<open>u_aacute\<close> and so on for letters outside ASCII. Operations with effects take a state and return
  it; commands on the database have the type \<open>('a, 'w) cmd\<close>, with \<open>bindc\<close> for \<^verbatim>\<open>?\<close>: a failing step
  keeps what was done before it, as the program does, which uses no transactions. What is not in the
  repository (operating system, sockets, clock, files, HTTP, JSON text, hash functions, Argon2,
  Ed25519, TLS and QUIC, the database engine) is a field of a record of parameters (\<open>ext\<close>, \<open>rt_sys\<close>,
  \<open>net_sys\<close>, \<open>svc_sys\<close>, \<open>app_sys\<close>, \<open>host_sys\<close>, \<open>front_sys\<close>, \<open>command_sys\<close>), together with whether it fails; a
  theorem names what it needs of it.

  \<^bold>\<open>Shared theories.\<close>
  \<^item> \<open>Prelude\<close>: results and options, text functions of the standard library (trimming, splitting,
    replacing, number parsing and printing), bytes outside ASCII, hash maps as association lists with
    the locale \<open>kv_store\<close> (interpreted on hash maps here and on the WebSocket clients in \<open>Realtime\<close>).
  \<^item> \<open>Json_Value\<close>: JSON values and the lookups the program makes in them.
  \<^item> \<open>Console_Env\<close>, \<open>Console_Db\<close>: process environment, files and application context
    (\<^verbatim>\<open>app_state.rs\<close>), tables of \<^verbatim>\<open>migrations.rs\<close> as lists of rows, the monad of commands, and the
    locale \<open>session_guard\<close>: what a check before a command promises to the commands behind it
    (interpreted on the session check in \<open>Auth\<close> and on the master check in \<open>Access_Props\<close>).

  \<^bold>\<open>Licensing\<close> (\<^verbatim>\<open>generic-license-tauri/src\<close>).
  \<^item> \<open>License_Model\<close> (\<^verbatim>\<open>error.rs\<close>, \<^verbatim>\<open>models.rs\<close>), \<open>License_Env\<close> (surroundings), \<open>License_Device\<close>
    (\<^verbatim>\<open>device.rs\<close>), \<open>License_Registration\<close> (\<^verbatim>\<open>registration.rs\<close>), \<open>License_Client\<close> (\<^verbatim>\<open>client.rs\<close>; locale
    \<open>client_op\<close>, one interpretation per request), \<open>License_Cache\<close> (\<^verbatim>\<open>cache.rs\<close>), \<open>License_Service\<close>
    (\<^verbatim>\<open>service.rs\<close>, \<^verbatim>\<open>commands.rs\<close>), \<open>License_Instances\<close> (concrete surroundings for witnesses).
  \<^item> \<open>License_Decision\<close>: where a positive decision can come from, the legacy evaluation against a
    decision table, the age of the offline cache. The function \<open>evaluate_legacy\<close> calls itself after a
    registration; it is given fuel. Three rounds are enough with a server whose registrations take
    effect (\<open>legacy_terminates\<close>); against one that acknowledges and changes nothing no amount is
    (\<open>legacy_diverges\<close>).

  \<^bold>\<open>Settings and services of the console\<close> (\<^verbatim>\<open>apps/console/src-tauri/src\<close>).
  \<^item> \<open>Runtime_Config\<close> (\<^verbatim>\<open>runtime_config.rs\<close>): the settings, defaults, \<^verbatim>\<open>.env\<close> file, normalisation, port
    plan, loading and saving; \<open>Runtime_Props\<close>, \<open>Runtime_Save\<close>: normal form, round trips through file
    and table, conflicts of ports.
  \<^item> \<open>Service_Config\<close> (\<^verbatim>\<open>config.rs\<close> of the three services), \<open>Net_Bind\<close> (\<^verbatim>\<open>net_bind.rs\<close>; ten attempts
    on a port in use, as in the code), \<open>Service_Runtime\<close> (\<^verbatim>\<open>server.rs\<close> of webhook and WebSocket): start,
    adoption, loopback mirror, stop; every live thread belongs to the handle in the slot.
  \<^item> \<open>Realtime\<close> (\<^verbatim>\<open>native_webhook/routes.rs\<close>, \<^verbatim>\<open>native_websocket/hub.rs\<close>): the bounded store of
    deliveries, the token, the registry of clients and its broadcasts.
  \<^item> \<open>App_Log\<close> (\<^verbatim>\<open>db.rs\<close>), \<open>Security\<close> (\<^verbatim>\<open>security.rs\<close>), \<open>Cli\<close> (\<^verbatim>\<open>cli\<close>).

  \<^bold>\<open>Users and master data.\<close>
  \<^item> \<open>Auth\<close> (\<^verbatim>\<open>commands/auth.rs\<close>), \<open>Access\<close> (\<^verbatim>\<open>commands/access.rs\<close>), \<open>Access_Props\<close>: who may change users
    and profiles, the invariant of their tables along sequences of commands, what they do not prevent.
  \<^item> \<open>Db_Provider\<close> (\<^verbatim>\<open>core/database\<close>), \<open>Entities\<close> (\<^verbatim>\<open>commands/entities.rs\<close>): these commands build the
    text of their statements, so the model keeps the text, and the engine that runs it is a parameter.
    Whatever comes from outside travels as a parameter of a statement out of a fixed list, with as
    many placeholders as parameters (locale \<open>placeholder_style\<close>, interpreted for every provider and for
    the local connection).
  \<^item> \<open>External_Db\<close> (the rest of \<^verbatim>\<open>core/database\<close>): MySQL and PostgreSQL, built in with their features, as
    providers over the crates that talk to the servers (\<open>external_provider\<close> is what \<open>ho_external\<close> stands
    for), their schemas, health, migration and connection over all drivers. The types PostgreSQL accepts
    for a parameter are the hypothesis \<open>checks_types\<close>.
  \<^item> \<open>Companies\<close> (\<^verbatim>\<open>commands/companies.rs\<close>): the checks of a company before it is stored, and the
    lookup of its number at two public services with limit per minute, pause and cache.
  \<^item> \<open>Migrations\<close> (\<^verbatim>\<open>migrations.rs\<close>): the schema, the columns added to older databases, the rows
    normalised and seeded at each start; what a start restores, when it fails, and that it lets
    nobody in.
  \<^item> \<open>Support\<close> (\<^verbatim>\<open>commands/support.rs\<close>): the factors behind administrative access, how long it lasts,
    and what a rotation does to them. \<open>Licensing\<close> (\<^verbatim>\<open>commands/licensing.rs\<close>): the settings behind that
    access, the local trial, and the check that calls \<open>check\<close> of \<open>License_Service\<close>, with its fuel.
  \<^item> \<open>Integrations\<close> (\<^verbatim>\<open>commands/integrations.rs\<close>): the two tables of integrations, the request that tests
    one, what it says in the log and where the stored token goes.

  \<^bold>\<open>The HTTP servers.\<close>
  \<^item> \<open>Http_Runtime\<close> (\<^verbatim>\<open>internal_api/server.rs\<close>, life cycle of \<^verbatim>\<open>internal_api/web_server.rs\<close>): twelve probes
    look for another instance on the port of the web front, as in the code.
  \<^item> \<open>Http_Commands\<close> (\<^verbatim>\<open>internal_api/app_commands.rs\<close>): \<open>execute_command\<close> looks the handler up by its name.
  \<^item> \<open>Web_App\<close> (\<^verbatim>\<open>internal_api/web_app.rs\<close>), \<open>Http_Front\<close> (\<^verbatim>\<open>routes.rs\<close>, \<^verbatim>\<open>docs.rs\<close>, requests of
    \<^verbatim>\<open>web_server.rs\<close>): routes, token, proxy, files; \<open>Http_Props\<close>: what the token protects and how it is
    passed by, log-in over HTTP against the one of the desktop, quoting of names, saved records.

  \<^bold>\<open>The tunnel.\<close>
  \<^item> \<open>Tunnel\<close> (\<^verbatim>\<open>crates/tunnara-types\<close>, \<^verbatim>\<open>tunnara-protocol\<close>, \<^verbatim>\<open>tunnara-agent-core\<close>, \<^verbatim>\<open>tunnara-sdk-c\<close>,
    \<^verbatim>\<open>services/coordinator\<close>, \<^verbatim>\<open>agent\<close>, \<^verbatim>\<open>relay\<close>): registry, control channel, tunnel table, handshake.
  \<^item> \<open>Quic_Bridge\<close> (\<^verbatim>\<open>services/quic-bridge\<close>, \<^verbatim>\<open>crates/tunnara-quic\<close>): connecting, the loops of client
    and server, the tasks they start; the loop that reconnects is a \<open>partial_function\<close>, so that
    not returning is a value, and it returns exactly when some attempt succeeds.
  \<^item> \<open>Quic_Proxy\<close> (\<open>proxy_tcp_to_quic\<close> and \<open>proxy_quic_to_tcp\<close> of the same file): the copying of both
    directions as a step relation with every interleaving, through buffers of arbitrary sizes, between
    two arbitrary programs. The abstraction \<open>direct_of\<close> forgets the proxy: what is left is a connection
    of their own, which the proxy refines, and it gets stuck nowhere else. \<open>Quic_Chain\<close>: the same for both
    processes in a row, where a stream is accepted once it is used.

  \<^bold>\<open>Not modelled.\<close> Rendering, the tray and the set-up of the window (\<^verbatim>\<open>lib.rs\<close>, \<^verbatim>\<open>main.rs\<close>) call the
  toolkit and keep no state of their own. The schema is kept as names, types and rules of columns;
  the rules are enforced where rows are written, and the tables that no command reads have no rows.
  The edge answers a constant, \<^verbatim>\<open>tunnara-config\<close> reads two variables and
  \<^verbatim>\<open>tunnara-transport\<close> is a trait without an implementation. Operations of the services run one
  after the other, and their threads do not end by themselves. The limit on bodies (413) of the
  HTTP library comes before the handlers and is left out. The sequences of \<open>Access_Props\<close> hold log-ins
  and the commands of \<^verbatim>\<open>commands/access.rs\<close>; the generic commands that also write \<^verbatim>\<open>usuarios\<close> are in
  \<open>Entities\<close> and \<open>Http_Commands\<close>. The bytes a proxy has written are those handed to the sink: \<^verbatim>\<open>finish\<close>
  does not wait until the other side has them.
\<close>

end
